(* ===== verification/Prelude.thy ===== *)
theory Prelude
  imports Main "HOL-Library.Word" "HOL-Library.Sublist"
begin

text \<open>
  Shared vocabulary of the development: the machine types of the C sources on an LP64
  platform, the outcome of a C computation (a value, a failed \<^verbatim>\<open>assert\<close>, or an access
  outside a memory block), raw accesses to a block, the weakest-precondition predicate in
  which the component proofs are carried out, and generic list and word lemmas.
\<close>

unbundle bit_operations_syntax

section \<open>Machine types\<close>

type_synonym byte = "8 word"
type_synonym u16 = "16 word"
type_synonym u32 = "32 word"
type_synonym u64 = "64 word"
type_synonym size_t = "64 word"
type_synonym CK_ULONG = "64 word"
type_synonym CK_RV = "64 word"

text \<open>A block of C memory; a pointer to it is \<^term>\<open>Some\<close>, the null pointer \<^term>\<open>None\<close>.\<close>

type_synonym block = "byte list"

named_theorems wp_rules \<open>weakest-precondition rules of the operations\<close>

section \<open>Outcomes\<close>

text \<open>
  A C computation returns, or stops the process in a failed \<^verbatim>\<open>assert\<close>, or touches memory
  outside of the block it was given (undefined behaviour in C), or stays in a loop forever.
\<close>

datatype 'a outcome = Ret 'a | Abort | Fault | Hang

fun obind :: "'a outcome \<Rightarrow> ('a \<Rightarrow> 'b outcome) \<Rightarrow> 'b outcome" where
  "obind (Ret x) f = f x"
| "obind Abort f = Abort"
| "obind Fault f = Fault"
| "obind Hang f = Hang"

definition assert_c :: "bool \<Rightarrow> 'a outcome \<Rightarrow> 'a outcome" where
  "assert_c p k = (if p then k else Abort)"

lemma assert_c_simps [simp]:
  "assert_c True k = k"
  "assert_c False k = Abort"
  by (simp_all add: assert_c_def)

lemma obind_eq_Ret: "obind m f = Ret y \<longleftrightarrow> (\<exists>x. m = Ret x \<and> f x = Ret y)"
  by (cases m) auto

lemma obind_assoc: "obind (obind m f) g = obind m (\<lambda>x. obind (f x) g)"
  by (cases m) auto

lemma obind_cong [fundef_cong]:
  assumes "m = m'" and "\<And>x. m' = Ret x \<Longrightarrow> f x = f' x"
  shows "obind m f = obind m' f'"
  using assms by (cases m) auto

text \<open>Total correctness: the computation returns and its result satisfies \<open>Q\<close>.\<close>

fun wp :: "'a outcome \<Rightarrow> ('a \<Rightarrow> bool) \<Rightarrow> bool" where
  "wp (Ret x) Q = Q x"
| "wp Abort Q = False"
| "wp Fault Q = False"
| "wp Hang Q = False"

lemma wp_iff: "wp m Q \<longleftrightarrow> (\<exists>x. m = Ret x \<and> Q x)"
  by (cases m) auto

lemma wp_obind [simp]: "wp (obind m f) Q \<longleftrightarrow> wp m (\<lambda>x. wp (f x) Q)"
  by (cases m) auto

lemma wp_assert_c [simp]: "wp (assert_c p k) Q \<longleftrightarrow> p \<and> wp k Q"
  by (simp add: assert_c_def)

lemma wp_mono: "wp m P \<Longrightarrow> (\<And>x. P x \<Longrightarrow> Q x) \<Longrightarrow> wp m Q"
  by (cases m) auto

lemma wp_RetE:
  assumes "wp m Q"
  obtains x where "m = Ret x" and "Q x"
  using assms by (auto simp: wp_iff)

text \<open>The same, but a failed assertion is let pass: no memory error and no endless loop.\<close>

fun wp_abort :: "'a outcome \<Rightarrow> ('a \<Rightarrow> bool) \<Rightarrow> bool" where
  "wp_abort (Ret x) Q = Q x"
| "wp_abort Abort Q = True"
| "wp_abort Fault Q = False"
| "wp_abort Hang Q = False"

lemma wp_abort_obind [simp]:
  "wp_abort (obind m f) Q \<longleftrightarrow> wp_abort m (\<lambda>x. wp_abort (f x) Q)"
  by (cases m) auto

lemma wp_imp_abort: "wp m P \<Longrightarrow> (\<And>x. P x \<Longrightarrow> Q x) \<Longrightarrow> wp_abort m Q"
  by (cases m) auto

lemma wp_abort_mono: "wp_abort m P \<Longrightarrow> (\<And>x. P x \<Longrightarrow> Q x) \<Longrightarrow> wp_abort m Q"
  by (cases m) auto

section \<open>Raw memory\<close>

fun mem_read :: "block option \<Rightarrow> nat \<Rightarrow> nat \<Rightarrow> block outcome" where
  "mem_read None off n = (if n = 0 then Ret [] else Fault)"
| "mem_read (Some m) off n =
     (if off + n \<le> length m then Ret (take n (drop off m)) else Fault)"

fun mem_write :: "block option \<Rightarrow> nat \<Rightarrow> block \<Rightarrow> block option outcome" where
  "mem_write None off xs = (if xs = [] then Ret None else Fault)"
| "mem_write (Some m) off xs =
     (if off + length xs \<le> length m
      then Ret (Some (take off m @ xs @ drop (off + length xs) m)) else Fault)"

definition cells :: "block option \<Rightarrow> block" where
  "cells p = (case p of None \<Rightarrow> [] | Some m \<Rightarrow> m)"

lemma cells_simps [simp]: "cells None = []" "cells (Some m) = m"
  by (simp_all add: cells_def)

lemma mem_read_cells:
  "off + n \<le> length (cells p) \<Longrightarrow> mem_read p off n = Ret (take n (drop off (cells p)))"
  by (cases p) auto

lemma mem_write_cells:
  "off + length xs \<le> length (cells p) \<Longrightarrow>
   mem_write p off xs =
     Ret (map_option (\<lambda>m. take off m @ xs @ drop (off + length xs) m) p)"
  by (cases p) auto

lemma mem_write_length:
  "mem_write p off xs = Ret q \<Longrightarrow> length (cells q) = length (cells p)"
  by (cases p) (auto split: if_splits)

lemma mem_read_length: "mem_read p off n = Ret xs \<Longrightarrow> length xs = n"
  by (cases p) (auto split: if_splits)

section \<open>Lists and words\<close>

lemma take_append_upd [simp]:
  "length xs = n \<Longrightarrow> take n (xs @ ys) = xs"
  by simp

lemma length_4_conv: "length xs = 4 \<longleftrightarrow> (\<exists>a b c d. xs = [a, b, c, d])"
  by (auto simp: numeral_eq_Suc length_Suc_conv)

lemma length_2_conv: "length xs = 2 \<longleftrightarrow> (\<exists>a b. xs = [a, b])"
  by (auto simp: numeral_eq_Suc length_Suc_conv)

lemma unat_add_small:
  fixes a b :: "64 word"
  assumes "unat a + unat b < 2 ^ 64"
  shows "unat (a + b) = unat a + unat b"
  using assms by (simp add: unat_word_ariths)

lemma unat_of_nat_small:
  "n < 2 ^ 64 \<Longrightarrow> unat (of_nat n :: 64 word) = n"
  by (simp add: unat_of_nat)

lemma of_nat_unat_add:
  fixes a :: "64 word"
  assumes "unat a + n < 2 ^ 64"
  shows "unat (a + of_nat n) = unat a + n"
  using assms by (simp add: unat_word_ariths unat_of_nat)

end
