(* ===== verification/Egg_Buffer.thy ===== *)
theory Egg_Buffer
  imports Prelude
begin

text \<open>
  The growable byte buffer of \<^verbatim>\<open>egg-buffer.c\<close>: the record \<open>EggBuffer\<close>, one definition per
  function in the order of the source, the invariant \<open>egg_wf\<close>, and the lemmas that every
  operation keeps it, stays inside its memory block and appends or reads exactly the bytes
  of its encoding.
\<close>

section \<open>Allocators and buffers\<close>

text \<open>
  An \<^verbatim>\<open>EggBufferAllocator\<close> is a function pointer with the interface of \<^verbatim>\<open>realloc\<close>. It has an
  address, by which \<^verbatim>\<open>egg_buffer_set_allocator\<close> compares allocators, and a behaviour: from an
  old block (or null) and a size to the new block, or null when memory is refused.
\<close>

record EggBufferAllocator =
  alloc_addr :: nat
  alloc_run :: "block option \<Rightarrow> size_t \<Rightarrow> block option"

record EggBuffer =
  buf :: "block option"
  len :: size_t
  allocated_len :: size_t
  failures :: nat
  allocator :: "EggBufferAllocator option"

definition EGG_BUFFER_EMPTY :: EggBuffer where
  "EGG_BUFFER_EMPTY =
     \<lparr>buf = None, len = 0, allocated_len = 0, failures = 0, allocator = None\<rparr>"

definition egg_buffer_has_error :: "EggBuffer \<Rightarrow> bool" where
  "egg_buffer_has_error b = (failures b > 0)"

definition add_failure :: "EggBuffer \<Rightarrow> EggBuffer" where
  "add_failure b = b\<lparr>failures := Suc (failures b)\<rparr>"

text \<open>\<open>DEFAULT_ALLOCATOR\<close> is the C library's \<^verbatim>\<open>realloc\<close>; it is the argument \<open>dflt\<close> here.\<close>

definition or_default ::
  "EggBufferAllocator \<Rightarrow> EggBufferAllocator option \<Rightarrow> EggBufferAllocator" where
  "or_default dflt a = (case a of None \<Rightarrow> dflt | Some x \<Rightarrow> x)"

section \<open>Construction\<close>

definition egg_buffer_init_full ::
  "EggBufferAllocator \<Rightarrow> size_t \<Rightarrow> EggBufferAllocator option \<Rightarrow> bool \<times> EggBuffer" where
  "egg_buffer_init_full dflt reserve a =
     (let a = or_default dflt a;
          reserve = (if reserve = 0 then 64 else reserve) in
      case alloc_run a None reserve of
        None \<Rightarrow> (False, add_failure EGG_BUFFER_EMPTY)
      | Some m \<Rightarrow>
          (True, \<lparr>buf = Some m, len = 0, allocated_len = reserve, failures = 0,
                  allocator = Some a\<rparr>))"

definition egg_buffer_init :: "EggBufferAllocator \<Rightarrow> size_t \<Rightarrow> bool \<times> EggBuffer" where
  "egg_buffer_init dflt reserve = egg_buffer_init_full dflt reserve None"

definition egg_buffer_init_static :: "block option \<Rightarrow> size_t \<Rightarrow> EggBuffer" where
  "egg_buffer_init_static p n =
     \<lparr>buf = p, len = n, allocated_len = n, failures = 0, allocator = None\<rparr>"

definition egg_buffer_init_allocated ::
  "EggBufferAllocator \<Rightarrow> block option \<Rightarrow> size_t \<Rightarrow> EggBufferAllocator option \<Rightarrow> EggBuffer"
where
  "egg_buffer_init_allocated dflt p n a =
     \<lparr>buf = p, len = n, allocated_len = n, failures = 0,
      allocator = Some (or_default dflt a)\<rparr>"

definition egg_buffer_reset :: "EggBuffer \<Rightarrow> EggBuffer outcome" where
  "egg_buffer_reset b =
     obind (mem_write (buf b) 0 (replicate (unat (allocated_len b)) 0)) (\<lambda>p.
     Ret (b\<lparr>buf := p, len := 0, failures := 0\<rparr>))"

text \<open>The release of the old block is not tracked; the cleared buffer is.\<close>

definition egg_buffer_uninit :: "EggBuffer \<Rightarrow> EggBuffer" where
  "egg_buffer_uninit b = EGG_BUFFER_EMPTY"

definition egg_buffer_set_allocator ::
  "EggBufferAllocator \<Rightarrow> EggBuffer \<Rightarrow> EggBufferAllocator option \<Rightarrow> (bool \<times> EggBuffer) outcome"
where
  "egg_buffer_set_allocator dflt b a =
     (let a = or_default dflt a in
      if map_option alloc_addr (allocator b) = Some (alloc_addr a) then Ret (True, b)
      else if allocated_len b \<noteq> 0 then
        (case alloc_run a None (allocated_len b) of
           None \<Rightarrow> Ret (False, b)
         | Some m \<Rightarrow>
             obind (mem_read (buf b) 0 (unat (allocated_len b))) (\<lambda>old.
             obind (mem_write (Some m) 0 old) (\<lambda>p.
             Ret (True, b\<lparr>buf := p, allocator := Some a\<rparr>))))
      else Ret (True, b\<lparr>buf := None, allocator := Some a\<rparr>))"

definition egg_buffer_equal :: "EggBuffer \<Rightarrow> EggBuffer \<Rightarrow> bool outcome" where
  "egg_buffer_equal b1 b2 =
     (if len b1 \<noteq> len b2 then Ret False
      else obind (mem_read (buf b1) 0 (unat (len b1))) (\<lambda>x.
           obind (mem_read (buf b2) 0 (unat (len b1))) (\<lambda>y. Ret (x = y))))"

section \<open>Growing\<close>

definition egg_buffer_reserve :: "EggBuffer \<Rightarrow> size_t \<Rightarrow> bool \<times> EggBuffer" where
  "egg_buffer_reserve b n =
     (if n < allocated_len b then (True, b)
      else
        let newlen = allocated_len b * 2;
            newlen = (if n > newlen then newlen + n else newlen) in
        case allocator b of
          None \<Rightarrow> (False, add_failure b)
        | Some a \<Rightarrow>
            (case alloc_run a (buf b) newlen of
               None \<Rightarrow> (False, add_failure b)
             | Some newbuf \<Rightarrow> (True, b\<lparr>buf := Some newbuf, allocated_len := newlen\<rparr>)))"

definition egg_buffer_resize :: "EggBuffer \<Rightarrow> size_t \<Rightarrow> bool \<times> EggBuffer" where
  "egg_buffer_resize b n =
     (case egg_buffer_reserve b n of
        (False, b) \<Rightarrow> (False, b)
      | (True, b) \<Rightarrow> (True, b\<lparr>len := n\<rparr>))"

text \<open>The pointer returned is the position \<open>pos\<close> inside the block; null is \<open>None\<close>.\<close>

definition egg_buffer_add_empty :: "EggBuffer \<Rightarrow> size_t \<Rightarrow> size_t option \<times> EggBuffer" where
  "egg_buffer_add_empty b n =
     (let pos = len b in
      case egg_buffer_reserve b (len b + n) of
        (False, b) \<Rightarrow> (None, b)
      | (True, b) \<Rightarrow> (Some pos, b\<lparr>len := len b + n\<rparr>))"

definition egg_buffer_append ::
  "EggBuffer \<Rightarrow> block option \<Rightarrow> size_t \<Rightarrow> (bool \<times> EggBuffer) outcome" where
  "egg_buffer_append b val n =
     (case egg_buffer_reserve b (len b + n) of
        (False, b) \<Rightarrow> Ret (False, b)
      | (True, b) \<Rightarrow>
          obind (mem_read val 0 (unat n)) (\<lambda>xs.
          obind (mem_write (buf b) (unat (len b)) xs) (\<lambda>p.
          Ret (True, b\<lparr>buf := p, len := len b + n\<rparr>))))"

section \<open>Bytes and integers\<close>

definition egg_buffer_add_byte :: "EggBuffer \<Rightarrow> byte \<Rightarrow> (bool \<times> EggBuffer) outcome" where
  "egg_buffer_add_byte b val =
     (case egg_buffer_reserve b (len b + 1) of
        (False, b) \<Rightarrow> Ret (False, b)
      | (True, b) \<Rightarrow>
          obind (mem_write (buf b) (unat (len b)) [val]) (\<lambda>p.
          Ret (True, b\<lparr>buf := p, len := len b + 1\<rparr>)))"

text \<open>
  The readers return the next offset with the value, or \<open>None\<close> where the C function
  returns 0 and leaves its out-parameters alone.
\<close>

definition egg_buffer_get_byte ::
  "EggBuffer \<Rightarrow> size_t \<Rightarrow> ((size_t \<times> byte) option \<times> EggBuffer) outcome" where
  "egg_buffer_get_byte b off =
     (if len b < 1 \<or> off > len b - 1 then Ret (None, add_failure b)
      else obind (mem_read (buf b) (unat off) 1) (\<lambda>xs. Ret (Some (off + 1, hd xs), b)))"

definition egg_buffer_encode_uint16 :: "u16 \<Rightarrow> block" where
  "egg_buffer_encode_uint16 val = [ucast (drop_bit 8 val AND 0xff), ucast (val AND 0xff)]"

definition egg_buffer_decode_uint16 :: "block \<Rightarrow> u16" where
  "egg_buffer_decode_uint16 p = push_bit 8 (ucast (p ! 0)) OR ucast (p ! 1)"

definition egg_buffer_set_uint16 ::
  "EggBuffer \<Rightarrow> size_t \<Rightarrow> u16 \<Rightarrow> (bool \<times> EggBuffer) outcome" where
  "egg_buffer_set_uint16 b off val =
     (if len b < 2 \<or> off > len b - 2 then Ret (False, add_failure b)
      else obind (mem_write (buf b) (unat off) (egg_buffer_encode_uint16 val)) (\<lambda>p.
           Ret (True, b\<lparr>buf := p\<rparr>)))"

definition egg_buffer_add_uint16 :: "EggBuffer \<Rightarrow> u16 \<Rightarrow> (bool \<times> EggBuffer) outcome" where
  "egg_buffer_add_uint16 b val =
     (case egg_buffer_reserve b (len b + 2) of
        (False, b) \<Rightarrow> Ret (False, b)
      | (True, b) \<Rightarrow>
          (let b = b\<lparr>len := len b + 2\<rparr> in
           obind (egg_buffer_set_uint16 b (len b - 2) val) (\<lambda>(_, b). Ret (True, b))))"

definition egg_buffer_get_uint16 ::
  "EggBuffer \<Rightarrow> size_t \<Rightarrow> ((size_t \<times> u16) option \<times> EggBuffer) outcome" where
  "egg_buffer_get_uint16 b off =
     (if len b < 2 \<or> off > len b - 2 then Ret (None, add_failure b)
      else obind (mem_read (buf b) (unat off) 2) (\<lambda>xs.
           Ret (Some (off + 2, egg_buffer_decode_uint16 xs), b)))"

definition egg_buffer_encode_uint32 :: "u32 \<Rightarrow> block" where
  "egg_buffer_encode_uint32 val =
     [ucast (drop_bit 24 val AND 0xff), ucast (drop_bit 16 val AND 0xff),
      ucast (drop_bit 8 val AND 0xff), ucast (val AND 0xff)]"

definition egg_buffer_decode_uint32 :: "block \<Rightarrow> u32" where
  "egg_buffer_decode_uint32 p =
     push_bit 24 (ucast (p ! 0)) OR push_bit 16 (ucast (p ! 1)) OR
     push_bit 8 (ucast (p ! 2)) OR ucast (p ! 3)"

definition egg_buffer_set_uint32 ::
  "EggBuffer \<Rightarrow> size_t \<Rightarrow> u32 \<Rightarrow> (bool \<times> EggBuffer) outcome" where
  "egg_buffer_set_uint32 b off val =
     (if len b < 4 \<or> off > len b - 4 then Ret (False, add_failure b)
      else obind (mem_write (buf b) (unat off) (egg_buffer_encode_uint32 val)) (\<lambda>p.
           Ret (True, b\<lparr>buf := p\<rparr>)))"

definition egg_buffer_add_uint32 :: "EggBuffer \<Rightarrow> u32 \<Rightarrow> (bool \<times> EggBuffer) outcome" where
  "egg_buffer_add_uint32 b val =
     (case egg_buffer_reserve b (len b + 4) of
        (False, b) \<Rightarrow> Ret (False, b)
      | (True, b) \<Rightarrow>
          (let b = b\<lparr>len := len b + 4\<rparr> in
           obind (egg_buffer_set_uint32 b (len b - 4) val) (\<lambda>(_, b). Ret (True, b))))"

definition egg_buffer_get_uint32 ::
  "EggBuffer \<Rightarrow> size_t \<Rightarrow> ((size_t \<times> u32) option \<times> EggBuffer) outcome" where
  "egg_buffer_get_uint32 b off =
     (if len b < 4 \<or> off > len b - 4 then Ret (None, add_failure b)
      else obind (mem_read (buf b) (unat off) 4) (\<lambda>xs.
           Ret (Some (off + 4, egg_buffer_decode_uint32 xs), b)))"

definition egg_buffer_add_uint64 :: "EggBuffer \<Rightarrow> u64 \<Rightarrow> (bool \<times> EggBuffer) outcome" where
  "egg_buffer_add_uint64 b val =
     obind (egg_buffer_add_uint32 b (ucast (drop_bit 32 val AND 0xffffffff))) (\<lambda>(ok, b).
     if \<not> ok then Ret (False, b)
     else egg_buffer_add_uint32 b (ucast (val AND 0xffffffff)))"

definition egg_buffer_get_uint64 ::
  "EggBuffer \<Rightarrow> size_t \<Rightarrow> ((size_t \<times> u64) option \<times> EggBuffer) outcome" where
  "egg_buffer_get_uint64 b off =
     obind (egg_buffer_get_uint32 b off) (\<lambda>(r, b).
     case r of
       None \<Rightarrow> Ret (None, b)
     | Some (off, x) \<Rightarrow>
         obind (egg_buffer_get_uint32 b off) (\<lambda>(r, b).
         case r of
           None \<Rightarrow> Ret (None, b)
         | Some (off, y) \<Rightarrow> Ret (Some (off, push_bit 32 (ucast x) OR ucast y), b)))"

section \<open>Byte arrays\<close>

definition egg_buffer_add_byte_array ::
  "EggBuffer \<Rightarrow> block option \<Rightarrow> size_t \<Rightarrow> (bool \<times> EggBuffer) outcome" where
  "egg_buffer_add_byte_array b val n =
     (if val = None then egg_buffer_add_uint32 b 0xffffffff
      else if n \<ge> 0x7fffffff then Ret (False, add_failure b)
      else obind (egg_buffer_add_uint32 b (ucast n)) (\<lambda>(ok, b).
           if \<not> ok then Ret (False, b) else egg_buffer_append b val n))"

definition egg_buffer_add_byte_array_empty ::
  "EggBuffer \<Rightarrow> size_t \<Rightarrow> (size_t option \<times> EggBuffer) outcome" where
  "egg_buffer_add_byte_array_empty b vlen =
     (if vlen \<ge> 0x7fffffff then Ret (None, add_failure b)
      else obind (egg_buffer_add_uint32 b (ucast vlen)) (\<lambda>(ok, b).
           if \<not> ok then Ret (None, b) else Ret (egg_buffer_add_empty b vlen)))"

text \<open>
  The value is the pointer into the buffer, given as the bytes it points to, with the
  length; null with length 0 for the marker \<open>0xffffffff\<close>.
\<close>

definition egg_buffer_get_byte_array ::
  "EggBuffer \<Rightarrow> size_t \<Rightarrow>
   ((size_t \<times> block option \<times> size_t) option \<times> EggBuffer) outcome" where
  "egg_buffer_get_byte_array b off =
     obind (egg_buffer_get_uint32 b off) (\<lambda>(r, b).
     case r of
       None \<Rightarrow> Ret (None, b)
     | Some (off, n) \<Rightarrow>
         if n = 0xffffffff then Ret (Some (off, None, 0), b)
         else if n \<ge> 0x7fffffff then Ret (None, add_failure b)
         else if len b < ucast n \<or> off > len b - ucast n then Ret (None, add_failure b)
         else obind (mem_read (buf b) (unat off) (unat n)) (\<lambda>xs.
              Ret (Some (off + ucast n, Some xs, ucast n), b)))"

section \<open>Strings\<close>

text \<open>A C string is given by its bytes before the terminating zero.\<close>

definition egg_buffer_add_string ::
  "EggBuffer \<Rightarrow> block option \<Rightarrow> (bool \<times> EggBuffer) outcome" where
  "egg_buffer_add_string b str =
     (case str of
        None \<Rightarrow> egg_buffer_add_uint32 b 0xffffffff
      | Some s \<Rightarrow>
          if length s \<ge> 0x7fffffff then Ret (False, b)
          else obind (egg_buffer_add_uint32 b (of_nat (length s))) (\<lambda>(ok, b).
               if \<not> ok then Ret (False, b)
               else egg_buffer_append b (Some s) (of_nat (length s))))"

text \<open>
  The result is the next offset and the string returned through \<open>str_ret\<close>: null, or a
  fresh block that holds the bytes and a terminating zero.
\<close>

definition egg_buffer_get_string ::
  "EggBufferAllocator \<Rightarrow> EggBuffer \<Rightarrow> size_t \<Rightarrow> EggBufferAllocator option \<Rightarrow>
   ((size_t \<times> block option) option \<times> EggBuffer) outcome" where
  "egg_buffer_get_string dflt b off a =
     (let a = (case a of Some x \<Rightarrow> x | None \<Rightarrow> or_default dflt (allocator b)) in
      obind (egg_buffer_get_uint32 b off) (\<lambda>(r, b).
      case r of
        None \<Rightarrow> Ret (None, b)
      | Some (off, n) \<Rightarrow>
          if n = 0xffffffff then Ret (Some (off, None), b)
          else if n \<ge> 0x7fffffff then Ret (None, b)
          else if len b < ucast n \<or> off > len b - ucast n then Ret (None, b)
          else obind (mem_read (buf b) (unat off) (unat n)) (\<lambda>xs.
               if 0 \<in> set xs then Ret (None, b)
               else (case alloc_run a None (ucast n + 1) of
                       None \<Rightarrow> Ret (None, b)
                     | Some m \<Rightarrow>
                         obind (mem_write (Some m) 0 xs) (\<lambda>p.
                         obind (mem_write p (unat n) [0]) (\<lambda>p.
                         Ret (Some (off + ucast n, p), b)))))))"

text \<open>A null-terminated vector of strings is the list of its strings.\<close>

fun add_strings :: "EggBuffer \<Rightarrow> block list \<Rightarrow> (bool \<times> EggBuffer) outcome" where
  "add_strings b [] = Ret (True, b)"
| "add_strings b (v # vs) =
     obind (egg_buffer_add_string b (Some v)) (\<lambda>(ok, b).
     if \<not> ok then Ret (False, b) else add_strings b vs)"

definition egg_buffer_add_stringv ::
  "EggBuffer \<Rightarrow> block list option \<Rightarrow> (bool \<times> EggBuffer) outcome" where
  "egg_buffer_add_stringv b strv =
     (case strv of
        None \<Rightarrow> Ret (False, b)
      | Some vs \<Rightarrow>
          obind (egg_buffer_add_uint32 b (of_nat (length vs))) (\<lambda>(ok, b).
          if \<not> ok then Ret (False, b) else add_strings b vs))"

text \<open>
  \<open>slots\<close> is the number of pointers in the allocated vector; the loop stores the \<open>i\<close>-th
  string in slot \<open>i\<close>, and a store beyond the vector is a memory fault. \<open>k\<close> counts the
  strings still to be read.
\<close>

fun get_strings ::
  "EggBufferAllocator \<Rightarrow> EggBuffer \<Rightarrow> size_t \<Rightarrow> EggBufferAllocator option \<Rightarrow> nat \<Rightarrow> nat \<Rightarrow> nat \<Rightarrow>
   ((size_t \<times> block option list) option \<times> EggBuffer) outcome" where
  "get_strings dflt b off a slots i 0 = Ret (Some (off, []), b)"
| "get_strings dflt b off a slots i (Suc k) =
     obind (egg_buffer_get_string dflt b off a) (\<lambda>(r, b).
     case r of
       None \<Rightarrow> Ret (None, b)
     | Some (off, s) \<Rightarrow>
         if i \<ge> slots then Fault
         else obind (get_strings dflt b off a slots (Suc i) k) (\<lambda>(r, b).
              Ret (map_option (\<lambda>(off, ss). (off, s # ss)) r, b)))"

definition egg_buffer_get_stringv ::
  "EggBufferAllocator \<Rightarrow> EggBuffer \<Rightarrow> size_t \<Rightarrow> EggBufferAllocator option \<Rightarrow>
   ((size_t \<times> block option list) option \<times> EggBuffer) outcome" where
  "egg_buffer_get_stringv dflt b off a =
     (let a = (case a of Some x \<Rightarrow> x | None \<Rightarrow> or_default dflt (allocator b)) in
      obind (egg_buffer_get_uint32 b off) (\<lambda>(r, b).
      case r of
        None \<Rightarrow> Ret (None, b)
      | Some (off, n) \<Rightarrow>
          (let bytes = ucast (n + 1) * 8 in
           case alloc_run a None bytes of
             None \<Rightarrow> Ret (None, b)
           | Some _ \<Rightarrow>
               get_strings dflt b off (Some a) (unat (n + 1)) 0 (unat n))))"

section \<open>The allocator contract and the buffer invariant\<close>

text \<open>
  What the buffer relies on in its allocator, as documented for \<^verbatim>\<open>realloc\<close>: a block that is
  granted has the size asked for, no object is larger than \<open>PTRDIFF_MAX\<close>, and the old
  bytes are kept up to the smaller of the two sizes.
\<close>

locale egg_allocator =
  fixes run :: "block option \<Rightarrow> size_t \<Rightarrow> block option"
  assumes run_size: "run p n = Some m \<Longrightarrow> length m = unat n"
    and run_bound: "run p n = Some m \<Longrightarrow> unat n < 2 ^ 63"
    and run_keeps: "run p n = Some m \<Longrightarrow>
          take (min (length (cells p)) (unat n)) m = take (unat n) (cells p)"

definition contents :: "EggBuffer \<Rightarrow> block" where
  "contents b = take (unat (len b)) (cells (buf b))"

definition egg_wf :: "EggBuffer \<Rightarrow> bool" where
  "egg_wf b \<longleftrightarrow>
     len b \<le> allocated_len b \<and> length (cells (buf b)) = unat (allocated_len b) \<and>
     unat (allocated_len b) < 2 ^ 63 \<and>
     (\<forall>a. allocator b = Some a \<longrightarrow> egg_allocator (alloc_run a))"

text \<open>
  An allocator that has memory for every request below 8 GB, and a buffer with such an allocator
  that takes \<open>k\<close> more bytes without reaching the bound of 2 GB on the length of a message.
\<close>

definition ample :: "EggBufferAllocator \<Rightarrow> bool" where
  "ample a \<longleftrightarrow> (\<forall>p n. 0 < n \<longrightarrow> unat n < 2 ^ 33 \<longrightarrow> alloc_run a p n \<noteq> None)"

definition roomy :: "EggBuffer \<Rightarrow> bool" where
  "roomy b \<longleftrightarrow> (\<exists>a. allocator b = Some a \<and> ample a) \<and> 0 < allocated_len b"

definition spacious :: "EggBuffer \<Rightarrow> nat \<Rightarrow> bool" where
  "spacious b k \<longleftrightarrow> roomy b \<and> length (contents b) + k < 0x7fffffff"

lemma allocated_add_failure [simp]: "allocated_len (add_failure b) = allocated_len b"
  by (simp add: add_failure_def)

lemma spacious_mono: "spacious b k \<Longrightarrow> j \<le> k \<Longrightarrow> spacious b j"
  by (simp add: spacious_def)

text \<open>
  A write of \<open>xs\<close>: it appends them, or counts a failure, which does not happen to a buffer that
  has the space. The memory does not shrink.
\<close>

definition egg_app :: "EggBuffer \<Rightarrow> block \<Rightarrow> bool \<Rightarrow> EggBuffer \<Rightarrow> bool" where
  "egg_app b xs ok b' \<longleftrightarrow>
     egg_wf b' \<and> allocator b' = allocator b \<and> prefix (contents b) (contents b') \<and>
     allocated_len b \<le> allocated_len b' \<and> (spacious b (length xs) \<longrightarrow> ok) \<and>
     (if ok then contents b' = contents b @ xs \<and> failures b' = failures b
      else failures b < failures b')"

lemma egg_wf_len: "egg_wf b \<Longrightarrow> unat (len b) \<le> unat (allocated_len b)"
  by (simp add: egg_wf_def word_le_nat_alt)

lemma egg_wf_len_bound: "egg_wf b \<Longrightarrow> unat (len b) < 2 ^ 63"
  by (frule egg_wf_len) (simp add: egg_wf_def)

lemma length_contents: "egg_wf b \<Longrightarrow> length (contents b) = unat (len b)"
  by (frule egg_wf_len) (simp add: contents_def egg_wf_def)

lemma add_failure_simps [simp]:
  "egg_wf (add_failure b) = egg_wf b"
  "contents (add_failure b) = contents b"
  "failures (add_failure b) = Suc (failures b)"
  "allocator (add_failure b) = allocator b"
  "len (add_failure b) = len b"
  "buf (add_failure b) = buf b"
  by (simp_all add: add_failure_def egg_wf_def contents_def)

lemma double_small:
  fixes a :: "64 word"
  assumes "unat a < 2 ^ 63"
  shows "unat (a * 2) = unat a * 2"
  using assms by (simp add: unat_word_ariths)

lemma egg_reserve_new:
  fixes al n :: "64 word"
  assumes "unat al < 2 ^ 63" "unat n < 2 ^ 63 \<or> unat n \<le> unat al * 2" "al \<le> n"
  defines "m \<equiv> (if n > al * 2 then al * 2 + n else al * 2)"
  shows "unat n \<le> unat m" "unat al \<le> unat m"
proof -
  have d: "unat (al * 2) = unat al * 2" by (rule double_small) fact
  have "unat n \<le> unat m \<and> unat al \<le> unat m"
  proof (cases "n > al * 2")
    case True
    then have "unat al * 2 < unat n" using d by (simp add: word_less_nat_alt)
    then have "unat (al * 2 + n) = unat al * 2 + unat n"
      using assms(2) d by (simp add: unat_add_small)
    then show ?thesis using True by (simp add: m_def)
  next
    case False
    then have "unat n \<le> unat al * 2" using d by (simp add: word_less_nat_alt)
    then show ?thesis using False d by (simp add: m_def)
  qed
  then show "unat n \<le> unat m" "unat al \<le> unat m" by simp_all
qed

lemma egg_buffer_reserve_spec:
  assumes wf: "egg_wf b"
    and n: "unat n < 2 ^ 63 \<or> unat n \<le> unat (allocated_len b) * 2"
    and r: "egg_buffer_reserve b n = (ok, b')"
  shows "egg_wf b' \<and> allocator b' = allocator b \<and> len b' = len b \<and> contents b' = contents b \<and>
    (if ok then unat n \<le> unat (allocated_len b') \<and> failures b' = failures b
     else b' = add_failure b)"
proof (cases "n < allocated_len b")
  case True
  then show ?thesis using r wf by (auto simp: egg_buffer_reserve_def word_less_nat_alt)
next
  case False
  define m where "m = (if n > allocated_len b * 2 then allocated_len b * 2 + n
                       else allocated_len b * 2)"
  have al: "unat (allocated_len b) < 2 ^ 63" using wf by (simp add: egg_wf_def)
  have mn: "unat n \<le> unat m" "unat (allocated_len b) \<le> unat m"
    unfolding m_def using egg_reserve_new [OF al n] False by auto
  show ?thesis
  proof (cases "allocator b")
    case None
    then show ?thesis using r False wf by (auto simp: egg_buffer_reserve_def Let_def)
  next
    case (Some a)
    have A: "egg_allocator (alloc_run a)" using wf Some by (simp add: egg_wf_def)
    show ?thesis
    proof (cases "alloc_run a (buf b) m")
      case None
      then show ?thesis using r False wf Some by (auto simp: egg_buffer_reserve_def Let_def m_def)
    next
      case (Some p)
      have sz: "length p = unat m" and bd: "unat m < 2 ^ 63"
        and kp: "take (min (length (cells (buf b))) (unat m)) p = take (unat m) (cells (buf b))"
        using egg_allocator.run_size [OF A Some] egg_allocator.run_bound [OF A Some]
          egg_allocator.run_keeps [OF A Some] by auto
      have b': "ok" "b' = b\<lparr>buf := Some p, allocated_len := m\<rparr>"
        using r False Some \<open>allocator b = Some a\<close>
        by (auto simp: egg_buffer_reserve_def Let_def m_def)
      have lb: "length (cells (buf b)) = unat (allocated_len b)"
        using wf by (simp add: egg_wf_def)
      have "take (unat (len b)) p = take (unat (len b)) (take (min (length (cells (buf b))) (unat m)) p)"
        using lb mn egg_wf_len [OF wf] by (simp add: min_def)
      also have "\<dots> = take (unat (len b)) (cells (buf b))"
        unfolding kp using lb mn egg_wf_len [OF wf] by (simp add: min_def)
      finally have "contents b' = contents b" by (simp add: contents_def b')
      moreover have "egg_wf b'"
        using wf sz bd egg_wf_len [OF wf] mn by (simp add: egg_wf_def b' word_le_nat_alt)
      ultimately show ?thesis using b' mn by simp
    qed
  qed
qed

lemma egg_buffer_reserve_grows:
  assumes "egg_wf b" "unat n < 2 ^ 63 \<or> unat n \<le> unat (allocated_len b) * 2"
    and "egg_buffer_reserve b n = (ok, b')"
  shows "allocated_len b \<le> allocated_len b'"
proof (cases "n < allocated_len b")
  case False
  have "unat (allocated_len b) < 2 ^ 63" using assms(1) by (simp add: egg_wf_def)
  moreover have "allocated_len b \<le> n" using False by simp
  ultimately show ?thesis
    using assms(3) egg_reserve_new [OF _ assms(2)] by (auto simp: egg_buffer_reserve_def Let_def word_le_nat_alt split: option.splits if_splits)
qed (use assms(3) in \<open>simp add: egg_buffer_reserve_def\<close>)

lemma egg_buffer_reserve_roomy:
  assumes "egg_wf b" "roomy b" "unat n < 0x7fffffff" "egg_buffer_reserve b n = (ok, b')"
  shows "ok"
proof (cases "n < allocated_len b")
  case False
  let ?m = "if n > allocated_len b * 2 then allocated_len b * 2 + n else allocated_len b * 2"
  obtain a where a: "allocator b = Some a" "ample a" "0 < allocated_len b"
    using assms(2) by (auto simp: roomy_def)
  have al: "unat (allocated_len b) \<le> unat n" "unat n < 0x7fffffff" "0 < unat (allocated_len b)"
    using False a(3) assms(3) by (simp_all add: not_less word_le_nat_alt word_less_nat_alt)
  then have d: "unat (allocated_len b * 2) = unat (allocated_len b) * 2"
    by (simp add: unat_word_ariths)
  then have "unat (allocated_len b * 2 + n) = unat (allocated_len b) * 2 + unat n"
    using al by (simp add: unat_word_ariths)
  then have "0 < unat ?m" "unat ?m < 2 ^ 33" using d al by (auto split: if_splits)
  then have "0 < ?m" "unat ?m < 2 ^ 33" by (simp_all only: word_less_nat_alt unat_0)
  then have "alloc_run a (buf b) ?m \<noteq> None" using a(2) unfolding ample_def by blast
  then show ?thesis
    using assms(4) False a(1) by (auto simp: egg_buffer_reserve_def Let_def split: option.splits)
qed (use assms(4) in \<open>simp add: egg_buffer_reserve_def\<close>)

lemma egg_app_refl: "egg_wf b \<Longrightarrow> egg_app b [] True b"
  by (simp add: egg_app_def)

lemma egg_app_failure: "egg_wf b \<Longrightarrow> \<not> spacious b (length xs) \<Longrightarrow> egg_app b xs False (add_failure b)"
  by (simp add: egg_app_def)

lemma spacious_after:
  assumes "egg_app b xs True b'" "spacious b (length xs + k)"
  shows "spacious b' k"
  using assms by (auto simp: egg_app_def spacious_def roomy_def)

lemma egg_app_trans:
  assumes 1: "egg_app b xs ok b'" and 2: "egg_app b' ys ok' b''"
  shows "egg_app b (xs @ ys) (ok \<and> ok') b''"
proof -
  have "ok \<and> ok'" if s: "spacious b (length (xs @ ys))"
  proof -
    have "spacious b (length xs)" using s by (rule spacious_mono) simp
    then have ok using 1 by (simp add: egg_app_def)
    moreover from this have "spacious b' (length ys)" using spacious_after [of b xs b'] 1 s by simp
    ultimately show ?thesis using 2 by (simp add: egg_app_def)
  qed
  then show ?thesis
    using assms unfolding egg_app_def
    by (auto split: if_splits intro: prefix_order.trans append_prefixD)
qed

lemma egg_app_wf: "egg_app b xs ok b' \<Longrightarrow> egg_wf b'"
  by (simp add: egg_app_def)

lemma egg_app_fail_longer: "egg_app b xs False b' \<Longrightarrow> egg_app b (xs @ ys) False b'"
  using spacious_mono [of b "length (xs @ ys)" "length xs"] by (auto simp: egg_app_def)

lemma wp_write_end:
  assumes wf: "egg_wf b" and room: "unat (len b) + length xs \<le> unat (allocated_len b)"
    and k: "k = of_nat (length xs)"
  shows "wp (mem_write (buf b) (unat (len b)) xs)
           (\<lambda>p. egg_app b xs True (b\<lparr>buf := p, len := len b + k\<rparr>))"
proof -
  have c: "length (cells (buf b)) = unat (allocated_len b)" and "unat (allocated_len b) < 2 ^ 63"
    using wf by (auto simp: egg_wf_def)
  have u: "unat (len b + k) = unat (len b) + length xs"
    unfolding k using room \<open>unat (allocated_len b) < 2 ^ 63\<close> by (intro of_nat_unat_add) simp
  obtain p where p: "mem_write (buf b) (unat (len b)) xs = Ret p"
    and pc: "cells p = take (unat (len b)) (cells (buf b)) @ xs @
               drop (unat (len b) + length xs) (cells (buf b))"
    using room c by (cases "buf b") (auto simp: mem_write_cells)
  have "contents (b\<lparr>buf := p, len := len b + k\<rparr>) = contents b @ xs"
    using u room c by (simp add: contents_def pc)
  moreover have "egg_wf (b\<lparr>buf := p, len := len b + k\<rparr>)"
    using wf u room c mem_write_length [OF p] by (simp add: egg_wf_def word_le_nat_alt)
  ultimately show ?thesis using p by (simp add: egg_app_def)
qed

text \<open>Reserving room for \<open>n\<close> more bytes, then continuing with \<open>f\<close> on success.\<close>

lemma wp_reserve_then:
  assumes wf: "egg_wf b" and n: "unat n < 2 ^ 62"
    and fail: "\<not> spacious b (unat n) \<Longrightarrow> Q (False, add_failure b)"
    and ok: "\<And>b'. egg_app b [] True b' \<Longrightarrow> len b' = len b \<Longrightarrow>
               unat (len b') + unat n \<le> unat (allocated_len b') \<Longrightarrow> wp (f b') Q"
  shows "wp (case egg_buffer_reserve b (len b + n) of
               (False, b') \<Rightarrow> Ret (False, b') | (True, b') \<Rightarrow> f b') Q"
proof (cases "egg_buffer_reserve b (len b + n)")
  case (Pair r b')
  have al: "unat (len b) < 2 ^ 63" using wf by (rule egg_wf_len_bound)
  then have u: "unat (len b + n) = unat (len b) + unat n"
    using n by (intro unat_add_small) simp
  have "unat (len b + n) < 2 ^ 63 \<or> unat (len b + n) \<le> unat (allocated_len b) * 2"
    using u n egg_wf_len [OF wf] by auto
  note r = egg_buffer_reserve_spec [OF wf this Pair] egg_buffer_reserve_grows [OF wf this Pair]
  have "r" if "spacious b (unat n)"
    using that egg_buffer_reserve_roomy [OF wf _ _ Pair] u length_contents [OF wf] by (simp add: spacious_def)
  then show ?thesis
    using u r ok [of b'] fail Pair by (cases r) (auto simp: egg_app_def)
qed

lemma length_encode [simp]:
  "length (egg_buffer_encode_uint16 v) = 2"
  "length (egg_buffer_encode_uint32 w) = 4"
  by (simp_all add: egg_buffer_encode_uint16_def egg_buffer_encode_uint32_def)

lemma ucast_and_ff:
  fixes x :: "'a::len word"
  shows "(ucast (x AND 0xff) :: byte) = ucast x"
proof -
  have "(0xff :: 'a word) = mask 8" by (simp add: mask_eq_exp_minus_1)
  then have "x AND 0xff = take_bit 8 x" by (simp add: take_bit_eq_mask)
  then show ?thesis by (auto intro!: bit_word_eqI simp: bit_simps)
qed

lemma bit_byte_False [simp]: "8 \<le> n \<Longrightarrow> \<not> bit (x :: byte) n"
  using bit_imp_le_length by force

lemma byte_cases:
  fixes n :: nat
  obtains "n < 8" | "8 \<le> n" "n < 16" | "16 \<le> n" "n < 24" | "24 \<le> n"
  by linarith

lemma decode_encode_uint16 [simp]:
  "egg_buffer_decode_uint16 (egg_buffer_encode_uint16 v) = v"
proof (rule bit_word_eqI)
  fix n assume "n < LENGTH(16)"
  then show "bit (egg_buffer_decode_uint16 (egg_buffer_encode_uint16 v)) n = bit v n"
    by (cases "n < 8")
      (auto simp: egg_buffer_decode_uint16_def egg_buffer_encode_uint16_def ucast_and_ff bit_simps)
qed

lemma decode_encode_uint32 [simp]:
  "egg_buffer_decode_uint32 (egg_buffer_encode_uint32 v) = v"
proof (rule bit_word_eqI)
  fix n assume "n < LENGTH(32)"
  then show "bit (egg_buffer_decode_uint32 (egg_buffer_encode_uint32 v)) n = bit v n"
    by (cases n rule: byte_cases)
      (auto simp: egg_buffer_decode_uint32_def egg_buffer_encode_uint32_def ucast_and_ff
         bit_simps)
qed

lemma encode_decode_uint32:
  assumes "length p = 4"
  shows "egg_buffer_encode_uint32 (egg_buffer_decode_uint32 p) = p"
proof -
  obtain a b c d where p: "p = [a, b, c, d]" using assms by (auto simp: length_4_conv)
  show ?thesis
    by (simp add: p egg_buffer_decode_uint32_def egg_buffer_encode_uint32_def ucast_and_ff)
       (auto intro!: bit_word_eqI simp: bit_simps)
qed

lemma encode_decode_uint16:
  assumes "length p = 2"
  shows "egg_buffer_encode_uint16 (egg_buffer_decode_uint16 p) = p"
proof -
  obtain a b where p: "p = [a, b]" using assms by (auto simp: length_2_conv)
  show ?thesis
    by (simp add: p egg_buffer_decode_uint16_def egg_buffer_encode_uint16_def ucast_and_ff)
       (auto intro!: bit_word_eqI simp: bit_simps)
qed

lemma wp_reserve_write:
  assumes wf: "egg_wf b" and n: "unat n = length xs" "length xs < 2 ^ 62"
    and f: "\<And>b'. unat (len b') + length xs \<le> unat (allocated_len b') \<Longrightarrow> egg_wf b' \<Longrightarrow>
      f b' = obind (mem_write (buf b') (unat (len b')) xs)
               (\<lambda>p. Ret (True, b'\<lparr>buf := p, len := len b' + n\<rparr>))"
  shows "wp (case egg_buffer_reserve b (len b + n) of
               (False, b') \<Rightarrow> Ret (False, b') | (True, b') \<Rightarrow> f b')
           (\<lambda>(ok, b'). egg_app b xs ok b')"
proof (rule wp_reserve_then [OF wf])
  fix b' assume b': "egg_app b [] True b'" "len b' = len b"
    "unat (len b') + unat n \<le> unat (allocated_len b')"
  have "n = of_nat (length xs)" using n(1) [symmetric] by simp
  then have "wp (mem_write (buf b') (unat (len b')) xs)
      (\<lambda>p. egg_app b' xs True (b'\<lparr>buf := p, len := len b' + n\<rparr>))"
    using b' n by (intro wp_write_end) (auto simp: egg_app_wf)
  then show "wp (f b') (\<lambda>(ok, b'). egg_app b xs ok b')"
    using b' n f [of b'] egg_app_wf [OF b'(1)] by (auto elim!: wp_mono dest: egg_app_trans)
qed (use assms egg_app_failure [OF wf, of xs] in simp_all)

lemma wp_add_byte [wp_rules]:
  "egg_wf b \<Longrightarrow> wp (egg_buffer_add_byte b v) (\<lambda>(ok, b'). egg_app b [v] ok b')"
  unfolding egg_buffer_add_byte_def by (rule wp_reserve_write) simp_all

lemma wp_append [wp_rules]:
  assumes "egg_wf b" "unat n \<le> length xs" "unat n < 2 ^ 62"
  shows "wp (egg_buffer_append b (Some xs) n) (\<lambda>(ok, b'). egg_app b (take (unat n) xs) ok b')"
  unfolding egg_buffer_append_def by (rule wp_reserve_write) (use assms in simp_all)

lemma set_at_end:
  assumes "egg_wf b" "unat (len b) + k \<le> unat (allocated_len b)" "w = of_nat k" "k < 16"
  shows "\<not> len b + w < w" "len b + w - w = len b"
proof -
  have "unat (len b) + k < 2 ^ 64" using assms by (simp add: egg_wf_def)
  then have "unat (len b + w) = unat (len b) + k"
    unfolding assms(3) by (rule of_nat_unat_add)
  moreover have "unat w = k" using assms(3,4) by (simp add: unat_of_nat)
  ultimately show "\<not> len b + w < w" by (simp add: word_less_nat_alt)
qed simp

lemma len_buf_update [simp]: "b\<lparr>len := x, buf := p\<rparr> = b\<lparr>buf := p, len := x\<rparr>"
  by simp

lemma wp_add_uint16 [wp_rules]:
  "egg_wf b \<Longrightarrow>
   wp (egg_buffer_add_uint16 b v) (\<lambda>(ok, b'). egg_app b (egg_buffer_encode_uint16 v) ok b')"
  unfolding egg_buffer_add_uint16_def egg_buffer_set_uint16_def Let_def
  by (rule wp_reserve_write)
    (simp_all add: set_at_end [where k = 2 and w = 2] obind_assoc)

lemma wp_add_uint32 [wp_rules]:
  "egg_wf b \<Longrightarrow>
   wp (egg_buffer_add_uint32 b v) (\<lambda>(ok, b'). egg_app b (egg_buffer_encode_uint32 v) ok b')"
  unfolding egg_buffer_add_uint32_def egg_buffer_set_uint32_def Let_def
  by (rule wp_reserve_write)
    (simp_all add: set_at_end [where k = 4 and w = 4] obind_assoc)

definition encode_uint64 :: "u64 \<Rightarrow> block" where
  "encode_uint64 v =
     egg_buffer_encode_uint32 (ucast (drop_bit 32 v AND 0xffffffff)) @
     egg_buffer_encode_uint32 (ucast (v AND 0xffffffff))"

text \<open>Two writes in a row, the second only when the first succeeded.\<close>

lemma wp_then:
  assumes "wp m (\<lambda>(ok, b'). egg_app b xs ok b')"
    and "\<And>b'. egg_wf b' \<Longrightarrow> wp (f b') (\<lambda>(ok, b''). egg_app b' ys ok b'')"
  shows "wp (obind m (\<lambda>(ok, b'). if \<not> ok then Ret (False, b') else f b'))
           (\<lambda>(ok, b''). egg_app b (xs @ ys) ok b'')"
proof -
  have "wp (if \<not> ok then Ret (False, b') else f b') (\<lambda>(ok, b''). egg_app b (xs @ ys) ok b'')"
    if a: "egg_app b xs ok b'" for ok b'
  proof (cases ok)
    case True
    then have "wp (f b') (\<lambda>(ok, b''). egg_app b' ys ok b'')"
      using assms(2) [of b'] a by (simp add: egg_app_wf)
    then show ?thesis using True a by (auto elim!: wp_mono dest: egg_app_trans)
  next
    case False
    then show ?thesis using a by (auto intro: egg_app_fail_longer)
  qed
  then show ?thesis using assms(1) by (auto elim!: wp_mono)
qed

lemma wp_add_uint64 [wp_rules]:
  "egg_wf b \<Longrightarrow>
   wp (egg_buffer_add_uint64 b v) (\<lambda>(ok, b'). egg_app b (encode_uint64 v) ok b')"
  unfolding egg_buffer_add_uint64_def encode_uint64_def
  by (intro wp_then wp_add_uint32)

definition encode_byte_array :: "block option \<Rightarrow> block" where
  "encode_byte_array val =
     (case val of None \<Rightarrow> egg_buffer_encode_uint32 0xffffffff
      | Some xs \<Rightarrow> egg_buffer_encode_uint32 (of_nat (length xs)) @ xs)"

lemma ucast_small_eq:
  fixes n :: "64 word"
  shows "(ucast n :: 32 word) = of_nat (unat n)"
  by simp

lemma wp_add_byte_array [wp_rules]:
  assumes "egg_wf b" and n: "\<And>xs. val = Some xs \<Longrightarrow> unat n \<le> length xs"
  shows "wp (egg_buffer_add_byte_array b val n)
     (\<lambda>(ok, b'). egg_app b (encode_byte_array (map_option (take (unat n)) val)) ok b' \<and>
        (ok \<longrightarrow> val \<noteq> None \<longrightarrow> n < 0x7fffffff))"
proof (cases val)
  case None
  then show ?thesis
    using wp_add_uint32 [OF assms(1)]
    by (auto simp: egg_buffer_add_byte_array_def encode_byte_array_def elim!: wp_mono)
next
  case (Some xs)
  show ?thesis
  proof (cases "n \<ge> 0x7fffffff")
    case True
    then have "0x7fffffff \<le> unat n" by (simp add: word_le_nat_alt)
    then have "\<not> spacious b (length (encode_byte_array (map_option (take (unat n)) val)))"
      using n [OF Some] Some by (simp add: spacious_def encode_byte_array_def)
    then show ?thesis using Some True assms
      by (simp add: egg_buffer_add_byte_array_def egg_app_failure)
  next
    case False
    then have small: "unat n < 0x7fffffff" by (simp add: word_le_nat_alt not_le)
    have enc: "encode_byte_array (map_option (take (unat n)) val) =
        egg_buffer_encode_uint32 (ucast n) @ take (unat n) xs"
      using n [OF Some] Some by (simp add: encode_byte_array_def min_def)
    have "wp (obind (egg_buffer_add_uint32 b (ucast n)) (\<lambda>(ok, b).
         if \<not> ok then Ret (False, b) else egg_buffer_append b (Some xs) n))
       (\<lambda>(ok, b'). egg_app b (egg_buffer_encode_uint32 (ucast n) @ take (unat n) xs) ok b')"
      using n [OF Some] assms(1) small by (intro wp_then wp_add_uint32 wp_append) simp_all
    then show ?thesis
      unfolding enc egg_buffer_add_byte_array_def
      using False Some by (auto elim!: wp_mono)
  qed
qed

section \<open>Reading\<close>

text \<open>The bounds test of the readers, on natural numbers.\<close>

lemma read_bounds:
  fixes off :: size_t
  assumes "egg_wf b" "unat w = k"
  shows "(len b < w \<or> off > len b - w) \<longleftrightarrow> \<not> unat off + k \<le> length (contents b)"
  using assms length_contents [OF assms(1)]
  by (auto simp: word_less_nat_alt unat_sub_if' not_le)

lemma mem_read_contents:
  assumes "egg_wf b" "off + k \<le> length (contents b)"
  shows "mem_read (buf b) off k = Ret (take k (drop off (contents b)))"
proof -
  have "length (contents b) \<le> length (cells (buf b))" by (simp add: contents_def)
  then have "mem_read (buf b) off k = Ret (take k (drop off (cells (buf b))))"
    using assms(2) by (intro mem_read_cells) simp
  moreover have "take k (drop off (contents b)) = take k (drop off (cells (buf b)))"
    using assms length_contents [OF assms(1)]
    by (simp add: contents_def drop_take min_def)
  ultimately show ?thesis by simp
qed

lemma get_byte_eq:
  assumes "egg_wf b"
  shows "egg_buffer_get_byte b off =
    Ret (if unat off + 1 \<le> length (contents b)
         then (Some (off + 1, contents b ! unat off), b) else (None, add_failure b))"
  using assms read_bounds [OF assms, of 1 1 off]
  by (auto simp: egg_buffer_get_byte_def mem_read_contents take_Suc hd_drop_conv_nth)

lemma get_uint16_eq:
  assumes "egg_wf b"
  shows "egg_buffer_get_uint16 b off =
    Ret (if unat off + 2 \<le> length (contents b)
         then (Some (off + 2, egg_buffer_decode_uint16 (take 2 (drop (unat off) (contents b)))), b)
         else (None, add_failure b))"
  using assms read_bounds [OF assms, of 2 2 off]
  by (auto simp: egg_buffer_get_uint16_def mem_read_contents)

lemma get_uint32_eq:
  assumes "egg_wf b"
  shows "egg_buffer_get_uint32 b off =
    Ret (if unat off + 4 \<le> length (contents b)
         then (Some (off + 4, egg_buffer_decode_uint32 (take 4 (drop (unat off) (contents b)))), b)
         else (None, add_failure b))"
  using assms read_bounds [OF assms, of 4 4 off]
  by (auto simp: egg_buffer_get_uint32_def mem_read_contents)


section \<open>Construction, reset and comparison\<close>

lemma egg_buffer_init_full_wf:
  assumes "egg_allocator (alloc_run (or_default dflt a))"
    and "egg_buffer_init_full dflt n a = (True, b)"
  shows "egg_wf b \<and> contents b = [] \<and> failures b = 0 \<and> allocator b = Some (or_default dflt a)"
  using assms egg_allocator.run_size [OF assms(1)] egg_allocator.run_bound [OF assms(1)]
  by (auto simp: egg_buffer_init_full_def Let_def egg_wf_def contents_def split: option.splits)

lemma egg_buffer_init_static_wf:
  assumes "length (cells p) = unat n" "unat n < 2 ^ 63"
  shows "egg_wf (egg_buffer_init_static p n)" "contents (egg_buffer_init_static p n) = cells p"
  using assms by (simp_all add: egg_buffer_init_static_def egg_wf_def contents_def)

lemma wp_reset [wp_rules]:
  assumes "egg_wf b"
  shows "wp (egg_buffer_reset b)
    (\<lambda>b'. egg_wf b' \<and> contents b' = [] \<and> failures b' = 0 \<and> allocator b' = allocator b \<and>
       set (cells (buf b')) \<subseteq> {0})"
proof -
  have l: "length (cells (buf b)) = unat (allocated_len b)" using assms by (simp add: egg_wf_def)
  then obtain p where p: "mem_write (buf b) 0 (replicate (unat (allocated_len b)) 0) = Ret p"
    and c: "cells p = replicate (unat (allocated_len b)) 0"
    by (cases "buf b") auto
  then show ?thesis using assms l
    by (auto simp: egg_buffer_reset_def egg_wf_def contents_def)
qed

lemma wp_set_allocator:
  assumes wf: "egg_wf b" and a: "egg_allocator (alloc_run (or_default dflt a))"
  shows "wp (egg_buffer_set_allocator dflt b a)
    (\<lambda>(ok, b'). egg_wf b' \<and> contents b' = contents b \<and> failures b' = failures b)"
proof -
  have l: "length (cells (buf b)) = unat (allocated_len b)" using wf by (simp add: egg_wf_def)
  then have r: "mem_read (buf b) 0 (unat (allocated_len b)) = Ret (cells (buf b))"
    by (simp add: mem_read_cells)
  show ?thesis
    using wf a l r egg_allocator.run_size [OF a]
    by (auto simp: egg_buffer_set_allocator_def Let_def egg_wf_def contents_def unat_eq_0
        split: option.splits)
qed

lemma egg_buffer_equal_contents:
  assumes "egg_wf b1" "egg_wf b2"
  shows "egg_buffer_equal b1 b2 = Ret (contents b1 = contents b2)"
proof (cases "len b1 = len b2")
  case True
  then show ?thesis
    using length_contents [OF assms(1)] length_contents [OF assms(2)]
      mem_read_contents [OF assms(1), of 0] mem_read_contents [OF assms(2), of 0]
    by (simp add: egg_buffer_equal_def)
next
  case False
  then have "contents b1 \<noteq> contents b2"
    using length_contents [OF assms(1)] length_contents [OF assms(2)] by (metis word_unat_eq_iff)
  with False show ?thesis by (simp add: egg_buffer_equal_def)
qed

section \<open>The C library's allocator\<close>

text \<open>
  \<^verbatim>\<open>realloc\<close> on a heap that grants blocks of up to \<open>limit\<close> bytes: it gives a block of the new
  size with the old bytes, or null when the size is zero or too large. It is the
  \<open>DEFAULT_ALLOCATOR\<close> of the buffer, and meets the contract.
\<close>

definition c_library_realloc :: "nat \<Rightarrow> block option \<Rightarrow> size_t \<Rightarrow> block option" where
  "c_library_realloc limit p n =
     (if n = 0 \<or> unat n > limit \<or> unat n \<ge> 2 ^ 63 then None
      else Some (take (unat n) (cells p) @ replicate (unat n - length (cells p)) 0))"

definition DEFAULT_ALLOCATOR :: "nat \<Rightarrow> EggBufferAllocator" where
  "DEFAULT_ALLOCATOR limit = \<lparr>alloc_addr = 1, alloc_run = c_library_realloc limit\<rparr>"

interpretation c_heap: egg_allocator "c_library_realloc limit"
  for limit
  by unfold_locales (auto simp: c_library_realloc_def min_def split: if_splits)

lemma DEFAULT_ALLOCATOR_run [simp]: "alloc_run (DEFAULT_ALLOCATOR limit) = c_library_realloc limit"
  by (simp add: DEFAULT_ALLOCATOR_def)

end
