(* ===== verification/Egg_Codec.thy ===== *)
theory Egg_Codec
  imports Egg_Buffer
begin

text \<open>
  The contract between the writers and the readers of \<^verbatim>\<open>egg-buffer.c\<close>: a locale with the
  laws a pair of functions has to satisfy so that what is added is read back, its
  interpretations on the byte, integer and byte-array functions, and the lifting to the
  loops of the message layer.
\<close>

unbundle bit_operations_syntax

definition egg_get :: "EggBuffer \<Rightarrow> size_t \<Rightarrow> (size_t \<times> 'b) option \<Rightarrow> EggBuffer \<Rightarrow> bool" where
  "egg_get b off r b' \<longleftrightarrow>
     (case r of
        None \<Rightarrow> egg_wf b' \<and> allocator b' = allocator b \<and> allocated_len b' = allocated_len b \<and>
                contents b' = contents b \<and> failures b < failures b'
      | Some (off', _) \<Rightarrow>
          egg_wf b' \<and> b' = b \<and> unat off < unat off' \<and> unat off' \<le> length (contents b))"

locale buffer_codec =
  fixes add :: "EggBuffer \<Rightarrow> 'a \<Rightarrow> (bool \<times> EggBuffer) outcome"
    and get :: "EggBuffer \<Rightarrow> size_t \<Rightarrow> ((size_t \<times> 'b) option \<times> EggBuffer) outcome"
    and enc :: "'a \<Rightarrow> block"
    and view :: "'a \<Rightarrow> 'b"
    and repr :: "'a \<Rightarrow> bool"
    and valid :: "'a \<Rightarrow> bool"
  assumes add_app: "egg_wf b \<Longrightarrow> repr v \<Longrightarrow>
      wp (add b v) (\<lambda>(ok, b'). egg_app b (enc v) ok b' \<and> (ok \<longrightarrow> valid v))"
    and get_enc: "egg_wf b \<Longrightarrow> valid v \<Longrightarrow> contents b = pre @ enc v @ post \<Longrightarrow>
          unat off = length pre \<Longrightarrow>
          get b off = Ret (Some (off + of_nat (length (enc v)), view v), b)"
    and get_safe: "egg_wf b \<Longrightarrow> wp (get b off) (\<lambda>(r, b'). egg_get b off r b')"

lemma egg_wf_off_add:
  fixes off :: size_t
  assumes "egg_wf b" "unat off + k \<le> length (contents b)" "w = of_nat k"
  shows "unat (off + w) = unat off + k"
proof -
  have "unat off + k < 2 ^ 64"
    using assms egg_wf_len_bound [OF assms(1)] length_contents [OF assms(1)] by simp
  then show ?thesis unfolding assms(3) by (rule of_nat_unat_add)
qed

interpretation byte_codec: buffer_codec egg_buffer_add_byte egg_buffer_get_byte
  "\<lambda>v. [v]" "\<lambda>v. v" "\<lambda>_. True" "\<lambda>_. True"
proof
  fix b v off assume "egg_wf b"
  then show "wp (egg_buffer_add_byte b v) (\<lambda>(ok, b'). egg_app b [v] ok b' \<and> (ok \<longrightarrow> True))"
    by (auto intro: wp_mono [OF wp_add_byte])
  show "wp (egg_buffer_get_byte b off) (\<lambda>(r, b'). egg_get b off r b')"
    using \<open>egg_wf b\<close> egg_wf_off_add [of b off 1 1]
    by (simp add: get_byte_eq egg_get_def)
qed (simp add: get_byte_eq nth_append)

interpretation uint16_codec: buffer_codec egg_buffer_add_uint16 egg_buffer_get_uint16
  egg_buffer_encode_uint16 "\<lambda>v. v" "\<lambda>_. True" "\<lambda>_. True"
proof
  fix b v off assume "egg_wf b"
  then show "wp (egg_buffer_add_uint16 b v)
      (\<lambda>(ok, b'). egg_app b (egg_buffer_encode_uint16 v) ok b' \<and> (ok \<longrightarrow> True))"
    by (auto intro: wp_mono [OF wp_add_uint16])
  show "wp (egg_buffer_get_uint16 b off) (\<lambda>(r, b'). egg_get b off r b')"
    using \<open>egg_wf b\<close> egg_wf_off_add [of b off 2 2]
    by (simp add: get_uint16_eq egg_get_def)
qed (simp add: get_uint16_eq)

interpretation uint32_codec: buffer_codec egg_buffer_add_uint32 egg_buffer_get_uint32
  egg_buffer_encode_uint32 "\<lambda>v. v" "\<lambda>_. True" "\<lambda>_. True"
proof
  fix b v off assume "egg_wf b"
  then show "wp (egg_buffer_add_uint32 b v)
      (\<lambda>(ok, b'). egg_app b (egg_buffer_encode_uint32 v) ok b' \<and> (ok \<longrightarrow> True))"
    by (auto intro: wp_mono [OF wp_add_uint32])
  show "wp (egg_buffer_get_uint32 b off) (\<lambda>(r, b'). egg_get b off r b')"
    using \<open>egg_wf b\<close> egg_wf_off_add [of b off 4 4]
    by (simp add: get_uint32_eq egg_get_def)
qed (simp add: get_uint32_eq)

lemma join_halves:
  fixes v :: u64
  shows "(push_bit 32 (ucast (ucast (drop_bit 32 v AND 0xffffffff) :: u32)) OR
         ucast (ucast (v AND 0xffffffff) :: u32) :: u64) = v"
proof -
  have "(0xffffffff :: u64) = mask 32" by (simp add: mask_eq_exp_minus_1)
  then have m: "x AND 0xffffffff = take_bit 32 x" for x :: u64 by (simp add: take_bit_eq_mask)
  show ?thesis
  proof (rule bit_word_eqI)
    fix n assume "n < LENGTH(64)"
    then show "bit (push_bit 32 (ucast (ucast (drop_bit 32 v AND 0xffffffff) :: u32)) OR
         ucast (ucast (v AND 0xffffffff) :: u32) :: u64) n = bit v n"
      unfolding m by (cases "n < 32") (auto simp: bit_simps)
  qed
qed

interpretation uint64_codec: buffer_codec egg_buffer_add_uint64 egg_buffer_get_uint64
  encode_uint64 "\<lambda>v. v" "\<lambda>_. True" "\<lambda>_. True"
proof
  fix b v off and pre post :: block assume wf: "egg_wf b"
  then show "wp (egg_buffer_add_uint64 b v)
      (\<lambda>(ok, b'). egg_app b (encode_uint64 v) ok b' \<and> (ok \<longrightarrow> True))"
    by (auto intro: wp_mono [OF wp_add_uint64])
  show "wp (egg_buffer_get_uint64 b off) (\<lambda>(r, b'). egg_get b off r b')"
  proof (cases "unat off + 4 \<le> length (contents b)")
    case True
    then have u: "unat (off + 4) = unat off + 4" using wf by (intro egg_wf_off_add) simp_all
    show ?thesis
    proof (cases "unat off + 8 \<le> length (contents b)")
      case True
      then have "unat (8 + off) = unat off + 8"
        using egg_wf_off_add [OF wf, of off 8 8] by (simp add: add.commute)
      with True u wf show ?thesis
        by (simp add: egg_buffer_get_uint64_def get_uint32_eq egg_get_def)
    next
      case False
      with \<open>unat off + 4 \<le> length (contents b)\<close> u wf show ?thesis
        by (simp add: egg_buffer_get_uint64_def get_uint32_eq egg_get_def)
    qed
  next
    case False
    then show ?thesis using wf
      by (simp add: egg_buffer_get_uint64_def get_uint32_eq egg_get_def)
  qed
  assume c: "contents b = pre @ encode_uint64 v @ post" "unat off = length pre"
  define hi lo where "hi = (ucast (drop_bit 32 v AND 0xffffffff) :: u32)"
    and "lo = (ucast (v AND 0xffffffff) :: u32)"
  have c': "contents b = (pre @ egg_buffer_encode_uint32 hi) @ egg_buffer_encode_uint32 lo @ post"
    using c by (simp add: encode_uint64_def hi_def lo_def)
  have "egg_buffer_get_uint32 b off = Ret (Some (off + 4, hi), b)"
    using uint32_codec.get_enc [OF wf, where v = hi and pre = pre and off = off] c' c(2)
    by simp
  moreover have "unat (off + 4) = length (pre @ egg_buffer_encode_uint32 hi)"
    using egg_wf_off_add [OF wf, of off 4 4] c' c(2) by simp
  then have "egg_buffer_get_uint32 b (off + 4) = Ret (Some (off + 4 + 4, lo), b)"
    using uint32_codec.get_enc [OF wf TrueI c'] by simp
  ultimately show "egg_buffer_get_uint64 b off =
      Ret (Some (off + of_nat (length (encode_uint64 v)), v), b)"
    using join_halves [of v]
    by (simp add: egg_buffer_get_uint64_def encode_uint64_def hi_def lo_def)
qed

definition byte_array_valid :: "block option \<Rightarrow> bool" where
  "byte_array_valid v = (\<forall>xs. v = Some xs \<longrightarrow> length xs < 0x7fffffff)"

lemma unat_ucast_u32 [simp]: "unat (ucast (n :: u32) :: size_t) = unat n"
proof -
  have "unat n < 2 ^ 64" using unsigned_less [of n] by (rule less_trans) simp
  then show ?thesis by (simp add: unsigned_ucast_eq take_bit_nat_eq_self)
qed

lemma get_byte_array_eq:
  fixes off :: size_t
  assumes wf: "egg_wf b"
  defines "n \<equiv> egg_buffer_decode_uint32 (take 4 (drop (unat off) (contents b)))"
  shows "egg_buffer_get_byte_array b off =
    Ret (if \<not> unat off + 4 \<le> length (contents b) then (None, add_failure b)
         else if n = 0xffffffff then (Some (off + 4, None, 0), b)
         else if n \<ge> 0x7fffffff \<or> \<not> unat off + 4 + unat n \<le> length (contents b)
         then (None, add_failure b)
         else (Some (off + 4 + ucast n,
                     Some (take (unat n) (drop (unat off + 4) (contents b))), ucast n), b))"
proof (cases "unat off + 4 \<le> length (contents b)")
  case True
  then have u: "unat (off + 4) = unat off + 4" using wf by (intro egg_wf_off_add) simp_all
  have "unat (ucast n :: size_t) = unat n" by (rule unat_ucast_u32)
  then have rb: "(len b < ucast n \<or> off + 4 > len b - ucast n) \<longleftrightarrow>
      \<not> unat off + 4 + unat n \<le> length (contents b)"
    using read_bounds [OF wf, of "ucast n" "unat n" "off + 4"] u by simp
  show ?thesis
    unfolding egg_buffer_get_byte_array_def get_uint32_eq [OF wf]
    using True u rb mem_read_contents [OF wf, of "unat off + 4" "unat n"]
    by (simp add: n_def [symmetric])
next
  case False
  then show ?thesis by (simp add: egg_buffer_get_byte_array_def get_uint32_eq [OF wf])
qed

interpretation byte_array_codec: buffer_codec
  "\<lambda>b v. egg_buffer_add_byte_array b v (of_nat (length (cells v)))"
  egg_buffer_get_byte_array encode_byte_array "\<lambda>v. (v, of_nat (length (cells v)))"
  "\<lambda>v. length (cells v) < 2 ^ 64" byte_array_valid
proof
  fix b off and v :: "block option" and pre post :: block
  assume wf: "egg_wf b"
  show "wp (egg_buffer_get_byte_array b off) (\<lambda>(r, b'). egg_get b off r b')"
  proof -
    define n where "n = egg_buffer_decode_uint32 (take 4 (drop (unat off) (contents b)))"
    have "unat (off + 4) = unat off + 4" if "unat off + 4 \<le> length (contents b)"
      using egg_wf_off_add [OF wf that] by simp
    moreover have "unat (off + 4 + ucast n) = unat off + 4 + unat n"
      if "unat off + 4 + unat n \<le> length (contents b)"
      using egg_wf_off_add [OF wf, of off "4 + unat n"] that by (simp add: add.assoc)
    ultimately show ?thesis
      using wf by (simp add: get_byte_array_eq [OF wf] n_def [symmetric] egg_get_def)
  qed
  show "length (cells v) < 2 ^ 64 \<Longrightarrow>
    wp (egg_buffer_add_byte_array b v (of_nat (length (cells v))))
      (\<lambda>(ok, b'). egg_app b (encode_byte_array v) ok b' \<and> (ok \<longrightarrow> byte_array_valid v))"
  proof -
    assume l: "length (cells v) < 2 ^ 64"
    then have u: "unat (of_nat (length (cells v)) :: size_t) = length (cells v)"
      by (rule unat_of_nat_small)
    show ?thesis
      using wp_add_byte_array [OF wf, of v "of_nat (length (cells v))"] u
      by (cases v) (auto simp: byte_array_valid_def word_less_nat_alt elim!: wp_mono)
  qed
  assume v: "byte_array_valid v" and c: "contents b = pre @ encode_byte_array v @ post"
    "unat off = length pre"
  show "egg_buffer_get_byte_array b off = 
    Ret (Some (off + of_nat (length (encode_byte_array v)), v, of_nat (length (cells v))), b)"
  proof (cases v)
    case None
    then show ?thesis using c by (simp add: get_byte_array_eq [OF wf] encode_byte_array_def)
  next
    case (Some xs)
    then have l: "length xs < 0x7fffffff" using v by (simp add: byte_array_valid_def)
    then have n: "unat (of_nat (length xs) :: u32) = length xs" by (simp add: unat_of_nat)
    have "(of_nat (length xs) :: u32) < 0x7fffffff"
      using l n by (simp add: word_less_nat_alt)
    moreover from this have "(of_nat (length xs) :: u32) \<noteq> 0xffffffff" by auto
    moreover have "(ucast (of_nat (length xs) :: u32) :: size_t) = of_nat (length xs)"
      by (metis n of_nat_unat)
    ultimately show ?thesis using c Some n
      by (simp add: get_byte_array_eq [OF wf] encode_byte_array_def not_le)
  qed
qed

section \<open>Sequences of values\<close>

text \<open>A loop that adds every element and looks at the failure count only afterwards.\<close>

fun add_seq ::
  "(EggBuffer \<Rightarrow> 'a \<Rightarrow> (bool \<times> EggBuffer) outcome) \<Rightarrow> EggBuffer \<Rightarrow> 'a list \<Rightarrow> EggBuffer outcome"
where
  "add_seq add b [] = Ret b"
| "add_seq add b (v # vs) = obind (add b v) (\<lambda>(_, b). add_seq add b vs)"

text \<open>A loop that reads \<open>n\<close> elements and stops at the first failure.\<close>

fun get_seq ::
  "(EggBuffer \<Rightarrow> size_t \<Rightarrow> ((size_t \<times> 'b) option \<times> EggBuffer) outcome) \<Rightarrow>
   EggBuffer \<Rightarrow> size_t \<Rightarrow> nat \<Rightarrow> ((size_t \<times> 'b list) option \<times> EggBuffer) outcome"
where
  "get_seq get b off 0 = Ret (Some (off, []), b)"
| "get_seq get b off (Suc n) =
     obind (get b off) (\<lambda>(r, b).
     case r of
       None \<Rightarrow> Ret (None, b)
     | Some (off, v) \<Rightarrow>
         obind (get_seq get b off n) (\<lambda>(r, b).
         Ret (map_option (\<lambda>(off, vs). (off, v # vs)) r, b)))"

context buffer_codec
begin

lemma add_then_get:
  assumes "egg_wf b" "repr v" "add b v = Ret (True, b')"
  shows "get b' (len b) = Ret (Some (len b', view v), b')"
proof -
  have app: "egg_app b (enc v) True b'" and v: "valid v"
    using add_app [OF assms(1,2)] assms(3) by auto
  then have c: "contents b' = contents b @ enc v @ []" and wf: "egg_wf b'"
    by (auto simp: egg_app_def)
  have "get b' (len b) = Ret (Some (len b + of_nat (length (enc v)), view v), b')"
    using length_contents [OF assms(1)] by (intro get_enc [OF wf v c]) simp
  moreover have "len b + of_nat (length (enc v)) = len b'"
  proof -
    have "unat (len b') = unat (len b) + length (enc v)"
      using c length_contents [OF wf] length_contents [OF assms(1)] by simp
    then show ?thesis by (metis of_nat_add of_nat_unat ucast_id)
  qed
  ultimately show ?thesis by simp
qed

lemma add_seq_app:
  assumes "egg_wf b" "list_all repr vs"
  shows "wp (add_seq add b vs)
    (\<lambda>b'. \<exists>ok. egg_app b (concat (map enc vs)) ok b' \<and> (ok \<longrightarrow> list_all valid vs))"
  using assms
proof (induction vs arbitrary: b)
  case Nil
  then show ?case by (auto intro: egg_app_refl)
next
  case (Cons v vs)
  have "wp (add_seq add b1 vs)
      (\<lambda>b'. \<exists>ok. egg_app b (concat (map enc (v # vs))) ok b' \<and> (ok \<longrightarrow> list_all valid (v # vs)))"
    if "egg_app b (enc v) ok1 b1" "ok1 \<longrightarrow> valid v" for ok1 b1
  proof (rule wp_mono [OF Cons.IH])
    fix b' assume "\<exists>ok. egg_app b1 (concat (map enc vs)) ok b' \<and> (ok \<longrightarrow> list_all valid vs)"
    then show "\<exists>ok. egg_app b (concat (map enc (v # vs))) ok b' \<and> (ok \<longrightarrow> list_all valid (v # vs))"
      using that egg_app_trans [OF that(1)] by (metis concat.simps(2) list.pred_inject(2) list.simps(9))
  qed (use that Cons.prems in \<open>auto dest: egg_app_wf\<close>)
  then show ?case
    using add_app [of b v] Cons.prems by (auto elim!: wp_mono)
qed

lemma get_seq_enc:
  assumes "egg_wf b" "list_all valid vs" "contents b = pre @ concat (map enc vs) @ post"
    "unat off = length pre"
  shows "get_seq get b off (length vs) =
    Ret (Some (off + of_nat (length (concat (map enc vs))), map view vs), b)"
  using assms
proof (induction vs arbitrary: pre off)
  case Nil
  then show ?case by simp
next
  case (Cons v vs)
  have "get b off = Ret (Some (off + of_nat (length (enc v)), view v), b)"
    using Cons.prems by (intro get_enc [where pre = pre]) auto
  moreover have "unat (off + of_nat (length (enc v))) = length (pre @ enc v)"
    using Cons.prems egg_wf_off_add [OF Cons.prems(1), of off "length (enc v)"] by simp
  then have "get_seq get b (off + of_nat (length (enc v))) (length vs) =
      Ret (Some (off + of_nat (length (enc v)) + of_nat (length (concat (map enc vs))),
        map view vs), b)"
    using Cons.prems by (intro Cons.IH [where pre = "pre @ enc v"]) auto
  ultimately show ?case by (simp add: add.assoc)
qed

lemma get_seq_safe:
  assumes "egg_wf b"
  shows "wp (get_seq get b off n) (\<lambda>(r, b'). egg_wf b' \<and> contents b' = contents b \<and>
    allocator b' = allocator b \<and> (case r of None \<Rightarrow> failures b < failures b'
      | Some (_, vs) \<Rightarrow> b' = b \<and> length vs = n))"
proof (induction n arbitrary: off)
  case 0
  then show ?case using assms by simp
next
  case (Suc n)
  then show ?case
    using get_safe [OF assms, of off]
    by (fastforce simp: egg_get_def elim!: wp_mono split: option.splits)
qed

end
end
