(* ===== verification/Pkcs11_Types.thy ===== *)
theory Pkcs11_Types
  imports Egg_Codec
begin

text \<open>
  The part of \<^verbatim>\<open>pkcs11/pkcs11.h\<close> the proxy uses: return codes, mechanism and attribute
  numbers, and the C structures as records. \<open>CK_ULONG\<close> is \<open>unsigned long\<close>, 64 bits wide on
  the platform modelled; a fixed-size character array is the list of its bytes.
\<close>

section \<open>Return codes\<close>

abbreviation (input) CKR_OK :: CK_RV where "CKR_OK \<equiv> 0"
abbreviation (input) CKR_HOST_MEMORY :: CK_RV where "CKR_HOST_MEMORY \<equiv> 2"
abbreviation (input) CKR_GENERAL_ERROR :: CK_RV where "CKR_GENERAL_ERROR \<equiv> 5"
abbreviation (input) CKR_ARGUMENTS_BAD :: CK_RV where "CKR_ARGUMENTS_BAD \<equiv> 7"
abbreviation (input) CKR_ATTRIBUTE_SENSITIVE :: CK_RV where "CKR_ATTRIBUTE_SENSITIVE \<equiv> 0x11"
abbreviation (input) CKR_ATTRIBUTE_TYPE_INVALID :: CK_RV where "CKR_ATTRIBUTE_TYPE_INVALID \<equiv> 0x12"
abbreviation (input) CKR_DEVICE_ERROR :: CK_RV where "CKR_DEVICE_ERROR \<equiv> 0x30"
abbreviation (input) CKR_DEVICE_MEMORY :: CK_RV where "CKR_DEVICE_MEMORY \<equiv> 0x31"
abbreviation (input) CKR_DEVICE_REMOVED :: CK_RV where "CKR_DEVICE_REMOVED \<equiv> 0x32"
abbreviation (input) CKR_MECHANISM_INVALID :: CK_RV where "CKR_MECHANISM_INVALID \<equiv> 0x70"
abbreviation (input) CKR_SESSION_CLOSED :: CK_RV where "CKR_SESSION_CLOSED \<equiv> 0xb0"
abbreviation (input) CKR_SESSION_COUNT :: CK_RV where "CKR_SESSION_COUNT \<equiv> 0xb1"
abbreviation (input) CKR_SESSION_HANDLE_INVALID :: CK_RV where "CKR_SESSION_HANDLE_INVALID \<equiv> 0xb3"
abbreviation (input) CKR_BUFFER_TOO_SMALL :: CK_RV where "CKR_BUFFER_TOO_SMALL \<equiv> 0x150"
abbreviation (input) CKR_CRYPTOKI_NOT_INITIALIZED :: CK_RV where "CKR_CRYPTOKI_NOT_INITIALIZED \<equiv> 0x190"
abbreviation (input) CKR_CRYPTOKI_ALREADY_INITIALIZED :: CK_RV where "CKR_CRYPTOKI_ALREADY_INITIALIZED \<equiv> 0x191"
abbreviation (input) CKR_CANT_LOCK :: CK_RV where "CKR_CANT_LOCK \<equiv> 0xa"
abbreviation (input) CKR_FUNCTION_NOT_SUPPORTED :: CK_RV where "CKR_FUNCTION_NOT_SUPPORTED \<equiv> 0x54"

text \<open>\<open>PARSE_ERROR\<close> and \<open>PREP_ERROR\<close> of the dispatcher; the module uses the first one too.\<close>

abbreviation (input) PARSE_ERROR :: CK_RV where "PARSE_ERROR \<equiv> CKR_DEVICE_ERROR"
abbreviation (input) PREP_ERROR :: CK_RV where "PREP_ERROR \<equiv> CKR_DEVICE_MEMORY"

section \<open>Mechanisms and attributes\<close>

abbreviation (input) CKM_RSA_PKCS_OAEP :: CK_ULONG where "CKM_RSA_PKCS_OAEP \<equiv> 9"
abbreviation (input) CKM_RSA_PKCS_PSS :: CK_ULONG where "CKM_RSA_PKCS_PSS \<equiv> 0xd"
abbreviation (input) CKM_AES_CBC_PAD :: CK_ULONG where "CKM_AES_CBC_PAD \<equiv> 0x1085"
abbreviation (input) CKM_RSA_PKCS_KEY_PAIR_GEN :: CK_ULONG where "CKM_RSA_PKCS_KEY_PAIR_GEN \<equiv> 0"
abbreviation (input) CKM_RSA_X9_31_KEY_PAIR_GEN :: CK_ULONG where "CKM_RSA_X9_31_KEY_PAIR_GEN \<equiv> 0xa"
abbreviation (input) CKM_RSA_PKCS :: CK_ULONG where "CKM_RSA_PKCS \<equiv> 1"
abbreviation (input) CKM_RSA_9796 :: CK_ULONG where "CKM_RSA_9796 \<equiv> 2"
abbreviation (input) CKM_RSA_X_509 :: CK_ULONG where "CKM_RSA_X_509 \<equiv> 3"
abbreviation (input) CKM_RSA_X9_31 :: CK_ULONG where "CKM_RSA_X9_31 \<equiv> 0xb"
abbreviation (input) CKM_MD2_RSA_PKCS :: CK_ULONG where "CKM_MD2_RSA_PKCS \<equiv> 4"
abbreviation (input) CKM_MD5_RSA_PKCS :: CK_ULONG where "CKM_MD5_RSA_PKCS \<equiv> 5"
abbreviation (input) CKM_SHA1_RSA_PKCS :: CK_ULONG where "CKM_SHA1_RSA_PKCS \<equiv> 6"
abbreviation (input) CKM_SHA256_RSA_PKCS :: CK_ULONG where "CKM_SHA256_RSA_PKCS \<equiv> 0x40"
abbreviation (input) CKM_SHA384_RSA_PKCS :: CK_ULONG where "CKM_SHA384_RSA_PKCS \<equiv> 0x41"
abbreviation (input) CKM_SHA512_RSA_PKCS :: CK_ULONG where "CKM_SHA512_RSA_PKCS \<equiv> 0x42"
abbreviation (input) CKM_RIPEMD128_RSA_PKCS :: CK_ULONG where "CKM_RIPEMD128_RSA_PKCS \<equiv> 7"
abbreviation (input) CKM_RIPEMD160_RSA_PKCS :: CK_ULONG where "CKM_RIPEMD160_RSA_PKCS \<equiv> 8"
abbreviation (input) CKM_SHA1_RSA_X9_31 :: CK_ULONG where "CKM_SHA1_RSA_X9_31 \<equiv> 0xc"
abbreviation (input) CKM_DSA_KEY_PAIR_GEN :: CK_ULONG where "CKM_DSA_KEY_PAIR_GEN \<equiv> 0x10"
abbreviation (input) CKM_DSA_PARAMETER_GEN :: CK_ULONG where "CKM_DSA_PARAMETER_GEN \<equiv> 0x2000"
abbreviation (input) CKM_DSA :: CK_ULONG where "CKM_DSA \<equiv> 0x11"
abbreviation (input) CKM_DSA_SHA1 :: CK_ULONG where "CKM_DSA_SHA1 \<equiv> 0x12"
abbreviation (input) CKM_FORTEZZA_TIMESTAMP :: CK_ULONG where "CKM_FORTEZZA_TIMESTAMP \<equiv> 0x1020"
abbreviation (input) CKM_EC_KEY_PAIR_GEN :: CK_ULONG where "CKM_EC_KEY_PAIR_GEN \<equiv> 0x1040"
abbreviation (input) CKM_ECDSA :: CK_ULONG where "CKM_ECDSA \<equiv> 0x1041"
abbreviation (input) CKM_ECDSA_SHA1 :: CK_ULONG where "CKM_ECDSA_SHA1 \<equiv> 0x1042"
abbreviation (input) CKM_DH_PKCS_KEY_PAIR_GEN :: CK_ULONG where "CKM_DH_PKCS_KEY_PAIR_GEN \<equiv> 0x20"
abbreviation (input) CKM_DH_PKCS_PARAMETER_GEN :: CK_ULONG where "CKM_DH_PKCS_PARAMETER_GEN \<equiv> 0x2001"
abbreviation (input) CKM_X9_42_DH_KEY_PAIR_GEN :: CK_ULONG where "CKM_X9_42_DH_KEY_PAIR_GEN \<equiv> 0x30"
abbreviation (input) CKM_X9_42_DH_PARAMETER_GEN :: CK_ULONG where "CKM_X9_42_DH_PARAMETER_GEN \<equiv> 0x2002"
abbreviation (input) CKM_KEA_KEY_PAIR_GEN :: CK_ULONG where "CKM_KEA_KEY_PAIR_GEN \<equiv> 0x1010"
abbreviation (input) CKM_GENERIC_SECRET_KEY_GEN :: CK_ULONG where "CKM_GENERIC_SECRET_KEY_GEN \<equiv> 0x350"
abbreviation (input) CKM_RC2_KEY_GEN :: CK_ULONG where "CKM_RC2_KEY_GEN \<equiv> 0x100"
abbreviation (input) CKM_RC4_KEY_GEN :: CK_ULONG where "CKM_RC4_KEY_GEN \<equiv> 0x110"
abbreviation (input) CKM_RC4 :: CK_ULONG where "CKM_RC4 \<equiv> 0x111"
abbreviation (input) CKM_RC5_KEY_GEN :: CK_ULONG where "CKM_RC5_KEY_GEN \<equiv> 0x330"
abbreviation (input) CKM_AES_KEY_GEN :: CK_ULONG where "CKM_AES_KEY_GEN \<equiv> 0x1080"
abbreviation (input) CKM_AES_ECB :: CK_ULONG where "CKM_AES_ECB \<equiv> 0x1081"
abbreviation (input) CKM_AES_MAC :: CK_ULONG where "CKM_AES_MAC \<equiv> 0x1083"
abbreviation (input) CKM_DES_KEY_GEN :: CK_ULONG where "CKM_DES_KEY_GEN \<equiv> 0x120"
abbreviation (input) CKM_DES2_KEY_GEN :: CK_ULONG where "CKM_DES2_KEY_GEN \<equiv> 0x130"
abbreviation (input) CKM_DES3_KEY_GEN :: CK_ULONG where "CKM_DES3_KEY_GEN \<equiv> 0x131"
abbreviation (input) CKM_CDMF_KEY_GEN :: CK_ULONG where "CKM_CDMF_KEY_GEN \<equiv> 0x140"
abbreviation (input) CKM_CAST_KEY_GEN :: CK_ULONG where "CKM_CAST_KEY_GEN \<equiv> 0x300"
abbreviation (input) CKM_CAST3_KEY_GEN :: CK_ULONG where "CKM_CAST3_KEY_GEN \<equiv> 0x310"
abbreviation (input) CKM_CAST128_KEY_GEN :: CK_ULONG where "CKM_CAST128_KEY_GEN \<equiv> 0x320"
abbreviation (input) CKM_IDEA_KEY_GEN :: CK_ULONG where "CKM_IDEA_KEY_GEN \<equiv> 0x340"
abbreviation (input) CKM_SSL3_PRE_MASTER_KEY_GEN :: CK_ULONG where "CKM_SSL3_PRE_MASTER_KEY_GEN \<equiv> 0x370"
abbreviation (input) CKM_TLS_PRE_MASTER_KEY_GEN :: CK_ULONG where "CKM_TLS_PRE_MASTER_KEY_GEN \<equiv> 0x374"
abbreviation (input) CKM_SKIPJACK_KEY_GEN :: CK_ULONG where "CKM_SKIPJACK_KEY_GEN \<equiv> 0x1000"
abbreviation (input) CKM_BATON_KEY_GEN :: CK_ULONG where "CKM_BATON_KEY_GEN \<equiv> 0x1030"
abbreviation (input) CKM_JUNIPER_KEY_GEN :: CK_ULONG where "CKM_JUNIPER_KEY_GEN \<equiv> 0x1060"
abbreviation (input) CKM_RC2_ECB :: CK_ULONG where "CKM_RC2_ECB \<equiv> 0x101"
abbreviation (input) CKM_DES_ECB :: CK_ULONG where "CKM_DES_ECB \<equiv> 0x121"
abbreviation (input) CKM_DES3_ECB :: CK_ULONG where "CKM_DES3_ECB \<equiv> 0x132"
abbreviation (input) CKM_CDMF_ECB :: CK_ULONG where "CKM_CDMF_ECB \<equiv> 0x141"
abbreviation (input) CKM_CAST_ECB :: CK_ULONG where "CKM_CAST_ECB \<equiv> 0x301"
abbreviation (input) CKM_CAST3_ECB :: CK_ULONG where "CKM_CAST3_ECB \<equiv> 0x311"
abbreviation (input) CKM_CAST128_ECB :: CK_ULONG where "CKM_CAST128_ECB \<equiv> 0x321"
abbreviation (input) CKM_RC5_ECB :: CK_ULONG where "CKM_RC5_ECB \<equiv> 0x331"
abbreviation (input) CKM_IDEA_ECB :: CK_ULONG where "CKM_IDEA_ECB \<equiv> 0x341"
abbreviation (input) CKM_RC2_MAC :: CK_ULONG where "CKM_RC2_MAC \<equiv> 0x103"
abbreviation (input) CKM_DES_MAC :: CK_ULONG where "CKM_DES_MAC \<equiv> 0x123"
abbreviation (input) CKM_DES3_MAC :: CK_ULONG where "CKM_DES3_MAC \<equiv> 0x134"
abbreviation (input) CKM_CDMF_MAC :: CK_ULONG where "CKM_CDMF_MAC \<equiv> 0x143"
abbreviation (input) CKM_CAST_MAC :: CK_ULONG where "CKM_CAST_MAC \<equiv> 0x303"
abbreviation (input) CKM_CAST3_MAC :: CK_ULONG where "CKM_CAST3_MAC \<equiv> 0x313"
abbreviation (input) CKM_RC5_MAC :: CK_ULONG where "CKM_RC5_MAC \<equiv> 0x333"
abbreviation (input) CKM_IDEA_MAC :: CK_ULONG where "CKM_IDEA_MAC \<equiv> 0x343"
abbreviation (input) CKM_SSL3_MD5_MAC :: CK_ULONG where "CKM_SSL3_MD5_MAC \<equiv> 0x380"
abbreviation (input) CKM_SSL3_SHA1_MAC :: CK_ULONG where "CKM_SSL3_SHA1_MAC \<equiv> 0x381"
abbreviation (input) CKM_SKIPJACK_WRAP :: CK_ULONG where "CKM_SKIPJACK_WRAP \<equiv> 0x1008"
abbreviation (input) CKM_BATON_WRAP :: CK_ULONG where "CKM_BATON_WRAP \<equiv> 0x1036"
abbreviation (input) CKM_JUNIPER_WRAP :: CK_ULONG where "CKM_JUNIPER_WRAP \<equiv> 0x1065"
abbreviation (input) CKM_MD2 :: CK_ULONG where "CKM_MD2 \<equiv> 0x200"
abbreviation (input) CKM_MD2_HMAC :: CK_ULONG where "CKM_MD2_HMAC \<equiv> 0x201"
abbreviation (input) CKM_MD5 :: CK_ULONG where "CKM_MD5 \<equiv> 0x210"
abbreviation (input) CKM_MD5_HMAC :: CK_ULONG where "CKM_MD5_HMAC \<equiv> 0x211"
abbreviation (input) CKM_SHA_1 :: CK_ULONG where "CKM_SHA_1 \<equiv> 0x220"
abbreviation (input) CKM_SHA_1_HMAC :: CK_ULONG where "CKM_SHA_1_HMAC \<equiv> 0x221"
abbreviation (input) CKM_SHA256 :: CK_ULONG where "CKM_SHA256 \<equiv> 0x250"
abbreviation (input) CKM_SHA256_HMAC :: CK_ULONG where "CKM_SHA256_HMAC \<equiv> 0x251"
abbreviation (input) CKM_SHA384 :: CK_ULONG where "CKM_SHA384 \<equiv> 0x260"
abbreviation (input) CKM_SHA384_HMAC :: CK_ULONG where "CKM_SHA384_HMAC \<equiv> 0x261"
abbreviation (input) CKM_SHA512 :: CK_ULONG where "CKM_SHA512 \<equiv> 0x270"
abbreviation (input) CKM_SHA512_HMAC :: CK_ULONG where "CKM_SHA512_HMAC \<equiv> 0x271"
abbreviation (input) CKM_FASTHASH :: CK_ULONG where "CKM_FASTHASH \<equiv> 0x1070"
abbreviation (input) CKM_RIPEMD128 :: CK_ULONG where "CKM_RIPEMD128 \<equiv> 0x230"
abbreviation (input) CKM_RIPEMD128_HMAC :: CK_ULONG where "CKM_RIPEMD128_HMAC \<equiv> 0x231"
abbreviation (input) CKM_RIPEMD160 :: CK_ULONG where "CKM_RIPEMD160 \<equiv> 0x240"
abbreviation (input) CKM_RIPEMD160_HMAC :: CK_ULONG where "CKM_RIPEMD160_HMAC \<equiv> 0x241"
abbreviation (input) CKM_KEY_WRAP_LYNKS :: CK_ULONG where "CKM_KEY_WRAP_LYNKS \<equiv> 0x400"
abbreviation (input) CKA_CLASS :: CK_ULONG where "CKA_CLASS \<equiv> 0"
abbreviation (input) CKA_KEY_TYPE :: CK_ULONG where "CKA_KEY_TYPE \<equiv> 0x100"
abbreviation (input) CKA_CERTIFICATE_TYPE :: CK_ULONG where "CKA_CERTIFICATE_TYPE \<equiv> 0x80"
abbreviation (input) CKA_HW_FEATURE_TYPE :: CK_ULONG where "CKA_HW_FEATURE_TYPE \<equiv> 0x300"
abbreviation (input) CKA_MODULUS_BITS :: CK_ULONG where "CKA_MODULUS_BITS \<equiv> 0x121"

section \<open>Structures\<close>

record CK_VERSION =
  major :: byte
  minor :: byte

record CK_INFO =
  cryptokiVersion :: CK_VERSION
  info_manufacturerID :: block
  info_flags :: CK_ULONG
  libraryDescription :: block
  libraryVersion :: CK_VERSION

record CK_SLOT_INFO =
  slotDescription :: block
  slot_manufacturerID :: block
  slot_flags :: CK_ULONG
  slot_hardwareVersion :: CK_VERSION
  slot_firmwareVersion :: CK_VERSION

record CK_TOKEN_INFO =
  label :: block
  token_manufacturerID :: block
  model :: block
  serialNumber :: block
  token_flags :: CK_ULONG
  ulMaxSessionCount :: CK_ULONG
  ulSessionCount :: CK_ULONG
  ulMaxRwSessionCount :: CK_ULONG
  ulRwSessionCount :: CK_ULONG
  ulMaxPinLen :: CK_ULONG
  ulMinPinLen :: CK_ULONG
  ulTotalPublicMemory :: CK_ULONG
  ulFreePublicMemory :: CK_ULONG
  ulTotalPrivateMemory :: CK_ULONG
  ulFreePrivateMemory :: CK_ULONG
  token_hardwareVersion :: CK_VERSION
  token_firmwareVersion :: CK_VERSION
  utcTime :: block

record CK_MECHANISM_INFO =
  ulMinKeySize :: CK_ULONG
  ulMaxKeySize :: CK_ULONG
  mech_flags :: CK_ULONG

record CK_SESSION_INFO =
  slotID :: CK_ULONG
  session_state :: CK_ULONG
  session_flags :: CK_ULONG
  ulDeviceError :: CK_ULONG

record CK_ATTRIBUTE =
  attr_type :: CK_ULONG
  pValue :: "block option"
  ulValueLen :: CK_ULONG

record CK_MECHANISM =
  mechanism :: CK_ULONG
  pParameter :: "block option"
  ulParameterLen :: CK_ULONG

text \<open>\<open>sizeof (CK_ULONG)\<close> and \<open>sizeof (CK_ATTRIBUTE)\<close> on the platform modelled.\<close>

abbreviation (input) sizeof_CK_ULONG :: size_t where "sizeof_CK_ULONG \<equiv> 8"
abbreviation (input) sizeof_CK_ATTRIBUTE :: size_t where "sizeof_CK_ATTRIBUTE \<equiv> 24"

text \<open>The character array lengths that \<^verbatim>\<open>pkcs11.h\<close> declares.\<close>

definition ck_info_wf :: "CK_INFO \<Rightarrow> bool" where
  "ck_info_wf i \<longleftrightarrow> length (info_manufacturerID i) = 32 \<and> length (libraryDescription i) = 32"

definition ck_slot_info_wf :: "CK_SLOT_INFO \<Rightarrow> bool" where
  "ck_slot_info_wf i \<longleftrightarrow> length (slotDescription i) = 64 \<and> length (slot_manufacturerID i) = 32"

definition ck_token_info_wf :: "CK_TOKEN_INFO \<Rightarrow> bool" where
  "ck_token_info_wf i \<longleftrightarrow>
     length (label i) = 32 \<and> length (token_manufacturerID i) = 32 \<and> length (model i) = 16 \<and>
     length (serialNumber i) = 16 \<and> length (utcTime i) = 16"

end
