(* ===== verification/Rpc_Calls.thy ===== *)
theory Rpc_Calls
  imports Pkcs11_Types
begin

text \<open>
  The protocol description of \<^verbatim>\<open>gck-rpc-private.h\<close>: the call numbers, the table
  \<open>gck_rpc_calls\<close> of request and response signatures, the handshake and the constants of
  the wire format.
\<close>

section \<open>Call numbers\<close>

abbreviation (input) GCK_RPC_CALL_ERROR :: int where "GCK_RPC_CALL_ERROR \<equiv> 0"
abbreviation (input) GCK_RPC_CALL_C_Initialize :: int where "GCK_RPC_CALL_C_Initialize \<equiv> 1"
abbreviation (input) GCK_RPC_CALL_C_Finalize :: int where "GCK_RPC_CALL_C_Finalize \<equiv> 2"
abbreviation (input) GCK_RPC_CALL_C_GetInfo :: int where "GCK_RPC_CALL_C_GetInfo \<equiv> 3"
abbreviation (input) GCK_RPC_CALL_C_GetSlotList :: int where "GCK_RPC_CALL_C_GetSlotList \<equiv> 4"
abbreviation (input) GCK_RPC_CALL_C_GetSlotInfo :: int where "GCK_RPC_CALL_C_GetSlotInfo \<equiv> 5"
abbreviation (input) GCK_RPC_CALL_C_GetTokenInfo :: int where "GCK_RPC_CALL_C_GetTokenInfo \<equiv> 6"
abbreviation (input) GCK_RPC_CALL_C_GetMechanismList :: int where "GCK_RPC_CALL_C_GetMechanismList \<equiv> 7"
abbreviation (input) GCK_RPC_CALL_C_GetMechanismInfo :: int where "GCK_RPC_CALL_C_GetMechanismInfo \<equiv> 8"
abbreviation (input) GCK_RPC_CALL_C_InitToken :: int where "GCK_RPC_CALL_C_InitToken \<equiv> 9"
abbreviation (input) GCK_RPC_CALL_C_WaitForSlotEvent :: int where "GCK_RPC_CALL_C_WaitForSlotEvent \<equiv> 10"
abbreviation (input) GCK_RPC_CALL_C_OpenSession :: int where "GCK_RPC_CALL_C_OpenSession \<equiv> 11"
abbreviation (input) GCK_RPC_CALL_C_CloseSession :: int where "GCK_RPC_CALL_C_CloseSession \<equiv> 12"
abbreviation (input) GCK_RPC_CALL_C_CloseAllSessions :: int where "GCK_RPC_CALL_C_CloseAllSessions \<equiv> 13"
abbreviation (input) GCK_RPC_CALL_C_GetFunctionStatus :: int where "GCK_RPC_CALL_C_GetFunctionStatus \<equiv> 14"
abbreviation (input) GCK_RPC_CALL_C_CancelFunction :: int where "GCK_RPC_CALL_C_CancelFunction \<equiv> 15"
abbreviation (input) GCK_RPC_CALL_C_GetSessionInfo :: int where "GCK_RPC_CALL_C_GetSessionInfo \<equiv> 16"
abbreviation (input) GCK_RPC_CALL_C_InitPIN :: int where "GCK_RPC_CALL_C_InitPIN \<equiv> 17"
abbreviation (input) GCK_RPC_CALL_C_SetPIN :: int where "GCK_RPC_CALL_C_SetPIN \<equiv> 18"
abbreviation (input) GCK_RPC_CALL_C_GetOperationState :: int where "GCK_RPC_CALL_C_GetOperationState \<equiv> 19"
abbreviation (input) GCK_RPC_CALL_C_SetOperationState :: int where "GCK_RPC_CALL_C_SetOperationState \<equiv> 20"
abbreviation (input) GCK_RPC_CALL_C_Login :: int where "GCK_RPC_CALL_C_Login \<equiv> 21"
abbreviation (input) GCK_RPC_CALL_C_Logout :: int where "GCK_RPC_CALL_C_Logout \<equiv> 22"
abbreviation (input) GCK_RPC_CALL_C_CreateObject :: int where "GCK_RPC_CALL_C_CreateObject \<equiv> 23"
abbreviation (input) GCK_RPC_CALL_C_CopyObject :: int where "GCK_RPC_CALL_C_CopyObject \<equiv> 24"
abbreviation (input) GCK_RPC_CALL_C_DestroyObject :: int where "GCK_RPC_CALL_C_DestroyObject \<equiv> 25"
abbreviation (input) GCK_RPC_CALL_C_GetObjectSize :: int where "GCK_RPC_CALL_C_GetObjectSize \<equiv> 26"
abbreviation (input) GCK_RPC_CALL_C_GetAttributeValue :: int where "GCK_RPC_CALL_C_GetAttributeValue \<equiv> 27"
abbreviation (input) GCK_RPC_CALL_C_SetAttributeValue :: int where "GCK_RPC_CALL_C_SetAttributeValue \<equiv> 28"
abbreviation (input) GCK_RPC_CALL_C_FindObjectsInit :: int where "GCK_RPC_CALL_C_FindObjectsInit \<equiv> 29"
abbreviation (input) GCK_RPC_CALL_C_FindObjects :: int where "GCK_RPC_CALL_C_FindObjects \<equiv> 30"
abbreviation (input) GCK_RPC_CALL_C_FindObjectsFinal :: int where "GCK_RPC_CALL_C_FindObjectsFinal \<equiv> 31"
abbreviation (input) GCK_RPC_CALL_C_EncryptInit :: int where "GCK_RPC_CALL_C_EncryptInit \<equiv> 32"
abbreviation (input) GCK_RPC_CALL_C_Encrypt :: int where "GCK_RPC_CALL_C_Encrypt \<equiv> 33"
abbreviation (input) GCK_RPC_CALL_C_EncryptUpdate :: int where "GCK_RPC_CALL_C_EncryptUpdate \<equiv> 34"
abbreviation (input) GCK_RPC_CALL_C_EncryptFinal :: int where "GCK_RPC_CALL_C_EncryptFinal \<equiv> 35"
abbreviation (input) GCK_RPC_CALL_C_DecryptInit :: int where "GCK_RPC_CALL_C_DecryptInit \<equiv> 36"
abbreviation (input) GCK_RPC_CALL_C_Decrypt :: int where "GCK_RPC_CALL_C_Decrypt \<equiv> 37"
abbreviation (input) GCK_RPC_CALL_C_DecryptUpdate :: int where "GCK_RPC_CALL_C_DecryptUpdate \<equiv> 38"
abbreviation (input) GCK_RPC_CALL_C_DecryptFinal :: int where "GCK_RPC_CALL_C_DecryptFinal \<equiv> 39"
abbreviation (input) GCK_RPC_CALL_C_DigestInit :: int where "GCK_RPC_CALL_C_DigestInit \<equiv> 40"
abbreviation (input) GCK_RPC_CALL_C_Digest :: int where "GCK_RPC_CALL_C_Digest \<equiv> 41"
abbreviation (input) GCK_RPC_CALL_C_DigestUpdate :: int where "GCK_RPC_CALL_C_DigestUpdate \<equiv> 42"
abbreviation (input) GCK_RPC_CALL_C_DigestKey :: int where "GCK_RPC_CALL_C_DigestKey \<equiv> 43"
abbreviation (input) GCK_RPC_CALL_C_DigestFinal :: int where "GCK_RPC_CALL_C_DigestFinal \<equiv> 44"
abbreviation (input) GCK_RPC_CALL_C_SignInit :: int where "GCK_RPC_CALL_C_SignInit \<equiv> 45"
abbreviation (input) GCK_RPC_CALL_C_Sign :: int where "GCK_RPC_CALL_C_Sign \<equiv> 46"
abbreviation (input) GCK_RPC_CALL_C_SignUpdate :: int where "GCK_RPC_CALL_C_SignUpdate \<equiv> 47"
abbreviation (input) GCK_RPC_CALL_C_SignFinal :: int where "GCK_RPC_CALL_C_SignFinal \<equiv> 48"
abbreviation (input) GCK_RPC_CALL_C_SignRecoverInit :: int where "GCK_RPC_CALL_C_SignRecoverInit \<equiv> 49"
abbreviation (input) GCK_RPC_CALL_C_SignRecover :: int where "GCK_RPC_CALL_C_SignRecover \<equiv> 50"
abbreviation (input) GCK_RPC_CALL_C_VerifyInit :: int where "GCK_RPC_CALL_C_VerifyInit \<equiv> 51"
abbreviation (input) GCK_RPC_CALL_C_Verify :: int where "GCK_RPC_CALL_C_Verify \<equiv> 52"
abbreviation (input) GCK_RPC_CALL_C_VerifyUpdate :: int where "GCK_RPC_CALL_C_VerifyUpdate \<equiv> 53"
abbreviation (input) GCK_RPC_CALL_C_VerifyFinal :: int where "GCK_RPC_CALL_C_VerifyFinal \<equiv> 54"
abbreviation (input) GCK_RPC_CALL_C_VerifyRecoverInit :: int where "GCK_RPC_CALL_C_VerifyRecoverInit \<equiv> 55"
abbreviation (input) GCK_RPC_CALL_C_VerifyRecover :: int where "GCK_RPC_CALL_C_VerifyRecover \<equiv> 56"
abbreviation (input) GCK_RPC_CALL_C_DigestEncryptUpdate :: int where "GCK_RPC_CALL_C_DigestEncryptUpdate \<equiv> 57"
abbreviation (input) GCK_RPC_CALL_C_DecryptDigestUpdate :: int where "GCK_RPC_CALL_C_DecryptDigestUpdate \<equiv> 58"
abbreviation (input) GCK_RPC_CALL_C_SignEncryptUpdate :: int where "GCK_RPC_CALL_C_SignEncryptUpdate \<equiv> 59"
abbreviation (input) GCK_RPC_CALL_C_DecryptVerifyUpdate :: int where "GCK_RPC_CALL_C_DecryptVerifyUpdate \<equiv> 60"
abbreviation (input) GCK_RPC_CALL_C_GenerateKey :: int where "GCK_RPC_CALL_C_GenerateKey \<equiv> 61"
abbreviation (input) GCK_RPC_CALL_C_GenerateKeyPair :: int where "GCK_RPC_CALL_C_GenerateKeyPair \<equiv> 62"
abbreviation (input) GCK_RPC_CALL_C_WrapKey :: int where "GCK_RPC_CALL_C_WrapKey \<equiv> 63"
abbreviation (input) GCK_RPC_CALL_C_UnwrapKey :: int where "GCK_RPC_CALL_C_UnwrapKey \<equiv> 64"
abbreviation (input) GCK_RPC_CALL_C_DeriveKey :: int where "GCK_RPC_CALL_C_DeriveKey \<equiv> 65"
abbreviation (input) GCK_RPC_CALL_C_SeedRandom :: int where "GCK_RPC_CALL_C_SeedRandom \<equiv> 66"
abbreviation (input) GCK_RPC_CALL_C_GenerateRandom :: int where "GCK_RPC_CALL_C_GenerateRandom \<equiv> 67"
abbreviation (input) GCK_RPC_CALL_MAX :: int where "GCK_RPC_CALL_MAX \<equiv> 68"

section \<open>The table of calls\<close>

record GckRpcCall =
  entry_call_id :: int
  entry_name :: string
  entry_request :: "string option"
  entry_response :: "string option"

definition rpc_call :: "int \<Rightarrow> string \<Rightarrow> string option \<Rightarrow> string option \<Rightarrow> GckRpcCall" where
  "rpc_call i n q r =
     \<lparr>entry_call_id = i, entry_name = n, entry_request = q, entry_response = r\<rparr>"

definition gck_rpc_calls :: "GckRpcCall list" where
  "gck_rpc_calls = [
     rpc_call GCK_RPC_CALL_ERROR ''ERROR'' None None,
     rpc_call GCK_RPC_CALL_C_Initialize ''C_Initialize'' (Some ''ay'') (Some ''''),
     rpc_call GCK_RPC_CALL_C_Finalize ''C_Finalize'' (Some '''') (Some ''''),
     rpc_call GCK_RPC_CALL_C_GetInfo ''C_GetInfo'' (Some '''') (Some ''vsusv''),
     rpc_call GCK_RPC_CALL_C_GetSlotList ''C_GetSlotList'' (Some ''yfu'') (Some ''au''),
     rpc_call GCK_RPC_CALL_C_GetSlotInfo ''C_GetSlotInfo'' (Some ''u'') (Some ''ssuvv''),
     rpc_call GCK_RPC_CALL_C_GetTokenInfo ''C_GetTokenInfo'' (Some ''u'') (Some ''ssssuuuuuuuuuuuvvs''),
     rpc_call GCK_RPC_CALL_C_GetMechanismList ''C_GetMechanismList'' (Some ''ufu'') (Some ''au''),
     rpc_call GCK_RPC_CALL_C_GetMechanismInfo ''C_GetMechanismInfo'' (Some ''uu'') (Some ''uuu''),
     rpc_call GCK_RPC_CALL_C_InitToken ''C_InitToken'' (Some ''uays'') (Some ''''),
     rpc_call GCK_RPC_CALL_C_WaitForSlotEvent ''C_WaitForSlotEvent'' (Some ''u'') (Some ''u''),
     rpc_call GCK_RPC_CALL_C_OpenSession ''C_OpenSession'' (Some ''uu'') (Some ''u''),
     rpc_call GCK_RPC_CALL_C_CloseSession ''C_CloseSession'' (Some ''u'') (Some ''''),
     rpc_call GCK_RPC_CALL_C_CloseAllSessions ''C_CloseAllSessions'' (Some ''u'') (Some ''''),
     rpc_call GCK_RPC_CALL_C_GetFunctionStatus ''C_GetFunctionStatus'' (Some ''u'') (Some ''''),
     rpc_call GCK_RPC_CALL_C_CancelFunction ''C_CancelFunction'' (Some ''u'') (Some ''''),
     rpc_call GCK_RPC_CALL_C_GetSessionInfo ''C_GetSessionInfo'' (Some ''u'') (Some ''uuuu''),
     rpc_call GCK_RPC_CALL_C_InitPIN ''C_InitPIN'' (Some ''uay'') (Some ''''),
     rpc_call GCK_RPC_CALL_C_SetPIN ''C_SetPIN'' (Some ''uayay'') (Some ''''),
     rpc_call GCK_RPC_CALL_C_GetOperationState ''C_GetOperationState'' (Some ''ufy'') (Some ''ay''),
     rpc_call GCK_RPC_CALL_C_SetOperationState ''C_SetOperationState'' (Some ''uayuu'') (Some ''''),
     rpc_call GCK_RPC_CALL_C_Login ''C_Login'' (Some ''uuay'') (Some ''''),
     rpc_call GCK_RPC_CALL_C_Logout ''C_Logout'' (Some ''u'') (Some ''''),
     rpc_call GCK_RPC_CALL_C_CreateObject ''C_CreateObject'' (Some ''uaA'') (Some ''u''),
     rpc_call GCK_RPC_CALL_C_CopyObject ''C_CopyObject'' (Some ''uuaA'') (Some ''u''),
     rpc_call GCK_RPC_CALL_C_DestroyObject ''C_DestroyObject'' (Some ''uu'') (Some ''''),
     rpc_call GCK_RPC_CALL_C_GetObjectSize ''C_GetObjectSize'' (Some ''uu'') (Some ''u''),
     rpc_call GCK_RPC_CALL_C_GetAttributeValue ''C_GetAttributeValue'' (Some ''uufA'') (Some ''aAu''),
     rpc_call GCK_RPC_CALL_C_SetAttributeValue ''C_SetAttributeValue'' (Some ''uuaA'') (Some ''''),
     rpc_call GCK_RPC_CALL_C_FindObjectsInit ''C_FindObjectsInit'' (Some ''uaA'') (Some ''''),
     rpc_call GCK_RPC_CALL_C_FindObjects ''C_FindObjects'' (Some ''ufu'') (Some ''au''),
     rpc_call GCK_RPC_CALL_C_FindObjectsFinal ''C_FindObjectsFinal'' (Some ''u'') (Some ''''),
     rpc_call GCK_RPC_CALL_C_EncryptInit ''C_EncryptInit'' (Some ''uMu'') (Some ''''),
     rpc_call GCK_RPC_CALL_C_Encrypt ''C_Encrypt'' (Some ''uayfy'') (Some ''ay''),
     rpc_call GCK_RPC_CALL_C_EncryptUpdate ''C_EncryptUpdate'' (Some ''uayfy'') (Some ''ay''),
     rpc_call GCK_RPC_CALL_C_EncryptFinal ''C_EncryptFinal'' (Some ''ufy'') (Some ''ay''),
     rpc_call GCK_RPC_CALL_C_DecryptInit ''C_DecryptInit'' (Some ''uMu'') (Some ''''),
     rpc_call GCK_RPC_CALL_C_Decrypt ''C_Decrypt'' (Some ''uayfy'') (Some ''ay''),
     rpc_call GCK_RPC_CALL_C_DecryptUpdate ''C_DecryptUpdate'' (Some ''uayfy'') (Some ''ay''),
     rpc_call GCK_RPC_CALL_C_DecryptFinal ''C_DecryptFinal'' (Some ''ufy'') (Some ''ay''),
     rpc_call GCK_RPC_CALL_C_DigestInit ''C_DigestInit'' (Some ''uM'') (Some ''''),
     rpc_call GCK_RPC_CALL_C_Digest ''C_Digest'' (Some ''uayfy'') (Some ''ay''),
     rpc_call GCK_RPC_CALL_C_DigestUpdate ''C_DigestUpdate'' (Some ''uay'') (Some ''''),
     rpc_call GCK_RPC_CALL_C_DigestKey ''C_DigestKey'' (Some ''uu'') (Some ''''),
     rpc_call GCK_RPC_CALL_C_DigestFinal ''C_DigestFinal'' (Some ''ufy'') (Some ''ay''),
     rpc_call GCK_RPC_CALL_C_SignInit ''C_SignInit'' (Some ''uMu'') (Some ''''),
     rpc_call GCK_RPC_CALL_C_Sign ''C_Sign'' (Some ''uayfy'') (Some ''ay''),
     rpc_call GCK_RPC_CALL_C_SignUpdate ''C_SignUpdate'' (Some ''uay'') (Some ''''),
     rpc_call GCK_RPC_CALL_C_SignFinal ''C_SignFinal'' (Some ''ufy'') (Some ''ay''),
     rpc_call GCK_RPC_CALL_C_SignRecoverInit ''C_SignRecoverInit'' (Some ''uMu'') (Some ''''),
     rpc_call GCK_RPC_CALL_C_SignRecover ''C_SignRecover'' (Some ''uayfy'') (Some ''ay''),
     rpc_call GCK_RPC_CALL_C_VerifyInit ''C_VerifyInit'' (Some ''uMu'') (Some ''''),
     rpc_call GCK_RPC_CALL_C_Verify ''C_Verify'' (Some ''uayay'') (Some ''''),
     rpc_call GCK_RPC_CALL_C_VerifyUpdate ''C_VerifyUpdate'' (Some ''uay'') (Some ''''),
     rpc_call GCK_RPC_CALL_C_VerifyFinal ''C_VerifyFinal'' (Some ''uay'') (Some ''''),
     rpc_call GCK_RPC_CALL_C_VerifyRecoverInit ''C_VerifyRecoverInit'' (Some ''uMu'') (Some ''''),
     rpc_call GCK_RPC_CALL_C_VerifyRecover ''C_VerifyRecover'' (Some ''uayfy'') (Some ''ay''),
     rpc_call GCK_RPC_CALL_C_DigestEncryptUpdate ''C_DigestEncryptUpdate'' (Some ''uayfy'') (Some ''ay''),
     rpc_call GCK_RPC_CALL_C_DecryptDigestUpdate ''C_DecryptDigestUpdate'' (Some ''uayfy'') (Some ''ay''),
     rpc_call GCK_RPC_CALL_C_SignEncryptUpdate ''C_SignEncryptUpdate'' (Some ''uayfy'') (Some ''ay''),
     rpc_call GCK_RPC_CALL_C_DecryptVerifyUpdate ''C_DecryptVerifyUpdate'' (Some ''uayfy'') (Some ''ay''),
     rpc_call GCK_RPC_CALL_C_GenerateKey ''C_GenerateKey'' (Some ''uMaA'') (Some ''u''),
     rpc_call GCK_RPC_CALL_C_GenerateKeyPair ''C_GenerateKeyPair'' (Some ''uMaAaA'') (Some ''uu''),
     rpc_call GCK_RPC_CALL_C_WrapKey ''C_WrapKey'' (Some ''uMuufy'') (Some ''ay''),
     rpc_call GCK_RPC_CALL_C_UnwrapKey ''C_UnwrapKey'' (Some ''uMuayaA'') (Some ''u''),
     rpc_call GCK_RPC_CALL_C_DeriveKey ''C_DeriveKey'' (Some ''uMuaA'') (Some ''u''),
     rpc_call GCK_RPC_CALL_C_SeedRandom ''C_SeedRandom'' (Some ''uay'') (Some ''''),
     rpc_call GCK_RPC_CALL_C_GenerateRandom ''C_GenerateRandom'' (Some ''ufy'') (Some ''ay'')]"

section \<open>Constants of the protocol\<close>

datatype GckRpcMessageType = GCK_RPC_REQUEST | GCK_RPC_RESPONSE

definition c_bytes :: "string \<Rightarrow> block" where
  "c_bytes s = map of_char s"

definition GCK_RPC_HANDSHAKE :: block where
  "GCK_RPC_HANDSHAKE = c_bytes ''PRIVATE-GNOME-KEYRING-PKCS11-PROTOCOL-V-3''"

abbreviation (input) GCK_RPC_BYTE_BUFFER_NULL_DATA :: byte where
  "GCK_RPC_BYTE_BUFFER_NULL_DATA \<equiv> 1"
abbreviation (input) GCK_RPC_BYTE_BUFFER_NULL_COUNT :: byte where
  "GCK_RPC_BYTE_BUFFER_NULL_COUNT \<equiv> 2"

section \<open>The table agrees with the call numbers\<close>

lemma length_c_bytes [simp]: "length (c_bytes s) = length s"
  by (simp add: c_bytes_def)

lemma length_gck_rpc_calls [simp]: "length gck_rpc_calls = nat GCK_RPC_CALL_MAX"
  by (simp add: gck_rpc_calls_def)

end
