(* ===== verification/Rpc_Util.thy ===== *)
theory Rpc_Util
  imports Rpc_Calls
begin

text \<open>
  The helpers of \<^verbatim>\<open>gck-rpc-util.c\<close> shared by module and daemon: which mechanisms can be
  forwarded, the purge of a mechanism list, which attributes hold a \<open>CK_ULONG\<close>, and the
  parser of \<open>host:port\<close> strings.
\<close>

section \<open>Mechanisms\<close>

definition gck_rpc_mechanism_has_sane_parameters :: "CK_ULONG \<Rightarrow> bool" where
  "gck_rpc_mechanism_has_sane_parameters type =
     (type \<in> set [CKM_RSA_PKCS_OAEP, CKM_RSA_PKCS_PSS, CKM_AES_CBC_PAD])"

definition gck_rpc_mechanism_has_no_parameters :: "CK_ULONG \<Rightarrow> bool" where
  "gck_rpc_mechanism_has_no_parameters mech =
     (mech \<in> set [
       CKM_RSA_PKCS_KEY_PAIR_GEN, CKM_RSA_X9_31_KEY_PAIR_GEN, CKM_RSA_PKCS, CKM_RSA_9796,
       CKM_RSA_X_509, CKM_RSA_X9_31, CKM_MD2_RSA_PKCS, CKM_MD5_RSA_PKCS, CKM_SHA1_RSA_PKCS,
       CKM_SHA256_RSA_PKCS, CKM_SHA384_RSA_PKCS, CKM_SHA512_RSA_PKCS, CKM_RIPEMD128_RSA_PKCS,
       CKM_RIPEMD160_RSA_PKCS, CKM_SHA1_RSA_X9_31, CKM_DSA_KEY_PAIR_GEN, CKM_DSA_PARAMETER_GEN,
       CKM_DSA, CKM_DSA_SHA1, CKM_FORTEZZA_TIMESTAMP, CKM_EC_KEY_PAIR_GEN, CKM_ECDSA,
       CKM_ECDSA_SHA1, CKM_DH_PKCS_KEY_PAIR_GEN, CKM_DH_PKCS_PARAMETER_GEN,
       CKM_X9_42_DH_KEY_PAIR_GEN, CKM_X9_42_DH_PARAMETER_GEN, CKM_KEA_KEY_PAIR_GEN,
       CKM_GENERIC_SECRET_KEY_GEN, CKM_RC2_KEY_GEN, CKM_RC4_KEY_GEN, CKM_RC4, CKM_RC5_KEY_GEN,
       CKM_AES_KEY_GEN, CKM_AES_ECB, CKM_AES_MAC, CKM_DES_KEY_GEN, CKM_DES2_KEY_GEN,
       CKM_DES3_KEY_GEN, CKM_CDMF_KEY_GEN, CKM_CAST_KEY_GEN, CKM_CAST3_KEY_GEN,
       CKM_CAST128_KEY_GEN, CKM_IDEA_KEY_GEN, CKM_SSL3_PRE_MASTER_KEY_GEN,
       CKM_TLS_PRE_MASTER_KEY_GEN, CKM_SKIPJACK_KEY_GEN, CKM_BATON_KEY_GEN,
       CKM_JUNIPER_KEY_GEN, CKM_RC2_ECB, CKM_DES_ECB, CKM_DES3_ECB, CKM_CDMF_ECB, CKM_CAST_ECB,
       CKM_CAST3_ECB, CKM_CAST128_ECB, CKM_RC5_ECB, CKM_IDEA_ECB, CKM_RC2_MAC, CKM_DES_MAC,
       CKM_DES3_MAC, CKM_CDMF_MAC, CKM_CAST_MAC, CKM_CAST3_MAC, CKM_RC5_MAC, CKM_IDEA_MAC,
       CKM_SSL3_MD5_MAC, CKM_SSL3_SHA1_MAC, CKM_SKIPJACK_WRAP, CKM_BATON_WRAP,
       CKM_JUNIPER_WRAP, CKM_MD2, CKM_MD2_HMAC, CKM_MD5, CKM_MD5_HMAC, CKM_SHA_1,
       CKM_SHA_1_HMAC, CKM_SHA256, CKM_SHA256_HMAC, CKM_SHA384, CKM_SHA384_HMAC, CKM_SHA512,
       CKM_SHA512_HMAC, CKM_FASTHASH, CKM_RIPEMD128, CKM_RIPEMD128_HMAC, CKM_RIPEMD160,
       CKM_RIPEMD160_HMAC, CKM_KEY_WRAP_LYNKS])"

definition gck_rpc_mechanism_is_supported :: "CK_ULONG \<Rightarrow> bool" where
  "gck_rpc_mechanism_is_supported mech =
     (gck_rpc_mechanism_has_no_parameters mech \<or> gck_rpc_mechanism_has_sane_parameters mech)"

text \<open>
  The loop of \<open>gck_rpc_mechanism_list_purge\<close>. \<open>mechs\<close> is the whole array the pointer refers
  to and \<open>n\<close> the value of \<open>*n_mechs\<close>; the \<open>memmove\<close> copies \<open>*n_mechs - i\<close> elements that start
  at \<open>mechs[i + 1]\<close>.
\<close>

definition purge_count :: "CK_ULONG \<Rightarrow> int" where
  "purge_count n = sint (ucast n :: u32)"

lemma purge_count_le: "purge_count n \<le> int (unat n)"
proof -
  have "sint (ucast n :: u32) \<le> uint (ucast n :: u32)"
    by (simp add: sint_uint signed_take_bit_int_less_eq_self_iff order_trans [of _ 0])
  also have "\<dots> \<le> uint n" by (simp add: unsigned_ucast_eq take_bit_int_less_eq_self_iff)
  finally show ?thesis by (simp add: purge_count_def)
qed

function purge_loop :: "CK_ULONG list \<Rightarrow> CK_ULONG \<Rightarrow> nat \<Rightarrow> (CK_ULONG list \<times> CK_ULONG) outcome"
where
  "purge_loop mechs n i =
     (if int i < purge_count n then
        if i \<ge> length mechs then Fault
        else if \<not> gck_rpc_mechanism_has_no_parameters (mechs ! i) \<and>
                \<not> gck_rpc_mechanism_has_sane_parameters (mechs ! i) then
          if i + 1 + (unat n - i) \<le> length mechs then
            purge_loop (take i mechs @ take (unat n - i) (drop (i + 1) mechs) @ drop (unat n) mechs)
              (n - 1) i
          else Fault
        else purge_loop mechs n (i + 1)
      else Ret (mechs, n))"
  by pat_completeness auto
termination
proof (relation "measure (\<lambda>(mechs, n, i). unat n - i)", goal_cases)
  case (2 mechs n i)
  then have "i < unat n" using purge_count_le [of n] by linarith
  moreover from this have "unat (n - 1) = unat n - 1" by (simp add: unat_sub_if' word_le_nat_alt)
  ultimately show ?case by simp
next
  case (3 mechs n i)
  then have "i < unat n" using purge_count_le [of n] by linarith
  then show ?case by simp
qed simp

declare purge_loop.simps [simp del]

definition gck_rpc_mechanism_list_purge ::
  "CK_ULONG list option \<Rightarrow> CK_ULONG option \<Rightarrow> (CK_ULONG list \<times> CK_ULONG) outcome" where
  "gck_rpc_mechanism_list_purge mechs n_mechs =
     assert_c (mechs \<noteq> None) (assert_c (n_mechs \<noteq> None)
       (purge_loop (the mechs) (the n_mechs) 0))"

section \<open>Attributes that hold a \<open>CK_ULONG\<close>\<close>

definition gck_rpc_has_ulong_parameter :: "CK_ULONG \<Rightarrow> bool" where
  "gck_rpc_has_ulong_parameter type =
     (type \<in> set [CKA_CLASS, CKA_KEY_TYPE, CKA_CERTIFICATE_TYPE, CKA_HW_FEATURE_TYPE,
       CKA_MODULUS_BITS])"

text \<open>The first argument is the platform's \<open>sizeof (CK_ULONG)\<close>.\<close>

definition gck_rpc_has_bad_sized_ulong_parameter :: "size_t \<Rightarrow> CK_ATTRIBUTE \<Rightarrow> bool" where
  "gck_rpc_has_bad_sized_ulong_parameter ulong_size attr =
     (if pValue attr = None then False
      else if 8 \<noteq> ulValueLen attr then False
      else if ulong_size = ulValueLen attr then False
      else gck_rpc_has_ulong_parameter (attr_type attr))"

section \<open>Host and port\<close>

text \<open>
  \<open>strdup\<close> may fail: \<open>dup_ok\<close>. The result is the truncated \<open>*host\<close> and \<open>*port\<close>, with \<open>None\<close>
  for a null port; a failed call is \<open>None\<close>.
\<close>

definition strchr :: "string \<Rightarrow> char \<Rightarrow> (string \<times> string) option" where
  "strchr s c =
     (if c \<in> set s then Some (takeWhile (\<lambda>x. x \<noteq> c) s, tl (dropWhile (\<lambda>x. x \<noteq> c) s)) else None)"

definition gck_rpc_parse_host_port :: "bool \<Rightarrow> string \<Rightarrow> (string \<times> string option) option" where
  "gck_rpc_parse_host_port dup_ok pfx =
     (let is_ipv6 = (take 1 pfx = ''['');
          host = (if is_ipv6 then tl pfx else pfx);
          sep = (if is_ipv6 then CHR '']'' else CHR '':'') in
      if \<not> dup_ok then None
      else case strchr host sep of
             None \<Rightarrow> Some (host, None)
           | Some (before, after) \<Rightarrow>
               (let is_ipv6 = (sep = CHR '']'');
                    port = (if is_ipv6 \<and> take 1 after = '':'' then tl after else after) in
                Some (before, Some port)))"

section \<open>The purge of a mechanism list\<close>

lemma purge_more:
  assumes "unat n < 2 ^ 31"
  shows "int i < purge_count n \<longleftrightarrow> i < unat n"
proof -
  have u: "unat (ucast n :: u32) = unat n"
    using assms by (simp add: unsigned_ucast_eq take_bit_nat_eq_self)
  moreover from this have "sint (ucast n :: u32) = int (unat (ucast n :: u32))"
    using assms by (simp add: sint_uint signed_take_bit_int_eq_self_iff uint_nat del: of_nat_unat)
  ultimately show ?thesis by (simp add: purge_count_def del: of_nat_unat)
qed

lemma filter_take_step:
  assumes "i < n" "n \<le> length xs"
  shows "filter P (take n xs) = filter P (take i xs) @ (if P (xs ! i) then [xs ! i] else []) @
    filter P (take (n - Suc i) (drop (Suc i) xs))"
proof -
  have "take n xs = take i xs @ take (n - i) (drop i xs)"
    using assms by (metis le_add_diff_inverse less_imp_le take_add)
  also have "take (n - i) (drop i xs) = xs ! i # take (n - Suc i) (drop (Suc i) xs)"
    using assms by (simp add: Cons_nth_drop_Suc [symmetric] Suc_diff_Suc [symmetric])
  finally show ?thesis by simp
qed

lemma take_shift:
  "i \<le> length xs \<Longrightarrow> k < length ys \<Longrightarrow>
   take (i + k) (take i xs @ take (Suc k) ys @ zs) = take i xs @ take k ys"
  by (simp add: min_def)

text \<open>
  With one element of room behind the list the purge keeps exactly the supported mechanisms,
  in their order.
\<close>

lemma purge_loop_spec:
  assumes "unat n < length mechs" "unat n < 2 ^ 31" "i \<le> unat n" "list_all gck_rpc_mechanism_is_supported (take i mechs)"
  shows "\<exists>mechs' n'. purge_loop mechs n i = Ret (mechs', n') \<and> length mechs' = length mechs \<and>
    unat n' \<le> unat n \<and> take (unat n') mechs' = filter gck_rpc_mechanism_is_supported (take (unat n) mechs)"
  using assms
proof (induction mechs n i rule: purge_loop.induct)
  case (1 mechs n i)
  note c = purge_more [OF 1(4)]
  show ?case
  proof (cases "i < unat n")
    case False
    then have "take (unat n) mechs = filter gck_rpc_mechanism_is_supported (take (unat n) mechs)"
      using 1(5,6) by (simp add: list_all_iff)
    then show ?thesis using False c by (subst purge_loop.simps) simp
  next
    case True
    have n: "unat (n - 1) = unat n - 1" using True by (simp add: unat_sub_if' word_le_nat_alt)
    show ?thesis
    proof (cases "gck_rpc_mechanism_is_supported (mechs ! i)")
      case True
      have "list_all gck_rpc_mechanism_is_supported (take (Suc i) mechs)"
        using 1(6) True \<open>i < unat n\<close> 1(3) by (simp add: take_Suc_conv_app_nth)
      moreover have "purge_loop mechs n i = purge_loop mechs n (i + 1)"
        using True \<open>i < unat n\<close> c 1(3)
        by (subst purge_loop.simps) (auto simp: gck_rpc_mechanism_is_supported_def)
      ultimately show ?thesis
        using 1(2) 1(3-5) True \<open>i < unat n\<close> c by (simp add: gck_rpc_mechanism_is_supported_def [of "mechs ! i"])
    next
      case F: False
      let ?m = "take i mechs @ take (unat n - i) (drop (i + 1) mechs) @ drop (unat n) mechs"
      have len: "length ?m = length mechs" using True 1(3) by simp
      have "take (unat n - 1) ?m = take i mechs @ take (unat n - Suc i) (drop (Suc i) mechs)"
        using take_shift [of i mechs "unat n - Suc i" "drop (Suc i) mechs" "drop (unat n) mechs"] True 1(3)
        by (simp add: Suc_diff_Suc)
      then have f: "filter gck_rpc_mechanism_is_supported (take (unat (n - 1)) ?m) =
          filter gck_rpc_mechanism_is_supported (take (unat n) mechs)"
        using filter_take_step [OF True, of mechs gck_rpc_mechanism_is_supported] F 1(3) n by simp
      have eq: "purge_loop mechs n i = purge_loop ?m (n - 1) i"
        using F True c 1(3) by (subst purge_loop.simps) (simp add: gck_rpc_mechanism_is_supported_def)
      have "\<exists>mechs' n'. purge_loop ?m (n - 1) i = Ret (mechs', n') \<and> length mechs' = length ?m \<and>
          unat n' \<le> unat (n - 1) \<and> take (unat n') mechs' = filter gck_rpc_mechanism_is_supported (take (unat (n - 1)) ?m)"
        using 1 F True c len n by (intro 1(1)) (simp_all add: gck_rpc_mechanism_is_supported_def)
      moreover have "unat (n - 1) \<le> unat n" using n by simp
      ultimately show ?thesis unfolding eq f len by (meson le_trans)
    qed
  qed
qed

text \<open>Without that room the first unsupported mechanism makes \<open>memmove\<close> read behind the array.\<close>

lemma purge_loop_overrun:
  assumes "unat n = length mechs" "unat n < 2 ^ 31" "i \<le> j" "j < unat n" "\<not> gck_rpc_mechanism_is_supported (mechs ! j)"
  shows "purge_loop mechs n i = Fault"
  using assms
proof (induction "j - i" arbitrary: i)
  case 0
  then show ?case
    by (subst purge_loop.simps) (simp add: purge_more gck_rpc_mechanism_is_supported_def)
next
  case (Suc k)
  then have "purge_loop mechs n (Suc i) = Fault" by simp
  then show ?case using Suc
    by (subst purge_loop.simps) (simp add: purge_more)
qed

lemma purge_loop_supported:
  assumes "unat n = length mechs" "unat n < 2 ^ 31" "list_all gck_rpc_mechanism_is_supported mechs" "i \<le> unat n"
  shows "purge_loop mechs n i = Ret (mechs, n)"
  using assms(4)
proof (induction "unat n - i" arbitrary: i)
  case 0
  then show ?case using assms by (subst purge_loop.simps) (simp add: purge_more)
next
  case (Suc k)
  then have "purge_loop mechs n (Suc i) = Ret (mechs, n)" by simp
  moreover have "gck_rpc_mechanism_is_supported (mechs ! i)" using assms Suc by (simp add: list_all_length)
  moreover have "i < unat n" using Suc by simp
  ultimately show ?case using Suc assms
    by (subst purge_loop.simps) (simp add: purge_more gck_rpc_mechanism_is_supported_def)
qed

end
