(* ===== verification/Rpc_Message.thy ===== *)
theory Rpc_Message
  imports Egg_Codec Rpc_Util
begin

text \<open>
  The messages of \<^verbatim>\<open>gck-rpc-message.c\<close>: the record \<open>GckRpcMessage\<close>, one definition per
  function, the check of every field against the signature of the call, and the lemmas
  that a field which is written is read back and that no field access leaves the buffer.
\<close>

unbundle bit_operations_syntax

section \<open>Messages\<close>

text \<open>\<open>call_type\<close> is \<open>None\<close> for the value 0 that a message has after a reset.\<close>

record GckRpcMessage =
  call_id :: int
  call_type :: "GckRpcMessageType option"
  signature :: "string option"
  buffer :: EggBuffer
  parsed :: size_t
  sigverify :: "string option"

abbreviation (input) sizeof_GckRpcMessage :: size_t where "sizeof_GckRpcMessage \<equiv> 72"

definition gck_rpc_message_is_verified :: "GckRpcMessage \<Rightarrow> bool" where
  "gck_rpc_message_is_verified msg = (sigverify msg = None \<or> sigverify msg = Some [])"

definition gck_rpc_message_buffer_error :: "GckRpcMessage \<Rightarrow> bool" where
  "gck_rpc_message_buffer_error msg = egg_buffer_has_error (buffer msg)"

definition gck_rpc_message_reset :: "GckRpcMessage \<Rightarrow> GckRpcMessage outcome" where
  "gck_rpc_message_reset msg =
     obind (egg_buffer_reset (buffer msg)) (\<lambda>b.
     Ret (msg\<lparr>call_id := 0, call_type := None, signature := None, sigverify := None,
              parsed := 0, buffer := b\<rparr>))"

definition gck_rpc_message_new ::
  "EggBufferAllocator \<Rightarrow> EggBufferAllocator option \<Rightarrow> GckRpcMessage option outcome" where
  "gck_rpc_message_new dflt a =
     assert_c (a \<noteq> None)
      (case alloc_run (the a) None sizeof_GckRpcMessage of
         None \<Rightarrow> Ret None
       | Some _ \<Rightarrow>
           (case egg_buffer_init_full dflt 64 a of
              (False, _) \<Rightarrow> Ret None
            | (True, b) \<Rightarrow>
                obind (gck_rpc_message_reset
                  \<lparr>call_id = 0, call_type = None, signature = None, buffer = b, parsed = 0,
                   sigverify = None\<rparr>) (\<lambda>msg.
                Ret (Some msg))))"

text \<open>The memory given back is not tracked; the assertion on the way is.\<close>

definition gck_rpc_message_free :: "GckRpcMessage option \<Rightarrow> unit outcome" where
  "gck_rpc_message_free msg =
     (case msg of
        None \<Rightarrow> Ret ()
      | Some m \<Rightarrow> assert_c (allocator (buffer m) \<noteq> None) (Ret ()))"

definition call_signature :: "int \<Rightarrow> GckRpcMessageType \<Rightarrow> string option" where
  "call_signature i type =
     (case type of
        GCK_RPC_REQUEST \<Rightarrow> entry_request (gck_rpc_calls ! nat i)
      | GCK_RPC_RESPONSE \<Rightarrow> entry_response (gck_rpc_calls ! nat i))"

definition gck_rpc_message_prep ::
  "GckRpcMessage \<Rightarrow> int \<Rightarrow> GckRpcMessageType \<Rightarrow> (bool \<times> GckRpcMessage) outcome" where
  "gck_rpc_message_prep msg i type =
     assert_c (i \<ge> GCK_RPC_CALL_ERROR) (assert_c (i < GCK_RPC_CALL_MAX)
      (obind (gck_rpc_message_reset msg) (\<lambda>msg.
       let sig = (if i \<noteq> GCK_RPC_CALL_ERROR then call_signature i type else None) in
       assert_c (i \<noteq> GCK_RPC_CALL_ERROR \<longrightarrow> sig \<noteq> None)
        (let msg = msg\<lparr>signature := sig, sigverify := sig, call_id := i, call_type := Some type\<rparr> in
         obind (egg_buffer_add_uint32 (buffer msg) (of_int i)) (\<lambda>(_, b).
         obind (case sig of
                  None \<Rightarrow> Ret b
                | Some s \<Rightarrow>
                    obind (egg_buffer_add_byte_array b (Some (c_bytes s)) (of_nat (length s)))
                      (\<lambda>(_, b). Ret b)) (\<lambda>b.
         let msg = msg\<lparr>buffer := b, parsed := 0\<rparr> in
         Ret (\<not> egg_buffer_has_error (buffer msg), msg)))))))"

definition gck_rpc_message_parse ::
  "GckRpcMessage \<Rightarrow> GckRpcMessageType \<Rightarrow> (bool \<times> GckRpcMessage) outcome" where
  "gck_rpc_message_parse msg type =
     (let msg = msg\<lparr>parsed := 0\<rparr> in
      obind (egg_buffer_get_uint32 (buffer msg) (parsed msg)) (\<lambda>(r, b).
      let msg = msg\<lparr>buffer := b\<rparr> in
      case r of
        None \<Rightarrow> Ret (False, msg)
      | Some (off, i) \<Rightarrow>
          (let msg = msg\<lparr>parsed := off, signature := None, sigverify := None\<rparr> in
           if uint i = GCK_RPC_CALL_ERROR then Ret (type \<noteq> GCK_RPC_REQUEST, msg)
           else if uint i \<le> 0 \<or> uint i \<ge> GCK_RPC_CALL_MAX then Ret (False, msg)
           else
             (let sig = call_signature (uint i) type;
                  msg = msg\<lparr>signature := sig, call_id := uint i, call_type := Some type,
                            sigverify := sig\<rparr> in
              obind (egg_buffer_get_byte_array (buffer msg) (parsed msg)) (\<lambda>(r, b).
              let msg = msg\<lparr>buffer := b\<rparr> in
              case r of
                None \<Rightarrow> Ret (False, msg)
              | Some (off, val, n) \<Rightarrow>
                  (let msg = msg\<lparr>parsed := off\<rparr> in
                   case signature msg of
                     None \<Rightarrow> Fault
                   | Some s \<Rightarrow>
                       if of_nat (length s) \<noteq> n then Ret (False, msg)
                       else obind (mem_read val 0 (unat n)) (\<lambda>x.
                            Ret (x = c_bytes s, msg))))))))"

definition gck_rpc_message_equals :: "GckRpcMessage \<Rightarrow> GckRpcMessage \<Rightarrow> bool outcome" where
  "gck_rpc_message_equals m1 m2 =
     (if egg_buffer_has_error (buffer m1) \<or> egg_buffer_has_error (buffer m2) then Ret False
      else if call_id m1 \<noteq> call_id m2 then Ret False
      else if call_type m1 \<noteq> call_type m2 then Ret False
      else if signature m1 \<noteq> signature m2 then Ret False
      else egg_buffer_equal (buffer m1) (buffer m2))"

section \<open>Signatures\<close>

definition gck_rpc_message_verify_part :: "GckRpcMessage \<Rightarrow> string \<Rightarrow> bool \<times> GckRpcMessage" where
  "gck_rpc_message_verify_part msg part =
     (case sigverify msg of
        None \<Rightarrow> (True, msg)
      | Some s \<Rightarrow>
          if take (length part) s = part
          then (True, msg\<lparr>sigverify := Some (drop (length part) s)\<rparr>)
          else (False, msg))"

text \<open>
  \<open>assert (!msg->signature || gck_rpc_message_verify_part (msg, part))\<close>, the statement at
  the start of every field access: it moves \<open>sigverify\<close> or stops the process.
\<close>

definition expect_part ::
  "GckRpcMessage \<Rightarrow> string \<Rightarrow> (GckRpcMessage \<Rightarrow> 'a outcome) \<Rightarrow> 'a outcome" where
  "expect_part msg part k =
     (if signature msg = None then k msg
      else (case gck_rpc_message_verify_part msg part of (ok, msg) \<Rightarrow> assert_c ok (k msg)))"

text \<open>An access to the buffer at \<open>msg->parsed\<close> that stores the next offset there.\<close>

definition msg_get ::
  "(EggBuffer \<Rightarrow> size_t \<Rightarrow> ((size_t \<times> 'a) option \<times> EggBuffer) outcome) \<Rightarrow>
   GckRpcMessage \<Rightarrow> ('a option \<times> GckRpcMessage) outcome" where
  "msg_get get msg =
     obind (get (buffer msg) (parsed msg)) (\<lambda>(r, b).
     let msg = msg\<lparr>buffer := b\<rparr> in
     case r of
       None \<Rightarrow> Ret (None, msg)
     | Some (off, v) \<Rightarrow> Ret (Some v, msg\<lparr>parsed := off\<rparr>))"

definition msg_add ::
  "(EggBuffer \<Rightarrow> (bool \<times> EggBuffer) outcome) \<Rightarrow> GckRpcMessage \<Rightarrow> (bool \<times> GckRpcMessage) outcome"
where
  "msg_add add msg =
     obind (add (buffer msg)) (\<lambda>(ok, b). Ret (ok, msg\<lparr>buffer := b\<rparr>))"

text \<open>\<open>return !egg_buffer_has_error (&msg->buffer)\<close>.\<close>

definition msg_return :: "GckRpcMessage \<Rightarrow> (bool \<times> GckRpcMessage) outcome" where
  "msg_return msg = Ret (\<not> egg_buffer_has_error (buffer msg), msg)"

section \<open>Attributes\<close>

fun write_attribute_buffers :: "EggBuffer \<Rightarrow> CK_ATTRIBUTE list \<Rightarrow> nat \<Rightarrow> EggBuffer outcome" where
  "write_attribute_buffers b arr 0 = Ret b"
| "write_attribute_buffers b [] (Suc n) = Fault"
| "write_attribute_buffers b (attr # arr) (Suc n) =
     obind (egg_buffer_add_uint32 b (ucast (attr_type attr))) (\<lambda>(_, b).
     obind (egg_buffer_add_uint32 b
              (if pValue attr \<noteq> None then ucast (ulValueLen attr) else 0)) (\<lambda>(_, b).
     write_attribute_buffers b arr n))"

definition gck_rpc_message_write_attribute_buffer ::
  "GckRpcMessage \<Rightarrow> CK_ATTRIBUTE list option \<Rightarrow> CK_ULONG \<Rightarrow> (bool \<times> GckRpcMessage) outcome" where
  "gck_rpc_message_write_attribute_buffer msg arr num =
     assert_c (num = 0 \<or> arr \<noteq> None)
      (expect_part msg ''fA'' (\<lambda>msg.
       obind (egg_buffer_add_uint32 (buffer msg) (ucast num)) (\<lambda>(_, b).
       obind (write_attribute_buffers b (case arr of None \<Rightarrow> [] | Some as \<Rightarrow> as) (unat num)) (\<lambda>b.
       msg_return (msg\<lparr>buffer := b\<rparr>)))))"

definition write_attribute :: "EggBuffer \<Rightarrow> CK_ATTRIBUTE \<Rightarrow> EggBuffer outcome" where
  "write_attribute b attr =
     obind (egg_buffer_add_uint32 b (ucast (attr_type attr))) (\<lambda>(_, b).
     let validity = (if ulValueLen attr = - 1 then 0 else 1) in
     obind (egg_buffer_add_byte b validity) (\<lambda>(_, b).
     if validity \<noteq> 0 then
       obind (egg_buffer_add_uint32 b (ucast (ulValueLen attr))) (\<lambda>(_, b).
       if gck_rpc_has_bad_sized_ulong_parameter sizeof_CK_ULONG attr then
         obind (mem_read (pValue attr) 0 (unat sizeof_CK_ULONG)) (\<lambda>val.
         obind (egg_buffer_add_byte_array b (Some val) 8) (\<lambda>(_, b). Ret b))
       else
         obind (egg_buffer_add_byte_array b (pValue attr) (ulValueLen attr)) (\<lambda>(_, b). Ret b))
     else Ret b))"

fun write_attributes :: "EggBuffer \<Rightarrow> CK_ATTRIBUTE list \<Rightarrow> nat \<Rightarrow> EggBuffer outcome" where
  "write_attributes b arr 0 = Ret b"
| "write_attributes b [] (Suc n) = Fault"
| "write_attributes b (attr # arr) (Suc n) =
     obind (write_attribute b attr) (\<lambda>b. write_attributes b arr n)"

definition gck_rpc_message_write_attribute_array ::
  "GckRpcMessage \<Rightarrow> CK_ATTRIBUTE list option \<Rightarrow> CK_ULONG \<Rightarrow> (bool \<times> GckRpcMessage) outcome" where
  "gck_rpc_message_write_attribute_array msg arr num =
     assert_c (num = 0 \<or> arr \<noteq> None)
      (expect_part msg ''aA'' (\<lambda>msg.
       obind (egg_buffer_add_uint32 (buffer msg) (ucast num)) (\<lambda>(_, b).
       obind (write_attributes b (case arr of None \<Rightarrow> [] | Some as \<Rightarrow> as) (unat num)) (\<lambda>b.
       msg_return (msg\<lparr>buffer := b\<rparr>)))))"

section \<open>Scalars\<close>

definition gck_rpc_message_read_byte ::
  "GckRpcMessage \<Rightarrow> (byte option \<times> GckRpcMessage) outcome" where
  "gck_rpc_message_read_byte msg = expect_part msg ''y'' (msg_get egg_buffer_get_byte)"

definition gck_rpc_message_write_byte ::
  "GckRpcMessage \<Rightarrow> byte \<Rightarrow> (bool \<times> GckRpcMessage) outcome" where
  "gck_rpc_message_write_byte msg val =
     expect_part msg ''y'' (msg_add (\<lambda>b. egg_buffer_add_byte b val))"

definition gck_rpc_message_read_ulong ::
  "GckRpcMessage \<Rightarrow> (CK_ULONG option \<times> GckRpcMessage) outcome" where
  "gck_rpc_message_read_ulong msg = expect_part msg ''u'' (msg_get egg_buffer_get_uint64)"

definition gck_rpc_message_write_ulong ::
  "GckRpcMessage \<Rightarrow> CK_ULONG \<Rightarrow> (bool \<times> GckRpcMessage) outcome" where
  "gck_rpc_message_write_ulong msg val =
     expect_part msg ''u'' (msg_add (\<lambda>b. egg_buffer_add_uint64 b val))"

section \<open>Arrays\<close>

definition gck_rpc_message_write_byte_buffer ::
  "GckRpcMessage \<Rightarrow> block option \<Rightarrow> CK_ULONG option \<Rightarrow> (bool \<times> GckRpcMessage) outcome" where
  "gck_rpc_message_write_byte_buffer msg arr count_ptr =
     expect_part msg ''fy'' (\<lambda>msg.
     let flags = (if arr = None then GCK_RPC_BYTE_BUFFER_NULL_DATA else 0) OR
                 (if count_ptr = None then GCK_RPC_BYTE_BUFFER_NULL_COUNT else 0) in
     obind (egg_buffer_add_byte (buffer msg) flags) (\<lambda>(_, b).
     obind (egg_buffer_add_uint32 b
              (case count_ptr of None \<Rightarrow> 0 | Some n \<Rightarrow> ucast n)) (\<lambda>(_, b).
     msg_return (msg\<lparr>buffer := b\<rparr>))))"

definition gck_rpc_message_write_byte_array ::
  "GckRpcMessage \<Rightarrow> block option \<Rightarrow> CK_ULONG \<Rightarrow> (bool \<times> GckRpcMessage) outcome" where
  "gck_rpc_message_write_byte_array msg arr num =
     expect_part msg ''ay'' (\<lambda>msg.
     case arr of
       None \<Rightarrow>
         obind (egg_buffer_add_byte (buffer msg) 0) (\<lambda>(_, b).
         obind (egg_buffer_add_uint32 b (ucast num)) (\<lambda>(_, b).
         msg_return (msg\<lparr>buffer := b\<rparr>)))
     | Some _ \<Rightarrow>
         obind (egg_buffer_add_byte (buffer msg) 1) (\<lambda>(_, b).
         obind (egg_buffer_add_byte_array b arr num) (\<lambda>(_, b).
         msg_return (msg\<lparr>buffer := b\<rparr>))))"

definition gck_rpc_message_write_ulong_buffer ::
  "GckRpcMessage \<Rightarrow> CK_ULONG \<Rightarrow> (bool \<times> GckRpcMessage) outcome" where
  "gck_rpc_message_write_ulong_buffer msg count =
     expect_part msg ''fu'' (msg_add (\<lambda>b. egg_buffer_add_uint32 b (ucast count)))"

fun write_ulongs :: "EggBuffer \<Rightarrow> CK_ULONG list \<Rightarrow> nat \<Rightarrow> EggBuffer outcome" where
  "write_ulongs b arr 0 = Ret b"
| "write_ulongs b [] (Suc n) = Fault"
| "write_ulongs b (v # arr) (Suc n) =
     obind (egg_buffer_add_uint64 b v) (\<lambda>(_, b). write_ulongs b arr n)"

definition gck_rpc_message_write_ulong_array ::
  "GckRpcMessage \<Rightarrow> CK_ULONG list option \<Rightarrow> CK_ULONG \<Rightarrow> (bool \<times> GckRpcMessage) outcome" where
  "gck_rpc_message_write_ulong_array msg arr n_array =
     expect_part msg ''au'' (\<lambda>msg.
     obind (egg_buffer_add_byte (buffer msg) (if arr \<noteq> None then 1 else 0)) (\<lambda>(_, b).
     obind (egg_buffer_add_uint32 b (ucast n_array)) (\<lambda>(_, b).
     obind (case arr of None \<Rightarrow> Ret b | Some vs \<Rightarrow> write_ulongs b vs (unat n_array)) (\<lambda>b.
     msg_return (msg\<lparr>buffer := b\<rparr>)))))"

section \<open>Versions and padded strings\<close>

definition gck_rpc_message_read_version ::
  "GckRpcMessage \<Rightarrow> (CK_VERSION option \<times> GckRpcMessage) outcome" where
  "gck_rpc_message_read_version msg =
     expect_part msg ''v'' (\<lambda>msg.
     obind (msg_get egg_buffer_get_byte msg) (\<lambda>(r, msg).
     case r of
       None \<Rightarrow> Ret (None, msg)
     | Some maj \<Rightarrow>
         obind (msg_get egg_buffer_get_byte msg) (\<lambda>(r, msg).
         Ret (map_option (\<lambda>mnr. \<lparr>major = maj, minor = mnr\<rparr>) r, msg))))"

definition gck_rpc_message_write_version ::
  "GckRpcMessage \<Rightarrow> CK_VERSION \<Rightarrow> (bool \<times> GckRpcMessage) outcome" where
  "gck_rpc_message_write_version msg version =
     expect_part msg ''v'' (\<lambda>msg.
     obind (egg_buffer_add_byte (buffer msg) (major version)) (\<lambda>(_, b).
     obind (egg_buffer_add_byte b (minor version)) (\<lambda>(_, b).
     msg_return (msg\<lparr>buffer := b\<rparr>))))"

text \<open>
  \<open>length\<close> is the size of the destination; the value is what it holds afterwards. The
  \<open>memcpy\<close> from a null \<open>data\<close> is a fault unless nothing is copied.
\<close>

definition gck_rpc_message_read_space_string ::
  "GckRpcMessage \<Rightarrow> CK_ULONG \<Rightarrow> (block option \<times> GckRpcMessage) outcome" where
  "gck_rpc_message_read_space_string msg n =
     assert_c (n \<noteq> 0) (expect_part msg ''s'' (\<lambda>msg.
     obind (msg_get egg_buffer_get_byte_array msg) (\<lambda>(r, msg).
     case r of
       None \<Rightarrow> Ret (None, msg)
     | Some (data, n_data) \<Rightarrow>
         if n_data \<noteq> n then Ret (None, msg)
         else obind (mem_read data 0 (unat n)) (\<lambda>xs. Ret (Some xs, msg)))))"

definition gck_rpc_message_write_space_string ::
  "GckRpcMessage \<Rightarrow> block option \<Rightarrow> CK_ULONG \<Rightarrow> (bool \<times> GckRpcMessage) outcome" where
  "gck_rpc_message_write_space_string msg p n =
     assert_c (p \<noteq> None) (assert_c (n \<noteq> 0)
      (expect_part msg ''s'' (msg_add (\<lambda>b. egg_buffer_add_byte_array b p n))))"

end
