(* ===== verification/Rpc_Fields.thy ===== *)
theory Rpc_Fields
  imports Rpc_Message
begin

text \<open>
  The fields of a message: what a write appends and what a read returns, for every field
  function of \<^verbatim>\<open>gck-rpc-message.c\<close>. The contract of a writer and the reader that belongs to it
  is the locale \<open>msg_field\<close>; it is interpreted on the scalar, version and padded-string
  fields, whose readers are in the same file.
\<close>

unbundle bit_operations_syntax

section \<open>The position in the signature\<close>

definition sig_next :: "GckRpcMessage \<Rightarrow> string \<Rightarrow> GckRpcMessage option" where
  "sig_next m part =
     (if signature m = None then Some m
      else case sigverify m of
             None \<Rightarrow> Some m
           | Some s \<Rightarrow>
               if take (length part) s = part
               then Some (m\<lparr>sigverify := Some (drop (length part) s)\<rparr>) else None)"

lemma expect_part_eq:
  "expect_part m part k = (case sig_next m part of None \<Rightarrow> Abort | Some m1 \<Rightarrow> k m1)"
  by (simp add: expect_part_def sig_next_def gck_rpc_message_verify_part_def split: option.splits)

lemma sig_next_frame:
  assumes "sig_next m part = Some m1"
  shows "buffer m1 = buffer m" "parsed m1 = parsed m" "signature m1 = signature m" "call_id m1 = call_id m" "call_type m1 = call_type m"
  using assms by (auto simp: sig_next_def split: if_splits option.splits)

lemma sig_next_literal [simp]:
  "sigverify m = Some (part @ rest) \<Longrightarrow>
   sig_next m part = Some (if signature m = None then m else m\<lparr>sigverify := Some rest\<rparr>)"
  by (simp add: sig_next_def)

section \<open>Appending\<close>

definition egg_out :: "EggBuffer \<Rightarrow> block \<Rightarrow> bool \<Rightarrow> EggBuffer \<Rightarrow> bool" where
  "egg_out b xs ok b' \<longleftrightarrow>
     egg_wf b' \<and> allocator b' = allocator b \<and> prefix (contents b) (contents b') \<and>
     failures b \<le> failures b' \<and> allocated_len b \<le> allocated_len b' \<and>
     (spacious b (length xs) \<and> failures b = 0 \<longrightarrow> ok) \<and>
     (if ok then contents b' = contents b @ xs \<and> failures b' = failures b
      else 0 < failures b')"

lemma roomy_out: "egg_out b xs ok b' \<Longrightarrow> roomy b \<Longrightarrow> roomy b'"
  by (auto simp: egg_out_def roomy_def intro: order.strict_trans2)

lemma spacious_out: "egg_out b xs True b' \<Longrightarrow> spacious b (length xs + k) \<Longrightarrow> spacious b' k"
  using roomy_out [of b xs True b'] by (auto simp: spacious_def egg_out_def)

lemma egg_out_trans:
  assumes 1: "egg_out b xs True b'" and 2: "egg_out b' ys ok b''"
  shows "egg_out b (xs @ ys) ok b''"
proof -
  have "ok" if "spacious b (length (xs @ ys))" "failures b = 0"
    using that spacious_out [OF 1, of "length ys"] assms by (simp add: egg_out_def)
  then show ?thesis
    using assms by (auto simp: egg_out_def dest: append_prefixD split: if_splits)
qed

lemma egg_out_fail_longer: "egg_out b xs False b' \<Longrightarrow> egg_out b (xs @ ys) False b'"
  using spacious_mono [of b "length (xs @ ys)" "length xs"] by (auto simp: egg_out_def)

text \<open>Some writes whose results were ignored; \<open>P\<close> holds when all of them succeeded.\<close>

definition egg_try :: "EggBuffer \<Rightarrow> block \<Rightarrow> bool \<Rightarrow> EggBuffer \<Rightarrow> bool" where
  "egg_try b xs P b' \<longleftrightarrow> (\<exists>ok. egg_app b xs ok b' \<and> (ok \<longrightarrow> P))"

lemma egg_tryI: "egg_app b xs ok b' \<Longrightarrow> (ok \<longrightarrow> P) \<Longrightarrow> egg_try b xs P b'"
  by (auto simp: egg_try_def)

lemma egg_try_wf: "egg_try b xs P b' \<Longrightarrow> egg_wf b'"
  by (auto simp: egg_try_def egg_app_wf)

lemma egg_try_refl: "egg_wf b \<Longrightarrow> egg_try b [] True b"
  by (rule egg_tryI [OF egg_app_refl]) simp_all

lemma egg_try_trans:
  assumes "egg_try b xs P b1" "egg_try b1 ys Q b2"
  shows "egg_try b (xs @ ys) (P \<and> Q) b2"
  using assms egg_app_trans unfolding egg_try_def by blast

lemma egg_out_app: "egg_app b xs ok b' \<Longrightarrow> egg_out b xs ok b'"
  by (auto simp: egg_app_def egg_out_def)

lemma egg_out_try:
  assumes "egg_try b xs P b'"
  shows "egg_out b xs (\<not> egg_buffer_has_error b') b'" "\<not> egg_buffer_has_error b' \<Longrightarrow> P"
proof -
  obtain ok where ok: "egg_app b xs ok b'" "ok \<longrightarrow> P" using assms by (auto simp: egg_try_def)
  then have "ok" if "\<not> egg_buffer_has_error b'"
    using that by (cases ok) (simp_all add: egg_app_def egg_buffer_has_error_def)
  then show "egg_out b xs (\<not> egg_buffer_has_error b') b'" "\<not> egg_buffer_has_error b' \<Longrightarrow> P"
    using ok by (cases ok; auto simp: egg_app_def egg_out_def egg_buffer_has_error_def)+
qed

lemma wp_try:
  assumes "wp m (\<lambda>(ok, b'). egg_app b xs ok b' \<and> (ok \<longrightarrow> P))"
    and "\<And>ok b'. egg_try b xs P b' \<Longrightarrow> Q (ok, b')"
  shows "wp m Q"
  using assms by (auto simp: egg_try_def elim!: wp_mono)

text \<open>One write of a sequence: it extends what the writes before it have added.\<close>

lemma wp_try_then:
  assumes "egg_try b0 xs P b" and "egg_wf b \<Longrightarrow> wp m (\<lambda>(ok, b'). egg_app b ys ok b' \<and> (ok \<longrightarrow> R))"
    and "\<And>b'. egg_try b0 (xs @ ys) (P \<and> R) b' \<Longrightarrow> wp (f b') Q"
  shows "wp (obind m (\<lambda>(_, b'). f b')) Q"
proof -
  have "wp (f b') Q" if "egg_app b ys ok b'" "ok \<longrightarrow> R" for ok b'
    using assms(3) egg_try_trans [OF assms(1) egg_tryI [OF that]] by simp
  then show ?thesis using assms(2) egg_try_wf [OF assms(1)] by (auto elim!: wp_mono)
qed

lemma try_add_byte:
  assumes "egg_try b0 xs P b" "\<And>b'. egg_try b0 (xs @ [v]) P b' \<Longrightarrow> wp (f b') Q"
  shows "wp (obind (egg_buffer_add_byte b v) (\<lambda>(_, b'). f b')) Q"
  using assms(2) by (intro wp_try_then [OF assms(1), where R = True])
    (auto intro: wp_mono [OF wp_add_byte])

lemma try_add_uint32:
  assumes "egg_try b0 xs P b"
    "\<And>b'. egg_try b0 (xs @ egg_buffer_encode_uint32 v) P b' \<Longrightarrow> wp (f b') Q"
  shows "wp (obind (egg_buffer_add_uint32 b v) (\<lambda>(_, b'). f b')) Q"
  using assms(2) by (intro wp_try_then [OF assms(1), where R = True])
    (auto intro: wp_mono [OF wp_add_uint32])

lemma try_add_uint64:
  assumes "egg_try b0 xs P b"
    "\<And>b'. egg_try b0 (xs @ encode_uint64 v) P b' \<Longrightarrow> wp (f b') Q"
  shows "wp (obind (egg_buffer_add_uint64 b v) (\<lambda>(_, b'). f b')) Q"
  using assms(2) by (intro wp_try_then [OF assms(1), where R = True])
    (auto intro: wp_mono [OF wp_add_uint64])

lemma try_add_byte_array:
  assumes "egg_try b0 xs P b" "\<And>ys. val = Some ys \<Longrightarrow> unat n \<le> length ys"
    "\<And>b'. egg_try b0 (xs @ encode_byte_array (map_option (take (unat n)) val))
            (P \<and> (val \<noteq> None \<longrightarrow> n < 0x7fffffff)) b' \<Longrightarrow> wp (f b') Q"
  shows "wp (obind (egg_buffer_add_byte_array b val n) (\<lambda>(_, b'). f b')) Q"
  using assms by (intro wp_try_then [OF assms(1) wp_add_byte_array]) auto

lemmas try_rules = try_add_byte try_add_uint32 try_add_uint64 try_add_byte_array

section \<open>What a field access does to its message\<close>

definition field_written ::
  "GckRpcMessage \<Rightarrow> string \<Rightarrow> block \<Rightarrow> bool \<Rightarrow> bool \<times> GckRpcMessage \<Rightarrow> bool" where
  "field_written m part xs P r \<longleftrightarrow>
     (case r of (ok, m') \<Rightarrow>
        \<exists>m1. sig_next m part = Some m1 \<and> m' = m1\<lparr>buffer := buffer m'\<rparr> \<and>
          egg_out (buffer m) xs ok (buffer m') \<and> (ok \<longrightarrow> P))"

definition egg_in :: "EggBuffer \<Rightarrow> EggBuffer \<Rightarrow> bool" where
  "egg_in b b' \<longleftrightarrow>
     egg_wf b' \<and> allocator b' = allocator b \<and> allocated_len b' = allocated_len b \<and>
     contents b' = contents b \<and> failures b \<le> failures b'"

definition field_read ::
  "GckRpcMessage \<Rightarrow> string \<Rightarrow> 'a option \<times> GckRpcMessage \<Rightarrow> bool" where
  "field_read m part r \<longleftrightarrow>
     (case r of (_, m') \<Rightarrow>
        \<exists>m1. sig_next m part = Some m1 \<and>
          m' = m1\<lparr>buffer := buffer m', parsed := parsed m'\<rparr> \<and> egg_in (buffer m) (buffer m'))"

text \<open>A read at the current position, before the signature is looked at.\<close>

definition got :: "GckRpcMessage \<Rightarrow> GckRpcMessage \<Rightarrow> bool" where
  "got m m' \<longleftrightarrow> m' = m\<lparr>buffer := buffer m', parsed := parsed m'\<rparr> \<and> egg_in (buffer m) (buffer m')"

lemma egg_in_refl: "egg_wf b \<Longrightarrow> egg_in b b"
  by (simp add: egg_in_def)

lemma roomy_in: "egg_in b b' \<Longrightarrow> roomy b' \<longleftrightarrow> roomy b"
  by (simp add: egg_in_def roomy_def)

lemma egg_in_trans: "egg_in b b1 \<Longrightarrow> egg_in b1 b2 \<Longrightarrow> egg_in b b2"
  by (auto simp: egg_in_def)

lemma got_refl: "egg_wf (buffer m) \<Longrightarrow> got m m"
  by (simp add: got_def egg_in_refl)

lemma got_trans: "got m m1 \<Longrightarrow> got m1 m2 \<Longrightarrow> got m m2"
  unfolding got_def by (metis GckRpcMessage.surjective GckRpcMessage.update_convs(4,5) egg_in_trans)

lemma got_wf: "got m m' \<Longrightarrow> egg_wf (buffer m')"
  by (auto simp: got_def egg_in_def)

lemma field_readI:
  "sig_next m part = Some m1 \<Longrightarrow> got m1 m' \<Longrightarrow> field_read m part (r, m')"
  using sig_next_frame(1) [of m part m1] by (auto simp: field_read_def got_def)

context buffer_codec
begin

lemma wp_msg_get:
  assumes "egg_wf (buffer m)"
  shows "wp (msg_get get m) (\<lambda>(r, m'). got m m')"
proof -
  have "wp (get (buffer m) (parsed m)) (\<lambda>(r, b'). egg_get (buffer m) (parsed m) r b')"
    using assms by (rule get_safe)
  then obtain r b' where g: "get (buffer m) (parsed m) = Ret (r, b')"
    and e: "egg_get (buffer m) (parsed m) r b'" by (auto elim: wp_RetE)
  show ?thesis
  proof (cases r)
    case None
    then have "got m (m\<lparr>buffer := b'\<rparr>)"
      using e by (simp add: got_def egg_get_def egg_in_def)
    then show ?thesis using g None by (simp add: msg_get_def)
  next
    case (Some p)
    obtain off v where "p = (off, v)" by (cases p)
    moreover have "got m (m\<lparr>buffer := b', parsed := off\<rparr>)"
      using e Some assms \<open>p = (off, v)\<close> by (auto simp: got_def egg_get_def egg_in_def)
    ultimately show ?thesis using g Some by (simp add: msg_get_def)
  qed
qed

lemma wp_get_then:
  assumes "got m0 m" "\<And>r m'. got m0 m' \<Longrightarrow> wp (f r m') Q"
  shows "wp (obind (msg_get get m) (\<lambda>(r, m'). f r m')) Q"
  using wp_msg_get [OF got_wf [OF assms(1)]] assms(2) got_trans [OF assms(1)]
  by (auto elim!: wp_mono)

lemma msg_get_enc:
  assumes "egg_wf (buffer m)" "valid v" "contents (buffer m) = pre @ enc v @ post"
    "unat (parsed m) = length pre"
  shows "msg_get get m =
    Ret (Some (view v), m\<lparr>parsed := parsed m + of_nat (length (enc v))\<rparr>)"
  using get_enc [OF assms] by (simp add: msg_get_def)

lemma wp_msg_add:
  assumes "egg_wf (buffer m)" "repr v" "sig_next m part = Some m1"
  shows "wp (msg_add (\<lambda>b. add b v) m1) (field_written m part (enc v) (valid v))"
  using add_app [OF assms(1,2)] assms(3) sig_next_frame(1) [OF assms(3)]
  by (auto simp: msg_add_def field_written_def elim!: wp_mono intro: egg_out_app)

end

lemma field_writtenI:
  assumes "sig_next m part = Some m1" "egg_try (buffer m) ys R b'" "ys = xs" "R \<Longrightarrow> P"
  shows "wp (msg_return (m1\<lparr>buffer := b'\<rparr>)) (field_written m part xs P)"
  using assms egg_out_try [OF assms(2)]
  by (auto simp: msg_return_def field_written_def)

lemmas got_rules = byte_codec.wp_get_then uint32_codec.wp_get_then uint64_codec.wp_get_then
  byte_array_codec.wp_get_then

text \<open>The pointer and the length that \<open>egg_buffer_get_byte_array\<close> returns belong together.\<close>

lemma byte_array_get_length:
  assumes "egg_wf (buffer m)" "msg_get egg_buffer_get_byte_array m = Ret (Some (d, k), m')"
  shows "unat k = length (cells d) \<and> unat k < 0x7fffffff"
proof -
  define n where "n = egg_buffer_decode_uint32 (take 4 (drop (unat (parsed m)) (contents (buffer m))))"
  have "unat n < 0x7fffffff" if "\<not> 0x7fffffff \<le> n"
    using that by (simp add: word_le_nat_alt)
  then show ?thesis using assms
    by (auto simp: msg_get_def obind_eq_Ret get_byte_array_eq n_def [symmetric]
        split: if_splits option.splits)
qed

section \<open>The contract of a field\<close>

locale msg_field =
  fixes part :: string
    and wr :: "GckRpcMessage \<Rightarrow> 'a \<Rightarrow> (bool \<times> GckRpcMessage) outcome"
    and rd :: "GckRpcMessage \<Rightarrow> ('b option \<times> GckRpcMessage) outcome"
    and enc :: "'a \<Rightarrow> block"
    and view :: "'a \<Rightarrow> 'b"
    and repr :: "'a \<Rightarrow> bool"
    and valid :: "'a \<Rightarrow> bool"
  assumes write_field: "sig_next m part = Some m1 \<Longrightarrow> egg_wf (buffer m) \<Longrightarrow> repr v \<Longrightarrow>
      wp (wr m v) (field_written m part (enc v) (valid v))"
    and read_enc: "sig_next m part = Some m1 \<Longrightarrow> egg_wf (buffer m) \<Longrightarrow> valid v \<Longrightarrow>
      contents (buffer m) = pre @ enc v @ post \<Longrightarrow> unat (parsed m) = length pre \<Longrightarrow>
      rd m = Ret (Some (view v), m1\<lparr>parsed := parsed m + of_nat (length (enc v))\<rparr>)"
    and read_field: "sig_next m part = Some m1 \<Longrightarrow> egg_wf (buffer m) \<Longrightarrow>
      wp (rd m) (field_read m part)"
begin

text \<open>
  What one message was given at its end, another message that received the bytes reads
  back at the same position.
\<close>

lemma write_then_read:
  assumes "sig_next m part = Some m1" "egg_wf (buffer m)" "repr v" "wr m v = Ret (True, m')"
    and "sig_next r part = Some r1" "egg_wf (buffer r)"
    and "prefix (contents (buffer m')) (contents (buffer r))" "parsed r = len (buffer m)"
  shows "rd r = Ret (Some (view v), r1\<lparr>parsed := len (buffer m')\<rparr>)"
proof -
  have "field_written m part (enc v) (valid v) (True, m')"
    using write_field [OF assms(1-3)] assms(4) by simp
  then have c: "contents (buffer m') = contents (buffer m) @ enc v" "valid v" "egg_wf (buffer m')"
    by (auto simp: field_written_def egg_out_def)
  then obtain zs where "contents (buffer r) = contents (buffer m) @ enc v @ zs"
    using assms(7) by (auto simp: prefix_def)
  then have "rd r =
      Ret (Some (view v), r1\<lparr>parsed := parsed r + of_nat (length (enc v))\<rparr>)"
    using read_enc [OF assms(5,6) c(2)] assms(8) length_contents [OF assms(2)] by simp
  moreover have "len (buffer m') = len (buffer m) + of_nat (length (enc v))"
    using c length_contents [OF assms(2)] length_contents [OF c(3)]
    by (metis length_append of_nat_add of_nat_unat ucast_id)
  ultimately show ?thesis using assms(8) by simp
qed

end

interpretation byte_field: msg_field "''y''" gck_rpc_message_write_byte gck_rpc_message_read_byte
  "\<lambda>v. [v]" "\<lambda>v. v" "\<lambda>_. True" "\<lambda>_. True"
proof
  fix m m1 v and pre post :: block
  assume s: "sig_next m ''y'' = Some m1" and wf: "egg_wf (buffer m)"
  note fr = sig_next_frame [OF s]
  show "wp (gck_rpc_message_write_byte m v) (field_written m ''y'' [v] True)"
    using byte_codec.wp_msg_add [OF wf TrueI s] s
    by (simp add: gck_rpc_message_write_byte_def expect_part_eq)
  show "wp (gck_rpc_message_read_byte m) (field_read m ''y'')"
    using byte_codec.wp_msg_get [of m1] wf fr s
    by (auto simp: gck_rpc_message_read_byte_def expect_part_eq elim!: wp_mono intro: field_readI)
  show "gck_rpc_message_read_byte m =
      Ret (Some v, m1\<lparr>parsed := parsed m + of_nat (length [v])\<rparr>)"
    if "contents (buffer m) = pre @ [v] @ post" "unat (parsed m) = length pre"
    using byte_codec.msg_get_enc [of m1] that wf fr s
    by (simp add: gck_rpc_message_read_byte_def expect_part_eq)
qed

interpretation ulong_field: msg_field "''u''" gck_rpc_message_write_ulong gck_rpc_message_read_ulong
  encode_uint64 "\<lambda>v. v" "\<lambda>_. True" "\<lambda>_. True"
proof
  fix m m1 v and pre post :: block
  assume s: "sig_next m ''u'' = Some m1" and wf: "egg_wf (buffer m)"
  note fr = sig_next_frame [OF s]
  show "wp (gck_rpc_message_write_ulong m v) (field_written m ''u'' (encode_uint64 v) True)"
    using uint64_codec.wp_msg_add [OF wf TrueI s] s
    by (simp add: gck_rpc_message_write_ulong_def expect_part_eq)
  show "wp (gck_rpc_message_read_ulong m) (field_read m ''u'')"
    using uint64_codec.wp_msg_get [of m1] wf fr s
    by (auto simp: gck_rpc_message_read_ulong_def expect_part_eq elim!: wp_mono intro: field_readI)
  show "gck_rpc_message_read_ulong m =
      Ret (Some v, m1\<lparr>parsed := parsed m + of_nat (length (encode_uint64 v))\<rparr>)"
    if "contents (buffer m) = pre @ encode_uint64 v @ post" "unat (parsed m) = length pre"
    using uint64_codec.msg_get_enc [of m1] that wf fr s
    by (simp add: gck_rpc_message_read_ulong_def expect_part_eq)
qed


definition encode_version :: "CK_VERSION \<Rightarrow> block" where
  "encode_version v = [major v, minor v]"

interpretation version_field: msg_field "''v''" gck_rpc_message_write_version
  gck_rpc_message_read_version encode_version "\<lambda>v. v" "\<lambda>_. True" "\<lambda>_. True"
proof
  fix m m1 v and pre post :: block
  assume s: "sig_next m ''v'' = Some m1" and wf: "egg_wf (buffer m)"
  note fr = sig_next_frame [OF s]
  show "wp (gck_rpc_message_write_version m v) (field_written m ''v'' (encode_version v) True)"
    unfolding gck_rpc_message_write_version_def expect_part_eq s fr(1) option.case
    using egg_try_refl [OF wf]
    by (elim try_rules) (erule field_writtenI [OF s], simp_all add: encode_version_def)
  have "got m1 m1" using wf fr by (simp add: got_refl)
  then show "wp (gck_rpc_message_read_version m) (field_read m ''v'')"
    unfolding gck_rpc_message_read_version_def expect_part_eq s option.case
    by (elim got_rules) (auto simp del: wp_obind split: option.split elim!: got_rules
      intro: field_readI [OF s])
  assume c: "contents (buffer m) = pre @ encode_version v @ post" "unat (parsed m) = length pre"
  have "msg_get egg_buffer_get_byte m1 = Ret (Some (major v), m1\<lparr>parsed := parsed m + 1\<rparr>)"
    using byte_codec.msg_get_enc [where m = m1 and v = "major v" and pre = pre] c wf fr by (simp add: encode_version_def)
  moreover have "unat (parsed m + 1) = length (pre @ [major v])"
    using c egg_wf_off_add [OF wf, of "parsed m" 1 1] by (simp add: encode_version_def)
  then have "msg_get egg_buffer_get_byte (m1\<lparr>parsed := parsed m + 1\<rparr>) =
      Ret (Some (minor v), m1\<lparr>parsed := parsed m + 2\<rparr>)"
    using byte_codec.msg_get_enc [where m = "m1\<lparr>parsed := parsed m + 1\<rparr>" and v = "minor v" and
        pre = "pre @ [major v]"] c wf fr
    by (simp add: encode_version_def)
  ultimately show "gck_rpc_message_read_version m =
      Ret (Some v, m1\<lparr>parsed := parsed m + of_nat (length (encode_version v))\<rparr>)"
    using s by (simp add: gck_rpc_message_read_version_def expect_part_eq encode_version_def)
qed


text \<open>A padded string is a block of its full length, which is 16, 32 or 64 in the sources.\<close>

lemma space_string_msg_field:
  assumes n: "n \<noteq> 0" "n < 0x7fffffff"
  shows "msg_field ''s'' (\<lambda>m v. gck_rpc_message_write_space_string m (Some v) n)
    (\<lambda>m. gck_rpc_message_read_space_string m n) (\<lambda>v. encode_byte_array (Some v)) (\<lambda>v. v)
    (\<lambda>v. length v = unat n) (\<lambda>v. length v = unat n)"
proof
  fix m m1 v and pre post :: block
  assume s: "sig_next m ''s'' = Some m1" and wf: "egg_wf (buffer m)"
  note fr = sig_next_frame [OF s]
  show "wp (gck_rpc_message_write_space_string m (Some v) n)
      (field_written m ''s'' (encode_byte_array (Some v)) (length v = unat n))"
    if l: "length v = unat n"
    using wp_add_byte_array [OF wf, of "Some v" n] l n s fr
    by (auto simp: gck_rpc_message_write_space_string_def expect_part_eq msg_add_def
        field_written_def elim!: wp_mono intro: egg_out_app)
  have small: "unat n < 0x7fffffff" using n by (simp add: word_less_nat_alt)
  have "got m1 m1" using wf fr by (simp add: got_refl)
  then have "wp (msg_get egg_buffer_get_byte_array m1) (\<lambda>(r, m'). got m1 m' \<and>
      (\<forall>d k. r = Some (d, k) \<longrightarrow> unat k = length (cells d)))"
    using byte_array_get_length [of m1] wf fr byte_array_codec.wp_msg_get [of m1]
    by (auto simp: wp_iff)
  then show "wp (gck_rpc_message_read_space_string m n) (field_read m ''s'')"
    unfolding gck_rpc_message_read_space_string_def expect_part_eq s option.case
    using n small
    by (auto simp: mem_read_cells split: option.split elim!: wp_mono intro!: field_readI [OF s])
  assume v: "length v = unat n" and c: "contents (buffer m) = pre @ encode_byte_array (Some v) @ post"
    "unat (parsed m) = length pre"
  have "msg_get egg_buffer_get_byte_array m1 =
      Ret (Some (Some v, of_nat (length v)),
        m1\<lparr>parsed := parsed m + of_nat (length (encode_byte_array (Some v)))\<rparr>)"
    using byte_array_codec.msg_get_enc [where m = m1 and v = "Some v" and pre = pre] c wf fr v small
    by (simp add: byte_array_valid_def)
  then show "gck_rpc_message_read_space_string m n =
      Ret (Some v, m1\<lparr>parsed := parsed m + of_nat (length (encode_byte_array (Some v)))\<rparr>)"
    using s v n by (simp add: gck_rpc_message_read_space_string_def expect_part_eq)
qed

interpretation space_string_16: msg_field "''s''"
  "\<lambda>m v. gck_rpc_message_write_space_string m (Some v) 16"
  "\<lambda>m. gck_rpc_message_read_space_string m 16" "\<lambda>v. encode_byte_array (Some v)" "\<lambda>v. v"
  "\<lambda>v. length v = unat (16 :: CK_ULONG)" "\<lambda>v. length v = unat (16 :: CK_ULONG)"
  by (rule space_string_msg_field) simp_all

interpretation space_string_32: msg_field "''s''"
  "\<lambda>m v. gck_rpc_message_write_space_string m (Some v) 32"
  "\<lambda>m. gck_rpc_message_read_space_string m 32" "\<lambda>v. encode_byte_array (Some v)" "\<lambda>v. v"
  "\<lambda>v. length v = unat (32 :: CK_ULONG)" "\<lambda>v. length v = unat (32 :: CK_ULONG)"
  by (rule space_string_msg_field) simp_all

interpretation space_string_64: msg_field "''s''"
  "\<lambda>m v. gck_rpc_message_write_space_string m (Some v) 64"
  "\<lambda>m. gck_rpc_message_read_space_string m 64" "\<lambda>v. encode_byte_array (Some v)" "\<lambda>v. v"
  "\<lambda>v. length v = unat (64 :: CK_ULONG)" "\<lambda>v. length v = unat (64 :: CK_ULONG)"
  by (rule space_string_msg_field) simp_all

end
