(* ===== verification/Rpc_Arrays.thy ===== *)
theory Rpc_Arrays
  imports Rpc_Fields
begin

text \<open>
  The array fields and the header of a message. Every writer of \<^verbatim>\<open>gck-rpc-message.c\<close> appends
  the encoding of its arguments and stays inside the arrays it is given; a message that
  \<open>gck_rpc_message_prep\<close> has started is accepted by \<open>gck_rpc_message_parse\<close>.
\<close>

unbundle bit_operations_syntax

section \<open>Byte and integer arrays\<close>

definition encode_byte_array_field :: "block option \<Rightarrow> CK_ULONG \<Rightarrow> block" where
  "encode_byte_array_field arr num =
     (case arr of
        None \<Rightarrow> 0 # egg_buffer_encode_uint32 (ucast num)
      | Some xs \<Rightarrow> 1 # encode_byte_array (Some (take (unat num) xs)))"

lemma wp_write_byte_array [wp_rules]:
  assumes s: "sig_next m ''ay'' = Some m1" and wf: "egg_wf (buffer m)"
    and num: "\<And>xs. arr = Some xs \<Longrightarrow> unat num \<le> length xs"
  shows "wp (gck_rpc_message_write_byte_array m arr num)
    (field_written m ''ay'' (encode_byte_array_field arr num) (arr \<noteq> None \<longrightarrow> num < 0x7fffffff))"
proof (cases arr)
  case None
  show ?thesis
    unfolding gck_rpc_message_write_byte_array_def expect_part_eq s sig_next_frame(1) [OF s]
      option.case None
    using egg_try_refl [OF wf]
    by (elim try_rules) (erule field_writtenI [OF s], simp_all add: encode_byte_array_field_def)
next
  case (Some xs)
  show ?thesis
    unfolding gck_rpc_message_write_byte_array_def expect_part_eq s sig_next_frame(1) [OF s]
      option.case Some
    using egg_try_refl [OF wf]
    by (elim try_rules)
      (use num Some in simp, erule field_writtenI [OF s], simp_all add: encode_byte_array_field_def)
qed

definition encode_byte_buffer_field :: "block option \<Rightarrow> CK_ULONG option \<Rightarrow> block" where
  "encode_byte_buffer_field arr count_ptr =
     ((if arr = None then GCK_RPC_BYTE_BUFFER_NULL_DATA else 0) OR
      (if count_ptr = None then GCK_RPC_BYTE_BUFFER_NULL_COUNT else 0)) #
     egg_buffer_encode_uint32 (case count_ptr of None \<Rightarrow> 0 | Some n \<Rightarrow> ucast n)"

lemma wp_write_byte_buffer [wp_rules]:
  assumes s: "sig_next m ''fy'' = Some m1" and wf: "egg_wf (buffer m)"
  shows "wp (gck_rpc_message_write_byte_buffer m arr count_ptr)
    (field_written m ''fy'' (encode_byte_buffer_field arr count_ptr) True)"
  unfolding gck_rpc_message_write_byte_buffer_def expect_part_eq s sig_next_frame(1) [OF s]
    option.case Let_def
  using egg_try_refl [OF wf]
  by (elim try_rules) (erule field_writtenI [OF s], simp_all add: encode_byte_buffer_field_def)

lemma wp_write_ulong_buffer [wp_rules]:
  assumes s: "sig_next m ''fu'' = Some m1" and wf: "egg_wf (buffer m)"
  shows "wp (gck_rpc_message_write_ulong_buffer m count)
    (field_written m ''fu'' (egg_buffer_encode_uint32 (ucast count)) True)"
  using uint32_codec.wp_msg_add [OF wf TrueI s] s
  by (simp add: gck_rpc_message_write_ulong_buffer_def expect_part_eq)

text \<open>A loop in the middle of a sequence of writes.\<close>

lemma try_loop:
  assumes "egg_try b0 xs P b" "egg_wf b \<Longrightarrow> wp m (egg_try b ys R)"
    "\<And>b'. egg_try b0 (xs @ ys) (P \<and> R) b' \<Longrightarrow> wp (f b') Q"
  shows "wp (obind m f) Q"
  using assms(2) [OF egg_try_wf [OF assms(1)]] egg_try_trans [OF assms(1)] assms(3)
  by (auto elim!: wp_mono)

lemma wp_try_cons:
  assumes "egg_try b xs P b'" "wp m (egg_try b' ys R)"
  shows "wp m (egg_try b (xs @ ys) (P \<and> R))"
  using assms(2) egg_try_trans [OF assms(1)] by (auto elim!: wp_mono)

lemma wp_write_ulongs:
  assumes "egg_wf b" "n \<le> length vs"
  shows "wp (write_ulongs b vs n) (egg_try b (concat (map encode_uint64 (take n vs))) True)"
  using assms
proof (induction n arbitrary: b vs)
  case (Suc n)
  then obtain v arr where vs: "vs = v # arr" by (cases vs) auto
  show ?case
    unfolding write_ulongs.simps vs
  proof (rule try_add_uint64 [OF egg_try_refl [OF Suc.prems(1)]])
    fix b' assume b': "egg_try b ([] @ encode_uint64 v) True b'"
    then have "wp (write_ulongs b' arr n) (egg_try b' (concat (map encode_uint64 (take n arr))) True)"
      using Suc vs by (auto intro: egg_try_wf)
    then show "wp (write_ulongs b' arr n)
        (egg_try b (concat (map encode_uint64 (take (Suc n) (v # arr)))) True)"
      using wp_try_cons [OF b'] by simp
  qed
qed (simp add: egg_try_refl)

definition encode_ulong_array_field :: "CK_ULONG list option \<Rightarrow> CK_ULONG \<Rightarrow> block" where
  "encode_ulong_array_field arr n =
     (if arr \<noteq> None then 1 else 0) # egg_buffer_encode_uint32 (ucast n) @
     (case arr of None \<Rightarrow> [] | Some vs \<Rightarrow> concat (map encode_uint64 (take (unat n) vs)))"

lemma wp_write_ulong_array [wp_rules]:
  assumes s: "sig_next m ''au'' = Some m1" and wf: "egg_wf (buffer m)"
    and n: "\<And>vs. arr = Some vs \<Longrightarrow> unat n \<le> length vs"
  shows "wp (gck_rpc_message_write_ulong_array m arr n)
    (field_written m ''au'' (encode_ulong_array_field arr n) True)"
proof -
  let ?loop = "\<lambda>b. case arr of None \<Rightarrow> Ret b | Some vs \<Rightarrow> write_ulongs b vs (unat n)"
  let ?ys = "case arr of None \<Rightarrow> [] | Some vs \<Rightarrow> concat (map encode_uint64 (take (unat n) vs))"
  have loop: "wp (?loop b) (egg_try b ?ys True)" if "egg_wf b" for b
    using that n wp_write_ulongs [OF that] by (cases arr) (auto simp: egg_try_refl)
  show ?thesis
    unfolding gck_rpc_message_write_ulong_array_def expect_part_eq s sig_next_frame(1) [OF s]
      option.case
    using egg_try_refl [OF wf]
    by (elim try_add_byte try_add_uint32 try_loop [OF _ loop]; assumption?)
      (assumption, erule field_writtenI [OF s], simp_all add: encode_ulong_array_field_def)
qed

section \<open>Attributes\<close>

lemma bad_sized_never [simp]: "gck_rpc_has_bad_sized_ulong_parameter 8 attr = False"
  by (simp add: gck_rpc_has_bad_sized_ulong_parameter_def)

definition attr_in_bounds :: "CK_ATTRIBUTE \<Rightarrow> bool" where
  "attr_in_bounds a \<longleftrightarrow>
     (case pValue a of None \<Rightarrow> True
      | Some v \<Rightarrow> ulValueLen a = - 1 \<or> unat (ulValueLen a) \<le> length v)"

definition attr_sendable :: "CK_ATTRIBUTE \<Rightarrow> bool" where
  "attr_sendable a \<longleftrightarrow>
     pValue a = None \<or> ulValueLen a = - 1 \<or> ulValueLen a < 0x7fffffff"

definition encode_attribute :: "CK_ATTRIBUTE \<Rightarrow> block" where
  "encode_attribute a =
     egg_buffer_encode_uint32 (ucast (attr_type a)) @
     (if ulValueLen a = - 1 then [0]
      else 1 # egg_buffer_encode_uint32 (ucast (ulValueLen a)) @
           encode_byte_array (map_option (take (unat (ulValueLen a))) (pValue a)))"

lemma wp_write_attribute:
  assumes wf: "egg_wf b" and a: "attr_in_bounds a"
  shows "wp (write_attribute b a) (egg_try b (encode_attribute a) (attr_sendable a))"
proof -
  have fin: "wp (Ret b') (egg_try b xs P)" if "egg_try b ys R b'" "ys = xs" "R \<Longrightarrow> P" for ys R b' xs P
    using that by (auto simp: egg_try_def)
  show ?thesis
  proof (cases "ulValueLen a = - 1")
    case True
    show ?thesis
      unfolding write_attribute_def Let_def True
      using egg_try_refl [OF wf]
      by (elim try_rules) (simp, erule fin [simplified],
          simp_all add: encode_attribute_def attr_sendable_def True)
  next
    case False
    have "unat (ulValueLen a) \<le> length v" if "pValue a = Some v" for v
      using a False that by (simp add: attr_in_bounds_def)
    then show ?thesis
      unfolding write_attribute_def Let_def
      using egg_try_refl [OF wf] False
      by (elim try_rules)
        (simp del: wp_obind, elim try_rules, simp, erule fin,
          auto simp: encode_attribute_def attr_sendable_def)
  qed
qed

lemma wp_write_attributes:
  assumes "egg_wf b" "n \<le> length as" "list_all attr_in_bounds (take n as)"
  shows "wp (write_attributes b as n)
    (egg_try b (concat (map encode_attribute (take n as))) (list_all attr_sendable (take n as)))"
  using assms
proof (induction n arbitrary: b as)
  case (Suc n)
  then obtain a arr where as: "as = a # arr" by (cases as) auto
  have "wp (write_attribute b a) (egg_try b (encode_attribute a) (attr_sendable a))"
    using Suc.prems as by (intro wp_write_attribute) auto
  then show ?case
    unfolding as write_attributes.simps
    using Suc.IH [of _ arr] Suc.prems as
    by (auto elim!: wp_mono intro!: wp_try_cons simp: egg_try_wf)
qed (simp add: egg_try_refl)

definition encode_attribute_array_field :: "CK_ATTRIBUTE list option \<Rightarrow> CK_ULONG \<Rightarrow> block" where
  "encode_attribute_array_field arr n =
     egg_buffer_encode_uint32 (ucast n) @
     concat (map encode_attribute (take (unat n) (case arr of None \<Rightarrow> [] | Some as \<Rightarrow> as)))"

definition attrs_in_bounds :: "CK_ATTRIBUTE list option \<Rightarrow> CK_ULONG \<Rightarrow> bool" where
  "attrs_in_bounds arr n \<longleftrightarrow>
     (case arr of None \<Rightarrow> n = 0
      | Some as \<Rightarrow> unat n \<le> length as \<and> list_all attr_in_bounds (take (unat n) as))"

lemma wp_write_attribute_array [wp_rules]:
  assumes s: "sig_next m ''aA'' = Some m1" and wf: "egg_wf (buffer m)" and n: "attrs_in_bounds arr n"
  shows "wp (gck_rpc_message_write_attribute_array m arr n)
    (field_written m ''aA'' (encode_attribute_array_field arr n)
      (list_all attr_sendable (take (unat n) (case arr of None \<Rightarrow> [] | Some as \<Rightarrow> as))))"
proof -
  let ?as = "case arr of None \<Rightarrow> [] | Some as \<Rightarrow> as"
  have loop: "wp (write_attributes b ?as (unat n))
      (egg_try b (concat (map encode_attribute (take (unat n) ?as)))
        (list_all attr_sendable (take (unat n) ?as)))" if "egg_wf b" for b
    using that n by (intro wp_write_attributes) (auto simp: attrs_in_bounds_def split: option.splits)
  have "n = 0 \<or> arr \<noteq> None" using n by (auto simp: attrs_in_bounds_def)
  then show ?thesis
    unfolding gck_rpc_message_write_attribute_array_def expect_part_eq s sig_next_frame(1) [OF s]
      option.case
    using egg_try_refl [OF wf]
    by (simp only: assert_c_simps, elim try_add_uint32 try_loop [OF _ loop]; assumption?)
      (assumption, erule field_writtenI [OF s], simp_all add: encode_attribute_array_field_def)
qed

definition encode_attribute_buffer :: "CK_ATTRIBUTE \<Rightarrow> block" where
  "encode_attribute_buffer a =
     egg_buffer_encode_uint32 (ucast (attr_type a)) @
     egg_buffer_encode_uint32 (if pValue a \<noteq> None then ucast (ulValueLen a) else 0)"

definition encode_attribute_buffer_field :: "CK_ATTRIBUTE list option \<Rightarrow> CK_ULONG \<Rightarrow> block" where
  "encode_attribute_buffer_field arr n =
     egg_buffer_encode_uint32 (ucast n) @
     concat (map encode_attribute_buffer (take (unat n) (case arr of None \<Rightarrow> [] | Some as \<Rightarrow> as)))"

lemma wp_write_attribute_buffers:
  assumes "egg_wf b" "n \<le> length as"
  shows "wp (write_attribute_buffers b as n)
    (egg_try b (concat (map encode_attribute_buffer (take n as))) True)"
  using assms
proof (induction n arbitrary: b as)
  case (Suc n)
  then obtain a arr where as: "as = a # arr" by (cases as) auto
  show ?case
    unfolding as write_attribute_buffers.simps
  proof (rule try_add_uint32 [OF egg_try_refl [OF Suc.prems(1)]], erule try_add_uint32)
    fix b' assume b': "egg_try b (([] @ egg_buffer_encode_uint32 (ucast (attr_type a))) @
        egg_buffer_encode_uint32 (if pValue a \<noteq> None then ucast (ulValueLen a) else 0)) True b'"
    then have "wp (write_attribute_buffers b' arr n)
        (egg_try b' (concat (map encode_attribute_buffer (take n arr))) True)"
      using Suc as by (auto intro: egg_try_wf)
    from wp_try_cons [OF b' this] show "wp (write_attribute_buffers b' arr n)
        (egg_try b (concat (map encode_attribute_buffer (take (Suc n) (a # arr)))) True)"
      by (simp add: encode_attribute_buffer_def)
  qed
qed (simp add: egg_try_refl)

lemma wp_write_attribute_buffer [wp_rules]:
  assumes s: "sig_next m ''fA'' = Some m1" and wf: "egg_wf (buffer m)"
    and n: "case arr of None \<Rightarrow> n = 0 | Some as \<Rightarrow> unat n \<le> length as"
  shows "wp (gck_rpc_message_write_attribute_buffer m arr n)
    (field_written m ''fA'' (encode_attribute_buffer_field arr n) True)"
proof -
  let ?as = "case arr of None \<Rightarrow> [] | Some as \<Rightarrow> as"
  have loop: "wp (write_attribute_buffers b ?as (unat n))
      (egg_try b (concat (map encode_attribute_buffer (take (unat n) ?as))) True)" if "egg_wf b" for b
    using that n by (intro wp_write_attribute_buffers) (auto split: option.splits)
  have "n = 0 \<or> arr \<noteq> None" using n by (cases arr) auto
  then show ?thesis
    unfolding gck_rpc_message_write_attribute_buffer_def expect_part_eq s sig_next_frame(1) [OF s]
      option.case
    using egg_try_refl [OF wf]
    by (simp only: assert_c_simps, elim try_add_uint32 try_loop [OF _ loop]; assumption?)
      (assumption, erule field_writtenI [OF s], simp_all add: encode_attribute_buffer_field_def)
qed

section \<open>The header of a message\<close>

definition encode_header :: "int \<Rightarrow> string option \<Rightarrow> block" where
  "encode_header i sig =
     egg_buffer_encode_uint32 (of_int i) @
     (case sig of None \<Rightarrow> [] | Some s \<Rightarrow> encode_byte_array (Some (c_bytes s)))"

definition table_ok :: "GckRpcCall \<Rightarrow> bool" where
  "table_ok e \<longleftrightarrow>
     (case (entry_request e, entry_response e) of
        (Some q, Some r) \<Rightarrow> length q < 64 \<and> length r < 64 | _ \<Rightarrow> False)"

lemma table_all_ok: "list_all table_ok (tl gck_rpc_calls)"
  by (simp add: gck_rpc_calls_def rpc_call_def table_ok_def)

lemma call_signature_some:
  assumes "0 < i" "i < GCK_RPC_CALL_MAX"
  obtains s where "call_signature i type = Some s" "length s < 64"
proof -
  have "nat i - 1 < length (tl gck_rpc_calls)" using assms by simp
  then have "table_ok (tl gck_rpc_calls ! (nat i - 1))"
    using table_all_ok by (simp add: list_all_length)
  moreover have "tl gck_rpc_calls ! (nat i - 1) = gck_rpc_calls ! nat i"
    using assms by (simp add: nth_tl)
  ultimately show ?thesis using that
    by (cases type) (auto simp: call_signature_def table_ok_def split: option.splits)
qed

definition header_signature :: "int \<Rightarrow> GckRpcMessageType \<Rightarrow> string option" where
  "header_signature i type = (if i \<noteq> GCK_RPC_CALL_ERROR then call_signature i type else None)"

text \<open>A message that is ready for its first field.\<close>

definition prepared :: "int \<Rightarrow> GckRpcMessageType \<Rightarrow> GckRpcMessage \<Rightarrow> bool" where
  "prepared i type m \<longleftrightarrow>
     call_id m = i \<and> call_type m = Some type \<and> signature m = header_signature i type \<and>
     sigverify m = header_signature i type \<and> egg_wf (buffer m)"

lemma wp_message_reset [wp_rules]:
  assumes "egg_wf (buffer m)"
  shows "wp (gck_rpc_message_reset m)
    (\<lambda>m'. call_id m' = 0 \<and> call_type m' = None \<and> signature m' = None \<and> sigverify m' = None \<and>
       parsed m' = 0 \<and> egg_wf (buffer m') \<and> contents (buffer m') = [] \<and>
       failures (buffer m') = 0 \<and> allocator (buffer m') = allocator (buffer m))"
  using wp_reset [OF assms] by (auto simp: gck_rpc_message_reset_def elim!: wp_mono)

lemma reset_allocated: "gck_rpc_message_reset m = Ret m' \<Longrightarrow> allocated_len (buffer m') = allocated_len (buffer m)"
  by (auto simp: gck_rpc_message_reset_def egg_buffer_reset_def obind_eq_Ret)

lemma wp_message_prep [wp_rules]:
  assumes wf: "egg_wf (buffer m)" and i: "0 \<le> i" "i < GCK_RPC_CALL_MAX"
  shows "wp (gck_rpc_message_prep m i type)
    (\<lambda>(ok, m'). prepared i type m' \<and> parsed m' = 0 \<and>
       allocator (buffer m') = allocator (buffer m) \<and> (ok \<longleftrightarrow> failures (buffer m') = 0) \<and>
       (ok \<longrightarrow> contents (buffer m') = encode_header i (header_signature i type)) \<and>
       (roomy (buffer m) \<longrightarrow> ok \<and> roomy (buffer m')))"
proof -
  let ?sig = "header_signature i type"
  let ?add = "\<lambda>b. case ?sig of None \<Rightarrow> Ret b
    | Some s \<Rightarrow> obind (egg_buffer_add_byte_array b (Some (c_bytes s)) (of_nat (length s))) (\<lambda>(_, b). Ret b)"
  let ?enc = "case ?sig of None \<Rightarrow> [] | Some s \<Rightarrow> encode_byte_array (Some (c_bytes s))"
  have sig: "i \<noteq> GCK_RPC_CALL_ERROR \<longrightarrow> ?sig \<noteq> None" "?sig = Some s \<Longrightarrow> length s < 64" for s
    using i call_signature_some [of i type]
    by (cases "i = 0"; auto simp: header_signature_def)+
  have loop: "wp (?add b) (egg_try b ?enc True)" if "egg_wf b" for b
  proof (cases ?sig)
    case (Some s)
    then have u: "unat (of_nat (length s) :: size_t) = length s"
      using sig(2) [OF Some] by (intro unat_of_nat_small) simp
    show ?thesis
      using wp_add_byte_array [OF that, of "Some (c_bytes s)" "of_nat (length s)"] Some u
      by (auto simp: egg_try_def elim!: wp_mono)
  qed (simp add: egg_try_refl that)
  obtain m0 where m0: "gck_rpc_message_reset m = Ret m0" "egg_wf (buffer m0)"
    "contents (buffer m0) = []" "failures (buffer m0) = 0"
    "allocator (buffer m0) = allocator (buffer m)"
    using wp_message_reset [OF wf] by (auto elim: wp_RetE)
  have "wp (obind (egg_buffer_add_uint32 (buffer m0) (of_int i)) (\<lambda>(_, b). ?add b))
      (egg_try (buffer m0) (encode_header i ?sig) True)"
  proof (rule try_add_uint32 [OF egg_try_refl [OF m0(2)]])
    fix b assume b: "egg_try (buffer m0) ([] @ egg_buffer_encode_uint32 (of_int i)) True b"
    from wp_try_cons [OF b loop [OF egg_try_wf [OF b]]]
    show "wp (?add b) (egg_try (buffer m0) (encode_header i ?sig) True)"
      by (simp add: encode_header_def)
  qed
  then obtain b' where b': "obind (egg_buffer_add_uint32 (buffer m0) (of_int i)) (\<lambda>(_, b). ?add b) = Ret b'"
    and t: "egg_try (buffer m0) (encode_header i ?sig) True b'" by (rule wp_RetE)
  have "gck_rpc_message_prep m i type = Ret (\<not> egg_buffer_has_error b',
      m0\<lparr>signature := ?sig, sigverify := ?sig, call_id := i, call_type := Some type,
         buffer := b', parsed := 0\<rparr>)"
    using i sig(1) b'
    by (auto simp: gck_rpc_message_prep_def Let_def m0(1) obind_eq_Ret header_signature_def)
  moreover have "length (encode_header i ?sig) < 0x7fffffff"
    using sig(2) by (cases ?sig) (fastforce simp: encode_header_def encode_byte_array_def)+
  then have "spacious (buffer m0) (length (encode_header i ?sig))" if "roomy (buffer m)"
    using that m0 reset_allocated [OF m0(1)] by (simp add: spacious_def roomy_def)
  moreover have "roomy b'" if "roomy (buffer m)"
    using that roomy_out [OF egg_out_try(1) [OF t]] m0 reset_allocated [OF m0(1)] by (simp add: roomy_def)
  ultimately show ?thesis
    using egg_out_try [OF t] m0 by (auto simp: prepared_def egg_out_def egg_buffer_has_error_def)
qed

text \<open>A request that \<open>gck_rpc_message_parse\<close> has accepted.\<close>

lemma wp_message_parse [wp_rules]:
  assumes wf: "egg_wf (buffer m)"
  shows "wp (gck_rpc_message_parse m type)
    (\<lambda>(ok, m'). egg_in (buffer m) (buffer m') \<and>
       (ok \<longrightarrow> type = GCK_RPC_RESPONSE \<and> signature m' = None \<and> sigverify m' = None \<or>
          0 < call_id m' \<and> call_id m' < GCK_RPC_CALL_MAX \<and> prepared (call_id m') type m'))"
    (is "wp _ ?Q")
proof -
  let ?b = "buffer m"
  define i where "i = egg_buffer_decode_uint32 (take 4 (contents ?b))"
  have in0: "egg_in ?b ?b" "egg_in ?b (add_failure ?b)" using wf by (auto simp: egg_in_def)
  show ?thesis
  proof (cases "4 \<le> length (contents ?b)")
    case False
    then show ?thesis using wf in0
      by (simp add: gck_rpc_message_parse_def Let_def get_uint32_eq)
  next
    case True
    then have g1: "egg_buffer_get_uint32 ?b 0 = Ret (Some (4, i), ?b)"
      using wf by (simp add: get_uint32_eq i_def)
    show ?thesis
    proof (cases "0 < uint i \<and> uint i < GCK_RPC_CALL_MAX")
      case False
      then show ?thesis using g1 in0
        by (cases type) (auto simp: gck_rpc_message_parse_def Let_def not_le not_less)
    next
      case i: True
      then obtain s where s: "call_signature (uint i) type = Some s" by (metis call_signature_some)
      obtain r b' where g2: "egg_buffer_get_byte_array ?b 4 = Ret (r, b')"
        and e: "egg_get ?b 4 r b'"
        using byte_array_codec.get_safe [OF wf, of 4] by (auto elim: wp_RetE)
      have b': "egg_in ?b b'" using e by (auto simp: egg_get_def egg_in_def split: option.splits)
      show ?thesis
      proof (cases r)
        case None
        then show ?thesis using g1 g2 i s b' by (simp add: gck_rpc_message_parse_def Let_def)
      next
        case (Some p)
        then obtain off d k where p: "r = Some (off, d, k)" by (cases p) auto
        then have "mem_read d 0 (unat k) = Ret (cells d)"
          using byte_array_get_length [of "m\<lparr>parsed := 4\<rparr>" d k] wf g2
          by (simp add: msg_get_def mem_read_cells)
        then show ?thesis using g1 g2 i s b' p
          by (simp add: gck_rpc_message_parse_def Let_def prepared_def header_signature_def egg_in_def)
      qed
    qed
  qed
qed

lemma parse_encode_header:
  assumes wf: "egg_wf (buffer m)" and i: "0 < i" "i < GCK_RPC_CALL_MAX"
    and c: "contents (buffer m) = encode_header i (call_signature i type) @ rest"
  shows "gck_rpc_message_parse m type =
    Ret (True, m\<lparr>parsed := of_nat (length (encode_header i (call_signature i type))),
      signature := call_signature i type, sigverify := call_signature i type,
      call_id := i, call_type := Some type\<rparr>)"
proof -
  obtain s where s: "call_signature i type = Some s" "length s < 64"
    using call_signature_some [OF i] by blast
  let ?b = "buffer m"
  have c1: "contents ?b = [] @ egg_buffer_encode_uint32 (of_int i) @ encode_byte_array (Some (c_bytes s)) @ rest"
    and c2: "contents ?b = egg_buffer_encode_uint32 (of_int i) @ encode_byte_array (Some (c_bytes s)) @ rest"
    using c s by (simp_all add: encode_header_def)
  have g1: "egg_buffer_get_uint32 ?b 0 = Ret (Some (4, of_int i), ?b)"
    using uint32_codec.get_enc [OF wf TrueI c1, of 0] by simp
  have g2: "egg_buffer_get_byte_array ?b 4 =
      Ret (Some (4 + of_nat (length (encode_byte_array (Some (c_bytes s)))), Some (c_bytes s),
        of_nat (length s)), ?b)"
    using byte_array_codec.get_enc [OF wf _ c2, of 4] s by (simp add: byte_array_valid_def)
  have u: "uint (of_int i :: u32) = i" using i by (simp add: uint_word_of_int)
  have n: "unat (of_nat (length s) :: size_t) = length s" using s by (intro unat_of_nat_small) simp
  show ?thesis
    using g1 g2 u i s n
    by (simp add: gck_rpc_message_parse_def Let_def encode_header_def)
qed

end
