(* ===== verification/Pkcs11_Module.thy ===== *)
theory Pkcs11_Module
  imports Pkcs11_Types
begin

text \<open>
  The PKCS#11 module the daemon forwards to, as the \<open>CK_FUNCTION_LIST\<close> of \<^verbatim>\<open>pkcs11.h\<close>. The
  module is loaded at run time and is not part of the program: its functions are the
  fields of a record, each from the input arguments and the state \<open>'w\<close> of everything
  outside the daemon to the return value, the output arguments and the new outside state.
  A null function pointer is \<open>None\<close>.
\<close>

section \<open>The function list\<close>

type_synonym ulong_array = "CK_ULONG list option"
type_synonym attr_array = "CK_ATTRIBUTE list option"
type_synonym ('w, 'a) ck_call = "'w \<Rightarrow> CK_RV \<times> 'a \<times> 'w"

text \<open>
  An array the function fills in is both an input and an output. Arguments for which the
  daemon always passes \<open>NULL\<close> are left out, as is \<open>C_GetFunctionList\<close>, which is not called
  through the list.
\<close>

datatype (plugins only:) (dead 'w) CK_FUNCTION_LIST =
  CK_FUNCTION_LIST
   (C_Initialize: "(('w, unit) ck_call) option")
   (C_Finalize: "(('w, unit) ck_call) option")
   (C_GetInfo: "(('w, CK_INFO) ck_call) option")
   (C_GetSlotList: "(byte \<Rightarrow> ulong_array \<Rightarrow> CK_ULONG \<Rightarrow> ('w, ulong_array \<times> CK_ULONG) ck_call) option")
   (C_GetSlotInfo: "(CK_ULONG \<Rightarrow> ('w, CK_SLOT_INFO) ck_call) option")
   (C_GetTokenInfo: "(CK_ULONG \<Rightarrow> ('w, CK_TOKEN_INFO) ck_call) option")
   (C_GetMechanismList: "(CK_ULONG \<Rightarrow> ulong_array \<Rightarrow> CK_ULONG \<Rightarrow> ('w, ulong_array \<times> CK_ULONG) ck_call) option")
   (C_GetMechanismInfo: "(CK_ULONG \<Rightarrow> CK_ULONG \<Rightarrow> ('w, CK_MECHANISM_INFO) ck_call) option")
   (C_InitToken: "(CK_ULONG \<Rightarrow> block option \<Rightarrow> CK_ULONG \<Rightarrow> block \<Rightarrow> ('w, unit) ck_call) option")
   (C_WaitForSlotEvent: "(CK_ULONG \<Rightarrow> ('w, CK_ULONG) ck_call) option")
   (C_OpenSession: "(CK_ULONG \<Rightarrow> CK_ULONG \<Rightarrow> ('w, CK_ULONG) ck_call) option")
   (C_CloseSession: "(CK_ULONG \<Rightarrow> ('w, unit) ck_call) option")
   (C_CloseAllSessions: "(CK_ULONG \<Rightarrow> ('w, unit) ck_call) option")
   (C_GetFunctionStatus: "(CK_ULONG \<Rightarrow> ('w, unit) ck_call) option")
   (C_CancelFunction: "(CK_ULONG \<Rightarrow> ('w, unit) ck_call) option")
   (C_GetSessionInfo: "(CK_ULONG \<Rightarrow> ('w, CK_SESSION_INFO) ck_call) option")
   (C_InitPIN: "(CK_ULONG \<Rightarrow> block option \<Rightarrow> CK_ULONG \<Rightarrow> ('w, unit) ck_call) option")
   (C_SetPIN: "(CK_ULONG \<Rightarrow> block option \<Rightarrow> CK_ULONG \<Rightarrow> block option \<Rightarrow> CK_ULONG \<Rightarrow> ('w, unit) ck_call) option")
   (C_GetOperationState: "(CK_ULONG \<Rightarrow> block option \<Rightarrow> CK_ULONG option \<Rightarrow> ('w, block option \<times> CK_ULONG option) ck_call) option")
   (C_SetOperationState: "(CK_ULONG \<Rightarrow> block option \<Rightarrow> CK_ULONG \<Rightarrow> CK_ULONG \<Rightarrow> CK_ULONG \<Rightarrow> ('w, unit) ck_call) option")
   (C_Login: "(CK_ULONG \<Rightarrow> CK_ULONG \<Rightarrow> block option \<Rightarrow> CK_ULONG \<Rightarrow> ('w, unit) ck_call) option")
   (C_Logout: "(CK_ULONG \<Rightarrow> ('w, unit) ck_call) option")
   (C_CreateObject: "(CK_ULONG \<Rightarrow> attr_array \<Rightarrow> CK_ULONG \<Rightarrow> ('w, CK_ULONG) ck_call) option")
   (C_CopyObject: "(CK_ULONG \<Rightarrow> CK_ULONG \<Rightarrow> attr_array \<Rightarrow> CK_ULONG \<Rightarrow> ('w, CK_ULONG) ck_call) option")
   (C_DestroyObject: "(CK_ULONG \<Rightarrow> CK_ULONG \<Rightarrow> ('w, unit) ck_call) option")
   (C_GetObjectSize: "(CK_ULONG \<Rightarrow> CK_ULONG \<Rightarrow> ('w, CK_ULONG) ck_call) option")
   (C_GetAttributeValue: "(CK_ULONG \<Rightarrow> CK_ULONG \<Rightarrow> attr_array \<Rightarrow> CK_ULONG \<Rightarrow> ('w, attr_array) ck_call) option")
   (C_SetAttributeValue: "(CK_ULONG \<Rightarrow> CK_ULONG \<Rightarrow> attr_array \<Rightarrow> CK_ULONG \<Rightarrow> ('w, unit) ck_call) option")
   (C_FindObjectsInit: "(CK_ULONG \<Rightarrow> attr_array \<Rightarrow> CK_ULONG \<Rightarrow> ('w, unit) ck_call) option")
   (C_FindObjects: "(CK_ULONG \<Rightarrow> ulong_array \<Rightarrow> CK_ULONG \<Rightarrow> ('w, ulong_array \<times> CK_ULONG) ck_call) option")
   (C_FindObjectsFinal: "(CK_ULONG \<Rightarrow> ('w, unit) ck_call) option")
   (C_EncryptInit: "(CK_ULONG \<Rightarrow> CK_MECHANISM \<Rightarrow> CK_ULONG \<Rightarrow> ('w, unit) ck_call) option")
   (C_Encrypt: "(CK_ULONG \<Rightarrow> block option \<Rightarrow> CK_ULONG \<Rightarrow> block option \<Rightarrow> CK_ULONG option \<Rightarrow> ('w, block option \<times> CK_ULONG option) ck_call) option")
   (C_EncryptUpdate: "(CK_ULONG \<Rightarrow> block option \<Rightarrow> CK_ULONG \<Rightarrow> block option \<Rightarrow> CK_ULONG option \<Rightarrow> ('w, block option \<times> CK_ULONG option) ck_call) option")
   (C_EncryptFinal: "(CK_ULONG \<Rightarrow> block option \<Rightarrow> CK_ULONG option \<Rightarrow> ('w, block option \<times> CK_ULONG option) ck_call) option")
   (C_DecryptInit: "(CK_ULONG \<Rightarrow> CK_MECHANISM \<Rightarrow> CK_ULONG \<Rightarrow> ('w, unit) ck_call) option")
   (C_Decrypt: "(CK_ULONG \<Rightarrow> block option \<Rightarrow> CK_ULONG \<Rightarrow> block option \<Rightarrow> CK_ULONG option \<Rightarrow> ('w, block option \<times> CK_ULONG option) ck_call) option")
   (C_DecryptUpdate: "(CK_ULONG \<Rightarrow> block option \<Rightarrow> CK_ULONG \<Rightarrow> block option \<Rightarrow> CK_ULONG option \<Rightarrow> ('w, block option \<times> CK_ULONG option) ck_call) option")
   (C_DecryptFinal: "(CK_ULONG \<Rightarrow> block option \<Rightarrow> CK_ULONG option \<Rightarrow> ('w, block option \<times> CK_ULONG option) ck_call) option")
   (C_DigestInit: "(CK_ULONG \<Rightarrow> CK_MECHANISM \<Rightarrow> ('w, unit) ck_call) option")
   (C_Digest: "(CK_ULONG \<Rightarrow> block option \<Rightarrow> CK_ULONG \<Rightarrow> block option \<Rightarrow> CK_ULONG option \<Rightarrow> ('w, block option \<times> CK_ULONG option) ck_call) option")
   (C_DigestUpdate: "(CK_ULONG \<Rightarrow> block option \<Rightarrow> CK_ULONG \<Rightarrow> ('w, unit) ck_call) option")
   (C_DigestKey: "(CK_ULONG \<Rightarrow> CK_ULONG \<Rightarrow> ('w, unit) ck_call) option")
   (C_DigestFinal: "(CK_ULONG \<Rightarrow> block option \<Rightarrow> CK_ULONG option \<Rightarrow> ('w, block option \<times> CK_ULONG option) ck_call) option")
   (C_SignInit: "(CK_ULONG \<Rightarrow> CK_MECHANISM \<Rightarrow> CK_ULONG \<Rightarrow> ('w, unit) ck_call) option")
   (C_Sign: "(CK_ULONG \<Rightarrow> block option \<Rightarrow> CK_ULONG \<Rightarrow> block option \<Rightarrow> CK_ULONG option \<Rightarrow> ('w, block option \<times> CK_ULONG option) ck_call) option")
   (C_SignUpdate: "(CK_ULONG \<Rightarrow> block option \<Rightarrow> CK_ULONG \<Rightarrow> ('w, unit) ck_call) option")
   (C_SignFinal: "(CK_ULONG \<Rightarrow> block option \<Rightarrow> CK_ULONG option \<Rightarrow> ('w, block option \<times> CK_ULONG option) ck_call) option")
   (C_SignRecoverInit: "(CK_ULONG \<Rightarrow> CK_MECHANISM \<Rightarrow> CK_ULONG \<Rightarrow> ('w, unit) ck_call) option")
   (C_SignRecover: "(CK_ULONG \<Rightarrow> block option \<Rightarrow> CK_ULONG \<Rightarrow> block option \<Rightarrow> CK_ULONG option \<Rightarrow> ('w, block option \<times> CK_ULONG option) ck_call) option")
   (C_VerifyInit: "(CK_ULONG \<Rightarrow> CK_MECHANISM \<Rightarrow> CK_ULONG \<Rightarrow> ('w, unit) ck_call) option")
   (C_Verify: "(CK_ULONG \<Rightarrow> block option \<Rightarrow> CK_ULONG \<Rightarrow> block option \<Rightarrow> CK_ULONG \<Rightarrow> ('w, unit) ck_call) option")
   (C_VerifyUpdate: "(CK_ULONG \<Rightarrow> block option \<Rightarrow> CK_ULONG \<Rightarrow> ('w, unit) ck_call) option")
   (C_VerifyFinal: "(CK_ULONG \<Rightarrow> block option \<Rightarrow> CK_ULONG \<Rightarrow> ('w, unit) ck_call) option")
   (C_VerifyRecoverInit: "(CK_ULONG \<Rightarrow> CK_MECHANISM \<Rightarrow> CK_ULONG \<Rightarrow> ('w, unit) ck_call) option")
   (C_VerifyRecover: "(CK_ULONG \<Rightarrow> block option \<Rightarrow> CK_ULONG \<Rightarrow> block option \<Rightarrow> CK_ULONG option \<Rightarrow> ('w, block option \<times> CK_ULONG option) ck_call) option")
   (C_DigestEncryptUpdate: "(CK_ULONG \<Rightarrow> block option \<Rightarrow> CK_ULONG \<Rightarrow> block option \<Rightarrow> CK_ULONG option \<Rightarrow> ('w, block option \<times> CK_ULONG option) ck_call) option")
   (C_DecryptDigestUpdate: "(CK_ULONG \<Rightarrow> block option \<Rightarrow> CK_ULONG \<Rightarrow> block option \<Rightarrow> CK_ULONG option \<Rightarrow> ('w, block option \<times> CK_ULONG option) ck_call) option")
   (C_SignEncryptUpdate: "(CK_ULONG \<Rightarrow> block option \<Rightarrow> CK_ULONG \<Rightarrow> block option \<Rightarrow> CK_ULONG option \<Rightarrow> ('w, block option \<times> CK_ULONG option) ck_call) option")
   (C_DecryptVerifyUpdate: "(CK_ULONG \<Rightarrow> block option \<Rightarrow> CK_ULONG \<Rightarrow> block option \<Rightarrow> CK_ULONG option \<Rightarrow> ('w, block option \<times> CK_ULONG option) ck_call) option")
   (C_GenerateKey: "(CK_ULONG \<Rightarrow> CK_MECHANISM \<Rightarrow> attr_array \<Rightarrow> CK_ULONG \<Rightarrow> ('w, CK_ULONG) ck_call) option")
   (C_GenerateKeyPair: "(CK_ULONG \<Rightarrow> CK_MECHANISM \<Rightarrow> attr_array \<Rightarrow> CK_ULONG \<Rightarrow> attr_array \<Rightarrow> CK_ULONG \<Rightarrow> ('w, CK_ULONG \<times> CK_ULONG) ck_call) option")
   (C_WrapKey: "(CK_ULONG \<Rightarrow> CK_MECHANISM \<Rightarrow> CK_ULONG \<Rightarrow> CK_ULONG \<Rightarrow> block option \<Rightarrow> CK_ULONG option \<Rightarrow> ('w, block option \<times> CK_ULONG option) ck_call) option")
   (C_UnwrapKey: "(CK_ULONG \<Rightarrow> CK_MECHANISM \<Rightarrow> CK_ULONG \<Rightarrow> block option \<Rightarrow> CK_ULONG \<Rightarrow> attr_array \<Rightarrow> CK_ULONG \<Rightarrow> ('w, CK_ULONG) ck_call) option")
   (C_DeriveKey: "(CK_ULONG \<Rightarrow> CK_MECHANISM \<Rightarrow> CK_ULONG \<Rightarrow> attr_array \<Rightarrow> CK_ULONG \<Rightarrow> ('w, CK_ULONG) ck_call) option")
   (C_SeedRandom: "(CK_ULONG \<Rightarrow> block option \<Rightarrow> CK_ULONG \<Rightarrow> ('w, unit) ck_call) option")
   (C_GenerateRandom: "(CK_ULONG \<Rightarrow> block option \<Rightarrow> CK_ULONG \<Rightarrow> ('w, block option) ck_call) option")

section \<open>What the daemon relies on\<close>

text \<open>
  The conventions of PKCS#11 for functions that return data in a buffer of the caller
  (section 11.2 of the standard): the caller's array keeps its place and size, and on
  \<open>CKR_OK\<close> the count that comes back is at most the room there was. An attribute that
  did not fit, is sensitive or unknown comes back with length \<open>-1\<close>.
\<close>

definition ulongs_contract ::
  "(ulong_array \<Rightarrow> CK_ULONG \<Rightarrow> ('w, ulong_array \<times> CK_ULONG) ck_call) \<Rightarrow> bool" where
  "ulongs_contract f \<longleftrightarrow>
     (\<forall>arr n w. case f arr n w of (ret, (arr', n'), _) \<Rightarrow>
        map_option length arr' = map_option length arr \<and>
        (ret = CKR_OK \<and> arr \<noteq> None \<longrightarrow> n' \<le> n))"

definition bytes_contract ::
  "(block option \<Rightarrow> CK_ULONG option \<Rightarrow> ('w, block option \<times> CK_ULONG option) ck_call) \<Rightarrow> bool"
where
  "bytes_contract f \<longleftrightarrow>
     (\<forall>arr n w. case f arr n w of (ret, (arr', n'), _) \<Rightarrow>
        map_option length arr' = map_option length arr \<and> (n' = None \<longleftrightarrow> n = None) \<and>
        (ret = CKR_OK \<and> arr \<noteq> None \<and> n \<noteq> None \<longrightarrow> the n' \<le> the n))"

definition attr_kept :: "CK_ATTRIBUTE \<Rightarrow> CK_ATTRIBUTE \<Rightarrow> bool" where
  "attr_kept a a' \<longleftrightarrow>
     map_option length (pValue a') = map_option length (pValue a) \<and>
     (pValue a \<noteq> None \<longrightarrow> ulValueLen a' = - 1 \<or> ulValueLen a' \<le> ulValueLen a)"

definition attrs_contract ::
  "(attr_array \<Rightarrow> CK_ULONG \<Rightarrow> ('w, attr_array) ck_call) \<Rightarrow> bool" where
  "attrs_contract f \<longleftrightarrow>
     (\<forall>arr n w. case f arr n w of (ret, arr', _) \<Rightarrow>
        rel_option (list_all2 attr_kept) arr arr')"

definition random_contract :: "(block option \<Rightarrow> CK_ULONG \<Rightarrow> ('w, block option) ck_call) \<Rightarrow> bool" where
  "random_contract f \<longleftrightarrow>
     (\<forall>arr n w. case f arr n w of (_, arr', _) \<Rightarrow>
        map_option length arr' = map_option length arr)"

text \<open>The character arrays of the structures that are returned have their declared size.\<close>

definition returns :: "('a \<Rightarrow> bool) \<Rightarrow> ('w, 'a) ck_call \<Rightarrow> bool" where
  "returns P f \<longleftrightarrow> (\<forall>w. case f w of (_, x, _) \<Rightarrow> P x)"

definition module_ok :: "'w CK_FUNCTION_LIST \<Rightarrow> bool" where
  "module_ok M \<longleftrightarrow>
     C_CloseSession M \<noteq> None \<and> C_GetSlotInfo M \<noteq> None \<and>
     pred_option (returns ck_info_wf) (C_GetInfo M) \<and>
     pred_option (\<lambda>f. \<forall>a. returns ck_slot_info_wf (f a)) (C_GetSlotInfo M) \<and>
     pred_option (\<lambda>f. \<forall>a. returns ck_token_info_wf (f a)) (C_GetTokenInfo M) \<and>
     pred_option (\<lambda>f. \<forall>a. ulongs_contract (f a)) (C_GetSlotList M) \<and>
     pred_option (\<lambda>f. \<forall>a. ulongs_contract (f a)) (C_GetMechanismList M) \<and>
     pred_option (\<lambda>f. \<forall>a. ulongs_contract (f a)) (C_FindObjects M) \<and>
     pred_option (\<lambda>f. \<forall>a b. attrs_contract (f a b)) (C_GetAttributeValue M) \<and>
     pred_option (\<lambda>f. \<forall>a. random_contract (f a)) (C_GenerateRandom M) \<and>
     pred_option (\<lambda>f. \<forall>a. bytes_contract (f a)) (C_GetOperationState M) \<and>
     pred_option (\<lambda>f. \<forall>a b c. bytes_contract (f a b c)) (C_Encrypt M) \<and>
     pred_option (\<lambda>f. \<forall>a b c. bytes_contract (f a b c)) (C_EncryptUpdate M) \<and>
     pred_option (\<lambda>f. \<forall>a. bytes_contract (f a)) (C_EncryptFinal M) \<and>
     pred_option (\<lambda>f. \<forall>a b c. bytes_contract (f a b c)) (C_Decrypt M) \<and>
     pred_option (\<lambda>f. \<forall>a b c. bytes_contract (f a b c)) (C_DecryptUpdate M) \<and>
     pred_option (\<lambda>f. \<forall>a. bytes_contract (f a)) (C_DecryptFinal M) \<and>
     pred_option (\<lambda>f. \<forall>a b c. bytes_contract (f a b c)) (C_Digest M) \<and>
     pred_option (\<lambda>f. \<forall>a. bytes_contract (f a)) (C_DigestFinal M) \<and>
     pred_option (\<lambda>f. \<forall>a b c. bytes_contract (f a b c)) (C_Sign M) \<and>
     pred_option (\<lambda>f. \<forall>a. bytes_contract (f a)) (C_SignFinal M) \<and>
     pred_option (\<lambda>f. \<forall>a b c. bytes_contract (f a b c)) (C_SignRecover M) \<and>
     pred_option (\<lambda>f. \<forall>a b c. bytes_contract (f a b c)) (C_VerifyRecover M) \<and>
     pred_option (\<lambda>f. \<forall>a b c. bytes_contract (f a b c)) (C_DigestEncryptUpdate M) \<and>
     pred_option (\<lambda>f. \<forall>a b c. bytes_contract (f a b c)) (C_DecryptDigestUpdate M) \<and>
     pred_option (\<lambda>f. \<forall>a b c. bytes_contract (f a b c)) (C_SignEncryptUpdate M) \<and>
     pred_option (\<lambda>f. \<forall>a b c. bytes_contract (f a b c)) (C_DecryptVerifyUpdate M) \<and>
     pred_option (\<lambda>f. \<forall>a b c d. bytes_contract (f a b c d)) (C_WrapKey M)"

end
