(* ===== verification/Dispatch_State.thy ===== *)
theory Dispatch_State
  imports Rpc_Arrays Pkcs11_Module
begin

text \<open>
  The state of one dispatcher of \<^verbatim>\<open>gck-rpc-dispatch.c\<close>, its memory for one call, the
  \<open>proto_read_\<close> and \<open>proto_write_\<close> functions, and the macros from which the call handlers
  are put together.
\<close>

unbundle bit_operations_syntax

section \<open>State\<close>

record SessionState =
  sess_id :: CK_ULONG
  sess_slot :: CK_ULONG

text \<open>A pointer to an object: null, to a live object, or to one that was released.\<close>

datatype 'a ptr = Null | Ptr 'a | Freed

text \<open>The functions \<open>cs->read\<close> and \<open>cs->write\<close> point to.\<close>

datatype IoFunctions = SocketIo | InetdIo

text \<open>
  \<open>allocated\<close> is the chain of blocks \<open>call_alloc\<close> has handed out, given by their sizes.
  Of \<open>tls\<close> only whether it is null matters here. The address of the peer is only logged.
\<close>

record CallState =
  req :: "GckRpcMessage ptr"
  resp :: "GckRpcMessage ptr"
  allocated :: "size_t list"
  appid :: u64
  sock :: int
  io :: IoFunctions
  use_tls :: bool
  sessions :: "SessionState list"

abbreviation (input) PKCS11PROXY_MAX_SESSION_COUNT :: nat where
  "PKCS11PROXY_MAX_SESSION_COUNT \<equiv> 256"

text \<open>
  What a dispatcher works on: its own \<open>CallState\<close>, the list \<open>pkcs11_dispatchers\<close> of the
  others, and the state \<open>'w\<close> of the module and the operating system.
\<close>

record 'w Dispatcher = CallState +
  pkcs11_dispatchers :: "CallState list"
  world :: 'w

text \<open>
  What lies outside: the module (null before \<open>gck_rpc_layer_initialize\<close>), the C library's
  \<open>realloc\<close>, whether \<open>malloc\<close> grants a block, and whether \<open>shutdown\<close> succeeds.
\<close>

record 'w Env =
  pkcs11_module :: "'w CK_FUNCTION_LIST option"
  c_realloc :: EggBufferAllocator
  c_malloc :: "size_t \<Rightarrow> 'w \<Rightarrow> bool \<times> 'w"
  c_shutdown :: "int \<Rightarrow> 'w \<Rightarrow> bool \<times> 'w"

type_synonym 'w handler = "'w Env \<Rightarrow> 'w Dispatcher \<Rightarrow> (CK_RV \<times> 'w Dispatcher) outcome"

definition on_req ::
  "'w Dispatcher \<Rightarrow> (GckRpcMessage \<Rightarrow> ('a \<times> GckRpcMessage) outcome) \<Rightarrow> ('a \<times> 'w Dispatcher) outcome"
where
  "on_req s f =
     (case req s of
        Ptr m \<Rightarrow> obind (f m) (\<lambda>(r, m). Ret (r, s\<lparr>req := Ptr m\<rparr>))
      | _ \<Rightarrow> Fault)"

definition on_resp ::
  "'w Dispatcher \<Rightarrow> (GckRpcMessage \<Rightarrow> ('a \<times> GckRpcMessage) outcome) \<Rightarrow> ('a \<times> 'w Dispatcher) outcome"
where
  "on_resp s f =
     (case resp s of
        Ptr m \<Rightarrow> obind (f m) (\<lambda>(r, m). Ret (r, s\<lparr>resp := Ptr m\<rparr>))
      | _ \<Rightarrow> Fault)"

section \<open>Call structures\<close>

definition ptr_of :: "'a option \<Rightarrow> 'a ptr" where
  "ptr_of p = (case p of None \<Rightarrow> Null | Some x \<Rightarrow> Ptr x)"

definition call_init :: "'w Env \<Rightarrow> 'w Dispatcher \<Rightarrow> (bool \<times> 'w Dispatcher) outcome" where
  "call_init E s =
     obind (gck_rpc_message_new (c_realloc E) (Some (c_realloc E))) (\<lambda>q.
     obind (gck_rpc_message_new (c_realloc E) (Some (c_realloc E))) (\<lambda>r.
     let s = s\<lparr>req := ptr_of q, resp := ptr_of r\<rparr> in
     if q = None \<or> r = None then
       obind (gck_rpc_message_free q) (\<lambda>_.
       obind (gck_rpc_message_free r) (\<lambda>_.
       Ret (False, s\<lparr>req := (if q = None then Null else Freed),
                     resp := (if r = None then Null else Freed)\<rparr>)))
     else Ret (True, s\<lparr>allocated := []\<rparr>)))"

definition call_alloc :: "'w Env \<Rightarrow> 'w Dispatcher \<Rightarrow> size_t \<Rightarrow> block option \<times> 'w Dispatcher" where
  "call_alloc E s n =
     (if n > 0x7fffffff then (None, s)
      else case c_malloc E (8 + n) (world s) of
             (False, w) \<Rightarrow> (None, s\<lparr>world := w\<rparr>)
           | (True, w) \<Rightarrow>
               (Some (replicate (unat n) 0xff), s\<lparr>world := w, allocated := n # allocated s\<rparr>))"

text \<open>\<open>gck_rpc_message_reset\<close> through a pointer: it asserts that the pointer is not null.\<close>

definition reset_through :: "GckRpcMessage ptr \<Rightarrow> GckRpcMessage ptr outcome" where
  "reset_through p =
     (case p of
        Null \<Rightarrow> Abort
      | Freed \<Rightarrow> Fault
      | Ptr m \<Rightarrow> obind (gck_rpc_message_reset m) (\<lambda>m. Ret (Ptr m)))"

definition call_reset :: "'w Dispatcher \<Rightarrow> 'w Dispatcher outcome" where
  "call_reset s =
     obind (reset_through (req s)) (\<lambda>q.
     obind (reset_through (resp s)) (\<lambda>r.
     Ret (s\<lparr>allocated := [], req := q, resp := r\<rparr>)))"

section \<open>Reading arguments\<close>

text \<open>
  A \<open>proto_read_\<close> function gives the error it returns (\<open>Inl\<close>) or the arguments it has
  filled in (\<open>Inr\<close>).
\<close>

type_synonym ('w, 'a) reader = "('w Dispatcher) \<Rightarrow> ((CK_RV + 'a) \<times> 'w Dispatcher) outcome"

definition req_expect :: "string \<Rightarrow> 'w Dispatcher \<Rightarrow> (unit \<times> 'w Dispatcher) outcome" where
  "req_expect part s = on_req s (\<lambda>m. expect_part m part (\<lambda>m. Ret ((), m)))"

text \<open>\<open>if (!egg_buffer_get_ (&msg->buffer, msg->parsed, &msg->parsed, ...)) return PARSE_ERROR;\<close>\<close>

definition req_get ::
  "(EggBuffer \<Rightarrow> size_t \<Rightarrow> ((size_t \<times> 'a) option \<times> EggBuffer) outcome) \<Rightarrow> 'w Dispatcher \<Rightarrow>
   ('a \<Rightarrow> 'w Dispatcher \<Rightarrow> ((CK_RV + 'b) \<times> 'w Dispatcher) outcome) \<Rightarrow>
   ((CK_RV + 'b) \<times> 'w Dispatcher) outcome"
where
  "req_get get s k =
     obind (on_req s (msg_get get)) (\<lambda>(r, s).
     case r of None \<Rightarrow> Ret (Inl PARSE_ERROR, s) | Some v \<Rightarrow> k v s)"

text \<open>\<open>if (!(p = call_alloc (cs, n))) return CKR_DEVICE_MEMORY;\<close>\<close>

definition alloc_or_fail ::
  "'w Env \<Rightarrow> 'w Dispatcher \<Rightarrow> size_t \<Rightarrow>
   (block \<Rightarrow> 'w Dispatcher \<Rightarrow> ((CK_RV + 'b) \<times> 'w Dispatcher) outcome) \<Rightarrow>
   ((CK_RV + 'b) \<times> 'w Dispatcher) outcome"
where
  "alloc_or_fail E s n k =
     (case call_alloc E s n of
        (None, s) \<Rightarrow> Ret (Inl CKR_DEVICE_MEMORY, s)
      | (Some p, s) \<Rightarrow> k p s)"

definition proto_read_byte_buffer :: "'w Env \<Rightarrow> ('w, block option \<times> CK_ULONG option) reader" where
  "proto_read_byte_buffer E s =
     obind (req_expect ''fy'' s) (\<lambda>(_, s).
     req_get egg_buffer_get_byte s (\<lambda>flags s.
     req_get egg_buffer_get_uint32 s (\<lambda>n s.
     let n_buffer = (if flags AND GCK_RPC_BYTE_BUFFER_NULL_COUNT \<noteq> 0 then None
                     else Some (ucast n)) in
     if flags AND GCK_RPC_BYTE_BUFFER_NULL_DATA = 0 then
       alloc_or_fail E s (ucast n * 1) (\<lambda>p s. Ret (Inr (Some p, n_buffer), s))
     else Ret (Inr (None, n_buffer), s))))"

definition proto_read_byte_array :: "('w, block option \<times> CK_ULONG) reader" where
  "proto_read_byte_array s =
     obind (req_expect ''ay'' s) (\<lambda>(_, s).
     req_get egg_buffer_get_byte s (\<lambda>valid s.
     if valid = 0 then
       req_get egg_buffer_get_uint32 s (\<lambda>n_size s. Ret (Inr (None, ucast n_size), s))
     else
       req_get egg_buffer_get_byte_array s (\<lambda>(data, n_data) s. Ret (Inr (data, n_data), s))))"

text \<open>The block that \<open>call_alloc\<close> fills with \<open>0xff\<close>, seen as an array of \<open>CK_ULONG\<close>.\<close>

definition proto_read_ulong_buffer :: "'w Env \<Rightarrow> ('w, ulong_array \<times> CK_ULONG) reader" where
  "proto_read_ulong_buffer E s =
     obind (req_expect ''fu'' s) (\<lambda>(_, s).
     req_get egg_buffer_get_uint32 s (\<lambda>n s.
     if n = 0 then Ret (Inr (None, ucast n), s)
     else alloc_or_fail E s (ucast n * sizeof_CK_ULONG) (\<lambda>_ s.
          Ret (Inr (Some (replicate (unat n) (- 1)), ucast n), s))))"

fun read_attribute_buffers :: "'w Env \<Rightarrow> nat \<Rightarrow> ('w, CK_ATTRIBUTE list) reader" where
  "read_attribute_buffers E 0 s = Ret (Inr [], s)"
| "read_attribute_buffers E (Suc i) s =
     req_get egg_buffer_get_uint32 s (\<lambda>type s.
     req_get egg_buffer_get_uint32 s (\<lambda>value s.
     obind (if value = 0 then Ret (Inr \<lparr>attr_type = ucast type, pValue = None, ulValueLen = 0\<rparr>, s)
            else alloc_or_fail E s (ucast value) (\<lambda>p s.
                 Ret (Inr \<lparr>attr_type = ucast type, pValue = Some p, ulValueLen = ucast value\<rparr>, s)))
       (\<lambda>(r, s).
     case r of
       Inl e \<Rightarrow> Ret (Inl e, s)
     | Inr attr \<Rightarrow>
         obind (read_attribute_buffers E i s) (\<lambda>(r, s).
         Ret (map_sum id (\<lambda>as. attr # as) r, s)))))"

definition proto_read_attribute_buffer :: "'w Env \<Rightarrow> ('w, attr_array \<times> CK_ULONG) reader" where
  "proto_read_attribute_buffer E s =
     obind (req_expect ''fA'' s) (\<lambda>(_, s).
     req_get egg_buffer_get_uint32 s (\<lambda>n_attrs s.
     alloc_or_fail E s (ucast n_attrs * sizeof_CK_ATTRIBUTE) (\<lambda>_ s.
     obind (read_attribute_buffers E (unat n_attrs) s) (\<lambda>(r, s).
     Ret (map_sum id (\<lambda>as. (Some as, ucast n_attrs)) r, s)))))"

text \<open>
  The conversion of a 64-bit value to the local \<open>CK_ULONG\<close> stays in the model although its
  condition is false on the platform modelled, where both have eight bytes.
\<close>

fun read_attributes :: "nat \<Rightarrow> ('w, CK_ATTRIBUTE list) reader" where
  "read_attributes 0 s = Ret (Inr [], s)"
| "read_attributes (Suc i) s =
     req_get egg_buffer_get_uint32 s (\<lambda>type s.
     req_get egg_buffer_get_byte s (\<lambda>valid s.
     obind (if valid \<noteq> 0 then
              req_get egg_buffer_get_uint32 s (\<lambda>value s.
              req_get egg_buffer_get_byte_array s (\<lambda>(data, n_data) s.
              if data \<noteq> None \<and> n_data \<noteq> ucast value then Ret (Inl PARSE_ERROR, s)
              else
                obind (if value = 8 \<and> ucast value \<noteq> sizeof_CK_ULONG \<and>
                          gck_rpc_has_ulong_parameter (ucast type)
                       then obind (mem_read data 0 8) (\<lambda>_. Ret sizeof_CK_ULONG)
                       else Ret (ucast value)) (\<lambda>value.
                Ret (Inr \<lparr>attr_type = ucast type, pValue = data, ulValueLen = value\<rparr>, s))))
            else Ret (Inr \<lparr>attr_type = ucast type, pValue = None, ulValueLen = - 1\<rparr>, s))
       (\<lambda>(r, s).
     case r of
       Inl e \<Rightarrow> Ret (Inl e, s)
     | Inr attr \<Rightarrow>
         obind (read_attributes i s) (\<lambda>(r, s).
         Ret (map_sum id (\<lambda>as. attr # as) r, s)))))"

definition proto_read_attribute_array :: "'w Env \<Rightarrow> ('w, attr_array \<times> CK_ULONG) reader" where
  "proto_read_attribute_array E s =
     obind (req_expect ''aA'' s) (\<lambda>(_, s).
     req_get egg_buffer_get_uint32 s (\<lambda>n_attrs s.
     if n_attrs = 0 then Ret (Inr (None, ucast n_attrs), s)
     else alloc_or_fail E s (ucast n_attrs * sizeof_CK_ATTRIBUTE) (\<lambda>_ s.
          obind (read_attributes (unat n_attrs) s) (\<lambda>(r, s).
          Ret (map_sum id (\<lambda>as. (Some as, ucast n_attrs)) r, s)))))"

text \<open>The parameter \<open>length\<close> of \<open>proto_read_space_string\<close> is not looked at.\<close>

definition proto_read_space_string :: "'w Env \<Rightarrow> CK_ULONG \<Rightarrow> ('w, block) reader" where
  "proto_read_space_string E n s =
     obind (req_expect ''s'' s) (\<lambda>(_, s).
     req_get egg_buffer_get_byte_array s (\<lambda>(data, n_data) s.
     alloc_or_fail E s n_data (\<lambda>val s.
     obind (mem_read data 0 (unat n_data)) (\<lambda>xs.
     obind (mem_write (Some val) 0 xs) (\<lambda>val.
     Ret (Inr (cells val), s))))))"

definition proto_read_mechanism :: "('w, CK_MECHANISM) reader" where
  "proto_read_mechanism s =
     obind (req_expect ''M'' s) (\<lambda>(_, s).
     req_get egg_buffer_get_uint32 s (\<lambda>value s.
     req_get egg_buffer_get_byte_array s (\<lambda>(data, n_data) s.
     Ret (Inr \<lparr>mechanism = ucast value, pParameter = data, ulParameterLen = n_data\<rparr>, s))))"

text \<open>The scalar reads of the macros \<open>IN_BYTE\<close> and \<open>IN_ULONG\<close>.\<close>

definition read_byte :: "('w, byte) reader" where
  "read_byte s =
     obind (on_req s gck_rpc_message_read_byte) (\<lambda>(r, s).
     Ret (case r of None \<Rightarrow> Inl PARSE_ERROR | Some v \<Rightarrow> Inr v, s))"

definition read_ulong :: "('w, CK_ULONG) reader" where
  "read_ulong s =
     obind (on_req s gck_rpc_message_read_ulong) (\<lambda>(r, s).
     Ret (case r of None \<Rightarrow> Inl PARSE_ERROR | Some v \<Rightarrow> Inr v, s))"

section \<open>Writing results\<close>

text \<open>\<open>if (!gck_rpc_message_write_ (cs->resp, ...)) return PREP_ERROR; return CKR_OK;\<close>\<close>

definition resp_put ::
  "(GckRpcMessage \<Rightarrow> (bool \<times> GckRpcMessage) outcome) \<Rightarrow> 'w Dispatcher \<Rightarrow>
   (CK_RV \<times> 'w Dispatcher) outcome" where
  "resp_put wr s =
     obind (on_resp s wr) (\<lambda>(ok, s). Ret (if ok then CKR_OK else PREP_ERROR, s))"

text \<open>Fields joined by \<open>||\<close>: the first failure ends the row.\<close>

fun put_fields ::
  "(GckRpcMessage \<Rightarrow> (bool \<times> GckRpcMessage) outcome) list \<Rightarrow> GckRpcMessage \<Rightarrow>
   (bool \<times> GckRpcMessage) outcome" where
  "put_fields [] m = Ret (True, m)"
| "put_fields (f # fs) m =
     obind (f m) (\<lambda>(ok, m). if \<not> ok then Ret (False, m) else put_fields fs m)"

definition put_ulong :: "CK_ULONG \<Rightarrow> GckRpcMessage \<Rightarrow> (bool \<times> GckRpcMessage) outcome" where
  "put_ulong v m = gck_rpc_message_write_ulong m v"

definition put_version :: "CK_VERSION \<Rightarrow> GckRpcMessage \<Rightarrow> (bool \<times> GckRpcMessage) outcome" where
  "put_version v m = gck_rpc_message_write_version m v"

definition put_string :: "block \<Rightarrow> CK_ULONG \<Rightarrow> GckRpcMessage \<Rightarrow> (bool \<times> GckRpcMessage) outcome" where
  "put_string v n m = gck_rpc_message_write_space_string m (Some v) n"

definition proto_write_byte_array ::
  "'w Dispatcher \<Rightarrow> block option \<Rightarrow> CK_ULONG option \<Rightarrow> CK_RV \<Rightarrow> (CK_RV \<times> 'w Dispatcher) outcome"
where
  "proto_write_byte_array s arr n ret =
     (if ret \<noteq> CKR_BUFFER_TOO_SMALL \<and> ret \<noteq> CKR_OK then Ret (ret, s)
      else
        let arr = (if ret = CKR_BUFFER_TOO_SMALL then None else arr) in
        resp_put (\<lambda>m. gck_rpc_message_write_byte_array m arr
                        (case n of None \<Rightarrow> 0 | Some k \<Rightarrow> k)) s)"

definition proto_write_ulong_array ::
  "'w Dispatcher \<Rightarrow> ulong_array \<Rightarrow> CK_ULONG \<Rightarrow> CK_RV \<Rightarrow> (CK_RV \<times> 'w Dispatcher) outcome"
where
  "proto_write_ulong_array s arr n ret =
     (if ret \<noteq> CKR_BUFFER_TOO_SMALL \<and> ret \<noteq> CKR_OK then Ret (ret, s)
      else
        let arr = (if ret = CKR_BUFFER_TOO_SMALL then None else arr) in
        resp_put (\<lambda>m. gck_rpc_message_write_ulong_array m arr n) s)"

definition proto_write_attribute_array ::
  "'w Dispatcher \<Rightarrow> attr_array \<Rightarrow> CK_ULONG \<Rightarrow> CK_RV \<Rightarrow> (CK_RV \<times> 'w Dispatcher) outcome"
where
  "proto_write_attribute_array s arr n ret =
     (if ret \<noteq> CKR_ATTRIBUTE_SENSITIVE \<and> ret \<noteq> CKR_ATTRIBUTE_TYPE_INVALID \<and>
         ret \<noteq> CKR_BUFFER_TOO_SMALL \<and> ret \<noteq> CKR_OK then Ret (ret, s)
      else resp_put (put_fields
             [\<lambda>m. gck_rpc_message_write_attribute_array m arr n, put_ulong ret]) s)"

definition proto_write_info :: "'w Dispatcher \<Rightarrow> CK_INFO \<Rightarrow> (CK_RV \<times> 'w Dispatcher) outcome" where
  "proto_write_info s info =
     resp_put (put_fields
       [put_version (cryptokiVersion info), put_string (info_manufacturerID info) 32,
        put_ulong (info_flags info), put_string (libraryDescription info) 32,
        put_version (libraryVersion info)]) s"

definition proto_write_slot_info ::
  "'w Dispatcher \<Rightarrow> CK_SLOT_INFO \<Rightarrow> (CK_RV \<times> 'w Dispatcher) outcome" where
  "proto_write_slot_info s info =
     resp_put (put_fields
       [put_string (slotDescription info) 64, put_string (slot_manufacturerID info) 32,
        put_ulong (slot_flags info), put_version (slot_hardwareVersion info),
        put_version (slot_firmwareVersion info)]) s"

definition proto_write_token_info ::
  "'w Dispatcher \<Rightarrow> CK_TOKEN_INFO \<Rightarrow> (CK_RV \<times> 'w Dispatcher) outcome" where
  "proto_write_token_info s info =
     resp_put (put_fields
       [put_string (label info) 32, put_string (token_manufacturerID info) 32,
        put_string (model info) 16, put_string (serialNumber info) 16,
        put_ulong (token_flags info), put_ulong (ulMaxSessionCount info),
        put_ulong (ulSessionCount info), put_ulong (ulMaxRwSessionCount info),
        put_ulong (ulRwSessionCount info), put_ulong (ulMaxPinLen info),
        put_ulong (ulMinPinLen info), put_ulong (ulTotalPublicMemory info),
        put_ulong (ulFreePublicMemory info), put_ulong (ulTotalPrivateMemory info),
        put_ulong (ulFreePrivateMemory info), put_version (token_hardwareVersion info),
        put_version (token_firmwareVersion info), put_string (utcTime info) 16]) s"

definition proto_write_mechanism_info ::
  "'w Dispatcher \<Rightarrow> CK_MECHANISM_INFO \<Rightarrow> (CK_RV \<times> 'w Dispatcher) outcome" where
  "proto_write_mechanism_info s info =
     resp_put (put_fields
       [put_ulong (ulMinKeySize info), put_ulong (ulMaxKeySize info),
        put_ulong (mech_flags info)]) s"

definition proto_write_session_info ::
  "'w Dispatcher \<Rightarrow> CK_SESSION_INFO \<Rightarrow> (CK_RV \<times> 'w Dispatcher) outcome" where
  "proto_write_session_info s info =
     resp_put (put_fields
       [put_ulong (slotID info), put_ulong (session_state info),
        put_ulong (session_flags info), put_ulong (ulDeviceError info)]) s"

section \<open>Call macros\<close>

text \<open>
  Each macro takes the rest of the handler as a continuation; \<open>goto _cleanup\<close> leaves with
  the current \<open>_ret\<close>.
\<close>

type_synonym 'w finish = "(CK_RV \<times> 'w Dispatcher) outcome"
type_synonym ('w, 'a) in_macro =
  "'w Dispatcher \<Rightarrow> ('a \<Rightarrow> 'w Dispatcher \<Rightarrow> 'w finish) \<Rightarrow> 'w finish"
type_synonym 'w out_macro =
  "CK_RV \<Rightarrow> 'w Dispatcher \<Rightarrow> (CK_RV \<Rightarrow> 'w Dispatcher \<Rightarrow> 'w finish) \<Rightarrow> 'w finish"

definition BEGIN_CALL ::
  "'w Env \<Rightarrow> ('w CK_FUNCTION_LIST \<Rightarrow> 'f option) \<Rightarrow> 'w Dispatcher \<Rightarrow>
   ('f \<Rightarrow> 'w finish) \<Rightarrow> 'w finish"
where
  "BEGIN_CALL E call s k =
     assert_c (pkcs11_module E \<noteq> None)
      (case call (the (pkcs11_module E)) of
         None \<Rightarrow> Ret (CKR_GENERAL_ERROR, s)
       | Some func \<Rightarrow> k func)"

definition PROCESS_CALL ::
  "('w, 'a) ck_call \<Rightarrow> 'w Dispatcher \<Rightarrow>
   (CK_RV \<Rightarrow> 'a \<Rightarrow> 'w Dispatcher \<Rightarrow> 'w finish) \<Rightarrow> 'w finish"
where
  "PROCESS_CALL func s k =
     (case req s of
        Ptr m \<Rightarrow>
          assert_c (gck_rpc_message_is_verified m)
           (case func (world s) of (ret, out, w) \<Rightarrow> k ret out (s\<lparr>world := w\<rparr>))
      | _ \<Rightarrow> Fault)"

definition END_CALL :: "CK_RV \<Rightarrow> 'w Dispatcher \<Rightarrow> (CK_RV \<times> 'w Dispatcher) outcome" where
  "END_CALL ret s = Ret (ret, s)"

definition IN_ARG :: "('w, 'a) reader \<Rightarrow> ('w, 'a) in_macro" where
  "IN_ARG rd s k =
     obind (rd s) (\<lambda>(r, s). case r of Inl e \<Rightarrow> Ret (e, s) | Inr v \<Rightarrow> k v s)"

definition IN_BYTE :: "('w, byte) in_macro" where
  "IN_BYTE = IN_ARG read_byte"

definition IN_ULONG :: "('w, CK_ULONG) in_macro" where
  "IN_ULONG = IN_ARG read_ulong"

definition IN_SPACE_STRING :: "'w Env \<Rightarrow> CK_ULONG \<Rightarrow> ('w, block) in_macro" where
  "IN_SPACE_STRING E n = IN_ARG (proto_read_space_string E n)"

definition IN_BYTE_BUFFER :: "'w Env \<Rightarrow> ('w, block option \<times> CK_ULONG option) in_macro" where
  "IN_BYTE_BUFFER E = IN_ARG (proto_read_byte_buffer E)"

definition IN_BYTE_ARRAY :: "('w, block option \<times> CK_ULONG) in_macro" where
  "IN_BYTE_ARRAY = IN_ARG proto_read_byte_array"

definition IN_ULONG_BUFFER :: "'w Env \<Rightarrow> ('w, ulong_array \<times> CK_ULONG) in_macro" where
  "IN_ULONG_BUFFER E = IN_ARG (proto_read_ulong_buffer E)"

definition IN_ATTRIBUTE_BUFFER :: "'w Env \<Rightarrow> ('w, attr_array \<times> CK_ULONG) in_macro" where
  "IN_ATTRIBUTE_BUFFER E = IN_ARG (proto_read_attribute_buffer E)"

definition IN_ATTRIBUTE_ARRAY :: "'w Env \<Rightarrow> ('w, attr_array \<times> CK_ULONG) in_macro" where
  "IN_ATTRIBUTE_ARRAY E = IN_ARG (proto_read_attribute_array E)"

definition IN_MECHANISM :: "('w, CK_MECHANISM) in_macro" where
  "IN_MECHANISM = IN_ARG proto_read_mechanism"

text \<open>\<open>if (_ret == CKR_OK) _ret = ...;\<close>\<close>

definition OUT_IF_OK ::
  "('w Dispatcher \<Rightarrow> 'a \<Rightarrow> 'w finish) \<Rightarrow> 'a \<Rightarrow> 'w out_macro"
where
  "OUT_IF_OK wr v ret s k =
     (if ret = CKR_OK then obind (wr s v) (\<lambda>(ret, s). k ret s) else k ret s)"

definition OUT_ULONG :: "CK_ULONG \<Rightarrow> 'w out_macro" where
  "OUT_ULONG = OUT_IF_OK (\<lambda>s v. resp_put (put_ulong v) s)"

definition OUT_INFO :: "CK_INFO \<Rightarrow> 'w out_macro" where
  "OUT_INFO = OUT_IF_OK proto_write_info"

definition OUT_SLOT_INFO :: "CK_SLOT_INFO \<Rightarrow> 'w out_macro" where
  "OUT_SLOT_INFO = OUT_IF_OK proto_write_slot_info"

definition OUT_TOKEN_INFO :: "CK_TOKEN_INFO \<Rightarrow> 'w out_macro" where
  "OUT_TOKEN_INFO = OUT_IF_OK proto_write_token_info"

definition OUT_MECHANISM_INFO :: "CK_MECHANISM_INFO \<Rightarrow> 'w out_macro" where
  "OUT_MECHANISM_INFO = OUT_IF_OK proto_write_mechanism_info"

definition OUT_SESSION_INFO :: "CK_SESSION_INFO \<Rightarrow> 'w out_macro" where
  "OUT_SESSION_INFO = OUT_IF_OK proto_write_session_info"

definition OUT_BYTE_ARRAY :: "block option \<Rightarrow> CK_ULONG option \<Rightarrow> 'w out_macro" where
  "OUT_BYTE_ARRAY arr n ret s k = obind (proto_write_byte_array s arr n ret) (\<lambda>(ret, s). k ret s)"

definition OUT_ULONG_ARRAY :: "ulong_array \<Rightarrow> CK_ULONG \<Rightarrow> 'w out_macro" where
  "OUT_ULONG_ARRAY arr n ret s k = obind (proto_write_ulong_array s arr n ret) (\<lambda>(ret, s). k ret s)"

definition OUT_ATTRIBUTE_ARRAY :: "attr_array \<Rightarrow> CK_ULONG \<Rightarrow> 'w out_macro" where
  "OUT_ATTRIBUTE_ARRAY arr n ret s k =
     obind (proto_write_attribute_array s arr n ret) (\<lambda>(ret, s). k ret s)"

end
