(* ===== verification/Dispatch_Calls.thy ===== *)
theory Dispatch_Calls
  imports Dispatch_State
begin

text \<open>
  The call handlers \<open>rpc_C_...\<close> of \<^verbatim>\<open>gck-rpc-dispatch.c\<close>, in the order of the source. Each
  reads its arguments from the request, calls the module and writes the results into the
  response.
\<close>

unbundle bit_operations_syntax

abbreviation (input) GCK_RPC_HANDSHAKE_LEN :: CK_ULONG where "GCK_RPC_HANDSHAKE_LEN \<equiv> 41"

section \<open>General purpose, slots, tokens and sessions\<close>

definition rpc_C_Initialize :: "'w handler" where
  "rpc_C_Initialize E s =
     assert_c (pkcs11_module E \<noteq> None)
      (obind (proto_read_byte_array s) (\<lambda>(r, s).
       case r of
         Inl e \<Rightarrow> Ret (e, s)
       | Inr (handshake, n_handshake) \<Rightarrow>
           obind (if n_handshake \<noteq> GCK_RPC_HANDSHAKE_LEN \<or> handshake = None then Ret CKR_GENERAL_ERROR
                  else obind (mem_read handshake 0 (unat n_handshake)) (\<lambda>x.
                       Ret (if x \<noteq> GCK_RPC_HANDSHAKE then CKR_GENERAL_ERROR else CKR_OK))) (\<lambda>ret.
           case req s of
             Ptr m \<Rightarrow> assert_c (gck_rpc_message_is_verified m) (Ret (ret, s))
           | _ \<Rightarrow> Fault)))"

text \<open>The loop over the sessions of the thread; it stops at the first one that cannot be closed.\<close>

fun close_sessions ::
  "(CK_ULONG \<Rightarrow> ('w, unit) ck_call) option \<Rightarrow> SessionState list \<Rightarrow> 'w \<Rightarrow>
   (CK_RV \<times> SessionState list \<times> 'w) outcome" where
  "close_sessions close [] w = Ret (CKR_OK, [], w)"
| "close_sessions close (x # xs) w =
     (if sess_id x \<noteq> 0 then
        (case close of
           None \<Rightarrow> Fault
         | Some f \<Rightarrow>
             (case f (sess_id x) w of (ret, _, w) \<Rightarrow>
                if ret \<noteq> CKR_OK then Ret (ret, x # xs, w)
                else obind (close_sessions close xs w) (\<lambda>(ret, xs, w).
                     Ret (ret, x\<lparr>sess_id := 0\<rparr> # xs, w))))
      else obind (close_sessions close xs w) (\<lambda>(ret, xs, w). Ret (ret, x # xs, w)))"

text \<open>The loop over \<open>pkcs11_dispatchers\<close> that makes pending \<open>C_WaitForSlotEvent\<close> calls return.\<close>

fun interrupt_waiters ::
  "'w Env \<Rightarrow> u64 \<Rightarrow> int \<Rightarrow> CallState list \<Rightarrow> 'w \<Rightarrow> (CallState list \<times> 'w) outcome" where
  "interrupt_waiters E app fd [] w = Ret ([], w)"
| "interrupt_waiters E app fd (c # cs) w =
     obind
      (if appid c \<noteq> app then Ret (c, w)
       else if sock c = fd then Ret (c, w)
       else case req c of
              Null \<Rightarrow> Ret (c, w)
            | Freed \<Rightarrow> Fault
            | Ptr m \<Rightarrow>
                if call_id m = GCK_RPC_CALL_C_WaitForSlotEvent \<and> sock c \<noteq> - 1 then
                  (case c_shutdown E (sock c) w of
                     (ok, w) \<Rightarrow> Ret (if ok then c\<lparr>sock := - 1\<rparr> else c, w))
                else Ret (c, w)) (\<lambda>(c, w).
     obind (interrupt_waiters E app fd cs w) (\<lambda>(cs, w). Ret (c # cs, w)))"

definition rpc_C_Finalize :: "'w handler" where
  "rpc_C_Finalize E s =
     assert_c (pkcs11_module E \<noteq> None)
      (obind (close_sessions (C_CloseSession (the (pkcs11_module E))) (sessions s) (world s))
         (\<lambda>(ret, ss, w).
       obind (interrupt_waiters E (appid s) (sock s) (pkcs11_dispatchers s) w) (\<lambda>(ds, w).
       Ret (ret, s\<lparr>sessions := ss, pkcs11_dispatchers := ds, world := w\<rparr>))))"

definition rpc_C_GetInfo :: "'w handler" where
  "rpc_C_GetInfo E s =
     BEGIN_CALL E C_GetInfo s (\<lambda>func.
     PROCESS_CALL func s (\<lambda>ret info s.
     OUT_INFO info ret s (\<lambda>ret s.
     END_CALL ret s)))"

definition rpc_C_GetSlotList :: "'w handler" where
  "rpc_C_GetSlotList E s =
     BEGIN_CALL E C_GetSlotList s (\<lambda>func.
     IN_BYTE s (\<lambda>token_present s.
     IN_ULONG_BUFFER E s (\<lambda>(slot_list, count) s.
     PROCESS_CALL (func token_present slot_list count) s (\<lambda>ret (slot_list, count) s.
     OUT_ULONG_ARRAY slot_list count ret s (\<lambda>ret s.
     END_CALL ret s)))))"

definition rpc_C_GetSlotInfo :: "'w handler" where
  "rpc_C_GetSlotInfo E s =
     BEGIN_CALL E C_GetSlotInfo s (\<lambda>func.
     IN_ULONG s (\<lambda>slot_id s.
     PROCESS_CALL (func slot_id) s (\<lambda>ret info s.
     OUT_SLOT_INFO info ret s (\<lambda>ret s.
     END_CALL ret s))))"

definition rpc_C_GetTokenInfo :: "'w handler" where
  "rpc_C_GetTokenInfo E s =
     BEGIN_CALL E C_GetTokenInfo s (\<lambda>func.
     IN_ULONG s (\<lambda>slot_id s.
     PROCESS_CALL (func slot_id) s (\<lambda>ret info s.
     OUT_TOKEN_INFO info ret s (\<lambda>ret s.
     END_CALL ret s))))"

definition rpc_C_GetMechanismList :: "'w handler" where
  "rpc_C_GetMechanismList E s =
     BEGIN_CALL E C_GetMechanismList s (\<lambda>func.
     IN_ULONG s (\<lambda>slot_id s.
     IN_ULONG_BUFFER E s (\<lambda>(mechanism_list, count) s.
     PROCESS_CALL (func slot_id mechanism_list count) s (\<lambda>ret (mechanism_list, count) s.
     OUT_ULONG_ARRAY mechanism_list count ret s (\<lambda>ret s.
     END_CALL ret s)))))"

definition rpc_C_GetMechanismInfo :: "'w handler" where
  "rpc_C_GetMechanismInfo E s =
     BEGIN_CALL E C_GetMechanismInfo s (\<lambda>func.
     IN_ULONG s (\<lambda>slot_id s.
     IN_ULONG s (\<lambda>type s.
     PROCESS_CALL (func slot_id type) s (\<lambda>ret info s.
     OUT_MECHANISM_INFO info ret s (\<lambda>ret s.
     END_CALL ret s)))))"

definition rpc_C_InitToken :: "'w handler" where
  "rpc_C_InitToken E s =
     BEGIN_CALL E C_InitToken s (\<lambda>func.
     IN_ULONG s (\<lambda>slot_id s.
     IN_BYTE_ARRAY s (\<lambda>(pin, pin_len) s.
     IN_SPACE_STRING E 32 s (\<lambda>label s.
     PROCESS_CALL (func slot_id pin pin_len label) s (\<lambda>ret _ s.
     END_CALL ret s)))))"

abbreviation (input) CK_GNOME_APPARTMENT_SLOT :: "CK_ULONG \<Rightarrow> CK_ULONG" where
  "CK_GNOME_APPARTMENT_SLOT virt \<equiv> virt AND 0x000003FF"

definition rpc_C_WaitForSlotEvent :: "'w handler" where
  "rpc_C_WaitForSlotEvent E s =
     BEGIN_CALL E C_WaitForSlotEvent s (\<lambda>func.
     IN_ULONG s (\<lambda>flags s.
     PROCESS_CALL (func flags) s (\<lambda>ret slot_id s.
     let slot_id = CK_GNOME_APPARTMENT_SLOT slot_id in
     OUT_ULONG slot_id ret s (\<lambda>ret s.
     END_CALL ret s))))"

text \<open>The loop that looks for a free position; \<open>None\<close> when there is none.\<close>

fun store_session ::
  "SessionState list \<Rightarrow> CK_ULONG \<Rightarrow> CK_ULONG \<Rightarrow> SessionState list option" where
  "store_session [] session slot_id = None"
| "store_session (x # xs) session slot_id =
     (if sess_id x = 0 then Some (\<lparr>sess_id = session, sess_slot = slot_id\<rparr> # xs)
      else map_option (\<lambda>xs. x # xs) (store_session xs session slot_id))"

definition rpc_C_OpenSession :: "'w handler" where
  "rpc_C_OpenSession E s =
     BEGIN_CALL E C_OpenSession s (\<lambda>func.
     IN_ULONG s (\<lambda>slot_id s.
     IN_ULONG s (\<lambda>flags s.
     PROCESS_CALL (func slot_id flags) s (\<lambda>ret session s.
     if ret = CKR_OK then
       (case store_session (sessions s) session slot_id of
          None \<Rightarrow> END_CALL CKR_SESSION_COUNT s
        | Some ss \<Rightarrow>
            OUT_ULONG session ret (s\<lparr>sessions := ss\<rparr>) (\<lambda>ret s.
            END_CALL ret s))
     else OUT_ULONG session ret s (\<lambda>ret s. END_CALL ret s)))))"

fun remove_session :: "SessionState list \<Rightarrow> CK_ULONG \<Rightarrow> SessionState list" where
  "remove_session [] session = []"
| "remove_session (x # xs) session =
     (if sess_id x = session then x\<lparr>sess_id := 0\<rparr> # xs else x # remove_session xs session)"

definition rpc_C_CloseSession :: "'w handler" where
  "rpc_C_CloseSession E s =
     BEGIN_CALL E C_CloseSession s (\<lambda>func.
     IN_ULONG s (\<lambda>session s.
     PROCESS_CALL (func session) s (\<lambda>ret _ s.
     if ret = CKR_OK then END_CALL ret (s\<lparr>sessions := remove_session (sessions s) session\<rparr>)
     else END_CALL ret s)))"

fun close_slot_sessions ::
  "(CK_ULONG \<Rightarrow> ('w, unit) ck_call) option \<Rightarrow> CK_ULONG \<Rightarrow> SessionState list \<Rightarrow> 'w \<Rightarrow>
   (CK_RV \<times> SessionState list \<times> 'w) outcome" where
  "close_slot_sessions close slot_id [] w = Ret (CKR_OK, [], w)"
| "close_slot_sessions close slot_id (x # xs) w =
     (if sess_id x \<noteq> 0 \<and> sess_slot x = slot_id then
        (case close of
           None \<Rightarrow> Fault
         | Some f \<Rightarrow>
             (case f (sess_id x) w of (ret, _, w) \<Rightarrow>
                let x = (if ret = CKR_OK \<or> ret = CKR_SESSION_CLOSED \<or>
                            ret = CKR_SESSION_HANDLE_INVALID then x\<lparr>sess_id := 0\<rparr> else x) in
                if ret \<noteq> CKR_OK then Ret (ret, x # xs, w)
                else obind (close_slot_sessions close slot_id xs w) (\<lambda>(ret, xs, w).
                     Ret (ret, x # xs, w))))
      else obind (close_slot_sessions close slot_id xs w) (\<lambda>(ret, xs, w). Ret (ret, x # xs, w)))"

definition rpc_C_CloseAllSessions :: "'w handler" where
  "rpc_C_CloseAllSessions E s =
     BEGIN_CALL E C_CloseAllSessions s (\<lambda>_.
     IN_ULONG s (\<lambda>slot_id s.
     case C_GetSlotInfo (the (pkcs11_module E)) of
       None \<Rightarrow> Fault
     | Some f \<Rightarrow>
         (case f slot_id (world s) of (ret, _, w) \<Rightarrow>
            if ret \<noteq> CKR_OK then END_CALL ret (s\<lparr>world := w\<rparr>)
            else
              obind (close_slot_sessions (C_CloseSession (the (pkcs11_module E))) slot_id
                       (sessions s) w) (\<lambda>(ret, ss, w).
              END_CALL ret (s\<lparr>sessions := ss, world := w\<rparr>)))))"

definition rpc_C_GetFunctionStatus :: "'w handler" where
  "rpc_C_GetFunctionStatus E s =
     BEGIN_CALL E C_GetFunctionStatus s (\<lambda>func.
     IN_ULONG s (\<lambda>session s.
     PROCESS_CALL (func session) s (\<lambda>ret _ s.
     END_CALL ret s)))"

definition rpc_C_CancelFunction :: "'w handler" where
  "rpc_C_CancelFunction E s =
     BEGIN_CALL E C_CancelFunction s (\<lambda>func.
     IN_ULONG s (\<lambda>session s.
     PROCESS_CALL (func session) s (\<lambda>ret _ s.
     END_CALL ret s)))"

definition rpc_C_GetSessionInfo :: "'w handler" where
  "rpc_C_GetSessionInfo E s =
     BEGIN_CALL E C_GetSessionInfo s (\<lambda>func.
     IN_ULONG s (\<lambda>session s.
     PROCESS_CALL (func session) s (\<lambda>ret info s.
     let info = info\<lparr>slotID := CK_GNOME_APPARTMENT_SLOT (slotID info)\<rparr> in
     OUT_SESSION_INFO info ret s (\<lambda>ret s.
     END_CALL ret s))))"

definition rpc_C_InitPIN :: "'w handler" where
  "rpc_C_InitPIN E s =
     BEGIN_CALL E C_InitPIN s (\<lambda>func.
     IN_ULONG s (\<lambda>session s.
     IN_BYTE_ARRAY s (\<lambda>(pin, pin_len) s.
     PROCESS_CALL (func session pin pin_len) s (\<lambda>ret _ s.
     END_CALL ret s))))"

definition rpc_C_SetPIN :: "'w handler" where
  "rpc_C_SetPIN E s =
     BEGIN_CALL E C_SetPIN s (\<lambda>func.
     IN_ULONG s (\<lambda>session s.
     IN_BYTE_ARRAY s (\<lambda>(old_pin, old_len) s.
     IN_BYTE_ARRAY s (\<lambda>(new_pin, new_len) s.
     PROCESS_CALL (func session old_pin old_len new_pin new_len) s (\<lambda>ret _ s.
     END_CALL ret s)))))"

definition rpc_C_GetOperationState :: "'w handler" where
  "rpc_C_GetOperationState E s =
     BEGIN_CALL E C_GetOperationState s (\<lambda>func.
     IN_ULONG s (\<lambda>session s.
     IN_BYTE_BUFFER E s (\<lambda>(operation_state, operation_state_len) s.
     PROCESS_CALL (func session operation_state operation_state_len)
       s (\<lambda>ret (operation_state, operation_state_len) s.
     OUT_BYTE_ARRAY operation_state operation_state_len ret s (\<lambda>ret s.
     END_CALL ret s)))))"

definition rpc_C_SetOperationState :: "'w handler" where
  "rpc_C_SetOperationState E s =
     BEGIN_CALL E C_SetOperationState s (\<lambda>func.
     IN_ULONG s (\<lambda>session s.
     IN_BYTE_ARRAY s (\<lambda>(operation_state, operation_state_len) s.
     IN_ULONG s (\<lambda>encryption_key s.
     IN_ULONG s (\<lambda>authentication_key s.
     PROCESS_CALL (func session operation_state operation_state_len encryption_key authentication_key)
       s (\<lambda>ret _ s.
     END_CALL ret s))))))"

definition rpc_C_Login :: "'w handler" where
  "rpc_C_Login E s =
     BEGIN_CALL E C_Login s (\<lambda>func.
     IN_ULONG s (\<lambda>session s.
     IN_ULONG s (\<lambda>user_type s.
     IN_BYTE_ARRAY s (\<lambda>(pin, pin_len) s.
     PROCESS_CALL (func session user_type pin pin_len) s (\<lambda>ret _ s.
     END_CALL ret s)))))"

definition rpc_C_Logout :: "'w handler" where
  "rpc_C_Logout E s =
     BEGIN_CALL E C_Logout s (\<lambda>func.
     IN_ULONG s (\<lambda>session s.
     PROCESS_CALL (func session) s (\<lambda>ret _ s.
     END_CALL ret s)))"

section \<open>Object operations\<close>

definition rpc_C_CreateObject :: "'w handler" where
  "rpc_C_CreateObject E s =
     BEGIN_CALL E C_CreateObject s (\<lambda>func.
     IN_ULONG s (\<lambda>session s.
     IN_ATTRIBUTE_ARRAY E s (\<lambda>(template, count) s.
     PROCESS_CALL (func session template count) s (\<lambda>ret new_object s.
     OUT_ULONG new_object ret s (\<lambda>ret s.
     END_CALL ret s)))))"

definition rpc_C_CopyObject :: "'w handler" where
  "rpc_C_CopyObject E s =
     BEGIN_CALL E C_CopyObject s (\<lambda>func.
     IN_ULONG s (\<lambda>session s.
     IN_ULONG s (\<lambda>object s.
     IN_ATTRIBUTE_ARRAY E s (\<lambda>(template, count) s.
     PROCESS_CALL (func session object template count) s (\<lambda>ret new_object s.
     OUT_ULONG new_object ret s (\<lambda>ret s.
     END_CALL ret s))))))"

definition rpc_C_DestroyObject :: "'w handler" where
  "rpc_C_DestroyObject E s =
     BEGIN_CALL E C_DestroyObject s (\<lambda>func.
     IN_ULONG s (\<lambda>session s.
     IN_ULONG s (\<lambda>object s.
     PROCESS_CALL (func session object) s (\<lambda>ret _ s.
     END_CALL ret s))))"

definition rpc_C_GetObjectSize :: "'w handler" where
  "rpc_C_GetObjectSize E s =
     BEGIN_CALL E C_GetObjectSize s (\<lambda>func.
     IN_ULONG s (\<lambda>session s.
     IN_ULONG s (\<lambda>object s.
     PROCESS_CALL (func session object) s (\<lambda>ret size s.
     OUT_ULONG size ret s (\<lambda>ret s.
     END_CALL ret s)))))"

definition rpc_C_GetAttributeValue :: "'w handler" where
  "rpc_C_GetAttributeValue E s =
     BEGIN_CALL E C_GetAttributeValue s (\<lambda>func.
     IN_ULONG s (\<lambda>session s.
     IN_ULONG s (\<lambda>object s.
     IN_ATTRIBUTE_BUFFER E s (\<lambda>(template, count) s.
     PROCESS_CALL (func session object template count) s (\<lambda>ret template s.
     OUT_ATTRIBUTE_ARRAY template count ret s (\<lambda>ret s.
     END_CALL ret s))))))"

definition rpc_C_SetAttributeValue :: "'w handler" where
  "rpc_C_SetAttributeValue E s =
     BEGIN_CALL E C_SetAttributeValue s (\<lambda>func.
     IN_ULONG s (\<lambda>session s.
     IN_ULONG s (\<lambda>object s.
     IN_ATTRIBUTE_ARRAY E s (\<lambda>(template, count) s.
     PROCESS_CALL (func session object template count) s (\<lambda>ret _ s.
     END_CALL ret s)))))"

definition rpc_C_FindObjectsInit :: "'w handler" where
  "rpc_C_FindObjectsInit E s =
     BEGIN_CALL E C_FindObjectsInit s (\<lambda>func.
     IN_ULONG s (\<lambda>session s.
     IN_ATTRIBUTE_ARRAY E s (\<lambda>(template, count) s.
     PROCESS_CALL (func session template count) s (\<lambda>ret _ s.
     END_CALL ret s))))"

definition rpc_C_FindObjects :: "'w handler" where
  "rpc_C_FindObjects E s =
     BEGIN_CALL E C_FindObjects s (\<lambda>func.
     IN_ULONG s (\<lambda>session s.
     IN_ULONG_BUFFER E s (\<lambda>(objects, max_object_count) s.
     PROCESS_CALL (func session objects max_object_count) s (\<lambda>ret (objects, object_count) s.
     OUT_ULONG_ARRAY objects object_count ret s (\<lambda>ret s.
     END_CALL ret s)))))"

definition rpc_C_FindObjectsFinal :: "'w handler" where
  "rpc_C_FindObjectsFinal E s =
     BEGIN_CALL E C_FindObjectsFinal s (\<lambda>func.
     IN_ULONG s (\<lambda>session s.
     PROCESS_CALL (func session) s (\<lambda>ret _ s.
     END_CALL ret s)))"

definition rpc_C_EncryptInit :: "'w handler" where
  "rpc_C_EncryptInit E s =
     BEGIN_CALL E C_EncryptInit s (\<lambda>func.
     IN_ULONG s (\<lambda>session s.
     IN_MECHANISM s (\<lambda>mechanism s.
     IN_ULONG s (\<lambda>key s.
     PROCESS_CALL (func session mechanism key) s (\<lambda>ret _ s.
     END_CALL ret s)))))"

definition rpc_C_Encrypt :: "'w handler" where
  "rpc_C_Encrypt E s =
     BEGIN_CALL E C_Encrypt s (\<lambda>func.
     IN_ULONG s (\<lambda>session s.
     IN_BYTE_ARRAY s (\<lambda>(data, data_len) s.
     IN_BYTE_BUFFER E s (\<lambda>(encrypted_data, encrypted_data_len) s.
     PROCESS_CALL (func session data data_len encrypted_data encrypted_data_len)
       s (\<lambda>ret (encrypted_data, encrypted_data_len) s.
     OUT_BYTE_ARRAY encrypted_data encrypted_data_len ret s (\<lambda>ret s.
     END_CALL ret s))))))"

definition rpc_C_EncryptUpdate :: "'w handler" where
  "rpc_C_EncryptUpdate E s =
     BEGIN_CALL E C_EncryptUpdate s (\<lambda>func.
     IN_ULONG s (\<lambda>session s.
     IN_BYTE_ARRAY s (\<lambda>(part, part_len) s.
     IN_BYTE_BUFFER E s (\<lambda>(encrypted_part, encrypted_part_len) s.
     PROCESS_CALL (func session part part_len encrypted_part encrypted_part_len)
       s (\<lambda>ret (encrypted_part, encrypted_part_len) s.
     OUT_BYTE_ARRAY encrypted_part encrypted_part_len ret s (\<lambda>ret s.
     END_CALL ret s))))))"

definition rpc_C_EncryptFinal :: "'w handler" where
  "rpc_C_EncryptFinal E s =
     BEGIN_CALL E C_EncryptFinal s (\<lambda>func.
     IN_ULONG s (\<lambda>session s.
     IN_BYTE_BUFFER E s (\<lambda>(last_encrypted_part, last_encrypted_part_len) s.
     PROCESS_CALL (func session last_encrypted_part last_encrypted_part_len)
       s (\<lambda>ret (last_encrypted_part, last_encrypted_part_len) s.
     OUT_BYTE_ARRAY last_encrypted_part last_encrypted_part_len ret s (\<lambda>ret s.
     END_CALL ret s)))))"

definition rpc_C_DecryptInit :: "'w handler" where
  "rpc_C_DecryptInit E s =
     BEGIN_CALL E C_DecryptInit s (\<lambda>func.
     IN_ULONG s (\<lambda>session s.
     IN_MECHANISM s (\<lambda>mechanism s.
     IN_ULONG s (\<lambda>key s.
     PROCESS_CALL (func session mechanism key) s (\<lambda>ret _ s.
     END_CALL ret s)))))"

definition rpc_C_Decrypt :: "'w handler" where
  "rpc_C_Decrypt E s =
     BEGIN_CALL E C_Decrypt s (\<lambda>func.
     IN_ULONG s (\<lambda>session s.
     IN_BYTE_ARRAY s (\<lambda>(encrypted_data, encrypted_data_len) s.
     IN_BYTE_BUFFER E s (\<lambda>(data, data_len) s.
     PROCESS_CALL (func session encrypted_data encrypted_data_len data data_len)
       s (\<lambda>ret (data, data_len) s.
     OUT_BYTE_ARRAY data data_len ret s (\<lambda>ret s.
     END_CALL ret s))))))"

definition rpc_C_DecryptUpdate :: "'w handler" where
  "rpc_C_DecryptUpdate E s =
     BEGIN_CALL E C_DecryptUpdate s (\<lambda>func.
     IN_ULONG s (\<lambda>session s.
     IN_BYTE_ARRAY s (\<lambda>(encrypted_part, encrypted_part_len) s.
     IN_BYTE_BUFFER E s (\<lambda>(part, part_len) s.
     PROCESS_CALL (func session encrypted_part encrypted_part_len part part_len)
       s (\<lambda>ret (part, part_len) s.
     OUT_BYTE_ARRAY part part_len ret s (\<lambda>ret s.
     END_CALL ret s))))))"

definition rpc_C_DecryptFinal :: "'w handler" where
  "rpc_C_DecryptFinal E s =
     BEGIN_CALL E C_DecryptFinal s (\<lambda>func.
     IN_ULONG s (\<lambda>session s.
     IN_BYTE_BUFFER E s (\<lambda>(last_part, last_part_len) s.
     PROCESS_CALL (func session last_part last_part_len)
       s (\<lambda>ret (last_part, last_part_len) s.
     OUT_BYTE_ARRAY last_part last_part_len ret s (\<lambda>ret s.
     END_CALL ret s)))))"

definition rpc_C_DigestInit :: "'w handler" where
  "rpc_C_DigestInit E s =
     BEGIN_CALL E C_DigestInit s (\<lambda>func.
     IN_ULONG s (\<lambda>session s.
     IN_MECHANISM s (\<lambda>mechanism s.
     PROCESS_CALL (func session mechanism) s (\<lambda>ret _ s.
     END_CALL ret s))))"

definition rpc_C_Digest :: "'w handler" where
  "rpc_C_Digest E s =
     BEGIN_CALL E C_Digest s (\<lambda>func.
     IN_ULONG s (\<lambda>session s.
     IN_BYTE_ARRAY s (\<lambda>(data, data_len) s.
     IN_BYTE_BUFFER E s (\<lambda>(digest, digest_len) s.
     PROCESS_CALL (func session data data_len digest digest_len)
       s (\<lambda>ret (digest, digest_len) s.
     OUT_BYTE_ARRAY digest digest_len ret s (\<lambda>ret s.
     END_CALL ret s))))))"

definition rpc_C_DigestUpdate :: "'w handler" where
  "rpc_C_DigestUpdate E s =
     BEGIN_CALL E C_DigestUpdate s (\<lambda>func.
     IN_ULONG s (\<lambda>session s.
     IN_BYTE_ARRAY s (\<lambda>(part, part_len) s.
     PROCESS_CALL (func session part part_len) s (\<lambda>ret _ s.
     END_CALL ret s))))"

definition rpc_C_DigestKey :: "'w handler" where
  "rpc_C_DigestKey E s =
     BEGIN_CALL E C_DigestKey s (\<lambda>func.
     IN_ULONG s (\<lambda>session s.
     IN_ULONG s (\<lambda>key s.
     PROCESS_CALL (func session key) s (\<lambda>ret _ s.
     END_CALL ret s))))"

definition rpc_C_DigestFinal :: "'w handler" where
  "rpc_C_DigestFinal E s =
     BEGIN_CALL E C_DigestFinal s (\<lambda>func.
     IN_ULONG s (\<lambda>session s.
     IN_BYTE_BUFFER E s (\<lambda>(digest, digest_len) s.
     PROCESS_CALL (func session digest digest_len) s (\<lambda>ret (digest, digest_len) s.
     OUT_BYTE_ARRAY digest digest_len ret s (\<lambda>ret s.
     END_CALL ret s)))))"

definition rpc_C_SignInit :: "'w handler" where
  "rpc_C_SignInit E s =
     BEGIN_CALL E C_SignInit s (\<lambda>func.
     IN_ULONG s (\<lambda>session s.
     IN_MECHANISM s (\<lambda>mechanism s.
     IN_ULONG s (\<lambda>key s.
     PROCESS_CALL (func session mechanism key) s (\<lambda>ret _ s.
     END_CALL ret s)))))"

definition rpc_C_Sign :: "'w handler" where
  "rpc_C_Sign E s =
     BEGIN_CALL E C_Sign s (\<lambda>func.
     IN_ULONG s (\<lambda>session s.
     IN_BYTE_ARRAY s (\<lambda>(part, part_len) s.
     IN_BYTE_BUFFER E s (\<lambda>(signature, signature_len) s.
     PROCESS_CALL (func session part part_len signature signature_len)
       s (\<lambda>ret (signature, signature_len) s.
     OUT_BYTE_ARRAY signature signature_len ret s (\<lambda>ret s.
     END_CALL ret s))))))"

definition rpc_C_SignUpdate :: "'w handler" where
  "rpc_C_SignUpdate E s =
     BEGIN_CALL E C_SignUpdate s (\<lambda>func.
     IN_ULONG s (\<lambda>session s.
     IN_BYTE_ARRAY s (\<lambda>(part, part_len) s.
     PROCESS_CALL (func session part part_len) s (\<lambda>ret _ s.
     END_CALL ret s))))"

definition rpc_C_SignFinal :: "'w handler" where
  "rpc_C_SignFinal E s =
     BEGIN_CALL E C_SignFinal s (\<lambda>func.
     IN_ULONG s (\<lambda>session s.
     IN_BYTE_BUFFER E s (\<lambda>(signature, signature_len) s.
     PROCESS_CALL (func session signature signature_len)
       s (\<lambda>ret (signature, signature_len) s.
     OUT_BYTE_ARRAY signature signature_len ret s (\<lambda>ret s.
     END_CALL ret s)))))"

definition rpc_C_SignRecoverInit :: "'w handler" where
  "rpc_C_SignRecoverInit E s =
     BEGIN_CALL E C_SignRecoverInit s (\<lambda>func.
     IN_ULONG s (\<lambda>session s.
     IN_MECHANISM s (\<lambda>mechanism s.
     IN_ULONG s (\<lambda>key s.
     PROCESS_CALL (func session mechanism key) s (\<lambda>ret _ s.
     END_CALL ret s)))))"

definition rpc_C_SignRecover :: "'w handler" where
  "rpc_C_SignRecover E s =
     BEGIN_CALL E C_SignRecover s (\<lambda>func.
     IN_ULONG s (\<lambda>session s.
     IN_BYTE_ARRAY s (\<lambda>(data, data_len) s.
     IN_BYTE_BUFFER E s (\<lambda>(signature, signature_len) s.
     PROCESS_CALL (func session data data_len signature signature_len)
       s (\<lambda>ret (signature, signature_len) s.
     OUT_BYTE_ARRAY signature signature_len ret s (\<lambda>ret s.
     END_CALL ret s))))))"

definition rpc_C_VerifyInit :: "'w handler" where
  "rpc_C_VerifyInit E s =
     BEGIN_CALL E C_VerifyInit s (\<lambda>func.
     IN_ULONG s (\<lambda>session s.
     IN_MECHANISM s (\<lambda>mechanism s.
     IN_ULONG s (\<lambda>key s.
     PROCESS_CALL (func session mechanism key) s (\<lambda>ret _ s.
     END_CALL ret s)))))"

definition rpc_C_Verify :: "'w handler" where
  "rpc_C_Verify E s =
     BEGIN_CALL E C_Verify s (\<lambda>func.
     IN_ULONG s (\<lambda>session s.
     IN_BYTE_ARRAY s (\<lambda>(data, data_len) s.
     IN_BYTE_ARRAY s (\<lambda>(signature, signature_len) s.
     PROCESS_CALL (func session data data_len signature signature_len) s (\<lambda>ret _ s.
     END_CALL ret s)))))"

definition rpc_C_VerifyUpdate :: "'w handler" where
  "rpc_C_VerifyUpdate E s =
     BEGIN_CALL E C_VerifyUpdate s (\<lambda>func.
     IN_ULONG s (\<lambda>session s.
     IN_BYTE_ARRAY s (\<lambda>(part, part_len) s.
     PROCESS_CALL (func session part part_len) s (\<lambda>ret _ s.
     END_CALL ret s))))"

definition rpc_C_VerifyFinal :: "'w handler" where
  "rpc_C_VerifyFinal E s =
     BEGIN_CALL E C_VerifyFinal s (\<lambda>func.
     IN_ULONG s (\<lambda>session s.
     IN_BYTE_ARRAY s (\<lambda>(signature, signature_len) s.
     PROCESS_CALL (func session signature signature_len) s (\<lambda>ret _ s.
     END_CALL ret s))))"

definition rpc_C_VerifyRecoverInit :: "'w handler" where
  "rpc_C_VerifyRecoverInit E s =
     BEGIN_CALL E C_VerifyRecoverInit s (\<lambda>func.
     IN_ULONG s (\<lambda>session s.
     IN_MECHANISM s (\<lambda>mechanism s.
     IN_ULONG s (\<lambda>key s.
     PROCESS_CALL (func session mechanism key) s (\<lambda>ret _ s.
     END_CALL ret s)))))"

definition rpc_C_VerifyRecover :: "'w handler" where
  "rpc_C_VerifyRecover E s =
     BEGIN_CALL E C_VerifyRecover s (\<lambda>func.
     IN_ULONG s (\<lambda>session s.
     IN_BYTE_ARRAY s (\<lambda>(signature, signature_len) s.
     IN_BYTE_BUFFER E s (\<lambda>(data, data_len) s.
     PROCESS_CALL (func session signature signature_len data data_len)
       s (\<lambda>ret (data, data_len) s.
     OUT_BYTE_ARRAY data data_len ret s (\<lambda>ret s.
     END_CALL ret s))))))"

definition rpc_C_DigestEncryptUpdate :: "'w handler" where
  "rpc_C_DigestEncryptUpdate E s =
     BEGIN_CALL E C_DigestEncryptUpdate s (\<lambda>func.
     IN_ULONG s (\<lambda>session s.
     IN_BYTE_ARRAY s (\<lambda>(part, part_len) s.
     IN_BYTE_BUFFER E s (\<lambda>(encrypted_part, encrypted_part_len) s.
     PROCESS_CALL (func session part part_len encrypted_part encrypted_part_len)
       s (\<lambda>ret (encrypted_part, encrypted_part_len) s.
     OUT_BYTE_ARRAY encrypted_part encrypted_part_len ret s (\<lambda>ret s.
     END_CALL ret s))))))"

definition rpc_C_DecryptDigestUpdate :: "'w handler" where
  "rpc_C_DecryptDigestUpdate E s =
     BEGIN_CALL E C_DecryptDigestUpdate s (\<lambda>func.
     IN_ULONG s (\<lambda>session s.
     IN_BYTE_ARRAY s (\<lambda>(encrypted_part, encrypted_part_len) s.
     IN_BYTE_BUFFER E s (\<lambda>(part, part_len) s.
     PROCESS_CALL (func session encrypted_part encrypted_part_len part part_len)
       s (\<lambda>ret (part, part_len) s.
     OUT_BYTE_ARRAY part part_len ret s (\<lambda>ret s.
     END_CALL ret s))))))"

definition rpc_C_SignEncryptUpdate :: "'w handler" where
  "rpc_C_SignEncryptUpdate E s =
     BEGIN_CALL E C_SignEncryptUpdate s (\<lambda>func.
     IN_ULONG s (\<lambda>session s.
     IN_BYTE_ARRAY s (\<lambda>(part, part_len) s.
     IN_BYTE_BUFFER E s (\<lambda>(encrypted_part, encrypted_part_len) s.
     PROCESS_CALL (func session part part_len encrypted_part encrypted_part_len)
       s (\<lambda>ret (encrypted_part, encrypted_part_len) s.
     OUT_BYTE_ARRAY encrypted_part encrypted_part_len ret s (\<lambda>ret s.
     END_CALL ret s))))))"

definition rpc_C_DecryptVerifyUpdate :: "'w handler" where
  "rpc_C_DecryptVerifyUpdate E s =
     BEGIN_CALL E C_DecryptVerifyUpdate s (\<lambda>func.
     IN_ULONG s (\<lambda>session s.
     IN_BYTE_ARRAY s (\<lambda>(encrypted_part, encrypted_part_len) s.
     IN_BYTE_BUFFER E s (\<lambda>(part, part_len) s.
     PROCESS_CALL (func session encrypted_part encrypted_part_len part part_len)
       s (\<lambda>ret (part, part_len) s.
     OUT_BYTE_ARRAY part part_len ret s (\<lambda>ret s.
     END_CALL ret s))))))"

section \<open>Key operations and random numbers\<close>

definition rpc_C_GenerateKey :: "'w handler" where
  "rpc_C_GenerateKey E s =
     BEGIN_CALL E C_GenerateKey s (\<lambda>func.
     IN_ULONG s (\<lambda>session s.
     IN_MECHANISM s (\<lambda>mechanism s.
     IN_ATTRIBUTE_ARRAY E s (\<lambda>(template, count) s.
     PROCESS_CALL (func session mechanism template count) s (\<lambda>ret key s.
     OUT_ULONG key ret s (\<lambda>ret s.
     END_CALL ret s))))))"

definition rpc_C_GenerateKeyPair :: "'w handler" where
  "rpc_C_GenerateKeyPair E s =
     BEGIN_CALL E C_GenerateKeyPair s (\<lambda>func.
     IN_ULONG s (\<lambda>session s.
     IN_MECHANISM s (\<lambda>mechanism s.
     IN_ATTRIBUTE_ARRAY E s (\<lambda>(public_key_template, public_key_attribute_count) s.
     IN_ATTRIBUTE_ARRAY E s (\<lambda>(private_key_template, private_key_attribute_count) s.
     PROCESS_CALL (func session mechanism public_key_template public_key_attribute_count private_key_template private_key_attribute_count)
       s (\<lambda>ret (public_key, private_key) s.
     OUT_ULONG public_key ret s (\<lambda>ret s.
     OUT_ULONG private_key ret s (\<lambda>ret s.
     END_CALL ret s))))))))"

definition rpc_C_WrapKey :: "'w handler" where
  "rpc_C_WrapKey E s =
     BEGIN_CALL E C_WrapKey s (\<lambda>func.
     IN_ULONG s (\<lambda>session s.
     IN_MECHANISM s (\<lambda>mechanism s.
     IN_ULONG s (\<lambda>wrapping_key s.
     IN_ULONG s (\<lambda>key s.
     IN_BYTE_BUFFER E s (\<lambda>(wrapped_key, wrapped_key_len) s.
     PROCESS_CALL (func session mechanism wrapping_key key wrapped_key wrapped_key_len)
       s (\<lambda>ret (wrapped_key, wrapped_key_len) s.
     OUT_BYTE_ARRAY wrapped_key wrapped_key_len ret s (\<lambda>ret s.
     END_CALL ret s))))))))"

definition rpc_C_UnwrapKey :: "'w handler" where
  "rpc_C_UnwrapKey E s =
     BEGIN_CALL E C_UnwrapKey s (\<lambda>func.
     IN_ULONG s (\<lambda>session s.
     IN_MECHANISM s (\<lambda>mechanism s.
     IN_ULONG s (\<lambda>unwrapping_key s.
     IN_BYTE_ARRAY s (\<lambda>(wrapped_key, wrapped_key_len) s.
     IN_ATTRIBUTE_ARRAY E s (\<lambda>(template, attribute_count) s.
     PROCESS_CALL (func session mechanism unwrapping_key wrapped_key wrapped_key_len template attribute_count)
       s (\<lambda>ret key s.
     OUT_ULONG key ret s (\<lambda>ret s.
     END_CALL ret s))))))))"

definition rpc_C_DeriveKey :: "'w handler" where
  "rpc_C_DeriveKey E s =
     BEGIN_CALL E C_DeriveKey s (\<lambda>func.
     IN_ULONG s (\<lambda>session s.
     IN_MECHANISM s (\<lambda>mechanism s.
     IN_ULONG s (\<lambda>base_key s.
     IN_ATTRIBUTE_ARRAY E s (\<lambda>(template, attribute_count) s.
     PROCESS_CALL (func session mechanism base_key template attribute_count) s (\<lambda>ret key s.
     OUT_ULONG key ret s (\<lambda>ret s.
     END_CALL ret s)))))))"

definition rpc_C_SeedRandom :: "'w handler" where
  "rpc_C_SeedRandom E s =
     BEGIN_CALL E C_SeedRandom s (\<lambda>func.
     IN_ULONG s (\<lambda>session s.
     IN_BYTE_ARRAY s (\<lambda>(seed, seed_len) s.
     PROCESS_CALL (func session seed seed_len) s (\<lambda>ret _ s.
     END_CALL ret s))))"

definition rpc_C_GenerateRandom :: "'w handler" where
  "rpc_C_GenerateRandom E s =
     BEGIN_CALL E C_GenerateRandom s (\<lambda>func.
     IN_ULONG s (\<lambda>session s.
     IN_BYTE_BUFFER E s (\<lambda>(random_data, random_len) s.
     if random_len = None then END_CALL PARSE_ERROR s else
     PROCESS_CALL (func session random_data (the random_len)) s (\<lambda>ret random_data s.
     OUT_BYTE_ARRAY random_data random_len ret s (\<lambda>ret s.
     END_CALL ret s)))))"

end
