(* ===== verification/Dispatch_Call.thy ===== *)
theory Dispatch_Call
  imports Dispatch_Calls
begin

text \<open>
  \<open>dispatch_call\<close> of \<^verbatim>\<open>gck-rpc-dispatch.c\<close>: it prepares a response, runs the handler that
  belongs to the call number and leaves a complete response or an error response; and
  \<open>call_uninit\<close>, which closes what the client left open.
\<close>

section \<open>The switch\<close>

definition rpc_handlers :: "(int \<times> 'w handler) list" where
  "rpc_handlers =
     [(GCK_RPC_CALL_C_Initialize, rpc_C_Initialize),
      (GCK_RPC_CALL_C_Finalize, rpc_C_Finalize),
      (GCK_RPC_CALL_C_GetInfo, rpc_C_GetInfo),
      (GCK_RPC_CALL_C_GetSlotList, rpc_C_GetSlotList),
      (GCK_RPC_CALL_C_GetSlotInfo, rpc_C_GetSlotInfo),
      (GCK_RPC_CALL_C_GetTokenInfo, rpc_C_GetTokenInfo),
      (GCK_RPC_CALL_C_GetMechanismList, rpc_C_GetMechanismList),
      (GCK_RPC_CALL_C_GetMechanismInfo, rpc_C_GetMechanismInfo),
      (GCK_RPC_CALL_C_InitToken, rpc_C_InitToken),
      (GCK_RPC_CALL_C_WaitForSlotEvent, rpc_C_WaitForSlotEvent),
      (GCK_RPC_CALL_C_OpenSession, rpc_C_OpenSession),
      (GCK_RPC_CALL_C_CloseSession, rpc_C_CloseSession),
      (GCK_RPC_CALL_C_CloseAllSessions, rpc_C_CloseAllSessions),
      (GCK_RPC_CALL_C_GetFunctionStatus, rpc_C_GetFunctionStatus),
      (GCK_RPC_CALL_C_CancelFunction, rpc_C_CancelFunction),
      (GCK_RPC_CALL_C_GetSessionInfo, rpc_C_GetSessionInfo),
      (GCK_RPC_CALL_C_InitPIN, rpc_C_InitPIN),
      (GCK_RPC_CALL_C_SetPIN, rpc_C_SetPIN),
      (GCK_RPC_CALL_C_GetOperationState, rpc_C_GetOperationState),
      (GCK_RPC_CALL_C_SetOperationState, rpc_C_SetOperationState),
      (GCK_RPC_CALL_C_Login, rpc_C_Login),
      (GCK_RPC_CALL_C_Logout, rpc_C_Logout),
      (GCK_RPC_CALL_C_CreateObject, rpc_C_CreateObject),
      (GCK_RPC_CALL_C_CopyObject, rpc_C_CopyObject),
      (GCK_RPC_CALL_C_DestroyObject, rpc_C_DestroyObject),
      (GCK_RPC_CALL_C_GetObjectSize, rpc_C_GetObjectSize),
      (GCK_RPC_CALL_C_GetAttributeValue, rpc_C_GetAttributeValue),
      (GCK_RPC_CALL_C_SetAttributeValue, rpc_C_SetAttributeValue),
      (GCK_RPC_CALL_C_FindObjectsInit, rpc_C_FindObjectsInit),
      (GCK_RPC_CALL_C_FindObjects, rpc_C_FindObjects),
      (GCK_RPC_CALL_C_FindObjectsFinal, rpc_C_FindObjectsFinal),
      (GCK_RPC_CALL_C_EncryptInit, rpc_C_EncryptInit),
      (GCK_RPC_CALL_C_Encrypt, rpc_C_Encrypt),
      (GCK_RPC_CALL_C_EncryptUpdate, rpc_C_EncryptUpdate),
      (GCK_RPC_CALL_C_EncryptFinal, rpc_C_EncryptFinal),
      (GCK_RPC_CALL_C_DecryptInit, rpc_C_DecryptInit),
      (GCK_RPC_CALL_C_Decrypt, rpc_C_Decrypt),
      (GCK_RPC_CALL_C_DecryptUpdate, rpc_C_DecryptUpdate),
      (GCK_RPC_CALL_C_DecryptFinal, rpc_C_DecryptFinal),
      (GCK_RPC_CALL_C_DigestInit, rpc_C_DigestInit),
      (GCK_RPC_CALL_C_Digest, rpc_C_Digest),
      (GCK_RPC_CALL_C_DigestUpdate, rpc_C_DigestUpdate),
      (GCK_RPC_CALL_C_DigestKey, rpc_C_DigestKey),
      (GCK_RPC_CALL_C_DigestFinal, rpc_C_DigestFinal),
      (GCK_RPC_CALL_C_SignInit, rpc_C_SignInit),
      (GCK_RPC_CALL_C_Sign, rpc_C_Sign),
      (GCK_RPC_CALL_C_SignUpdate, rpc_C_SignUpdate),
      (GCK_RPC_CALL_C_SignFinal, rpc_C_SignFinal),
      (GCK_RPC_CALL_C_SignRecoverInit, rpc_C_SignRecoverInit),
      (GCK_RPC_CALL_C_SignRecover, rpc_C_SignRecover),
      (GCK_RPC_CALL_C_VerifyInit, rpc_C_VerifyInit),
      (GCK_RPC_CALL_C_Verify, rpc_C_Verify),
      (GCK_RPC_CALL_C_VerifyUpdate, rpc_C_VerifyUpdate),
      (GCK_RPC_CALL_C_VerifyFinal, rpc_C_VerifyFinal),
      (GCK_RPC_CALL_C_VerifyRecoverInit, rpc_C_VerifyRecoverInit),
      (GCK_RPC_CALL_C_VerifyRecover, rpc_C_VerifyRecover),
      (GCK_RPC_CALL_C_DigestEncryptUpdate, rpc_C_DigestEncryptUpdate),
      (GCK_RPC_CALL_C_DecryptDigestUpdate, rpc_C_DecryptDigestUpdate),
      (GCK_RPC_CALL_C_SignEncryptUpdate, rpc_C_SignEncryptUpdate),
      (GCK_RPC_CALL_C_DecryptVerifyUpdate, rpc_C_DecryptVerifyUpdate),
      (GCK_RPC_CALL_C_GenerateKey, rpc_C_GenerateKey),
      (GCK_RPC_CALL_C_GenerateKeyPair, rpc_C_GenerateKeyPair),
      (GCK_RPC_CALL_C_WrapKey, rpc_C_WrapKey),
      (GCK_RPC_CALL_C_UnwrapKey, rpc_C_UnwrapKey),
      (GCK_RPC_CALL_C_DeriveKey, rpc_C_DeriveKey),
      (GCK_RPC_CALL_C_SeedRandom, rpc_C_SeedRandom),
      (GCK_RPC_CALL_C_GenerateRandom, rpc_C_GenerateRandom)]"

text \<open>The \<open>default\<close> label is \<open>assert (0)\<close>.\<close>

definition run_handler :: "int \<Rightarrow> 'w handler" where
  "run_handler i E s =
     (case map_of rpc_handlers i of None \<Rightarrow> Abort | Some f \<Rightarrow> f E s)"

section \<open>Dispatching\<close>

text \<open>
  The two tests after the handler: parsing errors of the request, and memory errors of
  the response, which are looked at only when the handler has returned \<open>CKR_OK\<close>.
\<close>

definition check_errors :: "CK_RV \<Rightarrow> GckRpcMessage \<Rightarrow> GckRpcMessage \<Rightarrow> CK_RV" where
  "check_errors ret rq rs =
     (if ret = CKR_OK then
        let ret = (if gck_rpc_message_buffer_error rq then PARSE_ERROR else ret) in
        if gck_rpc_message_buffer_error rs then PREP_ERROR else ret
      else ret)"

definition error_response :: "CK_RV \<Rightarrow> GckRpcMessage \<Rightarrow> (bool \<times> GckRpcMessage) outcome" where
  "error_response ret m =
     obind (gck_rpc_message_prep m GCK_RPC_CALL_ERROR GCK_RPC_RESPONSE) (\<lambda>(ok, m).
     if \<not> ok then Ret (False, m)
     else
       obind (gck_rpc_message_write_ulong m (ucast (ucast ret :: u32))) (\<lambda>(ok, m).
       if \<not> ok then Ret (False, m)
       else Ret (\<not> gck_rpc_message_buffer_error m, m)))"

text \<open>The part of \<open>dispatch_call\<close> after the \<open>switch\<close>.\<close>

definition after_handler :: "CK_RV \<Rightarrow> 'w Dispatcher \<Rightarrow> (bool \<times> 'w Dispatcher) outcome" where
  "after_handler ret s =
     (case (req s, resp s) of
        (Ptr rq, Ptr rs) \<Rightarrow>
          (let ret = check_errors ret rq rs in
           if ret = CKR_OK then
             assert_c (gck_rpc_message_is_verified rs)
             (assert_c (call_type rs = Some GCK_RPC_RESPONSE)
             (assert_c (call_id rs = call_id rq)
             (assert_c (entry_response (gck_rpc_calls ! nat (call_id rs)) \<noteq> None)
             (assert_c (entry_response (gck_rpc_calls ! nat (call_id rs)) = signature rs)
             (Ret (True, s))))))
           else on_resp s (error_response ret))
      | _ \<Rightarrow> Fault)"

definition dispatch_call :: "'w Env \<Rightarrow> 'w Dispatcher \<Rightarrow> (bool \<times> 'w Dispatcher) outcome" where
  "dispatch_call E s =
     (case req s of
        Ptr q \<Rightarrow>
          assert_c (call_id q > GCK_RPC_CALL_ERROR) (assert_c (call_id q < GCK_RPC_CALL_MAX)
           (obind (on_resp s (\<lambda>m. gck_rpc_message_prep m (call_id q) GCK_RPC_RESPONSE)) (\<lambda>(ok, s).
            if \<not> ok then Ret (False, s)
            else
              obind (run_handler (call_id q) E s) (\<lambda>(ret, s).
              after_handler ret s))))
      | _ \<Rightarrow> Fault)"

section \<open>The end of a connection\<close>

definition free_through :: "GckRpcMessage ptr \<Rightarrow> GckRpcMessage ptr outcome" where
  "free_through p =
     (case p of
        Null \<Rightarrow> Ret Null
      | Freed \<Rightarrow> Fault
      | Ptr m \<Rightarrow> obind (gck_rpc_message_free (Some m)) (\<lambda>_. Ret Freed))"

definition call_uninit :: "'w Env \<Rightarrow> 'w Dispatcher \<Rightarrow> 'w Dispatcher outcome" where
  "call_uninit E s =
     obind (if req s \<noteq> Null then obind (rpc_C_Finalize E s) (\<lambda>(_, s). Ret s) else Ret s) (\<lambda>s.
     obind (call_reset s) (\<lambda>s.
     obind (free_through (req s)) (\<lambda>q.
     obind (free_through (resp s)) (\<lambda>r.
     Ret (s\<lparr>req := q, resp := r\<rparr>)))))"

end
