(* ===== verification/Dispatch_Rules.thy ===== *)
theory Dispatch_Rules
  imports Dispatch_Call
begin

text \<open>
  Rules for the macros of the call handlers. \<open>ready\<close> describes a dispatcher in the middle
  of a call by the parts of the two signatures that are still to come; a reader consumes a
  part of the request's signature, a writer a part of the response's. The contracts are
  the locales \<open>request_reader\<close> and \<open>response_writer\<close>, interpreted on every \<open>proto_\<close> function.
\<close>

unbundle bit_operations_syntax

section \<open>A dispatcher during a call\<close>

definition conn :: "'w Dispatcher \<Rightarrow> u64 \<times> int \<times> IoFunctions \<times> bool" where
  "conn s = (appid s, sock s, io s, use_tls s)"

definition live_msg :: "GckRpcMessage \<Rightarrow> bool" where
  "live_msg m \<longleftrightarrow> egg_wf (buffer m) \<and> allocator (buffer m) \<noteq> None"

definition msgs_live :: "int \<Rightarrow> GckRpcMessage \<Rightarrow> GckRpcMessage \<Rightarrow> bool" where
  "msgs_live i q r \<longleftrightarrow>
     0 < i \<and> i < GCK_RPC_CALL_MAX \<and> live_msg q \<and> live_msg r \<and> call_id q = i \<and>
     call_id r = i \<and> signature q \<noteq> None \<and> call_type r = Some GCK_RPC_RESPONSE \<and>
     signature r = call_signature i GCK_RPC_RESPONSE \<and>
     prefix (encode_header i (call_signature i GCK_RPC_RESPONSE)) (contents (buffer r))"

lemma msgs_live_signatures:
  assumes "msgs_live i q r"
  shows "signature q \<noteq> None" "signature r \<noteq> None"
  using assms call_signature_some [of i GCK_RPC_RESPONSE] by (auto simp: msgs_live_def)

text \<open>No dispatcher in the list has released its messages while it is still listed.\<close>

definition peers_ok :: "'w Dispatcher \<Rightarrow> bool" where
  "peers_ok s \<longleftrightarrow> list_all (\<lambda>d. req d \<noteq> Freed) (pkcs11_dispatchers s)"

definition live ::
  "int \<Rightarrow> u64 \<times> int \<times> IoFunctions \<times> bool \<Rightarrow> 'w Dispatcher \<Rightarrow> bool" where
  "live i c s \<longleftrightarrow>
     conn s = c \<and> length (sessions s) = PKCS11PROXY_MAX_SESSION_COUNT \<and> peers_ok s \<and>
     (\<exists>q r. req s = Ptr q \<and> resp s = Ptr r \<and> msgs_live i q r)"

definition ready ::
  "int \<Rightarrow> u64 \<times> int \<times> IoFunctions \<times> bool \<Rightarrow> string \<Rightarrow> string \<Rightarrow> 'w Dispatcher \<Rightarrow> bool" where
  "ready i c rq rs s \<longleftrightarrow>
     conn s = c \<and> length (sessions s) = PKCS11PROXY_MAX_SESSION_COUNT \<and> peers_ok s \<and>
     (\<exists>q r. req s = Ptr q \<and> resp s = Ptr r \<and> msgs_live i q r \<and>
        sigverify q = Some rq \<and> sigverify r = Some rs)"

text \<open>After the module's return value \<open>ret\<close>: only a success needs the rest of the response.\<close>

definition out_ready ::
  "int \<Rightarrow> u64 \<times> int \<times> IoFunctions \<times> bool \<Rightarrow> CK_RV \<Rightarrow> string \<Rightarrow> 'w Dispatcher \<Rightarrow> bool" where
  "out_ready i c ret rs s \<longleftrightarrow> live i c s \<and> (ret = CKR_OK \<longrightarrow> ready i c [] rs s)"

definition finished ::
  "int \<Rightarrow> u64 \<times> int \<times> IoFunctions \<times> bool \<Rightarrow> CK_RV \<times> 'w Dispatcher \<Rightarrow> bool" where
  "finished i c r \<longleftrightarrow> (case r of (ret, s) \<Rightarrow> out_ready i c ret [] s)"

lemma ready_live: "ready i c rq rs s \<Longrightarrow> live i c s"
  by (auto simp: ready_def live_def)

lemma ready_out: "ready i c [] rs s \<Longrightarrow> out_ready i c ret rs s"
  by (simp add: out_ready_def ready_live)

lemma live_updates [simp]:
  "live i c (s\<lparr>world := w\<rparr>) = live i c s"
  "ready i c rq rs (s\<lparr>world := w\<rparr>) = ready i c rq rs s"
  "live i c (s\<lparr>allocated := xs\<rparr>) = live i c s"
  "ready i c rq rs (s\<lparr>allocated := xs\<rparr>) = ready i c rq rs s"
  by (simp_all add: live_def ready_def conn_def peers_ok_def)

lemma peers_ok_updates [simp]:
  "peers_ok (s\<lparr>req := q\<rparr>) = peers_ok s" "peers_ok (s\<lparr>resp := q\<rparr>) = peers_ok s"
  "peers_ok (s\<lparr>sessions := ss\<rparr>) = peers_ok s"
  by (simp_all add: peers_ok_def)

lemma live_sessions [simp]:
  "length ss = length (sessions s) \<Longrightarrow> live i c (s\<lparr>sessions := ss\<rparr>) = live i c s"
  "length ss = length (sessions s) \<Longrightarrow> ready i c rq rs (s\<lparr>sessions := ss\<rparr>) = ready i c rq rs s"
  by (simp_all add: live_def ready_def conn_def)

lemma finished_error: "live i c s \<Longrightarrow> ret \<noteq> CKR_OK \<Longrightarrow> finished i c (ret, s)"
  by (simp add: finished_def out_ready_def)

lemma msgs_live_req:
  assumes "msgs_live i q r" "got q q'"
  shows "msgs_live i q' r" "sigverify q' = sigverify q"
proof -
  have q': "q' = q\<lparr>buffer := buffer q', parsed := parsed q'\<rparr>" and e: "egg_in (buffer q) (buffer q')"
    using assms(2) by (auto simp: got_def)
  have f: "call_id q' = call_id q" "signature q' = signature q" "sigverify q' = sigverify q"
    by (subst q', simp)+
  show "msgs_live i q' r" "sigverify q' = sigverify q"
    using assms(1) e f by (auto simp: msgs_live_def live_msg_def egg_in_def)
qed

section \<open>Readers\<close>

definition reader_post ::
  "int \<Rightarrow> u64 \<times> int \<times> IoFunctions \<times> bool \<Rightarrow> string \<Rightarrow> string \<Rightarrow> ('a \<Rightarrow> bool) \<Rightarrow>
   (CK_RV + 'a) \<times> 'w Dispatcher \<Rightarrow> bool" where
  "reader_post i c rq rs V res \<longleftrightarrow>
     (case res of
        (Inl e, s) \<Rightarrow> e \<noteq> CKR_OK \<and> live i c s
      | (Inr v, s) \<Rightarrow> ready i c rq rs s \<and> V v)"

locale request_reader =
  fixes part :: string
    and rd :: "('w, 'a) reader"
    and V :: "'a \<Rightarrow> bool"
  assumes read_part: "ready i c (part @ rq) rs s \<Longrightarrow> wp (rd s) (reader_post i c rq rs V)"
begin

lemma IN_rule:
  assumes "ready i c (part @ rq) rs s"
    and "\<And>v s'. ready i c rq rs s' \<Longrightarrow> V v \<Longrightarrow> wp (k v s') (finished i c)"
  shows "wp (IN_ARG rd s k) (finished i c)"
proof -
  have "wp (case x of (r, s) \<Rightarrow> case r of Inl e \<Rightarrow> Ret (e, s) | Inr v \<Rightarrow> k v s) (finished i c)"
    if "reader_post i c rq rs V x" for x
    using that assms(2)
    by (auto simp: reader_post_def finished_error split: prod.splits sum.splits)
  from wp_mono [OF read_part [OF assms(1)] this] show ?thesis by (simp add: IN_ARG_def)
qed

end

lemma wp_req_expect:
  assumes "ready i c (part @ rq) rs s"
    and "\<And>s'. ready i c rq rs s' \<Longrightarrow> wp (f s') Q"
  shows "wp (obind (req_expect part s) (\<lambda>(_, s'). f s')) Q"
proof -
  obtain q r where s: "req s = Ptr q" "resp s = Ptr r" "msgs_live i q r" "conn s = c"
    "length (sessions s) = 256" "peers_ok s" "sigverify q = Some (part @ rq)" "sigverify r = Some rs"
    using assms(1) by (auto simp: ready_def)
  then have n: "sig_next q part = Some (q\<lparr>sigverify := Some rq\<rparr>)"
    using msgs_live_signatures [OF s(3)] by auto
  then have "req_expect part s = Ret ((), s\<lparr>req := Ptr (q\<lparr>sigverify := Some rq\<rparr>)\<rparr>)"
    using s by (simp add: req_expect_def on_req_def expect_part_eq)
  moreover have "ready i c rq rs (s\<lparr>req := Ptr (q\<lparr>sigverify := Some rq\<rparr>)\<rparr>)"
    using s by (auto simp: ready_def conn_def msgs_live_def live_msg_def)
  ultimately show ?thesis using assms(2) by simp
qed

lemma wp_req_get:
  assumes "ready i c rq rs s"
    and "\<And>q. egg_wf (buffer q) \<Longrightarrow> wp (msg_get get q) (\<lambda>(r, q'). got q q' \<and> (\<forall>v. r = Some v \<longrightarrow> P v))"
    and "\<And>v s'. ready i c rq rs s' \<Longrightarrow> P v \<Longrightarrow> wp (k v s') (reader_post i c rq' rs' V)"
  shows "wp (req_get get s k) (reader_post i c rq' rs' V)"
proof -
  obtain q r where s: "req s = Ptr q" "resp s = Ptr r" "msgs_live i q r" "conn s = c"
    "length (sessions s) = 256" "peers_ok s" "sigverify q = Some rq" "sigverify r = Some rs"
    using assms(1) by (auto simp: ready_def)
  then obtain res q' where g: "msg_get get q = Ret (res, q')" "got q q'" "\<And>v. res = Some v \<Longrightarrow> P v"
    using assms(2) [of q] by (auto simp: msgs_live_def live_msg_def elim: wp_RetE)
  have "ready i c rq rs (s\<lparr>req := Ptr q'\<rparr>)"
    using s msgs_live_req [OF s(3) g(2)] by (auto simp: ready_def conn_def)
  moreover from this have "live i c (s\<lparr>req := Ptr q'\<rparr>)" by (rule ready_live)
  ultimately show ?thesis
    using s g assms(3)
    by (auto simp: req_get_def on_req_def reader_post_def split: option.split)
qed

lemma wp_req_get_byte:
  assumes "ready i c rq rs s"
    and "\<And>v s'. ready i c rq rs s' \<Longrightarrow> wp (k v s') (reader_post i c rq' rs' V)"
  shows "wp (req_get egg_buffer_get_byte s k) (reader_post i c rq' rs' V)"
  using assms byte_codec.wp_msg_get by (intro wp_req_get [where P = "\<lambda>_. True"]) auto

lemma wp_req_get_uint32:
  assumes "ready i c rq rs s"
    and "\<And>v s'. ready i c rq rs s' \<Longrightarrow> wp (k v s') (reader_post i c rq' rs' V)"
  shows "wp (req_get egg_buffer_get_uint32 s k) (reader_post i c rq' rs' V)"
  using assms uint32_codec.wp_msg_get by (intro wp_req_get [where P = "\<lambda>_. True"]) auto

lemma wp_req_get_byte_array:
  assumes "ready i c rq rs s"
    and "\<And>d n s'. ready i c rq rs s' \<Longrightarrow> unat n = length (cells d) \<Longrightarrow>
           wp (k (d, n) s') (reader_post i c rq' rs' V)"
  shows "wp (req_get egg_buffer_get_byte_array s k) (reader_post i c rq' rs' V)"
proof (rule wp_req_get [OF assms(1), where P = "\<lambda>(d, n). unat n = length (cells d)"])
  fix q :: GckRpcMessage assume q: "egg_wf (buffer q)"
  show "wp (msg_get egg_buffer_get_byte_array q)
      (\<lambda>(r, q'). got q q' \<and> (\<forall>v. r = Some v \<longrightarrow> (case v of (d, n) \<Rightarrow> unat n = length (cells d))))"
    using byte_array_codec.wp_msg_get [OF q] byte_array_get_length [OF q] by (auto simp: wp_iff)
qed (use assms(2) in auto)

lemma wp_alloc:
  assumes "ready i c rq rs s"
    and "\<And>p s'. ready i c rq rs s' \<Longrightarrow> length p = unat n \<Longrightarrow> unat n \<le> 0x7fffffff \<Longrightarrow>
           wp (k p s') (reader_post i c rq' rs' V)"
  shows "wp (alloc_or_fail E s n k) (reader_post i c rq' rs' V)"
proof -
  have "unat n \<le> 0x7fffffff" if "\<not> n > 0x7fffffff"
    using that by (simp add: word_less_nat_alt not_less)
  moreover obtain ok w where "c_malloc E (8 + n) (world s) = (ok, w)" by (cases "c_malloc E (8 + n) (world s)")
  ultimately show ?thesis
    using assms ready_live [OF assms(1)]
    by (cases ok) (auto simp: alloc_or_fail_def call_alloc_def reader_post_def)
qed

lemma reader_post_simps [simp]:
  "reader_post i c rq rs V (Inr v, s) \<longleftrightarrow> ready i c rq rs s \<and> V v"
  "reader_post i c rq rs V (Inl e, s) \<longleftrightarrow> e \<noteq> CKR_OK \<and> live i c s"
  by (simp_all add: reader_post_def)

lemma wp_reader_bind:
  assumes "wp m (reader_post i c rq rs W)"
    and "\<And>v s'. ready i c rq rs s' \<Longrightarrow> W v \<Longrightarrow> wp (k v s') (reader_post i c rq' rs' V)"
  shows "wp (obind m (\<lambda>(r, s). case r of Inl e \<Rightarrow> Ret (Inl e, s) | Inr v \<Rightarrow> k v s))
    (reader_post i c rq' rs' V)"
  unfolding wp_obind using assms(2)
  by (intro wp_mono [OF assms(1)]) (auto simp: reader_post_def split: prod.splits sum.splits)

lemma wp_reader_map:
  assumes "wp m (reader_post i c rq rs W)" "\<And>v. W v \<Longrightarrow> V (f v)"
  shows "wp (obind m (\<lambda>(r, s). Ret (map_sum id f r, s))) (reader_post i c rq rs V)"
  unfolding wp_obind using assms(2)
  by (intro wp_mono [OF assms(1)]) (auto simp: reader_post_def split: prod.splits sum.splits)

lemma wp_read_scalar:
  assumes "ready i c (part @ rq) rs s"
    and "\<And>q q1. sig_next q part = Some q1 \<Longrightarrow> egg_wf (buffer q) \<Longrightarrow> wp (rd q) (field_read q part)"
  shows "wp (obind (on_req s rd) (\<lambda>(r, s).
      Ret (case r of None \<Rightarrow> Inl PARSE_ERROR | Some v \<Rightarrow> Inr v, s)))
    (reader_post i c rq rs (\<lambda>_. True))"
proof -
  obtain q r where s: "req s = Ptr q" "resp s = Ptr r" "msgs_live i q r" "conn s = c"
    "length (sessions s) = 256" "peers_ok s" "sigverify q = Some (part @ rq)" "sigverify r = Some rs"
    using assms(1) by (auto simp: ready_def)
  define q1 where "q1 = q\<lparr>sigverify := Some rq\<rparr>"
  have n: "sig_next q part = Some q1"
    using s msgs_live_signatures [OF s(3)] by (auto simp: q1_def)
  obtain v q' where g: "rd q = Ret (v, q')" "field_read q part (v, q')"
    using assms(2) [OF n] s(3) by (auto simp: msgs_live_def live_msg_def elim: wp_RetE)
  then have "got q1 q'" using n by (auto simp: field_read_def got_def q1_def)
  moreover have "msgs_live i q1 r" "sigverify q1 = Some rq"
    using s(3) by (auto simp: q1_def msgs_live_def live_msg_def)
  ultimately have "ready i c rq rs (s\<lparr>req := Ptr q'\<rparr>)"
    using s msgs_live_req [of i q1 r q'] by (auto simp: ready_def conn_def)
  moreover from this have "live i c (s\<lparr>req := Ptr q'\<rparr>)" by (rule ready_live)
  ultimately show ?thesis
    using s g by (auto simp: on_req_def reader_post_def split: option.split)
qed

lemmas reader_rules = wp_req_get_byte wp_req_get_uint32 wp_req_get_byte_array wp_alloc

section \<open>The readers of the source\<close>

interpretation byte_reader: request_reader "''y''" read_byte "\<lambda>_. True"
proof
  fix i c rq rs and s :: "'w Dispatcher"
  assume "ready i c (''y'' @ rq) rs s"
  then show "wp (read_byte s) (reader_post i c rq rs (\<lambda>_. True))"
    by (rule wp_read_scalar [OF _ byte_field.read_field, folded read_byte_def])
qed

interpretation ulong_reader: request_reader "''u''" read_ulong "\<lambda>_. True"
proof
  fix i c rq rs and s :: "'w Dispatcher"
  assume "ready i c (''u'' @ rq) rs s"
  then show "wp (read_ulong s) (reader_post i c rq rs (\<lambda>_. True))"
    by (rule wp_read_scalar [OF _ ulong_field.read_field, folded read_ulong_def])
qed

definition byte_buffer_sized :: "block option \<times> CK_ULONG option \<Rightarrow> bool" where
  "byte_buffer_sized v \<longleftrightarrow>
     (case v of (Some xs, Some n) \<Rightarrow> length xs = unat n | _ \<Rightarrow> True)"

definition byte_array_sized :: "block option \<times> CK_ULONG \<Rightarrow> bool" where
  "byte_array_sized v \<longleftrightarrow> (case v of (Some xs, n) \<Rightarrow> length xs = unat n | _ \<Rightarrow> True)"

definition ulong_buffer_sized :: "ulong_array \<times> CK_ULONG \<Rightarrow> bool" where
  "ulong_buffer_sized v \<longleftrightarrow> (case v of (Some xs, n) \<Rightarrow> length xs = unat n | _ \<Rightarrow> True)"

interpretation byte_buffer_reader: request_reader "''fy''" "proto_read_byte_buffer E" byte_buffer_sized
  for E
proof
  fix i c rq rs and s :: "'a Dispatcher"
  assume "ready i c (''fy'' @ rq) rs s"
  then show "wp (proto_read_byte_buffer E s) (reader_post i c rq rs byte_buffer_sized)"
    unfolding proto_read_byte_buffer_def Let_def
    by (elim wp_req_expect reader_rules)
      (auto intro!: wp_alloc simp: byte_buffer_sized_def)
qed

interpretation byte_array_reader: request_reader "''ay''" proto_read_byte_array byte_array_sized
proof
  fix i c rq rs and s :: "'w Dispatcher"
  assume "ready i c (''ay'' @ rq) rs s"
  then show "wp (proto_read_byte_array s) (reader_post i c rq rs byte_array_sized)"
    unfolding proto_read_byte_array_def
    by (elim wp_req_expect reader_rules)
      (auto intro!: wp_req_get_byte_array wp_req_get_uint32
        simp: byte_array_sized_def split: option.split)
qed

interpretation ulong_buffer_reader: request_reader "''fu''" "proto_read_ulong_buffer E"
  ulong_buffer_sized for E
proof
  fix i c rq rs and s :: "'a Dispatcher"
  assume "ready i c (''fu'' @ rq) rs s"
  then show "wp (proto_read_ulong_buffer E s) (reader_post i c rq rs ulong_buffer_sized)"
    unfolding proto_read_ulong_buffer_def
    by (elim wp_req_expect reader_rules)
      (auto intro!: wp_alloc simp: ulong_buffer_sized_def)
qed

interpretation space_string_reader: request_reader "''s''" "proto_read_space_string E n"
  "\<lambda>_. True" for E n
proof
  fix i c rq rs and s :: "'a Dispatcher"
  assume "ready i c (''s'' @ rq) rs s"
  then show "wp (proto_read_space_string E n s) (reader_post i c rq rs (\<lambda>_. True))"
    unfolding proto_read_space_string_def
    by (elim wp_req_expect reader_rules)
      (auto intro!: wp_alloc simp: mem_read_cells mem_write_cells)
qed

definition mechanism_sized :: "CK_MECHANISM \<Rightarrow> bool" where
  "mechanism_sized m \<longleftrightarrow> byte_array_sized (pParameter m, ulParameterLen m)"

interpretation mechanism_reader: request_reader "''M''" proto_read_mechanism mechanism_sized
proof
  fix i c rq rs and s :: "'w Dispatcher"
  assume "ready i c (''M'' @ rq) rs s"
  then show "wp (proto_read_mechanism s) (reader_post i c rq rs mechanism_sized)"
    unfolding proto_read_mechanism_def
    by (elim wp_req_expect reader_rules)
      (auto simp: mechanism_sized_def byte_array_sized_def split: option.split)
qed

definition attr_buffer_sized :: "CK_ATTRIBUTE \<Rightarrow> bool" where
  "attr_buffer_sized a \<longleftrightarrow> byte_array_sized (pValue a, ulValueLen a)"

definition attrs_sized :: "attr_array \<times> CK_ULONG \<Rightarrow> bool" where
  "attrs_sized v \<longleftrightarrow>
     (case v of (None, n) \<Rightarrow> n = 0
      | (Some as, n) \<Rightarrow> length as = unat n \<and> list_all attr_buffer_sized as)"

lemma wp_read_attribute_buffers:
  fixes s :: "'w Dispatcher"
  shows "ready i c rq rs s \<Longrightarrow>
   wp (read_attribute_buffers E n s)
     (reader_post i c rq rs (\<lambda>as. length as = n \<and> list_all attr_buffer_sized as))"
proof (induction n arbitrary: s)
  case (Suc n)
  show ?case
    unfolding read_attribute_buffers.simps
  proof (rule wp_req_get_uint32 [OF Suc.prems], erule wp_req_get_uint32,
      rule wp_reader_bind [where W = attr_buffer_sized])
    fix type val and s' :: "'w Dispatcher" assume "ready i c rq rs s'"
    then show "wp (if val = 0
          then Ret (Inr \<lparr>attr_type = ucast type, pValue = None, ulValueLen = 0\<rparr>, s')
          else alloc_or_fail E s' (ucast val) (\<lambda>p s.
               Ret (Inr \<lparr>attr_type = ucast type, pValue = Some p, ulValueLen = ucast val\<rparr>, s)))
        (reader_post i c rq rs attr_buffer_sized)"
      by (auto intro!: wp_alloc simp: attr_buffer_sized_def byte_array_sized_def)
  next
    fix v and s' :: "'w Dispatcher" assume "ready i c rq rs s'" "attr_buffer_sized v"
    then show "wp (obind (read_attribute_buffers E n s') (\<lambda>(r, s). Ret (map_sum id (\<lambda>as. v # as) r, s)))
        (reader_post i c rq rs (\<lambda>as. length as = Suc n \<and> list_all attr_buffer_sized as))"
      by (intro wp_reader_map [OF Suc.IH]) auto
  qed
qed simp

interpretation attribute_buffer_reader: request_reader "''fA''" "proto_read_attribute_buffer E"
  attrs_sized for E
proof
  fix i c rq rs and s :: "'a Dispatcher"
  assume "ready i c (''fA'' @ rq) rs s"
  then show "wp (proto_read_attribute_buffer E s) (reader_post i c rq rs attrs_sized)"
    unfolding proto_read_attribute_buffer_def
    by (elim wp_req_expect reader_rules)
      (rule wp_reader_map [OF wp_read_attribute_buffers], auto simp: attrs_sized_def)
qed

text \<open>An attribute of a template: a value that was sent has the length that was sent.\<close>

lemma wp_read_attributes:
  fixes s :: "'w Dispatcher"
  shows "ready i c rq rs s \<Longrightarrow>
   wp (read_attributes n s)
     (reader_post i c rq rs (\<lambda>as. length as = n \<and> list_all attr_buffer_sized as))"
proof (induction n arbitrary: s)
  case (Suc n)
  show ?case
    unfolding read_attributes.simps
  proof (rule wp_req_get_uint32 [OF Suc.prems], erule wp_req_get_byte,
      rule wp_reader_bind [where W = attr_buffer_sized])
    fix type valid and s' :: "'w Dispatcher" assume "ready i c rq rs s'"
    then show "wp (if valid \<noteq> 0 then
              req_get egg_buffer_get_uint32 s' (\<lambda>value s.
              req_get egg_buffer_get_byte_array s (\<lambda>(data, n_data) s.
              if data \<noteq> None \<and> n_data \<noteq> ucast value then Ret (Inl PARSE_ERROR, s)
              else
                obind (if value = 8 \<and> ucast value \<noteq> sizeof_CK_ULONG \<and>
                          gck_rpc_has_ulong_parameter (ucast type)
                       then obind (mem_read data 0 8) (\<lambda>_. Ret sizeof_CK_ULONG)
                       else Ret (ucast value)) (\<lambda>value.
                Ret (Inr \<lparr>attr_type = ucast type, pValue = data, ulValueLen = value\<rparr>, s))))
            else Ret (Inr \<lparr>attr_type = ucast type, pValue = None, ulValueLen = - 1\<rparr>, s'))
        (reader_post i c rq rs attr_buffer_sized)"
      by (auto intro!: wp_req_get_uint32 wp_req_get_byte_array dest: ready_live
          simp: attr_buffer_sized_def byte_array_sized_def split: option.split)
  next
    fix v and s' :: "'w Dispatcher" assume "ready i c rq rs s'" "attr_buffer_sized v"
    then show "wp (obind (read_attributes n s') (\<lambda>(r, s). Ret (map_sum id (\<lambda>as. v # as) r, s)))
        (reader_post i c rq rs (\<lambda>as. length as = Suc n \<and> list_all attr_buffer_sized as))"
      by (intro wp_reader_map [OF Suc.IH]) auto
  qed
qed simp

interpretation attribute_array_reader: request_reader "''aA''" "proto_read_attribute_array E"
  attrs_sized for E
proof
  fix i c rq rs and s :: "'a Dispatcher"
  assume "ready i c (''aA'' @ rq) rs s"
  then show "wp (proto_read_attribute_array E s) (reader_post i c rq rs attrs_sized)"
    unfolding proto_read_attribute_array_def
    by (elim wp_req_expect reader_rules)
      (auto simp del: wp_obind simp: attrs_sized_def intro!: wp_alloc wp_reader_map [OF wp_read_attributes])
qed

section \<open>Writers\<close>

definition same_msg :: "GckRpcMessage \<Rightarrow> GckRpcMessage \<Rightarrow> bool" where
  "same_msg m m' \<longleftrightarrow>
     live_msg m' \<and> call_id m' = call_id m \<and> call_type m' = call_type m \<and>
     signature m' = signature m \<and> prefix (contents (buffer m)) (contents (buffer m'))"

text \<open>\<open>f\<close> writes the fields of \<open>part\<close> and, when it reports success, has moved past them.\<close>

definition writes ::
  "(GckRpcMessage \<Rightarrow> (bool \<times> GckRpcMessage) outcome) \<Rightarrow> string \<Rightarrow> bool" where
  "writes f part \<longleftrightarrow>
     (\<forall>m rest. live_msg m \<longrightarrow> signature m \<noteq> None \<longrightarrow> sigverify m = Some (part @ rest) \<longrightarrow>
        wp (f m) (\<lambda>(ok, m'). same_msg m m' \<and> (ok \<longrightarrow> sigverify m' = Some rest)))"

lemma writes_field:
  assumes "\<And>m m1. sig_next m part = Some m1 \<Longrightarrow> egg_wf (buffer m) \<Longrightarrow>
    wp (f m) (field_written m part xs P)"
  shows "writes f part"
  unfolding writes_def
proof (intro allI impI)
  fix m rest assume m: "live_msg m" "signature m \<noteq> None" "sigverify m = Some (part @ rest)"
  then have n: "sig_next m part = Some (m\<lparr>sigverify := Some rest\<rparr>)" by auto
  have "case r of (ok, m') \<Rightarrow> same_msg m m' \<and> (ok \<longrightarrow> sigverify m' = Some rest)"
    if f: "field_written m part xs P r" for r
  proof (cases r)
    case (Pair ok m')
    then have m': "m' = m\<lparr>sigverify := Some rest, buffer := buffer m'\<rparr>"
      and e: "egg_out (buffer m) xs ok (buffer m')" using f n by (auto simp: field_written_def)
    have "call_id m' = call_id m" "call_type m' = call_type m" "signature m' = signature m"
      "sigverify m' = Some rest" by (subst m', simp)+
    then show ?thesis using Pair m(1) e by (simp add: same_msg_def live_msg_def egg_out_def)
  qed
  then show "wp (f m) (\<lambda>(ok, m'). same_msg m m' \<and> (ok \<longrightarrow> sigverify m' = Some rest))"
    using assms [OF n] m(1) by (auto simp: live_msg_def elim!: wp_mono)
qed

lemma writes_nil: "writes (put_fields []) []"
  by (simp add: writes_def same_msg_def)

lemma writes_cons:
  assumes f: "writes f p" and fs: "writes (put_fields fs) ps"
  shows "writes (put_fields (f # fs)) (p @ ps)"
  unfolding writes_def
proof (intro allI impI)
  fix m rest assume m: "live_msg m" "signature m \<noteq> None" "sigverify m = Some ((p @ ps) @ rest)"
  have "wp (f m) (\<lambda>(ok, m'). same_msg m m' \<and> (ok \<longrightarrow> sigverify m' = Some (ps @ rest)))"
    using f m by (simp add: writes_def)
  moreover have "wp (put_fields fs m') (\<lambda>(ok, m''). same_msg m m'' \<and> (ok \<longrightarrow> sigverify m'' = Some rest))"
    if "same_msg m m'" "sigverify m' = Some (ps @ rest)" for m'
  proof -
    have "wp (put_fields fs m') (\<lambda>(ok, m''). same_msg m' m'' \<and> (ok \<longrightarrow> sigverify m'' = Some rest))"
      using fs that m by (auto simp: writes_def same_msg_def)
    then show ?thesis
      using that by (auto elim!: wp_mono simp: same_msg_def intro: prefix_order.trans)
  qed
  ultimately show "wp (put_fields (f # fs) m)
      (\<lambda>(ok, m'). same_msg m m' \<and> (ok \<longrightarrow> sigverify m' = Some rest))"
    by (auto elim!: wp_mono)
qed

lemma writes_ulong: "writes (put_ulong v) ''u''"
  using ulong_field.write_field by (intro writes_field) (auto simp: put_ulong_def)

lemma writes_version: "writes (put_version v) ''v''"
  using version_field.write_field by (intro writes_field) (auto simp: put_version_def)

lemma writes_string:
  assumes "length v = unat n" "n \<noteq> 0" "n < 0x7fffffff"
  shows "writes (put_string v n) ''s''"
  using msg_field.write_field [OF space_string_msg_field [OF assms(2,3)]] assms(1)
  by (intro writes_field) (auto simp: put_string_def)

lemma wp_resp_put:
  assumes "ready i c [] (part @ rs) s" "writes f part"
  shows "wp (resp_put f s) (\<lambda>(ret, s'). out_ready i c ret rs s')"
proof -
  obtain q r where s: "req s = Ptr q" "resp s = Ptr r" "msgs_live i q r" "conn s = c"
    "length (sessions s) = 256" "peers_ok s" "sigverify q = Some []" "sigverify r = Some (part @ rs)"
    using assms(1) by (auto simp: ready_def)
  have "wp (f r) (\<lambda>(ok, m'). same_msg r m' \<and> (ok \<longrightarrow> sigverify m' = Some rs))"
    using assms(2) s msgs_live_signatures [OF s(3)] by (auto simp: writes_def msgs_live_def)
  then obtain ok r' where r': "f r = Ret (ok, r')" "same_msg r r'" "ok \<longrightarrow> sigverify r' = Some rs"
    by (auto simp: wp_iff)
  then have "msgs_live i q r'"
    using s(3) prefix_order.trans by (fastforce simp: msgs_live_def same_msg_def)
  then have "out_ready i c (if ok then CKR_OK else PREP_ERROR) rs (s\<lparr>resp := Ptr r'\<rparr>)"
    using s r' by (auto simp: out_ready_def live_def ready_def conn_def)
  then show ?thesis using s r' by (simp add: resp_put_def on_resp_def)
qed

locale response_writer =
  fixes part :: string
    and wr :: "'w Dispatcher \<Rightarrow> 'a \<Rightarrow> 'w finish"
    and ok :: "'a \<Rightarrow> bool"
  assumes write_part: "ready i c [] (part @ rs) s \<Longrightarrow> ok v \<Longrightarrow>
      wp (wr s v) (\<lambda>(ret, s'). out_ready i c ret rs s')"
begin

lemma OUT_rule:
  assumes "out_ready i c ret (part @ rs) s" "ret = CKR_OK \<Longrightarrow> ok v"
    and "\<And>ret' s'. out_ready i c ret' rs s' \<Longrightarrow> wp (k ret' s') (finished i c)"
  shows "wp (OUT_IF_OK wr v ret s k) (finished i c)"
proof (cases "ret = CKR_OK")
  case True
  then have "wp (wr s v) (\<lambda>(ret, s'). out_ready i c ret rs s')"
    using assms(1,2) by (intro write_part) (auto simp: out_ready_def)
  then show ?thesis using True assms(3) by (auto simp: OUT_IF_OK_def elim!: wp_mono)
next
  case False
  then have "out_ready i c ret rs s" using assms(1) by (simp add: out_ready_def)
  then show ?thesis using False assms(3) by (simp add: OUT_IF_OK_def)
qed

end

lemmas writes_rules = writes_cons [OF writes_ulong] writes_cons [OF writes_version]
  writes_cons [OF writes_string] writes_nil

interpretation ulong_writer: response_writer "''u''" "\<lambda>s v. resp_put (put_ulong v) s" "\<lambda>_. True"
  by unfold_locales (rule wp_resp_put [OF _ writes_ulong])

lemma writes_info:
  assumes "ck_info_wf info"
  shows "writes (put_fields
    [put_version (cryptokiVersion info), put_string (info_manufacturerID info) 32,
     put_ulong (info_flags info), put_string (libraryDescription info) 32,
     put_version (libraryVersion info)]) (''v'' @ ''s'' @ ''u'' @ ''s'' @ ''v'' @ [])"
  by (intro writes_rules) (use assms in \<open>simp_all add: ck_info_wf_def\<close>)

interpretation info_writer: response_writer "''vsusv''" proto_write_info ck_info_wf
  by unfold_locales (use wp_resp_put [OF _ writes_info] in \<open>simp add: proto_write_info_def\<close>)

lemma writes_slot_info:
  assumes "ck_slot_info_wf info"
  shows "writes (put_fields
    [put_string (slotDescription info) 64, put_string (slot_manufacturerID info) 32,
     put_ulong (slot_flags info), put_version (slot_hardwareVersion info),
     put_version (slot_firmwareVersion info)]) (''s'' @ ''s'' @ ''u'' @ ''v'' @ ''v'' @ [])"
  by (intro writes_rules) (use assms in \<open>simp_all add: ck_slot_info_wf_def\<close>)

interpretation slot_info_writer: response_writer "''ssuvv''" proto_write_slot_info ck_slot_info_wf
  by unfold_locales (use wp_resp_put [OF _ writes_slot_info] in \<open>simp add: proto_write_slot_info_def\<close>)

lemma writes_token_info:
  assumes "ck_token_info_wf info"
  shows "writes (put_fields
    [put_string (label info) 32, put_string (token_manufacturerID info) 32,
     put_string (model info) 16, put_string (serialNumber info) 16,
     put_ulong (token_flags info), put_ulong (ulMaxSessionCount info),
     put_ulong (ulSessionCount info), put_ulong (ulMaxRwSessionCount info),
     put_ulong (ulRwSessionCount info), put_ulong (ulMaxPinLen info),
     put_ulong (ulMinPinLen info), put_ulong (ulTotalPublicMemory info),
     put_ulong (ulFreePublicMemory info), put_ulong (ulTotalPrivateMemory info),
     put_ulong (ulFreePrivateMemory info), put_version (token_hardwareVersion info),
     put_version (token_firmwareVersion info), put_string (utcTime info) 16])
    (''s'' @ ''s'' @ ''s'' @ ''s'' @ ''u'' @ ''u'' @ ''u'' @ ''u'' @ ''u'' @ ''u'' @ ''u'' @ ''u'' @
     ''u'' @ ''u'' @ ''u'' @ ''v'' @ ''v'' @ ''s'' @ [])"
  by (intro writes_rules) (use assms in \<open>simp_all add: ck_token_info_wf_def\<close>)

interpretation token_info_writer:
  response_writer "''ssssuuuuuuuuuuuvvs''" proto_write_token_info ck_token_info_wf
  by unfold_locales (use wp_resp_put [OF _ writes_token_info] in \<open>simp add: proto_write_token_info_def\<close>)

lemma writes_mechanism_info:
  "writes (put_fields
    [put_ulong (ulMinKeySize info), put_ulong (ulMaxKeySize info), put_ulong (mech_flags info)])
    (''u'' @ ''u'' @ ''u'' @ [])"
  by (intro writes_rules)

interpretation mechanism_info_writer:
  response_writer "''uuu''" proto_write_mechanism_info "\<lambda>_. True"
  by unfold_locales
    (use wp_resp_put [OF _ writes_mechanism_info] in \<open>simp add: proto_write_mechanism_info_def\<close>)

lemma writes_session_info:
  "writes (put_fields
    [put_ulong (slotID info), put_ulong (session_state info), put_ulong (session_flags info),
     put_ulong (ulDeviceError info)]) (''u'' @ ''u'' @ ''u'' @ ''u'' @ [])"
  by (intro writes_rules)

interpretation session_info_writer:
  response_writer "''uuuu''" proto_write_session_info "\<lambda>_. True"
  by unfold_locales
    (use wp_resp_put [OF _ writes_session_info] in \<open>simp add: proto_write_session_info_def\<close>)

section \<open>Arrays of results\<close>

definition bytes_in_bounds :: "block option \<Rightarrow> CK_ULONG option \<Rightarrow> bool" where
  "bytes_in_bounds arr n \<longleftrightarrow>
     (case arr of None \<Rightarrow> True
      | Some xs \<Rightarrow> unat (case n of None \<Rightarrow> 0 | Some k \<Rightarrow> k) \<le> length xs)"

definition ulongs_in_bounds :: "ulong_array \<Rightarrow> CK_ULONG \<Rightarrow> bool" where
  "ulongs_in_bounds arr n \<longleftrightarrow> (case arr of None \<Rightarrow> True | Some xs \<Rightarrow> unat n \<le> length xs)"

text \<open>A result code that is passed straight through leaves the response alone.\<close>

lemma out_ready_error: "ready i c [] rs s \<Longrightarrow> ret \<noteq> CKR_OK \<Longrightarrow> out_ready i c ret rs' s"
  by (simp add: out_ready_def ready_live)

lemma wp_out:
  assumes "wp m (\<lambda>(ret, s'). out_ready i c ret rs s')"
    and "\<And>ret s'. out_ready i c ret rs s' \<Longrightarrow> wp (k ret s') Q"
  shows "wp (obind m (\<lambda>(ret, s). k ret s)) Q"
  using assms by (auto elim!: wp_mono)

lemma OUT_BYTE_ARRAY_rule:
  assumes "ready i c [] (''ay'' @ rs) s" "ret = CKR_OK \<Longrightarrow> bytes_in_bounds arr n"
    and "\<And>ret' s'. out_ready i c ret' rs s' \<Longrightarrow> wp (k ret' s') (finished i c)"
  shows "wp (OUT_BYTE_ARRAY arr n ret s k) (finished i c)"
proof -
  have "writes (\<lambda>m. gck_rpc_message_write_byte_array m arr' num) ''ay''"
    if "bytes_in_bounds arr' (Some num)" for arr' num
    by (rule writes_field, erule wp_write_byte_array) (use that in \<open>auto simp: bytes_in_bounds_def\<close>)
  moreover have "bytes_in_bounds arr (Some (case n of None \<Rightarrow> 0 | Some k \<Rightarrow> k))" if "ret = CKR_OK"
    using assms(2) [OF that] by (cases arr; cases n) (auto simp: bytes_in_bounds_def)
  moreover have "bytes_in_bounds None m" for m by (simp add: bytes_in_bounds_def)
  ultimately have "wp (proto_write_byte_array s arr n ret) (\<lambda>(ret, s'). out_ready i c ret rs s')"
    using wp_resp_put [OF assms(1)] out_ready_error [OF assms(1)]
    by (auto simp: proto_write_byte_array_def Let_def)
  then show ?thesis unfolding OUT_BYTE_ARRAY_def using assms(3) by (rule wp_out)
qed

lemma OUT_ULONG_ARRAY_rule:
  assumes "ready i c [] (''au'' @ rs) s" "ret = CKR_OK \<Longrightarrow> ulongs_in_bounds arr n"
    and "\<And>ret' s'. out_ready i c ret' rs s' \<Longrightarrow> wp (k ret' s') (finished i c)"
  shows "wp (OUT_ULONG_ARRAY arr n ret s k) (finished i c)"
proof -
  have "writes (\<lambda>m. gck_rpc_message_write_ulong_array m arr' n) ''au''"
    if "ulongs_in_bounds arr' n" for arr'
    by (rule writes_field, erule wp_write_ulong_array) (use that in \<open>auto simp: ulongs_in_bounds_def\<close>)
  moreover have "ulongs_in_bounds None n" by (simp add: ulongs_in_bounds_def)
  ultimately have "wp (proto_write_ulong_array s arr n ret) (\<lambda>(ret, s'). out_ready i c ret rs s')"
    using wp_resp_put [OF assms(1)] out_ready_error [OF assms(1)] assms(2)
    by (auto simp: proto_write_ulong_array_def Let_def)
  then show ?thesis unfolding OUT_ULONG_ARRAY_def using assms(3) by (rule wp_out)
qed

lemma OUT_ATTRIBUTE_ARRAY_rule:
  assumes "ready i c [] (''aAu'' @ rs) s" "attrs_in_bounds arr n"
    and "\<And>ret' s'. out_ready i c ret' rs s' \<Longrightarrow> wp (k ret' s') (finished i c)"
  shows "wp (OUT_ATTRIBUTE_ARRAY arr n ret s k) (finished i c)"
proof -
  have "writes (\<lambda>m. gck_rpc_message_write_attribute_array m arr n) ''aA''"
    using assms(2) wp_write_attribute_array by (intro writes_field) auto
  then have "writes (put_fields [\<lambda>m. gck_rpc_message_write_attribute_array m arr n, put_ulong ret])
      (''aA'' @ ''u'' @ [])"
    by (intro writes_cons writes_ulong writes_nil)
  then have "wp (proto_write_attribute_array s arr n ret) (\<lambda>(ret, s'). out_ready i c ret rs s')"
    using wp_resp_put [OF assms(1)] out_ready_error [OF assms(1)]
    by (simp add: proto_write_attribute_array_def)
  then show ?thesis unfolding OUT_ATTRIBUTE_ARRAY_def using assms(3) by (rule wp_out)
qed

section \<open>The frame of a handler\<close>

lemma BEGIN_CALL_rule:
  assumes "ready i c rq rs s" "pkcs11_module E = Some M"
    and "\<And>f. call M = Some f \<Longrightarrow> ready i c rq rs s \<Longrightarrow> wp (k f) (finished i c)"
  shows "wp (BEGIN_CALL E call s k) (finished i c)"
  using assms ready_live [OF assms(1)]
  by (auto simp: BEGIN_CALL_def finished_error split: option.split)

lemma PROCESS_CALL_rule:
  assumes "ready i c [] rs s"
    and "\<And>ret out w w' s'. ready i c [] rs s' \<Longrightarrow> func w = (ret, out, w') \<Longrightarrow> sessions s' = sessions s \<Longrightarrow>
           wp (k ret out s') (finished i c)"
  shows "wp (PROCESS_CALL func s k) (finished i c)"
proof -
  obtain q where "req s = Ptr q" "gck_rpc_message_is_verified q"
    using assms(1) by (auto simp: ready_def gck_rpc_message_is_verified_def)
  then show ?thesis
    using assms by (simp add: PROCESS_CALL_def split: prod.split)
qed

lemma END_CALL_error:
  "ready i c rq rs s \<Longrightarrow> ret \<noteq> CKR_OK \<Longrightarrow> wp (END_CALL ret s) (finished i c)"
  by (simp add: END_CALL_def finished_error ready_live)

lemma END_CALL_rule:
  "out_ready i c ret [] s \<Longrightarrow> wp (END_CALL ret s) (finished i c)"
  by (simp add: END_CALL_def finished_def)

text \<open>Calls that fill a buffer of the caller, with the module's contract applied.\<close>

lemma PROCESS_bytes:
  assumes "ready i c [] rs s" "bytes_contract g" "byte_buffer_sized (arr, n)"
    and "\<And>ret arr' n' s'. ready i c [] rs s' \<Longrightarrow> (ret = CKR_OK \<Longrightarrow> bytes_in_bounds arr' n') \<Longrightarrow>
           wp (k ret (arr', n') s') (finished i c)"
  shows "wp (PROCESS_CALL (g arr n) s k) (finished i c)"
proof (rule PROCESS_CALL_rule [OF assms(1)], goal_cases)
  case (1 ret out w w' s')
  obtain arr' n' where out: "out = (arr', n')" by (cases out)
  have "map_option length arr' = map_option length arr \<and> (n' = None \<longleftrightarrow> n = None) \<and>
      (ret = CKR_OK \<and> arr \<noteq> None \<and> n \<noteq> None \<longrightarrow> the n' \<le> the n)"
    using assms(2) 1(2) unfolding bytes_contract_def out by (auto dest!: spec [of _ arr] spec [of _ n] spec [of _ w])
  then have "bytes_in_bounds arr' n'" if "ret = CKR_OK"
    using that assms(3)
    by (cases arr; cases n; cases arr'; cases n')
      (auto simp: bytes_in_bounds_def byte_buffer_sized_def word_le_nat_alt)
  then show ?case unfolding out using assms(4) 1(1) by blast
qed

lemma PROCESS_ulongs:
  assumes "ready i c [] rs s" "ulongs_contract g" "ulong_buffer_sized (arr, n)"
    and "\<And>ret arr' n' s'. ready i c [] rs s' \<Longrightarrow> (ret = CKR_OK \<Longrightarrow> ulongs_in_bounds arr' n') \<Longrightarrow>
           wp (k ret (arr', n') s') (finished i c)"
  shows "wp (PROCESS_CALL (g arr n) s k) (finished i c)"
proof (rule PROCESS_CALL_rule [OF assms(1)], goal_cases)
  case (1 ret out w w' s')
  obtain arr' n' where out: "out = (arr', n')" by (cases out)
  have "map_option length arr' = map_option length arr \<and>
      (ret = CKR_OK \<and> arr \<noteq> None \<longrightarrow> n' \<le> n)"
    using assms(2) 1(2) unfolding ulongs_contract_def out by (auto dest!: spec [of _ arr] spec [of _ n] spec [of _ w])
  then have "ulongs_in_bounds arr' n'" if "ret = CKR_OK"
    using that assms(3)
    by (cases arr; cases arr')
      (auto simp: ulongs_in_bounds_def ulong_buffer_sized_def word_le_nat_alt)
  then show ?case unfolding out using assms(4) 1(1) by blast
qed

lemma PROCESS_attrs:
  assumes "ready i c [] rs s" "attrs_contract (\<lambda>arr n. g arr n)" "attrs_sized (arr, n)"
    and "\<And>ret arr' s'. ready i c [] rs s' \<Longrightarrow> attrs_in_bounds arr' n \<Longrightarrow>
           wp (k ret arr' s') (finished i c)"
  shows "wp (PROCESS_CALL (g arr n) s k) (finished i c)"
proof (rule PROCESS_CALL_rule [OF assms(1)], goal_cases)
  case (1 ret arr' w w' s')
  have "rel_option (list_all2 attr_kept) arr arr'"
    using assms(2) 1(2) unfolding attrs_contract_def by (auto dest!: spec [of _ arr] spec [of _ n] spec [of _ w])
  moreover have "attr_in_bounds a'" if "attr_kept a a'" "attr_buffer_sized a" for a a'
    using that
    by (cases "pValue a"; cases "pValue a'")
      (auto simp: attr_kept_def attr_buffer_sized_def byte_array_sized_def attr_in_bounds_def
        word_le_nat_alt)
  then have "list_all attr_in_bounds as'" if "list_all2 attr_kept as as'" "list_all attr_buffer_sized as" for as as'
    using that by (auto simp: list_all_length list_all2_conv_all_nth)
  ultimately have "attrs_in_bounds arr' n"
    using assms(3)
    by (cases arr; cases arr') (auto simp: attrs_in_bounds_def attrs_sized_def list_all2_lengthD)
  then show ?case using assms(4) 1(1) by blast
qed

lemma PROCESS_random:
  assumes "ready i c [] rs s" "random_contract g" "byte_buffer_sized (arr, Some n)"
    and "\<And>ret arr' s'. ready i c [] rs s' \<Longrightarrow> bytes_in_bounds arr' (Some n) \<Longrightarrow>
           wp (k ret arr' s') (finished i c)"
  shows "wp (PROCESS_CALL (g arr n) s k) (finished i c)"
proof (rule PROCESS_CALL_rule [OF assms(1)], goal_cases)
  case (1 ret arr' w w' s')
  have "map_option length arr' = map_option length arr"
    using assms(2) 1(2) unfolding random_contract_def
    by (auto dest!: spec [of _ arr] spec [of _ n] spec [of _ w])
  then have "bytes_in_bounds arr' (Some n)"
    using assms(3) by (cases arr; cases arr') (auto simp: bytes_in_bounds_def byte_buffer_sized_def)
  then show ?case using assms(4) 1(1) by blast
qed

lemma PROCESS_info:
  assumes "ready i c [] rs s" "returns P g"
    and "\<And>ret x s'. ready i c [] rs s' \<Longrightarrow> P x \<Longrightarrow> wp (k ret x s') (finished i c)"
  shows "wp (PROCESS_CALL g s k) (finished i c)"
proof (rule PROCESS_CALL_rule [OF assms(1)], goal_cases)
  case (1 ret x w w' s')
  then have "P x" using assms(2) by (auto simp: returns_def dest!: spec [of _ w])
  then show ?case using assms(3) 1(1) by blast
qed

section \<open>The rules, one per macro\<close>

lemmas in_rules =
  byte_reader.IN_rule [folded IN_BYTE_def, simplified]
  ulong_reader.IN_rule [folded IN_ULONG_def, simplified]
  space_string_reader.IN_rule [folded IN_SPACE_STRING_def, simplified]
  byte_buffer_reader.IN_rule [folded IN_BYTE_BUFFER_def, simplified]
  byte_array_reader.IN_rule [folded IN_BYTE_ARRAY_def, simplified]
  ulong_buffer_reader.IN_rule [folded IN_ULONG_BUFFER_def, simplified]
  attribute_buffer_reader.IN_rule [folded IN_ATTRIBUTE_BUFFER_def, simplified]
  attribute_array_reader.IN_rule [folded IN_ATTRIBUTE_ARRAY_def, simplified]
  mechanism_reader.IN_rule [folded IN_MECHANISM_def, simplified]

lemmas out_rules =
  ulong_writer.OUT_rule [folded OUT_ULONG_def, simplified]
  mechanism_info_writer.OUT_rule [folded OUT_MECHANISM_INFO_def, simplified]
  session_info_writer.OUT_rule [folded OUT_SESSION_INFO_def, simplified]
  END_CALL_rule

lemmas out_ready_rules =
  ulong_writer.OUT_rule [folded OUT_ULONG_def, OF ready_out, simplified]
  mechanism_info_writer.OUT_rule [folded OUT_MECHANISM_INFO_def, OF ready_out, simplified]
  session_info_writer.OUT_rule [folded OUT_SESSION_INFO_def, OF ready_out, simplified]
  info_writer.OUT_rule [folded OUT_INFO_def, OF ready_out, simplified]
  slot_info_writer.OUT_rule [folded OUT_SLOT_INFO_def, OF ready_out, simplified]
  token_info_writer.OUT_rule [folded OUT_TOKEN_INFO_def, OF ready_out, simplified]
  OUT_BYTE_ARRAY_rule [simplified] OUT_ULONG_ARRAY_rule [simplified]
  OUT_ATTRIBUTE_ARRAY_rule [simplified] END_CALL_rule [OF ready_out]

end
