(* ===== verification/Dispatch_Safety.thy ===== *)
theory Dispatch_Safety
  imports Dispatch_Rules
begin

text \<open>
  Every call handler of the daemon, run on a request that was accepted, follows the
  signatures of the protocol table: it returns, no assertion fails, no access leaves its
  block, and when it reports success the response holds exactly the fields of its
  signature. One lemma per handler, then the same for \<open>dispatch_call\<close> as a whole.
\<close>

section \<open>One lemma per handler\<close>

text \<open>The daemon has a module that keeps the PKCS#11 conventions.\<close>

definition env_ok :: "'w Env \<Rightarrow> bool" where
  "env_ok E \<longleftrightarrow> (case pkcs11_module E of None \<Rightarrow> False | Some M \<Rightarrow> module_ok M)"

lemma env_okE:
  assumes "env_ok E"
  obtains M where "pkcs11_module E = Some M" "module_ok M"
  using assms by (auto simp: env_ok_def split: option.splits)

lemmas call_rules = in_rules out_rules out_ready_rules

lemma wp_rpc_C_GetInfo:
  assumes "env_ok E" "ready i c [] ''vsusv'' s"
  shows "wp (rpc_C_GetInfo E s) (finished i c)"
  using assms unfolding rpc_C_GetInfo_def
  by (auto elim!: env_okE BEGIN_CALL_rule PROCESS_info call_rules simp: module_ok_def)

lemma wp_rpc_C_GetSlotList:
  assumes "env_ok E" "ready i c ''yfu'' ''au'' s"
  shows "wp (rpc_C_GetSlotList E s) (finished i c)"
  using assms unfolding rpc_C_GetSlotList_def
  by (auto elim!: env_okE BEGIN_CALL_rule PROCESS_ulongs call_rules simp: module_ok_def)

lemma wp_rpc_C_GetSlotInfo:
  assumes "env_ok E" "ready i c ''u'' ''ssuvv'' s"
  shows "wp (rpc_C_GetSlotInfo E s) (finished i c)"
  using assms unfolding rpc_C_GetSlotInfo_def
  by (auto elim!: env_okE BEGIN_CALL_rule PROCESS_info call_rules simp: module_ok_def)

lemma wp_rpc_C_GetTokenInfo:
  assumes "env_ok E" "ready i c ''u'' ''ssssuuuuuuuuuuuvvs'' s"
  shows "wp (rpc_C_GetTokenInfo E s) (finished i c)"
  using assms unfolding rpc_C_GetTokenInfo_def
  by (auto elim!: env_okE BEGIN_CALL_rule PROCESS_info call_rules simp: module_ok_def)

lemma wp_rpc_C_GetMechanismList:
  assumes "env_ok E" "ready i c ''ufu'' ''au'' s"
  shows "wp (rpc_C_GetMechanismList E s) (finished i c)"
  using assms unfolding rpc_C_GetMechanismList_def
  by (auto elim!: env_okE BEGIN_CALL_rule PROCESS_ulongs call_rules simp: module_ok_def)

lemma wp_rpc_C_GetMechanismInfo:
  assumes "env_ok E" "ready i c ''uu'' ''uuu'' s"
  shows "wp (rpc_C_GetMechanismInfo E s) (finished i c)"
  using assms unfolding rpc_C_GetMechanismInfo_def
  by (auto elim!: env_okE BEGIN_CALL_rule PROCESS_CALL_rule call_rules)

lemma wp_rpc_C_InitToken:
  assumes "env_ok E" "ready i c ''uays'' [] s"
  shows "wp (rpc_C_InitToken E s) (finished i c)"
  using assms unfolding rpc_C_InitToken_def
  by (auto elim!: env_okE BEGIN_CALL_rule PROCESS_CALL_rule call_rules)

lemma wp_rpc_C_GetFunctionStatus:
  assumes "env_ok E" "ready i c ''u'' [] s"
  shows "wp (rpc_C_GetFunctionStatus E s) (finished i c)"
  using assms unfolding rpc_C_GetFunctionStatus_def
  by (auto elim!: env_okE BEGIN_CALL_rule PROCESS_CALL_rule call_rules)

lemma wp_rpc_C_CancelFunction:
  assumes "env_ok E" "ready i c ''u'' [] s"
  shows "wp (rpc_C_CancelFunction E s) (finished i c)"
  using assms unfolding rpc_C_CancelFunction_def
  by (auto elim!: env_okE BEGIN_CALL_rule PROCESS_CALL_rule call_rules)

lemma wp_rpc_C_InitPIN:
  assumes "env_ok E" "ready i c ''uay'' [] s"
  shows "wp (rpc_C_InitPIN E s) (finished i c)"
  using assms unfolding rpc_C_InitPIN_def
  by (auto elim!: env_okE BEGIN_CALL_rule PROCESS_CALL_rule call_rules)

lemma wp_rpc_C_SetPIN:
  assumes "env_ok E" "ready i c ''uayay'' [] s"
  shows "wp (rpc_C_SetPIN E s) (finished i c)"
  using assms unfolding rpc_C_SetPIN_def
  by (auto elim!: env_okE BEGIN_CALL_rule PROCESS_CALL_rule call_rules)

lemma wp_rpc_C_GetOperationState:
  assumes "env_ok E" "ready i c ''ufy'' ''ay'' s"
  shows "wp (rpc_C_GetOperationState E s) (finished i c)"
  using assms unfolding rpc_C_GetOperationState_def
  by (auto elim!: env_okE BEGIN_CALL_rule PROCESS_bytes call_rules simp: module_ok_def)

lemma wp_rpc_C_SetOperationState:
  assumes "env_ok E" "ready i c ''uayuu'' [] s"
  shows "wp (rpc_C_SetOperationState E s) (finished i c)"
  using assms unfolding rpc_C_SetOperationState_def
  by (auto elim!: env_okE BEGIN_CALL_rule PROCESS_CALL_rule call_rules)

lemma wp_rpc_C_Login:
  assumes "env_ok E" "ready i c ''uuay'' [] s"
  shows "wp (rpc_C_Login E s) (finished i c)"
  using assms unfolding rpc_C_Login_def
  by (auto elim!: env_okE BEGIN_CALL_rule PROCESS_CALL_rule call_rules)

lemma wp_rpc_C_Logout:
  assumes "env_ok E" "ready i c ''u'' [] s"
  shows "wp (rpc_C_Logout E s) (finished i c)"
  using assms unfolding rpc_C_Logout_def
  by (auto elim!: env_okE BEGIN_CALL_rule PROCESS_CALL_rule call_rules)

lemma wp_rpc_C_CreateObject:
  assumes "env_ok E" "ready i c ''uaA'' ''u'' s"
  shows "wp (rpc_C_CreateObject E s) (finished i c)"
  using assms unfolding rpc_C_CreateObject_def
  by (auto elim!: env_okE BEGIN_CALL_rule PROCESS_CALL_rule call_rules)

lemma wp_rpc_C_CopyObject:
  assumes "env_ok E" "ready i c ''uuaA'' ''u'' s"
  shows "wp (rpc_C_CopyObject E s) (finished i c)"
  using assms unfolding rpc_C_CopyObject_def
  by (auto elim!: env_okE BEGIN_CALL_rule PROCESS_CALL_rule call_rules)

lemma wp_rpc_C_DestroyObject:
  assumes "env_ok E" "ready i c ''uu'' [] s"
  shows "wp (rpc_C_DestroyObject E s) (finished i c)"
  using assms unfolding rpc_C_DestroyObject_def
  by (auto elim!: env_okE BEGIN_CALL_rule PROCESS_CALL_rule call_rules)

lemma wp_rpc_C_GetObjectSize:
  assumes "env_ok E" "ready i c ''uu'' ''u'' s"
  shows "wp (rpc_C_GetObjectSize E s) (finished i c)"
  using assms unfolding rpc_C_GetObjectSize_def
  by (auto elim!: env_okE BEGIN_CALL_rule PROCESS_CALL_rule call_rules)

lemma wp_rpc_C_GetAttributeValue:
  assumes "env_ok E" "ready i c ''uufA'' ''aAu'' s"
  shows "wp (rpc_C_GetAttributeValue E s) (finished i c)"
  using assms unfolding rpc_C_GetAttributeValue_def
  by (auto elim!: env_okE BEGIN_CALL_rule PROCESS_attrs call_rules simp: module_ok_def)

lemma wp_rpc_C_SetAttributeValue:
  assumes "env_ok E" "ready i c ''uuaA'' [] s"
  shows "wp (rpc_C_SetAttributeValue E s) (finished i c)"
  using assms unfolding rpc_C_SetAttributeValue_def
  by (auto elim!: env_okE BEGIN_CALL_rule PROCESS_CALL_rule call_rules)

lemma wp_rpc_C_FindObjectsInit:
  assumes "env_ok E" "ready i c ''uaA'' [] s"
  shows "wp (rpc_C_FindObjectsInit E s) (finished i c)"
  using assms unfolding rpc_C_FindObjectsInit_def
  by (auto elim!: env_okE BEGIN_CALL_rule PROCESS_CALL_rule call_rules)

lemma wp_rpc_C_FindObjects:
  assumes "env_ok E" "ready i c ''ufu'' ''au'' s"
  shows "wp (rpc_C_FindObjects E s) (finished i c)"
  using assms unfolding rpc_C_FindObjects_def
  by (auto elim!: env_okE BEGIN_CALL_rule PROCESS_ulongs call_rules simp: module_ok_def)

lemma wp_rpc_C_FindObjectsFinal:
  assumes "env_ok E" "ready i c ''u'' [] s"
  shows "wp (rpc_C_FindObjectsFinal E s) (finished i c)"
  using assms unfolding rpc_C_FindObjectsFinal_def
  by (auto elim!: env_okE BEGIN_CALL_rule PROCESS_CALL_rule call_rules)

lemma wp_rpc_C_EncryptInit:
  assumes "env_ok E" "ready i c ''uMu'' [] s"
  shows "wp (rpc_C_EncryptInit E s) (finished i c)"
  using assms unfolding rpc_C_EncryptInit_def
  by (auto elim!: env_okE BEGIN_CALL_rule PROCESS_CALL_rule call_rules)

lemma wp_rpc_C_Encrypt:
  assumes "env_ok E" "ready i c ''uayfy'' ''ay'' s"
  shows "wp (rpc_C_Encrypt E s) (finished i c)"
  using assms unfolding rpc_C_Encrypt_def
  by (auto elim!: env_okE BEGIN_CALL_rule PROCESS_bytes call_rules simp: module_ok_def)

lemma wp_rpc_C_EncryptUpdate:
  assumes "env_ok E" "ready i c ''uayfy'' ''ay'' s"
  shows "wp (rpc_C_EncryptUpdate E s) (finished i c)"
  using assms unfolding rpc_C_EncryptUpdate_def
  by (auto elim!: env_okE BEGIN_CALL_rule PROCESS_bytes call_rules simp: module_ok_def)

lemma wp_rpc_C_EncryptFinal:
  assumes "env_ok E" "ready i c ''ufy'' ''ay'' s"
  shows "wp (rpc_C_EncryptFinal E s) (finished i c)"
  using assms unfolding rpc_C_EncryptFinal_def
  by (auto elim!: env_okE BEGIN_CALL_rule PROCESS_bytes call_rules simp: module_ok_def)

lemma wp_rpc_C_DecryptInit:
  assumes "env_ok E" "ready i c ''uMu'' [] s"
  shows "wp (rpc_C_DecryptInit E s) (finished i c)"
  using assms unfolding rpc_C_DecryptInit_def
  by (auto elim!: env_okE BEGIN_CALL_rule PROCESS_CALL_rule call_rules)

lemma wp_rpc_C_Decrypt:
  assumes "env_ok E" "ready i c ''uayfy'' ''ay'' s"
  shows "wp (rpc_C_Decrypt E s) (finished i c)"
  using assms unfolding rpc_C_Decrypt_def
  by (auto elim!: env_okE BEGIN_CALL_rule PROCESS_bytes call_rules simp: module_ok_def)

lemma wp_rpc_C_DecryptUpdate:
  assumes "env_ok E" "ready i c ''uayfy'' ''ay'' s"
  shows "wp (rpc_C_DecryptUpdate E s) (finished i c)"
  using assms unfolding rpc_C_DecryptUpdate_def
  by (auto elim!: env_okE BEGIN_CALL_rule PROCESS_bytes call_rules simp: module_ok_def)

lemma wp_rpc_C_DecryptFinal:
  assumes "env_ok E" "ready i c ''ufy'' ''ay'' s"
  shows "wp (rpc_C_DecryptFinal E s) (finished i c)"
  using assms unfolding rpc_C_DecryptFinal_def
  by (auto elim!: env_okE BEGIN_CALL_rule PROCESS_bytes call_rules simp: module_ok_def)

lemma wp_rpc_C_DigestInit:
  assumes "env_ok E" "ready i c ''uM'' [] s"
  shows "wp (rpc_C_DigestInit E s) (finished i c)"
  using assms unfolding rpc_C_DigestInit_def
  by (auto elim!: env_okE BEGIN_CALL_rule PROCESS_CALL_rule call_rules)

lemma wp_rpc_C_Digest:
  assumes "env_ok E" "ready i c ''uayfy'' ''ay'' s"
  shows "wp (rpc_C_Digest E s) (finished i c)"
  using assms unfolding rpc_C_Digest_def
  by (auto elim!: env_okE BEGIN_CALL_rule PROCESS_bytes call_rules simp: module_ok_def)

lemma wp_rpc_C_DigestUpdate:
  assumes "env_ok E" "ready i c ''uay'' [] s"
  shows "wp (rpc_C_DigestUpdate E s) (finished i c)"
  using assms unfolding rpc_C_DigestUpdate_def
  by (auto elim!: env_okE BEGIN_CALL_rule PROCESS_CALL_rule call_rules)

lemma wp_rpc_C_DigestKey:
  assumes "env_ok E" "ready i c ''uu'' [] s"
  shows "wp (rpc_C_DigestKey E s) (finished i c)"
  using assms unfolding rpc_C_DigestKey_def
  by (auto elim!: env_okE BEGIN_CALL_rule PROCESS_CALL_rule call_rules)

lemma wp_rpc_C_DigestFinal:
  assumes "env_ok E" "ready i c ''ufy'' ''ay'' s"
  shows "wp (rpc_C_DigestFinal E s) (finished i c)"
  using assms unfolding rpc_C_DigestFinal_def
  by (auto elim!: env_okE BEGIN_CALL_rule PROCESS_bytes call_rules simp: module_ok_def)

lemma wp_rpc_C_SignInit:
  assumes "env_ok E" "ready i c ''uMu'' [] s"
  shows "wp (rpc_C_SignInit E s) (finished i c)"
  using assms unfolding rpc_C_SignInit_def
  by (auto elim!: env_okE BEGIN_CALL_rule PROCESS_CALL_rule call_rules)

lemma wp_rpc_C_Sign:
  assumes "env_ok E" "ready i c ''uayfy'' ''ay'' s"
  shows "wp (rpc_C_Sign E s) (finished i c)"
  using assms unfolding rpc_C_Sign_def
  by (auto elim!: env_okE BEGIN_CALL_rule PROCESS_bytes call_rules simp: module_ok_def)

lemma wp_rpc_C_SignUpdate:
  assumes "env_ok E" "ready i c ''uay'' [] s"
  shows "wp (rpc_C_SignUpdate E s) (finished i c)"
  using assms unfolding rpc_C_SignUpdate_def
  by (auto elim!: env_okE BEGIN_CALL_rule PROCESS_CALL_rule call_rules)

lemma wp_rpc_C_SignFinal:
  assumes "env_ok E" "ready i c ''ufy'' ''ay'' s"
  shows "wp (rpc_C_SignFinal E s) (finished i c)"
  using assms unfolding rpc_C_SignFinal_def
  by (auto elim!: env_okE BEGIN_CALL_rule PROCESS_bytes call_rules simp: module_ok_def)

lemma wp_rpc_C_SignRecoverInit:
  assumes "env_ok E" "ready i c ''uMu'' [] s"
  shows "wp (rpc_C_SignRecoverInit E s) (finished i c)"
  using assms unfolding rpc_C_SignRecoverInit_def
  by (auto elim!: env_okE BEGIN_CALL_rule PROCESS_CALL_rule call_rules)

lemma wp_rpc_C_SignRecover:
  assumes "env_ok E" "ready i c ''uayfy'' ''ay'' s"
  shows "wp (rpc_C_SignRecover E s) (finished i c)"
  using assms unfolding rpc_C_SignRecover_def
  by (auto elim!: env_okE BEGIN_CALL_rule PROCESS_bytes call_rules simp: module_ok_def)

lemma wp_rpc_C_VerifyInit:
  assumes "env_ok E" "ready i c ''uMu'' [] s"
  shows "wp (rpc_C_VerifyInit E s) (finished i c)"
  using assms unfolding rpc_C_VerifyInit_def
  by (auto elim!: env_okE BEGIN_CALL_rule PROCESS_CALL_rule call_rules)

lemma wp_rpc_C_Verify:
  assumes "env_ok E" "ready i c ''uayay'' [] s"
  shows "wp (rpc_C_Verify E s) (finished i c)"
  using assms unfolding rpc_C_Verify_def
  by (auto elim!: env_okE BEGIN_CALL_rule PROCESS_CALL_rule call_rules)

lemma wp_rpc_C_VerifyUpdate:
  assumes "env_ok E" "ready i c ''uay'' [] s"
  shows "wp (rpc_C_VerifyUpdate E s) (finished i c)"
  using assms unfolding rpc_C_VerifyUpdate_def
  by (auto elim!: env_okE BEGIN_CALL_rule PROCESS_CALL_rule call_rules)

lemma wp_rpc_C_VerifyFinal:
  assumes "env_ok E" "ready i c ''uay'' [] s"
  shows "wp (rpc_C_VerifyFinal E s) (finished i c)"
  using assms unfolding rpc_C_VerifyFinal_def
  by (auto elim!: env_okE BEGIN_CALL_rule PROCESS_CALL_rule call_rules)

lemma wp_rpc_C_VerifyRecoverInit:
  assumes "env_ok E" "ready i c ''uMu'' [] s"
  shows "wp (rpc_C_VerifyRecoverInit E s) (finished i c)"
  using assms unfolding rpc_C_VerifyRecoverInit_def
  by (auto elim!: env_okE BEGIN_CALL_rule PROCESS_CALL_rule call_rules)

lemma wp_rpc_C_VerifyRecover:
  assumes "env_ok E" "ready i c ''uayfy'' ''ay'' s"
  shows "wp (rpc_C_VerifyRecover E s) (finished i c)"
  using assms unfolding rpc_C_VerifyRecover_def
  by (auto elim!: env_okE BEGIN_CALL_rule PROCESS_bytes call_rules simp: module_ok_def)

lemma wp_rpc_C_DigestEncryptUpdate:
  assumes "env_ok E" "ready i c ''uayfy'' ''ay'' s"
  shows "wp (rpc_C_DigestEncryptUpdate E s) (finished i c)"
  using assms unfolding rpc_C_DigestEncryptUpdate_def
  by (auto elim!: env_okE BEGIN_CALL_rule PROCESS_bytes call_rules simp: module_ok_def)

lemma wp_rpc_C_DecryptDigestUpdate:
  assumes "env_ok E" "ready i c ''uayfy'' ''ay'' s"
  shows "wp (rpc_C_DecryptDigestUpdate E s) (finished i c)"
  using assms unfolding rpc_C_DecryptDigestUpdate_def
  by (auto elim!: env_okE BEGIN_CALL_rule PROCESS_bytes call_rules simp: module_ok_def)

lemma wp_rpc_C_SignEncryptUpdate:
  assumes "env_ok E" "ready i c ''uayfy'' ''ay'' s"
  shows "wp (rpc_C_SignEncryptUpdate E s) (finished i c)"
  using assms unfolding rpc_C_SignEncryptUpdate_def
  by (auto elim!: env_okE BEGIN_CALL_rule PROCESS_bytes call_rules simp: module_ok_def)

lemma wp_rpc_C_DecryptVerifyUpdate:
  assumes "env_ok E" "ready i c ''uayfy'' ''ay'' s"
  shows "wp (rpc_C_DecryptVerifyUpdate E s) (finished i c)"
  using assms unfolding rpc_C_DecryptVerifyUpdate_def
  by (auto elim!: env_okE BEGIN_CALL_rule PROCESS_bytes call_rules simp: module_ok_def)

lemma wp_rpc_C_GenerateKey:
  assumes "env_ok E" "ready i c ''uMaA'' ''u'' s"
  shows "wp (rpc_C_GenerateKey E s) (finished i c)"
  using assms unfolding rpc_C_GenerateKey_def
  by (auto elim!: env_okE BEGIN_CALL_rule PROCESS_CALL_rule call_rules)

lemma wp_rpc_C_GenerateKeyPair:
  assumes "env_ok E" "ready i c ''uMaAaA'' ''uu'' s"
  shows "wp (rpc_C_GenerateKeyPair E s) (finished i c)"
  using assms unfolding rpc_C_GenerateKeyPair_def
  by (auto elim!: env_okE BEGIN_CALL_rule PROCESS_CALL_rule call_rules)

lemma wp_rpc_C_WrapKey:
  assumes "env_ok E" "ready i c ''uMuufy'' ''ay'' s"
  shows "wp (rpc_C_WrapKey E s) (finished i c)"
  using assms unfolding rpc_C_WrapKey_def
  by (auto elim!: env_okE BEGIN_CALL_rule PROCESS_bytes call_rules simp: module_ok_def)

lemma wp_rpc_C_UnwrapKey:
  assumes "env_ok E" "ready i c ''uMuayaA'' ''u'' s"
  shows "wp (rpc_C_UnwrapKey E s) (finished i c)"
  using assms unfolding rpc_C_UnwrapKey_def
  by (auto elim!: env_okE BEGIN_CALL_rule PROCESS_CALL_rule call_rules)

lemma wp_rpc_C_DeriveKey:
  assumes "env_ok E" "ready i c ''uMuaA'' ''u'' s"
  shows "wp (rpc_C_DeriveKey E s) (finished i c)"
  using assms unfolding rpc_C_DeriveKey_def
  by (auto elim!: env_okE BEGIN_CALL_rule PROCESS_CALL_rule call_rules)

lemma wp_rpc_C_SeedRandom:
  assumes "env_ok E" "ready i c ''uay'' [] s"
  shows "wp (rpc_C_SeedRandom E s) (finished i c)"
  using assms unfolding rpc_C_SeedRandom_def
  by (auto elim!: env_okE BEGIN_CALL_rule PROCESS_CALL_rule call_rules)

lemma wp_rpc_C_GenerateRandom:
  assumes "env_ok E" "ready i c ''ufy'' ''ay'' s"
  shows "wp (rpc_C_GenerateRandom E s) (finished i c)"
  using assms unfolding rpc_C_GenerateRandom_def
  by (auto elim!: env_okE BEGIN_CALL_rule PROCESS_random call_rules simp: module_ok_def)
    (erule END_CALL_error, simp)

section \<open>Handlers that keep the session table\<close>

lemma length_remove_session [simp]: "length (remove_session ss h) = length ss"
  by (induction ss) auto

lemma length_store_session: "store_session ss h sl = Some ss' \<Longrightarrow> length ss' = length ss"
  by (induction ss arbitrary: ss') (auto split: if_splits)

lemma close_sessions_length:
  "\<exists>ret ss' w'. close_sessions (Some f) ss w = Ret (ret, ss', w') \<and> length ss' = length ss"
proof (induction ss arbitrary: w)
  case (Cons x ss)
  obtain ret u w1 where "f (sess_id x) w = (ret, u, w1)" by (metis prod.exhaust)
  then show ?case using Cons [of w1] Cons [of w] by auto
qed simp

lemma close_slot_sessions_length:
  "\<exists>ret ss' w'. close_slot_sessions (Some f) sl ss w = Ret (ret, ss', w') \<and> length ss' = length ss"
proof (induction ss arbitrary: w)
  case (Cons x ss)
  obtain ret u w1 where "f (sess_id x) w = (ret, u, w1)" by (metis prod.exhaust)
  then show ?case using Cons [of w1] Cons [of w] by (auto simp: Let_def)
qed simp

lemma wp_interrupt_waiters:
  assumes "list_all (\<lambda>d. req d \<noteq> Freed) ds"
  shows "wp (interrupt_waiters E app fd ds w) (\<lambda>(ds', w'). list_all (\<lambda>d. req d \<noteq> Freed) ds')"
  using assms
proof (induction ds arbitrary: w)
  case (Cons d ds)
  obtain ok w1 where sh: "c_shutdown E (sock d) w = (ok, w1)" by (metis prod.exhaust)
  have IH: "\<exists>ds' w''. interrupt_waiters E app fd ds w' = Ret (ds', w'') \<and>
      list_all (\<lambda>d. req d \<noteq> Freed) ds'" for w'
    using Cons.IH [of w'] Cons.prems by (auto simp: wp_iff)
  show ?case
    using IH [of w] IH [of w1] Cons.prems sh by (cases "req d") auto
qed simp

lemma wp_rpc_C_WaitForSlotEvent:
  assumes "env_ok E" "ready i c ''u'' ''u'' s"
  shows "wp (rpc_C_WaitForSlotEvent E s) (finished i c)"
  using assms unfolding rpc_C_WaitForSlotEvent_def Let_def
  by (auto elim!: env_okE BEGIN_CALL_rule PROCESS_CALL_rule call_rules)

lemma wp_rpc_C_GetSessionInfo:
  assumes "env_ok E" "ready i c ''u'' ''uuuu'' s"
  shows "wp (rpc_C_GetSessionInfo E s) (finished i c)"
  using assms unfolding rpc_C_GetSessionInfo_def Let_def
  by (auto elim!: env_okE BEGIN_CALL_rule PROCESS_CALL_rule call_rules)

lemma wp_rpc_C_OpenSession:
  assumes "env_ok E" "ready i c ''uu'' ''u'' s"
  shows "wp (rpc_C_OpenSession E s) (finished i c)"
  using assms unfolding rpc_C_OpenSession_def
  by (auto elim!: env_okE BEGIN_CALL_rule PROCESS_CALL_rule in_rules)
    (auto split: option.split intro: END_CALL_error
      intro!: out_ready_rules(1) simp: length_store_session elim!: END_CALL_rule)

lemma wp_rpc_C_CloseSession:
  assumes "env_ok E" "ready i c ''u'' [] s"
  shows "wp (rpc_C_CloseSession E s) (finished i c)"
  using assms unfolding rpc_C_CloseSession_def
  by (auto elim!: env_okE BEGIN_CALL_rule PROCESS_CALL_rule in_rules)
    (auto intro!: END_CALL_rule [OF ready_out])

lemma wp_rpc_C_CloseAllSessions:
  assumes "env_ok E" "ready i c ''u'' [] s"
  shows "wp (rpc_C_CloseAllSessions E s) (finished i c)"
proof -
  obtain M where M: "pkcs11_module E = Some M" "module_ok M" using assms(1) by (rule env_okE)
  then obtain f g where f: "C_CloseSession M = Some f" and g: "C_GetSlotInfo M = Some g"
    by (auto simp: module_ok_def)
  have "wp (case g v (world s') of (ret, _, w) \<Rightarrow>
            if ret \<noteq> CKR_OK then END_CALL ret (s'\<lparr>world := w\<rparr>)
            else obind (close_slot_sessions (Some f) v (sessions s') w) (\<lambda>(ret, ss, w).
              END_CALL ret (s'\<lparr>sessions := ss, world := w\<rparr>))) (finished i c)"
    if s': "ready i c [] [] s'" for v s'
  proof -
    obtain ret u w where gw: "g v (world s') = (ret, u, w)" by (metis prod.exhaust)
    obtain ret' ss' w' where "close_slot_sessions (Some f) v (sessions s') w = Ret (ret', ss', w')"
      "length ss' = length (sessions s')"
      using close_slot_sessions_length [of f v "sessions s'" w] by auto
    then show ?thesis using gw s'
      by (auto intro!: END_CALL_error END_CALL_rule [OF ready_out])
  qed
  then show ?thesis
    using assms(2) unfolding rpc_C_CloseAllSessions_def M(1) option.sel f g option.case
    by (auto elim!: BEGIN_CALL_rule [OF _ M(1)] in_rules)
qed

lemma wp_rpc_C_Finalize:
  assumes "env_ok E" "ready i c rq [] s"
  shows "wp (rpc_C_Finalize E s) (\<lambda>(ret, s'). ready i c rq [] s')"
proof -
  obtain M where M: "pkcs11_module E = Some M" "module_ok M" using assms(1) by (rule env_okE)
  then obtain f where f: "C_CloseSession M = Some f" by (auto simp: module_ok_def)
  obtain ret ss w where cl: "close_sessions (Some f) (sessions s) (world s) = Ret (ret, ss, w)"
    "length ss = length (sessions s)" using close_sessions_length [of f "sessions s" "world s"] by auto
  obtain ds w' where "interrupt_waiters E (appid s) (sock s) (pkcs11_dispatchers s) w = Ret (ds, w')"
    "list_all (\<lambda>d. req d \<noteq> Freed) ds"
    using wp_interrupt_waiters [of "pkcs11_dispatchers s" E "appid s" "sock s" w] assms(2)
    by (auto simp: ready_def peers_ok_def wp_iff)
  then show ?thesis
    using cl f M assms(2) by (auto simp: rpc_C_Finalize_def ready_def conn_def peers_ok_def)
qed

lemma wp_rpc_C_Finalize_finished:
  assumes "env_ok E" "ready i c [] [] s"
  shows "wp (rpc_C_Finalize E s) (finished i c)"
  using wp_rpc_C_Finalize [OF assms] by (auto simp: finished_def elim!: wp_mono intro: ready_out)

lemma length_GCK_RPC_HANDSHAKE: "length GCK_RPC_HANDSHAKE = unat GCK_RPC_HANDSHAKE_LEN"
  by (simp add: GCK_RPC_HANDSHAKE_def)

lemma wp_rpc_C_Initialize:
  assumes "env_ok E" "ready i c ''ay'' [] s"
  shows "wp (rpc_C_Initialize E s) (finished i c)"
proof -
  obtain M where M: "pkcs11_module E = Some M" using assms(1) by (rule env_okE)
  have "wp (proto_read_byte_array s) (reader_post i c [] [] byte_array_sized)"
    using byte_array_reader.read_part [of i c "[]" "[]" s] assms(2) by simp
  then obtain r s' where rs: "proto_read_byte_array s = Ret (r, s')"
    and p: "reader_post i c [] [] byte_array_sized (r, s')" by (auto simp: wp_iff)
  show ?thesis
  proof (cases r)
    case (Inl e)
    then show ?thesis using rs p M by (simp add: rpc_C_Initialize_def finished_error)
  next
    case (Inr v)
    obtain h n where v: "v = (h, n)" by (cases v)
    have s': "ready i c [] [] s'" "byte_array_sized (h, n)" using p Inr v by auto
    then have "finished i c (ret, s')" for ret by (simp add: finished_def ready_out)
    moreover obtain q where "req s' = Ptr q" "gck_rpc_message_is_verified q"
      using s'(1) by (auto simp: ready_def gck_rpc_message_is_verified_def)
    ultimately show ?thesis using rs Inr v M s'(2)
      by (cases h) (auto simp: rpc_C_Initialize_def byte_array_sized_def)
  qed
qed

end
