(* ===== verification/Dispatch_Total.thy ===== *)
theory Dispatch_Total
  imports Dispatch_Safety
begin

text \<open>
  The handlers together: the switch of \<open>dispatch_call\<close> covers the protocol table, every
  handler is safe for the signatures of its entry, and \<open>dispatch_call\<close> turns any accepted
  request into a complete response or an error response.
\<close>

section \<open>The switch covers the table\<close>

lemma rpc_handlers_numbers: "map fst rpc_handlers = [1..67]"
  by (simp add: rpc_handlers_def upto_rec1 [of 1] upto_rec_numeral)

lemma run_handler_some:
  assumes "0 < i" "i < GCK_RPC_CALL_MAX"
  obtains f :: "'w handler" where "map_of rpc_handlers i = Some f" "(i, f) \<in> set rpc_handlers"
proof -
  have "i \<in> fst ` set (rpc_handlers :: (int \<times> 'w handler) list)"
    using assms by (simp flip: set_map add: rpc_handlers_numbers)
  then obtain f :: "'w handler" where "map_of rpc_handlers i = Some f"
    by (metis map_of_eq_None_iff not_Some_eq)
  then show ?thesis using that map_of_SomeD by metis
qed

definition handler_ok :: "'w Env \<Rightarrow> int \<times> 'w handler \<Rightarrow> bool" where
  "handler_ok E h \<longleftrightarrow>
     (\<forall>c s. ready (fst h) c (the (call_signature (fst h) GCK_RPC_REQUEST))
              (the (call_signature (fst h) GCK_RPC_RESPONSE)) s \<longrightarrow>
        wp (snd h E s) (finished (fst h) c))"

lemma handler_okI:
  assumes "call_signature i GCK_RPC_REQUEST = Some q" "call_signature i GCK_RPC_RESPONSE = Some r"
    and "\<And>c s. ready i c q r s \<Longrightarrow> wp (f E s) (finished i c)"
  shows "handler_ok E (i, f)"
  using assms by (simp add: handler_ok_def)

lemmas wp_handlers =
  wp_rpc_C_Initialize wp_rpc_C_Finalize_finished wp_rpc_C_GetInfo wp_rpc_C_GetSlotList
  wp_rpc_C_GetSlotInfo wp_rpc_C_GetTokenInfo wp_rpc_C_GetMechanismList wp_rpc_C_GetMechanismInfo
  wp_rpc_C_InitToken wp_rpc_C_WaitForSlotEvent wp_rpc_C_OpenSession wp_rpc_C_CloseSession
  wp_rpc_C_CloseAllSessions wp_rpc_C_GetFunctionStatus wp_rpc_C_CancelFunction
  wp_rpc_C_GetSessionInfo wp_rpc_C_InitPIN wp_rpc_C_SetPIN wp_rpc_C_GetOperationState
  wp_rpc_C_SetOperationState wp_rpc_C_Login wp_rpc_C_Logout wp_rpc_C_CreateObject
  wp_rpc_C_CopyObject wp_rpc_C_DestroyObject wp_rpc_C_GetObjectSize wp_rpc_C_GetAttributeValue
  wp_rpc_C_SetAttributeValue wp_rpc_C_FindObjectsInit wp_rpc_C_FindObjects
  wp_rpc_C_FindObjectsFinal wp_rpc_C_EncryptInit wp_rpc_C_Encrypt wp_rpc_C_EncryptUpdate
  wp_rpc_C_EncryptFinal wp_rpc_C_DecryptInit wp_rpc_C_Decrypt wp_rpc_C_DecryptUpdate
  wp_rpc_C_DecryptFinal wp_rpc_C_DigestInit wp_rpc_C_Digest wp_rpc_C_DigestUpdate
  wp_rpc_C_DigestKey wp_rpc_C_DigestFinal wp_rpc_C_SignInit wp_rpc_C_Sign wp_rpc_C_SignUpdate
  wp_rpc_C_SignFinal wp_rpc_C_SignRecoverInit wp_rpc_C_SignRecover wp_rpc_C_VerifyInit
  wp_rpc_C_Verify wp_rpc_C_VerifyUpdate wp_rpc_C_VerifyFinal wp_rpc_C_VerifyRecoverInit
  wp_rpc_C_VerifyRecover wp_rpc_C_DigestEncryptUpdate wp_rpc_C_DecryptDigestUpdate
  wp_rpc_C_SignEncryptUpdate wp_rpc_C_DecryptVerifyUpdate wp_rpc_C_GenerateKey
  wp_rpc_C_GenerateKeyPair wp_rpc_C_WrapKey wp_rpc_C_UnwrapKey wp_rpc_C_DeriveKey
  wp_rpc_C_SeedRandom wp_rpc_C_GenerateRandom

lemma all_handlers_ok:
  assumes "env_ok E"
  shows "list_all (handler_ok E) rpc_handlers"
  unfolding rpc_handlers_def
  by (simp only: list.pred_inject simp_thms, intro conjI; (rule handler_okI,
      simp add: call_signature_def gck_rpc_calls_def rpc_call_def,
      simp add: call_signature_def gck_rpc_calls_def rpc_call_def,
      erule wp_handlers [OF assms]))

section \<open>Dispatching a request\<close>

lemma wp_run_handler:
  fixes s :: "'w Dispatcher"
  assumes "env_ok E" "0 < i" "i < GCK_RPC_CALL_MAX"
    and "ready i c (the (call_signature i GCK_RPC_REQUEST)) (the (call_signature i GCK_RPC_RESPONSE)) s"
  shows "wp (run_handler i E s) (finished i c)"
proof -
  obtain f :: "'w handler" where f: "map_of rpc_handlers i = Some f" "(i, f) \<in> set rpc_handlers"
    using run_handler_some [OF assms(2,3)] by blast
  then have "handler_ok E (i, f)"
    using all_handlers_ok [OF assms(1)] by (simp add: list_all_iff)
  then show ?thesis using assms(4) f(1) by (cases c) (auto simp: run_handler_def handler_ok_def)
qed

text \<open>A dispatcher between two calls, and one whose request was accepted.\<close>

definition idle :: "u64 \<times> int \<times> IoFunctions \<times> bool \<Rightarrow> 'w Dispatcher \<Rightarrow> bool" where
  "idle c s \<longleftrightarrow>
     conn s = c \<and> length (sessions s) = PKCS11PROXY_MAX_SESSION_COUNT \<and> peers_ok s \<and>
     (\<exists>q r. req s = Ptr q \<and> resp s = Ptr r \<and> live_msg q \<and> live_msg r)"

definition accepted :: "u64 \<times> int \<times> IoFunctions \<times> bool \<Rightarrow> 'w Dispatcher \<Rightarrow> bool" where
  "accepted c s \<longleftrightarrow>
     idle c s \<and>
     (\<exists>q. req s = Ptr q \<and> 0 < call_id q \<and> call_id q < GCK_RPC_CALL_MAX \<and>
        prepared (call_id q) GCK_RPC_REQUEST q)"

text \<open>
  A response that can be sent: it has no write error, and it is either the error message
  with a 32-bit code, or carries the call number of the request and all the fields of its
  signature.
\<close>

definition error_message :: "CK_RV \<Rightarrow> block" where
  "error_message ret =
     encode_header GCK_RPC_CALL_ERROR None @ encode_uint64 (ucast (ucast ret :: u32))"

definition complete_response :: "GckRpcMessage \<Rightarrow> GckRpcMessage \<Rightarrow> bool" where
  "complete_response q r \<longleftrightarrow>
     failures (buffer r) = 0 \<and>
     (call_id r = GCK_RPC_CALL_ERROR \<and>
        (\<exists>ret. ret \<noteq> CKR_OK \<and> contents (buffer r) = error_message ret) \<or>
      call_id r = call_id q \<and> sigverify r = Some [] \<and> failures (buffer q) = 0 \<and>
        prefix (encode_header (call_id r) (call_signature (call_id r) GCK_RPC_RESPONSE))
          (contents (buffer r)))"

lemma wp_error_response:
  assumes "live_msg m"
  shows "wp (error_response ret m) (\<lambda>(ok, m'). live_msg m' \<and>
    (ok \<longrightarrow> call_id m' = GCK_RPC_CALL_ERROR \<and> failures (buffer m') = 0 \<and>
       contents (buffer m') = error_message ret) \<and> (roomy (buffer m) \<longrightarrow> ok \<and> roomy (buffer m')))"
proof -
  have wf: "egg_wf (buffer m)" "allocator (buffer m) \<noteq> None" using assms by (auto simp: live_msg_def)
  have "wp (gck_rpc_message_prep m 0 GCK_RPC_RESPONSE)
      (\<lambda>(ok, m'). prepared 0 GCK_RPC_RESPONSE m' \<and> allocator (buffer m') = allocator (buffer m) \<and>
         (ok \<longleftrightarrow> failures (buffer m') = 0) \<and> (ok \<longrightarrow> contents (buffer m') = encode_header 0 None) \<and>
         (roomy (buffer m) \<longrightarrow> ok \<and> roomy (buffer m')))"
    by (rule wp_mono [OF wp_message_prep [OF wf(1)]]) (auto simp: header_signature_def)
  then obtain x where "gck_rpc_message_prep m 0 GCK_RPC_RESPONSE = Ret x"
    "case x of (ok, m') \<Rightarrow> prepared 0 GCK_RPC_RESPONSE m' \<and> allocator (buffer m') = allocator (buffer m) \<and>
         (ok \<longleftrightarrow> failures (buffer m') = 0) \<and> (ok \<longrightarrow> contents (buffer m') = encode_header 0 None) \<and>
         (roomy (buffer m) \<longrightarrow> ok \<and> roomy (buffer m'))"
    by (rule wp_RetE)
  then obtain ok m1 where p: "gck_rpc_message_prep m 0 GCK_RPC_RESPONSE = Ret (ok, m1)"
    "prepared 0 GCK_RPC_RESPONSE m1" "allocator (buffer m1) = allocator (buffer m)"
    "ok \<longleftrightarrow> failures (buffer m1) = 0" "ok \<longrightarrow> contents (buffer m1) = encode_header 0 None"
    "roomy (buffer m) \<longrightarrow> ok \<and> roomy (buffer m1)"
    by (cases x) simp
  have m1: "egg_wf (buffer m1)" "sig_next m1 ''u'' = Some m1" "call_id m1 = 0"
    using p(2) by (auto simp: prepared_def sig_next_def header_signature_def)
  obtain ok' m2 where w: "gck_rpc_message_write_ulong m1 (ucast (ucast ret :: u32)) = Ret (ok', m2)"
    "field_written m1 ''u'' (encode_uint64 (ucast (ucast ret :: u32))) True (ok', m2)"
    using ulong_field.write_field [OF m1(2,1), of "ucast (ucast ret :: u32)"] by (auto simp: wp_iff)
  have m2: "m2 = m1\<lparr>buffer := buffer m2\<rparr>"
    and e: "egg_out (buffer m1) (encode_uint64 (ucast (ucast ret :: u32))) ok' (buffer m2)"
    using w(2) m1(2) by (auto simp: field_written_def)
  have "call_id m2 = 0" by (subst m2) (simp add: m1)
  moreover have "spacious (buffer m1) (length (encode_uint64 (ucast (ucast ret :: u32))))" if "roomy (buffer m)"
    using that p(5,6) by (simp add: spacious_def encode_header_def encode_uint64_def)
  moreover have "roomy (buffer m) \<longrightarrow> roomy (buffer m2)" using p(6) roomy_out [OF e] by blast
  ultimately show ?thesis
    using p w(1) e m1 wf
    by (auto simp: error_response_def live_msg_def egg_out_def error_message_def
        gck_rpc_message_buffer_error_def egg_buffer_has_error_def)
qed

lemma wp_after_handler:
  assumes f: "out_ready i c ret [] s"
  shows "wp (after_handler ret s) (\<lambda>(ok, s'). idle c s' \<and>
    (ok \<longrightarrow> (\<exists>q r. req s' = Ptr q \<and> resp s' = Ptr r \<and> complete_response q r)))"
proof -
  obtain q r where qr: "req s = Ptr q" "resp s = Ptr r" "msgs_live i q r"
    "ret = CKR_OK \<longrightarrow> sigverify r = Some []"
    and idle: "conn s = c" "length (sessions s) = 256" "peers_ok s"
    using f by (cases "ret = CKR_OK") (auto simp: out_ready_def live_def ready_def)
  let ?ret = "check_errors ret q r"
  obtain rs where "call_signature i GCK_RPC_RESPONSE = Some rs"
    using qr(3) call_signature_some [of i GCK_RPC_RESPONSE] by (auto simp: msgs_live_def)
  then have m: "live_msg q" "live_msg r" "entry_response (gck_rpc_calls ! nat i) = Some rs"
    "signature r = Some rs" "call_id q = i" "call_id r = i" "call_type r = Some GCK_RPC_RESPONSE"
    using qr(3) by (auto simp: msgs_live_def call_signature_def)
  have "after_handler ret s =
      (if ?ret = CKR_OK then Ret (True, s) else on_resp s (error_response ?ret))"
    using qr(1,2,4) m
    by (auto simp: after_handler_def Let_def check_errors_def gck_rpc_message_is_verified_def)
  moreover have "complete_response q r" if "?ret = CKR_OK"
    using that qr by (auto simp: complete_response_def check_errors_def msgs_live_def Let_def
        gck_rpc_message_buffer_error_def egg_buffer_has_error_def split: if_splits)
  moreover have "wp (on_resp s (error_response ?ret)) (\<lambda>(ok, s'). idle c s' \<and>
      (ok \<longrightarrow> (\<exists>q r. req s' = Ptr q \<and> resp s' = Ptr r \<and> complete_response q r)))"
    if "?ret \<noteq> CKR_OK"
    using wp_error_response [OF m(2), of ?ret] qr idle m that
    by (auto simp: on_resp_def idle_def conn_def complete_response_def elim!: wp_mono)
  ultimately show ?thesis using qr idle m by (auto simp: idle_def)
qed

lemma wp_dispatch_call:
  assumes E: "env_ok E" and s: "accepted c s"
  shows "wp (dispatch_call E s) (\<lambda>(ok, s'). idle c s' \<and>
    (ok \<longrightarrow> (\<exists>q r. req s' = Ptr q \<and> resp s' = Ptr r \<and> complete_response q r)))"
proof -
  obtain q r where qr: "req s = Ptr q" "resp s = Ptr r" "live_msg q" "live_msg r"
    "0 < call_id q" "call_id q < GCK_RPC_CALL_MAX" "prepared (call_id q) GCK_RPC_REQUEST q"
    and idle: "conn s = c" "length (sessions s) = 256" "peers_ok s"
    using s by (auto simp: accepted_def idle_def)
  let ?i = "call_id q"
  obtain ok r1 where p: "gck_rpc_message_prep r ?i GCK_RPC_RESPONSE = Ret (ok, r1)"
    "prepared ?i GCK_RPC_RESPONSE r1" "allocator (buffer r1) = allocator (buffer r)"
    "ok \<longrightarrow> contents (buffer r1) = encode_header ?i (call_signature ?i GCK_RPC_RESPONSE)"
    using wp_message_prep [of r ?i GCK_RPC_RESPONSE] qr
    by (fastforce simp: wp_iff live_msg_def header_signature_def)
  obtain qs rs where sigs: "call_signature ?i GCK_RPC_REQUEST = Some qs"
    "call_signature ?i GCK_RPC_RESPONSE = Some rs"
    using qr call_signature_some by metis
  show ?thesis
  proof (cases ok)
    case False
    moreover have "idle c (s\<lparr>resp := Ptr r1\<rparr>)"
      using qr idle p by (auto simp: idle_def conn_def live_msg_def prepared_def)
    ultimately show ?thesis using qr p by (simp add: dispatch_call_def on_resp_def)
  next
    case True
    have "ready ?i c qs rs (s\<lparr>resp := Ptr r1\<rparr>)"
      using qr idle p sigs True
      by (auto simp: ready_def conn_def msgs_live_def live_msg_def prepared_def header_signature_def)
    then have "wp (run_handler ?i E (s\<lparr>resp := Ptr r1\<rparr>)) (finished ?i c)"
      using wp_run_handler [OF E] qr sigs by simp
    then obtain ret s2 where h: "run_handler ?i E (s\<lparr>resp := Ptr r1\<rparr>) = Ret (ret, s2)"
      and f: "out_ready ?i c ret [] s2" by (auto simp: wp_iff finished_def)
    have "dispatch_call E s = after_handler ret s2"
      using qr p h True by (simp add: dispatch_call_def on_resp_def after_handler_def)
    then show ?thesis using wp_after_handler [OF f] by simp
  qed
qed

end
