(* ===== verification/Dispatch_Loop.thy ===== *)
theory Dispatch_Loop
  imports Dispatch_Call
begin

text \<open>
  The thread of one connection in \<^verbatim>\<open>gck-rpc-dispatch.c\<close>: the functions that move bytes over
  the socket, and \<open>run_dispatch_loop\<close>, which reads length-prefixed requests and answers each
  of them until the connection ends.
\<close>

section \<open>The connection\<close>

text \<open>
  What the operating system and the peer do is given by the results of the successive
  \<open>recv\<close> and \<open>send\<close> calls. A \<open>RecvData\<close> holds bytes that have arrived; a call that asks for
  fewer leaves the rest. \<open>Retry\<close> is \<open>EAGAIN\<close> or \<open>EINTR\<close>, \<open>Failed\<close> any other error. After the
  last result the peer is gone.
\<close>

datatype RecvResult = RecvData block | RecvRetry | RecvFailed
datatype SendResult = SendBytes nat | SendRetry | SendFailed

text \<open>\<open>start_tls_ok\<close>: whether the TLS handshake of \<open>gck_rpc_start_tls\<close> succeeds.\<close>

record Net =
  input :: "RecvResult list"
  sends :: "SendResult list"
  sent :: block
  start_tls_ok :: bool

definition push_back :: "block \<Rightarrow> RecvResult list \<Rightarrow> RecvResult list" where
  "push_back xs ev = (if xs = [] then ev else RecvData xs # ev)"

text \<open>
  The loop of \<open>read_all\<close>: the bytes stored so far and whether all \<open>n\<close> were read. Over TLS a
  call that fails returns 0, which counts as the end of the connection.
\<close>

fun recv_loop :: "bool \<Rightarrow> RecvResult list \<Rightarrow> nat \<Rightarrow> bool \<times> block \<times> RecvResult list" where
  "recv_loop tls ev 0 = (True, [], ev)"
| "recv_loop tls [] (Suc n) = (False, [], [])"
| "recv_loop tls (RecvRetry # ev) (Suc n) =
     (if tls then (False, [], ev) else recv_loop tls ev (Suc n))"
| "recv_loop tls (RecvFailed # ev) (Suc n) = (False, [], ev)"
| "recv_loop tls (RecvData xs # ev) (Suc n) =
     (if xs = [] then (False, [], ev)
      else if Suc n \<le> length xs then (True, take (Suc n) xs, push_back (drop (Suc n) xs) ev)
      else (case recv_loop tls ev (Suc n - length xs) of
              (ok, ys, ev) \<Rightarrow> (ok, xs @ ys, ev)))"

text \<open>
  The loop of \<open>write_all\<close>. Over TLS \<open>gck_rpc_tls_write_all\<close> returns 0 on every error, which
  the loop does not tell from progress: when the peer is gone it never ends.
\<close>

fun send_loop :: "bool \<Rightarrow> SendResult list \<Rightarrow> block \<Rightarrow> (bool \<times> block \<times> SendResult list) outcome" where
  "send_loop tls ev [] = Ret (True, [], ev)"
| "send_loop tls [] (x # xs) = (if tls then Hang else Ret (False, [], []))"
| "send_loop tls (SendRetry # ev) (x # xs) = send_loop tls ev (x # xs)"
| "send_loop tls (SendFailed # ev) (x # xs) =
     (if tls then send_loop tls ev (x # xs) else Ret (False, [], ev))"
| "send_loop tls (SendBytes n # ev) (x # xs) =
     obind (send_loop tls ev (drop n (x # xs))) (\<lambda>(ok, ys, ev).
     Ret (ok, take n (x # xs) @ ys, ev))"

text \<open>
  A read stores into a block of \<open>length old\<close> bytes; what was not overwritten keeps its old
  value.
\<close>

definition overlay :: "block \<Rightarrow> block \<Rightarrow> block" where
  "overlay new old = new @ drop (length new) old"

definition read_all :: "'w Dispatcher \<Rightarrow> Net \<Rightarrow> block \<Rightarrow> (bool \<times> block \<times> Net) outcome" where
  "read_all s net old =
     assert_c (sock s \<ge> 0) (assert_c (length old > 0)
      (case recv_loop (use_tls s) (input net) (length old) of
         (ok, xs, ev) \<Rightarrow> Ret (ok, overlay xs old, net\<lparr>input := ev\<rparr>)))"

definition write_all :: "'w Dispatcher \<Rightarrow> Net \<Rightarrow> block \<Rightarrow> (bool \<times> Net) outcome" where
  "write_all s net xs =
     assert_c (sock s \<ge> 0) (assert_c (length xs > 0)
      (obind (send_loop (use_tls s) (sends net) xs) (\<lambda>(ok, ys, ev).
       Ret (ok, net\<lparr>sends := ev, sent := sent net @ ys\<rparr>))))"

text \<open>
  The inetd variants call \<open>read\<close> and \<open>write\<close> once and return their result, which the callers
  test for being nonzero.
\<close>

definition inetd_read :: "'w Dispatcher \<Rightarrow> Net \<Rightarrow> block \<Rightarrow> (bool \<times> block \<times> Net) outcome" where
  "inetd_read s net old =
     assert_c (sock s \<ge> 0)
      (if old = [] then Ret (False, old, net)
       else case input net of
              [] \<Rightarrow> Ret (False, old, net)
            | RecvData xs # ev \<Rightarrow>
                Ret (xs \<noteq> [], overlay (take (length old) xs) old,
                     net\<lparr>input := push_back (drop (length old) xs) ev\<rparr>)
            | _ # ev \<Rightarrow> Ret (True, old, net\<lparr>input := ev\<rparr>))"

definition inetd_write :: "'w Dispatcher \<Rightarrow> Net \<Rightarrow> block \<Rightarrow> (bool \<times> Net) outcome" where
  "inetd_write s net xs =
     assert_c (sock s \<ge> 0)
      (if xs = [] then Ret (False, net)
       else case sends net of
              SendBytes n # ev \<Rightarrow>
                Ret (n \<noteq> 0, net\<lparr>sends := ev, sent := sent net @ take n xs\<rparr>)
            | _ \<Rightarrow> Ret (True, net\<lparr>sends := tl (sends net)\<rparr>))"

definition cs_read :: "'w Dispatcher \<Rightarrow> Net \<Rightarrow> block \<Rightarrow> (bool \<times> block \<times> Net) outcome" where
  "cs_read s = (case io s of SocketIo \<Rightarrow> read_all s | InetdIo \<Rightarrow> inetd_read s)"

definition cs_write :: "'w Dispatcher \<Rightarrow> Net \<Rightarrow> block \<Rightarrow> (bool \<times> Net) outcome" where
  "cs_write s = (case io s of SocketIo \<Rightarrow> write_all s | InetdIo \<Rightarrow> inetd_write s)"

section \<open>One round of the loop\<close>

text \<open>Reading into the memory of the request's buffer, which \<open>read_all\<close> asserts is not null.\<close>

definition read_message :: "'w Dispatcher \<Rightarrow> Net \<Rightarrow> u32 \<Rightarrow> (bool \<times> 'w Dispatcher \<times> Net) outcome" where
  "read_message s net n =
     (case req s of
        Ptr m \<Rightarrow>
          (let b = snd (egg_buffer_reserve (buffer m) (len (buffer m) + ucast n)) in
           if egg_buffer_has_error b then Ret (False, s\<lparr>req := Ptr (m\<lparr>buffer := b\<rparr>)\<rparr>, net)
           else
             obind (mem_read (buf b) 0 (unat n)) (\<lambda>old.
             obind (cs_read s net old) (\<lambda>(ok, xs, net).
             obind (mem_write (buf b) 0 xs) (\<lambda>p.
             let b = b\<lparr>buf := p\<rparr> in
             if \<not> ok then Ret (False, s\<lparr>req := Ptr (m\<lparr>buffer := b\<rparr>)\<rparr>, net)
             else
               (let b = snd (egg_buffer_add_empty b (ucast n)) in
                obind (gck_rpc_message_parse (m\<lparr>buffer := b\<rparr>) GCK_RPC_REQUEST) (\<lambda>(ok, m).
                Ret (ok, s\<lparr>req := Ptr m\<rparr>, net)))))))
      | _ \<Rightarrow> Fault)"

text \<open>
  The response length is cut to 32 bits for the prefix; \<open>buf\<close> is the four-byte array on the
  stack, which keeps its contents between the rounds.
\<close>

definition write_response :: "'w Dispatcher \<Rightarrow> Net \<Rightarrow> (bool \<times> block \<times> Net) outcome" where
  "write_response s net =
     (case resp s of
        Ptr m \<Rightarrow>
          (let prefix4 = egg_buffer_encode_uint32 (ucast (len (buffer m))) in
           obind (cs_write s net prefix4) (\<lambda>(ok, net).
           if \<not> ok then Ret (False, prefix4, net)
           else
             obind (mem_read (buf (buffer m)) 0 (unat (len (buffer m)))) (\<lambda>xs.
             obind (cs_write s net xs) (\<lambda>(ok, net).
             Ret (ok, prefix4, net)))))
      | _ \<Rightarrow> Fault)"

text \<open>The body of \<open>while (TRUE)\<close>: whether the loop goes on, and the new state.\<close>

definition dispatch_round ::
  "'w Env \<Rightarrow> 'w Dispatcher \<Rightarrow> Net \<Rightarrow> block \<Rightarrow> (bool \<times> 'w Dispatcher \<times> Net \<times> block) outcome" where
  "dispatch_round E s net buf4 =
     obind (call_reset s) (\<lambda>s.
     obind (cs_read s net buf4) (\<lambda>(ok, buf4, net).
     if \<not> ok then Ret (False, s, net, buf4)
     else
       (let n = egg_buffer_decode_uint32 buf4 in
        if n \<ge> 0x0FFFFFFF then Ret (False, s, net, buf4)
        else
          obind (read_message s net n) (\<lambda>(ok, s, net).
          if \<not> ok then Ret (False, s, net, buf4)
          else
            obind (dispatch_call E s) (\<lambda>(ok, s).
            if \<not> ok then Ret (False, s, net, buf4)
            else
              obind (write_response s net) (\<lambda>(ok, buf4, net).
              Ret (ok, s, net, buf4)))))))"

section \<open>The input runs out\<close>

fun recv_size :: "RecvResult \<Rightarrow> nat" where
  "recv_size (RecvData xs) = Suc (length xs)"
| "recv_size _ = 1"

definition net_size :: "Net \<Rightarrow> nat" where
  "net_size net = sum_list (map recv_size (input net))"

lemma push_back_size:
  "sum_list (map recv_size (push_back xs ev)) \<le> Suc (length xs) + sum_list (map recv_size ev)"
  by (simp add: push_back_def)

lemma recv_loop_size:
  "recv_loop tls ev n = (ok, xs, ev') \<Longrightarrow>
   sum_list (map recv_size ev') \<le> sum_list (map recv_size ev) \<and>
   (n > 0 \<longrightarrow> ok \<longrightarrow> sum_list (map recv_size ev') < sum_list (map recv_size ev)) \<and>
   length xs \<le> n \<and> (ok \<longrightarrow> length xs = n)"
proof (induction tls ev n arbitrary: ok xs ev' rule: recv_loop.induct)
  case (5 tls ys ev n)
  show ?case
  proof (cases "Suc n \<le> length ys")
    case True
    then show ?thesis using 5(2) push_back_size [of "drop (Suc n) ys" ev] by (auto split: if_splits)
  next
    case False
    obtain ok1 zs ev1 where "recv_loop tls ev (Suc n - length ys) = (ok1, zs, ev1)"
      by (metis prod.exhaust)
    then show ?thesis using 5 False by (fastforce split: if_splits)
  qed
qed (auto split: if_splits)

lemma cs_read_size:
  assumes "cs_read s net old = Ret (ok, xs, net')"
  shows "net_size net' \<le> net_size net" "ok \<Longrightarrow> net_size net' < net_size net"
    "length xs = length old"
proof -
  have "net_size net' \<le> net_size net \<and> (ok \<longrightarrow> net_size net' < net_size net) \<and>
      length xs = length old"
  proof (cases "io s")
    case SocketIo
    obtain ok1 ys ev1 where r: "recv_loop (use_tls s) (input net) (length old) = (ok1, ys, ev1)"
      by (metis prod.exhaust)
    show ?thesis
      using assms SocketIo r recv_loop_size [OF r]
      by (auto simp: cs_read_def read_all_def assert_c_def net_size_def overlay_def split: if_splits)
  next
    case InetdIo
    then show ?thesis
      using assms
      by (auto simp: cs_read_def inetd_read_def assert_c_def net_size_def overlay_def push_back_def
          split: if_splits list.splits RecvResult.splits)
  qed
  then show "net_size net' \<le> net_size net" "ok \<Longrightarrow> net_size net' < net_size net"
    "length xs = length old" by auto
qed

lemma cs_write_input:
  "cs_write s net xs = Ret (ok, net') \<Longrightarrow> input net' = input net"
  by (auto simp: cs_write_def write_all_def inetd_write_def assert_c_def obind_eq_Ret
      split: IoFunctions.splits if_splits list.splits SendResult.splits)

lemma read_message_size:
  "read_message s net n = Ret (ok, s', net') \<Longrightarrow> net_size net' \<le> net_size net"
  by (auto simp: read_message_def obind_eq_Ret Let_def dest!: cs_read_size(1)
      split: ptr.splits if_splits)

lemma write_response_size:
  "write_response s net = Ret (ok, b4, net') \<Longrightarrow> net_size net' = net_size net"
  by (auto simp: write_response_def obind_eq_Ret Let_def net_size_def dest!: cs_write_input
      split: ptr.splits prod.splits if_splits)

lemma dispatch_round_size:
  assumes "dispatch_round E s net buf4 = Ret (True, s', net', buf4')"
  shows "net_size net' < net_size net"
  using assms
  by (auto simp: dispatch_round_def obind_eq_Ret Let_def
      dest!: cs_read_size(2) read_message_size write_response_size split: if_splits)

section \<open>The loop and the thread\<close>

function dispatch_loop ::
  "'w Env \<Rightarrow> 'w Dispatcher \<Rightarrow> Net \<Rightarrow> block \<Rightarrow> ('w Dispatcher \<times> Net) outcome" where
  "dispatch_loop E s net buf4 =
     obind (dispatch_round E s net buf4) (\<lambda>(go, s, net, buf4).
     if go then dispatch_loop E s net buf4
     else obind (call_uninit E s) (\<lambda>s. Ret (s, net)))"
  by pat_completeness auto
termination
  by (relation "measure (\<lambda>(E, s, net, buf4). net_size net)") (auto dest: dispatch_round_size)

declare dispatch_loop.simps [simp del]

text \<open>The eight bytes of \<open>cs->appid\<close> in memory, least significant byte first.\<close>

definition appid_bytes :: "u64 \<Rightarrow> block" where
  "appid_bytes v = map (\<lambda>i. ucast (drop_bit (8 * i) v)) [0..<8]"

definition bytes_appid :: "block \<Rightarrow> u64" where
  "bytes_appid xs = foldr (\<lambda>x acc. ucast x + push_bit 8 acc) xs 0"

text \<open>\<open>buf4\<close> is the array \<open>buf\<close>, which is not initialised.\<close>

definition run_dispatch_loop ::
  "'w Env \<Rightarrow> 'w Dispatcher \<Rightarrow> Net \<Rightarrow> block \<Rightarrow> ('w Dispatcher \<times> Net) outcome" where
  "run_dispatch_loop E s net buf4 =
     assert_c (sock s \<noteq> - 1)
      (if use_tls s \<and> \<not> start_tls_ok net then Ret (s, net)
       else
         obind (cs_read s net (appid_bytes (appid s))) (\<lambda>(ok, xs, net).
         let s = s\<lparr>appid := bytes_appid xs\<rparr> in
         if \<not> ok then Ret (s, net)
         else
           obind (call_init E s) (\<lambda>(ok, s).
           if \<not> ok then Ret (s, net) else dispatch_loop E s net buf4)))"

text \<open>
  \<open>install_filter\<close> is \<open>_install_dispatch_syscall_filter\<close>, whose result is 0 when the program
  is built without seccomp; when it fails the thread ends and the socket stays open.
\<close>

definition run_dispatch_thread ::
  "'w Env \<Rightarrow> (bool \<Rightarrow> int) \<Rightarrow> 'w Dispatcher \<Rightarrow> Net \<Rightarrow> block \<Rightarrow> ('w Dispatcher \<times> Net) outcome" where
  "run_dispatch_thread E install_filter s net buf4 =
     assert_c (sock s \<noteq> - 1)
      (if install_filter (use_tls s) \<noteq> 0 then Ret (s, net)
       else
         obind (run_dispatch_loop E s net buf4) (\<lambda>(s, net).
         assert_c (sock s \<noteq> - 1) (Ret (s\<lparr>sock := - 1\<rparr>, net))))"

end
