(* ===== verification/Dispatch_Thread.thy ===== *)
theory Dispatch_Thread
  imports Dispatch_Total Dispatch_Loop
begin

text \<open>
  The life of a connection: from \<open>call_init\<close> through any number of rounds of the loop to
  \<open>call_uninit\<close>. The rounds are a step relation; every reachable state is idle between calls,
  and the thread ends in order unless a client announces a message of length zero.
\<close>

section \<open>Setting up and resetting\<close>

definition fresh :: "u64 \<times> int \<times> IoFunctions \<times> bool \<Rightarrow> 'w Dispatcher \<Rightarrow> bool" where
  "fresh c s \<longleftrightarrow>
     idle c s \<and> (\<exists>q. req s = Ptr q \<and> contents (buffer q) = [] \<and> failures (buffer q) = 0)"

lemma wp_reset_live:
  assumes "live_msg m"
  shows "\<exists>m'. gck_rpc_message_reset m = Ret m' \<and> live_msg m' \<and> contents (buffer m') = [] \<and>
    failures (buffer m') = 0"
  using wp_message_reset [of m] assms by (auto simp: live_msg_def wp_iff)

lemma wp_call_reset:
  assumes "idle c s"
  shows "wp (call_reset s) (fresh c)"
proof -
  obtain q r where s: "req s = Ptr q" "resp s = Ptr r" "live_msg q" "live_msg r"
    using assms by (auto simp: idle_def)
  obtain q' r' where "gck_rpc_message_reset q = Ret q'" "live_msg q'" "contents (buffer q') = []"
    "failures (buffer q') = 0" "gck_rpc_message_reset r = Ret r'" "live_msg r'"
    using wp_reset_live [OF s(3)] wp_reset_live [OF s(4)] by auto
  then show ?thesis
    using assms s by (auto simp: call_reset_def reset_through_def fresh_def idle_def conn_def peers_ok_def)
qed

lemma wp_message_new:
  assumes "egg_allocator (alloc_run a)"
  shows "wp (gck_rpc_message_new d (Some a)) (\<lambda>p. case p of None \<Rightarrow> True | Some m \<Rightarrow> live_msg m)"
proof -
  have i: "egg_wf b \<and> allocator b = Some a" if "egg_buffer_init_full d 64 (Some a) = (True, b)" for b
    using egg_buffer_init_full_wf [OF _ that] assms by (simp add: or_default_def)
  show ?thesis
  proof (cases "egg_buffer_init_full d 64 (Some a)")
    case (Pair ok b)
    let ?m = "\<lparr>call_id = 0, call_type = None, signature = None, buffer = b, parsed = 0, sigverify = None\<rparr>"
    have "wp (gck_rpc_message_reset ?m) live_msg" if ok
      using wp_reset_live [of ?m] i that Pair by (auto simp: live_msg_def)
    then show ?thesis using Pair
      by (cases ok) (auto simp: gck_rpc_message_new_def split: option.split elim!: wp_mono)
  qed
qed

text \<open>With memory available there is a message, and it has room to grow.\<close>

lemma reset_roomy:
  assumes "live_msg m" "gck_rpc_message_reset m = Ret m'"
  shows "roomy (buffer m') \<longleftrightarrow> roomy (buffer m)"
  using wp_message_reset [of m] assms reset_allocated [OF assms(2)] by (simp add: live_msg_def roomy_def)

lemma message_new_roomy:
  assumes "egg_allocator (alloc_run a)" "ample a"
  obtains m where "gck_rpc_message_new d (Some a) = Ret (Some m)" "live_msg m" "roomy (buffer m)"
proof -
  have al: "alloc_run a None 64 \<noteq> None" "alloc_run a None sizeof_GckRpcMessage \<noteq> None"
    using assms(2) unfolding ample_def by simp_all
  then obtain b where b: "egg_buffer_init_full d 64 (Some a) = (True, b)" "allocator b = Some a" "allocated_len b = 64"
    by (auto simp: egg_buffer_init_full_def or_default_def Let_def)
  let ?m = "\<lparr>call_id = 0, call_type = None, signature = None, buffer = b, parsed = 0, sigverify = None\<rparr>"
  have live: "live_msg ?m" using egg_buffer_init_full_wf [OF _ b(1)] assms(1) b(2) by (simp add: live_msg_def or_default_def)
  then obtain m where m: "gck_rpc_message_reset ?m = Ret m" "live_msg m" using wp_reset_live [of ?m] by (auto simp: wp_iff)
  then have "roomy (buffer m)" using reset_roomy [OF live m(1)] b assms(2) by (simp add: roomy_def)
  then show ?thesis using that m al(2) b(1) by (auto simp: gck_rpc_message_new_def)
qed

lemma wp_call_init:
  assumes "egg_allocator (alloc_run (c_realloc E))" "conn s = c" "length (sessions s) = 256" "peers_ok s"
  shows "wp (call_init E s) (\<lambda>(ok, s'). conn s' = c \<and> (ok \<longrightarrow> idle c s'))"
proof -
  obtain p where p: "gck_rpc_message_new (c_realloc E) (Some (c_realloc E)) = Ret p"
    "case p of None \<Rightarrow> True | Some m \<Rightarrow> live_msg m"
    using wp_message_new [OF assms(1)] by (rule wp_RetE)
  then show ?thesis
    using assms
    by (cases p) (auto simp: call_init_def Let_def ptr_of_def idle_def conn_def peers_ok_def
        gck_rpc_message_free_def)
qed

lemma wp_finalize_idle:
  assumes "env_ok E" "idle c s"
  shows "wp (rpc_C_Finalize E s) (\<lambda>(ret, s'). idle c s')"
proof -
  obtain M where M: "pkcs11_module E = Some M" "module_ok M" using assms(1) by (rule env_okE)
  then obtain f where f: "C_CloseSession M = Some f" by (auto simp: module_ok_def)
  obtain ret ss w where cl: "close_sessions (Some f) (sessions s) (world s) = Ret (ret, ss, w)"
    "length ss = length (sessions s)" using close_sessions_length [of f "sessions s" "world s"] by auto
  obtain ds w' where "interrupt_waiters E (appid s) (sock s) (pkcs11_dispatchers s) w = Ret (ds, w')"
    "list_all (\<lambda>d. req d \<noteq> Freed) ds"
    using wp_interrupt_waiters [of "pkcs11_dispatchers s" E "appid s" "sock s" w] assms(2)
    by (auto simp: idle_def peers_ok_def wp_iff)
  then show ?thesis
    using cl f M assms(2) by (auto simp: rpc_C_Finalize_def idle_def conn_def peers_ok_def)
qed

lemma wp_call_uninit:
  assumes "env_ok E" "idle c s"
  shows "wp (call_uninit E s) (\<lambda>s'. conn s' = c \<and> req s' = Freed \<and> resp s' = Freed)"
proof -
  obtain ret s1 where f: "rpc_C_Finalize E s = Ret (ret, s1)" "idle c s1"
    using wp_finalize_idle [OF assms] by (auto simp: wp_iff)
  obtain s2 where r: "call_reset s1 = Ret s2" "idle c s2"
    using wp_call_reset [OF f(2)] by (auto simp: wp_iff fresh_def)
  have "req s \<noteq> Null" using assms(2) by (auto simp: idle_def)
  then show ?thesis
    using f(1) r
    by (auto simp: call_uninit_def idle_def free_through_def gck_rpc_message_free_def live_msg_def conn_def)
qed

section \<open>Reading a request\<close>

lemma cs_read_conn: "conn s = conn s' \<Longrightarrow> cs_read s = cs_read s'"
  by (auto simp: conn_def cs_read_def read_all_def inetd_read_def fun_eq_iff split: IoFunctions.splits)

lemma cs_read_total:
  assumes "sock s \<ge> 0" "old \<noteq> [] \<or> io s = InetdIo"
  shows "\<exists>ok xs net'. cs_read s net old = Ret (ok, xs, net') \<and> length xs = length old"
proof -
  have "\<exists>ok xs net'. cs_read s net old = Ret (ok, xs, net')"
    using assms
    by (auto simp: cs_read_def read_all_def inetd_read_def
        split: IoFunctions.split prod.split list.split RecvResult.split)
  then show ?thesis using cs_read_size(3) by blast
qed

lemma reserve_snd:
  assumes "egg_wf b" "unat n < 2 ^ 63"
  shows "egg_wf (snd (egg_buffer_reserve b n)) \<and>
    allocator (snd (egg_buffer_reserve b n)) = allocator b \<and> len (snd (egg_buffer_reserve b n)) = len b \<and>
    (failures (snd (egg_buffer_reserve b n)) = failures b \<longrightarrow>
       unat n \<le> unat (allocated_len (snd (egg_buffer_reserve b n))))"
proof (cases "egg_buffer_reserve b n")
  case (Pair ok b')
  then show ?thesis
    using egg_buffer_reserve_spec [OF assms(1) _ Pair] assms(2) by (auto split: if_splits)
qed

lemma add_empty_snd:
  assumes "egg_wf b" "len b = 0" "unat n < 2 ^ 63"
  shows "egg_wf (snd (egg_buffer_add_empty b n)) \<and>
    allocator (snd (egg_buffer_add_empty b n)) = allocator b"
proof (cases "egg_buffer_reserve b n")
  case (Pair ok b')
  have "egg_wf b' \<and> allocator b' = allocator b \<and> len b' = 0 \<and> (ok \<longrightarrow> unat n \<le> unat (allocated_len b'))"
    using egg_buffer_reserve_spec [OF assms(1) _ Pair] assms(2,3) by (auto split: if_splits)
  then show ?thesis
    using Pair assms(2)
    by (cases ok) (auto simp: egg_buffer_add_empty_def egg_wf_def word_le_nat_alt)
qed

lemma wp_read_message:
  assumes s: "fresh c s" and fd: "sock s \<ge> 0" and n: "n < 0x0FFFFFFF"
    and pos: "n \<noteq> 0 \<or> io s = InetdIo"
  shows "wp (read_message s net n) (\<lambda>(ok, s', net'). idle c s' \<and> (ok \<longrightarrow> accepted c s'))"
proof -
  obtain q r where q: "req s = Ptr q" "resp s = Ptr r" "live_msg q" "live_msg r"
    "contents (buffer q) = []" "failures (buffer q) = 0"
    and i: "conn s = c" "length (sessions s) = 256" "peers_ok s"
    using s by (auto simp: fresh_def idle_def)
  have wf: "egg_wf (buffer q)" "len (buffer q) = 0"
    using q length_contents [of "buffer q"] by (auto simp: live_msg_def unat_eq_0)
  have small: "unat n < 0x0FFFFFFF" using n by (simp add: word_less_nat_alt)
  define b where "b = snd (egg_buffer_reserve (buffer q) (ucast n))"
  have b: "egg_wf b" "allocator b = allocator (buffer q)" "len b = 0"
    "failures b = 0 \<longrightarrow> unat n \<le> unat (allocated_len b)"
    using reserve_snd [OF wf(1), of "ucast n"] wf(2) small q(6) by (auto simp: b_def)
  have up: "idle c (s\<lparr>req := Ptr (q\<lparr>buffer := b'\<rparr>)\<rparr>)"
    if "egg_wf b'" "allocator b' = allocator (buffer q)" for b'
    using q i that by (auto simp: idle_def conn_def live_msg_def)
  show ?thesis
  proof (cases "egg_buffer_has_error b")
    case True
    then show ?thesis using q(1) wf up [OF b(1,2)] by (simp add: read_message_def b_def [symmetric])
  next
    case False
    then have room: "unat n \<le> length (cells (buf b))"
      using b by (auto simp: egg_buffer_has_error_def egg_wf_def)
    define old where "old = take (unat n) (cells (buf b))"
    have old: "mem_read (buf b) 0 (unat n) = Ret old" "length old = unat n"
      using room by (auto simp: old_def mem_read_cells)
    have "old \<noteq> [] \<or> io s = InetdIo" using pos old(2) by (auto simp: unat_eq_0)
    then obtain ok xs net' where rd: "cs_read s net old = Ret (ok, xs, net')" "length xs = unat n"
      using cs_read_total [OF fd, of old net] old(2) by auto
    then obtain p where p: "mem_write (buf b) 0 xs = Ret p"
      using room mem_write_cells [of 0 xs "buf b"] by auto
    let ?b1 = "b\<lparr>buf := p\<rparr>"
    have b1: "egg_wf ?b1" "allocator ?b1 = allocator (buffer q)" "len ?b1 = 0"
      using b mem_write_length [OF p] by (auto simp: egg_wf_def)
    define b2 where "b2 = snd (egg_buffer_add_empty ?b1 (ucast n))"
    have b2: "egg_wf b2" "allocator b2 = allocator (buffer q)"
      using add_empty_snd [OF b1(1,3), of "ucast n"] b1(2) small by (auto simp: b2_def)
    obtain ok' m' where m': "gck_rpc_message_parse (q\<lparr>buffer := b2\<rparr>) GCK_RPC_REQUEST = Ret (ok', m')"
      "egg_in b2 (buffer m')"
      "ok' \<longrightarrow> 0 < call_id m' \<and> call_id m' < GCK_RPC_CALL_MAX \<and> prepared (call_id m') GCK_RPC_REQUEST m'"
      using wp_message_parse [of "q\<lparr>buffer := b2\<rparr>" GCK_RPC_REQUEST] b2(1) by (auto simp: wp_iff)
    have "idle c (s\<lparr>req := Ptr m'\<rparr>)"
      using q i m'(2) b2(2) by (auto simp: idle_def conn_def live_msg_def egg_in_def)
    then have "idle c (s\<lparr>req := Ptr m'\<rparr>) \<and> (ok' \<longrightarrow> accepted c (s\<lparr>req := Ptr m'\<rparr>))"
      using m'(3) by (auto simp: accepted_def)
    then show ?thesis
      using False q(1) wf old rd p m'(1) up [OF b1(1,2)]
      by (auto simp: read_message_def b_def [symmetric] b2_def [symmetric] Let_def)
  qed
qed

section \<open>Writing a response\<close>

lemma send_loop_returns:
  "\<exists>ok ys ev'. send_loop False ev xs = Ret (ok, ys, ev')"
proof (induction "False" ev xs rule: send_loop.induct)
  case (5 n ev x xs)
  then show ?case by auto
qed auto

lemma cs_write_total:
  assumes "sock s \<ge> 0" "\<not> use_tls s" "xs \<noteq> []"
  shows "\<exists>ok net'. cs_write s net xs = Ret (ok, net')"
  using assms send_loop_returns [of "sends net" xs]
  by (auto simp: cs_write_def write_all_def inetd_write_def
      split: IoFunctions.split list.split SendResult.split)

lemma wp_write_response:
  assumes "idle c s" "sock s \<ge> 0" "\<not> use_tls s" "resp s = Ptr r" "contents (buffer r) \<noteq> []"
  shows "wp (write_response s net) (\<lambda>(ok, b4, net'). length b4 = 4)"
proof -
  have wf: "egg_wf (buffer r)" using assms(1,4) by (auto simp: idle_def live_msg_def)
  have m: "mem_read (buf (buffer r)) 0 (unat (len (buffer r))) = Ret (contents (buffer r))"
    using mem_read_contents [OF wf, of 0 "length (contents (buffer r))"] length_contents [OF wf] by simp
  let ?p = "egg_buffer_encode_uint32 (ucast (len (buffer r)))"
  have "?p \<noteq> []" by (simp add: egg_buffer_encode_uint32_def)
  then obtain ok net1 where w1: "cs_write s net ?p = Ret (ok, net1)"
    using cs_write_total [OF assms(2,3)] by blast
  moreover obtain ok' net2 where "cs_write s net1 (contents (buffer r)) = Ret (ok', net2)"
    using cs_write_total [OF assms(2,3,5)] by blast
  ultimately show ?thesis using assms(4) m by (simp add: write_response_def Let_def)
qed

lemma complete_response_nonempty: "complete_response q r \<Longrightarrow> contents (buffer r) \<noteq> []"
  by (auto simp: complete_response_def error_message_def encode_header_def prefix_def
      egg_buffer_encode_uint32_def)

section \<open>Rounds\<close>

text \<open>
  The next length prefix announces an empty message on a socket: the case in which
  \<open>read_all\<close> runs into \<open>assert (len > 0)\<close>.
\<close>

definition empty_frame :: "'w Dispatcher \<Rightarrow> Net \<Rightarrow> block \<Rightarrow> bool" where
  "empty_frame s net buf4 \<longleftrightarrow>
     io s = SocketIo \<and>
     (case cs_read s net buf4 of
        Ret (ok, xs, _) \<Rightarrow> ok \<and> egg_buffer_decode_uint32 xs = 0
      | _ \<Rightarrow> False)"

definition serving :: "u64 \<times> int \<times> IoFunctions \<times> bool \<Rightarrow> 'w Dispatcher \<Rightarrow> block \<Rightarrow> bool" where
  "serving c s buf4 \<longleftrightarrow> idle c s \<and> length buf4 = 4 \<and> sock s \<ge> 0 \<and> \<not> use_tls s"

lemma serving_conn: "serving c s b \<Longrightarrow> idle c s' \<Longrightarrow> length b' = 4 \<Longrightarrow> serving c s' b'"
  by (auto simp: serving_def idle_def conn_def)

lemma wp_dispatch_round:
  assumes E: "env_ok E" and s: "serving c s buf4" and ne: "\<not> empty_frame s net buf4"
  shows "wp (dispatch_round E s net buf4) (\<lambda>(go, s', net', buf4'). serving c s' buf4')"
proof -
  have fd: "sock s \<ge> 0" "idle c s" "length buf4 = 4" using s by (auto simp: serving_def)
  obtain s1 where r: "call_reset s = Ret s1" "fresh c s1"
    using wp_call_reset [OF fd(2)] by (auto simp: wp_iff)
  have i1: "idle c s1" using r(2) by (simp add: fresh_def)
  then have s1: "serving c s1 b" if "length b = 4" for b
    using serving_conn [OF s] that by blast
  have cc: "conn s = c" "conn s1 = c" using fd(2) i1 by (auto simp: idle_def)
  then have fd1: "sock s1 \<ge> 0" "io s1 = io s" using fd by (auto simp: conn_def)
  obtain ok xs net1 where rd: "cs_read s net buf4 = Ret (ok, xs, net1)" "length xs = 4"
    using cs_read_total [OF fd(1), of buf4 net] fd(3) by force
  then have rd1: "cs_read s1 net buf4 = Ret (ok, xs, net1)" using cs_read_conn [of s s1] cc by simp
  let ?n = "egg_buffer_decode_uint32 xs"
  show ?thesis
  proof (cases "ok \<and> ?n < 0x0FFFFFFF")
    case False
    then show ?thesis using r rd1 rd(2) s1 by (auto simp: dispatch_round_def not_less)
  next
    case True
    then have "?n \<noteq> 0 \<or> io s1 = InetdIo"
      using ne rd fd1(2) by (cases "io s") (auto simp: empty_frame_def)
    then obtain ok2 s2 net2 where m: "read_message s1 net1 ?n = Ret (ok2, s2, net2)" "idle c s2"
      "ok2 \<longrightarrow> accepted c s2"
      using wp_read_message [OF r(2) fd1(1)] True by (fastforce simp: wp_iff)
    have s2: "serving c s2 xs" using serving_conn [OF s m(2)] rd(2) by simp
    have "wp (obind (dispatch_call E s2) (\<lambda>(ok, s). if \<not> ok then Ret (False, s, net2, xs)
         else obind (write_response s net2) (\<lambda>(ok, b4, net). Ret (ok, s, net, b4))))
       (\<lambda>(go, s', net', buf4'). serving c s' buf4')" if acc: ok2
    proof -
      obtain ok3 s3 where d: "dispatch_call E s2 = Ret (ok3, s3)" "idle c s3"
        "ok3 \<longrightarrow> (\<exists>q r. req s3 = Ptr q \<and> resp s3 = Ptr r \<and> complete_response q r)"
        using wp_dispatch_call [OF E, of c s2] m(3) acc by (auto simp: wp_iff)
      have s3: "serving c s3 b" if "length b = 4" for b using serving_conn [OF s2 d(2)] that by simp
      have "wp (write_response s3 net2) (\<lambda>(ok, b4, net'). length b4 = 4)" if ok3
        using d that s3 [OF rd(2)] complete_response_nonempty
        by (auto simp: serving_def intro: wp_write_response)
      then show ?thesis using d(1) s3 [OF rd(2)] s3 by (auto elim!: wp_mono)
    qed
    then show ?thesis
      using r(1) rd1 True m(1) s2 by (cases ok2) (auto simp: dispatch_round_def Let_def not_le)
  qed
qed

text \<open>The rounds of a connection as a step relation.\<close>

inductive round_step ::
  "'w Env \<Rightarrow> 'w Dispatcher \<times> Net \<times> block \<Rightarrow> 'w Dispatcher \<times> Net \<times> block \<Rightarrow> bool"
  for E where
  served: "dispatch_round E s net buf4 = Ret (True, s', net', buf4') \<Longrightarrow>
    round_step E (s, net, buf4) (s', net', buf4')"

inductive_cases round_stepE: "round_step E x y"

lemma serving_reachable:
  assumes "env_ok E" "(round_step E)\<^sup>*\<^sup>* (s, net, b) (s', net', b')" "serving c s b"
    and "\<And>s1 net1 b1. (round_step E)\<^sup>*\<^sup>* (s, net, b) (s1, net1, b1) \<Longrightarrow> \<not> empty_frame s1 net1 b1"
  shows "serving c s' b'"
  using assms(2)
proof (induction "(s', net', b')" arbitrary: s' net' b' rule: rtranclp_induct)
  case base
  then show ?case using assms(3) by simp
next
  case (step y)
  obtain s1 net1 b1 where y: "y = (s1, net1, b1)" by (cases y)
  then have "dispatch_round E s1 net1 b1 = Ret (True, s', net', b')"
    using step(2) by (auto elim: round_stepE)
  moreover have "wp (dispatch_round E s1 net1 b1) (\<lambda>(go, s', net', b'). serving c s' b')"
    using step(1,3) y assms(1,4) by (intro wp_dispatch_round) auto
  ultimately show ?case by simp
qed

lemma wp_dispatch_loop:
  assumes "env_ok E" "serving c s b"
    and "\<And>s1 net1 b1. (round_step E)\<^sup>*\<^sup>* (s, net, b) (s1, net1, b1) \<Longrightarrow> \<not> empty_frame s1 net1 b1"
  shows "wp (dispatch_loop E s net b) (\<lambda>(s', net'). conn s' = c \<and> req s' = Freed \<and> resp s' = Freed)"
  using assms
proof (induction E s net b rule: dispatch_loop.induct)
  case (1 E s net b)
  obtain go s1 net1 b1 where r: "dispatch_round E s net b = Ret (go, s1, net1, b1)" "serving c s1 b1"
    using wp_dispatch_round [OF 1(2,3), of net] 1(4) [of s net b] by (auto simp: wp_iff)
  show ?case
  proof (cases go)
    case True
    then have st: "round_step E (s, net, b) (s1, net1, b1)" using r(1) by (auto intro: served)
    have "wp (dispatch_loop E s1 net1 b1) (\<lambda>(s', net'). conn s' = c \<and> req s' = Freed \<and> resp s' = Freed)"
    proof (rule 1(1) [OF r(1) refl refl refl True 1(2) r(2)])
      fix s2 net2 b2 assume "(round_step E)\<^sup>*\<^sup>* (s1, net1, b1) (s2, net2, b2)"
      then show "\<not> empty_frame s2 net2 b2" using 1(4) st by (meson converse_rtranclp_into_rtranclp)
    qed
    then show ?thesis using r(1) True by (subst dispatch_loop.simps) simp
  next
    case False
    have "idle c s1" using r(2) by (simp add: serving_def)
    then show ?thesis
      using wp_call_uninit [OF 1(2)] r(1) False
      by (subst dispatch_loop.simps) (auto elim!: wp_mono)
  qed
qed

section \<open>The empty message\<close>

lemma dispatch_round_empty_frame:
  assumes s: "serving c s buf4" and e: "empty_frame s net buf4"
  shows "wp_abort (dispatch_round E s net buf4) (\<lambda>(go, s', net', b'). \<not> go \<and> serving c s' b')"
proof -
  have fd: "sock s \<ge> 0" "idle c s" "io s = SocketIo" using s e by (auto simp: serving_def empty_frame_def)
  obtain s1 where r: "call_reset s = Ret s1" "fresh c s1"
    using wp_call_reset [OF fd(2)] by (auto simp: wp_iff)
  obtain q where q: "req s1 = Ptr q" "live_msg q" "contents (buffer q) = []" "conn s1 = c"
    using r(2) by (auto simp: fresh_def idle_def)
  have wf: "egg_wf (buffer q)" "len (buffer q) = 0"
    using q length_contents [of "buffer q"] by (auto simp: live_msg_def unat_eq_0)
  have cc: "conn s = c" "io s1 = SocketIo" using fd q(4) by (auto simp: idle_def conn_def)
  obtain xs net1 where rd: "cs_read s net buf4 = Ret (True, xs, net1)" "egg_buffer_decode_uint32 xs = 0"
    using e by (auto simp: empty_frame_def split: outcome.splits)
  then have rd1: "cs_read s1 net buf4 = Ret (True, xs, net1)"
    using cs_read_conn [of s s1] cc q(4) by simp
  have l: "length xs = 4" using cs_read_size(3) [OF rd(1)] s by (simp add: serving_def)
  define b where "b = snd (egg_buffer_reserve (buffer q) 0)"
  have b: "egg_wf b" "allocator b = allocator (buffer q)"
    using reserve_snd [OF wf(1), of 0] by (auto simp: b_def)
  have "idle c (s1\<lparr>req := Ptr (q\<lparr>buffer := b\<rparr>)\<rparr>)"
    using r(2) q b by (auto simp: fresh_def idle_def conn_def live_msg_def)
  then have "serving c (s1\<lparr>req := Ptr (q\<lparr>buffer := b\<rparr>)\<rparr>) xs"
    using serving_conn [OF s] l by blast
  moreover have "mem_read (buf b) 0 0 = Ret []" by (cases "buf b") auto
  moreover have "cs_read s1 net1 [] = Abort" using cc by (simp add: cs_read_def read_all_def assert_c_def)
  ultimately have "wp_abort (read_message s1 net1 0)
      (\<lambda>(ok, s', net'). \<not> ok \<and> serving c s' xs)"
    using q(1) wf(2) by (simp add: read_message_def Let_def b_def [symmetric])
  then show ?thesis
    using r(1) rd1 rd(2) by (auto simp: dispatch_round_def Let_def elim!: wp_abort_mono)
qed

text \<open>Without any condition on the input: the thread ends in order or in the failed assertion.\<close>

lemma wp_abort_dispatch_loop:
  assumes "env_ok E" "serving c s b"
  shows "wp_abort (dispatch_loop E s net b)
    (\<lambda>(s', net'). conn s' = c \<and> req s' = Freed \<and> resp s' = Freed)"
  using assms
proof (induction E s net b rule: dispatch_loop.induct)
  case (1 E s net b)
  let ?Q = "\<lambda>(s', net'). conn s' = c \<and> req s' = Freed \<and> resp s' = Freed"
  have fin: "wp_abort (obind (call_uninit E s1) (\<lambda>s. Ret (s, net1))) ?Q" if "serving c s1 b1" for s1 net1 b1
  proof -
    have "idle c s1" using that by (simp add: serving_def)
    then have "wp (call_uninit E s1) (\<lambda>s. conn s = c \<and> req s = Freed \<and> resp s = Freed)"
      using wp_call_uninit [OF 1(2), of c s1] by blast
    then show ?thesis by (auto simp: wp_iff)
  qed
  show ?case
  proof (cases "dispatch_round E s net b")
    case (Ret x)
    obtain go s1 net1 b1 where x: "x = (go, s1, net1, b1)" by (cases x)
    have s1: "serving c s1 b1"
      using wp_dispatch_round [OF 1(2,3), of net] dispatch_round_empty_frame [OF 1(3), of net E] Ret x
      by (cases "empty_frame s net b") auto
    then have "wp_abort (dispatch_loop E s1 net1 b1) ?Q" if go
      using 1(1) [of x go _ s1 _ net1 b1] 1(2) Ret x that by auto
    then show ?thesis using Ret x fin [OF s1] by (subst dispatch_loop.simps) auto
  next
    case Abort
    then show ?thesis by (subst dispatch_loop.simps) simp
  next
    case Fault
    then show ?thesis
      using wp_dispatch_round [OF 1(2,3), of net] dispatch_round_empty_frame [OF 1(3), of net E]
      by (cases "empty_frame s net b") auto
  next
    case Hang
    then show ?thesis
      using wp_dispatch_round [OF 1(2,3), of net] dispatch_round_empty_frame [OF 1(3), of net E]
      by (cases "empty_frame s net b") auto
  qed
qed

section \<open>The thread\<close>

text \<open>
  A connection as \<open>gck_rpc_layer_accept\<close> hands it to its thread: a socket without TLS, an
  empty session table of full size, and no other thread that has freed its messages.
\<close>

definition connected :: "'w Dispatcher \<Rightarrow> bool" where
  "connected s \<longleftrightarrow>
     sock s \<ge> 0 \<and> \<not> use_tls s \<and> length (sessions s) = PKCS11PROXY_MAX_SESSION_COUNT \<and> peers_ok s"

lemma appid_bytes_nonempty: "appid_bytes v \<noteq> []"
  by (simp add: appid_bytes_def)

text \<open>
  The parts of \<open>run_dispatch_loop\<close> before the loop: they return, or leave a dispatcher that
  serves.
\<close>

lemma run_dispatch_loop_start:
  assumes a: "egg_allocator (alloc_run (c_realloc E))" and s: "connected s" and b: "length buf4 = 4"
  shows "(\<exists>s' net'. run_dispatch_loop E s net buf4 = Ret (s', net') \<and> sock s' = sock s) \<or>
    (\<exists>c s' net'. run_dispatch_loop E s net buf4 = dispatch_loop E s' net' buf4 \<and>
       serving c s' buf4 \<and> conn s' = (appid s', sock s, io s, use_tls s))"
proof -
  have fd: "sock s \<ge> 0" "\<not> use_tls s" "length (sessions s) = 256" "peers_ok s"
    using s by (auto simp: connected_def)
  obtain ok xs net1 where rd: "cs_read s net (appid_bytes (appid s)) = Ret (ok, xs, net1)"
    using cs_read_total [OF fd(1), of "appid_bytes (appid s)" net] by (auto simp: appid_bytes_nonempty)
  let ?s = "s\<lparr>appid := bytes_appid xs\<rparr>"
  obtain ok2 s2 where i: "call_init E ?s = Ret (ok2, s2)" "conn s2 = conn ?s" "ok2 \<longrightarrow> idle (conn ?s) s2"
    using wp_call_init [OF a refl, of ?s] fd by (auto simp: wp_iff peers_ok_def)
  have k: "sock s2 = sock s" "use_tls s2 = use_tls s" "conn s2 = (appid s2, sock s, io s, use_tls s)"
    using i(2) by (auto simp: conn_def)
  have sv: "ok2 \<Longrightarrow> serving (conn ?s) s2 buf4" using i(3) k fd b by (auto simp: serving_def)
  show ?thesis
  proof (cases "ok \<and> ok2")
    case True
    then have "run_dispatch_loop E s net buf4 = dispatch_loop E s2 net1 buf4"
      using rd i(1) fd by (simp add: run_dispatch_loop_def Let_def)
    then show ?thesis using sv True k by blast
  next
    case False
    then show ?thesis using rd i(1) k fd by (auto simp: run_dispatch_loop_def Let_def)
  qed
qed

lemma wp_abort_run_dispatch_thread:
  assumes "env_ok E" "egg_allocator (alloc_run (c_realloc E))" "connected s" "length buf4 = 4"
  shows "wp_abort (run_dispatch_thread E install_filter s net buf4)
    (\<lambda>(s', net'). sock s' = (if install_filter False = 0 then - 1 else sock s))"
proof -
  have fd: "sock s \<ge> 0" "\<not> use_tls s" using assms(3) by (auto simp: connected_def)
  have l: "wp_abort (dispatch_loop E s1 net1 buf4) (\<lambda>(s', net'). sock s' \<noteq> - 1)"
    if "serving c s1 buf4" for c s1 net1
    using that by (intro wp_abort_mono [OF wp_abort_dispatch_loop [OF assms(1) that]])
      (auto simp: conn_def serving_def idle_def)
  have "wp_abort (run_dispatch_loop E s net buf4) (\<lambda>(s', net'). sock s' \<noteq> - 1)"
    using run_dispatch_loop_start [OF assms(2-4), of net] fd l by (force split: prod.split)
  then have "wp_abort (obind (run_dispatch_loop E s net buf4) (\<lambda>(s, net).
      assert_c (sock s \<noteq> - 1) (Ret (s\<lparr>sock := - 1\<rparr>, net)))) (\<lambda>(s', net'). sock s' = - 1)"
    by (auto intro!: wp_abort_obind elim!: wp_abort_mono simp: assert_c_def)
  then show ?thesis using fd by (auto simp: run_dispatch_thread_def)
qed

lemma wp_run_dispatch_thread:
  assumes "env_ok E" "egg_allocator (alloc_run (c_realloc E))" "connected s" "length buf4 = 4"
    and loop: "\<And>c s1 net1. serving c s1 buf4 \<Longrightarrow> conn s1 = (appid s1, sock s, io s, use_tls s) \<Longrightarrow>
      wp (dispatch_loop E s1 net1 buf4) (\<lambda>(s', net'). conn s' = c)"
  shows "wp (run_dispatch_thread E install_filter s net buf4)
    (\<lambda>(s', net'). sock s' = (if install_filter False = 0 then - 1 else sock s))"
proof -
  have fd: "sock s \<ge> 0" "\<not> use_tls s" using assms(3) by (auto simp: connected_def)
  have l: "wp (dispatch_loop E s1 net1 buf4) (\<lambda>(s', net'). sock s' \<noteq> - 1)"
    if "serving c s1 buf4" "conn s1 = (appid s1, sock s, io s, use_tls s)" for c s1 net1
    using that by (intro wp_mono [OF loop [OF that]]) (auto simp: conn_def serving_def idle_def)
  have "wp (run_dispatch_loop E s net buf4) (\<lambda>(s', net'). sock s' \<noteq> - 1)"
    using run_dispatch_loop_start [OF assms(2-4), of net] fd l by (force split: prod.split)
  then have "wp (obind (run_dispatch_loop E s net buf4) (\<lambda>(s, net).
      assert_c (sock s \<noteq> - 1) (Ret (s\<lparr>sock := - 1\<rparr>, net)))) (\<lambda>(s', net'). sock s' = - 1)"
    by (auto elim!: wp_mono simp: assert_c_def)
  then show ?thesis using fd by (auto simp: run_dispatch_thread_def)
qed

text \<open>Over standard input no message is taken for empty, so every round returns.\<close>

lemma inetd_serving:
  assumes "env_ok E" "(round_step E)\<^sup>*\<^sup>* (s, net, b) (s', net', b')" "serving c s b" "io s = InetdIo"
  shows "serving c s' b' \<and> io s' = InetdIo"
  using assms(2)
proof (induction "(s', net', b')" arbitrary: s' net' b' rule: rtranclp_induct)
  case base
  then show ?case using assms(3,4) by simp
next
  case (step y)
  obtain s1 net1 b1 where y: "y = (s1, net1, b1)" by (cases y)
  then have s1: "serving c s1 b1" "io s1 = InetdIo" using step(3) by auto
  then have "\<not> empty_frame s1 net1 b1" by (simp add: empty_frame_def)
  then have "serving c s' b'"
    using wp_dispatch_round [OF assms(1) s1(1), of net1] step(2) y by (auto elim: round_stepE)
  then show ?case using s1 by (auto simp: serving_def idle_def conn_def)
qed

lemma wp_inetd_loop:
  assumes "env_ok E" "serving c s b" "io s = InetdIo"
  shows "wp (dispatch_loop E s net b) (\<lambda>(s', net'). conn s' = c)"
proof -
  have "\<not> empty_frame s1 net1 b1" if "(round_step E)\<^sup>*\<^sup>* (s, net, b) (s1, net1, b1)" for s1 net1 b1
    using inetd_serving [OF assms(1) that assms(2,3)] by (simp add: empty_frame_def)
  then show ?thesis by (intro wp_mono [OF wp_dispatch_loop [OF assms(1,2)]]) auto
qed

end
