(* ===== verification/C_Strings.thy ===== *)
theory C_Strings
  imports Prelude
begin

text \<open>
  Strings of C in memory: arrays of characters that are read and written one by one, with an
  access outside of the array as a fault, and the strings that end with a terminator in them.
\<close>

abbreviation (input) NUL :: char where "NUL \<equiv> CHR 0x00"
abbreviation (input) MAXPATHLEN :: nat where "MAXPATHLEN \<equiv> 4096"

text \<open>\<open>snprintf\<close> into an array of \<open>n\<close> characters.\<close>

definition snprintf :: "nat \<Rightarrow> string \<Rightarrow> string" where
  "snprintf n s = take (n - 1) s"

definition char_at :: "char list \<Rightarrow> nat \<Rightarrow> char outcome" where
  "char_at d i = (if i < length d then Ret (d ! i) else Fault)"

definition put_char :: "char list \<Rightarrow> nat \<Rightarrow> char \<Rightarrow> char list outcome" where
  "put_char d i c = (if i < length d then Ret (d[i := c]) else Fault)"

definition string_at :: "char list \<Rightarrow> nat \<Rightarrow> string outcome" where
  "string_at d i = (if NUL \<in> set (drop i d) then Ret (takeWhile (\<lambda>c. c \<noteq> NUL) (drop i d)) else Fault)"

lemma char_at_bound: "char_at d i = Ret c \<Longrightarrow> i < length d"
  by (simp add: char_at_def split: if_splits)

lemma put_char_length: "put_char d i c = Ret d' \<Longrightarrow> length d' = length d"
  by (auto simp: put_char_def split: if_splits)

text \<open>\<open>strcpy\<close> to a place of an array, and \<open>strcat\<close> to the string at its start.\<close>

definition put_string :: "char list \<Rightarrow> nat \<Rightarrow> string \<Rightarrow> char list outcome" where
  "put_string d i s =
     (if i + length s < length d then Ret (take i d @ s @ NUL # drop (Suc (i + length s)) d) else Fault)"

definition strcat :: "char list \<Rightarrow> string \<Rightarrow> char list outcome" where
  "strcat d s = obind (string_at d 0) (\<lambda>t. put_string d (length t) s)"

lemma string_at_first: "NUL \<notin> set s \<Longrightarrow> string_at (s @ NUL # zs) 0 = Ret s"
  by (simp add: string_at_def takeWhile_append)

lemma string_at_skip: "NUL \<notin> set s \<Longrightarrow> string_at (p @ s @ NUL # zs) (length p) = Ret s"
  by (simp add: string_at_def takeWhile_append)

lemma put_string_first:
  "length s < length d \<Longrightarrow> put_string d 0 s = Ret (s @ NUL # drop (Suc (length s)) d)"
  by (simp add: put_string_def)

lemma strcat_first:
  "NUL \<notin> set s \<Longrightarrow> length t \<le> length zs \<Longrightarrow>
   strcat (s @ NUL # zs) t = Ret (s @ t @ NUL # drop (length t) zs)"
  by (simp add: strcat_def string_at_first put_string_def Suc_diff_le)

end
