(* ===== verification/Dispatch_Layer.thy ===== *)
theory Dispatch_Layer
  imports Dispatch_Thread Rpc_Util C_Strings
begin

text \<open>
  The main thread of the daemon in \<^verbatim>\<open>gck-rpc-dispatch.c\<close>: setting the layer up, accepting
  connections, the list of dispatcher threads with the mutex that protects it, and shutting
  the layer down. The results of the system calls are parameters.
\<close>

section \<open>State\<close>

text \<open>
  How far a dispatcher's thread is: it has not yet entered its loop; it is in the loop, and
  will lock the mutex in the \<open>rpc_C_Finalize\<close> of its \<open>call_uninit\<close> before it ends; it has
  ended.
\<close>

datatype ThreadPhase = Starting | Serving | Ended

record DispatchState =
  ds_thread :: ThreadPhase
  ds_cs :: CallState

record 'w Layer =
  layer_module :: "'w CK_FUNCTION_LIST option"
  pkcs11_socket :: int
  pkcs11_socket_path :: string
  dispatchers :: "DispatchState list"
  dispatchers_mutex :: bool

section \<open>Accepting\<close>

text \<open>
  \<open>pthread_join\<close> called while holding the mutex. A thread that is still serving needs the
  mutex to end, so neither thread goes on. What a starting thread does depends on its client.
\<close>

definition join_locked :: "(CallState \<Rightarrow> CallState outcome) \<Rightarrow> DispatchState \<Rightarrow> CallState outcome" where
  "join_locked starting d =
     (case ds_thread d of
        Ended \<Rightarrow> Ret (ds_cs d)
      | Serving \<Rightarrow> Hang
      | Starting \<Rightarrow> starting (ds_cs d))"

fun reap_dispatchers ::
  "(CallState \<Rightarrow> CallState outcome) \<Rightarrow> DispatchState list \<Rightarrow> DispatchState list outcome" where
  "reap_dispatchers starting [] = Ret []"
| "reap_dispatchers starting (d # ds) =
     (if sock (ds_cs d) = - 1 then
        obind (join_locked starting d) (\<lambda>_. reap_dispatchers starting ds)
      else obind (reap_dispatchers starting ds) (\<lambda>ds. Ret (d # ds)))"

text \<open>The memory of \<open>calloc\<close> with the fields \<open>gck_rpc_layer_accept\<close> sets.\<close>

definition no_session :: SessionState where
  "no_session = \<lparr>sess_id = 0, sess_slot = 0\<rparr>"

definition new_call_state :: "int \<Rightarrow> IoFunctions \<Rightarrow> bool \<Rightarrow> CallState" where
  "new_call_state fd funcs tls =
     \<lparr>req = Null, resp = Null, allocated = [], appid = 0, sock = fd, io = funcs, use_tls = tls,
      sessions = replicate PKCS11PROXY_MAX_SESSION_COUNT no_session\<rparr>"

text \<open>
  \<open>new_fd\<close> is what \<open>accept\<close> returns, \<open>calloc_ok\<close> and \<open>create_ok\<close> whether \<open>calloc\<close> and
  \<open>pthread_create\<close> succeed. Locking a mutex that is already locked never returns. The three
  early returns leave the mutex locked.
\<close>

definition gck_rpc_layer_accept ::
  "(CallState \<Rightarrow> CallState outcome) \<Rightarrow> int \<Rightarrow> bool \<Rightarrow> bool \<Rightarrow> bool \<Rightarrow> 'w Layer \<Rightarrow> 'w Layer outcome" where
  "gck_rpc_layer_accept starting new_fd calloc_ok create_ok tls L =
     assert_c (pkcs11_socket L \<noteq> - 1)
      (if dispatchers_mutex L then Hang
       else
         obind (reap_dispatchers starting (dispatchers L)) (\<lambda>ds.
         let L = L\<lparr>dispatchers := ds, dispatchers_mutex := True\<rparr> in
         if new_fd < 0 then Ret L
         else if \<not> calloc_ok then Ret L
         else if \<not> create_ok then Ret L
         else
           (let d = \<lparr>ds_thread = Starting, ds_cs = new_call_state new_fd SocketIo tls\<rparr> in
            Ret (L\<lparr>dispatchers := d # dispatchers L, dispatchers_mutex := False\<rparr>))))"

section \<open>One client on standard input\<close>

definition STDIN_FILENO :: int where
  "STDIN_FILENO = 0"

definition dispatcher_of :: "CallState \<Rightarrow> CallState list \<Rightarrow> 'w \<Rightarrow> 'w Dispatcher" where
  "dispatcher_of c others w =
     \<lparr>req = req c, resp = resp c, allocated = allocated c, appid = appid c, sock = sock c, io = io c,
      use_tls = use_tls c, sessions = sessions c, pkcs11_dispatchers = others, world = w\<rparr>"

definition gck_rpc_layer_inetd ::
  "'w Env \<Rightarrow> (bool \<Rightarrow> int) \<Rightarrow> 'w CK_FUNCTION_LIST \<Rightarrow> 'w \<Rightarrow> Net \<Rightarrow> block \<Rightarrow>
    ('w Dispatcher \<times> Net) outcome" where
  "gck_rpc_layer_inetd E install_filter M w net buf4 =
     run_dispatch_thread (E\<lparr>pkcs11_module := Some M\<rparr>) install_filter
       (dispatcher_of (new_call_state STDIN_FILENO InetdIo False) [] w) net buf4"

section \<open>Listening\<close>

text \<open>
  What the system calls give for one address of \<open>getaddrinfo\<close>: the descriptor of \<open>socket\<close>,
  and whether the two \<open>setsockopt\<close> calls and \<open>bind\<close> succeed.
\<close>

record AddrInfo =
  ai_inet6 :: bool
  ai_socket :: int
  ai_nodelay :: bool
  ai_reuseaddr :: bool
  ai_bind :: bool

fun bind_first :: "AddrInfo list \<Rightarrow> (int \<times> AddrInfo) option" where
  "bind_first [] = None"
| "bind_first (ai # ais) =
     (if ai_socket ai \<ge> 0 \<and> ai_nodelay ai \<and> ai_reuseaddr ai \<and> ai_bind ai then Some (ai_socket ai, ai)
      else bind_first ais)"

text \<open>
  \<open>addrs\<close> is the list of \<open>getaddrinfo\<close>, with \<open>None\<close> for a negative result; \<open>name\<close> is the
  numeric host and port of \<open>getnameinfo\<close>, with \<open>None\<close> for an error. The result is the socket
  and \<open>pkcs11_socket_path\<close>.
\<close>

definition get_listening_socket ::
  "AddrInfo list option \<Rightarrow> bool \<Rightarrow> (string \<times> string) option \<Rightarrow> string \<Rightarrow> string \<Rightarrow> int \<times> string" where
  "get_listening_socket addrs listen_ok name proto path =
     (case addrs of
        None \<Rightarrow> (- 1, path)
      | Some ais \<Rightarrow>
          (case bind_first ais of
             None \<Rightarrow> (- 1, path)
           | Some (fd, ai) \<Rightarrow>
               if \<not> listen_ok then (- 1, path)
               else case name of
                      None \<Rightarrow> (- 1, path)
                    | Some (host, port) \<Rightarrow>
                        (fd, snprintf MAXPATHLEN
                          (if ai_inet6 ai then proto @ ''://['' @ host @ '']:'' @ port
                           else proto @ ''://'' @ host @ '':'' @ port))))"

text \<open>
  The operating system as \<open>gck_rpc_layer_initialize\<close> sees it: \<open>strdup\<close> in the parser of the
  host and port, the TCP calls above, and the calls for a Unix socket.
\<close>

record Listen_Env =
  le_strdup :: bool
  le_addrs :: "string \<Rightarrow> string option \<Rightarrow> AddrInfo list option"
  le_listen :: bool
  le_name :: "(string \<times> string) option"
  le_socket :: int
  le_bind :: bool

definition gck_rpc_layer_initialize ::
  "Listen_Env \<Rightarrow> string \<Rightarrow> 'w CK_FUNCTION_LIST \<Rightarrow> 'w Layer \<Rightarrow> (int \<times> 'w Layer) outcome" where
  "gck_rpc_layer_initialize sys pfx M L =
     assert_c (layer_module L = None)
     (assert_c (pkcs11_socket L = - 1)
     (assert_c (dispatchers L = [])
      (let (sock, path) =
         (if take 6 pfx = ''tcp://'' \<or> take 6 pfx = ''tls://'' then
            (case gck_rpc_parse_host_port (le_strdup sys) (drop 6 pfx) of
               None \<Rightarrow> (- 1, pkcs11_socket_path L)
             | Some (host, port) \<Rightarrow>
                 get_listening_socket (le_addrs sys host port) (le_listen sys) (le_name sys)
                   (snprintf 4 pfx) (pkcs11_socket_path L))
          else
            (let path = snprintf MAXPATHLEN (pfx @ ''/socket.pkcs11'') in
             if le_socket sys < 0 then (- 1, path)
             else if \<not> le_bind sys then (- 1, path)
             else if \<not> le_listen sys then (- 1, path)
             else (le_socket sys, path))) in
       let L = L\<lparr>pkcs11_socket_path := path\<rparr> in
       if sock = - 1 then Ret (- 1, L)
       else Ret (sock, L\<lparr>layer_module := Some M, pkcs11_socket := sock, dispatchers := []\<rparr>))))"

section \<open>Shutting down\<close>

fun stop_dispatchers ::
  "(CallState \<Rightarrow> CallState outcome) \<Rightarrow> (int \<Rightarrow> bool) \<Rightarrow> DispatchState list \<Rightarrow> unit outcome" where
  "stop_dispatchers starting shut [] = Ret ()"
| "stop_dispatchers starting shut (d # ds) =
     (let c = ds_cs d;
          c = (if sock c \<noteq> - 1 \<and> shut (sock c) then c\<lparr>sock := - 1\<rparr> else c) in
      obind (join_locked starting (d\<lparr>ds_cs := c\<rparr>)) (\<lambda>c.
      assert_c (sock c = - 1) (stop_dispatchers starting shut ds)))"

text \<open>
  The second component is the path that is unlinked, if any. \<open>pkcs11_dispatchers\<close> is not
  reset: it goes on pointing at the elements, which have been freed.
\<close>

definition gck_rpc_layer_uninitialize ::
  "(CallState \<Rightarrow> CallState outcome) \<Rightarrow> (int \<Rightarrow> bool) \<Rightarrow> 'w Layer \<Rightarrow>
    ('w Layer \<times> string option) outcome" where
  "gck_rpc_layer_uninitialize starting shut L =
     (if layer_module L = None then Ret (L, None)
      else
        (let path = pkcs11_socket_path L;
             gone = (if path \<noteq> [] \<and> take 6 path \<noteq> ''tcp://'' \<and> take 6 path \<noteq> ''tls://''
                     then Some path else None);
             L = L\<lparr>pkcs11_socket := - 1, pkcs11_socket_path := []\<rparr> in
         if dispatchers_mutex L then Hang
         else
           obind (stop_dispatchers starting shut (dispatchers L)) (\<lambda>_.
           Ret (L\<lparr>layer_module := None\<rparr>, gone))))"

section \<open>Properties of the list\<close>

definition thread_over :: "DispatchState \<Rightarrow> bool" where
  "thread_over d \<longleftrightarrow> sock (ds_cs d) = - 1 \<and> ds_thread d = Ended"

text \<open>
  The list the main thread keeps: a thread whose socket is gone has ended, the others have
  distinct sockets. The loop of \<open>rpc_C_Finalize\<close> relies on the latter, since it knows its own
  entry by the socket.
\<close>

definition layer_ok :: "'w Layer \<Rightarrow> bool" where
  "layer_ok L \<longleftrightarrow>
     list_all (\<lambda>d. sock (ds_cs d) = - 1 \<longrightarrow> ds_thread d = Ended) (dispatchers L) \<and>
     list_all (\<lambda>d. length (sessions (ds_cs d)) = PKCS11PROXY_MAX_SESSION_COUNT) (dispatchers L) \<and>
     distinct (filter (\<lambda>fd. fd \<noteq> - 1) (map (sock \<circ> ds_cs) (dispatchers L)))"

lemma reap_dispatchers_filter:
  "list_all (\<lambda>d. sock (ds_cs d) = - 1 \<longrightarrow> ds_thread d = Ended) ds \<Longrightarrow>
   reap_dispatchers starting ds = Ret (filter (\<lambda>d. sock (ds_cs d) \<noteq> - 1) ds)"
  by (induction ds) (auto simp: join_locked_def)

lemma layer_ok_filter:
  assumes "layer_ok L"
  shows "layer_ok (L\<lparr>dispatchers := filter P (dispatchers L), dispatchers_mutex := b\<rparr>)"
proof -
  have "distinct (filter (\<lambda>fd. fd \<noteq> - 1) (map f ds)) \<Longrightarrow>
      distinct (filter (\<lambda>fd. fd \<noteq> - 1) (map f (filter P ds)))" for f :: "DispatchState \<Rightarrow> int" and ds
    by (induction ds) (auto simp: image_iff)
  then show ?thesis using assms by (auto simp: layer_ok_def list_all_iff)
qed

lemma gck_rpc_layer_accept_spec:
  assumes "layer_ok L" "pkcs11_socket L \<noteq> - 1" "\<not> dispatchers_mutex L"
  shows "gck_rpc_layer_accept starting fd calloc_ok create_ok tls L =
    (let ds = filter (\<lambda>d. sock (ds_cs d) \<noteq> - 1) (dispatchers L) in
     Ret (if fd \<ge> 0 \<and> calloc_ok \<and> create_ok then
            L\<lparr>dispatchers :=
                \<lparr>ds_thread = Starting, ds_cs = new_call_state fd SocketIo tls\<rparr> # ds,
              dispatchers_mutex := False\<rparr>
          else L\<lparr>dispatchers := ds, dispatchers_mutex := True\<rparr>))"
  using assms
  by (auto simp: gck_rpc_layer_accept_def layer_ok_def reap_dispatchers_filter Let_def)

text \<open>
  The steps of the daemon: the main thread accepts a connection with a descriptor that is
  not in use; a thread works on its own \<open>CallState\<close>; a thread closes its socket and ends.
  Left out is the interruption of a waiting thread by another one's \<open>rpc_C_Finalize\<close>, after
  which the waiting thread does not survive its next write.
\<close>

inductive layer_step :: "'w Layer \<Rightarrow> 'w Layer \<Rightarrow> bool" where
  accepts: "gck_rpc_layer_accept starting fd calloc_ok create_ok tls L = Ret L' \<Longrightarrow>
    fd \<notin> (sock \<circ> ds_cs) ` set (dispatchers L) \<Longrightarrow> layer_step L L'"
| works: "i < length (dispatchers L) \<Longrightarrow> ds_thread (dispatchers L ! i) \<noteq> Ended \<Longrightarrow>
    length (sessions c) = PKCS11PROXY_MAX_SESSION_COUNT \<Longrightarrow> sock c = sock (ds_cs (dispatchers L ! i)) \<Longrightarrow>
    layer_step L (L\<lparr>dispatchers := (dispatchers L)[i := \<lparr>ds_thread = Serving, ds_cs = c\<rparr>]\<rparr>)"
| ends: "i < length (dispatchers L) \<Longrightarrow> ds_thread (dispatchers L ! i) \<noteq> Ended \<Longrightarrow>
    length (sessions c) = PKCS11PROXY_MAX_SESSION_COUNT \<Longrightarrow> sock c = - 1 \<Longrightarrow>
    layer_step L (L\<lparr>dispatchers := (dispatchers L)[i := \<lparr>ds_thread = Ended, ds_cs = c\<rparr>]\<rparr>)"

inductive_cases layer_stepE: "layer_step L L'"

lemma filter_update_same:
  "i < length xs \<Longrightarrow> f y = f (xs ! i) \<Longrightarrow> map f (xs[i := y]) = map f xs"
  by (simp add: map_update list_update_same_conv)

lemma distinct_filter_drop:
  "i < length xs \<Longrightarrow> \<not> P x \<Longrightarrow> distinct (filter P xs) \<Longrightarrow> distinct (filter P (xs[i := x]))"
proof (induction xs arbitrary: i)
  case (Cons a xs)
  then show ?case
    by (cases i) (auto split: if_splits dest!: set_update_subset_insert [THEN subsetD])
qed simp

lemma list_all_update: "list_all P xs \<Longrightarrow> P x \<Longrightarrow> list_all P (xs[i := x])"
  by (auto simp: list_all_iff dest!: set_update_subset_insert [THEN subsetD])

lemma layer_ok_accept:
  assumes ok: "layer_ok L" and fd: "fd \<notin> (sock \<circ> ds_cs) ` set (dispatchers L)"
    and a: "gck_rpc_layer_accept starting fd calloc_ok create_ok tls L = Ret L'"
  shows "layer_ok L'"
proof -
  have "pkcs11_socket L \<noteq> - 1" "\<not> dispatchers_mutex L"
    using a by (auto simp: gck_rpc_layer_accept_def assert_c_def split: if_splits)
  then have L': "Ret L' = (let ds = filter (\<lambda>d. sock (ds_cs d) \<noteq> - 1) (dispatchers L) in
     Ret (if fd \<ge> 0 \<and> calloc_ok \<and> create_ok then
            L\<lparr>dispatchers :=
                \<lparr>ds_thread = Starting, ds_cs = new_call_state fd SocketIo tls\<rparr> # ds,
              dispatchers_mutex := False\<rparr>
          else L\<lparr>dispatchers := ds, dispatchers_mutex := True\<rparr>))"
    using gck_rpc_layer_accept_spec [OF ok] a by metis
  have "layer_ok (L\<lparr>dispatchers := filter (\<lambda>d. sock (ds_cs d) \<noteq> - 1) (dispatchers L), dispatchers_mutex := b\<rparr>)"
    for b by (rule layer_ok_filter [OF ok])
  then show ?thesis using L' fd by (auto simp: Let_def layer_ok_def new_call_state_def split: if_splits)
qed

lemma layer_ok_step: "layer_step L L' \<Longrightarrow> layer_ok L \<Longrightarrow> layer_ok L'"
proof (induction rule: layer_step.induct)
  case (accepts starting fd calloc_ok create_ok tls L L')
  then show ?case using layer_ok_accept by blast
next
  case (works i L c)
  then have "sock c \<noteq> - 1" by (auto simp: layer_ok_def list_all_length)
  then show ?case
    using works by (auto simp: layer_ok_def filter_update_same intro!: list_all_update)
next
  case (ends i L c)
  then show ?case
    by (auto simp: layer_ok_def map_update intro!: list_all_update distinct_filter_drop)
qed

lemma layer_ok_reachable: "layer_step\<^sup>*\<^sup>* L L' \<Longrightarrow> layer_ok L \<Longrightarrow> layer_ok L'"
  by (induction rule: rtranclp_induct) (auto intro: layer_ok_step)

lemma layer_ok_initialize:
  "gck_rpc_layer_initialize sys pfx M L = Ret (fd, L') \<Longrightarrow> layer_ok L'"
  by (auto simp: gck_rpc_layer_initialize_def assert_c_def Let_def layer_ok_def
      split: if_splits prod.splits)

lemma connected_new:
  "fd \<ge> 0 \<Longrightarrow> list_all (\<lambda>d. req d \<noteq> Freed) others \<Longrightarrow>
   connected (dispatcher_of (new_call_state fd funcs False) others w)"
  by (simp add: connected_def dispatcher_of_def new_call_state_def peers_ok_def)

lemma wp_gck_rpc_layer_inetd:
  assumes M: "module_ok M" "egg_allocator (alloc_run (c_realloc E))" and b: "length buf4 = 4"
  shows "wp (gck_rpc_layer_inetd E install_filter M w net buf4)
    (\<lambda>(s', net'). sock s' = (if install_filter False = 0 then - 1 else STDIN_FILENO))"
proof -
  let ?s = "dispatcher_of (new_call_state STDIN_FILENO InetdIo False) [] w"
  let ?E = "E\<lparr>pkcs11_module := Some M\<rparr>"
  have E: "env_ok ?E" "egg_allocator (alloc_run (c_realloc ?E))" using M by (auto simp: env_ok_def)
  have s: "connected ?s" "io ?s = InetdIo" "sock ?s = STDIN_FILENO"
    by (simp_all add: connected_new STDIN_FILENO_def) (simp_all add: dispatcher_of_def new_call_state_def)
  have "wp (dispatch_loop ?E s1 net1 buf4) (\<lambda>(s', net'). conn s' = c)"
    if "serving c s1 buf4" "conn s1 = (appid s1, sock ?s, io ?s, use_tls ?s)" for c s1 net1
    using wp_inetd_loop [OF E(1) that(1)] that(2) s(2) by (simp add: conn_def)
  then have "wp (run_dispatch_thread ?E install_filter ?s net buf4)
      (\<lambda>(s', net'). sock s' = (if install_filter False = 0 then - 1 else sock ?s))"
    by (rule wp_run_dispatch_thread [OF E s(1) b])
  then show ?thesis by (simp only: gck_rpc_layer_inetd_def s(3))
qed

end
