(* ===== verification/Dispatch_Arguments.thy ===== *)
theory Dispatch_Arguments
  imports Dispatch_Rules
begin

text \<open>
  What the handlers read: from a request that holds the encodings of some arguments, each
  \<open>proto_read_\<close> function returns exactly these arguments. The contract of a reader is the
  locale \<open>argument_reader\<close>; it is interpreted on all of them.
\<close>

unbundle bit_operations_syntax

section \<open>A request with arguments still to be read\<close>

definition pending :: "'w Dispatcher \<Rightarrow> string \<Rightarrow> block \<Rightarrow> bool" where
  "pending s sig xs \<longleftrightarrow>
     (\<exists>q pre. req s = Ptr q \<and> egg_wf (buffer q) \<and> failures (buffer q) = 0 \<and>
        signature q \<noteq> None \<and> sigverify q = Some sig \<and>
        contents (buffer q) = pre @ xs \<and> unat (parsed q) = length pre)"

text \<open>Reading an argument that is there leaves the buffer as it is.\<close>

definition req_buffer :: "'w Dispatcher \<Rightarrow> EggBuffer option" where
  "req_buffer s = (case req s of Ptr q \<Rightarrow> Some (buffer q) | _ \<Rightarrow> None)"

lemma req_buffer_Ptr [simp]: "req s = Ptr q \<Longrightarrow> req_buffer s = Some (buffer q)"
  by (simp add: req_buffer_def)

lemma req_buffer_resp [simp]: "req_buffer (s\<lparr>resp := p\<rparr>) = req_buffer s"
  by (simp add: req_buffer_def)

lemma req_buffer_cong: "req s' = req s \<Longrightarrow> req_buffer s' = req_buffer s"
  by (simp add: req_buffer_def)

definition after_read :: "'w Dispatcher \<Rightarrow> string \<Rightarrow> block \<Rightarrow> 'w Dispatcher \<Rightarrow> bool" where
  "after_read s sig xs s' \<longleftrightarrow>
     pending s' sig xs \<and> conn s' = conn s \<and> resp s' = resp s \<and> sessions s' = sessions s \<and>
     pkcs11_dispatchers s' = pkcs11_dispatchers s \<and> world s' = world s \<and> req_buffer s' = req_buffer s"

lemma after_read_pending: "after_read s sig xs s' \<Longrightarrow> pending s' sig xs"
  by (simp add: after_read_def)

lemma after_read_refl: "pending s sig xs \<Longrightarrow> after_read s sig xs s"
  by (simp add: after_read_def)

lemma after_read_trans:
  "after_read s sig xs s1 \<Longrightarrow> after_read s1 sig' ys s2 \<Longrightarrow> after_read s sig' ys s2"
  by (simp add: after_read_def)

text \<open>Allocation never fails and leaves the outside state alone.\<close>

definition memory_ok :: "'w Env \<Rightarrow> bool" where
  "memory_ok E \<longleftrightarrow> (\<forall>n w. c_malloc E n w = (True, w))"

section \<open>Reading from the buffer\<close>

text \<open>A computation that ends with the value \<open>v\<close> and the request at \<open>sig\<close> and \<open>xs\<close>.\<close>

definition gives ::
  "((CK_RV + 'a) \<times> 'w Dispatcher) outcome \<Rightarrow> 'a \<Rightarrow> 'w Dispatcher \<Rightarrow> string \<Rightarrow> block \<Rightarrow> bool" where
  "gives F v s sig xs \<longleftrightarrow> (\<exists>s'. F = Ret (Inr v, s') \<and> after_read s sig xs s')"

lemma gives_Ret: "after_read s sig xs s' \<Longrightarrow> v = u \<Longrightarrow> gives (Ret (Inr v, s')) u s sig xs"
  by (auto simp: gives_def)

lemma gives_expect:
  assumes "pending s (part @ sig) xs" "\<And>s'. after_read s sig xs s' \<Longrightarrow> gives (k s') v s sig' ys"
  shows "gives (obind (req_expect part s) (\<lambda>(_, s). k s)) v s sig' ys"
proof -
  obtain s' where "req_expect part s = Ret ((), s')" "after_read s sig xs s'"
    using assms(1)
    by (auto simp: pending_def after_read_def conn_def req_expect_def on_req_def expect_part_eq)
  then show ?thesis using assms(2) by simp
qed

context buffer_codec
begin

lemma gives_get:
  assumes "after_read s sig (enc v @ rest) s1" "valid v"
    and "\<And>s'. after_read s sig rest s' \<Longrightarrow> gives (k (view v) s') u s sig ys"
  shows "gives (req_get get s1 k) u s sig ys"
proof -
  obtain q pre where q: "req s1 = Ptr q" "egg_wf (buffer q)" "signature q \<noteq> None" "sigverify q = Some sig"
    "contents (buffer q) = pre @ enc v @ rest" "unat (parsed q) = length pre" "failures (buffer q) = 0"
    using assms(1) by (auto simp: after_read_def pending_def)
  let ?q = "q\<lparr>parsed := parsed q + of_nat (length (enc v))\<rparr>"
  have "unat (parsed ?q) = length (pre @ enc v)"
    using egg_wf_off_add [OF q(2), of "parsed q" "length (enc v)"] q(5,6) by simp
  then have "after_read s sig rest (s1\<lparr>req := Ptr ?q\<rparr>)"
    using assms(1) q
    by (auto simp: after_read_def pending_def conn_def intro!: exI [of _ "pre @ enc v"])
  moreover have "req_get get s1 k = k (view v) (s1\<lparr>req := Ptr ?q\<rparr>)"
    using msg_get_enc [OF q(2) assms(2) q(5,6)] q(1) by (simp add: req_get_def on_req_def)
  ultimately show ?thesis using assms(3) by simp
qed

end

lemma gives_alloc:
  assumes "memory_ok E" "after_read s sig xs s1" "n \<le> 0x7fffffff"
    and "\<And>s'. after_read s sig xs s' \<Longrightarrow> gives (k (replicate (unat n) 0xff) s') u s sig ys"
  shows "gives (alloc_or_fail E s1 n k) u s sig ys"
proof -
  have "after_read s sig xs (s1\<lparr>allocated := n # allocated s1\<rparr>)"
    using assms(2) by (auto simp: after_read_def pending_def conn_def req_buffer_def)
  then show ?thesis
    using assms by (simp add: alloc_or_fail_def call_alloc_def memory_ok_def not_less [symmetric])
qed

section \<open>The contract of a reader\<close>

locale argument_reader =
  fixes part :: string
    and rd :: "('w, 'a) reader"
    and enc :: "'v \<Rightarrow> block"
    and view :: "'v \<Rightarrow> 'a"
    and valid :: "'v \<Rightarrow> bool"
  assumes read_gives: "pending s (part @ sig) (enc v @ rest) \<Longrightarrow> valid v \<Longrightarrow>
      gives (rd s) (view v) s sig rest"
begin

text \<open>In a handler: the macro goes on with the argument.\<close>

lemma IN_ARG_gives:
  assumes "after_read s (part @ sig) (enc v @ rest) s1" "valid v"
    and "\<And>s'. after_read s sig rest s' \<Longrightarrow> P (k (view v) s')"
  shows "P (IN_ARG rd s1 k)"
proof -
  obtain s' where "rd s1 = Ret (Inr (view v), s')" "after_read s1 sig rest s'"
    using read_gives [OF after_read_pending [OF assms(1)] assms(2)] by (auto simp: gives_def)
  then show ?thesis using assms(3) after_read_trans [OF assms(1)] by (simp add: IN_ARG_def)
qed

end

section \<open>Scalars\<close>

context msg_field
begin

lemma on_req_pending:
  assumes "pending s (part @ sig) (enc v @ rest)" "valid v"
  shows "\<exists>s'. on_req s rd = Ret (Some (view v), s') \<and> after_read s sig rest s'"
proof -
  obtain q pre where q: "req s = Ptr q" "egg_wf (buffer q)" "signature q \<noteq> None"
    "sigverify q = Some (part @ sig)" "contents (buffer q) = pre @ enc v @ rest"
    "unat (parsed q) = length pre" "failures (buffer q) = 0"
    using assms(1) by (auto simp: pending_def)
  let ?q = "q\<lparr>sigverify := Some sig, parsed := parsed q + of_nat (length (enc v))\<rparr>"
  have "unat (parsed ?q) = length (pre @ enc v)"
    using egg_wf_off_add [OF q(2), of "parsed q" "length (enc v)"] q(5,6) by simp
  then have "after_read s sig rest (s\<lparr>req := Ptr ?q\<rparr>)"
    using q by (auto simp: after_read_def pending_def conn_def intro!: exI [of _ "pre @ enc v"])
  moreover have "sig_next q part = Some (q\<lparr>sigverify := Some sig\<rparr>)"
    using q(3,4) by (auto simp: sig_next_def)
  then have "rd q = Ret (Some (view v), ?q)" using read_enc [OF _ q(2) assms(2) q(5,6)] by simp
  ultimately show ?thesis using q(1) by (auto simp: on_req_def)
qed

end

interpretation ulong_arg: argument_reader "''u''" read_ulong encode_uint64 "\<lambda>v. v" "\<lambda>_. True"
  by standard (use ulong_field.on_req_pending [OF _ TrueI] in \<open>fastforce simp: read_ulong_def gives_def\<close>)

interpretation byte_arg: argument_reader "''y''" read_byte "\<lambda>v. [v]" "\<lambda>v. v" "\<lambda>_. True"
  by standard (use byte_field.on_req_pending [OF _ TrueI] in \<open>fastforce simp: read_byte_def gives_def\<close>)

section \<open>Buffers and arrays\<close>

text \<open>
  An array argument as the client passes it: a pointer, possibly null, and the number of
  elements behind it.
\<close>

definition encode_byte_array_arg :: "block option \<times> CK_ULONG \<Rightarrow> block" where
  "encode_byte_array_arg v = encode_byte_array_field (fst v) (snd v)"

definition byte_array_arg_valid :: "block option \<times> CK_ULONG \<Rightarrow> bool" where
  "byte_array_arg_valid v \<longleftrightarrow>
     (case v of
        (None, n) \<Rightarrow> unat n < 2 ^ 32
      | (Some xs, n) \<Rightarrow> length xs = unat n \<and> unat n < 0x7fffffff)"

lemma ucast_u32:
  assumes "unat (n :: CK_ULONG) < 2 ^ 32"
  shows "unat (ucast n :: u32) = unat n" "ucast (ucast n :: u32) = n"
proof -
  show "unat (ucast n :: u32) = unat n"
    using assms by (simp add: unsigned_ucast_eq take_bit_nat_eq_self)
  then show "ucast (ucast n :: u32) = n" by (simp add: word_unat_eq_iff)
qed

interpretation byte_array_arg: argument_reader "''ay''" proto_read_byte_array encode_byte_array_arg
  "\<lambda>v. v" byte_array_arg_valid
proof
  fix s :: "'w Dispatcher" and sig v rest
  assume p: "pending s (''ay'' @ sig) (encode_byte_array_arg v @ rest)" and v: "byte_array_arg_valid v"
  obtain arr n where an: "v = (arr, n)" by (cases v)
  show "gives (proto_read_byte_array s) v s sig rest"
    unfolding proto_read_byte_array_def
  proof (rule gives_expect [OF p])
    fix s1 assume s1: "after_read s sig (encode_byte_array_arg v @ rest) s1"
    show "gives (req_get egg_buffer_get_byte s1 (\<lambda>valid s.
       if valid = 0 then
         req_get egg_buffer_get_uint32 s (\<lambda>n_size s. Ret (Inr (None, ucast n_size), s))
       else
         req_get egg_buffer_get_byte_array s (\<lambda>(data, n_data) s. Ret (Inr (data, n_data), s)))) v s sig rest"
    proof (cases arr)
      case None
      then have "after_read s sig ([0] @ egg_buffer_encode_uint32 (ucast n) @ rest) s1"
        using s1 an by (simp add: encode_byte_array_arg_def encode_byte_array_field_def)
      then show ?thesis
        using v an None
        by (auto intro!: byte_codec.gives_get uint32_codec.gives_get gives_Ret
            simp: byte_array_arg_valid_def ucast_u32)
    next
      case (Some xs)
      then have "after_read s sig ([1] @ encode_byte_array (Some xs) @ rest) s1"
        using s1 an v
        by (simp add: encode_byte_array_arg_def encode_byte_array_field_def byte_array_arg_valid_def)
      then show ?thesis
        using v an Some
        by (auto intro!: byte_codec.gives_get byte_array_codec.gives_get gives_Ret
            simp: byte_array_arg_valid_def byte_array_valid_def)
    qed
  qed
qed

text \<open>
  A buffer to be filled: whether there is room, and the count. The daemon allocates the
  room and fills it with \<open>0xff\<close>.
\<close>

definition encode_byte_buffer_arg :: "block option \<times> CK_ULONG option \<Rightarrow> block" where
  "encode_byte_buffer_arg v = encode_byte_buffer_field (fst v) (snd v)"

definition byte_buffer_arg_valid :: "block option \<times> CK_ULONG option \<Rightarrow> bool" where
  "byte_buffer_arg_valid v \<longleftrightarrow>
     (case snd v of
        None \<Rightarrow> True
      | Some n \<Rightarrow> if fst v = None then unat n < 2 ^ 32 else unat n \<le> 0x7fffffff)"

definition byte_buffer_arg_view :: "block option \<times> CK_ULONG option \<Rightarrow> block option \<times> CK_ULONG option" where
  "byte_buffer_arg_view v =
     (if fst v = None then None
      else Some (replicate (case snd v of None \<Rightarrow> 0 | Some n \<Rightarrow> unat n) 0xff), snd v)"

lemma byte_buffer_arg:
  fixes E :: "'w Env"
  assumes "memory_ok E"
  shows "argument_reader ''fy'' (proto_read_byte_buffer E) encode_byte_buffer_arg byte_buffer_arg_view
    byte_buffer_arg_valid"
proof
  fix s :: "'w Dispatcher" and sig v rest
  assume p: "pending s (''fy'' @ sig) (encode_byte_buffer_arg v @ rest)" and v: "byte_buffer_arg_valid v"
  obtain arr cp where ac: "v = (arr, cp)" by (cases v)
  define n :: u32 where "n = (case cp of None \<Rightarrow> 0 | Some n \<Rightarrow> ucast n)"
  define fl :: byte where "fl = (if arr = None then GCK_RPC_BYTE_BUFFER_NULL_DATA else 0) OR
      (if cp = None then GCK_RPC_BYTE_BUFFER_NULL_COUNT else 0)"
  have fl: "fl AND GCK_RPC_BYTE_BUFFER_NULL_COUNT = 0 \<longleftrightarrow> cp \<noteq> None"
    "fl AND GCK_RPC_BYTE_BUFFER_NULL_DATA = 0 \<longleftrightarrow> arr \<noteq> None"
    by (auto simp: fl_def)
  have n: "cp \<noteq> None \<longrightarrow> ucast n = the cp" "arr \<noteq> None \<longrightarrow> (ucast n :: size_t) \<le> 0x7fffffff"
    "arr \<noteq> None \<longrightarrow> unat n = (case cp of None \<Rightarrow> 0 | Some n \<Rightarrow> unat n)"
    using v ac by (auto simp: byte_buffer_arg_valid_def n_def ucast_u32 word_le_nat_alt split: option.splits if_splits)
  show "gives (proto_read_byte_buffer E s) (byte_buffer_arg_view v) s sig rest"
    unfolding proto_read_byte_buffer_def
  proof (rule gives_expect [OF p])
    fix s1 assume "after_read s sig (encode_byte_buffer_arg v @ rest) s1"
    then have "after_read s sig ([fl] @ egg_buffer_encode_uint32 n @ rest) s1"
      by (simp add: encode_byte_buffer_arg_def encode_byte_buffer_field_def fl_def n_def ac)
    then show "gives (req_get egg_buffer_get_byte s1 (\<lambda>flags s.
       req_get egg_buffer_get_uint32 s (\<lambda>n s.
       let n_buffer = (if flags AND GCK_RPC_BYTE_BUFFER_NULL_COUNT \<noteq> 0 then None
                     else Some (ucast n)) in
       if flags AND GCK_RPC_BYTE_BUFFER_NULL_DATA = 0 then
         alloc_or_fail E s (ucast n * 1) (\<lambda>p s. Ret (Inr (Some p, n_buffer), s))
       else Ret (Inr (None, n_buffer), s)))) (byte_buffer_arg_view v) s sig rest"
      using n ac fl
      by (cases cp; cases arr) (auto intro!: byte_codec.gives_get uint32_codec.gives_get
          gives_alloc [OF assms] gives_Ret simp: byte_buffer_arg_view_def Let_def)
  qed
qed

definition ulong_buffer_view :: "u32 \<Rightarrow> ulong_array \<times> CK_ULONG" where
  "ulong_buffer_view n =
     (if n = 0 then None else Some (replicate (unat n) (- 1)), ucast n)"

lemma ulong_buffer_arg:
  fixes E :: "'w Env"
  assumes "memory_ok E"
  shows "argument_reader ''fu'' (proto_read_ulong_buffer E) egg_buffer_encode_uint32 ulong_buffer_view
    (\<lambda>n. unat n * 8 \<le> 0x7fffffff)"
proof
  fix s :: "'w Dispatcher" and sig rest and n :: u32
  assume p: "pending s (''fu'' @ sig) (egg_buffer_encode_uint32 n @ rest)" and n: "unat n * 8 \<le> 0x7fffffff"
  have "unat (ucast n * 8 :: size_t) = unat n * 8"
    using n by (simp add: unat_word_ariths)
  then have "(ucast n * 8 :: size_t) \<le> 0x7fffffff" using n by (simp add: word_le_nat_alt)
  then show "gives (proto_read_ulong_buffer E s) (ulong_buffer_view n) s sig rest"
    unfolding proto_read_ulong_buffer_def
    by (intro gives_expect [OF p] uint32_codec.gives_get)
      (auto intro!: gives_alloc [OF assms] gives_Ret simp: ulong_buffer_view_def)
qed

section \<open>Mechanisms and strings\<close>

definition encode_mechanism :: "CK_MECHANISM \<Rightarrow> block" where
  "encode_mechanism mech =
     egg_buffer_encode_uint32 (ucast (mechanism mech)) @
     encode_byte_array (map_option (take (unat (ulParameterLen mech))) (pParameter mech))"

definition mechanism_valid :: "CK_MECHANISM \<Rightarrow> bool" where
  "mechanism_valid mech \<longleftrightarrow>
     unat (mechanism mech) < 2 ^ 32 \<and>
     (case pParameter mech of
        None \<Rightarrow> ulParameterLen mech = 0
      | Some xs \<Rightarrow> length xs = unat (ulParameterLen mech) \<and> length xs < 0x7fffffff)"

interpretation mechanism_arg: argument_reader "''M''" proto_read_mechanism encode_mechanism
  "\<lambda>v. v" mechanism_valid
proof
  fix s :: "'w Dispatcher" and sig v rest
  assume p: "pending s (''M'' @ sig) (encode_mechanism v @ rest)" and v: "mechanism_valid v"
  let ?p = "pParameter v"
  have e: "encode_mechanism v @ rest =
      egg_buffer_encode_uint32 (ucast (mechanism v)) @ encode_byte_array ?p @ rest"
    using v by (auto simp: encode_mechanism_def mechanism_valid_def split: option.splits)
  have w: "byte_array_valid ?p"
    "v = \<lparr>mechanism = ucast (ucast (mechanism v) :: u32), pParameter = ?p,
          ulParameterLen = of_nat (length (cells ?p))\<rparr>"
    using v by (auto simp: mechanism_valid_def byte_array_valid_def ucast_u32 split: option.splits)
  show "gives (proto_read_mechanism s) v s sig rest"
    unfolding proto_read_mechanism_def
    by (intro gives_expect [OF p [unfolded e]] uint32_codec.gives_get)
      (auto intro!: byte_array_codec.gives_get gives_Ret w(1) simp: w(2) [symmetric])
qed

lemma space_string_arg:
  fixes E :: "'w Env"
  assumes "memory_ok E"
  shows "argument_reader ''s'' (proto_read_space_string E n) (\<lambda>v. encode_byte_array (Some v)) (\<lambda>v. v)
    (\<lambda>v. length v < 0x7fffffff)"
proof
  fix s :: "'w Dispatcher" and sig v rest
  assume p: "pending s (''s'' @ sig) (encode_byte_array (Some v) @ rest)" and v: "length v < 0x7fffffff"
  have l: "unat (of_nat (length v) :: size_t) = length v"
    using v by (simp add: unat_of_nat take_bit_nat_eq_self)
  then have le: "of_nat (length v) \<le> (0x7fffffff :: size_t)" using v by (simp add: word_le_nat_alt)
  have w: "mem_write (Some (replicate (length v) 0xff)) 0 v = Ret (Some v)" by simp
  show "gives (proto_read_space_string E n s) v s sig rest"
    unfolding proto_read_space_string_def
    by (intro gives_expect [OF p] byte_array_codec.gives_get)
      (auto intro!: gives_alloc [OF assms] gives_Ret simp: byte_array_valid_def v l le w mem_read_cells)
qed

section \<open>Attributes\<close>

lemma gives_bind:
  assumes "gives F v s sig xs" "\<And>s'. after_read s sig xs s' \<Longrightarrow> gives (k v s') u s sig' ys"
  shows "gives (obind F (\<lambda>(r, s). case r of Inl e \<Rightarrow> Ret (Inl e, s) | Inr a \<Rightarrow> k a s)) u s sig' ys"
  using assms by (auto simp: gives_def)

lemma gives_map:
  assumes "gives F v s sig xs" "f v = u"
  shows "gives (obind F (\<lambda>(r, s). Ret (map_sum id f r, s))) u s sig xs"
  using assms by (auto simp: gives_def)

text \<open>
  An attribute with a value of the stated length, without a value, or marked as
  unavailable by the length \<open>-1\<close>.
\<close>

definition attr_wire :: "CK_ATTRIBUTE \<Rightarrow> bool" where
  "attr_wire a \<longleftrightarrow>
     unat (attr_type a) < 2 ^ 32 \<and>
     (case pValue a of
        None \<Rightarrow> ulValueLen a = - 1 \<or> unat (ulValueLen a) < 2 ^ 32
      | Some xs \<Rightarrow> length xs = unat (ulValueLen a) \<and> length xs < 0x7fffffff)"

lemma attr_wire_encode:
  assumes "attr_wire a" "ulValueLen a \<noteq> - 1"
  shows "encode_attribute a @ xs =
    egg_buffer_encode_uint32 (ucast (attr_type a)) @ [1] @
    egg_buffer_encode_uint32 (ucast (ulValueLen a)) @ encode_byte_array (pValue a) @ xs"
  using assms by (auto simp: encode_attribute_def attr_wire_def split: option.splits)

lemma attr_wire_len:
  assumes "attr_wire a"
  shows "ulValueLen a = - 1 \<longrightarrow> pValue a = None"
    "ulValueLen a \<noteq> - 1 \<longrightarrow> unat (ulValueLen a) < 2 ^ 32"
    "pValue a \<noteq> None \<longrightarrow> of_nat (length (cells (pValue a))) = ulValueLen a"
    "byte_array_valid (pValue a)"
  using assms by (auto simp: attr_wire_def byte_array_valid_def unsigned_minus_1_eq_mask mask_eq_exp_minus_1 split: option.splits)

lemma read_attributes_gives:
  assumes "list_all attr_wire as" "after_read s sig (concat (map encode_attribute as) @ rest) s1"
  shows "gives (read_attributes (length as) s1) as s sig rest"
  using assms
proof (induction as arbitrary: s1)
  case Nil
  then show ?case by (simp add: gives_Ret)
next
  case (Cons a as)
  have a: "attr_wire a" "list_all attr_wire as" using Cons.prems(1) by auto
  note w = attr_wire_len [OF a(1)]
  have t: "ucast (ucast (attr_type a) :: u32) = attr_type a" using a(1) by (simp add: attr_wire_def ucast_u32)
  let ?xs = "concat (map encode_attribute as) @ rest"
  have s1: "after_read s sig (encode_attribute a @ ?xs) s1" using Cons.prems(2) by simp
  have "gives (obind (read_attributes (length as) s') (\<lambda>(r, s). Ret (map_sum id (\<lambda>as. a # as) r, s)))
      (a # as) s sig rest" if "after_read s sig ?xs s'" for s'
    by (rule gives_map [OF Cons.IH [OF a(2) that]]) simp
  note rest = gives_bind [where k = "\<lambda>a s. obind (read_attributes (length as) s) (\<lambda>(r, s). Ret (map_sum id (\<lambda>as. a # as) r, s))",
      OF _ this]
  show ?case
  proof (cases "ulValueLen a = - 1")
    case True
    then have "\<lparr>attr_type = attr_type a, pValue = None, ulValueLen = - 1\<rparr> = a" using w(1) by simp
    moreover have "after_read s sig (egg_buffer_encode_uint32 (ucast (attr_type a)) @ [0] @ ?xs) s1"
      using s1 True by (simp add: encode_attribute_def)
    ultimately show ?thesis
      by (auto intro!: uint32_codec.gives_get byte_codec.gives_get rest gives_Ret simp: t)
  next
    case False
    have l: "ucast (ucast (ulValueLen a) :: u32) = ulValueLen a" using w(2) False by (simp add: ucast_u32)
    then have l8: "ucast (ulValueLen a) = (8 :: u32) \<Longrightarrow> ulValueLen a = 8" by auto
    show ?thesis
      unfolding length_Cons read_attributes.simps
      by (rule uint32_codec.gives_get [OF s1 [unfolded attr_wire_encode [OF a(1) False]] TrueI],
          rule byte_codec.gives_get, assumption, rule TrueI,
          simp only: one_neq_zero simp_thms if_True, rule rest,
          rule uint32_codec.gives_get, assumption, rule TrueI,
          rule byte_array_codec.gives_get, assumption, rule w(4))
        (use w(3) l8 in \<open>auto simp: t l intro!: gives_Ret\<close>)
  qed
qed

definition encode_attributes_arg :: "CK_ATTRIBUTE list \<Rightarrow> block" where
  "encode_attributes_arg as = encode_attribute_array_field (Some as) (of_nat (length as))"

definition attributes_view :: "CK_ATTRIBUTE list \<Rightarrow> attr_array \<times> CK_ULONG" where
  "attributes_view as = (if as = [] then None else Some as, of_nat (length as))"

definition attributes_arg_valid :: "CK_ATTRIBUTE list \<Rightarrow> bool" where
  "attributes_arg_valid as \<longleftrightarrow> list_all attr_wire as \<and> length as * 24 \<le> 0x7fffffff"

lemma count_u32:
  assumes "k * 24 \<le> 0x7fffffff"
  shows "unat (of_nat k :: u32) = k" "ucast (of_nat k :: u32) = (of_nat k :: size_t)"
    "ucast (of_nat k :: size_t) = (of_nat k :: u32)" "unat (of_nat k :: size_t) = k"
    "of_nat k * 24 \<le> (0x7fffffff :: size_t)" "(of_nat k :: u32) = 0 \<longleftrightarrow> k = 0"
proof -
  have k: "k < 2 ^ 32" "k < 2 ^ 64" using assms by auto
  then show u: "unat (of_nat k :: u32) = k" "unat (of_nat k :: size_t) = k"
    by (simp_all add: unat_of_nat take_bit_nat_eq_self)
  show c: "ucast (of_nat k :: u32) = (of_nat k :: size_t)" using u by (simp add: word_unat_eq_iff)
  show "ucast (of_nat k :: size_t) = (of_nat k :: u32)" using ucast_u32(1) [of "of_nat k"] u k by (simp add: word_unat_eq_iff)
  have "unat (of_nat k * 24 :: size_t) = k * 24" using u assms by (simp add: unat_word_ariths)
  then show "of_nat k * 24 \<le> (0x7fffffff :: size_t)" using assms by (simp add: word_le_nat_alt)
  show "(of_nat k :: u32) = 0 \<longleftrightarrow> k = 0" using u(1) by (metis unat_0 unat_eq_zero)
qed

lemma attribute_array_arg:
  fixes E :: "'w Env"
  assumes "memory_ok E"
  shows "argument_reader ''aA'' (proto_read_attribute_array E) encode_attributes_arg attributes_view
    attributes_arg_valid"
proof
  fix s :: "'w Dispatcher" and sig as rest
  assume p: "pending s (''aA'' @ sig) (encode_attributes_arg as @ rest)" and v: "attributes_arg_valid as"
  have w: "list_all attr_wire as" "length as * 24 \<le> 0x7fffffff" using v by (auto simp: attributes_arg_valid_def)
  note c = count_u32 [OF w(2)]
  have e: "encode_attributes_arg as @ rest =
      egg_buffer_encode_uint32 (of_nat (length as)) @ concat (map encode_attribute as) @ rest"
    by (simp add: encode_attributes_arg_def encode_attribute_array_field_def c)
  show "gives (proto_read_attribute_array E s) (attributes_view as) s sig rest"
    unfolding proto_read_attribute_array_def
  proof (rule gives_expect [OF p [unfolded e]], rule uint32_codec.gives_get, assumption, rule TrueI)
    fix s' assume s': "after_read s sig (concat (map encode_attribute as) @ rest) s'"
    show "gives (if (of_nat (length as) :: u32) = 0 then Ret (Inr (None, ucast (of_nat (length as) :: u32)), s')
        else alloc_or_fail E s' (ucast (of_nat (length as) :: u32) * 24) (\<lambda>_ s.
          obind (read_attributes (unat (of_nat (length as) :: u32)) s) (\<lambda>(r, s).
          Ret (map_sum id (\<lambda>as'. (Some as', ucast (of_nat (length as) :: u32))) r, s))))
        (attributes_view as) s sig rest"
      using s' c w(1)
      by (cases "as = []") (auto intro!: gives_Ret gives_alloc [OF assms] gives_map read_attributes_gives
          simp: attributes_view_def)
  qed
qed

text \<open>Attribute buffers: of each attribute only its type and the room for its value.\<close>

definition attr_buffer_wire :: "CK_ATTRIBUTE \<Rightarrow> bool" where
  "attr_buffer_wire a \<longleftrightarrow>
     unat (attr_type a) < 2 ^ 32 \<and> (pValue a \<noteq> None \<longrightarrow> unat (ulValueLen a) \<le> 0x7fffffff)"

definition attr_buffer_view :: "CK_ATTRIBUTE \<Rightarrow> CK_ATTRIBUTE" where
  "attr_buffer_view a =
     (let n = (if pValue a = None then 0 else ulValueLen a) in
      \<lparr>attr_type = attr_type a, pValue = (if n = 0 then None else Some (replicate (unat n) 0xff)),
       ulValueLen = n\<rparr>)"

lemma read_attribute_buffers_gives:
  assumes m: "memory_ok E" and "list_all attr_buffer_wire as"
    and "after_read s sig (concat (map encode_attribute_buffer as) @ rest) s1"
  shows "gives (read_attribute_buffers E (length as) s1) (map attr_buffer_view as) s sig rest"
  using assms(2,3)
proof (induction as arbitrary: s1)
  case Nil
  then show ?case by (simp add: gives_Ret)
next
  case (Cons a as)
  have a: "attr_buffer_wire a" "list_all attr_buffer_wire as" using Cons.prems(1) by auto
  have t: "ucast (ucast (attr_type a) :: u32) = attr_type a" using a(1) by (simp add: attr_buffer_wire_def ucast_u32)
  define n where "n = (if pValue a = None then 0 else ulValueLen a)"
  have n: "unat n \<le> 0x7fffffff" using a(1) by (auto simp: n_def attr_buffer_wire_def)
  then have l: "ucast (ucast n :: u32) = n" by (simp add: ucast_u32)
  then have l0: "(ucast n :: u32) = 0 \<longleftrightarrow> n = 0" by auto
  let ?xs = "concat (map encode_attribute_buffer as) @ rest"
  have s1: "after_read s sig (egg_buffer_encode_uint32 (ucast (attr_type a)) @
      egg_buffer_encode_uint32 (ucast n) @ ?xs) s1"
    using Cons.prems(2) by (auto simp: encode_attribute_buffer_def [of a] n_def split: if_splits)
  have "gives (obind (read_attribute_buffers E (length as) s') (\<lambda>(r, s). Ret (map_sum id (\<lambda>as'. attr_buffer_view a # as') r, s)))
      (map attr_buffer_view (a # as)) s sig rest" if "after_read s sig ?xs s'" for s'
    by (rule gives_map [OF Cons.IH [OF a(2) that]]) simp
  note rest = gives_bind [where k = "\<lambda>a s. obind (read_attribute_buffers E (length as) s) (\<lambda>(r, s). Ret (map_sum id (\<lambda>as. a # as) r, s))",
      OF _ this]
  show ?case
    unfolding length_Cons read_attribute_buffers.simps
    by (rule uint32_codec.gives_get [OF s1 TrueI], rule uint32_codec.gives_get, assumption, rule TrueI,
        rule rest)
      (use n in \<open>auto intro!: gives_Ret gives_alloc [OF m] simp: t l l0 attr_buffer_view_def n_def [symmetric]
          word_le_nat_alt Let_def\<close>)
qed

definition encode_attribute_buffer_arg :: "CK_ATTRIBUTE list \<Rightarrow> block" where
  "encode_attribute_buffer_arg as = encode_attribute_buffer_field (Some as) (of_nat (length as))"

lemma attribute_buffer_arg:
  fixes E :: "'w Env"
  assumes "memory_ok E"
  shows "argument_reader ''fA'' (proto_read_attribute_buffer E) encode_attribute_buffer_arg
    (\<lambda>as. (Some (map attr_buffer_view as), of_nat (length as)))
    (\<lambda>as. list_all attr_buffer_wire as \<and> length as * 24 \<le> 0x7fffffff)"
proof
  fix s :: "'w Dispatcher" and sig as rest
  assume p: "pending s (''fA'' @ sig) (encode_attribute_buffer_arg as @ rest)"
    and w: "list_all attr_buffer_wire as \<and> length as * 24 \<le> 0x7fffffff"
  note c = count_u32 [OF conjunct2 [OF w]]
  have e: "encode_attribute_buffer_arg as @ rest =
      egg_buffer_encode_uint32 (of_nat (length as)) @ concat (map encode_attribute_buffer as) @ rest"
    by (simp add: encode_attribute_buffer_arg_def encode_attribute_buffer_field_def c)
  show "gives (proto_read_attribute_buffer E s) (Some (map attr_buffer_view as), of_nat (length as)) s sig rest"
    unfolding proto_read_attribute_buffer_def
    by (rule gives_expect [OF p [unfolded e]], rule uint32_codec.gives_get, assumption, rule TrueI)
      (use c w in \<open>auto intro!: gives_alloc [OF assms] gives_map read_attribute_buffers_gives [OF assms]\<close>)
qed

end
