(* ===== verification/Session_Table.thy ===== *)
theory Session_Table
  imports Dispatch_Safety "HOL-Library.Multiset"
begin

text \<open>
  The table of the sessions a connection has opened (\<open>cs->sessions\<close>). Abstractly it is the
  multiset of the open sessions with their slots; the loops of the session handlers implement
  insertion, removal and closing on it.
\<close>

section \<open>Abstraction\<close>

definition opened :: "SessionState list \<Rightarrow> (CK_ULONG \<times> CK_ULONG) multiset" where
  "opened ss = mset (map (\<lambda>x. (sess_id x, sess_slot x)) (filter (\<lambda>x. sess_id x \<noteq> 0) ss))"

definition table_full :: "SessionState list \<Rightarrow> bool" where
  "table_full ss \<longleftrightarrow> list_all (\<lambda>x. sess_id x \<noteq> 0) ss"

lemma opened_Nil [simp]: "opened [] = {#}"
  by (simp add: opened_def)

lemma opened_Cons [simp]:
  "opened (x # ss) =
     (if sess_id x \<noteq> 0 then add_mset (sess_id x, sess_slot x) (opened ss) else opened ss)"
  by (simp add: opened_def)

lemma table_full_simps [simp]:
  "table_full []" "table_full (x # ss) \<longleftrightarrow> sess_id x \<noteq> 0 \<and> table_full ss"
  by (simp_all add: table_full_def)

lemma opened_nonzero: "(0, sl) \<notin># opened ss"
  by (induction ss) auto

lemma size_opened_le: "size (opened ss) \<le> length ss"
  by (induction ss) auto

lemma table_full_size: "table_full ss \<longleftrightarrow> size (opened ss) = length ss"
proof (induction ss)
  case (Cons x ss)
  then show ?case using size_opened_le [of ss] by auto
qed simp

section \<open>The interface\<close>

text \<open>
  A table of bounded size: \<open>store\<close> refuses only when the table is full, \<open>remove\<close> takes out one
  session of the given handle.
\<close>

locale session_store =
  fixes abs :: "'t \<Rightarrow> (CK_ULONG \<times> CK_ULONG) multiset"
    and full :: "'t \<Rightarrow> bool"
    and store :: "'t \<Rightarrow> CK_ULONG \<Rightarrow> CK_ULONG \<Rightarrow> 't option"
    and remove :: "'t \<Rightarrow> CK_ULONG \<Rightarrow> 't"
  assumes store_full: "store t h sl = None \<longleftrightarrow> full t"
    and store_adds: "store t h sl = Some t' \<Longrightarrow> h \<noteq> 0 \<Longrightarrow> abs t' = add_mset (h, sl) (abs t)"
    and remove_known: "(h, sl) \<in># abs t \<Longrightarrow>
          \<exists>sl'. (h, sl') \<in># abs t \<and> abs (remove t h) = abs t - {#(h, sl')#}"
    and remove_unknown: "(\<And>sl. (h, sl) \<notin># abs t) \<Longrightarrow> abs (remove t h) = abs t"
begin

lemma remove_others:
  assumes "h' \<noteq> h"
  shows "(h', sl) \<in># abs (remove t h) \<longleftrightarrow> (h', sl) \<in># abs t"
proof (cases "\<exists>sl. (h, sl) \<in># abs t")
  case True
  then obtain sl' where "abs (remove t h) = abs t - {#(h, sl')#}" using remove_known by blast
  then show ?thesis using assms by (simp add: in_diff_count)
next
  case False
  then show ?thesis using remove_unknown by auto
qed

text \<open>A session that is opened under a new handle and closed again leaves no trace.\<close>

lemma remove_stored:
  assumes "store t h sl = Some t'" "h \<noteq> 0" "\<And>sl'. (h, sl') \<notin># abs t"
  shows "abs (remove t' h) = abs t"
proof -
  have t': "abs t' = add_mset (h, sl) (abs t)" using store_adds [OF assms(1,2)] .
  then obtain sl' where "(h, sl') \<in># abs t'" "abs (remove t' h) = abs t' - {#(h, sl')#}"
    using remove_known [of h sl t'] by auto
  then show ?thesis using t' assms(3) by auto
qed

end

lemma store_session_None: "store_session ss h sl = None \<longleftrightarrow> table_full ss"
  by (induction ss) auto

lemma store_session_opened:
  "store_session ss h sl = Some ss' \<Longrightarrow> h \<noteq> 0 \<Longrightarrow> opened ss' = add_mset (h, sl) (opened ss)"
  by (induction ss arbitrary: ss') (auto split: if_splits)

lemma remove_session_unknown: "(\<And>sl. (h, sl) \<notin># opened ss) \<Longrightarrow> opened (remove_session ss h) = opened ss"
proof (induction ss)
  case (Cons x ss)
  then show ?case by (cases "sess_id x = 0") (auto split: if_splits)
qed simp

lemma remove_session_known:
  "(h, sl) \<in># opened ss \<Longrightarrow>
   \<exists>sl'. (h, sl') \<in># opened ss \<and> opened (remove_session ss h) = opened ss - {#(h, sl')#}"
proof (induction ss)
  case (Cons x ss)
  show ?case
  proof (cases "sess_id x = h")
    case True
    then show ?thesis using Cons.prems opened_nonzero [of sl "x # ss"]
      by (intro exI [of _ "sess_slot x"]) (auto split: if_splits)
  next
    case False
    then have "(h, sl) \<in># opened ss" using Cons.prems by (auto split: if_splits)
    then obtain sl' where "(h, sl') \<in># opened ss" "opened (remove_session ss h) = opened ss - {#(h, sl')#}"
      using Cons.IH by blast
    then show ?thesis using False by (intro exI [of _ sl']) (auto split: if_splits)
  qed
qed simp

interpretation session_table: session_store opened table_full store_session remove_session
  by unfold_locales
    (simp_all add: store_session_None store_session_opened remove_session_known remove_session_unknown)

section \<open>Closing\<close>

text \<open>
  The module after the sessions of a list have been closed in turn, with the first return
  value that is not \<open>CKR_OK\<close> and the sessions closed before it.
\<close>

fun close_in_turn ::
  "(CK_ULONG \<Rightarrow> ('w, unit) ck_call) \<Rightarrow> CK_ULONG list \<Rightarrow> 'w \<Rightarrow> CK_RV \<times> CK_ULONG list \<times> 'w" where
  "close_in_turn f [] w = (CKR_OK, [], w)"
| "close_in_turn f (h # hs) w =
     (case f h w of (ret, _, w) \<Rightarrow>
        if ret \<noteq> CKR_OK then (ret, [], w)
        else case close_in_turn f hs w of (ret, closed, w) \<Rightarrow> (ret, h # closed, w))"

definition handles :: "SessionState list \<Rightarrow> CK_ULONG list" where
  "handles ss = filter (\<lambda>h. h \<noteq> 0) (map sess_id ss)"

definition slot_handles :: "CK_ULONG \<Rightarrow> SessionState list \<Rightarrow> CK_ULONG list" where
  "slot_handles sl ss = handles (filter (\<lambda>x. sess_slot x = sl) ss)"

lemma handles_simps [simp]:
  "handles [] = []"
  "handles (x # ss) = (if sess_id x \<noteq> 0 then sess_id x # handles ss else handles ss)"
  by (simp_all add: handles_def)

lemma slot_handles_simps [simp]:
  "slot_handles sl [] = []"
  "slot_handles sl (x # ss) =
     (if sess_id x \<noteq> 0 \<and> sess_slot x = sl then sess_id x # slot_handles sl ss else slot_handles sl ss)"
  by (simp_all add: slot_handles_def)

lemma handles_opened: "mset (handles ss) = image_mset fst (opened ss)"
  by (induction ss) auto

lemma close_sessions_spec:
  "\<exists>ss'. close_sessions (Some f) ss w =
      (case close_in_turn f (handles ss) w of (ret, closed, w') \<Rightarrow> Ret (ret, ss', w')) \<and>
    handles ss = fst (snd (close_in_turn f (handles ss) w)) @ handles ss' \<and>
    (fst (close_in_turn f (handles ss) w) = CKR_OK \<longrightarrow> opened ss' = {#})"
proof (induction ss arbitrary: w)
  case (Cons x ss)
  obtain ret u w1 where f: "f (sess_id x) w = (ret, u, w1)" by (metis prod.exhaust)
  show ?case
  proof (cases "sess_id x = 0")
    case True
    obtain ss' where "close_sessions (Some f) ss w =
      (case close_in_turn f (handles ss) w of (ret, closed, w') \<Rightarrow> Ret (ret, ss', w')) \<and>
      handles ss = fst (snd (close_in_turn f (handles ss) w)) @ handles ss' \<and>
      (fst (close_in_turn f (handles ss) w) = CKR_OK \<longrightarrow> opened ss' = {#})"
      using Cons by blast
    then show ?thesis using True by (intro exI [of _ "x # ss'"]) (auto split: prod.splits)
  next
    case False
    obtain ss' where "close_sessions (Some f) ss w1 =
      (case close_in_turn f (handles ss) w1 of (ret, closed, w') \<Rightarrow> Ret (ret, ss', w')) \<and>
      handles ss = fst (snd (close_in_turn f (handles ss) w1)) @ handles ss' \<and>
      (fst (close_in_turn f (handles ss) w1) = CKR_OK \<longrightarrow> opened ss' = {#})"
      using Cons by blast
    then show ?thesis using False f
      by (intro exI [of _ "if ret = CKR_OK then x\<lparr>sess_id := 0\<rparr> # ss' else x # ss"]) (auto split: prod.splits)
  qed
qed simp

lemma close_slot_sessions_spec:
  assumes "close_slot_sessions (Some f) sl ss w = Ret (ret, ss', w')"
  shows "(case close_in_turn f (slot_handles sl ss) w of (ret', _, w'') \<Rightarrow> ret = ret' \<and> w' = w'')"
    and "filter_mset (\<lambda>(h, sl'). sl' \<noteq> sl) (opened ss') = filter_mset (\<lambda>(h, sl'). sl' \<noteq> sl) (opened ss)"
    and "ret = CKR_OK \<Longrightarrow> opened ss' = filter_mset (\<lambda>(h, sl'). sl' \<noteq> sl) (opened ss)"
proof -
  have "(case close_in_turn f (slot_handles sl ss) w of (ret', _, w'') \<Rightarrow> ret = ret' \<and> w' = w'') \<and>
    filter_mset (\<lambda>(h, sl'). sl' \<noteq> sl) (opened ss') = filter_mset (\<lambda>(h, sl'). sl' \<noteq> sl) (opened ss) \<and>
    (ret = CKR_OK \<longrightarrow> opened ss' = filter_mset (\<lambda>(h, sl'). sl' \<noteq> sl) (opened ss))"
    using assms
  proof (induction ss arbitrary: w ret ss' w')
    case (Cons x ss)
    obtain r u w1 where f: "f (sess_id x) w = (r, u, w1)" by (metis prod.exhaust)
    show ?case
    proof (cases "sess_id x \<noteq> 0 \<and> sess_slot x = sl \<and> r \<noteq> CKR_OK")
      case True
      then show ?thesis using Cons.prems f by (auto simp: Let_def split: if_splits)
    next
      case False
      then obtain ss1 where "ss' = (if sess_slot x = sl then x\<lparr>sess_id := 0\<rparr> else x) # ss1"
        "close_slot_sessions (Some f) sl ss (if sess_id x \<noteq> 0 \<and> sess_slot x = sl then w1 else w) = Ret (ret, ss1, w')"
        using Cons.prems f by (auto simp: obind_eq_Ret Let_def split: if_splits)
      then show ?thesis using Cons.IH f False by (force split: prod.splits if_splits)
    qed
  qed simp
  then show "(case close_in_turn f (slot_handles sl ss) w of (ret', _, w'') \<Rightarrow> ret = ret' \<and> w' = w'')"
    and "filter_mset (\<lambda>(h, sl'). sl' \<noteq> sl) (opened ss') = filter_mset (\<lambda>(h, sl'). sl' \<noteq> sl) (opened ss)"
    and "ret = CKR_OK \<Longrightarrow> opened ss' = filter_mset (\<lambda>(h, sl'). sl' \<noteq> sl) (opened ss)"
    by auto
qed

end
