(* ===== verification/Dispatch_Transparency.thy ===== *)
theory Dispatch_Transparency
  imports Dispatch_Arguments Session_Table
begin

text \<open>
  The daemon is transparent: a handler calls the module's function with exactly the arguments
  the request encodes, returns its return value, and puts the encoding of its results into the
  response.
\<close>

section \<open>What it means to answer a call\<close>

definition response_gained :: "'w Dispatcher \<Rightarrow> block \<Rightarrow> 'w Dispatcher \<Rightarrow> bool" where
  "response_gained s xs s' \<longleftrightarrow>
     (\<exists>r r'. resp s = Ptr r \<and> resp s' = Ptr r' \<and> contents (buffer r') = contents (buffer r) @ xs \<and>
        failures (buffer r') = failures (buffer r) \<and> (roomy (buffer r) \<longrightarrow> roomy (buffer r')))"

definition response_failed :: "'w Dispatcher \<Rightarrow> bool" where
  "response_failed s \<longleftrightarrow> (\<exists>r. resp s = Ptr r \<and> failures (buffer r) > 0)"

text \<open>The response takes \<open>k\<close> more bytes.\<close>

definition response_room :: "'w Dispatcher \<Rightarrow> nat \<Rightarrow> bool" where
  "response_room s k \<longleftrightarrow> (\<exists>r. resp s = Ptr r \<and> spacious (buffer r) k \<and> failures (buffer r) = 0)"

definition req_sound :: "'w Dispatcher \<Rightarrow> bool" where
  "req_sound s \<longleftrightarrow> (\<exists>q. req s = Ptr q \<and> failures (buffer q) = 0)"

text \<open>
  \<open>F\<close> is the call of the module with its arguments; \<open>out\<close> gives, from its return value and
  results, the bytes of the response (none for a call that has failed or returns nothing). The
  only other end is that the response could not grow.
\<close>

definition answered ::
  "'w Dispatcher \<Rightarrow> ('w, 'a) ck_call \<Rightarrow> (CK_RV \<Rightarrow> 'a \<Rightarrow> block option) \<Rightarrow> 'w finish \<Rightarrow> bool" where
  "answered s F out res \<longleftrightarrow>
     (case F (world s) of (ret, x, w) \<Rightarrow>
        \<exists>ret' s'. res = Ret (ret', s') \<and> world s' = w \<and> sessions s' = sessions s \<and> conn s' = conn s \<and>
          req_sound s' \<and> req_buffer s' = req_buffer s \<and>
          (case out ret x of
             None \<Rightarrow> ret' = ret \<and> resp s' = resp s
           | Some xs \<Rightarrow> ret' = CKR_OK \<and> response_gained s xs s' \<or>
                        ret' = PREP_ERROR \<and> response_failed s' \<and> \<not> response_room s (length xs)))"

definition no_results :: "CK_RV \<Rightarrow> 'a \<Rightarrow> block option" where
  "no_results ret x = None"

definition if_ok :: "('a \<Rightarrow> block) \<Rightarrow> CK_RV \<Rightarrow> 'a \<Rightarrow> block option" where
  "if_ok enc ret x = (if ret = CKR_OK then Some (enc x) else None)"

text \<open>On \<open>CKR_BUFFER_TOO_SMALL\<close> the response carries the length that is needed, and no data.\<close>

definition bytes_result :: "CK_RV \<Rightarrow> block option \<times> CK_ULONG option \<Rightarrow> block option" where
  "bytes_result ret x =
     (let n = (case snd x of None \<Rightarrow> 0 | Some k \<Rightarrow> k) in
      if ret = CKR_OK then Some (encode_byte_array_field (fst x) n)
      else if ret = CKR_BUFFER_TOO_SMALL then Some (encode_byte_array_field None n)
      else None)"

definition ulongs_result :: "CK_RV \<Rightarrow> ulong_array \<times> CK_ULONG \<Rightarrow> block option" where
  "ulongs_result ret x =
     (if ret = CKR_OK then Some (encode_ulong_array_field (fst x) (snd x))
      else if ret = CKR_BUFFER_TOO_SMALL then Some (encode_ulong_array_field None (snd x))
      else None)"

text \<open>The response that waits for the fields of \<open>sig\<close>.\<close>

definition replying :: "'w Dispatcher \<Rightarrow> string \<Rightarrow> bool" where
  "replying s sig \<longleftrightarrow>
     (\<exists>r. resp s = Ptr r \<and> egg_wf (buffer r) \<and> signature r \<noteq> None \<and> sigverify r = Some sig)"

text \<open>\<open>f\<close> appends \<open>xs\<close>, the encoding of the fields of \<open>part\<close>.\<close>

definition encodes ::
  "(GckRpcMessage \<Rightarrow> (bool \<times> GckRpcMessage) outcome) \<Rightarrow> string \<Rightarrow> block \<Rightarrow> bool" where
  "encodes f part xs \<longleftrightarrow>
     (\<forall>m rest. egg_wf (buffer m) \<longrightarrow> signature m \<noteq> None \<longrightarrow> sigverify m = Some (part @ rest) \<longrightarrow>
        wp (f m) (\<lambda>(ok, m'). egg_out (buffer m) xs ok (buffer m') \<and> signature m' = signature m \<and>
          (ok \<longrightarrow> sigverify m' = Some rest)))"

lemma encodesD:
  "encodes f part xs \<Longrightarrow> egg_wf (buffer m) \<Longrightarrow> signature m \<noteq> None \<Longrightarrow> sigverify m = Some (part @ rest) \<Longrightarrow>
   wp (f m) (\<lambda>(ok, m'). egg_out (buffer m) xs ok (buffer m') \<and> signature m' = signature m \<and>
     (ok \<longrightarrow> sigverify m' = Some rest))"
  by (simp add: encodes_def)

lemma encodes_field:
  assumes "\<And>m m1. sig_next m part = Some m1 \<Longrightarrow> egg_wf (buffer m) \<Longrightarrow> wp (f m) (field_written m part xs P)"
  shows "encodes f part xs"
  unfolding encodes_def
proof (intro allI impI)
  fix m :: GckRpcMessage and rest assume m: "egg_wf (buffer m)" "signature m \<noteq> None" "sigverify m = Some (part @ rest)"
  then have n: "sig_next m part = Some (m\<lparr>sigverify := Some rest\<rparr>)" by auto
  have "case r of (ok, m') \<Rightarrow> egg_out (buffer m) xs ok (buffer m') \<and> signature m' = signature m \<and>
      (ok \<longrightarrow> sigverify m' = Some rest)"
    if f: "field_written m part xs P r" for r
  proof (cases r)
    case (Pair ok m')
    then have m': "m' = m\<lparr>sigverify := Some rest, buffer := buffer m'\<rparr>"
      and "egg_out (buffer m) xs ok (buffer m')" using f n by (auto simp: field_written_def)
    moreover have "signature m' = signature m" "sigverify m' = Some rest" by (subst m', simp)+
    ultimately show ?thesis using Pair by simp
  qed
  then show "wp (f m) (\<lambda>(ok, m'). egg_out (buffer m) xs ok (buffer m') \<and> signature m' = signature m \<and>
      (ok \<longrightarrow> sigverify m' = Some rest))"
    by (intro wp_mono [OF assms [OF n m(1)]])
qed

lemma encodes_nil: "encodes (put_fields []) [] []"
  by (simp add: encodes_def egg_out_def)

lemma encodes_cons:
  assumes f: "encodes f p xs" and fs: "encodes (put_fields fs) ps ys"
  shows "encodes (put_fields (f # fs)) (p @ ps) (xs @ ys)"
  unfolding encodes_def
proof (intro allI impI)
  fix m :: GckRpcMessage and rest assume m: "egg_wf (buffer m)" "signature m \<noteq> None" "sigverify m = Some ((p @ ps) @ rest)"
  obtain ok m1 where 1: "f m = Ret (ok, m1)" "egg_out (buffer m) xs ok (buffer m1)"
    "signature m1 = signature m" "ok \<longrightarrow> sigverify m1 = Some (ps @ rest)"
    using encodesD [OF f m(1,2), of "ps @ rest"] m(3) by (auto simp: wp_iff)
  show "wp (put_fields (f # fs) m) (\<lambda>(ok, m'). egg_out (buffer m) (xs @ ys) ok (buffer m') \<and>
      signature m' = signature m \<and> (ok \<longrightarrow> sigverify m' = Some rest))"
  proof (cases ok)
    case True
    have "wp (put_fields fs m1) (\<lambda>(ok, m'). egg_out (buffer m1) ys ok (buffer m') \<and>
        signature m' = signature m1 \<and> (ok \<longrightarrow> sigverify m' = Some rest))"
      using encodesD [OF fs, of m1] 1 True m(2) by (simp add: egg_out_def)
    then have "wp (put_fields fs m1) (\<lambda>(ok, m'). egg_out (buffer m) (xs @ ys) ok (buffer m') \<and>
        signature m' = signature m \<and> (ok \<longrightarrow> sigverify m' = Some rest))"
      using 1 True by (auto elim!: wp_mono intro: egg_out_trans)
    then show ?thesis using 1 True by simp
  next
    case False
    then show ?thesis using 1 by (simp add: egg_out_fail_longer)
  qed
qed

lemma encodes_ulong: "encodes (put_ulong v) ''u'' (encode_uint64 v)"
  using ulong_field.write_field by (intro encodes_field) (auto simp: put_ulong_def)

lemma encodes_version: "encodes (put_version v) ''v'' (encode_version v)"
  using version_field.write_field by (intro encodes_field) (auto simp: put_version_def)

lemma encodes_string:
  assumes "length v = unat n" "n \<noteq> 0" "n < 0x7fffffff"
  shows "encodes (put_string v n) ''s'' (encode_byte_array (Some v))"
  using msg_field.write_field [OF space_string_msg_field [OF assms(2,3)]] assms(1)
  by (intro encodes_field) (auto simp: put_string_def)

lemma encodes_bytes:
  "(\<And>xs. arr = Some xs \<Longrightarrow> unat n \<le> length xs) \<Longrightarrow>
   encodes (\<lambda>m. gck_rpc_message_write_byte_array m arr n) ''ay'' (encode_byte_array_field arr n)"
  by (rule encodes_field, rule wp_write_byte_array)

lemma encodes_ulongs:
  "(\<And>xs. arr = Some xs \<Longrightarrow> unat n \<le> length xs) \<Longrightarrow>
   encodes (\<lambda>m. gck_rpc_message_write_ulong_array m arr n) ''au'' (encode_ulong_array_field arr n)"
  by (rule encodes_field, rule wp_write_ulong_array)

lemma encodes_attributes:
  "attrs_in_bounds arr n \<Longrightarrow>
   encodes (\<lambda>m. gck_rpc_message_write_attribute_array m arr n) ''aA'' (encode_attribute_array_field arr n)"
  by (rule encodes_field, rule wp_write_attribute_array)

lemmas encodes_rules = encodes_cons encodes_nil encodes_ulong encodes_version encodes_string

lemma resp_put_gains:
  assumes "replying s part" "encodes wr part xs"
  shows "\<exists>ret s'. resp_put wr s = Ret (ret, s') \<and> world s' = world s \<and> sessions s' = sessions s \<and>
    conn s' = conn s \<and> req s' = req s \<and>
    (ret = CKR_OK \<and> response_gained s xs s' \<or>
     ret = PREP_ERROR \<and> response_failed s' \<and> \<not> response_room s (length xs))"
proof -
  obtain r where r: "resp s = Ptr r" "egg_wf (buffer r)" "signature r \<noteq> None" "sigverify r = Some (part @ [])"
    using assms(1) by (auto simp: replying_def)
  obtain ok r' where "wr r = Ret (ok, r')" "egg_out (buffer r) xs ok (buffer r')"
    using encodesD [OF assms(2) r(2-4)] by (auto simp: wp_iff)
  then show ?thesis
    using r roomy_out [of "buffer r" xs ok "buffer r'"]
    by (auto simp: resp_put_def on_resp_def conn_def response_gained_def response_failed_def response_room_def egg_out_def)
qed

section \<open>The end of a handler\<close>

lemma verified_pending: "pending s [] xs \<Longrightarrow> \<exists>q. req s = Ptr q \<and> gck_rpc_message_is_verified q"
  by (auto simp: pending_def gck_rpc_message_is_verified_def)

lemma after_read_sound: "after_read s sig xs s1 \<Longrightarrow> req_sound s1"
  by (auto simp: after_read_def pending_def req_sound_def)

lemma answered_none:
  assumes "after_read s [] xs s1"
  shows "answered s F no_results (PROCESS_CALL F s1 (\<lambda>ret _ s. END_CALL ret s))"
  using assms verified_pending [OF after_read_pending [OF assms]] after_read_sound [OF assms]
  by (auto simp: answered_def PROCESS_CALL_def END_CALL_def after_read_def no_results_def conn_def req_sound_def
      split: prod.splits)

lemma obind_Ret [simp]: "obind m Ret = m"
  by (cases m) auto

lemma answered_put:
  assumes r: "after_read s [] xs s1" and p: "replying s part"
    and k: "\<And>ret x w s'. F (world s) = (ret, x, w) \<Longrightarrow>
      k ret x s' = (case out ret x of None \<Rightarrow> Ret (ret, s') | Some ys \<Rightarrow> resp_put (wr ret x) s')"
    and wr: "\<And>ret x w ys. F (world s) = (ret, x, w) \<Longrightarrow> out ret x = Some ys \<Longrightarrow> encodes (wr ret x) part ys"
  shows "answered s F out (PROCESS_CALL F s1 k)"
proof -
  obtain ret x w where F: "F (world s) = (ret, x, w)" by (metis prod.exhaust)
  obtain q where q: "req s1 = Ptr q" "gck_rpc_message_is_verified q"
    using verified_pending [OF after_read_pending [OF r]] by blast
  have e: "PROCESS_CALL F s1 k = k ret x (s1\<lparr>world := w\<rparr>)"
    using q F r by (simp add: PROCESS_CALL_def after_read_def)
  have rs: "req_sound (s1\<lparr>world := w\<rparr>)" using after_read_sound [OF r] by (simp add: req_sound_def)
  show ?thesis
  proof (cases "out ret x")
    case None
    then show ?thesis using e F k [OF F] r rs q(1) by (simp add: answered_def after_read_def conn_def)
  next
    case (Some ys)
    have "replying (s1\<lparr>world := w\<rparr>) part" using p r by (simp add: replying_def after_read_def)
    then obtain ret' s' where
      "resp_put (wr ret x) (s1\<lparr>world := w\<rparr>) = Ret (ret', s')" "world s' = w" "sessions s' = sessions s1"
      "conn s' = conn s1" "req s' = req s1"
      "ret' = CKR_OK \<and> response_gained (s1\<lparr>world := w\<rparr>) ys s' \<or>
       ret' = PREP_ERROR \<and> response_failed s' \<and> \<not> response_room (s1\<lparr>world := w\<rparr>) (length ys)"
      using resp_put_gains [OF _ wr [OF F Some]] by (fastforce simp: conn_def)
    then show ?thesis
      using e F k [OF F] r Some rs q(1)
      by (auto simp: answered_def after_read_def response_gained_def response_room_def req_sound_def)
  qed
qed

text \<open>Results that are written only on \<open>CKR_OK\<close>.\<close>

lemma answered_if_ok:
  assumes "after_read s [] xs s1" "replying s part"
    and "\<And>x w. F (world s) = (CKR_OK, x, w) \<Longrightarrow> encodes (wr x) part (enc x)"
  shows "answered s F (if_ok enc)
    (PROCESS_CALL F s1 (\<lambda>ret x s. OUT_IF_OK (\<lambda>s x. resp_put (wr x) s) x ret s (\<lambda>ret s. END_CALL ret s)))"
  by (rule answered_put [OF assms(1,2), where wr = "\<lambda>_. wr"])
    (use assms(3) in \<open>auto simp: OUT_IF_OK_def if_ok_def END_CALL_def split: if_splits\<close>)

lemmas answered_ulong = answered_if_ok [where wr = put_ulong and enc = encode_uint64 and part = "''u''",
    OF _ _ encodes_ulong, folded OUT_ULONG_def]

lemma answered_bytes:
  assumes r: "after_read s [] xs s1" "replying s ''ay''" and c: "bytes_contract g" "byte_buffer_sized (arr, n)"
  shows "answered s (g arr n) bytes_result
    (PROCESS_CALL (g arr n) s1 (\<lambda>ret (arr, n) s. OUT_BYTE_ARRAY arr n ret s (\<lambda>ret s. END_CALL ret s)))"
proof (rule answered_put [OF r, where wr = "\<lambda>ret x m. gck_rpc_message_write_byte_array m
      (if ret = CKR_BUFFER_TOO_SMALL then None else fst x) (case snd x of None \<Rightarrow> 0 | Some k \<Rightarrow> k)"], goal_cases)
  case (1 ret x w s')
  then show ?case
    by (cases x) (auto simp: OUT_BYTE_ARRAY_def proto_write_byte_array_def END_CALL_def bytes_result_def Let_def)
next
  case (2 ret x w ys)
  obtain arr' n' where x: "x = (arr', n')" by (cases x)
  have m: "map_option length arr' = map_option length arr" "n' = None \<longleftrightarrow> n = None"
      "ret = CKR_OK \<and> arr \<noteq> None \<and> n \<noteq> None \<longrightarrow> the n' \<le> the n"
    using c(1) 2(1) unfolding bytes_contract_def x
    by (auto dest!: spec [of _ arr] spec [of _ n] spec [of _ "world s"])
  let ?n = "case n' of None \<Rightarrow> 0 | Some k \<Rightarrow> k"
  have "unat ?n \<le> length zs" if "ret = CKR_OK" "arr' = Some zs" for zs
    using that m c(2) by (cases arr; cases n; cases n') (auto simp: byte_buffer_sized_def word_le_nat_alt)
  then show ?case
    using 2(2) unfolding x fst_conv snd_conv
    by (auto intro!: encodes_bytes simp: bytes_result_def Let_def split: if_splits)
qed

lemma answered_ulongs:
  assumes r: "after_read s [] xs s1" "replying s ''au''" and c: "ulongs_contract g" "ulong_buffer_sized (arr, n)"
  shows "answered s (g arr n) ulongs_result
    (PROCESS_CALL (g arr n) s1 (\<lambda>ret (arr, n) s. OUT_ULONG_ARRAY arr n ret s (\<lambda>ret s. END_CALL ret s)))"
proof (rule answered_put [OF r, where wr = "\<lambda>ret x m. gck_rpc_message_write_ulong_array m
      (if ret = CKR_BUFFER_TOO_SMALL then None else fst x) (snd x)"], goal_cases)
  case (1 ret x w s')
  then show ?case
    by (cases x) (auto simp: OUT_ULONG_ARRAY_def proto_write_ulong_array_def END_CALL_def ulongs_result_def Let_def)
next
  case (2 ret x w ys)
  obtain arr' n' where x: "x = (arr', n')" by (cases x)
  have m: "map_option length arr' = map_option length arr" "ret = CKR_OK \<and> arr \<noteq> None \<longrightarrow> n' \<le> n"
    using c(1) 2(1) unfolding ulongs_contract_def x
    by (auto dest!: spec [of _ arr] spec [of _ n] spec [of _ "world s"])
  have "unat n' \<le> length vs" if "ret = CKR_OK" "arr' = Some vs" for vs
    using that m c(2) by (cases arr) (auto simp: ulong_buffer_sized_def word_le_nat_alt)
  then show ?case
    using 2(2) unfolding x fst_conv snd_conv
    by (auto intro!: encodes_ulongs simp: ulongs_result_def split: if_splits)
qed

definition attributes_result :: "CK_ULONG \<Rightarrow> CK_RV \<Rightarrow> attr_array \<Rightarrow> block option" where
  "attributes_result n ret arr =
     (if ret \<in> {CKR_OK, CKR_ATTRIBUTE_SENSITIVE, CKR_ATTRIBUTE_TYPE_INVALID, CKR_BUFFER_TOO_SMALL}
      then Some (encode_attribute_array_field arr n @ encode_uint64 ret) else None)"

lemma attrs_contract_in_bounds:
  assumes "attrs_contract g" "attrs_sized (arr, n)" "g arr n w = (ret, arr', w')"
  shows "attrs_in_bounds arr' n"
proof -
  have "rel_option (list_all2 attr_kept) arr arr'"
    using assms(1,3) unfolding attrs_contract_def by (auto dest!: spec [of _ arr] spec [of _ n] spec [of _ w])
  moreover have "attr_in_bounds a'" if "attr_kept a a'" "attr_buffer_sized a" for a a'
    using that
    by (cases "pValue a"; cases "pValue a'")
      (auto simp: attr_kept_def attr_buffer_sized_def byte_array_sized_def attr_in_bounds_def word_le_nat_alt)
  then have "list_all attr_in_bounds as'" if "list_all2 attr_kept as as'" "list_all attr_buffer_sized as" for as as'
    using that by (auto simp: list_all_length list_all2_conv_all_nth)
  ultimately show ?thesis
    using assms(2) by (cases arr; cases arr') (auto simp: attrs_in_bounds_def attrs_sized_def list_all2_lengthD)
qed

lemma answered_attributes:
  assumes r: "after_read s [] xs s1" "replying s ''aAu''" and c: "attrs_contract g" "attrs_sized (arr, n)"
  shows "answered s (g arr n) (attributes_result n)
    (PROCESS_CALL (g arr n) s1 (\<lambda>ret arr s. OUT_ATTRIBUTE_ARRAY arr n ret s (\<lambda>ret s. END_CALL ret s)))"
proof (rule answered_put [OF r, where wr = "\<lambda>ret arr. put_fields
      [\<lambda>m. gck_rpc_message_write_attribute_array m arr n, put_ulong ret]"], goal_cases)
  case (1 ret x w s')
  then show ?case
    by (auto simp: OUT_ATTRIBUTE_ARRAY_def proto_write_attribute_array_def END_CALL_def attributes_result_def)
next
  case (2 ret x w ys)
  have "encodes (put_fields [\<lambda>m. gck_rpc_message_write_attribute_array m x n, put_ulong ret])
      (''aA'' @ ''u'' @ []) (encode_attribute_array_field x n @ encode_uint64 ret @ [])"
    by (intro encodes_rules encodes_attributes attrs_contract_in_bounds [OF c 2(1)])
  then show ?case using 2(2) by (auto simp: attributes_result_def split: if_splits)
qed

section \<open>Structures\<close>

definition encode_info :: "CK_INFO \<Rightarrow> block" where
  "encode_info info =
     encode_version (cryptokiVersion info) @ encode_byte_array (Some (info_manufacturerID info)) @
     encode_uint64 (info_flags info) @ encode_byte_array (Some (libraryDescription info)) @
     encode_version (libraryVersion info) @ []"

definition encode_slot_info :: "CK_SLOT_INFO \<Rightarrow> block" where
  "encode_slot_info info =
     encode_byte_array (Some (slotDescription info)) @ encode_byte_array (Some (slot_manufacturerID info)) @
     encode_uint64 (slot_flags info) @ encode_version (slot_hardwareVersion info) @
     encode_version (slot_firmwareVersion info) @ []"

definition encode_token_info :: "CK_TOKEN_INFO \<Rightarrow> block" where
  "encode_token_info info =
     encode_byte_array (Some (label info)) @ encode_byte_array (Some (token_manufacturerID info)) @
     encode_byte_array (Some (model info)) @ encode_byte_array (Some (serialNumber info)) @
     encode_uint64 (token_flags info) @ encode_uint64 (ulMaxSessionCount info) @
     encode_uint64 (ulSessionCount info) @ encode_uint64 (ulMaxRwSessionCount info) @
     encode_uint64 (ulRwSessionCount info) @ encode_uint64 (ulMaxPinLen info) @
     encode_uint64 (ulMinPinLen info) @ encode_uint64 (ulTotalPublicMemory info) @
     encode_uint64 (ulFreePublicMemory info) @ encode_uint64 (ulTotalPrivateMemory info) @
     encode_uint64 (ulFreePrivateMemory info) @ encode_version (token_hardwareVersion info) @
     encode_version (token_firmwareVersion info) @ encode_byte_array (Some (utcTime info)) @ []"

definition encode_mechanism_info :: "CK_MECHANISM_INFO \<Rightarrow> block" where
  "encode_mechanism_info info =
     encode_uint64 (ulMinKeySize info) @ encode_uint64 (ulMaxKeySize info) @
     encode_uint64 (mech_flags info) @ []"

definition encode_session_info :: "CK_SESSION_INFO \<Rightarrow> block" where
  "encode_session_info info =
     encode_uint64 (slotID info) @ encode_uint64 (session_state info) @
     encode_uint64 (session_flags info) @ encode_uint64 (ulDeviceError info) @ []"

lemma answered_info:
  assumes r: "after_read s [] xs s1" "replying s ''vsusv''" and c: "returns ck_info_wf F"
  shows "answered s F (if_ok encode_info)
    (PROCESS_CALL F s1 (\<lambda>ret info s. OUT_INFO info ret s (\<lambda>ret s. END_CALL ret s)))"
  unfolding OUT_INFO_def proto_write_info_def [abs_def]
proof (rule answered_if_ok [OF r])
  fix x w assume "F (world s) = (CKR_OK, x, w)"
  then have "ck_info_wf x" using c by (auto simp: returns_def dest!: spec [of _ "world s"])
  then have "encodes (put_fields
      [put_version (cryptokiVersion x), put_string (info_manufacturerID x) 32, put_ulong (info_flags x),
       put_string (libraryDescription x) 32, put_version (libraryVersion x)])
      (''v'' @ ''s'' @ ''u'' @ ''s'' @ ''v'' @ []) (encode_info x)"
    unfolding encode_info_def by (intro encodes_rules) (simp_all add: ck_info_wf_def)
  then show "encodes (put_fields
      [put_version (cryptokiVersion x), put_string (info_manufacturerID x) 32, put_ulong (info_flags x),
       put_string (libraryDescription x) 32, put_version (libraryVersion x)]) ''vsusv'' (encode_info x)"
    by simp
qed

lemma answered_slot_info:
  assumes r: "after_read s [] xs s1" "replying s ''ssuvv''" and c: "returns ck_slot_info_wf F"
  shows "answered s F (if_ok encode_slot_info)
    (PROCESS_CALL F s1 (\<lambda>ret info s. OUT_SLOT_INFO info ret s (\<lambda>ret s. END_CALL ret s)))"
  unfolding OUT_SLOT_INFO_def proto_write_slot_info_def [abs_def]
proof (rule answered_if_ok [OF r])
  fix x w assume "F (world s) = (CKR_OK, x, w)"
  then have "ck_slot_info_wf x" using c by (auto simp: returns_def dest!: spec [of _ "world s"])
  then have "encodes (put_fields
      [put_string (slotDescription x) 64, put_string (slot_manufacturerID x) 32, put_ulong (slot_flags x),
       put_version (slot_hardwareVersion x), put_version (slot_firmwareVersion x)])
      (''s'' @ ''s'' @ ''u'' @ ''v'' @ ''v'' @ []) (encode_slot_info x)"
    unfolding encode_slot_info_def by (intro encodes_rules) (simp_all add: ck_slot_info_wf_def)
  then show "encodes (put_fields
      [put_string (slotDescription x) 64, put_string (slot_manufacturerID x) 32, put_ulong (slot_flags x),
       put_version (slot_hardwareVersion x), put_version (slot_firmwareVersion x)]) ''ssuvv'' (encode_slot_info x)"
    by simp
qed

lemma answered_mechanism_info:
  assumes r: "after_read s [] xs s1" "replying s ''uuu''"
  shows "answered s F (if_ok encode_mechanism_info)
    (PROCESS_CALL F s1 (\<lambda>ret info s. OUT_MECHANISM_INFO info ret s (\<lambda>ret s. END_CALL ret s)))"
  unfolding OUT_MECHANISM_INFO_def proto_write_mechanism_info_def [abs_def]
proof (rule answered_if_ok [OF r])
  fix x
  have "encodes (put_fields [put_ulong (ulMinKeySize x), put_ulong (ulMaxKeySize x), put_ulong (mech_flags x)])
      (''u'' @ ''u'' @ ''u'' @ []) (encode_mechanism_info x)"
    unfolding encode_mechanism_info_def by (intro encodes_rules)
  then show "encodes (put_fields [put_ulong (ulMinKeySize x), put_ulong (ulMaxKeySize x), put_ulong (mech_flags x)])
      ''uuu'' (encode_mechanism_info x)" by simp
qed

lemma answered_token_info:
  assumes r: "after_read s [] xs s1" "replying s ''ssssuuuuuuuuuuuvvs''" and c: "returns ck_token_info_wf F"
  shows "answered s F (if_ok encode_token_info)
    (PROCESS_CALL F s1 (\<lambda>ret info s. OUT_TOKEN_INFO info ret s (\<lambda>ret s. END_CALL ret s)))"
  unfolding OUT_TOKEN_INFO_def proto_write_token_info_def [abs_def]
proof (rule answered_if_ok [OF r], goal_cases)
  case (1 x w)
  then have "ck_token_info_wf x" using c by (auto simp: returns_def dest!: spec [of _ "world s"])
  then have "encodes (put_fields
      [put_string (label x) 32, put_string (token_manufacturerID x) 32, put_string (model x) 16,
       put_string (serialNumber x) 16, put_ulong (token_flags x), put_ulong (ulMaxSessionCount x),
       put_ulong (ulSessionCount x), put_ulong (ulMaxRwSessionCount x), put_ulong (ulRwSessionCount x),
       put_ulong (ulMaxPinLen x), put_ulong (ulMinPinLen x), put_ulong (ulTotalPublicMemory x),
       put_ulong (ulFreePublicMemory x), put_ulong (ulTotalPrivateMemory x),
       put_ulong (ulFreePrivateMemory x), put_version (token_hardwareVersion x),
       put_version (token_firmwareVersion x), put_string (utcTime x) 16])
      (''s'' @ ''s'' @ ''s'' @ ''s'' @ ''u'' @ ''u'' @ ''u'' @ ''u'' @ ''u'' @ ''u'' @ ''u'' @ ''u'' @
       ''u'' @ ''u'' @ ''u'' @ ''v'' @ ''v'' @ ''s'' @ []) (encode_token_info x)"
    unfolding encode_token_info_def by (intro encodes_rules) (simp_all add: ck_token_info_wf_def)
  then show ?case by simp
qed

text \<open>Here the slot number is cut down to the ten bits of \<open>CK_GNOME_APPARTMENT_SLOT\<close>.\<close>

definition masked_session_info :: "CK_SESSION_INFO \<Rightarrow> CK_SESSION_INFO" where
  "masked_session_info info = info\<lparr>slotID := CK_GNOME_APPARTMENT_SLOT (slotID info)\<rparr>"

lemma answered_session_info:
  assumes r: "after_read s [] xs s1" "replying s ''uuuu''"
  shows "answered s F (if_ok (\<lambda>info. encode_session_info (masked_session_info info)))
    (PROCESS_CALL F s1 (\<lambda>ret info s.
       let info = info\<lparr>slotID := CK_GNOME_APPARTMENT_SLOT (slotID info)\<rparr> in
       OUT_SESSION_INFO info ret s (\<lambda>ret s. END_CALL ret s)))"
proof -
  have e: "encodes (put_fields [put_ulong (slotID x), put_ulong (session_state x), put_ulong (session_flags x),
      put_ulong (ulDeviceError x)]) ''uuuu'' (encode_session_info x)" for x
  proof -
    have "encodes (put_fields [put_ulong (slotID x), put_ulong (session_state x), put_ulong (session_flags x),
        put_ulong (ulDeviceError x)]) (''u'' @ ''u'' @ ''u'' @ ''u'' @ []) (encode_session_info x)"
      unfolding encode_session_info_def by (intro encodes_rules)
    then show ?thesis by simp
  qed
  have eq: "OUT_SESSION_INFO (x\<lparr>slotID := CK_GNOME_APPARTMENT_SLOT (slotID x)\<rparr>) =
      OUT_IF_OK (\<lambda>s x. resp_put (put_fields
      [put_ulong (slotID (masked_session_info x)), put_ulong (session_state (masked_session_info x)),
       put_ulong (session_flags (masked_session_info x)), put_ulong (ulDeviceError (masked_session_info x))]) s) x"
    for x :: CK_SESSION_INFO
    by (simp add: OUT_SESSION_INFO_def OUT_IF_OK_def proto_write_session_info_def fun_eq_iff masked_session_info_def)
  show ?thesis unfolding Let_def eq by (rule answered_if_ok [OF r e])
qed

section \<open>The arguments of a handler\<close>

lemma answered_begin:
  assumes "pkcs11_module E = Some M" "call M = Some f" "answered s F out (k f)"
  shows "answered s F out (BEGIN_CALL E call s k)"
  using assms by (simp add: BEGIN_CALL_def)

text \<open>A rule for each macro, for an argument with others behind it and for the last one.\<close>

lemmas answered_in = argument_reader.IN_ARG_gives [where P = "answered s F out" for s F out]

lemmas in_ulong_next = ulong_arg.IN_ARG_gives [where P = "answered s F out" for s F out, OF _ TrueI,
    folded IN_ULONG_def, unfolded append_Cons append_Nil]
lemmas in_byte_next = byte_arg.IN_ARG_gives [where P = "answered s F out" for s F out, OF _ TrueI,
    folded IN_BYTE_def, unfolded append_Cons [of _ "[]" "sig" for sig :: string] append_Nil [of "sig :: string" for sig]]
lemmas in_byte_array_next = byte_array_arg.IN_ARG_gives [where P = "answered s F out" for s F out,
    folded IN_BYTE_ARRAY_def, unfolded append_Cons append_Nil]
lemmas in_mechanism_next = mechanism_arg.IN_ARG_gives [where P = "answered s F out" for s F out,
    folded IN_MECHANISM_def, unfolded append_Cons append_Nil]
lemmas in_attributes_next = answered_in [OF attribute_array_arg, folded IN_ATTRIBUTE_ARRAY_def,
    unfolded append_Cons append_Nil]

lemmas in_ulong_last = in_ulong_next [where sig = "[]" and rest = "[]", unfolded append_Nil2]
lemmas in_byte_array_last = in_byte_array_next [where sig = "[]" and rest = "[]", unfolded append_Nil2]
lemmas in_mechanism_last = in_mechanism_next [where sig = "[]" and rest = "[]", unfolded append_Nil2]
lemmas in_attributes_last = in_attributes_next [where sig = "[]" and rest = "[]", unfolded append_Nil2]
lemmas in_byte_buffer_last = answered_in [OF byte_buffer_arg, folded IN_BYTE_BUFFER_def,
    where sig = "[]" and rest = "[]", unfolded append_Nil2]
lemmas in_ulong_buffer_last = answered_in [OF ulong_buffer_arg, folded IN_ULONG_BUFFER_def,
    where sig = "[]" and rest = "[]", unfolded append_Nil2]
lemmas in_space_string_last = answered_in [OF space_string_arg, folded IN_SPACE_STRING_def,
    where sig = "[]" and rest = "[]", unfolded append_Nil2]
lemmas in_attribute_buffer_last = answered_in [OF attribute_buffer_arg, folded IN_ATTRIBUTE_BUFFER_def,
    where sig = "[]" and rest = "[]", unfolded append_Nil2]

lemmas answered_bytes_beta = answered_bytes [unfolded split_beta]
lemmas answered_ulongs_beta = answered_ulongs [unfolded split_beta]

lemma byte_buffer_view_sized: "byte_buffer_sized (fst (byte_buffer_arg_view v), snd (byte_buffer_arg_view v))"
  by (auto simp: byte_buffer_sized_def byte_buffer_arg_view_def split: option.split)

lemma ulong_buffer_view_sized: "ulong_buffer_sized (fst (ulong_buffer_view n), snd (ulong_buffer_view n))"
  by (simp add: ulong_buffer_sized_def ulong_buffer_view_def)

lemma attribute_buffer_view_sized:
  assumes "list_all attr_buffer_wire as \<and> length as * 24 \<le> 0x7fffffff"
  shows "attrs_sized (Some (map attr_buffer_view as), of_nat (length as))"
proof -
  have "attr_buffer_sized (attr_buffer_view a)" for a
    by (simp add: attr_buffer_sized_def byte_array_sized_def attr_buffer_view_def Let_def)
  then show ?thesis using count_u32(4) [OF conjunct2 [OF assms]] by (simp add: attrs_sized_def list_all_iff)
qed

end
