(* ===== verification/Dispatch_Forward.thy ===== *)
theory Dispatch_Forward
  imports Dispatch_Transparency
begin

text \<open>
  Transparency of the call handlers, one lemma for each handler or for each group of handlers
  of the same shape: from a request that encodes the arguments, the module's function is
  called with these arguments, and its results are what the response gains.
\<close>

lemma GetInfo_transparent:
  assumes "pkcs11_module E = Some M" "C_GetInfo M = Some f"
    and "returns ck_info_wf f"
    and "pending s [] []"
    and "replying s ''vsusv''"
  shows "answered s (f) (if_ok encode_info)
    (rpc_C_GetInfo E s)"
  unfolding rpc_C_GetInfo_def
  by (rule answered_begin [where call = C_GetInfo, OF assms(1,2)],
      rule answered_info [OF _ assms(5) assms(3)], rule after_read_refl [OF assms(4)])

lemma GetSlotList_transparent:
  assumes "pkcs11_module E = Some M" "C_GetSlotList M = Some f"
    and "memory_ok E"
    and "ulongs_contract (f token_present)"
    and "unat slot_list * 8 \<le> 0x7fffffff"
    and "pending s ''yfu'' ([token_present] @ egg_buffer_encode_uint32 slot_list)"
    and "replying s ''au''"
  shows "answered s (f token_present (fst (ulong_buffer_view slot_list)) (snd (ulong_buffer_view slot_list))) ulongs_result
    (rpc_C_GetSlotList E s)"
  unfolding rpc_C_GetSlotList_def split_beta
  by (rule answered_begin [where call = C_GetSlotList, OF assms(1,2)],
      rule in_byte_next [OF after_read_refl [OF assms(6)]],
      rule in_ulong_buffer_last [OF assms(3) _ assms(5)],
      assumption,
      rule answered_ulongs_beta [OF _ assms(7) assms(4) ulong_buffer_view_sized], assumption)

lemma GetSlotInfo_transparent:
  assumes "pkcs11_module E = Some M" "C_GetSlotInfo M = Some f"
    and "returns ck_slot_info_wf (f slot_id)"
    and "pending s ''u'' (encode_uint64 slot_id)"
    and "replying s ''ssuvv''"
  shows "answered s (f slot_id) (if_ok encode_slot_info)
    (rpc_C_GetSlotInfo E s)"
  unfolding rpc_C_GetSlotInfo_def
  by (rule answered_begin [where call = C_GetSlotInfo, OF assms(1,2)],
      rule in_ulong_last [OF after_read_refl [OF assms(4)]],
      rule answered_slot_info [OF _ assms(5) assms(3)], assumption)

lemma GetTokenInfo_transparent:
  assumes "pkcs11_module E = Some M" "C_GetTokenInfo M = Some f"
    and "returns ck_token_info_wf (f slot_id)"
    and "pending s ''u'' (encode_uint64 slot_id)"
    and "replying s ''ssssuuuuuuuuuuuvvs''"
  shows "answered s (f slot_id) (if_ok encode_token_info)
    (rpc_C_GetTokenInfo E s)"
  unfolding rpc_C_GetTokenInfo_def
  by (rule answered_begin [where call = C_GetTokenInfo, OF assms(1,2)],
      rule in_ulong_last [OF after_read_refl [OF assms(4)]],
      rule answered_token_info [OF _ assms(5) assms(3)], assumption)

definition list_calls where
  "list_calls =
     [(GCK_RPC_CALL_C_GetMechanismList, C_GetMechanismList, rpc_C_GetMechanismList),
      (GCK_RPC_CALL_C_FindObjects, C_FindObjects, rpc_C_FindObjects)]"

lemma list_calls_transparent:
  assumes "(i, sel, h) \<in> set list_calls" and "pkcs11_module E = Some M" "sel M = Some f"
    and "memory_ok E"
    and "ulongs_contract (f slot_id)"
    and "unat mechanism_list * 8 \<le> 0x7fffffff"
    and "pending s ''ufu'' (encode_uint64 slot_id @ egg_buffer_encode_uint32 mechanism_list)"
    and "replying s ''au''"
  shows "answered s (f slot_id (fst (ulong_buffer_view mechanism_list)) (snd (ulong_buffer_view mechanism_list))) ulongs_result (h E s)"
proof -
  have h: "h E s =
     BEGIN_CALL E sel s (\<lambda>func.
     IN_ULONG s (\<lambda>slot_id s.
     IN_ULONG_BUFFER E s (\<lambda>(mechanism_list, count) s.
     PROCESS_CALL (func slot_id mechanism_list count) s (\<lambda>ret (mechanism_list, count) s.
     OUT_ULONG_ARRAY mechanism_list count ret s (\<lambda>ret s.
     END_CALL ret s)))))"
    using assms(1) unfolding list_calls_def list.set insert_iff prod.inject empty_iff
    by (elim disjE conjE) (simp_all only: rpc_C_GetMechanismList_def rpc_C_FindObjects_def)
  show ?thesis
    unfolding h split_beta
    by (rule answered_begin [where call = sel, OF assms(2,3)],
        rule in_ulong_next [OF after_read_refl [OF assms(7)]],
        rule in_ulong_buffer_last [OF assms(4) _ assms(6)],
        assumption,
        rule answered_ulongs_beta [OF _ assms(8) assms(5) ulong_buffer_view_sized], assumption)
qed

lemma GetMechanismInfo_transparent:
  assumes "pkcs11_module E = Some M" "C_GetMechanismInfo M = Some f"
    and "pending s ''uu'' (encode_uint64 slot_id @ encode_uint64 typ)"
    and "replying s ''uuu''"
  shows "answered s (f slot_id typ) (if_ok encode_mechanism_info)
    (rpc_C_GetMechanismInfo E s)"
  unfolding rpc_C_GetMechanismInfo_def
  by (rule answered_begin [where call = C_GetMechanismInfo, OF assms(1,2)],
      rule in_ulong_next [OF after_read_refl [OF assms(3)]],
      rule in_ulong_last,
      assumption,
      rule answered_mechanism_info, assumption, rule assms(4))

lemma InitToken_transparent:
  assumes "pkcs11_module E = Some M" "C_InitToken M = Some f"
    and "memory_ok E"
    and "byte_array_arg_valid pin"
    and "length lbl < 0x7fffffff"
    and "pending s ''uays'' (encode_uint64 slot_id @ encode_byte_array_arg pin @ encode_byte_array (Some lbl))"
  shows "answered s (f slot_id (fst pin) (snd pin) lbl) no_results
    (rpc_C_InitToken E s)"
  unfolding rpc_C_InitToken_def split_beta
  by (rule answered_begin [where call = C_InitToken, OF assms(1,2)],
      rule in_ulong_next [OF after_read_refl [OF assms(6)]],
      rule in_byte_array_next [OF _ assms(4)],
      assumption,
      rule in_space_string_last [OF assms(3) _ assms(5)],
      assumption,
      rule answered_none, assumption)

definition session_calls where
  "session_calls =
     [(GCK_RPC_CALL_C_GetFunctionStatus, C_GetFunctionStatus, rpc_C_GetFunctionStatus),
      (GCK_RPC_CALL_C_CancelFunction, C_CancelFunction, rpc_C_CancelFunction),
      (GCK_RPC_CALL_C_Logout, C_Logout, rpc_C_Logout),
      (GCK_RPC_CALL_C_FindObjectsFinal, C_FindObjectsFinal, rpc_C_FindObjectsFinal)]"

lemma session_calls_transparent:
  assumes "(i, sel, h) \<in> set session_calls" and "pkcs11_module E = Some M" "sel M = Some f"
    and "pending s ''u'' (encode_uint64 session)"
  shows "answered s (f session) no_results (h E s)"
proof -
  have h: "h E s =
     BEGIN_CALL E sel s (\<lambda>func.
     IN_ULONG s (\<lambda>session s.
     PROCESS_CALL (func session) s (\<lambda>ret _ s.
     END_CALL ret s)))"
    using assms(1) unfolding session_calls_def list.set insert_iff prod.inject empty_iff
    by (elim disjE conjE) (simp_all only: rpc_C_GetFunctionStatus_def rpc_C_CancelFunction_def rpc_C_Logout_def
        rpc_C_FindObjectsFinal_def)
  show ?thesis
    unfolding h split_beta
    by (rule answered_begin [where call = sel, OF assms(2,3)],
        rule in_ulong_last [OF after_read_refl [OF assms(4)]],
        rule answered_none, assumption)
qed

definition update_calls where
  "update_calls =
     [(GCK_RPC_CALL_C_InitPIN, C_InitPIN, rpc_C_InitPIN),
      (GCK_RPC_CALL_C_DigestUpdate, C_DigestUpdate, rpc_C_DigestUpdate),
      (GCK_RPC_CALL_C_SignUpdate, C_SignUpdate, rpc_C_SignUpdate),
      (GCK_RPC_CALL_C_VerifyUpdate, C_VerifyUpdate, rpc_C_VerifyUpdate),
      (GCK_RPC_CALL_C_VerifyFinal, C_VerifyFinal, rpc_C_VerifyFinal),
      (GCK_RPC_CALL_C_SeedRandom, C_SeedRandom, rpc_C_SeedRandom)]"

lemma update_calls_transparent:
  assumes "(i, sel, h) \<in> set update_calls" and "pkcs11_module E = Some M" "sel M = Some f"
    and "byte_array_arg_valid pin"
    and "pending s ''uay'' (encode_uint64 session @ encode_byte_array_arg pin)"
  shows "answered s (f session (fst pin) (snd pin)) no_results (h E s)"
proof -
  have h: "h E s =
     BEGIN_CALL E sel s (\<lambda>func.
     IN_ULONG s (\<lambda>session s.
     IN_BYTE_ARRAY s (\<lambda>(pin, pin_len) s.
     PROCESS_CALL (func session pin pin_len) s (\<lambda>ret _ s.
     END_CALL ret s))))"
    using assms(1) unfolding update_calls_def list.set insert_iff prod.inject empty_iff
    by (elim disjE conjE) (simp_all only: rpc_C_InitPIN_def rpc_C_DigestUpdate_def rpc_C_SignUpdate_def rpc_C_VerifyUpdate_def
        rpc_C_VerifyFinal_def rpc_C_SeedRandom_def)
  show ?thesis
    unfolding h split_beta
    by (rule answered_begin [where call = sel, OF assms(2,3)],
        rule in_ulong_next [OF after_read_refl [OF assms(5)]],
        rule in_byte_array_last [OF _ assms(4)],
        assumption,
        rule answered_none, assumption)
qed

definition two_array_calls where
  "two_array_calls =
     [(GCK_RPC_CALL_C_SetPIN, C_SetPIN, rpc_C_SetPIN),
      (GCK_RPC_CALL_C_Verify, C_Verify, rpc_C_Verify)]"

lemma two_array_calls_transparent:
  assumes "(i, sel, h) \<in> set two_array_calls" and "pkcs11_module E = Some M" "sel M = Some f"
    and "byte_array_arg_valid old_pin"
    and "byte_array_arg_valid new_pin"
    and "pending s ''uayay'' (encode_uint64 session @ encode_byte_array_arg old_pin @ encode_byte_array_arg new_pin)"
  shows "answered s (f session (fst old_pin) (snd old_pin) (fst new_pin) (snd new_pin)) no_results (h E s)"
proof -
  have h: "h E s =
     BEGIN_CALL E sel s (\<lambda>func.
     IN_ULONG s (\<lambda>session s.
     IN_BYTE_ARRAY s (\<lambda>(old_pin, old_len) s.
     IN_BYTE_ARRAY s (\<lambda>(new_pin, new_len) s.
     PROCESS_CALL (func session old_pin old_len new_pin new_len) s (\<lambda>ret _ s.
     END_CALL ret s)))))"
    using assms(1) unfolding two_array_calls_def list.set insert_iff prod.inject empty_iff
    by (elim disjE conjE) (simp_all only: rpc_C_SetPIN_def rpc_C_Verify_def)
  show ?thesis
    unfolding h split_beta
    by (rule answered_begin [where call = sel, OF assms(2,3)],
        rule in_ulong_next [OF after_read_refl [OF assms(6)]],
        rule in_byte_array_next [OF _ assms(4)],
        assumption,
        rule in_byte_array_last [OF _ assms(5)],
        assumption,
        rule answered_none, assumption)
qed

definition final_calls where
  "final_calls =
     [(GCK_RPC_CALL_C_GetOperationState, C_GetOperationState, rpc_C_GetOperationState),
      (GCK_RPC_CALL_C_EncryptFinal, C_EncryptFinal, rpc_C_EncryptFinal),
      (GCK_RPC_CALL_C_DecryptFinal, C_DecryptFinal, rpc_C_DecryptFinal),
      (GCK_RPC_CALL_C_DigestFinal, C_DigestFinal, rpc_C_DigestFinal),
      (GCK_RPC_CALL_C_SignFinal, C_SignFinal, rpc_C_SignFinal)]"

lemma final_calls_transparent:
  assumes "(i, sel, h) \<in> set final_calls" and "pkcs11_module E = Some M" "sel M = Some f"
    and "memory_ok E"
    and "bytes_contract (f session)"
    and "byte_buffer_arg_valid operation_state"
    and "pending s ''ufy'' (encode_uint64 session @ encode_byte_buffer_arg operation_state)"
    and "replying s ''ay''"
  shows "answered s (f session (fst (byte_buffer_arg_view operation_state)) (snd (byte_buffer_arg_view operation_state))) bytes_result (h E s)"
proof -
  have h: "h E s =
     BEGIN_CALL E sel s (\<lambda>func.
     IN_ULONG s (\<lambda>session s.
     IN_BYTE_BUFFER E s (\<lambda>(operation_state, operation_state_len) s.
     PROCESS_CALL (func session operation_state operation_state_len)
       s (\<lambda>ret (operation_state, operation_state_len) s.
     OUT_BYTE_ARRAY operation_state operation_state_len ret s (\<lambda>ret s.
     END_CALL ret s)))))"
    using assms(1) unfolding final_calls_def list.set insert_iff prod.inject empty_iff
    by (elim disjE conjE) (simp_all only: rpc_C_GetOperationState_def rpc_C_EncryptFinal_def rpc_C_DecryptFinal_def
        rpc_C_DigestFinal_def rpc_C_SignFinal_def)
  show ?thesis
    unfolding h split_beta
    by (rule answered_begin [where call = sel, OF assms(2,3)],
        rule in_ulong_next [OF after_read_refl [OF assms(7)]],
        rule in_byte_buffer_last [OF assms(4) _ assms(6)],
        assumption,
        rule answered_bytes_beta [OF _ assms(8) assms(5) byte_buffer_view_sized], assumption)
qed

lemma SetOperationState_transparent:
  assumes "pkcs11_module E = Some M" "C_SetOperationState M = Some f"
    and "byte_array_arg_valid operation_state"
    and "pending s ''uayuu'' (encode_uint64 session @ encode_byte_array_arg operation_state @ encode_uint64 encryption_key @ encode_uint64 authentication_key)"
  shows "answered s (f session (fst operation_state) (snd operation_state) encryption_key authentication_key) no_results
    (rpc_C_SetOperationState E s)"
  unfolding rpc_C_SetOperationState_def split_beta
  by (rule answered_begin [where call = C_SetOperationState, OF assms(1,2)],
      rule in_ulong_next [OF after_read_refl [OF assms(4)]],
      rule in_byte_array_next [OF _ assms(3)],
      assumption,
      rule in_ulong_next,
      assumption,
      rule in_ulong_last,
      assumption,
      rule answered_none, assumption)

lemma Login_transparent:
  assumes "pkcs11_module E = Some M" "C_Login M = Some f"
    and "byte_array_arg_valid pin"
    and "pending s ''uuay'' (encode_uint64 session @ encode_uint64 user_type @ encode_byte_array_arg pin)"
  shows "answered s (f session user_type (fst pin) (snd pin)) no_results
    (rpc_C_Login E s)"
  unfolding rpc_C_Login_def split_beta
  by (rule answered_begin [where call = C_Login, OF assms(1,2)],
      rule in_ulong_next [OF after_read_refl [OF assms(4)]],
      rule in_ulong_next,
      assumption,
      rule in_byte_array_last [OF _ assms(3)],
      assumption,
      rule answered_none, assumption)

lemma CreateObject_transparent:
  assumes "pkcs11_module E = Some M" "C_CreateObject M = Some f"
    and "memory_ok E"
    and "attributes_arg_valid tmpl"
    and "pending s ''uaA'' (encode_uint64 session @ encode_attributes_arg tmpl)"
    and "replying s ''u''"
  shows "answered s (f session (fst (attributes_view tmpl)) (snd (attributes_view tmpl))) (if_ok encode_uint64)
    (rpc_C_CreateObject E s)"
  unfolding rpc_C_CreateObject_def split_beta
  by (rule answered_begin [where call = C_CreateObject, OF assms(1,2)],
      rule in_ulong_next [OF after_read_refl [OF assms(5)]],
      rule in_attributes_last [OF assms(3) _ assms(4)],
      assumption,
      rule answered_ulong, assumption, rule assms(6))

lemma CopyObject_transparent:
  assumes "pkcs11_module E = Some M" "C_CopyObject M = Some f"
    and "memory_ok E"
    and "attributes_arg_valid tmpl"
    and "pending s ''uuaA'' (encode_uint64 session @ encode_uint64 object @ encode_attributes_arg tmpl)"
    and "replying s ''u''"
  shows "answered s (f session object (fst (attributes_view tmpl)) (snd (attributes_view tmpl))) (if_ok encode_uint64)
    (rpc_C_CopyObject E s)"
  unfolding rpc_C_CopyObject_def split_beta
  by (rule answered_begin [where call = C_CopyObject, OF assms(1,2)],
      rule in_ulong_next [OF after_read_refl [OF assms(5)]],
      rule in_ulong_next,
      assumption,
      rule in_attributes_last [OF assms(3) _ assms(4)],
      assumption,
      rule answered_ulong, assumption, rule assms(6))

definition pair_calls where
  "pair_calls =
     [(GCK_RPC_CALL_C_DestroyObject, C_DestroyObject, rpc_C_DestroyObject),
      (GCK_RPC_CALL_C_DigestKey, C_DigestKey, rpc_C_DigestKey)]"

lemma pair_calls_transparent:
  assumes "(i, sel, h) \<in> set pair_calls" and "pkcs11_module E = Some M" "sel M = Some f"
    and "pending s ''uu'' (encode_uint64 session @ encode_uint64 object)"
  shows "answered s (f session object) no_results (h E s)"
proof -
  have h: "h E s =
     BEGIN_CALL E sel s (\<lambda>func.
     IN_ULONG s (\<lambda>session s.
     IN_ULONG s (\<lambda>object s.
     PROCESS_CALL (func session object) s (\<lambda>ret _ s.
     END_CALL ret s))))"
    using assms(1) unfolding pair_calls_def list.set insert_iff prod.inject empty_iff
    by (elim disjE conjE) (simp_all only: rpc_C_DestroyObject_def rpc_C_DigestKey_def)
  show ?thesis
    unfolding h split_beta
    by (rule answered_begin [where call = sel, OF assms(2,3)],
        rule in_ulong_next [OF after_read_refl [OF assms(4)]],
        rule in_ulong_last,
        assumption,
        rule answered_none, assumption)
qed

lemma GetObjectSize_transparent:
  assumes "pkcs11_module E = Some M" "C_GetObjectSize M = Some f"
    and "pending s ''uu'' (encode_uint64 session @ encode_uint64 object)"
    and "replying s ''u''"
  shows "answered s (f session object) (if_ok encode_uint64)
    (rpc_C_GetObjectSize E s)"
  unfolding rpc_C_GetObjectSize_def
  by (rule answered_begin [where call = C_GetObjectSize, OF assms(1,2)],
      rule in_ulong_next [OF after_read_refl [OF assms(3)]],
      rule in_ulong_last,
      assumption,
      rule answered_ulong, assumption, rule assms(4))

lemma GetAttributeValue_transparent:
  assumes "pkcs11_module E = Some M" "C_GetAttributeValue M = Some f"
    and "memory_ok E"
    and "attrs_contract (f session object)"
    and "list_all attr_buffer_wire tmpl \<and> length tmpl * 24 \<le> 0x7fffffff"
    and "pending s ''uufA'' (encode_uint64 session @ encode_uint64 object @ encode_attribute_buffer_arg tmpl)"
    and "replying s ''aAu''"
  shows "answered s (f session object (Some (map attr_buffer_view tmpl)) (of_nat (length tmpl))) (attributes_result (of_nat (length tmpl)))
    (rpc_C_GetAttributeValue E s)"
  unfolding rpc_C_GetAttributeValue_def split_beta
  by (rule answered_begin [where call = C_GetAttributeValue, OF assms(1,2)],
      rule in_ulong_next [OF after_read_refl [OF assms(6)]],
      rule in_ulong_next,
      assumption,
      rule in_attribute_buffer_last [OF assms(3) _ assms(5)],
      assumption,
      simp only: fst_conv snd_conv, rule answered_attributes [OF _ assms(7) assms(4) attribute_buffer_view_sized], assumption, rule assms(5))

lemma SetAttributeValue_transparent:
  assumes "pkcs11_module E = Some M" "C_SetAttributeValue M = Some f"
    and "memory_ok E"
    and "attributes_arg_valid tmpl"
    and "pending s ''uuaA'' (encode_uint64 session @ encode_uint64 object @ encode_attributes_arg tmpl)"
  shows "answered s (f session object (fst (attributes_view tmpl)) (snd (attributes_view tmpl))) no_results
    (rpc_C_SetAttributeValue E s)"
  unfolding rpc_C_SetAttributeValue_def split_beta
  by (rule answered_begin [where call = C_SetAttributeValue, OF assms(1,2)],
      rule in_ulong_next [OF after_read_refl [OF assms(5)]],
      rule in_ulong_next,
      assumption,
      rule in_attributes_last [OF assms(3) _ assms(4)],
      assumption,
      rule answered_none, assumption)

lemma FindObjectsInit_transparent:
  assumes "pkcs11_module E = Some M" "C_FindObjectsInit M = Some f"
    and "memory_ok E"
    and "attributes_arg_valid tmpl"
    and "pending s ''uaA'' (encode_uint64 session @ encode_attributes_arg tmpl)"
  shows "answered s (f session (fst (attributes_view tmpl)) (snd (attributes_view tmpl))) no_results
    (rpc_C_FindObjectsInit E s)"
  unfolding rpc_C_FindObjectsInit_def split_beta
  by (rule answered_begin [where call = C_FindObjectsInit, OF assms(1,2)],
      rule in_ulong_next [OF after_read_refl [OF assms(5)]],
      rule in_attributes_last [OF assms(3) _ assms(4)],
      assumption,
      rule answered_none, assumption)

definition init_calls where
  "init_calls =
     [(GCK_RPC_CALL_C_EncryptInit, C_EncryptInit, rpc_C_EncryptInit),
      (GCK_RPC_CALL_C_DecryptInit, C_DecryptInit, rpc_C_DecryptInit),
      (GCK_RPC_CALL_C_SignInit, C_SignInit, rpc_C_SignInit),
      (GCK_RPC_CALL_C_SignRecoverInit, C_SignRecoverInit, rpc_C_SignRecoverInit),
      (GCK_RPC_CALL_C_VerifyInit, C_VerifyInit, rpc_C_VerifyInit),
      (GCK_RPC_CALL_C_VerifyRecoverInit, C_VerifyRecoverInit, rpc_C_VerifyRecoverInit)]"

lemma init_calls_transparent:
  assumes "(i, sel, h) \<in> set init_calls" and "pkcs11_module E = Some M" "sel M = Some f"
    and "mechanism_valid mech"
    and "pending s ''uMu'' (encode_uint64 session @ encode_mechanism mech @ encode_uint64 key)"
  shows "answered s (f session mech key) no_results (h E s)"
proof -
  have h: "h E s =
     BEGIN_CALL E sel s (\<lambda>func.
     IN_ULONG s (\<lambda>session s.
     IN_MECHANISM s (\<lambda>mechanism s.
     IN_ULONG s (\<lambda>key s.
     PROCESS_CALL (func session mechanism key) s (\<lambda>ret _ s.
     END_CALL ret s)))))"
    using assms(1) unfolding init_calls_def list.set insert_iff prod.inject empty_iff
    by (elim disjE conjE) (simp_all only: rpc_C_EncryptInit_def rpc_C_DecryptInit_def rpc_C_SignInit_def rpc_C_SignRecoverInit_def
        rpc_C_VerifyInit_def rpc_C_VerifyRecoverInit_def)
  show ?thesis
    unfolding h split_beta
    by (rule answered_begin [where call = sel, OF assms(2,3)],
        rule in_ulong_next [OF after_read_refl [OF assms(5)]],
        rule in_mechanism_next [OF _ assms(4)],
        assumption,
        rule in_ulong_last,
        assumption,
        rule answered_none, assumption)
qed

definition data_calls where
  "data_calls =
     [(GCK_RPC_CALL_C_Encrypt, C_Encrypt, rpc_C_Encrypt),
      (GCK_RPC_CALL_C_EncryptUpdate, C_EncryptUpdate, rpc_C_EncryptUpdate),
      (GCK_RPC_CALL_C_Decrypt, C_Decrypt, rpc_C_Decrypt),
      (GCK_RPC_CALL_C_DecryptUpdate, C_DecryptUpdate, rpc_C_DecryptUpdate),
      (GCK_RPC_CALL_C_Digest, C_Digest, rpc_C_Digest),
      (GCK_RPC_CALL_C_Sign, C_Sign, rpc_C_Sign),
      (GCK_RPC_CALL_C_SignRecover, C_SignRecover, rpc_C_SignRecover),
      (GCK_RPC_CALL_C_VerifyRecover, C_VerifyRecover, rpc_C_VerifyRecover),
      (GCK_RPC_CALL_C_DigestEncryptUpdate, C_DigestEncryptUpdate, rpc_C_DigestEncryptUpdate),
      (GCK_RPC_CALL_C_DecryptDigestUpdate, C_DecryptDigestUpdate, rpc_C_DecryptDigestUpdate),
      (GCK_RPC_CALL_C_SignEncryptUpdate, C_SignEncryptUpdate, rpc_C_SignEncryptUpdate),
      (GCK_RPC_CALL_C_DecryptVerifyUpdate, C_DecryptVerifyUpdate, rpc_C_DecryptVerifyUpdate)]"

lemma data_calls_transparent:
  assumes "(i, sel, h) \<in> set data_calls" and "pkcs11_module E = Some M" "sel M = Some f"
    and "memory_ok E"
    and "bytes_contract (f session (fst dat) (snd dat))"
    and "byte_array_arg_valid dat"
    and "byte_buffer_arg_valid encrypted_data"
    and "pending s ''uayfy'' (encode_uint64 session @ encode_byte_array_arg dat @ encode_byte_buffer_arg encrypted_data)"
    and "replying s ''ay''"
  shows "answered s (f session (fst dat) (snd dat) (fst (byte_buffer_arg_view encrypted_data)) (snd (byte_buffer_arg_view encrypted_data))) bytes_result (h E s)"
proof -
  have h: "h E s =
     BEGIN_CALL E sel s (\<lambda>func.
     IN_ULONG s (\<lambda>session s.
     IN_BYTE_ARRAY s (\<lambda>(data, data_len) s.
     IN_BYTE_BUFFER E s (\<lambda>(encrypted_data, encrypted_data_len) s.
     PROCESS_CALL (func session data data_len encrypted_data encrypted_data_len)
       s (\<lambda>ret (encrypted_data, encrypted_data_len) s.
     OUT_BYTE_ARRAY encrypted_data encrypted_data_len ret s (\<lambda>ret s.
     END_CALL ret s))))))"
    using assms(1) unfolding data_calls_def list.set insert_iff prod.inject empty_iff
    by (elim disjE conjE) (simp_all only: rpc_C_Encrypt_def rpc_C_EncryptUpdate_def rpc_C_Decrypt_def rpc_C_DecryptUpdate_def
        rpc_C_Digest_def rpc_C_Sign_def rpc_C_SignRecover_def rpc_C_VerifyRecover_def
        rpc_C_DigestEncryptUpdate_def rpc_C_DecryptDigestUpdate_def
        rpc_C_SignEncryptUpdate_def rpc_C_DecryptVerifyUpdate_def)
  show ?thesis
    unfolding h split_beta
    by (rule answered_begin [where call = sel, OF assms(2,3)],
        rule in_ulong_next [OF after_read_refl [OF assms(8)]],
        rule in_byte_array_next [OF _ assms(6)],
        assumption,
        rule in_byte_buffer_last [OF assms(4) _ assms(7)],
        assumption,
        rule answered_bytes_beta [OF _ assms(9) assms(5) byte_buffer_view_sized], assumption)
qed

lemma DigestInit_transparent:
  assumes "pkcs11_module E = Some M" "C_DigestInit M = Some f"
    and "mechanism_valid mech"
    and "pending s ''uM'' (encode_uint64 session @ encode_mechanism mech)"
  shows "answered s (f session mech) no_results
    (rpc_C_DigestInit E s)"
  unfolding rpc_C_DigestInit_def
  by (rule answered_begin [where call = C_DigestInit, OF assms(1,2)],
      rule in_ulong_next [OF after_read_refl [OF assms(4)]],
      rule in_mechanism_last [OF _ assms(3)],
      assumption,
      rule answered_none, assumption)

lemma GenerateKey_transparent:
  assumes "pkcs11_module E = Some M" "C_GenerateKey M = Some f"
    and "memory_ok E"
    and "mechanism_valid mech"
    and "attributes_arg_valid tmpl"
    and "pending s ''uMaA'' (encode_uint64 session @ encode_mechanism mech @ encode_attributes_arg tmpl)"
    and "replying s ''u''"
  shows "answered s (f session mech (fst (attributes_view tmpl)) (snd (attributes_view tmpl))) (if_ok encode_uint64)
    (rpc_C_GenerateKey E s)"
  unfolding rpc_C_GenerateKey_def split_beta
  by (rule answered_begin [where call = C_GenerateKey, OF assms(1,2)],
      rule in_ulong_next [OF after_read_refl [OF assms(6)]],
      rule in_mechanism_next [OF _ assms(4)],
      assumption,
      rule in_attributes_last [OF assms(3) _ assms(5)],
      assumption,
      rule answered_ulong, assumption, rule assms(7))

lemma WrapKey_transparent:
  assumes "pkcs11_module E = Some M" "C_WrapKey M = Some f"
    and "memory_ok E"
    and "bytes_contract (f session mech wrapping_key key)"
    and "mechanism_valid mech"
    and "byte_buffer_arg_valid wrapped_key"
    and "pending s ''uMuufy'' (encode_uint64 session @ encode_mechanism mech @ encode_uint64 wrapping_key @ encode_uint64 key @ encode_byte_buffer_arg wrapped_key)"
    and "replying s ''ay''"
  shows "answered s (f session mech wrapping_key key (fst (byte_buffer_arg_view wrapped_key)) (snd (byte_buffer_arg_view wrapped_key))) bytes_result
    (rpc_C_WrapKey E s)"
  unfolding rpc_C_WrapKey_def split_beta
  by (rule answered_begin [where call = C_WrapKey, OF assms(1,2)],
      rule in_ulong_next [OF after_read_refl [OF assms(7)]],
      rule in_mechanism_next [OF _ assms(5)],
      assumption,
      rule in_ulong_next,
      assumption,
      rule in_ulong_next,
      assumption,
      rule in_byte_buffer_last [OF assms(3) _ assms(6)],
      assumption,
      rule answered_bytes_beta [OF _ assms(8) assms(4) byte_buffer_view_sized], assumption)

lemma UnwrapKey_transparent:
  assumes "pkcs11_module E = Some M" "C_UnwrapKey M = Some f"
    and "memory_ok E"
    and "mechanism_valid mech"
    and "byte_array_arg_valid wrapped_key"
    and "attributes_arg_valid tmpl"
    and "pending s ''uMuayaA'' (encode_uint64 session @ encode_mechanism mech @ encode_uint64 unwrapping_key @ encode_byte_array_arg wrapped_key @ encode_attributes_arg tmpl)"
    and "replying s ''u''"
  shows "answered s (f session mech unwrapping_key (fst wrapped_key) (snd wrapped_key) (fst (attributes_view tmpl)) (snd (attributes_view tmpl))) (if_ok encode_uint64)
    (rpc_C_UnwrapKey E s)"
  unfolding rpc_C_UnwrapKey_def split_beta
  by (rule answered_begin [where call = C_UnwrapKey, OF assms(1,2)],
      rule in_ulong_next [OF after_read_refl [OF assms(7)]],
      rule in_mechanism_next [OF _ assms(4)],
      assumption,
      rule in_ulong_next,
      assumption,
      rule in_byte_array_next [OF _ assms(5)],
      assumption,
      rule in_attributes_last [OF assms(3) _ assms(6)],
      assumption,
      rule answered_ulong, assumption, rule assms(8))

lemma DeriveKey_transparent:
  assumes "pkcs11_module E = Some M" "C_DeriveKey M = Some f"
    and "memory_ok E"
    and "mechanism_valid mech"
    and "attributes_arg_valid tmpl"
    and "pending s ''uMuaA'' (encode_uint64 session @ encode_mechanism mech @ encode_uint64 base_key @ encode_attributes_arg tmpl)"
    and "replying s ''u''"
  shows "answered s (f session mech base_key (fst (attributes_view tmpl)) (snd (attributes_view tmpl))) (if_ok encode_uint64)
    (rpc_C_DeriveKey E s)"
  unfolding rpc_C_DeriveKey_def split_beta
  by (rule answered_begin [where call = C_DeriveKey, OF assms(1,2)],
      rule in_ulong_next [OF after_read_refl [OF assms(6)]],
      rule in_mechanism_next [OF _ assms(4)],
      assumption,
      rule in_ulong_next,
      assumption,
      rule in_attributes_last [OF assms(3) _ assms(5)],
      assumption,
      rule answered_ulong, assumption, rule assms(7))

section \<open>Calls with a result that is changed or doubled\<close>

lemma GetSessionInfo_transparent:
  assumes "pkcs11_module E = Some M" "C_GetSessionInfo M = Some f"
    and "pending s ''u'' (encode_uint64 session)" "replying s ''uuuu''"
  shows "answered s (f session) (if_ok (\<lambda>info. encode_session_info (masked_session_info info)))
    (rpc_C_GetSessionInfo E s)"
  unfolding rpc_C_GetSessionInfo_def
  by (rule answered_begin [where call = C_GetSessionInfo, OF assms(1,2)],
      rule in_ulong_last [OF after_read_refl [OF assms(3)]],
      rule answered_session_info [OF _ assms(4)], assumption)

lemma WaitForSlotEvent_transparent:
  assumes "pkcs11_module E = Some M" "C_WaitForSlotEvent M = Some f"
    and "pending s ''u'' (encode_uint64 flags)" "replying s ''u''"
  shows "answered s (f flags) (if_ok (\<lambda>slot. encode_uint64 (CK_GNOME_APPARTMENT_SLOT slot)))
    (rpc_C_WaitForSlotEvent E s)"
proof -
  have eq: "OUT_ULONG (CK_GNOME_APPARTMENT_SLOT x) =
      OUT_IF_OK (\<lambda>s x. resp_put (put_ulong (CK_GNOME_APPARTMENT_SLOT x)) s) x" for x
    by (simp add: OUT_ULONG_def OUT_IF_OK_def fun_eq_iff)
  show ?thesis
    unfolding rpc_C_WaitForSlotEvent_def Let_def eq
    by (rule answered_begin [where call = C_WaitForSlotEvent, OF assms(1,2)],
        rule in_ulong_last [OF after_read_refl [OF assms(3)]],
        rule answered_if_ok [OF _ assms(4) encodes_ulong], assumption)
qed

lemma GenerateRandom_transparent:
  assumes "pkcs11_module E = Some M" "C_GenerateRandom M = Some f" "memory_ok E"
    and "random_contract (f session)" "byte_buffer_arg_valid (arr, Some n)"
    and "pending s ''ufy'' (encode_uint64 session @ encode_byte_buffer_arg (arr, Some n))"
    and "replying s ''ay''"
  shows "answered s (f session (fst (byte_buffer_arg_view (arr, Some n))) n)
    (\<lambda>ret x. bytes_result ret (x, Some n)) (rpc_C_GenerateRandom E s)"
proof -
  let ?arr = "fst (byte_buffer_arg_view (arr, Some n))"
  have v: "snd (byte_buffer_arg_view (arr, Some n)) = Some n" by (simp add: byte_buffer_arg_view_def)
  have "answered s (f session ?arr n) (\<lambda>ret x. bytes_result ret (x, Some n))
      (PROCESS_CALL (f session ?arr n) s2 (\<lambda>ret x s. OUT_BYTE_ARRAY x (Some n) ret s (\<lambda>ret s. END_CALL ret s)))"
    if r: "after_read s [] [] s2" for s2
  proof (rule answered_put [OF r assms(7), where wr = "\<lambda>ret x m. gck_rpc_message_write_byte_array m
      (if ret = CKR_BUFFER_TOO_SMALL then None else x) n"], goal_cases)
    case (1 ret x w s')
    then show ?case
      by (auto simp: OUT_BYTE_ARRAY_def proto_write_byte_array_def END_CALL_def bytes_result_def)
  next
    case (2 ret x w ys)
    have "map_option length x = map_option length ?arr"
      using assms(4) 2(1) unfolding random_contract_def
      by (auto dest!: spec [of _ ?arr] spec [of _ n] spec [of _ "world s"])
    then have "unat n \<le> length zs" if "x = Some zs" for zs
      using that by (auto simp: byte_buffer_arg_view_def split: if_splits)
    then show ?case using 2(2) by (auto intro!: encodes_bytes simp: bytes_result_def split: if_splits)
  qed
  then show ?thesis
    unfolding rpc_C_GenerateRandom_def split_beta
    by (intro answered_begin [where call = C_GenerateRandom, OF assms(1,2)]
        in_ulong_next [OF after_read_refl [OF assms(6)]] in_byte_buffer_last [OF assms(3) _ assms(5)])
      (auto simp: v)
qed

lemma resp_put_two:
  "obind (resp_put f s) (\<lambda>(ret, s).
     if ret = CKR_OK then obind (resp_put g s) (\<lambda>(ret, s). Ret (ret, s)) else Ret (ret, s)) =
   resp_put (put_fields [f, g]) s"
proof (cases "resp s")
  case (Ptr m)
  show ?thesis
  proof (cases "f m")
    case (Ret x)
    obtain ok m1 where x: "x = (ok, m1)" by (cases x)
    show ?thesis
      using Ptr Ret x by (cases "g m1") (auto simp: resp_put_def on_resp_def)
  qed (use Ptr in \<open>auto simp: resp_put_def on_resp_def\<close>)
qed (auto simp: resp_put_def on_resp_def)

lemma GenerateKeyPair_transparent:
  assumes "pkcs11_module E = Some M" "C_GenerateKeyPair M = Some f" "memory_ok E"
    and "mechanism_valid mech" "attributes_arg_valid pub" "attributes_arg_valid priv"
    and "pending s ''uMaAaA'' (encode_uint64 session @ encode_mechanism mech @
      encode_attributes_arg pub @ encode_attributes_arg priv)"
    and "replying s ''uu''"
  shows "answered s (f session mech (fst (attributes_view pub)) (snd (attributes_view pub))
      (fst (attributes_view priv)) (snd (attributes_view priv)))
    (if_ok (\<lambda>(k1, k2). encode_uint64 k1 @ encode_uint64 k2)) (rpc_C_GenerateKeyPair E s)"
proof -
  have "answered s F (if_ok (\<lambda>(k1, k2). encode_uint64 k1 @ encode_uint64 k2))
      (PROCESS_CALL F s2 (\<lambda>ret (k1, k2) s. OUT_ULONG k1 ret s (\<lambda>ret s. OUT_ULONG k2 ret s (\<lambda>ret s.
       END_CALL ret s))))" if r: "after_read s [] [] s2" for F s2
  proof (rule answered_put [OF r assms(8), where wr = "\<lambda>_ (k1, k2). put_fields [put_ulong k1, put_ulong k2]"], goal_cases)
    case (1 ret x w s')
    show ?case
      by (cases x) (auto simp: if_ok_def OUT_ULONG_def OUT_IF_OK_def END_CALL_def resp_put_two)
  next
    case (2 ret x w ys)
    obtain k1 k2 where x: "x = (k1, k2)" by (cases x)
    have "encodes (put_fields [put_ulong k1, put_ulong k2]) (''u'' @ ''u'' @ [])
        (encode_uint64 k1 @ encode_uint64 k2 @ [])"
      by (intro encodes_rules)
    then show ?case using 2(2) x by (auto simp: if_ok_def split: if_splits)
  qed
  then show ?thesis
    unfolding rpc_C_GenerateKeyPair_def split_beta
    by (intro answered_begin [where call = C_GenerateKeyPair, OF assms(1,2)]
        in_ulong_next [OF after_read_refl [OF assms(7)]])
      (erule in_mechanism_next [OF _ assms(4)], erule in_attributes_next [OF assms(3) _ assms(5)],
       erule in_attributes_last [OF assms(3) _ assms(6)], blast)
qed

section \<open>Reading a handle\<close>

lemma IN_ULONG_pending:
  assumes "pending s (''u'' @ sig) (encode_uint64 v @ rest)"
  shows "\<exists>s'. after_read s sig rest s' \<and> (\<forall>k. IN_ULONG s k = k v s')"
  using ulong_arg.read_gives [OF assms TrueI] by (auto simp: gives_def IN_ULONG_def IN_ARG_def)

section \<open>The session table\<close>

text \<open>
  Opening a session records it, unless the table is full: then the client gets
  \<open>CKR_SESSION_COUNT\<close>, although the module has opened the session.
\<close>

lemma OpenSession_records:
  assumes E: "pkcs11_module E = Some M" "C_OpenSession M = Some f"
    and p: "pending s ''uu'' (encode_uint64 slot @ encode_uint64 flags)" "replying s ''u''"
    and F: "f slot flags (world s) = (ret, session, w)"
  shows "\<exists>ret' s'. rpc_C_OpenSession E s = Ret (ret', s') \<and> world s' = w \<and>
    (if ret \<noteq> CKR_OK then ret' = ret \<and> sessions s' = sessions s
     else if table_full (sessions s) then ret' = CKR_SESSION_COUNT \<and> sessions s' = sessions s
     else (session \<noteq> 0 \<longrightarrow> opened (sessions s') = add_mset (session, slot) (opened (sessions s))) \<and>
       (ret' = CKR_OK \<and> response_gained s (encode_uint64 session) s' \<or>
        ret' = PREP_ERROR \<and> response_failed s' \<and> \<not> response_room s 8))"
    (is "?P (rpc_C_OpenSession E s)")
proof -
  have "?P (PROCESS_CALL (f slot flags) s2 (\<lambda>ret session s.
     if ret = CKR_OK then
       (case store_session (sessions s) session slot of
          None \<Rightarrow> END_CALL CKR_SESSION_COUNT s
        | Some ss \<Rightarrow> OUT_ULONG session ret (s\<lparr>sessions := ss\<rparr>) (\<lambda>ret s. END_CALL ret s))
     else OUT_ULONG session ret s (\<lambda>ret s. END_CALL ret s)))"
    if r: "after_read s [] [] s2" for s2
  proof -
    obtain q where q: "req s2 = Ptr q" "gck_rpc_message_is_verified q"
      using verified_pending [OF after_read_pending [OF r]] by blast
    have s2: "world s2 = world s" "sessions s2 = sessions s" "resp s2 = resp s"
      using r by (auto simp: after_read_def)
    show ?thesis
    proof (cases "store_session (sessions s) session slot")
      case None
      then show ?thesis
        using q s2 F store_session_None [of "sessions s" session slot]
        by (auto simp: PROCESS_CALL_def END_CALL_def OUT_ULONG_def OUT_IF_OK_def)
    next
      case (Some ss)
      let ?s = "s2\<lparr>world := w, sessions := ss\<rparr>"
      have "replying ?s ''u''" using p(2) s2 by (simp add: replying_def)
      then obtain ret' s' where "resp_put (put_ulong session) ?s = Ret (ret', s')" "world s' = w"
        "sessions s' = ss"
        "ret' = CKR_OK \<and> response_gained ?s (encode_uint64 session) s' \<or>
         ret' = PREP_ERROR \<and> response_failed s' \<and> \<not> response_room ?s 8"
        using resp_put_gains [OF _ encodes_ulong, of ?s session] by (auto simp: encode_uint64_def)
      moreover have "\<not> table_full (sessions s)" using Some store_session_None [of "sessions s" session slot] by auto
      ultimately show ?thesis
        using q s2 F Some store_session_opened [OF Some]
        by (auto simp: PROCESS_CALL_def END_CALL_def OUT_ULONG_def OUT_IF_OK_def response_gained_def response_room_def)
    qed
  qed
  moreover obtain s1 where s1: "after_read s ''u'' (encode_uint64 flags) s1" "\<And>k. IN_ULONG s k = k slot s1"
    using IN_ULONG_pending [of s "''u''" slot] p(1) by auto
  moreover obtain s2 where "after_read s1 [] [] s2" "\<And>k. IN_ULONG s1 k = k flags s2"
    using IN_ULONG_pending [of s1 "[]" flags "[]"] after_read_pending [OF s1(1)] by auto
  ultimately show ?thesis
    using E after_read_trans [OF s1(1)] by (simp add: rpc_C_OpenSession_def BEGIN_CALL_def)
qed

lemma CloseSession_removes:
  assumes E: "pkcs11_module E = Some M" "C_CloseSession M = Some f"
    and p: "pending s ''u'' (encode_uint64 session)"
    and F: "f session (world s) = (ret, u, w)"
  shows "\<exists>s'. rpc_C_CloseSession E s = Ret (ret, s') \<and> world s' = w \<and> resp s' = resp s \<and>
    sessions s' = (if ret = CKR_OK then remove_session (sessions s) session else sessions s)"
proof -
  obtain s1 where s1: "after_read s [] [] s1" "\<And>k. IN_ULONG s k = k session s1"
    using IN_ULONG_pending [of s "[]" session "[]"] p by auto
  obtain q where q: "req s1 = Ptr q" "gck_rpc_message_is_verified q"
    using verified_pending [OF after_read_pending [OF s1(1)]] by blast
  then show ?thesis
    using E F s1 by (auto simp: rpc_C_CloseSession_def BEGIN_CALL_def PROCESS_CALL_def END_CALL_def after_read_def)
qed

text \<open>
  \<open>C_CloseAllSessions\<close> is not passed on to the module: the daemon closes the sessions this
  connection has opened on the slot, one by one, and leaves those on other slots alone.
\<close>

lemma CloseAllSessions_closes:
  assumes E: "pkcs11_module E = Some M" "C_CloseAllSessions M = Some a" "C_GetSlotInfo M = Some g"
      "C_CloseSession M = Some f"
    and p: "pending s ''u'' (encode_uint64 slot)"
    and G: "g slot (world s) = (ret, info, w)"
  shows "\<exists>ret' s'. rpc_C_CloseAllSessions E s = Ret (ret', s') \<and> resp s' = resp s \<and>
    (if ret \<noteq> CKR_OK then ret' = ret \<and> sessions s' = sessions s \<and> world s' = w
     else (ret', world s') = (case close_in_turn f (slot_handles slot (sessions s)) w of (r, _, w') \<Rightarrow> (r, w')) \<and>
       filter_mset (\<lambda>(h, sl). sl \<noteq> slot) (opened (sessions s')) =
         filter_mset (\<lambda>(h, sl). sl \<noteq> slot) (opened (sessions s)) \<and>
       (ret' = CKR_OK \<longrightarrow>
          opened (sessions s') = filter_mset (\<lambda>(h, sl). sl \<noteq> slot) (opened (sessions s))))"
proof -
  obtain s1 where s1: "after_read s [] [] s1" "\<And>k. IN_ULONG s k = k slot s1"
    using IN_ULONG_pending [of s "[]" slot "[]"] p by auto
  then have f1: "world s1 = world s" "sessions s1 = sessions s" "resp s1 = resp s" by (auto simp: after_read_def)
  obtain r ss w' where cl: "close_slot_sessions (Some f) slot (sessions s) w = Ret (r, ss, w')"
    using close_slot_sessions_length [of f slot "sessions s" w] by auto
  note spec = close_slot_sessions_spec [OF cl]
  show ?thesis
    using E G s1(2) f1 cl spec
    by (cases "ret = CKR_OK") (auto simp: rpc_C_CloseAllSessions_def BEGIN_CALL_def END_CALL_def)
qed

text \<open>
  \<open>C_Finalize\<close> closes the sessions of the connection in turn, up to the first that the module
  does not close; the module itself is not finalized.
\<close>

lemma Finalize_closes:
  assumes E: "pkcs11_module E = Some M" "C_CloseSession M = Some f" and peers: "peers_ok s"
    and C: "close_in_turn f (handles (sessions s)) (world s) = (ret, closed, w)"
  shows "\<exists>s'. rpc_C_Finalize E s = Ret (ret, s') \<and> resp s' = resp s \<and>
    handles (sessions s) = closed @ handles (sessions s') \<and>
    (ret = CKR_OK \<longrightarrow> opened (sessions s') = {#})"
proof -
  obtain ss where ss: "close_sessions (Some f) (sessions s) (world s) = Ret (ret, ss, w)"
    "handles (sessions s) = closed @ handles ss" "ret = CKR_OK \<longrightarrow> opened ss = {#}"
    using close_sessions_spec [of f "sessions s" "world s"] C by auto
  obtain ds w' where "interrupt_waiters E (appid s) (sock s) (pkcs11_dispatchers s) w = Ret (ds, w')"
    using wp_interrupt_waiters [of "pkcs11_dispatchers s" E "appid s" "sock s" w] peers
    by (auto simp: peers_ok_def wp_iff)
  then show ?thesis using E ss by (simp add: rpc_C_Finalize_def)
qed

text \<open>\<open>C_Initialize\<close> only compares the handshake.\<close>

lemma Initialize_handshake:
  assumes "pkcs11_module E = Some M" "byte_array_arg_valid hs"
    and "pending s ''ay'' (encode_byte_array_arg hs)"
  shows "\<exists>s'. rpc_C_Initialize E s =
      Ret (if hs = (Some GCK_RPC_HANDSHAKE, GCK_RPC_HANDSHAKE_LEN) then CKR_OK else CKR_GENERAL_ERROR, s') \<and>
    world s' = world s \<and> sessions s' = sessions s \<and> resp s' = resp s"
proof -
  obtain s1 where s1: "proto_read_byte_array s = Ret (Inr hs, s1)" "after_read s [] [] s1"
    using byte_array_arg.read_gives [of s "[]" hs "[]"] assms(2,3) by (auto simp: gives_def)
  obtain q where q: "req s1 = Ptr q" "gck_rpc_message_is_verified q"
    using verified_pending [OF after_read_pending [OF s1(2)]] by blast
  obtain arr n where hs: "hs = (arr, n)" by (cases hs)
  show ?thesis
  proof (cases arr)
    case None
    then show ?thesis using assms(1) s1 q hs by (auto simp: rpc_C_Initialize_def after_read_def)
  next
    case (Some xs)
    then show ?thesis
      using assms(1,2) s1 q hs by (auto simp: rpc_C_Initialize_def after_read_def byte_array_arg_valid_def)
  qed
qed

end
