(* ===== verification/Dispatch_Answers.thy ===== *)
theory Dispatch_Answers
  imports Dispatch_Total Dispatch_Forward
begin

text \<open>
  Transparency of \<open>dispatch_call\<close>: the reply to a request is the header of the call with the
  encoded results, or the error message with the module's return value.
\<close>

definition reply_bytes :: "int \<Rightarrow> (CK_RV \<Rightarrow> 'a \<Rightarrow> block option) \<Rightarrow> CK_RV \<Rightarrow> 'a \<Rightarrow> block" where
  "reply_bytes i out ret x =
     (case out ret x of
        Some xs \<Rightarrow> encode_header i (call_signature i GCK_RPC_RESPONSE) @ xs
      | None \<Rightarrow> if ret = CKR_OK then encode_header i (call_signature i GCK_RPC_RESPONSE)
                else error_message ret)"

text \<open>
  What \<open>dispatch_call\<close> does with the call \<open>F\<close>: the module is called once, the sessions stay
  as they are, and the reply is the one above, or \<open>CKR_DEVICE_MEMORY\<close> when the response could
  not grow. When there is no reply at all, memory ran out before or after the call. Neither
  happens when memory is there for the response and the reply is shorter than 2 GB.
\<close>

definition response_roomy :: "'w Dispatcher \<Rightarrow> bool" where
  "response_roomy s \<longleftrightarrow> (\<exists>r. resp s = Ptr r \<and> roomy (buffer r))"

definition replied ::
  "'w Dispatcher \<Rightarrow> int \<Rightarrow> ('w, 'a) ck_call \<Rightarrow> (CK_RV \<Rightarrow> 'a \<Rightarrow> block option) \<Rightarrow>
   (bool \<times> 'w Dispatcher) outcome \<Rightarrow> bool" where
  "replied s i F out res \<longleftrightarrow>
     (case F (world s) of (ret, x, w) \<Rightarrow>
        \<exists>ok s'. res = Ret (ok, s') \<and> sessions s' = sessions s \<and>
          (ok \<longrightarrow> world s' = w \<and>
             (\<exists>r. resp s' = Ptr r \<and> failures (buffer r) = 0 \<and>
                contents (buffer r) \<in> {reply_bytes i out ret x, error_message PREP_ERROR})) \<and>
          (response_roomy s \<and> length (reply_bytes i out ret x) < 0x7fffffff \<longrightarrow>
             ok \<and> req_buffer s' = req_buffer s \<and>
             (\<exists>r. resp s' = Ptr r \<and> roomy (buffer r) \<and> contents (buffer r) = reply_bytes i out ret x)))"

lemma error_reply:
  assumes "resp s = Ptr r" "live_msg r"
  shows "\<exists>ok s'. on_resp s (error_response ret) = Ret (ok, s') \<and> sessions s' = sessions s \<and>
    world s' = world s \<and>
    (ok \<longrightarrow> (\<exists>r. resp s' = Ptr r \<and> failures (buffer r) = 0 \<and> contents (buffer r) = error_message ret)) \<and>
    req s' = req s \<and> (roomy (buffer r) \<longrightarrow> ok \<and> (\<exists>r. resp s' = Ptr r \<and> roomy (buffer r)))"
  using wp_error_response [OF assms(2), of ret] assms(1) by (auto simp: wp_iff on_resp_def)

lemma after_handler_replied:
  assumes a: "answered s F out (Ret (ret', s2))" and f: "out_ready i c ret' [] s2"
    and r: "resp s = Ptr r" "failures (buffer r) = 0"
      "contents (buffer r) = encode_header i (call_signature i GCK_RPC_RESPONSE)"
  shows "replied s i F out (after_handler ret' s2)"
proof -
  obtain ret x w where F: "F (world s) = (ret, x, w)" by (metis prod.exhaust)
  obtain q2 r2 where qr: "req s2 = Ptr q2" "resp s2 = Ptr r2" "live_msg r2" "msgs_live i q2 r2"
    "ret' = CKR_OK \<longrightarrow> sigverify r2 = Some []"
    using f by (cases "ret' = CKR_OK") (auto simp: out_ready_def live_def ready_def msgs_live_def)
  have s2: "world s2 = w" "sessions s2 = sessions s" "failures (buffer q2) = 0" "req_buffer s2 = req_buffer s"
    and res: "case out ret x of None \<Rightarrow> ret' = ret \<and> resp s2 = resp s
      | Some xs \<Rightarrow> ret' = CKR_OK \<and> response_gained s xs s2 \<or>
          ret' = PREP_ERROR \<and> response_failed s2 \<and> \<not> response_room s (length xs)"
    using a F qr(1) by (auto simp: answered_def req_sound_def)
  obtain rs where "call_signature i GCK_RPC_RESPONSE = Some rs"
    using qr(4) call_signature_some [of i GCK_RPC_RESPONSE] by (auto simp: msgs_live_def)
  then have m: "entry_response (gck_rpc_calls ! nat i) = Some rs" "signature r2 = Some rs"
    "call_id q2 = i" "call_id r2 = i" "call_type r2 = Some GCK_RPC_RESPONSE"
    using qr(4) by (auto simp: msgs_live_def call_signature_def)
  show ?thesis
  proof (cases "ret' = CKR_OK")
    case True
    then have c: "contents (buffer r2) = reply_bytes i out ret x" "failures (buffer r2) = 0"
      using res r qr(2) by (auto simp: reply_bytes_def response_gained_def split: option.splits)
    have "after_handler ret' s2 = Ret (True, s2)"
      using True qr c(2) m s2(3)
      by (auto simp: after_handler_def check_errors_def gck_rpc_message_buffer_error_def
          egg_buffer_has_error_def gck_rpc_message_is_verified_def)
    moreover have "roomy (buffer r2)" if "response_roomy s"
      using res True r qr(2) that by (auto simp: response_gained_def response_roomy_def split: option.splits)
    ultimately show ?thesis using F s2 qr(2) c by (auto simp: replied_def)
  next
    case False
    then have e: "error_message ret' \<in> {reply_bytes i out ret x, error_message PREP_ERROR}"
      using res by (auto simp: reply_bytes_def split: option.splits)
    have roomy: "error_message ret' = reply_bytes i out ret x \<and> resp s2 = resp s"
      if "response_roomy s" "length (reply_bytes i out ret x) < 0x7fffffff"
      using res False r that
      by (auto simp: reply_bytes_def response_roomy_def response_room_def spacious_def split: option.splits)
    have "after_handler ret' s2 = on_resp s2 (error_response ret')"
      using False qr by (simp add: after_handler_def check_errors_def)
    then obtain ok s' where a': "after_handler ret' s2 = Ret (ok, s')" "sessions s' = sessions s" "world s' = w"
      "ok \<longrightarrow> (\<exists>r. resp s' = Ptr r \<and> failures (buffer r) = 0 \<and> contents (buffer r) = error_message ret')"
      "req_buffer s' = req_buffer s" "roomy (buffer r2) \<longrightarrow> ok \<and> (\<exists>r. resp s' = Ptr r \<and> roomy (buffer r))"
      using error_reply [OF qr(2,3), of ret'] s2 req_buffer_cong by metis
    have "ok \<and> req_buffer s' = req_buffer s \<and>
      (\<exists>r. resp s' = Ptr r \<and> roomy (buffer r) \<and> contents (buffer r) = reply_bytes i out ret x)"
      if "response_roomy s" "length (reply_bytes i out ret x) < 0x7fffffff"
    proof -
      have "error_message ret' = reply_bytes i out ret x" "resp s2 = resp s" using roomy [OF that] by auto
      then show ?thesis using that(1) a'(4-6) qr(2) by (auto simp: response_roomy_def)
    qed
    moreover have "\<exists>r. resp s' = Ptr r \<and> failures (buffer r) = 0 \<and>
        contents (buffer r) \<in> {reply_bytes i out ret x, error_message PREP_ERROR}" if ok
      using that a'(4) e by force
    ultimately show ?thesis using F a'(1,2,3) by (simp add: replied_def)
  qed
qed

lemma dispatch_replied:
  assumes E: "env_ok E" and acc: "accepted c s" and q: "req s = Ptr q" and p: "pending s qs args"
    and rs: "call_signature (call_id q) GCK_RPC_RESPONSE = Some rs"
    and H: "\<And>s1. pending s1 qs args \<Longrightarrow> replying s1 rs \<Longrightarrow> world s1 = world s \<Longrightarrow>
      answered s1 F out (run_handler (call_id q) E s1)"
  shows "replied s (call_id q) F out (dispatch_call E s)"
proof -
  let ?i = "call_id q"
  obtain r where i: "0 < ?i" "?i < GCK_RPC_CALL_MAX" "prepared ?i GCK_RPC_REQUEST q"
    and r: "resp s = Ptr r" "live_msg r" "live_msg q" "conn s = c" "length (sessions s) = 256" "peers_ok s"
    using acc q by (auto simp: accepted_def idle_def)
  obtain ok r1 where w: "gck_rpc_message_prep r ?i GCK_RPC_RESPONSE = Ret (ok, r1)"
    "prepared ?i GCK_RPC_RESPONSE r1" "allocator (buffer r1) = allocator (buffer r)"
    "ok \<longleftrightarrow> failures (buffer r1) = 0"
    "ok \<longrightarrow> contents (buffer r1) = encode_header ?i (call_signature ?i GCK_RPC_RESPONSE)"
    "roomy (buffer r) \<longrightarrow> ok \<and> roomy (buffer r1)"
    using wp_message_prep [of r ?i GCK_RPC_RESPONSE] i r
    by (fastforce simp: wp_iff live_msg_def header_signature_def)
  let ?s = "s\<lparr>resp := Ptr r1\<rparr>"
  show ?thesis
  proof (cases ok)
    case False
    then show ?thesis using q i r w
      by (auto simp: replied_def dispatch_call_def on_resp_def response_roomy_def split: prod.split)
  next
    case True
    obtain qs' where qs': "call_signature ?i GCK_RPC_REQUEST = Some qs'"
      using call_signature_some [OF i(1,2)] by blast
    have rdy: "ready ?i c qs' rs ?s"
      using q i r w rs qs' True
      by (auto simp: ready_def conn_def msgs_live_def live_msg_def prepared_def header_signature_def)
    have "pending ?s qs args" "replying ?s rs" "world ?s = world s"
      using p w rs i by (auto simp: pending_def replying_def prepared_def header_signature_def)
    then have a: "answered ?s F out (run_handler ?i E ?s)" by (rule H)
    obtain ret' s2 where h: "run_handler ?i E ?s = Ret (ret', s2)" "out_ready ?i c ret' [] s2"
      using wp_run_handler [OF E i(1,2), of c ?s] rdy rs qs' by (auto simp: wp_iff finished_def)
    then have "replied ?s ?i F out (after_handler ret' s2)"
      using after_handler_replied [of ?s F out ret' s2 ?i c r1] a w True by simp
    moreover have "dispatch_call E s = after_handler ret' s2"
      using q i r w h True by (simp add: dispatch_call_def on_resp_def)
    moreover have "response_roomy s \<Longrightarrow> response_roomy ?s" using r(1) w(6) by (simp add: response_roomy_def)
    ultimately show ?thesis by (auto simp: replied_def split: prod.splits)
  qed
qed

section \<open>The groups of calls in the switch\<close>

text \<open>
  An entry of a group of \<^verbatim>\<open>Dispatch_Forward\<close> is the handler the \<open>switch\<close> runs for its call
  number, and the table has the response signature \<open>rs\<close> for it.
\<close>

definition switched :: "string \<Rightarrow> int \<times> 'f \<times> 'w handler \<Rightarrow> bool" where
  "switched rs e \<longleftrightarrow>
     run_handler (fst e) = snd (snd e) \<and> call_signature (fst e) GCK_RPC_RESPONSE = Some rs"

lemma switchedD:
  "switched rs (i, sel, h) \<Longrightarrow> run_handler i = h \<and> call_signature i GCK_RPC_RESPONSE = Some rs"
  by (simp add: switched_def)

lemma run_handler_eq: "map_of rpc_handlers i = Some f \<Longrightarrow> run_handler i = f"
  by (simp add: run_handler_def fun_eq_iff)

lemma switchedI:
  "map_of rpc_handlers i = Some h \<Longrightarrow> call_signature i GCK_RPC_RESPONSE = Some rs \<Longrightarrow>
   switched rs (i, sel, h)"
  by (simp add: switched_def run_handler_eq)

lemmas switch_simps = rpc_handlers_def call_signature_def gck_rpc_calls_def rpc_call_def

lemma data_calls_switched: "list_all (switched ''ay'') data_calls"
  unfolding data_calls_def list.pred_inject by (intro conjI TrueI switchedI) (simp_all add: switch_simps)

lemma init_calls_switched: "list_all (switched []) init_calls"
  unfolding init_calls_def list.pred_inject by (intro conjI TrueI switchedI) (simp_all add: switch_simps)

lemma session_calls_switched: "list_all (switched []) session_calls"
  unfolding session_calls_def list.pred_inject by (intro conjI TrueI switchedI) (simp_all add: switch_simps)

lemma pair_calls_switched: "list_all (switched []) pair_calls"
  unfolding pair_calls_def list.pred_inject by (intro conjI TrueI switchedI) (simp_all add: switch_simps)

lemma update_calls_switched: "list_all (switched []) update_calls"
  unfolding update_calls_def list.pred_inject by (intro conjI TrueI switchedI) (simp_all add: switch_simps)

lemma two_array_calls_switched: "list_all (switched []) two_array_calls"
  unfolding two_array_calls_def list.pred_inject by (intro conjI TrueI switchedI) (simp_all add: switch_simps)

lemma final_calls_switched: "list_all (switched ''ay'') final_calls"
  unfolding final_calls_def list.pred_inject by (intro conjI TrueI switchedI) (simp_all add: switch_simps)

text \<open>The functions of a group keep the contract for byte buffers when the module does.\<close>

lemma data_calls_contract:
  assumes "module_ok M" "(i, sel, h) \<in> set data_calls" "sel M = Some f"
  shows "bytes_contract (f a b c)"
  using assms unfolding data_calls_def list.set insert_iff prod.inject empty_iff module_ok_def
  by (elim disjE conjE) auto

lemma final_calls_contract:
  assumes "module_ok M" "(i, sel, h) \<in> set final_calls" "sel M = Some f"
  shows "bytes_contract (f a)"
  using assms unfolding final_calls_def list.set insert_iff prod.inject empty_iff module_ok_def
  by (elim disjE conjE) auto

text \<open>When the handlers of a group answer, so does \<open>dispatch_call\<close>.\<close>

lemma dispatch_group:
  fixes s :: "'w Dispatcher" and h :: "'w handler"
  assumes "env_ok E" "accepted c s" "req s = Ptr q" "list_all (switched rs) calls" "(call_id q, sel, h) \<in> set calls"
    and "pending s qs args"
    and "\<And>s1. pending s1 qs args \<Longrightarrow> replying s1 rs \<Longrightarrow> answered s1 F out (h E s1)"
  shows "replied s (call_id q) F out (dispatch_call E s)"
proof -
  have sw: "run_handler (call_id q) = h" "call_signature (call_id q) GCK_RPC_RESPONSE = Some rs"
    using assms(4,5) by (auto simp: list_all_iff dest!: bspec switchedD)
  show ?thesis
    by (rule dispatch_replied [OF assms(1-3,6) sw(2)], unfold sw(1), rule assms(7))
qed

lemma dispatch_data:
  fixes s :: "'w Dispatcher" and h :: "'w handler"
  assumes E: "env_ok E" "memory_ok E" "pkcs11_module E = Some M"
    and acc: "accepted c s" and q: "req s = Ptr q"
    and sel: "(call_id q, sel, h) \<in> set data_calls" "sel M = Some f"
    and v: "byte_array_arg_valid dat" "byte_buffer_arg_valid out"
    and p: "pending s ''uayfy'' (encode_uint64 session @ encode_byte_array_arg dat @ encode_byte_buffer_arg out)"
  shows "replied s (call_id q)
    (f session (fst dat) (snd dat) (fst (byte_buffer_arg_view out)) (snd (byte_buffer_arg_view out)))
    bytes_result (dispatch_call E s)"
proof -
  have M: "module_ok M" using E by (simp add: env_ok_def)
  show ?thesis
    by (rule dispatch_group [OF E(1) acc q data_calls_switched sel(1) p],
        rule data_calls_transparent [OF sel(1) E(3) sel(2) E(2) data_calls_contract [OF M sel] v])
qed

lemma dispatch_final:
  fixes s :: "'w Dispatcher" and h :: "'w handler"
  assumes E: "env_ok E" "memory_ok E" "pkcs11_module E = Some M"
    and acc: "accepted c s" and q: "req s = Ptr q"
    and sel: "(call_id q, sel, h) \<in> set final_calls" "sel M = Some f"
    and v: "byte_buffer_arg_valid out"
    and p: "pending s ''ufy'' (encode_uint64 session @ encode_byte_buffer_arg out)"
  shows "replied s (call_id q) (f session (fst (byte_buffer_arg_view out)) (snd (byte_buffer_arg_view out)))
    bytes_result (dispatch_call E s)"
proof -
  have M: "module_ok M" using E by (simp add: env_ok_def)
  show ?thesis
    by (rule dispatch_group [OF E(1) acc q final_calls_switched sel(1) p],
        rule final_calls_transparent [OF sel(1) E(3) sel(2) E(2) final_calls_contract [OF M sel] v])
qed

lemma dispatch_init:
  fixes s :: "'w Dispatcher" and h :: "'w handler"
  assumes E: "env_ok E" "pkcs11_module E = Some M"
    and acc: "accepted c s" and q: "req s = Ptr q"
    and sel: "(call_id q, sel, h) \<in> set init_calls" "sel M = Some f"
    and v: "mechanism_valid mech"
    and p: "pending s ''uMu'' (encode_uint64 session @ encode_mechanism mech @ encode_uint64 key)"
  shows "replied s (call_id q) (f session mech key) no_results (dispatch_call E s)"
  by (rule dispatch_group [OF E(1) acc q init_calls_switched sel(1) p], rule init_calls_transparent [OF sel(1) E(2) sel(2) v])

lemma dispatch_session:
  fixes s :: "'w Dispatcher" and h :: "'w handler"
  assumes E: "env_ok E" "pkcs11_module E = Some M"
    and acc: "accepted c s" and q: "req s = Ptr q"
    and sel: "(call_id q, sel, h) \<in> set session_calls" "sel M = Some f"
    and p: "pending s ''u'' (encode_uint64 session)"
  shows "replied s (call_id q) (f session) no_results (dispatch_call E s)"
  by (rule dispatch_group [OF E(1) acc q session_calls_switched sel(1) p], rule session_calls_transparent [OF sel(1) E(2) sel(2)])

lemma dispatch_pair:
  fixes s :: "'w Dispatcher" and h :: "'w handler"
  assumes E: "env_ok E" "pkcs11_module E = Some M"
    and acc: "accepted c s" and q: "req s = Ptr q"
    and sel: "(call_id q, sel, h) \<in> set pair_calls" "sel M = Some f"
    and p: "pending s ''uu'' (encode_uint64 session @ encode_uint64 object)"
  shows "replied s (call_id q) (f session object) no_results (dispatch_call E s)"
  by (rule dispatch_group [OF E(1) acc q pair_calls_switched sel(1) p], rule pair_calls_transparent [OF sel(1) E(2) sel(2)])

lemma dispatch_update:
  fixes s :: "'w Dispatcher" and h :: "'w handler"
  assumes E: "env_ok E" "pkcs11_module E = Some M"
    and acc: "accepted c s" and q: "req s = Ptr q"
    and sel: "(call_id q, sel, h) \<in> set update_calls" "sel M = Some f" and v: "byte_array_arg_valid dat"
    and p: "pending s ''uay'' (encode_uint64 session @ encode_byte_array_arg dat)"
  shows "replied s (call_id q) (f session (fst dat) (snd dat)) no_results (dispatch_call E s)"
  by (rule dispatch_group [OF E(1) acc q update_calls_switched sel(1) p], rule update_calls_transparent [OF sel(1) E(2) sel(2) v])

lemma dispatch_two_array:
  fixes s :: "'w Dispatcher" and h :: "'w handler"
  assumes E: "env_ok E" "pkcs11_module E = Some M"
    and acc: "accepted c s" and q: "req s = Ptr q"
    and sel: "(call_id q, sel, h) \<in> set two_array_calls" "sel M = Some f"
    and v: "byte_array_arg_valid dat" "byte_array_arg_valid dat'"
    and p: "pending s ''uayay'' (encode_uint64 session @ encode_byte_array_arg dat @ encode_byte_array_arg dat')"
  shows "replied s (call_id q) (f session (fst dat) (snd dat) (fst dat') (snd dat')) no_results (dispatch_call E s)"
  by (rule dispatch_group [OF E(1) acc q two_array_calls_switched sel(1) p],
      rule two_array_calls_transparent [OF sel(1) E(2) sel(2) v])

text \<open>Three functions whose arguments have a shape of their own.\<close>

lemma dispatch_one:
  assumes "env_ok E" "accepted c s" "req s = Ptr q" "call_id q = i" "switched rs (i, sel, h)" "pending s qs args"
    and "\<And>s1. pending s1 qs args \<Longrightarrow> answered s1 F out (h E s1)"
  shows "replied s (call_id q) F out (dispatch_call E s)"
  by (rule dispatch_group [where calls = "[(i, sel, h)]" and sel = sel and h = h, OF assms(1-3) _ _ assms(6)])
    (use assms in auto)

lemma one_switched:
  "switched [] (GCK_RPC_CALL_C_Login, C_Login, rpc_C_Login)"
  "switched [] (GCK_RPC_CALL_C_DigestInit, C_DigestInit, rpc_C_DigestInit)"
  "switched [] (GCK_RPC_CALL_C_SetOperationState, C_SetOperationState, rpc_C_SetOperationState)"
  by (rule switchedI; simp add: switch_simps)+

lemma dispatch_login:
  assumes E: "env_ok E" "pkcs11_module E = Some M"
    and q: "accepted c s" "req s = Ptr q" "call_id q = GCK_RPC_CALL_C_Login"
    and f: "C_Login M = Some f" "byte_array_arg_valid pin"
    and p: "pending s ''uuay'' (encode_uint64 session @ encode_uint64 user_type @ encode_byte_array_arg pin)"
  shows "replied s (call_id q) (f session user_type (fst pin) (snd pin)) no_results (dispatch_call E s)"
  by (rule dispatch_one [OF E(1) q one_switched(1) p], rule Login_transparent [OF E(2) f])

lemma dispatch_digest_init:
  assumes E: "env_ok E" "pkcs11_module E = Some M"
    and q: "accepted c s" "req s = Ptr q" "call_id q = GCK_RPC_CALL_C_DigestInit"
    and f: "C_DigestInit M = Some f" "mechanism_valid mech"
    and p: "pending s ''uM'' (encode_uint64 session @ encode_mechanism mech)"
  shows "replied s (call_id q) (f session mech) no_results (dispatch_call E s)"
  by (rule dispatch_one [OF E(1) q one_switched(2) p], rule DigestInit_transparent [OF E(2) f])

lemma dispatch_set_state:
  assumes E: "env_ok E" "pkcs11_module E = Some M"
    and q: "accepted c s" "req s = Ptr q" "call_id q = GCK_RPC_CALL_C_SetOperationState"
    and f: "C_SetOperationState M = Some f" "byte_array_arg_valid dat"
    and p: "pending s ''uayuu'' (encode_uint64 session @ encode_byte_array_arg dat @ encode_uint64 ekey @ encode_uint64 akey)"
  shows "replied s (call_id q) (f session (fst dat) (snd dat) ekey akey) no_results (dispatch_call E s)"
  by (rule dispatch_one [OF E(1) q one_switched(3) p], rule SetOperationState_transparent [OF E(2) f])

end
