(* ===== verification/Samples.thy ===== *)
theory Samples
  imports Dispatch_Layer Dispatch_Answers
begin

text \<open>
  A concrete instance of everything outside the daemon: a heap, a small module that meets the
  contract, messages and dispatchers. The theorems of the development are applied to it, which
  shows that their hypotheses can be met.
\<close>

section \<open>Buffers and messages\<close>

abbreviation (input) sample_heap :: EggBufferAllocator where
  "sample_heap \<equiv> DEFAULT_ALLOCATOR 17179869184"

definition sample_buffer :: "block \<Rightarrow> EggBuffer" where
  "sample_buffer xs =
     \<lparr>buf = Some xs, len = of_nat (length xs), allocated_len = of_nat (length xs), failures = 0,
      allocator = Some sample_heap\<rparr>"

lemma sample_heap_ample: "ample sample_heap"
  by (auto simp: ample_def c_library_realloc_def)

lemma sample_buffer_facts:
  assumes "length xs < 2 ^ 63"
  shows "egg_wf (sample_buffer xs)" "contents (sample_buffer xs) = xs"
  using assms unfolding sample_buffer_def egg_wf_def contents_def
  by (simp_all add: unat_of_nat_small c_heap.egg_allocator_axioms)

lemma sample_buffer_simps [simp]:
  "failures (sample_buffer xs) = 0" "allocator (sample_buffer xs) = Some sample_heap"
  "len (sample_buffer xs) = of_nat (length xs)" "allocated_len (sample_buffer xs) = of_nat (length xs)"
  by (simp_all add: sample_buffer_def)

definition sample_request :: "int \<Rightarrow> block \<Rightarrow> GckRpcMessage" where
  "sample_request i args =
     (let sig = call_signature i GCK_RPC_REQUEST; hd = encode_header i sig in
      \<lparr>call_id = i, call_type = Some GCK_RPC_REQUEST, signature = sig, buffer = sample_buffer (hd @ args),
       parsed = of_nat (length hd), sigverify = sig\<rparr>)"

definition sample_response :: "int \<Rightarrow> GckRpcMessage" where
  "sample_response i =
     (let sig = call_signature i GCK_RPC_RESPONSE in
      \<lparr>call_id = i, call_type = Some GCK_RPC_RESPONSE, signature = sig,
       buffer = sample_buffer (encode_header i sig), parsed = 0, sigverify = sig\<rparr>)"

definition sample_message :: "block \<Rightarrow> GckRpcMessage" where
  "sample_message xs =
     \<lparr>call_id = 0, call_type = None, signature = None, buffer = sample_buffer xs, parsed = 0, sigverify = None\<rparr>"

text \<open>A buffer with room: \<open>n\<close> bytes of memory, none of them in use.\<close>

definition empty_buffer :: "nat \<Rightarrow> EggBuffer" where
  "empty_buffer n = (sample_buffer (replicate n 0))\<lparr>len := 0\<rparr>"

lemma empty_buffer_facts:
  "n < 2 ^ 63 \<Longrightarrow> egg_wf (empty_buffer n)" "contents (empty_buffer n) = []"
  by (simp_all add: empty_buffer_def sample_buffer_def egg_wf_def contents_def unat_of_nat_small
      c_heap.egg_allocator_axioms)

lemmas eval_buffer = sample_message_def empty_buffer_def sample_buffer_def Let_def c_bytes_def
  egg_buffer_add_byte_def egg_buffer_add_uint32_def egg_buffer_set_uint32_def egg_buffer_add_uint64_def
  egg_buffer_add_byte_array_def egg_buffer_append_def egg_buffer_has_error_def egg_buffer_reserve_def
  egg_buffer_encode_uint32_def

definition sample_mechanism :: CK_MECHANISM where
  "sample_mechanism = \<lparr>mechanism = CKM_AES_CBC_PAD, pParameter = Some [1, 2, 3], ulParameterLen = 3\<rparr>"

section \<open>The module and its environment\<close>

definition sample_slot_info :: CK_SLOT_INFO where
  "sample_slot_info =
     \<lparr>slotDescription = replicate 64 32, slot_manufacturerID = replicate 32 32, slot_flags = 1,
      slot_hardwareVersion = \<lparr>major = 1, minor = 0\<rparr>, slot_firmwareVersion = \<lparr>major = 1, minor = 2\<rparr>\<rparr>"

text \<open>The state of the module is a counter, from which it makes handles.\<close>

definition sample_module :: "CK_ULONG CK_FUNCTION_LIST" where
  "sample_module =
     CK_FUNCTION_LIST (Some (\<lambda>w. (CKR_OK, (), w + 2)))
       (Some (\<lambda>w. (CKR_OK, (), 0))) None
       (Some (\<lambda>present arr n w. (CKR_OK, (arr, n), w)))
       (Some (\<lambda>slot w. (CKR_OK, sample_slot_info, w))) None None None None None
       (Some (\<lambda>slot flags w. (CKR_OK, w + 1, w + 1)))
       (Some (\<lambda>session w. (CKR_OK, (), w))) (Some (\<lambda>slot w. (CKR_OK, (), w)))
       None None
       (Some (\<lambda>session w. (CKR_OK, \<lparr>slotID = 1025, session_state = 0, session_flags = 4, ulDeviceError = 0\<rparr>, w)))
       None None None None
       (Some (\<lambda>session user pin n w. (if user = 0 then CKR_OK else CKR_GENERAL_ERROR, (), w)))
       (Some (\<lambda>session w. (CKR_DEVICE_REMOVED, (), w)))
       (Some (\<lambda>session arr n w. (CKR_OK, w + 7, w + 7))) None None None
       (Some (\<lambda>session object arr n w. (CKR_OK, arr, w))) None None None None None None
       None None None None None None None None None None None
       (Some (\<lambda>session mech key w. (CKR_OK, (), w + 1)))
       (Some (\<lambda>session dat m arr n w. (CKR_OK, (arr, n), w + 1))) None None None None
       None None None None None None None None None None None None None None None None None"

lemma sample_module_sel [simp]:
  "C_Initialize sample_module = Some (\<lambda>w. (CKR_OK, (), w + 2))"
  "C_Finalize sample_module = Some (\<lambda>w. (CKR_OK, (), 0))"
  "C_GetInfo sample_module = None"
  "C_GetSlotList sample_module = Some (\<lambda>present arr n w. (CKR_OK, (arr, n), w))"
  "C_GetSlotInfo sample_module = Some (\<lambda>slot w. (CKR_OK, sample_slot_info, w))"
  "C_GetTokenInfo sample_module = None"
  "C_GetMechanismList sample_module = None"
  "C_GetMechanismInfo sample_module = None"
  "C_InitToken sample_module = None"
  "C_WaitForSlotEvent sample_module = None"
  "C_OpenSession sample_module = Some (\<lambda>slot flags w. (CKR_OK, w + 1, w + 1))"
  "C_CloseSession sample_module = Some (\<lambda>session w. (CKR_OK, (), w))"
  "C_CloseAllSessions sample_module = Some (\<lambda>slot w. (CKR_OK, (), w))"
  "C_GetFunctionStatus sample_module = None"
  "C_CancelFunction sample_module = None"
  "C_GetSessionInfo sample_module = Some (\<lambda>session w. (CKR_OK, \<lparr>slotID = 1025, session_state = 0, session_flags = 4, ulDeviceError = 0\<rparr>, w))"
  "C_InitPIN sample_module = None"
  "C_SetPIN sample_module = None"
  "C_GetOperationState sample_module = None"
  "C_SetOperationState sample_module = None"
  "C_Login sample_module = Some (\<lambda>session user pin n w. (if user = 0 then CKR_OK else CKR_GENERAL_ERROR, (), w))"
  "C_Logout sample_module = Some (\<lambda>session w. (CKR_DEVICE_REMOVED, (), w))"
  "C_CreateObject sample_module = Some (\<lambda>session arr n w. (CKR_OK, w + 7, w + 7))"
  "C_CopyObject sample_module = None"
  "C_DestroyObject sample_module = None"
  "C_GetObjectSize sample_module = None"
  "C_GetAttributeValue sample_module = Some (\<lambda>session object arr n w. (CKR_OK, arr, w))"
  "C_SetAttributeValue sample_module = None"
  "C_FindObjectsInit sample_module = None"
  "C_FindObjects sample_module = None"
  "C_FindObjectsFinal sample_module = None"
  "C_EncryptInit sample_module = None"
  "C_Encrypt sample_module = None"
  "C_EncryptUpdate sample_module = None"
  "C_EncryptFinal sample_module = None"
  "C_DecryptInit sample_module = None"
  "C_Decrypt sample_module = None"
  "C_DecryptUpdate sample_module = None"
  "C_DecryptFinal sample_module = None"
  "C_DigestInit sample_module = None"
  "C_Digest sample_module = None"
  "C_DigestUpdate sample_module = None"
  "C_DigestKey sample_module = None"
  "C_DigestFinal sample_module = None"
  "C_SignInit sample_module = Some (\<lambda>session mech key w. (CKR_OK, (), w + 1))"
  "C_Sign sample_module = Some (\<lambda>session dat m arr n w. (CKR_OK, (arr, n), w + 1))"
  "C_SignUpdate sample_module = None"
  "C_SignFinal sample_module = None"
  "C_SignRecoverInit sample_module = None"
  "C_SignRecover sample_module = None"
  "C_VerifyInit sample_module = None"
  "C_Verify sample_module = None"
  "C_VerifyUpdate sample_module = None"
  "C_VerifyFinal sample_module = None"
  "C_VerifyRecoverInit sample_module = None"
  "C_VerifyRecover sample_module = None"
  "C_DigestEncryptUpdate sample_module = None"
  "C_DecryptDigestUpdate sample_module = None"
  "C_SignEncryptUpdate sample_module = None"
  "C_DecryptVerifyUpdate sample_module = None"
  "C_GenerateKey sample_module = None"
  "C_GenerateKeyPair sample_module = None"
  "C_WrapKey sample_module = None"
  "C_UnwrapKey sample_module = None"
  "C_DeriveKey sample_module = None"
  "C_SeedRandom sample_module = None"
  "C_GenerateRandom sample_module = None"
  by (simp_all add: sample_module_def)

definition sample_env :: "CK_ULONG Env" where
  "sample_env =
     \<lparr>pkcs11_module = Some sample_module, c_realloc = sample_heap,
      c_malloc = (\<lambda>n w. (True, w)), c_shutdown = (\<lambda>fd w. (True, w))\<rparr>"

lemma sample_module_ok: "module_ok sample_module"
  by (simp add: module_ok_def returns_def sample_slot_info_def ck_slot_info_wf_def ulongs_contract_def
      bytes_contract_def attrs_contract_def attr_kept_def option.rel_refl list_all2_refl)

lemma sample_env_simps [simp]:
  "pkcs11_module sample_env = Some sample_module" "c_realloc sample_env = sample_heap"
  "c_malloc sample_env n w = (True, w)" "c_shutdown sample_env fd w = (True, w)"
  by (simp_all add: sample_env_def)

lemma sample_env_ok: "env_ok sample_env" "memory_ok sample_env"
    "egg_allocator (alloc_run (c_realloc sample_env))"
  by (simp_all add: env_ok_def memory_ok_def sample_module_ok c_heap.egg_allocator_axioms)

section \<open>Dispatchers\<close>

definition sample_dispatcher :: "int \<Rightarrow> block \<Rightarrow> CK_ULONG Dispatcher" where
  "sample_dispatcher i args =
     dispatcher_of ((new_call_state 5 SocketIo False)
       \<lparr>req := Ptr (sample_request i args), resp := Ptr (sample_response i)\<rparr>) [] 40"

lemma sample_dispatcher_simps [simp]:
  "req (sample_dispatcher i args) = Ptr (sample_request i args)"
  "resp (sample_dispatcher i args) = Ptr (sample_response i)"
  "world (sample_dispatcher i args) = 40" "pkcs11_dispatchers (sample_dispatcher i args) = []"
  "sessions (sample_dispatcher i args) = replicate 256 no_session"
  "sock (sample_dispatcher i args) = 5" "io (sample_dispatcher i args) = SocketIo"
  "use_tls (sample_dispatcher i args) = False" "appid (sample_dispatcher i args) = 0"
  by (simp_all add: sample_dispatcher_def dispatcher_of_def new_call_state_def)

abbreviation (input) sample_conn :: "u64 \<times> int \<times> IoFunctions \<times> bool" where
  "sample_conn \<equiv> (0, 5, SocketIo, False)"

lemma header_length:
  assumes "0 < i" "i < GCK_RPC_CALL_MAX"
  shows "length (encode_header i (call_signature i t)) < 128"
proof -
  obtain s where "call_signature i t = Some s" "length s < 64"
    using call_signature_some [OF assms] .
  then show ?thesis by (simp add: encode_header_def encode_byte_array_def)
qed

lemma sample_request_facts:
  assumes "0 < i" "i < GCK_RPC_CALL_MAX" "length args < 2 ^ 62"
  shows "egg_wf (buffer (sample_request i args))"
    "contents (buffer (sample_request i args)) = encode_header i (call_signature i GCK_RPC_REQUEST) @ args"
    "prepared i GCK_RPC_REQUEST (sample_request i args)"
    "unat (parsed (sample_request i args)) = length (encode_header i (call_signature i GCK_RPC_REQUEST))"
  using assms header_length [OF assms(1,2), of GCK_RPC_REQUEST]
  by (simp_all add: sample_request_def Let_def sample_buffer_facts prepared_def header_signature_def
      unat_of_nat_small)

lemma sample_accepted:
  assumes "0 < i" "i < GCK_RPC_CALL_MAX" "length args < 2 ^ 62"
  shows "accepted sample_conn (sample_dispatcher i args)"
  using assms sample_request_facts [OF assms] header_length [OF assms(1,2), of GCK_RPC_RESPONSE]
  by (simp add: accepted_def idle_def conn_def peers_ok_def live_msg_def sample_response_def Let_def
      sample_buffer_facts prepared_def) (simp add: sample_request_def Let_def)

lemma sample_pending:
  assumes "0 < i" "i < GCK_RPC_CALL_MAX" "length args < 2 ^ 62"
    and "call_signature i GCK_RPC_REQUEST = Some sig"
  shows "pending (sample_dispatcher i args) sig args"
  using assms sample_request_facts [OF assms(1-3)]
  by (auto simp: pending_def sample_request_def Let_def)

lemma sample_replying:
  assumes "0 < i" "i < GCK_RPC_CALL_MAX" "call_signature i GCK_RPC_RESPONSE = Some sig"
  shows "replying (sample_dispatcher i args) sig"
  using assms header_length [OF assms(1,2), of GCK_RPC_RESPONSE]
  by (auto simp: replying_def sample_response_def Let_def sample_buffer_facts)

lemma sample_serving:
  "length b = 4 \<Longrightarrow> 0 < i \<Longrightarrow> i < GCK_RPC_CALL_MAX \<Longrightarrow> serving sample_conn (sample_dispatcher i []) b"
  using sample_accepted [of i "[]"] by (simp add: serving_def accepted_def)

definition sample_net :: "RecvResult list \<Rightarrow> Net" where
  "sample_net ev = \<lparr>input = ev, sends = replicate 8 (SendBytes 65536), sent = [], start_tls_ok = True\<rparr>"

text \<open>A layer with an open socket and no connection.\<close>

definition sample_layer :: "CK_ULONG Layer" where
  "sample_layer =
     \<lparr>layer_module = Some sample_module, pkcs11_socket = 3, pkcs11_socket_path = ''tcp://127.0.0.1:2345'',
      dispatchers = [], dispatchers_mutex = False\<rparr>"

text \<open>An operating system that grants a Unix socket.\<close>

definition sample_system :: Listen_Env where
  "sample_system =
     \<lparr>le_strdup = True, le_addrs = (\<lambda>host port. None), le_listen = True, le_name = None, le_socket = 6,
      le_bind = True\<rparr>"

lemma sample_layer_ok: "layer_ok sample_layer"
  by (simp add: layer_ok_def sample_layer_def)

end
