(* ===== verification/Client_State.thy ===== *)
theory Client_State
  imports Dispatch_Loop Dispatch_Layer
begin

text \<open>
  The connections of the client module \<^verbatim>\<open>gck-rpc-module.c\<close>: the state of one call, writing and
  reading over its socket, connecting to the daemon, the pool of idle connections, and the
  dialogue of one call from \<open>call_lookup\<close> to \<open>call_done\<close>.
\<close>

section \<open>State\<close>

datatype CallStatus = CALL_INVALID | CALL_READY | CALL_PREP | CALL_TRANSIT | CALL_PARSE

text \<open>
  \<open>cl_net\<close> is the connection behind the socket, as in \<^verbatim>\<open>Dispatch_Loop\<close>. A call that failed with
  \<open>EPIPE\<close> is the end of its list of results. Of \<open>tls\<close> only whether it is null matters.
\<close>

record ClientCall =
  cl_socket :: int
  cl_req :: "GckRpcMessage option"
  cl_resp :: "GckRpcMessage option"
  call_status :: CallStatus
  cl_tls :: bool
  cl_net :: Net

abbreviation (input) MAX_CALL_STATE_POOL :: nat where
  "MAX_CALL_STATE_POOL \<equiv> 8"

text \<open>The global variables; \<open>n_attempts\<close> counts the connections that were tried.\<close>

record Client =
  pkcs11_initialized :: bool
  pkcs11_initialized_pid :: int
  pkcs11_app_id :: u64
  client_socket_path :: string
  tls_psk_key_filename :: string
  call_state_pool :: "ClientCall list"
  n_call_state_pool :: nat
  n_attempts :: nat

text \<open>
  What the operating system gives for one address of \<open>getaddrinfo\<close>: whether \<open>getnameinfo\<close>
  succeeds, the descriptor of \<open>socket\<close>, and whether the calls on it succeed.
\<close>

record ClientAddr =
  ca_name :: bool
  ca_socket :: int
  ca_nodelay :: bool
  ca_cloexec :: bool
  ca_connect :: bool

text \<open>
  One attempt to connect: the memory for the state, the resolver, a Unix socket, TLS, and the
  connection that results.
\<close>

record Connect =
  co_calloc :: bool
  co_strdup :: bool
  co_addrs :: "string \<Rightarrow> string option \<Rightarrow> ClientAddr list option"
  co_socket :: int
  co_cloexec :: bool
  co_connect :: bool
  co_tls_calloc :: bool
  co_tls_init :: "string \<Rightarrow> bool"
  co_net :: Net

text \<open>
  The environment: \<open>realloc\<close>, the successive attempts, and what the uninitialised local
  variables \<open>val\<close> and \<open>validity\<close> of the readers hold.
\<close>

record Client_Env =
  ce_realloc :: EggBufferAllocator
  ce_attempts :: "nat \<Rightarrow> Connect"
  ce_val :: u64
  ce_validity :: byte

definition call_allocator :: "Client_Env \<Rightarrow> EggBufferAllocator" where
  "call_allocator E = \<lparr>alloc_addr = 2, alloc_run = alloc_run (ce_realloc E)\<rparr>"

section \<open>Bytes over the socket\<close>

definition call_disconnect :: "ClientCall \<Rightarrow> ClientCall" where
  "call_disconnect cs = (if cl_socket cs \<noteq> - 1 then cs\<lparr>cl_socket := - 1\<rparr> else cs)"

text \<open>
  The loop of \<open>call_write\<close>: the return value, whether the socket was closed, the bytes that
  went out. Over TLS a failed write returns 0 and counts as progress.
\<close>

fun call_write_loop ::
  "bool \<Rightarrow> SendResult list \<Rightarrow> block \<Rightarrow> (CK_RV \<times> bool \<times> block \<times> SendResult list) outcome" where
  "call_write_loop tls ev [] = Ret (CKR_OK, False, [], ev)"
| "call_write_loop tls [] (x # xs) = (if tls then Hang else Ret (CKR_DEVICE_ERROR, True, [], []))"
| "call_write_loop tls (SendRetry # ev) (x # xs) = call_write_loop tls ev (x # xs)"
| "call_write_loop tls (SendFailed # ev) (x # xs) =
     (if tls then call_write_loop tls ev (x # xs) else Ret (CKR_DEVICE_ERROR, False, [], ev))"
| "call_write_loop tls (SendBytes n # ev) (x # xs) =
     obind (call_write_loop tls ev (drop n (x # xs))) (\<lambda>(ret, closed, ys, ev).
     Ret (ret, closed, take n (x # xs) @ ys, ev))"

definition call_write :: "ClientCall \<Rightarrow> block \<Rightarrow> (CK_RV \<times> ClientCall) outcome" where
  "call_write cs xs =
     assert_c (length xs > 0)
      (if cl_socket cs = - 1 then Ret (CKR_DEVICE_ERROR, cs)
       else
         obind (call_write_loop (cl_tls cs) (sends (cl_net cs)) xs) (\<lambda>(ret, closed, ys, ev).
         let net = cl_net cs;
             cs = cs\<lparr>cl_net := net\<lparr>sends := ev, sent := sent net @ ys\<rparr>\<rparr> in
         Ret (ret, if closed then call_disconnect cs else cs)))"

text \<open>The loop of \<open>call_read\<close>; over TLS a failed read returns 0, the end of the connection.\<close>

fun call_read_loop :: "bool \<Rightarrow> RecvResult list \<Rightarrow> nat \<Rightarrow> CK_RV \<times> bool \<times> block \<times> RecvResult list" where
  "call_read_loop tls ev 0 = (CKR_OK, False, [], ev)"
| "call_read_loop tls [] (Suc n) = (CKR_DEVICE_ERROR, True, [], [])"
| "call_read_loop tls (RecvRetry # ev) (Suc n) =
     (if tls then (CKR_DEVICE_ERROR, True, [], ev) else call_read_loop tls ev (Suc n))"
| "call_read_loop tls (RecvFailed # ev) (Suc n) = (CKR_DEVICE_ERROR, tls, [], ev)"
| "call_read_loop tls (RecvData xs # ev) (Suc n) =
     (if xs = [] then (CKR_DEVICE_ERROR, True, [], ev)
      else if Suc n \<le> length xs then (CKR_OK, False, take (Suc n) xs, push_back (drop (Suc n) xs) ev)
      else (case call_read_loop tls ev (Suc n - length xs) of
              (ret, closed, ys, ev) \<Rightarrow> (ret, closed, xs @ ys, ev)))"

text \<open>\<open>old\<close> is the memory read into; the second result is what it holds afterwards.\<close>

definition call_read :: "ClientCall \<Rightarrow> block \<Rightarrow> (CK_RV \<times> block \<times> ClientCall) outcome" where
  "call_read cs old =
     assert_c (length old > 0)
      (if cl_socket cs = - 1 then Ret (CKR_DEVICE_ERROR, old, cs)
       else
         (case call_read_loop (cl_tls cs) (input (cl_net cs)) (length old) of
            (ret, closed, xs, ev) \<Rightarrow>
              (let cs = cs\<lparr>cl_net := (cl_net cs)\<lparr>input := ev\<rparr>\<rparr> in
               Ret (ret, overlay xs old, if closed then call_disconnect cs else cs))))"

section \<open>Connecting\<close>

text \<open>
  The loop of \<open>_connect_to_host_port\<close>. When \<open>getnameinfo\<close> fails, \<open>continue\<close> goes back to the same
  address.
\<close>

fun connect_to :: "ClientAddr list \<Rightarrow> int outcome" where
  "connect_to [] = Ret (- 1)"
| "connect_to (a # as) =
     (if \<not> ca_name a then Hang
      else if ca_socket a \<ge> 0 \<and> ca_nodelay a \<and> ca_cloexec a \<and> ca_connect a then Ret (ca_socket a)
      else connect_to as)"

definition connect_to_host_port :: "ClientAddr list option \<Rightarrow> int outcome" where
  "connect_to_host_port addrs = (case addrs of None \<Rightarrow> Ret (- 1) | Some as \<Rightarrow> connect_to as)"

text \<open>The descriptor and whether TLS is in use (\<open>Inr\<close>), or the error that is returned.\<close>

definition open_socket :: "Connect \<Rightarrow> Client \<Rightarrow> (CK_RV + int \<times> bool) outcome" where
  "open_socket a C =
     (let path = client_socket_path C; tls = (take 6 path = ''tls://'') in
      if take 6 path = ''tcp://'' \<or> tls then
        (case gck_rpc_parse_host_port (co_strdup a) (drop 6 path) of
           None \<Rightarrow> Ret (Inl CKR_DEVICE_ERROR)
         | Some (host, port) \<Rightarrow>
             obind (connect_to_host_port (co_addrs a host port)) (\<lambda>fd.
             Ret (if fd = - 1 then Inl CKR_DEVICE_ERROR
                  else if \<not> tls then Inr (fd, False)
                  else if \<not> co_tls_calloc a then Inl CKR_HOST_MEMORY
                  else if \<not> co_tls_init a (tls_psk_key_filename C) then Inl CKR_DEVICE_ERROR
                  else if \<not> start_tls_ok (co_net a) then Inl CKR_DEVICE_ERROR
                  else Inr (fd, True))))
      else if co_socket a < 0 then Ret (Inl CKR_DEVICE_ERROR)
      else if \<not> co_cloexec a then Ret (Inl CKR_DEVICE_ERROR)
      else if \<not> co_connect a then Ret (Inl CKR_DEVICE_ERROR)
      else Ret (Inr (co_socket a, False)))"

definition call_connect :: "Connect \<Rightarrow> Client \<Rightarrow> ClientCall \<Rightarrow> (CK_RV \<times> ClientCall) outcome" where
  "call_connect a C cs =
     assert_c (cl_socket cs = - 1) (assert_c (call_status cs = CALL_INVALID)
     (assert_c (client_socket_path C \<noteq> [])
      (obind (open_socket a C) (\<lambda>r.
       case r of
         Inl e \<Rightarrow> Ret (e, cs)
       | Inr (fd, tls) \<Rightarrow>
           call_write (cs\<lparr>cl_socket := fd, call_status := CALL_READY, cl_tls := tls, cl_net := co_net a\<rparr>)
             (appid_bytes (pkcs11_app_id C))))))"

text \<open>The memory given back is not tracked; the assertions on the way are.\<close>

definition call_destroy :: "ClientCall \<Rightarrow> unit outcome" where
  "call_destroy cs =
     (let cs = call_disconnect cs in
      assert_c (cl_socket cs = - 1)
       (obind (gck_rpc_message_free (cl_req cs)) (\<lambda>_. gck_rpc_message_free (cl_resp cs))))"

section \<open>The life of a call\<close>

definition new_call :: "Connect \<Rightarrow> ClientCall" where
  "new_call a =
     \<lparr>cl_socket = - 1, cl_req = None, cl_resp = None, call_status = CALL_INVALID, cl_tls = False,
      cl_net = co_net a\<rparr>"

text \<open>The mutex around the pool is free again before and after each of these functions.\<close>

definition call_lookup :: "Client_Env \<Rightarrow> Client \<Rightarrow> ((CK_RV + ClientCall) \<times> Client) outcome" where
  "call_lookup E C =
     (case call_state_pool C of
        cs # rest \<Rightarrow>
          assert_c (n_call_state_pool C > 0)
           (let C = C\<lparr>call_state_pool := rest, n_call_state_pool := n_call_state_pool C - 1\<rparr> in
            assert_c (call_status cs = CALL_READY) (assert_c (cl_socket cs \<noteq> - 1) (Ret (Inr cs, C))))
      | [] \<Rightarrow>
          (let a = ce_attempts E (n_attempts C);
               C = C\<lparr>n_attempts := Suc (n_attempts C)\<rparr> in
           if \<not> co_calloc a then Ret (Inl CKR_HOST_MEMORY, C)
           else
             obind (call_connect a C (new_call a)) (\<lambda>(rv, cs).
             if rv \<noteq> CKR_OK then Ret (Inl rv, C)
             else assert_c (call_status cs = CALL_READY) (assert_c (cl_socket cs \<noteq> - 1) (Ret (Inr cs, C))))))"

definition call_prepare :: "Client_Env \<Rightarrow> ClientCall \<Rightarrow> int \<Rightarrow> (CK_RV \<times> ClientCall) outcome" where
  "call_prepare E cs i =
     assert_c (call_status cs = CALL_READY)
      (obind (case cl_req cs of
                Some m \<Rightarrow> Ret (Some m)
              | None \<Rightarrow> gck_rpc_message_new (ce_realloc E) (Some (call_allocator E))) (\<lambda>q.
       case q of
         None \<Rightarrow> Ret (CKR_HOST_MEMORY, cs)
       | Some m \<Rightarrow>
           obind (gck_rpc_message_reset m) (\<lambda>m.
           obind (gck_rpc_message_prep m i GCK_RPC_REQUEST) (\<lambda>(ok, m).
           let cs = cs\<lparr>cl_req := Some m\<rparr> in
           if \<not> ok then Ret (CKR_HOST_MEMORY, cs)
           else Ret (CKR_OK, cs\<lparr>call_status := CALL_PREP\<rparr>)))))"

text \<open>
  Reading the response into \<open>r\<close>. \<open>buf4\<close> is the array \<open>buf\<close>, which holds the length of the request
  before the length of the response is read into it. A response that cannot be parsed leaves
  \<open>ret\<close> at \<open>CKR_OK\<close>.
\<close>

definition receive_response ::
  "ClientCall \<Rightarrow> GckRpcMessage \<Rightarrow> block \<Rightarrow> (CK_RV \<times> GckRpcMessage \<times> ClientCall) outcome" where
  "receive_response cs r buf4 =
     obind (call_read cs buf4) (\<lambda>(ret, buf4, cs).
     if ret \<noteq> CKR_OK then Ret (ret, r, cs)
     else
       (let n = egg_buffer_decode_uint32 buf4 in
        case egg_buffer_reserve (buffer r) (ucast n + len (buffer r)) of
          (False, b) \<Rightarrow> Ret (CKR_HOST_MEMORY, r\<lparr>buffer := b\<rparr>, cs)
        | (True, b) \<Rightarrow>
            obind (mem_read (buf b) 0 (unat n)) (\<lambda>old.
            obind (call_read cs old) (\<lambda>(ret, xs, cs).
            obind (mem_write (buf b) 0 xs) (\<lambda>p.
            let b = b\<lparr>buf := p\<rparr> in
            if ret \<noteq> CKR_OK then Ret (ret, r\<lparr>buffer := b\<rparr>, cs)
            else
              (let b = snd (egg_buffer_add_empty b (ucast n)) in
               obind (gck_rpc_message_parse (r\<lparr>buffer := b\<rparr>) GCK_RPC_RESPONSE) (\<lambda>(_, r).
               Ret (CKR_OK, r, cs))))))))"

definition exchange ::
  "ClientCall \<Rightarrow> GckRpcMessage \<Rightarrow> GckRpcMessage \<Rightarrow> (CK_RV \<times> GckRpcMessage \<times> ClientCall) outcome" where
  "exchange cs q r =
     (let buf4 = egg_buffer_encode_uint32 (ucast (len (buffer q))) in
      obind (call_write cs buf4) (\<lambda>(ret, cs).
      if ret \<noteq> CKR_OK then Ret (ret, r, cs)
      else
        obind (mem_read (buf (buffer q)) 0 (unat (len (buffer q)))) (\<lambda>xs.
        obind (call_write cs xs) (\<lambda>(ret, cs).
        if ret \<noteq> CKR_OK then Ret (ret, r, cs)
        else receive_response cs r buf4))))"

definition call_send_recv :: "Client_Env \<Rightarrow> ClientCall \<Rightarrow> (CK_RV \<times> ClientCall) outcome" where
  "call_send_recv E cs =
     (case cl_req cs of
        None \<Rightarrow> Abort
      | Some q \<Rightarrow>
          assert_c (call_status cs = CALL_PREP)
           (let cs = cs\<lparr>call_status := CALL_TRANSIT\<rparr> in
            obind (case cl_resp cs of
                     Some r \<Rightarrow> Ret (Some r)
                   | None \<Rightarrow> gck_rpc_message_new (ce_realloc E) (Some (call_allocator E))) (\<lambda>p.
            case p of
              None \<Rightarrow> Ret (CKR_HOST_MEMORY, cs)
            | Some r \<Rightarrow>
                obind (gck_rpc_message_reset r) (\<lambda>r.
                obind (exchange (cs\<lparr>cl_req := None, cl_resp := None\<rparr>) q r) (\<lambda>(ret, r, cs).
                assert_c (call_status cs = CALL_TRANSIT)
                (assert_c (cl_resp cs = None) (assert_c (cl_req cs = None)
                 (Ret (ret, cs\<lparr>cl_resp := Some r, cl_req := Some q\<rparr>)))))))))"

definition call_run :: "Client_Env \<Rightarrow> ClientCall \<Rightarrow> (CK_RV \<times> ClientCall) outcome" where
  "call_run E cs =
     (case cl_req cs of
        None \<Rightarrow> Abort
      | Some q \<Rightarrow>
          assert_c (call_status cs = CALL_PREP) (assert_c (cl_socket cs \<noteq> - 1)
           (if gck_rpc_message_buffer_error q then Ret (CKR_HOST_MEMORY, cs)
            else
              assert_c (gck_rpc_message_is_verified q)
               (obind (call_send_recv E cs) (\<lambda>(ret, cs).
                let cs = cs\<lparr>call_status := CALL_PARSE\<rparr> in
                if ret \<noteq> CKR_OK then Ret (ret, cs)
                else
                  (case (cl_req cs, cl_resp cs) of
                     (Some q, Some r) \<Rightarrow>
                       if call_id r = GCK_RPC_CALL_ERROR then
                         obind (gck_rpc_message_read_ulong r) (\<lambda>(v, r).
                         let cs = cs\<lparr>cl_resp := Some r\<rparr> in
                         case v of
                           None \<Rightarrow> Ret (CKR_DEVICE_ERROR, cs)
                         | Some ckerr \<Rightarrow>
                             if ckerr \<le> CKR_OK then Ret (CKR_DEVICE_ERROR, cs) else Ret (ckerr, cs))
                       else if call_id q \<noteq> call_id r then Ret (CKR_DEVICE_ERROR, cs)
                       else assert_c (\<not> gck_rpc_message_buffer_error r) (Ret (CKR_OK, cs))
                   | _ \<Rightarrow> Fault))))))"

definition call_done :: "Client \<Rightarrow> ClientCall \<Rightarrow> CK_RV \<Rightarrow> (CK_RV \<times> Client) outcome" where
  "call_done C cs ret =
     assert_c (call_status cs \<noteq> CALL_INVALID)
      (obind (case (call_status cs, cl_req cs, cl_resp cs) of
                (CALL_PARSE, Some _, Some r) \<Rightarrow>
                  if ret = CKR_OK then
                    if gck_rpc_message_buffer_error r then Ret CKR_GENERAL_ERROR
                    else assert_c (gck_rpc_message_is_verified r) (Ret ret)
                  else Ret ret
              | _ \<Rightarrow> Ret ret) (\<lambda>ret.
       if ret \<noteq> CKR_DEVICE_ERROR \<and> ret \<noteq> CKR_DEVICE_REMOVED \<and> cl_socket cs \<noteq> - 1 \<and>
          n_call_state_pool C < MAX_CALL_STATE_POOL
       then Ret (ret, C\<lparr>call_state_pool := cs\<lparr>call_status := CALL_READY\<rparr> # call_state_pool C,
                        n_call_state_pool := Suc (n_call_state_pool C)\<rparr>)
       else obind (call_destroy cs) (\<lambda>_. Ret (ret, C))))"

end
