(* ===== verification/Client_Proto.thy ===== *)
theory Client_Proto
  imports Client_State
begin

text \<open>
  The part of \<^verbatim>\<open>gck-rpc-module.c\<close> between the connection and the PKCS#11 functions: the
  \<open>proto_\<close> functions that read results into the memory of the caller, and the macros from which
  the functions are put together.
\<close>

section \<open>Reading results\<close>

text \<open>
  A reader gets the memory the caller's pointers refer to (\<open>None\<close> for a null pointer) and gives
  the return value and what that memory holds afterwards.
\<close>

type_synonym 'o result_reader = "'o \<Rightarrow> GckRpcMessage \<Rightarrow> (CK_RV \<times> 'o \<times> GckRpcMessage) outcome"

text \<open>\<open>if (!egg_buffer_get_ (&msg->buffer, msg->parsed, &msg->parsed, ...)) return PARSE_ERROR;\<close>\<close>

definition get_or_error ::
  "(EggBuffer \<Rightarrow> size_t \<Rightarrow> ((size_t \<times> 'a) option \<times> EggBuffer) outcome) \<Rightarrow> 'o \<Rightarrow> GckRpcMessage \<Rightarrow>
   ('a \<Rightarrow> GckRpcMessage \<Rightarrow> (CK_RV \<times> 'o \<times> GckRpcMessage) outcome) \<Rightarrow> (CK_RV \<times> 'o \<times> GckRpcMessage) outcome"
where
  "get_or_error get mem msg k =
     obind (msg_get get msg) (\<lambda>(r, msg).
     case r of None \<Rightarrow> Ret (PARSE_ERROR, mem, msg) | Some v \<Rightarrow> k v msg)"

text \<open>The pointer \<open>len\<close> is not null; \<open>room\<close> is \<open>max\<close>, the value it refers to at the call.\<close>

definition cl_proto_read_byte_array :: "(block option \<times> CK_ULONG) result_reader" where
  "cl_proto_read_byte_array mem msg =
     (case mem of (arr, room) \<Rightarrow>
      expect_part msg ''ay'' (\<lambda>msg.
      get_or_error egg_buffer_get_byte mem msg (\<lambda>valid msg.
      if valid = 0 then
        get_or_error egg_buffer_get_uint32 mem msg (\<lambda>t_len msg.
        Ret (if arr \<noteq> None then CKR_BUFFER_TOO_SMALL else CKR_OK, (arr, ucast t_len), msg))
      else
        get_or_error egg_buffer_get_byte_array mem msg (\<lambda>(val, vlen) msg.
        if arr = None then Ret (CKR_OK, (arr, vlen), msg)
        else if room < vlen then Ret (CKR_BUFFER_TOO_SMALL, (arr, vlen), msg)
        else
          obind (mem_read val 0 (unat vlen)) (\<lambda>xs.
          obind (mem_write arr 0 xs) (\<lambda>arr.
          Ret (CKR_OK, (arr, vlen), msg)))))))"

text \<open>
  The loop over the items. A read that fails leaves \<open>val\<close> as it was, at first the value of an
  uninitialised variable.
\<close>

fun read_ulong_items ::
  "nat \<Rightarrow> nat \<Rightarrow> u64 \<Rightarrow> ulong_array \<Rightarrow> GckRpcMessage \<Rightarrow> (ulong_array \<times> GckRpcMessage) outcome" where
  "read_ulong_items 0 i val arr msg = Ret (arr, msg)"
| "read_ulong_items (Suc n) i val arr msg =
     obind (msg_get egg_buffer_get_uint64 msg) (\<lambda>(r, msg).
     let val = (case r of None \<Rightarrow> val | Some v \<Rightarrow> v) in
     case arr of
       None \<Rightarrow> read_ulong_items n (Suc i) val None msg
     | Some xs \<Rightarrow>
         if i < length xs then read_ulong_items n (Suc i) val (Some (xs[i := val])) msg else Fault)"

definition cl_proto_read_ulong_array :: "u64 \<Rightarrow> (ulong_array \<times> CK_ULONG) result_reader" where
  "cl_proto_read_ulong_array val mem msg =
     (case mem of (arr, room) \<Rightarrow>
      expect_part msg ''au'' (\<lambda>msg.
      get_or_error egg_buffer_get_byte mem msg (\<lambda>valid msg.
      get_or_error egg_buffer_get_uint32 mem msg (\<lambda>num msg.
      let mem = (arr, ucast num) in
      if valid = 0 then Ret (if arr \<noteq> None then CKR_BUFFER_TOO_SMALL else CKR_OK, mem, msg)
      else if room < ucast num then Ret (CKR_BUFFER_TOO_SMALL, mem, msg)
      else
        obind (read_ulong_items (unat num) 0 val arr msg) (\<lambda>(arr, msg).
        Ret (if egg_buffer_has_error (buffer msg) then PARSE_ERROR else CKR_OK,
             (arr, ucast num), msg))))))"

text \<open>
  One attribute into the caller's template. The code \<open>CKR_BUFFER_TOO_SMALL\<close> that the source
  sets for a value that does not fit is overwritten by the code at the end of the message, and
  has no effect.
\<close>

definition store_attribute ::
  "CK_ATTRIBUTE \<Rightarrow> byte \<Rightarrow> block option \<Rightarrow> size_t \<Rightarrow> CK_ATTRIBUTE outcome" where
  "store_attribute attr validity attrval attrlen =
     (if validity \<noteq> 0 then
        if pValue attr = None then Ret (attr\<lparr>ulValueLen := attrlen\<rparr>)
        else if ulValueLen attr < attrlen then Ret (attr\<lparr>ulValueLen := attrlen\<rparr>)
        else if attrval = None then Ret (attr\<lparr>ulValueLen := 0\<rparr>)
        else
          (let attrlen = (if attrlen = 8 \<and> sizeof_CK_ULONG \<noteq> 8 \<and>
                             gck_rpc_has_ulong_parameter (attr_type attr)
                          then sizeof_CK_ULONG else attrlen) in
           obind (mem_read attrval 0 (unat attrlen)) (\<lambda>xs.
           obind (mem_write (pValue attr) 0 xs) (\<lambda>p.
           Ret (attr\<lparr>pValue := p, ulValueLen := attrlen\<rparr>))))
      else Ret (attr\<lparr>ulValueLen := - 1\<rparr>))"

text \<open>
  The loop over the attributes; \<open>Inl\<close> is a \<open>return\<close> out of it. \<open>type\<close> and \<open>validity\<close> keep their
  values when a read fails.
\<close>

fun read_attribute_items ::
  "nat \<Rightarrow> nat \<Rightarrow> u32 \<Rightarrow> byte \<Rightarrow> attr_array \<Rightarrow> GckRpcMessage \<Rightarrow>
   ((CK_RV + unit) \<times> attr_array \<times> GckRpcMessage) outcome" where
  "read_attribute_items 0 i type validity arr msg = Ret (Inr (), arr, msg)"
| "read_attribute_items (Suc n) i type validity arr msg =
     obind (msg_get egg_buffer_get_uint32 msg) (\<lambda>(r, msg).
     let type = (case r of None \<Rightarrow> type | Some t \<Rightarrow> t) in
     obind (msg_get egg_buffer_get_byte msg) (\<lambda>(r, msg).
     let validity = (case r of None \<Rightarrow> validity | Some v \<Rightarrow> v) in
     obind (if validity \<noteq> 0 then
              obind (msg_get egg_buffer_get_uint32 msg) (\<lambda>(r, msg).
              case r of
                None \<Rightarrow> Ret (Inl PARSE_ERROR, msg)
              | Some value \<Rightarrow>
                  obind (msg_get egg_buffer_get_byte_array msg) (\<lambda>(r, msg).
                  case r of
                    None \<Rightarrow> Ret (Inl PARSE_ERROR, msg)
                  | Some (attrval, attrlen) \<Rightarrow>
                      if attrval \<noteq> None \<and> ucast value \<noteq> attrlen then Ret (Inl PARSE_ERROR, msg)
                      else Ret (Inr (attrval, ucast value), msg)))
            else Ret (Inr (None, 0), msg)) (\<lambda>(d, msg).
     case d of
       Inl e \<Rightarrow> Ret (Inl e, arr, msg)
     | Inr (attrval, attrlen) \<Rightarrow>
         if egg_buffer_has_error (buffer msg) then Ret (Inr (), arr, msg)
         else
           (case arr of
              None \<Rightarrow> read_attribute_items n (Suc i) type validity None msg
            | Some as \<Rightarrow>
                if i \<ge> length as then Fault
                else if attr_type (as ! i) \<noteq> ucast type then Ret (Inl PARSE_ERROR, arr, msg)
                else
                  obind (store_attribute (as ! i) validity attrval attrlen) (\<lambda>attr.
                  read_attribute_items n (Suc i) type validity (Some (as[i := attr])) msg)))))"

definition cl_proto_read_attribute_array :: "byte \<Rightarrow> CK_ULONG \<Rightarrow> attr_array result_reader" where
  "cl_proto_read_attribute_array validity n arr msg =
     expect_part msg ''aA'' (\<lambda>msg.
     get_or_error egg_buffer_get_uint32 arr msg (\<lambda>num msg.
     if n \<noteq> ucast num then Ret (PARSE_ERROR, arr, msg)
     else
       obind (read_attribute_items (unat num) 0 0 validity arr msg) (\<lambda>(r, arr, msg).
       case r of
         Inl e \<Rightarrow> Ret (e, arr, msg)
       | Inr _ \<Rightarrow>
           if egg_buffer_has_error (buffer msg) then Ret (PARSE_ERROR, arr, msg)
           else
             obind (gck_rpc_message_read_ulong msg) (\<lambda>(r, msg).
             Ret (case r of None \<Rightarrow> PARSE_ERROR | Some ret \<Rightarrow> ret, arr, msg)))))"

section \<open>Structures\<close>

text \<open>Fields joined by \<open>||\<close>; each stores its value into the structure.\<close>

fun get_fields ::
  "('i \<Rightarrow> GckRpcMessage \<Rightarrow> (bool \<times> 'i \<times> GckRpcMessage) outcome) list \<Rightarrow> 'i result_reader" where
  "get_fields [] info m = Ret (CKR_OK, info, m)"
| "get_fields (f # fs) info m =
     obind (f info m) (\<lambda>(ok, info, m). if \<not> ok then Ret (PARSE_ERROR, info, m) else get_fields fs info m)"

definition get_field ::
  "(GckRpcMessage \<Rightarrow> ('a option \<times> GckRpcMessage) outcome) \<Rightarrow> ('a \<Rightarrow> 'i \<Rightarrow> 'i) \<Rightarrow>
   'i \<Rightarrow> GckRpcMessage \<Rightarrow> (bool \<times> 'i \<times> GckRpcMessage) outcome" where
  "get_field rd upd info m =
     obind (rd m) (\<lambda>(r, m).
     Ret (case r of None \<Rightarrow> (False, info, m) | Some v \<Rightarrow> (True, upd v info, m)))"

abbreviation (input) read_string :: "CK_ULONG \<Rightarrow> GckRpcMessage \<Rightarrow> (block option \<times> GckRpcMessage) outcome"
where
  "read_string n \<equiv> (\<lambda>m. gck_rpc_message_read_space_string m n)"

definition proto_read_info :: "CK_INFO result_reader" where
  "proto_read_info =
     get_fields
       [get_field gck_rpc_message_read_version (\<lambda>v i. i\<lparr>cryptokiVersion := v\<rparr>),
        get_field (read_string 32) (\<lambda>v i. i\<lparr>info_manufacturerID := v\<rparr>),
        get_field gck_rpc_message_read_ulong (\<lambda>v i. i\<lparr>info_flags := v\<rparr>),
        get_field (read_string 32) (\<lambda>v i. i\<lparr>libraryDescription := v\<rparr>),
        get_field gck_rpc_message_read_version (\<lambda>v i. i\<lparr>libraryVersion := v\<rparr>)]"

definition proto_read_slot_info :: "CK_SLOT_INFO result_reader" where
  "proto_read_slot_info =
     get_fields
       [get_field (read_string 64) (\<lambda>v i. i\<lparr>slotDescription := v\<rparr>),
        get_field (read_string 32) (\<lambda>v i. i\<lparr>slot_manufacturerID := v\<rparr>),
        get_field gck_rpc_message_read_ulong (\<lambda>v i. i\<lparr>slot_flags := v\<rparr>),
        get_field gck_rpc_message_read_version (\<lambda>v i. i\<lparr>slot_hardwareVersion := v\<rparr>),
        get_field gck_rpc_message_read_version (\<lambda>v i. i\<lparr>slot_firmwareVersion := v\<rparr>)]"

definition proto_read_token_info :: "CK_TOKEN_INFO result_reader" where
  "proto_read_token_info =
     get_fields
       [get_field (read_string 32) (\<lambda>v i. i\<lparr>label := v\<rparr>),
        get_field (read_string 32) (\<lambda>v i. i\<lparr>token_manufacturerID := v\<rparr>),
        get_field (read_string 16) (\<lambda>v i. i\<lparr>model := v\<rparr>),
        get_field (read_string 16) (\<lambda>v i. i\<lparr>serialNumber := v\<rparr>),
        get_field gck_rpc_message_read_ulong (\<lambda>v i. i\<lparr>token_flags := v\<rparr>),
        get_field gck_rpc_message_read_ulong (\<lambda>v i. i\<lparr>ulMaxSessionCount := v\<rparr>),
        get_field gck_rpc_message_read_ulong (\<lambda>v i. i\<lparr>ulSessionCount := v\<rparr>),
        get_field gck_rpc_message_read_ulong (\<lambda>v i. i\<lparr>ulMaxRwSessionCount := v\<rparr>),
        get_field gck_rpc_message_read_ulong (\<lambda>v i. i\<lparr>ulRwSessionCount := v\<rparr>),
        get_field gck_rpc_message_read_ulong (\<lambda>v i. i\<lparr>ulMaxPinLen := v\<rparr>),
        get_field gck_rpc_message_read_ulong (\<lambda>v i. i\<lparr>ulMinPinLen := v\<rparr>),
        get_field gck_rpc_message_read_ulong (\<lambda>v i. i\<lparr>ulTotalPublicMemory := v\<rparr>),
        get_field gck_rpc_message_read_ulong (\<lambda>v i. i\<lparr>ulFreePublicMemory := v\<rparr>),
        get_field gck_rpc_message_read_ulong (\<lambda>v i. i\<lparr>ulTotalPrivateMemory := v\<rparr>),
        get_field gck_rpc_message_read_ulong (\<lambda>v i. i\<lparr>ulFreePrivateMemory := v\<rparr>),
        get_field gck_rpc_message_read_version (\<lambda>v i. i\<lparr>token_hardwareVersion := v\<rparr>),
        get_field gck_rpc_message_read_version (\<lambda>v i. i\<lparr>token_firmwareVersion := v\<rparr>),
        get_field (read_string 16) (\<lambda>v i. i\<lparr>utcTime := v\<rparr>)]"

definition proto_read_mechanism_info :: "CK_MECHANISM_INFO result_reader" where
  "proto_read_mechanism_info =
     get_fields
       [get_field gck_rpc_message_read_ulong (\<lambda>v i. i\<lparr>ulMinKeySize := v\<rparr>),
        get_field gck_rpc_message_read_ulong (\<lambda>v i. i\<lparr>ulMaxKeySize := v\<rparr>),
        get_field gck_rpc_message_read_ulong (\<lambda>v i. i\<lparr>mech_flags := v\<rparr>)]"

definition proto_read_sesssion_info :: "CK_SESSION_INFO result_reader" where
  "proto_read_sesssion_info =
     get_fields
       [get_field gck_rpc_message_read_ulong (\<lambda>v i. i\<lparr>slotID := v\<rparr>),
        get_field gck_rpc_message_read_ulong (\<lambda>v i. i\<lparr>session_state := v\<rparr>),
        get_field gck_rpc_message_read_ulong (\<lambda>v i. i\<lparr>session_flags := v\<rparr>),
        get_field gck_rpc_message_read_ulong (\<lambda>v i. i\<lparr>ulDeviceError := v\<rparr>)]"

section \<open>Writing a mechanism\<close>

definition proto_write_mechanism :: "GckRpcMessage \<Rightarrow> CK_MECHANISM \<Rightarrow> (CK_RV \<times> GckRpcMessage) outcome" where
  "proto_write_mechanism msg mech =
     expect_part msg ''M'' (\<lambda>msg.
     obind (egg_buffer_add_uint32 (buffer msg) (ucast (mechanism mech))) (\<lambda>(_, b).
     let finish = (\<lambda>b. Ret (if egg_buffer_has_error b then CKR_HOST_MEMORY else CKR_OK, msg\<lparr>buffer := b\<rparr>)) in
     if gck_rpc_mechanism_has_no_parameters (mechanism mech) then
       obind (egg_buffer_add_byte_array b None 0) (\<lambda>(_, b). finish b)
     else if gck_rpc_mechanism_has_sane_parameters (mechanism mech) then
       obind (egg_buffer_add_byte_array b (pParameter mech) (ulParameterLen mech)) (\<lambda>(_, b). finish b)
     else Ret (CKR_MECHANISM_INVALID, msg\<lparr>buffer := b\<rparr>)))"

section \<open>Call macros\<close>

text \<open>
  The macros take the rest of the function as a continuation. \<open>mem\<close> is the caller's memory the
  function may write to; \<open>goto _cleanup\<close> leaves with the current \<open>_ret\<close>.
\<close>

type_synonym 'o cl_finish = "(CK_RV \<times> 'o \<times> ClientCall) outcome"

definition return_val_if_fail ::
  "bool \<Rightarrow> CK_RV \<Rightarrow> 'o \<Rightarrow> Client \<Rightarrow> (CK_RV \<times> 'o \<times> Client) outcome \<Rightarrow> (CK_RV \<times> 'o \<times> Client) outcome" where
  "return_val_if_fail p ret mem C k = (if \<not> p then Ret (ret, mem, C) else k)"

text \<open>\<open>BEGIN_CALL\<close> together with the clean-up of \<open>END_CALL\<close>.\<close>

definition CL_BEGIN_CALL ::
  "Client_Env \<Rightarrow> int \<Rightarrow> 'o \<Rightarrow> Client \<Rightarrow> (ClientCall \<Rightarrow> 'o cl_finish) \<Rightarrow> (CK_RV \<times> 'o \<times> Client) outcome" where
  "CL_BEGIN_CALL E i mem C body =
     return_val_if_fail (pkcs11_initialized C) CKR_CRYPTOKI_NOT_INITIALIZED mem C
      (obind (call_lookup E C) (\<lambda>(r, C).
       case r of
         Inl e \<Rightarrow> Ret (e, mem, C)
       | Inr cs \<Rightarrow>
           obind (call_prepare E cs i) (\<lambda>(ret, cs).
           obind (if ret \<noteq> CKR_OK then Ret (ret, mem, cs) else body cs) (\<lambda>(ret, mem, cs).
           obind (call_done C cs ret) (\<lambda>(ret, C). Ret (ret, mem, C))))))"

definition CL_PROCESS_CALL :: "Client_Env \<Rightarrow> 'o \<Rightarrow> ClientCall \<Rightarrow> (ClientCall \<Rightarrow> 'o cl_finish) \<Rightarrow> 'o cl_finish" where
  "CL_PROCESS_CALL E mem cs k =
     obind (call_run E cs) (\<lambda>(ret, cs). if ret \<noteq> CKR_OK then Ret (ret, mem, cs) else k cs)"

definition CL_END_CALL :: "CK_RV \<Rightarrow> 'o \<Rightarrow> ClientCall \<Rightarrow> 'o cl_finish" where
  "CL_END_CALL ret mem cs = Ret (ret, mem, cs)"

definition on_cl_req ::
  "ClientCall \<Rightarrow> (GckRpcMessage \<Rightarrow> ('a \<times> GckRpcMessage) outcome) \<Rightarrow> ('a \<times> ClientCall) outcome" where
  "on_cl_req cs f =
     (case cl_req cs of
        None \<Rightarrow> Fault
      | Some m \<Rightarrow> obind (f m) (\<lambda>(r, m). Ret (r, cs\<lparr>cl_req := Some m\<rparr>)))"

text \<open>\<open>if (!gck_rpc_message_write_ (_cs->req, ...)) { _ret = CKR_HOST_MEMORY; goto _cleanup; }\<close>\<close>

definition CL_IN ::
  "(GckRpcMessage \<Rightarrow> (bool \<times> GckRpcMessage) outcome) \<Rightarrow> 'o \<Rightarrow> ClientCall \<Rightarrow> (ClientCall \<Rightarrow> 'o cl_finish) \<Rightarrow>
   'o cl_finish" where
  "CL_IN wr mem cs k =
     obind (on_cl_req cs wr) (\<lambda>(ok, cs). if \<not> ok then Ret (CKR_HOST_MEMORY, mem, cs) else k cs)"

definition CL_IN_BYTE :: "byte \<Rightarrow> 'o \<Rightarrow> ClientCall \<Rightarrow> (ClientCall \<Rightarrow> 'o cl_finish) \<Rightarrow> 'o cl_finish" where
  "CL_IN_BYTE val = CL_IN (\<lambda>m. gck_rpc_message_write_byte m val)"

definition CL_IN_ULONG :: "CK_ULONG \<Rightarrow> 'o \<Rightarrow> ClientCall \<Rightarrow> (ClientCall \<Rightarrow> 'o cl_finish) \<Rightarrow> 'o cl_finish" where
  "CL_IN_ULONG val = CL_IN (\<lambda>m. gck_rpc_message_write_ulong m val)"

definition CL_IN_SPACE_STRING ::
  "block option \<Rightarrow> CK_ULONG \<Rightarrow> 'o \<Rightarrow> ClientCall \<Rightarrow> (ClientCall \<Rightarrow> 'o cl_finish) \<Rightarrow> 'o cl_finish" where
  "CL_IN_SPACE_STRING val n = CL_IN (\<lambda>m. gck_rpc_message_write_space_string m val n)"

definition CL_IN_BYTE_BUFFER ::
  "block option \<Rightarrow> CK_ULONG option \<Rightarrow> 'o \<Rightarrow> ClientCall \<Rightarrow> (ClientCall \<Rightarrow> 'o cl_finish) \<Rightarrow> 'o cl_finish" where
  "CL_IN_BYTE_BUFFER arr n = CL_IN (\<lambda>m. gck_rpc_message_write_byte_buffer m arr n)"

definition CL_IN_BYTE_ARRAY ::
  "block option \<Rightarrow> CK_ULONG \<Rightarrow> 'o \<Rightarrow> ClientCall \<Rightarrow> (ClientCall \<Rightarrow> 'o cl_finish) \<Rightarrow> 'o cl_finish" where
  "CL_IN_BYTE_ARRAY arr n mem cs k =
     (if n \<noteq> 0 \<and> arr = None then Ret (CKR_ARGUMENTS_BAD, mem, cs)
      else CL_IN (\<lambda>m. gck_rpc_message_write_byte_array m arr n) mem cs k)"

definition CL_IN_ULONG_BUFFER2 ::
  "ulong_array \<Rightarrow> CK_ULONG \<Rightarrow> 'o \<Rightarrow> ClientCall \<Rightarrow> (ClientCall \<Rightarrow> 'o cl_finish) \<Rightarrow> 'o cl_finish" where
  "CL_IN_ULONG_BUFFER2 arr n =
     CL_IN (\<lambda>m. gck_rpc_message_write_ulong_buffer m (if arr \<noteq> None then n else 0))"

definition CL_IN_ULONG_BUFFER ::
  "ulong_array \<Rightarrow> CK_ULONG option \<Rightarrow> 'o \<Rightarrow> ClientCall \<Rightarrow> (ClientCall \<Rightarrow> 'o cl_finish) \<Rightarrow> 'o cl_finish" where
  "CL_IN_ULONG_BUFFER arr n mem cs k =
     (case n of
        None \<Rightarrow> Ret (CKR_ARGUMENTS_BAD, mem, cs)
      | Some n \<Rightarrow> CL_IN_ULONG_BUFFER2 arr n mem cs k)"

definition CL_IN_ATTRIBUTE_BUFFER ::
  "attr_array \<Rightarrow> CK_ULONG \<Rightarrow> 'o \<Rightarrow> ClientCall \<Rightarrow> (ClientCall \<Rightarrow> 'o cl_finish) \<Rightarrow> 'o cl_finish" where
  "CL_IN_ATTRIBUTE_BUFFER arr num mem cs k =
     (if num \<noteq> 0 \<and> arr = None then Ret (CKR_ARGUMENTS_BAD, mem, cs)
      else CL_IN (\<lambda>m. gck_rpc_message_write_attribute_buffer m arr num) mem cs k)"

definition CL_IN_ATTRIBUTE_ARRAY ::
  "attr_array \<Rightarrow> CK_ULONG \<Rightarrow> 'o \<Rightarrow> ClientCall \<Rightarrow> (ClientCall \<Rightarrow> 'o cl_finish) \<Rightarrow> 'o cl_finish" where
  "CL_IN_ATTRIBUTE_ARRAY arr num mem cs k =
     (if num \<noteq> 0 \<and> arr = None then Ret (CKR_ARGUMENTS_BAD, mem, cs)
      else CL_IN (\<lambda>m. gck_rpc_message_write_attribute_array m arr num) mem cs k)"

definition CL_IN_MECHANISM_TYPE ::
  "CK_ULONG \<Rightarrow> 'o \<Rightarrow> ClientCall \<Rightarrow> (ClientCall \<Rightarrow> 'o cl_finish) \<Rightarrow> 'o cl_finish" where
  "CL_IN_MECHANISM_TYPE val mem cs k =
     (if \<not> gck_rpc_mechanism_is_supported val then Ret (CKR_MECHANISM_INVALID, mem, cs)
      else CL_IN (\<lambda>m. gck_rpc_message_write_ulong m val) mem cs k)"

definition CL_IN_MECHANISM ::
  "CK_MECHANISM option \<Rightarrow> 'o \<Rightarrow> ClientCall \<Rightarrow> (ClientCall \<Rightarrow> 'o cl_finish) \<Rightarrow> 'o cl_finish" where
  "CL_IN_MECHANISM val mem cs k =
     (case val of
        None \<Rightarrow> Ret (CKR_ARGUMENTS_BAD, mem, cs)
      | Some mech \<Rightarrow>
          obind (on_cl_req cs (\<lambda>m. proto_write_mechanism m mech)) (\<lambda>(ret, cs).
          if ret \<noteq> CKR_OK then Ret (ret, mem, cs) else k cs))"

text \<open>\<open>if (_ret == CKR_OK) _ret = proto_read_ (_cs->resp, ...);\<close>\<close>

definition CL_OUT ::
  "'a result_reader \<Rightarrow> 'a \<Rightarrow> CK_RV \<Rightarrow> ClientCall \<Rightarrow> (CK_RV \<Rightarrow> 'a \<Rightarrow> ClientCall \<Rightarrow> 'o cl_finish) \<Rightarrow> 'o cl_finish"
where
  "CL_OUT rd mem ret cs k =
     (if ret = CKR_OK then
        (case cl_resp cs of
           None \<Rightarrow> Fault
         | Some m \<Rightarrow> obind (rd mem m) (\<lambda>(ret, mem, m). k ret mem (cs\<lparr>cl_resp := Some m\<rparr>)))
      else k ret mem cs)"

text \<open>The same through a pointer that may be null.\<close>

definition CL_OUT_PTR ::
  "'a result_reader \<Rightarrow> 'a option \<Rightarrow> CK_RV \<Rightarrow> ClientCall \<Rightarrow>
   (CK_RV \<Rightarrow> 'a option \<Rightarrow> ClientCall \<Rightarrow> 'o cl_finish) \<Rightarrow> 'o cl_finish"
where
  "CL_OUT_PTR rd p ret cs k =
     (case p of
        None \<Rightarrow> k CKR_ARGUMENTS_BAD None cs
      | Some v \<Rightarrow> CL_OUT rd v ret cs (\<lambda>ret v cs. k ret (Some v) cs))"

definition read_ulong_result :: "CK_ULONG result_reader" where
  "read_ulong_result = get_fields [get_field gck_rpc_message_read_ulong (\<lambda>v _. v)]"

definition CL_OUT_ULONG ::
  "CK_ULONG option \<Rightarrow> CK_RV \<Rightarrow> ClientCall \<Rightarrow> (CK_RV \<Rightarrow> CK_ULONG option \<Rightarrow> ClientCall \<Rightarrow> 'o cl_finish) \<Rightarrow>
   'o cl_finish" where
  "CL_OUT_ULONG = CL_OUT_PTR read_ulong_result"

definition CL_OUT_BYTE_ARRAY2 ::
  "block option \<Rightarrow> CK_ULONG \<Rightarrow> CK_RV \<Rightarrow> ClientCall \<Rightarrow>
   (CK_RV \<Rightarrow> block option \<times> CK_ULONG \<Rightarrow> ClientCall \<Rightarrow> 'o cl_finish) \<Rightarrow> 'o cl_finish" where
  "CL_OUT_BYTE_ARRAY2 arr n = CL_OUT cl_proto_read_byte_array (arr, n)"

definition CL_OUT_BYTE_ARRAY ::
  "block option \<times> CK_ULONG option \<Rightarrow> CK_RV \<Rightarrow> ClientCall \<Rightarrow>
   (CK_RV \<Rightarrow> block option \<times> CK_ULONG option \<Rightarrow> ClientCall \<Rightarrow> 'o cl_finish) \<Rightarrow> 'o cl_finish" where
  "CL_OUT_BYTE_ARRAY mem ret cs k =
     (case mem of (arr, p) \<Rightarrow>
      case p of
        None \<Rightarrow> k CKR_ARGUMENTS_BAD mem cs
      | Some n \<Rightarrow> CL_OUT_BYTE_ARRAY2 arr n ret cs (\<lambda>ret (arr, n) cs. k ret (arr, Some n) cs))"

definition CL_OUT_ULONG_ARRAY ::
  "Client_Env \<Rightarrow> ulong_array \<times> CK_ULONG option \<Rightarrow> CK_RV \<Rightarrow> ClientCall \<Rightarrow>
   (CK_RV \<Rightarrow> ulong_array \<times> CK_ULONG option \<Rightarrow> ClientCall \<Rightarrow> 'o cl_finish) \<Rightarrow> 'o cl_finish" where
  "CL_OUT_ULONG_ARRAY E mem ret cs k =
     (case mem of (arr, p) \<Rightarrow>
      case p of
        None \<Rightarrow> k CKR_ARGUMENTS_BAD mem cs
      | Some n \<Rightarrow>
          CL_OUT (cl_proto_read_ulong_array (ce_val E)) (arr, n) ret cs
            (\<lambda>ret (arr, n) cs. k ret (arr, Some n) cs))"

text \<open>The array behind \<open>arr\<close> is the caller's whole array.\<close>

definition CL_OUT_MECHANISM_TYPE_ARRAY ::
  "Client_Env \<Rightarrow> ulong_array \<times> CK_ULONG option \<Rightarrow> CK_RV \<Rightarrow> ClientCall \<Rightarrow>
   (CK_RV \<Rightarrow> ulong_array \<times> CK_ULONG option \<Rightarrow> ClientCall \<Rightarrow> 'o cl_finish) \<Rightarrow> 'o cl_finish" where
  "CL_OUT_MECHANISM_TYPE_ARRAY E mem ret cs k =
     CL_OUT_ULONG_ARRAY E mem ret cs (\<lambda>ret (arr, n) cs.
     if ret = CKR_OK \<and> arr \<noteq> None then
       obind (gck_rpc_mechanism_list_purge arr n) (\<lambda>(mechs, n). k ret (Some mechs, Some n) cs)
     else k ret (arr, n) cs)"

definition CL_OUT_ATTRIBUTE_ARRAY ::
  "Client_Env \<Rightarrow> CK_ULONG \<Rightarrow> attr_array \<Rightarrow> CK_RV \<Rightarrow> ClientCall \<Rightarrow>
   (CK_RV \<Rightarrow> attr_array \<Rightarrow> ClientCall \<Rightarrow> 'o cl_finish) \<Rightarrow> 'o cl_finish" where
  "CL_OUT_ATTRIBUTE_ARRAY E num = CL_OUT (cl_proto_read_attribute_array (ce_validity E) num)"

definition CL_OUT_INFO ::
  "CK_INFO option \<Rightarrow> CK_RV \<Rightarrow> ClientCall \<Rightarrow> (CK_RV \<Rightarrow> CK_INFO option \<Rightarrow> ClientCall \<Rightarrow> 'o cl_finish) \<Rightarrow>
   'o cl_finish" where
  "CL_OUT_INFO = CL_OUT_PTR proto_read_info"

definition CL_OUT_SLOT_INFO ::
  "CK_SLOT_INFO option \<Rightarrow> CK_RV \<Rightarrow> ClientCall \<Rightarrow>
   (CK_RV \<Rightarrow> CK_SLOT_INFO option \<Rightarrow> ClientCall \<Rightarrow> 'o cl_finish) \<Rightarrow> 'o cl_finish" where
  "CL_OUT_SLOT_INFO = CL_OUT_PTR proto_read_slot_info"

definition CL_OUT_TOKEN_INFO ::
  "CK_TOKEN_INFO option \<Rightarrow> CK_RV \<Rightarrow> ClientCall \<Rightarrow>
   (CK_RV \<Rightarrow> CK_TOKEN_INFO option \<Rightarrow> ClientCall \<Rightarrow> 'o cl_finish) \<Rightarrow> 'o cl_finish" where
  "CL_OUT_TOKEN_INFO = CL_OUT_PTR proto_read_token_info"

definition CL_OUT_MECHANISM_INFO ::
  "CK_MECHANISM_INFO option \<Rightarrow> CK_RV \<Rightarrow> ClientCall \<Rightarrow>
   (CK_RV \<Rightarrow> CK_MECHANISM_INFO option \<Rightarrow> ClientCall \<Rightarrow> 'o cl_finish) \<Rightarrow> 'o cl_finish" where
  "CL_OUT_MECHANISM_INFO = CL_OUT_PTR proto_read_mechanism_info"

definition CL_OUT_SESSION_INFO ::
  "CK_SESSION_INFO option \<Rightarrow> CK_RV \<Rightarrow> ClientCall \<Rightarrow>
   (CK_RV \<Rightarrow> CK_SESSION_INFO option \<Rightarrow> ClientCall \<Rightarrow> 'o cl_finish) \<Rightarrow> 'o cl_finish" where
  "CL_OUT_SESSION_INFO = CL_OUT_PTR proto_read_sesssion_info"

end
