(* ===== verification/Client_Calls.thy ===== *)
theory Client_Calls
  imports Client_Proto
begin

text \<open>
  The PKCS#11 functions of the client module, in the order of \<^verbatim>\<open>gck-rpc-module.c\<close>. A pointer of the
  caller is an \<open>option\<close>; the second result is what the memory behind the output pointers holds
  afterwards. Arguments that the source does not look at are left out.
\<close>

section \<open>General purpose, slots and tokens\<close>

definition cl_C_GetInfo ::
  "Client_Env \<Rightarrow> CK_INFO option \<Rightarrow> Client \<Rightarrow> (CK_RV \<times>
    (CK_INFO option) \<times> Client) outcome" where
  "cl_C_GetInfo E info C =
     return_val_if_fail (pkcs11_initialized C) CKR_CRYPTOKI_NOT_INITIALIZED info C (
     return_val_if_fail (info \<noteq> None) CKR_ARGUMENTS_BAD info C (
     CL_BEGIN_CALL E GCK_RPC_CALL_C_GetInfo info C (\<lambda>cs.
     CL_PROCESS_CALL E info cs (\<lambda>cs.
     CL_OUT_INFO info CKR_OK cs (\<lambda>ret info cs.
     CL_END_CALL ret info cs)))))"

definition cl_C_GetSlotList ::
  "Client_Env \<Rightarrow> byte \<Rightarrow> ulong_array \<Rightarrow> CK_ULONG option
    \<Rightarrow> Client \<Rightarrow> (CK_RV \<times> (ulong_array \<times> CK_ULONG option)
    \<times> Client) outcome" where
  "cl_C_GetSlotList E token_present slot_list n C =
     return_val_if_fail (pkcs11_initialized C) CKR_CRYPTOKI_NOT_INITIALIZED (slot_list, n) C (
     return_val_if_fail (n \<noteq> None) CKR_ARGUMENTS_BAD (slot_list, n) C (
     CL_BEGIN_CALL E GCK_RPC_CALL_C_GetSlotList (slot_list, n) C (\<lambda>cs.
     CL_IN_BYTE token_present (slot_list, n) cs (\<lambda>cs.
     CL_IN_ULONG_BUFFER slot_list n (slot_list, n) cs (\<lambda>cs.
     CL_PROCESS_CALL E (slot_list, n) cs (\<lambda>cs.
     CL_OUT_ULONG_ARRAY E (slot_list, n) CKR_OK cs (\<lambda>ret mem cs.
     CL_END_CALL ret mem cs)))))))"

definition cl_C_GetSlotInfo ::
  "Client_Env \<Rightarrow> CK_ULONG \<Rightarrow> CK_SLOT_INFO option \<Rightarrow> Client
    \<Rightarrow> (CK_RV \<times> (CK_SLOT_INFO option) \<times> Client) outcome" where
  "cl_C_GetSlotInfo E slot_id info C =
     return_val_if_fail (pkcs11_initialized C) CKR_CRYPTOKI_NOT_INITIALIZED info C (
     return_val_if_fail (info \<noteq> None) CKR_ARGUMENTS_BAD info C (
     CL_BEGIN_CALL E GCK_RPC_CALL_C_GetSlotInfo info C (\<lambda>cs.
     CL_IN_ULONG slot_id info cs (\<lambda>cs.
     CL_PROCESS_CALL E info cs (\<lambda>cs.
     CL_OUT_SLOT_INFO info CKR_OK cs (\<lambda>ret info cs.
     CL_END_CALL ret info cs))))))"

definition cl_C_GetTokenInfo ::
  "Client_Env \<Rightarrow> CK_ULONG \<Rightarrow> CK_TOKEN_INFO option \<Rightarrow> Client
    \<Rightarrow> (CK_RV \<times> (CK_TOKEN_INFO option) \<times> Client) outcome" where
  "cl_C_GetTokenInfo E slot_id info C =
     return_val_if_fail (pkcs11_initialized C) CKR_CRYPTOKI_NOT_INITIALIZED info C (
     return_val_if_fail (info \<noteq> None) CKR_ARGUMENTS_BAD info C (
     CL_BEGIN_CALL E GCK_RPC_CALL_C_GetTokenInfo info C (\<lambda>cs.
     CL_IN_ULONG slot_id info cs (\<lambda>cs.
     CL_PROCESS_CALL E info cs (\<lambda>cs.
     CL_OUT_TOKEN_INFO info CKR_OK cs (\<lambda>ret info cs.
     CL_END_CALL ret info cs))))))"

definition cl_C_GetMechanismList ::
  "Client_Env \<Rightarrow> CK_ULONG \<Rightarrow> ulong_array \<Rightarrow> CK_ULONG option
    \<Rightarrow> Client \<Rightarrow> (CK_RV \<times> (ulong_array \<times> CK_ULONG option)
    \<times> Client) outcome" where
  "cl_C_GetMechanismList E slot_id mechanism_list n C =
     return_val_if_fail (pkcs11_initialized C) CKR_CRYPTOKI_NOT_INITIALIZED (mechanism_list, n) C (
     return_val_if_fail (n \<noteq> None) CKR_ARGUMENTS_BAD (mechanism_list, n) C (
     CL_BEGIN_CALL E GCK_RPC_CALL_C_GetMechanismList (mechanism_list, n) C (\<lambda>cs.
     CL_IN_ULONG slot_id (mechanism_list, n) cs (\<lambda>cs.
     CL_IN_ULONG_BUFFER mechanism_list n (mechanism_list, n) cs (\<lambda>cs.
     CL_PROCESS_CALL E (mechanism_list, n) cs (\<lambda>cs.
     CL_OUT_MECHANISM_TYPE_ARRAY E (mechanism_list, n) CKR_OK cs (\<lambda>ret mem cs.
     CL_END_CALL ret mem cs)))))))"

definition cl_C_GetMechanismInfo ::
  "Client_Env \<Rightarrow> CK_ULONG \<Rightarrow> CK_ULONG \<Rightarrow> CK_MECHANISM_INFO
    option \<Rightarrow> Client \<Rightarrow> (CK_RV \<times> (CK_MECHANISM_INFO option)
    \<times> Client) outcome" where
  "cl_C_GetMechanismInfo E slot_id typ info C =
     return_val_if_fail (pkcs11_initialized C) CKR_CRYPTOKI_NOT_INITIALIZED info C (
     return_val_if_fail (info \<noteq> None) CKR_ARGUMENTS_BAD info C (
     CL_BEGIN_CALL E GCK_RPC_CALL_C_GetMechanismInfo info C (\<lambda>cs.
     CL_IN_ULONG slot_id info cs (\<lambda>cs.
     CL_IN_MECHANISM_TYPE typ info cs (\<lambda>cs.
     CL_PROCESS_CALL E info cs (\<lambda>cs.
     CL_OUT_MECHANISM_INFO info CKR_OK cs (\<lambda>ret info cs.
     CL_END_CALL ret info cs)))))))"

definition cl_C_InitToken ::
  "Client_Env \<Rightarrow> CK_ULONG \<Rightarrow> block option \<Rightarrow> CK_ULONG
    \<Rightarrow> block option \<Rightarrow> Client \<Rightarrow> (CK_RV \<times> unit \<times>
    Client) outcome" where
  "cl_C_InitToken E slot_id pin pin_len lbl C =
     return_val_if_fail (pkcs11_initialized C) CKR_CRYPTOKI_NOT_INITIALIZED () C (
     CL_BEGIN_CALL E GCK_RPC_CALL_C_InitToken () C (\<lambda>cs.
     CL_IN_ULONG slot_id () cs (\<lambda>cs.
     CL_IN_BYTE_ARRAY pin pin_len () cs (\<lambda>cs.
     CL_IN_SPACE_STRING lbl 32 () cs (\<lambda>cs.
     CL_PROCESS_CALL E () cs (\<lambda>cs.
     CL_END_CALL CKR_OK () cs))))))"

definition cl_C_WaitForSlotEvent ::
  "Client_Env \<Rightarrow> CK_ULONG \<Rightarrow> CK_ULONG option \<Rightarrow> Client
    \<Rightarrow> (CK_RV \<times> CK_ULONG option \<times> Client) outcome" where
  "cl_C_WaitForSlotEvent E flags slot C =
     return_val_if_fail (slot \<noteq> None) CKR_ARGUMENTS_BAD slot C (
     CL_BEGIN_CALL E GCK_RPC_CALL_C_WaitForSlotEvent slot C (\<lambda>cs.
     CL_IN_ULONG flags slot cs (\<lambda>cs.
     CL_PROCESS_CALL E slot cs (\<lambda>cs.
     CL_OUT_ULONG slot CKR_OK cs (\<lambda>ret slot cs.
     CL_END_CALL ret slot cs)))))"

section \<open>Sessions\<close>

definition cl_C_OpenSession ::
  "Client_Env \<Rightarrow> CK_ULONG \<Rightarrow> CK_ULONG \<Rightarrow> CK_ULONG option
    \<Rightarrow> Client \<Rightarrow> (CK_RV \<times> CK_ULONG option \<times> Client) outcome" where
  "cl_C_OpenSession E slot_id flags session C =
     return_val_if_fail (pkcs11_initialized C) CKR_CRYPTOKI_NOT_INITIALIZED session C (
     CL_BEGIN_CALL E GCK_RPC_CALL_C_OpenSession session C (\<lambda>cs.
     CL_IN_ULONG slot_id session cs (\<lambda>cs.
     CL_IN_ULONG flags session cs (\<lambda>cs.
     CL_PROCESS_CALL E session cs (\<lambda>cs.
     CL_OUT_ULONG session CKR_OK cs (\<lambda>ret session cs.
     CL_END_CALL ret session cs))))))"

definition cl_C_CloseSession ::
  "Client_Env \<Rightarrow> CK_ULONG \<Rightarrow> Client \<Rightarrow> (CK_RV \<times> unit
    \<times> Client) outcome" where
  "cl_C_CloseSession E session C =
     return_val_if_fail (pkcs11_initialized C) CKR_CRYPTOKI_NOT_INITIALIZED () C (
     CL_BEGIN_CALL E GCK_RPC_CALL_C_CloseSession () C (\<lambda>cs.
     CL_IN_ULONG session () cs (\<lambda>cs.
     CL_PROCESS_CALL E () cs (\<lambda>cs.
     CL_END_CALL CKR_OK () cs))))"

definition cl_C_CloseAllSessions ::
  "Client_Env \<Rightarrow> CK_ULONG \<Rightarrow> Client \<Rightarrow> (CK_RV \<times> unit
    \<times> Client) outcome" where
  "cl_C_CloseAllSessions E slot_id C =
     return_val_if_fail (pkcs11_initialized C) CKR_CRYPTOKI_NOT_INITIALIZED () C (
     CL_BEGIN_CALL E GCK_RPC_CALL_C_CloseAllSessions () C (\<lambda>cs.
     CL_IN_ULONG slot_id () cs (\<lambda>cs.
     CL_PROCESS_CALL E () cs (\<lambda>cs.
     CL_END_CALL CKR_OK () cs))))"

definition cl_C_GetFunctionStatus ::
  "Client_Env \<Rightarrow> CK_ULONG \<Rightarrow> Client \<Rightarrow> (CK_RV \<times> unit
    \<times> Client) outcome" where
  "cl_C_GetFunctionStatus E session C =
     return_val_if_fail (pkcs11_initialized C) CKR_CRYPTOKI_NOT_INITIALIZED () C (
     CL_BEGIN_CALL E GCK_RPC_CALL_C_GetFunctionStatus () C (\<lambda>cs.
     CL_IN_ULONG session () cs (\<lambda>cs.
     CL_PROCESS_CALL E () cs (\<lambda>cs.
     CL_END_CALL CKR_OK () cs))))"

definition cl_C_CancelFunction ::
  "Client_Env \<Rightarrow> CK_ULONG \<Rightarrow> Client \<Rightarrow> (CK_RV \<times> unit
    \<times> Client) outcome" where
  "cl_C_CancelFunction E session C =
     return_val_if_fail (pkcs11_initialized C) CKR_CRYPTOKI_NOT_INITIALIZED () C (
     CL_BEGIN_CALL E GCK_RPC_CALL_C_CancelFunction () C (\<lambda>cs.
     CL_IN_ULONG session () cs (\<lambda>cs.
     CL_PROCESS_CALL E () cs (\<lambda>cs.
     CL_END_CALL CKR_OK () cs))))"

definition cl_C_GetSessionInfo ::
  "Client_Env \<Rightarrow> CK_ULONG \<Rightarrow> CK_SESSION_INFO option \<Rightarrow> Client
    \<Rightarrow> (CK_RV \<times> (CK_SESSION_INFO option) \<times> Client) outcome" where
  "cl_C_GetSessionInfo E session info C =
     return_val_if_fail (pkcs11_initialized C) CKR_CRYPTOKI_NOT_INITIALIZED info C (
     return_val_if_fail (info \<noteq> None) CKR_ARGUMENTS_BAD info C (
     CL_BEGIN_CALL E GCK_RPC_CALL_C_GetSessionInfo info C (\<lambda>cs.
     CL_IN_ULONG session info cs (\<lambda>cs.
     CL_PROCESS_CALL E info cs (\<lambda>cs.
     CL_OUT_SESSION_INFO info CKR_OK cs (\<lambda>ret info cs.
     CL_END_CALL ret info cs))))))"

definition cl_C_InitPIN ::
  "Client_Env \<Rightarrow> CK_ULONG \<Rightarrow> block option \<Rightarrow> CK_ULONG
    \<Rightarrow> Client \<Rightarrow> (CK_RV \<times> unit \<times> Client) outcome" where
  "cl_C_InitPIN E session pin pin_len C =
     return_val_if_fail (pkcs11_initialized C) CKR_CRYPTOKI_NOT_INITIALIZED () C (
     CL_BEGIN_CALL E GCK_RPC_CALL_C_InitPIN () C (\<lambda>cs.
     CL_IN_ULONG session () cs (\<lambda>cs.
     CL_IN_BYTE_ARRAY pin pin_len () cs (\<lambda>cs.
     CL_PROCESS_CALL E () cs (\<lambda>cs.
     CL_END_CALL CKR_OK () cs)))))"

definition cl_C_SetPIN ::
  "Client_Env \<Rightarrow> CK_ULONG \<Rightarrow> block option \<Rightarrow> CK_ULONG
    \<Rightarrow> block option \<Rightarrow> CK_ULONG \<Rightarrow> Client \<Rightarrow> (CK_RV
    \<times> unit \<times> Client) outcome" where
  "cl_C_SetPIN E session old_pin old_pin_len new_pin new_pin_len C =
     return_val_if_fail (pkcs11_initialized C) CKR_CRYPTOKI_NOT_INITIALIZED () C (
     CL_BEGIN_CALL E GCK_RPC_CALL_C_SetPIN () C (\<lambda>cs.
     CL_IN_ULONG session () cs (\<lambda>cs.
     CL_IN_BYTE_ARRAY old_pin old_pin_len () cs (\<lambda>cs.
     CL_IN_BYTE_ARRAY new_pin new_pin_len () cs (\<lambda>cs.
     CL_PROCESS_CALL E () cs (\<lambda>cs.
     CL_END_CALL CKR_OK () cs))))))"

definition cl_C_GetOperationState ::
  "Client_Env \<Rightarrow> CK_ULONG \<Rightarrow> block option \<Rightarrow> CK_ULONG option
    \<Rightarrow> Client \<Rightarrow> (CK_RV \<times> (block option \<times> CK_ULONG option)
    \<times> Client) outcome" where
  "cl_C_GetOperationState E session operation_state operation_state_len C =
     return_val_if_fail (pkcs11_initialized C) CKR_CRYPTOKI_NOT_INITIALIZED (operation_state, operation_state_len) C (
     CL_BEGIN_CALL E GCK_RPC_CALL_C_GetOperationState (operation_state, operation_state_len) C (\<lambda>cs.
     CL_IN_ULONG session (operation_state, operation_state_len) cs (\<lambda>cs.
     CL_IN_BYTE_BUFFER operation_state operation_state_len (operation_state, operation_state_len) cs (\<lambda>cs.
     CL_PROCESS_CALL E (operation_state, operation_state_len) cs (\<lambda>cs.
     CL_OUT_BYTE_ARRAY (operation_state, operation_state_len) CKR_OK cs (\<lambda>ret mem cs.
     CL_END_CALL ret mem cs))))))"

definition cl_C_SetOperationState ::
  "Client_Env \<Rightarrow> CK_ULONG \<Rightarrow> block option \<Rightarrow> CK_ULONG
    \<Rightarrow> CK_ULONG \<Rightarrow> CK_ULONG \<Rightarrow> Client \<Rightarrow> (CK_RV
    \<times> unit \<times> Client) outcome" where
  "cl_C_SetOperationState E session operation_state operation_state_len encryption_key authentication_key C =
     return_val_if_fail (pkcs11_initialized C) CKR_CRYPTOKI_NOT_INITIALIZED () C (
     CL_BEGIN_CALL E GCK_RPC_CALL_C_SetOperationState () C (\<lambda>cs.
     CL_IN_ULONG session () cs (\<lambda>cs.
     CL_IN_BYTE_ARRAY operation_state operation_state_len () cs (\<lambda>cs.
     CL_IN_ULONG encryption_key () cs (\<lambda>cs.
     CL_IN_ULONG authentication_key () cs (\<lambda>cs.
     CL_PROCESS_CALL E () cs (\<lambda>cs.
     CL_END_CALL CKR_OK () cs)))))))"

definition cl_C_Login ::
  "Client_Env \<Rightarrow> CK_ULONG \<Rightarrow> CK_ULONG \<Rightarrow> block option
    \<Rightarrow> CK_ULONG \<Rightarrow> Client \<Rightarrow> (CK_RV \<times> unit \<times>
    Client) outcome" where
  "cl_C_Login E session user_type pin pin_len C =
     return_val_if_fail (pkcs11_initialized C) CKR_CRYPTOKI_NOT_INITIALIZED () C (
     CL_BEGIN_CALL E GCK_RPC_CALL_C_Login () C (\<lambda>cs.
     CL_IN_ULONG session () cs (\<lambda>cs.
     CL_IN_ULONG user_type () cs (\<lambda>cs.
     CL_IN_BYTE_ARRAY pin pin_len () cs (\<lambda>cs.
     CL_PROCESS_CALL E () cs (\<lambda>cs.
     CL_END_CALL CKR_OK () cs))))))"

definition cl_C_Logout ::
  "Client_Env \<Rightarrow> CK_ULONG \<Rightarrow> Client \<Rightarrow> (CK_RV \<times> unit
    \<times> Client) outcome" where
  "cl_C_Logout E session C =
     return_val_if_fail (pkcs11_initialized C) CKR_CRYPTOKI_NOT_INITIALIZED () C (
     CL_BEGIN_CALL E GCK_RPC_CALL_C_Logout () C (\<lambda>cs.
     CL_IN_ULONG session () cs (\<lambda>cs.
     CL_PROCESS_CALL E () cs (\<lambda>cs.
     CL_END_CALL CKR_OK () cs))))"

section \<open>Objects\<close>

definition cl_C_CreateObject ::
  "Client_Env \<Rightarrow> CK_ULONG \<Rightarrow> attr_array \<Rightarrow> CK_ULONG
    \<Rightarrow> CK_ULONG option \<Rightarrow> Client \<Rightarrow> (CK_RV \<times> CK_ULONG
    option \<times> Client) outcome" where
  "cl_C_CreateObject E session tmpl n new_object C =
     return_val_if_fail (pkcs11_initialized C) CKR_CRYPTOKI_NOT_INITIALIZED new_object C (
     return_val_if_fail (session \<noteq> 0) CKR_SESSION_HANDLE_INVALID new_object C (
     return_val_if_fail (tmpl \<noteq> None) CKR_ARGUMENTS_BAD new_object C (
     return_val_if_fail (new_object \<noteq> None) CKR_ARGUMENTS_BAD new_object C (
     CL_BEGIN_CALL E GCK_RPC_CALL_C_CreateObject new_object C (\<lambda>cs.
     CL_IN_ULONG session new_object cs (\<lambda>cs.
     CL_IN_ATTRIBUTE_ARRAY tmpl n new_object cs (\<lambda>cs.
     CL_PROCESS_CALL E new_object cs (\<lambda>cs.
     CL_OUT_ULONG new_object CKR_OK cs (\<lambda>ret new_object cs.
     CL_END_CALL ret new_object cs)))))))))"

definition cl_C_CopyObject ::
  "Client_Env \<Rightarrow> CK_ULONG \<Rightarrow> CK_ULONG \<Rightarrow> attr_array
    \<Rightarrow> CK_ULONG \<Rightarrow> CK_ULONG option \<Rightarrow> Client \<Rightarrow>
    (CK_RV \<times> CK_ULONG option \<times> Client) outcome" where
  "cl_C_CopyObject E session object tmpl n new_object C =
     return_val_if_fail (pkcs11_initialized C) CKR_CRYPTOKI_NOT_INITIALIZED new_object C (
     return_val_if_fail (new_object \<noteq> None) CKR_ARGUMENTS_BAD new_object C (
     CL_BEGIN_CALL E GCK_RPC_CALL_C_CopyObject new_object C (\<lambda>cs.
     CL_IN_ULONG session new_object cs (\<lambda>cs.
     CL_IN_ULONG object new_object cs (\<lambda>cs.
     CL_IN_ATTRIBUTE_ARRAY tmpl n new_object cs (\<lambda>cs.
     CL_PROCESS_CALL E new_object cs (\<lambda>cs.
     CL_OUT_ULONG new_object CKR_OK cs (\<lambda>ret new_object cs.
     CL_END_CALL ret new_object cs))))))))"

definition cl_C_DestroyObject ::
  "Client_Env \<Rightarrow> CK_ULONG \<Rightarrow> CK_ULONG \<Rightarrow> Client \<Rightarrow>
    (CK_RV \<times> unit \<times> Client) outcome" where
  "cl_C_DestroyObject E session object C =
     return_val_if_fail (pkcs11_initialized C) CKR_CRYPTOKI_NOT_INITIALIZED () C (
     CL_BEGIN_CALL E GCK_RPC_CALL_C_DestroyObject () C (\<lambda>cs.
     CL_IN_ULONG session () cs (\<lambda>cs.
     CL_IN_ULONG object () cs (\<lambda>cs.
     CL_PROCESS_CALL E () cs (\<lambda>cs.
     CL_END_CALL CKR_OK () cs)))))"

definition cl_C_GetObjectSize ::
  "Client_Env \<Rightarrow> CK_ULONG \<Rightarrow> CK_ULONG \<Rightarrow> CK_ULONG option
    \<Rightarrow> Client \<Rightarrow> (CK_RV \<times> CK_ULONG option \<times> Client) outcome" where
  "cl_C_GetObjectSize E session object sz C =
     return_val_if_fail (pkcs11_initialized C) CKR_CRYPTOKI_NOT_INITIALIZED sz C (
     return_val_if_fail (sz \<noteq> None) CKR_ARGUMENTS_BAD sz C (
     CL_BEGIN_CALL E GCK_RPC_CALL_C_GetObjectSize sz C (\<lambda>cs.
     CL_IN_ULONG session sz cs (\<lambda>cs.
     CL_IN_ULONG object sz cs (\<lambda>cs.
     CL_PROCESS_CALL E sz cs (\<lambda>cs.
     CL_OUT_ULONG sz CKR_OK cs (\<lambda>ret sz cs.
     CL_END_CALL ret sz cs)))))))"

definition cl_C_GetAttributeValue ::
  "Client_Env \<Rightarrow> CK_ULONG \<Rightarrow> CK_ULONG \<Rightarrow> attr_array
    \<Rightarrow> CK_ULONG \<Rightarrow> Client \<Rightarrow> (CK_RV \<times> (attr_array)
    \<times> Client) outcome" where
  "cl_C_GetAttributeValue E session object tmpl n C =
     return_val_if_fail (pkcs11_initialized C) CKR_CRYPTOKI_NOT_INITIALIZED tmpl C (
     return_val_if_fail (tmpl \<noteq> None) CKR_ARGUMENTS_BAD tmpl C (
     CL_BEGIN_CALL E GCK_RPC_CALL_C_GetAttributeValue tmpl C (\<lambda>cs.
     CL_IN_ULONG session tmpl cs (\<lambda>cs.
     CL_IN_ULONG object tmpl cs (\<lambda>cs.
     CL_IN_ATTRIBUTE_BUFFER tmpl n tmpl cs (\<lambda>cs.
     CL_PROCESS_CALL E tmpl cs (\<lambda>cs.
     CL_OUT_ATTRIBUTE_ARRAY E n tmpl CKR_OK cs (\<lambda>ret tmpl cs.
     CL_END_CALL ret tmpl cs))))))))"

definition cl_C_SetAttributeValue ::
  "Client_Env \<Rightarrow> CK_ULONG \<Rightarrow> CK_ULONG \<Rightarrow> attr_array
    \<Rightarrow> CK_ULONG \<Rightarrow> Client \<Rightarrow> (CK_RV \<times> unit \<times>
    Client) outcome" where
  "cl_C_SetAttributeValue E session object tmpl n C =
     return_val_if_fail (pkcs11_initialized C) CKR_CRYPTOKI_NOT_INITIALIZED () C (
     CL_BEGIN_CALL E GCK_RPC_CALL_C_SetAttributeValue () C (\<lambda>cs.
     CL_IN_ULONG session () cs (\<lambda>cs.
     CL_IN_ULONG object () cs (\<lambda>cs.
     CL_IN_ATTRIBUTE_ARRAY tmpl n () cs (\<lambda>cs.
     CL_PROCESS_CALL E () cs (\<lambda>cs.
     CL_END_CALL CKR_OK () cs))))))"

definition cl_C_FindObjectsInit ::
  "Client_Env \<Rightarrow> CK_ULONG \<Rightarrow> attr_array \<Rightarrow> CK_ULONG
    \<Rightarrow> Client \<Rightarrow> (CK_RV \<times> unit \<times> Client) outcome" where
  "cl_C_FindObjectsInit E session tmpl n C =
     return_val_if_fail (pkcs11_initialized C) CKR_CRYPTOKI_NOT_INITIALIZED () C (
     CL_BEGIN_CALL E GCK_RPC_CALL_C_FindObjectsInit () C (\<lambda>cs.
     CL_IN_ULONG session () cs (\<lambda>cs.
     CL_IN_ATTRIBUTE_ARRAY tmpl n () cs (\<lambda>cs.
     CL_PROCESS_CALL E () cs (\<lambda>cs.
     CL_END_CALL CKR_OK () cs)))))"

definition cl_C_FindObjects ::
  "Client_Env \<Rightarrow> CK_ULONG \<Rightarrow> ulong_array \<Rightarrow> CK_ULONG
    \<Rightarrow> CK_ULONG option \<Rightarrow> Client \<Rightarrow> (CK_RV \<times>
    (ulong_array \<times> CK_ULONG option) \<times> Client) outcome" where
  "cl_C_FindObjects E session objects max_count n C =
     return_val_if_fail (pkcs11_initialized C) CKR_CRYPTOKI_NOT_INITIALIZED (objects, n) C (
     return_val_if_fail (n \<noteq> None) CKR_ARGUMENTS_BAD (objects, n) C (
     CL_BEGIN_CALL E GCK_RPC_CALL_C_FindObjects (objects, n) C (\<lambda>cs.
     CL_IN_ULONG session (objects, n) cs (\<lambda>cs.
     CL_IN_ULONG_BUFFER2 objects max_count (objects, n) cs (\<lambda>cs.
     CL_PROCESS_CALL E (objects, n) cs (\<lambda>cs.
     CL_OUT_ULONG_ARRAY E (objects, Some max_count) CKR_OK cs (\<lambda>ret mem cs.
     CL_END_CALL ret mem cs)))))))"

definition cl_C_FindObjectsFinal ::
  "Client_Env \<Rightarrow> CK_ULONG \<Rightarrow> Client \<Rightarrow> (CK_RV \<times> unit
    \<times> Client) outcome" where
  "cl_C_FindObjectsFinal E session C =
     return_val_if_fail (pkcs11_initialized C) CKR_CRYPTOKI_NOT_INITIALIZED () C (
     CL_BEGIN_CALL E GCK_RPC_CALL_C_FindObjectsFinal () C (\<lambda>cs.
     CL_IN_ULONG session () cs (\<lambda>cs.
     CL_PROCESS_CALL E () cs (\<lambda>cs.
     CL_END_CALL CKR_OK () cs))))"

section \<open>Encryption and decryption\<close>

definition cl_C_EncryptInit ::
  "Client_Env \<Rightarrow> CK_ULONG \<Rightarrow> CK_MECHANISM option \<Rightarrow> CK_ULONG
    \<Rightarrow> Client \<Rightarrow> (CK_RV \<times> unit \<times> Client) outcome" where
  "cl_C_EncryptInit E session mech key C =
     return_val_if_fail (pkcs11_initialized C) CKR_CRYPTOKI_NOT_INITIALIZED () C (
     CL_BEGIN_CALL E GCK_RPC_CALL_C_EncryptInit () C (\<lambda>cs.
     CL_IN_ULONG session () cs (\<lambda>cs.
     CL_IN_MECHANISM mech () cs (\<lambda>cs.
     CL_IN_ULONG key () cs (\<lambda>cs.
     CL_PROCESS_CALL E () cs (\<lambda>cs.
     CL_END_CALL CKR_OK () cs))))))"

definition cl_C_Encrypt ::
  "Client_Env \<Rightarrow> CK_ULONG \<Rightarrow> block option \<Rightarrow> CK_ULONG
    \<Rightarrow> block option \<Rightarrow> CK_ULONG option \<Rightarrow> Client \<Rightarrow>
    (CK_RV \<times> (block option \<times> CK_ULONG option) \<times> Client) outcome" where
  "cl_C_Encrypt E session dat dat_len encrypted_data encrypted_data_len C =
     return_val_if_fail (pkcs11_initialized C) CKR_CRYPTOKI_NOT_INITIALIZED (encrypted_data, encrypted_data_len) C (
     CL_BEGIN_CALL E GCK_RPC_CALL_C_Encrypt (encrypted_data, encrypted_data_len) C (\<lambda>cs.
     CL_IN_ULONG session (encrypted_data, encrypted_data_len) cs (\<lambda>cs.
     CL_IN_BYTE_ARRAY dat dat_len (encrypted_data, encrypted_data_len) cs (\<lambda>cs.
     CL_IN_BYTE_BUFFER encrypted_data encrypted_data_len (encrypted_data, encrypted_data_len) cs (\<lambda>cs.
     CL_PROCESS_CALL E (encrypted_data, encrypted_data_len) cs (\<lambda>cs.
     CL_OUT_BYTE_ARRAY (encrypted_data, encrypted_data_len) CKR_OK cs (\<lambda>ret mem cs.
     CL_END_CALL ret mem cs)))))))"

definition cl_C_EncryptUpdate ::
  "Client_Env \<Rightarrow> CK_ULONG \<Rightarrow> block option \<Rightarrow> CK_ULONG
    \<Rightarrow> block option \<Rightarrow> CK_ULONG option \<Rightarrow> Client \<Rightarrow>
    (CK_RV \<times> (block option \<times> CK_ULONG option) \<times> Client) outcome" where
  "cl_C_EncryptUpdate E session prt prt_len encrypted_part encrypted_part_len C =
     return_val_if_fail (pkcs11_initialized C) CKR_CRYPTOKI_NOT_INITIALIZED (encrypted_part, encrypted_part_len) C (
     CL_BEGIN_CALL E GCK_RPC_CALL_C_EncryptUpdate (encrypted_part, encrypted_part_len) C (\<lambda>cs.
     CL_IN_ULONG session (encrypted_part, encrypted_part_len) cs (\<lambda>cs.
     CL_IN_BYTE_ARRAY prt prt_len (encrypted_part, encrypted_part_len) cs (\<lambda>cs.
     CL_IN_BYTE_BUFFER encrypted_part encrypted_part_len (encrypted_part, encrypted_part_len) cs (\<lambda>cs.
     CL_PROCESS_CALL E (encrypted_part, encrypted_part_len) cs (\<lambda>cs.
     CL_OUT_BYTE_ARRAY (encrypted_part, encrypted_part_len) CKR_OK cs (\<lambda>ret mem cs.
     CL_END_CALL ret mem cs)))))))"

definition cl_C_EncryptFinal ::
  "Client_Env \<Rightarrow> CK_ULONG \<Rightarrow> block option \<Rightarrow> CK_ULONG option
    \<Rightarrow> Client \<Rightarrow> (CK_RV \<times> (block option \<times> CK_ULONG option)
    \<times> Client) outcome" where
  "cl_C_EncryptFinal E session last_part last_part_len C =
     return_val_if_fail (pkcs11_initialized C) CKR_CRYPTOKI_NOT_INITIALIZED (last_part, last_part_len) C (
     CL_BEGIN_CALL E GCK_RPC_CALL_C_EncryptFinal (last_part, last_part_len) C (\<lambda>cs.
     CL_IN_ULONG session (last_part, last_part_len) cs (\<lambda>cs.
     CL_IN_BYTE_BUFFER last_part last_part_len (last_part, last_part_len) cs (\<lambda>cs.
     CL_PROCESS_CALL E (last_part, last_part_len) cs (\<lambda>cs.
     CL_OUT_BYTE_ARRAY (last_part, last_part_len) CKR_OK cs (\<lambda>ret mem cs.
     CL_END_CALL ret mem cs))))))"

definition cl_C_DecryptInit ::
  "Client_Env \<Rightarrow> CK_ULONG \<Rightarrow> CK_MECHANISM option \<Rightarrow> CK_ULONG
    \<Rightarrow> Client \<Rightarrow> (CK_RV \<times> unit \<times> Client) outcome" where
  "cl_C_DecryptInit E session mech key C =
     return_val_if_fail (pkcs11_initialized C) CKR_CRYPTOKI_NOT_INITIALIZED () C (
     CL_BEGIN_CALL E GCK_RPC_CALL_C_DecryptInit () C (\<lambda>cs.
     CL_IN_ULONG session () cs (\<lambda>cs.
     CL_IN_MECHANISM mech () cs (\<lambda>cs.
     CL_IN_ULONG key () cs (\<lambda>cs.
     CL_PROCESS_CALL E () cs (\<lambda>cs.
     CL_END_CALL CKR_OK () cs))))))"

definition cl_C_Decrypt ::
  "Client_Env \<Rightarrow> CK_ULONG \<Rightarrow> block option \<Rightarrow> CK_ULONG
    \<Rightarrow> block option \<Rightarrow> CK_ULONG option \<Rightarrow> Client \<Rightarrow>
    (CK_RV \<times> (block option \<times> CK_ULONG option) \<times> Client) outcome" where
  "cl_C_Decrypt E session enc_data enc_data_len dat dat_len C =
     return_val_if_fail (pkcs11_initialized C) CKR_CRYPTOKI_NOT_INITIALIZED (dat, dat_len) C (
     CL_BEGIN_CALL E GCK_RPC_CALL_C_Decrypt (dat, dat_len) C (\<lambda>cs.
     CL_IN_ULONG session (dat, dat_len) cs (\<lambda>cs.
     CL_IN_BYTE_ARRAY enc_data enc_data_len (dat, dat_len) cs (\<lambda>cs.
     CL_IN_BYTE_BUFFER dat dat_len (dat, dat_len) cs (\<lambda>cs.
     CL_PROCESS_CALL E (dat, dat_len) cs (\<lambda>cs.
     CL_OUT_BYTE_ARRAY (dat, dat_len) CKR_OK cs (\<lambda>ret mem cs.
     CL_END_CALL ret mem cs)))))))"

definition cl_C_DecryptUpdate ::
  "Client_Env \<Rightarrow> CK_ULONG \<Rightarrow> block option \<Rightarrow> CK_ULONG
    \<Rightarrow> block option \<Rightarrow> CK_ULONG option \<Rightarrow> Client \<Rightarrow>
    (CK_RV \<times> (block option \<times> CK_ULONG option) \<times> Client) outcome" where
  "cl_C_DecryptUpdate E session enc_part enc_part_len prt prt_len C =
     return_val_if_fail (pkcs11_initialized C) CKR_CRYPTOKI_NOT_INITIALIZED (prt, prt_len) C (
     CL_BEGIN_CALL E GCK_RPC_CALL_C_DecryptUpdate (prt, prt_len) C (\<lambda>cs.
     CL_IN_ULONG session (prt, prt_len) cs (\<lambda>cs.
     CL_IN_BYTE_ARRAY enc_part enc_part_len (prt, prt_len) cs (\<lambda>cs.
     CL_IN_BYTE_BUFFER prt prt_len (prt, prt_len) cs (\<lambda>cs.
     CL_PROCESS_CALL E (prt, prt_len) cs (\<lambda>cs.
     CL_OUT_BYTE_ARRAY (prt, prt_len) CKR_OK cs (\<lambda>ret mem cs.
     CL_END_CALL ret mem cs)))))))"

definition cl_C_DecryptFinal ::
  "Client_Env \<Rightarrow> CK_ULONG \<Rightarrow> block option \<Rightarrow> CK_ULONG option
    \<Rightarrow> Client \<Rightarrow> (CK_RV \<times> (block option \<times> CK_ULONG option)
    \<times> Client) outcome" where
  "cl_C_DecryptFinal E session last_part last_part_len C =
     return_val_if_fail (pkcs11_initialized C) CKR_CRYPTOKI_NOT_INITIALIZED (last_part, last_part_len) C (
     CL_BEGIN_CALL E GCK_RPC_CALL_C_DecryptFinal (last_part, last_part_len) C (\<lambda>cs.
     CL_IN_ULONG session (last_part, last_part_len) cs (\<lambda>cs.
     CL_IN_BYTE_BUFFER last_part last_part_len (last_part, last_part_len) cs (\<lambda>cs.
     CL_PROCESS_CALL E (last_part, last_part_len) cs (\<lambda>cs.
     CL_OUT_BYTE_ARRAY (last_part, last_part_len) CKR_OK cs (\<lambda>ret mem cs.
     CL_END_CALL ret mem cs))))))"

section \<open>Digests\<close>

definition cl_C_DigestInit ::
  "Client_Env \<Rightarrow> CK_ULONG \<Rightarrow> CK_MECHANISM option \<Rightarrow> Client
    \<Rightarrow> (CK_RV \<times> unit \<times> Client) outcome" where
  "cl_C_DigestInit E session mech C =
     return_val_if_fail (pkcs11_initialized C) CKR_CRYPTOKI_NOT_INITIALIZED () C (
     CL_BEGIN_CALL E GCK_RPC_CALL_C_DigestInit () C (\<lambda>cs.
     CL_IN_ULONG session () cs (\<lambda>cs.
     CL_IN_MECHANISM mech () cs (\<lambda>cs.
     CL_PROCESS_CALL E () cs (\<lambda>cs.
     CL_END_CALL CKR_OK () cs)))))"

definition cl_C_Digest ::
  "Client_Env \<Rightarrow> CK_ULONG \<Rightarrow> block option \<Rightarrow> CK_ULONG
    \<Rightarrow> block option \<Rightarrow> CK_ULONG option \<Rightarrow> Client \<Rightarrow>
    (CK_RV \<times> (block option \<times> CK_ULONG option) \<times> Client) outcome" where
  "cl_C_Digest E session dat dat_len digest digest_len C =
     return_val_if_fail (pkcs11_initialized C) CKR_CRYPTOKI_NOT_INITIALIZED (digest, digest_len) C (
     CL_BEGIN_CALL E GCK_RPC_CALL_C_Digest (digest, digest_len) C (\<lambda>cs.
     CL_IN_ULONG session (digest, digest_len) cs (\<lambda>cs.
     CL_IN_BYTE_ARRAY dat dat_len (digest, digest_len) cs (\<lambda>cs.
     CL_IN_BYTE_BUFFER digest digest_len (digest, digest_len) cs (\<lambda>cs.
     CL_PROCESS_CALL E (digest, digest_len) cs (\<lambda>cs.
     CL_OUT_BYTE_ARRAY (digest, digest_len) CKR_OK cs (\<lambda>ret mem cs.
     CL_END_CALL ret mem cs)))))))"

definition cl_C_DigestUpdate ::
  "Client_Env \<Rightarrow> CK_ULONG \<Rightarrow> block option \<Rightarrow> CK_ULONG
    \<Rightarrow> Client \<Rightarrow> (CK_RV \<times> unit \<times> Client) outcome" where
  "cl_C_DigestUpdate E session prt prt_len C =
     return_val_if_fail (pkcs11_initialized C) CKR_CRYPTOKI_NOT_INITIALIZED () C (
     CL_BEGIN_CALL E GCK_RPC_CALL_C_DigestUpdate () C (\<lambda>cs.
     CL_IN_ULONG session () cs (\<lambda>cs.
     CL_IN_BYTE_ARRAY prt prt_len () cs (\<lambda>cs.
     CL_PROCESS_CALL E () cs (\<lambda>cs.
     CL_END_CALL CKR_OK () cs)))))"

definition cl_C_DigestKey ::
  "Client_Env \<Rightarrow> CK_ULONG \<Rightarrow> CK_ULONG \<Rightarrow> Client \<Rightarrow>
    (CK_RV \<times> unit \<times> Client) outcome" where
  "cl_C_DigestKey E session key C =
     return_val_if_fail (pkcs11_initialized C) CKR_CRYPTOKI_NOT_INITIALIZED () C (
     CL_BEGIN_CALL E GCK_RPC_CALL_C_DigestKey () C (\<lambda>cs.
     CL_IN_ULONG session () cs (\<lambda>cs.
     CL_IN_ULONG key () cs (\<lambda>cs.
     CL_PROCESS_CALL E () cs (\<lambda>cs.
     CL_END_CALL CKR_OK () cs)))))"

definition cl_C_DigestFinal ::
  "Client_Env \<Rightarrow> CK_ULONG \<Rightarrow> block option \<Rightarrow> CK_ULONG option
    \<Rightarrow> Client \<Rightarrow> (CK_RV \<times> (block option \<times> CK_ULONG option)
    \<times> Client) outcome" where
  "cl_C_DigestFinal E session digest digest_len C =
     return_val_if_fail (pkcs11_initialized C) CKR_CRYPTOKI_NOT_INITIALIZED (digest, digest_len) C (
     CL_BEGIN_CALL E GCK_RPC_CALL_C_DigestFinal (digest, digest_len) C (\<lambda>cs.
     CL_IN_ULONG session (digest, digest_len) cs (\<lambda>cs.
     CL_IN_BYTE_BUFFER digest digest_len (digest, digest_len) cs (\<lambda>cs.
     CL_PROCESS_CALL E (digest, digest_len) cs (\<lambda>cs.
     CL_OUT_BYTE_ARRAY (digest, digest_len) CKR_OK cs (\<lambda>ret mem cs.
     CL_END_CALL ret mem cs))))))"

section \<open>Signatures\<close>

definition cl_C_SignInit ::
  "Client_Env \<Rightarrow> CK_ULONG \<Rightarrow> CK_MECHANISM option \<Rightarrow> CK_ULONG
    \<Rightarrow> Client \<Rightarrow> (CK_RV \<times> unit \<times> Client) outcome" where
  "cl_C_SignInit E session mech key C =
     return_val_if_fail (pkcs11_initialized C) CKR_CRYPTOKI_NOT_INITIALIZED () C (
     CL_BEGIN_CALL E GCK_RPC_CALL_C_SignInit () C (\<lambda>cs.
     CL_IN_ULONG session () cs (\<lambda>cs.
     CL_IN_MECHANISM mech () cs (\<lambda>cs.
     CL_IN_ULONG key () cs (\<lambda>cs.
     CL_PROCESS_CALL E () cs (\<lambda>cs.
     CL_END_CALL CKR_OK () cs))))))"

definition cl_C_Sign ::
  "Client_Env \<Rightarrow> CK_ULONG \<Rightarrow> block option \<Rightarrow> CK_ULONG
    \<Rightarrow> block option \<Rightarrow> CK_ULONG option \<Rightarrow> Client \<Rightarrow>
    (CK_RV \<times> (block option \<times> CK_ULONG option) \<times> Client) outcome" where
  "cl_C_Sign E session dat dat_len sig sig_len C =
     return_val_if_fail (pkcs11_initialized C) CKR_CRYPTOKI_NOT_INITIALIZED (sig, sig_len) C (
     CL_BEGIN_CALL E GCK_RPC_CALL_C_Sign (sig, sig_len) C (\<lambda>cs.
     CL_IN_ULONG session (sig, sig_len) cs (\<lambda>cs.
     CL_IN_BYTE_ARRAY dat dat_len (sig, sig_len) cs (\<lambda>cs.
     CL_IN_BYTE_BUFFER sig sig_len (sig, sig_len) cs (\<lambda>cs.
     CL_PROCESS_CALL E (sig, sig_len) cs (\<lambda>cs.
     CL_OUT_BYTE_ARRAY (sig, sig_len) CKR_OK cs (\<lambda>ret mem cs.
     CL_END_CALL ret mem cs)))))))"

definition cl_C_SignUpdate ::
  "Client_Env \<Rightarrow> CK_ULONG \<Rightarrow> block option \<Rightarrow> CK_ULONG
    \<Rightarrow> Client \<Rightarrow> (CK_RV \<times> unit \<times> Client) outcome" where
  "cl_C_SignUpdate E session prt prt_len C =
     return_val_if_fail (pkcs11_initialized C) CKR_CRYPTOKI_NOT_INITIALIZED () C (
     return_val_if_fail (prt_len \<noteq> 0) CKR_ARGUMENTS_BAD () C (
     CL_BEGIN_CALL E GCK_RPC_CALL_C_SignUpdate () C (\<lambda>cs.
     CL_IN_ULONG session () cs (\<lambda>cs.
     CL_IN_BYTE_ARRAY prt prt_len () cs (\<lambda>cs.
     CL_PROCESS_CALL E () cs (\<lambda>cs.
     CL_END_CALL CKR_OK () cs))))))"

definition cl_C_SignFinal ::
  "Client_Env \<Rightarrow> CK_ULONG \<Rightarrow> block option \<Rightarrow> CK_ULONG option
    \<Rightarrow> Client \<Rightarrow> (CK_RV \<times> (block option \<times> CK_ULONG option)
    \<times> Client) outcome" where
  "cl_C_SignFinal E session sig sig_len C =
     return_val_if_fail (pkcs11_initialized C) CKR_CRYPTOKI_NOT_INITIALIZED (sig, sig_len) C (
     CL_BEGIN_CALL E GCK_RPC_CALL_C_SignFinal (sig, sig_len) C (\<lambda>cs.
     CL_IN_ULONG session (sig, sig_len) cs (\<lambda>cs.
     CL_IN_BYTE_BUFFER sig sig_len (sig, sig_len) cs (\<lambda>cs.
     CL_PROCESS_CALL E (sig, sig_len) cs (\<lambda>cs.
     CL_OUT_BYTE_ARRAY (sig, sig_len) CKR_OK cs (\<lambda>ret mem cs.
     CL_END_CALL ret mem cs))))))"

definition cl_C_SignRecoverInit ::
  "Client_Env \<Rightarrow> CK_ULONG \<Rightarrow> CK_MECHANISM option \<Rightarrow> CK_ULONG
    \<Rightarrow> Client \<Rightarrow> (CK_RV \<times> unit \<times> Client) outcome" where
  "cl_C_SignRecoverInit E session mech key C =
     return_val_if_fail (pkcs11_initialized C) CKR_CRYPTOKI_NOT_INITIALIZED () C (
     CL_BEGIN_CALL E GCK_RPC_CALL_C_SignRecoverInit () C (\<lambda>cs.
     CL_IN_ULONG session () cs (\<lambda>cs.
     CL_IN_MECHANISM mech () cs (\<lambda>cs.
     CL_IN_ULONG key () cs (\<lambda>cs.
     CL_PROCESS_CALL E () cs (\<lambda>cs.
     CL_END_CALL CKR_OK () cs))))))"

definition cl_C_SignRecover ::
  "Client_Env \<Rightarrow> CK_ULONG \<Rightarrow> block option \<Rightarrow> CK_ULONG
    \<Rightarrow> block option \<Rightarrow> CK_ULONG option \<Rightarrow> Client \<Rightarrow>
    (CK_RV \<times> (block option \<times> CK_ULONG option) \<times> Client) outcome" where
  "cl_C_SignRecover E session dat dat_len sig sig_len C =
     return_val_if_fail (pkcs11_initialized C) CKR_CRYPTOKI_NOT_INITIALIZED (sig, sig_len) C (
     CL_BEGIN_CALL E GCK_RPC_CALL_C_SignRecover (sig, sig_len) C (\<lambda>cs.
     CL_IN_ULONG session (sig, sig_len) cs (\<lambda>cs.
     CL_IN_BYTE_ARRAY dat dat_len (sig, sig_len) cs (\<lambda>cs.
     CL_IN_BYTE_BUFFER sig sig_len (sig, sig_len) cs (\<lambda>cs.
     CL_PROCESS_CALL E (sig, sig_len) cs (\<lambda>cs.
     CL_OUT_BYTE_ARRAY (sig, sig_len) CKR_OK cs (\<lambda>ret mem cs.
     CL_END_CALL ret mem cs)))))))"

section \<open>Verification\<close>

definition cl_C_VerifyInit ::
  "Client_Env \<Rightarrow> CK_ULONG \<Rightarrow> CK_MECHANISM option \<Rightarrow> CK_ULONG
    \<Rightarrow> Client \<Rightarrow> (CK_RV \<times> unit \<times> Client) outcome" where
  "cl_C_VerifyInit E session mech key C =
     return_val_if_fail (pkcs11_initialized C) CKR_CRYPTOKI_NOT_INITIALIZED () C (
     CL_BEGIN_CALL E GCK_RPC_CALL_C_VerifyInit () C (\<lambda>cs.
     CL_IN_ULONG session () cs (\<lambda>cs.
     CL_IN_MECHANISM mech () cs (\<lambda>cs.
     CL_IN_ULONG key () cs (\<lambda>cs.
     CL_PROCESS_CALL E () cs (\<lambda>cs.
     CL_END_CALL CKR_OK () cs))))))"

definition cl_C_Verify ::
  "Client_Env \<Rightarrow> CK_ULONG \<Rightarrow> block option \<Rightarrow> CK_ULONG
    \<Rightarrow> block option \<Rightarrow> CK_ULONG \<Rightarrow> Client \<Rightarrow> (CK_RV
    \<times> unit \<times> Client) outcome" where
  "cl_C_Verify E session dat dat_len sig sig_len C =
     return_val_if_fail (pkcs11_initialized C) CKR_CRYPTOKI_NOT_INITIALIZED () C (
     CL_BEGIN_CALL E GCK_RPC_CALL_C_Verify () C (\<lambda>cs.
     CL_IN_ULONG session () cs (\<lambda>cs.
     CL_IN_BYTE_ARRAY dat dat_len () cs (\<lambda>cs.
     CL_IN_BYTE_ARRAY sig sig_len () cs (\<lambda>cs.
     CL_PROCESS_CALL E () cs (\<lambda>cs.
     CL_END_CALL CKR_OK () cs))))))"

definition cl_C_VerifyUpdate ::
  "Client_Env \<Rightarrow> CK_ULONG \<Rightarrow> block option \<Rightarrow> CK_ULONG
    \<Rightarrow> Client \<Rightarrow> (CK_RV \<times> unit \<times> Client) outcome" where
  "cl_C_VerifyUpdate E session prt prt_len C =
     return_val_if_fail (pkcs11_initialized C) CKR_CRYPTOKI_NOT_INITIALIZED () C (
     CL_BEGIN_CALL E GCK_RPC_CALL_C_VerifyUpdate () C (\<lambda>cs.
     CL_IN_ULONG session () cs (\<lambda>cs.
     CL_IN_BYTE_ARRAY prt prt_len () cs (\<lambda>cs.
     CL_PROCESS_CALL E () cs (\<lambda>cs.
     CL_END_CALL CKR_OK () cs)))))"

definition cl_C_VerifyFinal ::
  "Client_Env \<Rightarrow> CK_ULONG \<Rightarrow> block option \<Rightarrow> CK_ULONG
    \<Rightarrow> Client \<Rightarrow> (CK_RV \<times> unit \<times> Client) outcome" where
  "cl_C_VerifyFinal E session sig sig_len C =
     return_val_if_fail (pkcs11_initialized C) CKR_CRYPTOKI_NOT_INITIALIZED () C (
     CL_BEGIN_CALL E GCK_RPC_CALL_C_VerifyFinal () C (\<lambda>cs.
     CL_IN_ULONG session () cs (\<lambda>cs.
     CL_IN_BYTE_ARRAY sig sig_len () cs (\<lambda>cs.
     CL_PROCESS_CALL E () cs (\<lambda>cs.
     CL_END_CALL CKR_OK () cs)))))"

definition cl_C_VerifyRecoverInit ::
  "Client_Env \<Rightarrow> CK_ULONG \<Rightarrow> CK_MECHANISM option \<Rightarrow> CK_ULONG
    \<Rightarrow> Client \<Rightarrow> (CK_RV \<times> unit \<times> Client) outcome" where
  "cl_C_VerifyRecoverInit E session mech key C =
     return_val_if_fail (pkcs11_initialized C) CKR_CRYPTOKI_NOT_INITIALIZED () C (
     CL_BEGIN_CALL E GCK_RPC_CALL_C_VerifyRecoverInit () C (\<lambda>cs.
     CL_IN_ULONG session () cs (\<lambda>cs.
     CL_IN_MECHANISM mech () cs (\<lambda>cs.
     CL_IN_ULONG key () cs (\<lambda>cs.
     CL_PROCESS_CALL E () cs (\<lambda>cs.
     CL_END_CALL CKR_OK () cs))))))"

definition cl_C_VerifyRecover ::
  "Client_Env \<Rightarrow> CK_ULONG \<Rightarrow> block option \<Rightarrow> CK_ULONG
    \<Rightarrow> block option \<Rightarrow> CK_ULONG option \<Rightarrow> Client \<Rightarrow>
    (CK_RV \<times> (block option \<times> CK_ULONG option) \<times> Client) outcome" where
  "cl_C_VerifyRecover E session sig sig_len dat dat_len C =
     return_val_if_fail (pkcs11_initialized C) CKR_CRYPTOKI_NOT_INITIALIZED (dat, dat_len) C (
     CL_BEGIN_CALL E GCK_RPC_CALL_C_VerifyRecover (dat, dat_len) C (\<lambda>cs.
     CL_IN_ULONG session (dat, dat_len) cs (\<lambda>cs.
     CL_IN_BYTE_ARRAY sig sig_len (dat, dat_len) cs (\<lambda>cs.
     CL_IN_BYTE_BUFFER dat dat_len (dat, dat_len) cs (\<lambda>cs.
     CL_PROCESS_CALL E (dat, dat_len) cs (\<lambda>cs.
     CL_OUT_BYTE_ARRAY (dat, dat_len) CKR_OK cs (\<lambda>ret mem cs.
     CL_END_CALL ret mem cs)))))))"

section \<open>Combined operations\<close>

definition cl_C_DigestEncryptUpdate ::
  "Client_Env \<Rightarrow> CK_ULONG \<Rightarrow> block option \<Rightarrow> CK_ULONG
    \<Rightarrow> block option \<Rightarrow> CK_ULONG option \<Rightarrow> Client \<Rightarrow>
    (CK_RV \<times> (block option \<times> CK_ULONG option) \<times> Client) outcome" where
  "cl_C_DigestEncryptUpdate E session prt prt_len enc_part enc_part_len C =
     return_val_if_fail (pkcs11_initialized C) CKR_CRYPTOKI_NOT_INITIALIZED (enc_part, enc_part_len) C (
     CL_BEGIN_CALL E GCK_RPC_CALL_C_DigestEncryptUpdate (enc_part, enc_part_len) C (\<lambda>cs.
     CL_IN_ULONG session (enc_part, enc_part_len) cs (\<lambda>cs.
     CL_IN_BYTE_ARRAY prt prt_len (enc_part, enc_part_len) cs (\<lambda>cs.
     CL_IN_BYTE_BUFFER enc_part enc_part_len (enc_part, enc_part_len) cs (\<lambda>cs.
     CL_PROCESS_CALL E (enc_part, enc_part_len) cs (\<lambda>cs.
     CL_OUT_BYTE_ARRAY (enc_part, enc_part_len) CKR_OK cs (\<lambda>ret mem cs.
     CL_END_CALL ret mem cs)))))))"

definition cl_C_DecryptDigestUpdate ::
  "Client_Env \<Rightarrow> CK_ULONG \<Rightarrow> block option \<Rightarrow> CK_ULONG
    \<Rightarrow> block option \<Rightarrow> CK_ULONG option \<Rightarrow> Client \<Rightarrow>
    (CK_RV \<times> (block option \<times> CK_ULONG option) \<times> Client) outcome" where
  "cl_C_DecryptDigestUpdate E session enc_part enc_part_len prt prt_len C =
     return_val_if_fail (pkcs11_initialized C) CKR_CRYPTOKI_NOT_INITIALIZED (prt, prt_len) C (
     CL_BEGIN_CALL E GCK_RPC_CALL_C_DecryptDigestUpdate (prt, prt_len) C (\<lambda>cs.
     CL_IN_ULONG session (prt, prt_len) cs (\<lambda>cs.
     CL_IN_BYTE_ARRAY enc_part enc_part_len (prt, prt_len) cs (\<lambda>cs.
     CL_IN_BYTE_BUFFER prt prt_len (prt, prt_len) cs (\<lambda>cs.
     CL_PROCESS_CALL E (prt, prt_len) cs (\<lambda>cs.
     CL_OUT_BYTE_ARRAY (prt, prt_len) CKR_OK cs (\<lambda>ret mem cs.
     CL_END_CALL ret mem cs)))))))"

definition cl_C_SignEncryptUpdate ::
  "Client_Env \<Rightarrow> CK_ULONG \<Rightarrow> block option \<Rightarrow> CK_ULONG
    \<Rightarrow> block option \<Rightarrow> CK_ULONG option \<Rightarrow> Client \<Rightarrow>
    (CK_RV \<times> (block option \<times> CK_ULONG option) \<times> Client) outcome" where
  "cl_C_SignEncryptUpdate E session prt prt_len enc_part enc_part_len C =
     return_val_if_fail (pkcs11_initialized C) CKR_CRYPTOKI_NOT_INITIALIZED (enc_part, enc_part_len) C (
     CL_BEGIN_CALL E GCK_RPC_CALL_C_SignEncryptUpdate (enc_part, enc_part_len) C (\<lambda>cs.
     CL_IN_ULONG session (enc_part, enc_part_len) cs (\<lambda>cs.
     CL_IN_BYTE_ARRAY prt prt_len (enc_part, enc_part_len) cs (\<lambda>cs.
     CL_IN_BYTE_BUFFER enc_part enc_part_len (enc_part, enc_part_len) cs (\<lambda>cs.
     CL_PROCESS_CALL E (enc_part, enc_part_len) cs (\<lambda>cs.
     CL_OUT_BYTE_ARRAY (enc_part, enc_part_len) CKR_OK cs (\<lambda>ret mem cs.
     CL_END_CALL ret mem cs)))))))"

definition cl_C_DecryptVerifyUpdate ::
  "Client_Env \<Rightarrow> CK_ULONG \<Rightarrow> block option \<Rightarrow> CK_ULONG
    \<Rightarrow> block option \<Rightarrow> CK_ULONG option \<Rightarrow> Client \<Rightarrow>
    (CK_RV \<times> (block option \<times> CK_ULONG option) \<times> Client) outcome" where
  "cl_C_DecryptVerifyUpdate E session enc_part enc_part_len prt prt_len C =
     return_val_if_fail (pkcs11_initialized C) CKR_CRYPTOKI_NOT_INITIALIZED (prt, prt_len) C (
     CL_BEGIN_CALL E GCK_RPC_CALL_C_DecryptVerifyUpdate (prt, prt_len) C (\<lambda>cs.
     CL_IN_ULONG session (prt, prt_len) cs (\<lambda>cs.
     CL_IN_BYTE_ARRAY enc_part enc_part_len (prt, prt_len) cs (\<lambda>cs.
     CL_IN_BYTE_BUFFER prt prt_len (prt, prt_len) cs (\<lambda>cs.
     CL_PROCESS_CALL E (prt, prt_len) cs (\<lambda>cs.
     CL_OUT_BYTE_ARRAY (prt, prt_len) CKR_OK cs (\<lambda>ret mem cs.
     CL_END_CALL ret mem cs)))))))"

section \<open>Keys and random numbers\<close>

definition cl_C_GenerateKey ::
  "Client_Env \<Rightarrow> CK_ULONG \<Rightarrow> CK_MECHANISM option \<Rightarrow> attr_array
    \<Rightarrow> CK_ULONG \<Rightarrow> CK_ULONG option \<Rightarrow> Client \<Rightarrow>
    (CK_RV \<times> CK_ULONG option \<times> Client) outcome" where
  "cl_C_GenerateKey E session mech tmpl n key C =
     return_val_if_fail (pkcs11_initialized C) CKR_CRYPTOKI_NOT_INITIALIZED key C (
     CL_BEGIN_CALL E GCK_RPC_CALL_C_GenerateKey key C (\<lambda>cs.
     CL_IN_ULONG session key cs (\<lambda>cs.
     CL_IN_MECHANISM mech key cs (\<lambda>cs.
     CL_IN_ATTRIBUTE_ARRAY tmpl n key cs (\<lambda>cs.
     CL_PROCESS_CALL E key cs (\<lambda>cs.
     CL_OUT_ULONG key CKR_OK cs (\<lambda>ret key cs.
     CL_END_CALL ret key cs)))))))"

definition cl_C_GenerateKeyPair ::
  "Client_Env \<Rightarrow> CK_ULONG \<Rightarrow> CK_MECHANISM option \<Rightarrow> attr_array
    \<Rightarrow> CK_ULONG \<Rightarrow> attr_array \<Rightarrow> CK_ULONG \<Rightarrow>
    CK_ULONG option \<Rightarrow> CK_ULONG option \<Rightarrow> Client \<Rightarrow> (CK_RV
    \<times> (CK_ULONG option \<times> CK_ULONG option) \<times> Client) outcome" where
  "cl_C_GenerateKeyPair E session mech pub_tmpl pub_count priv_tmpl priv_count pub_key priv_key C =
     return_val_if_fail (pkcs11_initialized C) CKR_CRYPTOKI_NOT_INITIALIZED (pub_key, priv_key) C (
     return_val_if_fail (session \<noteq> 0) CKR_SESSION_HANDLE_INVALID (pub_key, priv_key) C (
     return_val_if_fail (mech \<noteq> None) CKR_ARGUMENTS_BAD (pub_key, priv_key) C (
     return_val_if_fail (pub_tmpl \<noteq> None) CKR_ARGUMENTS_BAD (pub_key, priv_key) C (
     return_val_if_fail (priv_tmpl \<noteq> None) CKR_ARGUMENTS_BAD (pub_key, priv_key) C (
     return_val_if_fail (pub_key \<noteq> None) CKR_ARGUMENTS_BAD (pub_key, priv_key) C (
     return_val_if_fail (priv_key \<noteq> None) CKR_ARGUMENTS_BAD (pub_key, priv_key) C (
     CL_BEGIN_CALL E GCK_RPC_CALL_C_GenerateKeyPair (pub_key, priv_key) C (\<lambda>cs.
     CL_IN_ULONG session (pub_key, priv_key) cs (\<lambda>cs.
     CL_IN_MECHANISM mech (pub_key, priv_key) cs (\<lambda>cs.
     CL_IN_ATTRIBUTE_ARRAY pub_tmpl pub_count (pub_key, priv_key) cs (\<lambda>cs.
     CL_IN_ATTRIBUTE_ARRAY priv_tmpl priv_count (pub_key, priv_key) cs (\<lambda>cs.
     CL_PROCESS_CALL E (pub_key, priv_key) cs (\<lambda>cs.
     CL_OUT_ULONG pub_key CKR_OK cs (\<lambda>ret pub_key cs.
     CL_OUT_ULONG priv_key ret cs (\<lambda>ret priv_key cs.
     CL_END_CALL ret (pub_key, priv_key) cs)))))))))))))))"

definition cl_C_WrapKey ::
  "Client_Env \<Rightarrow> CK_ULONG \<Rightarrow> CK_MECHANISM option \<Rightarrow> CK_ULONG
    \<Rightarrow> CK_ULONG \<Rightarrow> block option \<Rightarrow> CK_ULONG option
    \<Rightarrow> Client \<Rightarrow> (CK_RV \<times> (block option \<times> CK_ULONG option)
    \<times> Client) outcome" where
  "cl_C_WrapKey E session mech wrapping_key key wrapped_key wrapped_key_len C =
     return_val_if_fail (pkcs11_initialized C) CKR_CRYPTOKI_NOT_INITIALIZED (wrapped_key, wrapped_key_len) C (
     CL_BEGIN_CALL E GCK_RPC_CALL_C_WrapKey (wrapped_key, wrapped_key_len) C (\<lambda>cs.
     CL_IN_ULONG session (wrapped_key, wrapped_key_len) cs (\<lambda>cs.
     CL_IN_MECHANISM mech (wrapped_key, wrapped_key_len) cs (\<lambda>cs.
     CL_IN_ULONG wrapping_key (wrapped_key, wrapped_key_len) cs (\<lambda>cs.
     CL_IN_ULONG key (wrapped_key, wrapped_key_len) cs (\<lambda>cs.
     CL_IN_BYTE_BUFFER wrapped_key wrapped_key_len (wrapped_key, wrapped_key_len) cs (\<lambda>cs.
     CL_PROCESS_CALL E (wrapped_key, wrapped_key_len) cs (\<lambda>cs.
     CL_OUT_BYTE_ARRAY (wrapped_key, wrapped_key_len) CKR_OK cs (\<lambda>ret mem cs.
     CL_END_CALL ret mem cs)))))))))"

definition cl_C_UnwrapKey ::
  "Client_Env \<Rightarrow> CK_ULONG \<Rightarrow> CK_MECHANISM option \<Rightarrow> CK_ULONG
    \<Rightarrow> block option \<Rightarrow> CK_ULONG \<Rightarrow> attr_array \<Rightarrow>
    CK_ULONG \<Rightarrow> CK_ULONG option \<Rightarrow> Client \<Rightarrow> (CK_RV \<times>
    CK_ULONG option \<times> Client) outcome" where
  "cl_C_UnwrapKey E session mech unwrapping_key wrapped_key wrapped_key_len tmpl n key C =
     return_val_if_fail (pkcs11_initialized C) CKR_CRYPTOKI_NOT_INITIALIZED key C (
     CL_BEGIN_CALL E GCK_RPC_CALL_C_UnwrapKey key C (\<lambda>cs.
     CL_IN_ULONG session key cs (\<lambda>cs.
     CL_IN_MECHANISM mech key cs (\<lambda>cs.
     CL_IN_ULONG unwrapping_key key cs (\<lambda>cs.
     CL_IN_BYTE_ARRAY wrapped_key wrapped_key_len key cs (\<lambda>cs.
     CL_IN_ATTRIBUTE_ARRAY tmpl n key cs (\<lambda>cs.
     CL_PROCESS_CALL E key cs (\<lambda>cs.
     CL_OUT_ULONG key CKR_OK cs (\<lambda>ret key cs.
     CL_END_CALL ret key cs)))))))))"

definition cl_C_DeriveKey ::
  "Client_Env \<Rightarrow> CK_ULONG \<Rightarrow> CK_MECHANISM option \<Rightarrow> CK_ULONG
    \<Rightarrow> attr_array \<Rightarrow> CK_ULONG \<Rightarrow> CK_ULONG option \<Rightarrow>
    Client \<Rightarrow> (CK_RV \<times> CK_ULONG option \<times> Client) outcome" where
  "cl_C_DeriveKey E session mech base_key tmpl n key C =
     return_val_if_fail (pkcs11_initialized C) CKR_CRYPTOKI_NOT_INITIALIZED key C (
     CL_BEGIN_CALL E GCK_RPC_CALL_C_DeriveKey key C (\<lambda>cs.
     CL_IN_ULONG session key cs (\<lambda>cs.
     CL_IN_MECHANISM mech key cs (\<lambda>cs.
     CL_IN_ULONG base_key key cs (\<lambda>cs.
     CL_IN_ATTRIBUTE_ARRAY tmpl n key cs (\<lambda>cs.
     CL_PROCESS_CALL E key cs (\<lambda>cs.
     CL_OUT_ULONG key CKR_OK cs (\<lambda>ret key cs.
     CL_END_CALL ret key cs))))))))"

definition cl_C_SeedRandom ::
  "Client_Env \<Rightarrow> CK_ULONG \<Rightarrow> block option \<Rightarrow> CK_ULONG
    \<Rightarrow> Client \<Rightarrow> (CK_RV \<times> unit \<times> Client) outcome" where
  "cl_C_SeedRandom E session seed seed_len C =
     return_val_if_fail (pkcs11_initialized C) CKR_CRYPTOKI_NOT_INITIALIZED () C (
     CL_BEGIN_CALL E GCK_RPC_CALL_C_SeedRandom () C (\<lambda>cs.
     CL_IN_ULONG session () cs (\<lambda>cs.
     CL_IN_BYTE_ARRAY seed seed_len () cs (\<lambda>cs.
     CL_PROCESS_CALL E () cs (\<lambda>cs.
     CL_END_CALL CKR_OK () cs)))))"

definition cl_C_GenerateRandom ::
  "Client_Env \<Rightarrow> CK_ULONG \<Rightarrow> block option \<Rightarrow> CK_ULONG
    \<Rightarrow> Client \<Rightarrow> (CK_RV \<times> (block option) \<times> Client) outcome" where
  "cl_C_GenerateRandom E session random_data random_len C =
     return_val_if_fail (pkcs11_initialized C) CKR_CRYPTOKI_NOT_INITIALIZED random_data C (
     return_val_if_fail (random_data \<noteq> None) CKR_ARGUMENTS_BAD random_data C (
     CL_BEGIN_CALL E GCK_RPC_CALL_C_GenerateRandom random_data C (\<lambda>cs.
     CL_IN_ULONG session random_data cs (\<lambda>cs.
     CL_IN_BYTE_BUFFER random_data (Some random_len) random_data cs (\<lambda>cs.
     CL_PROCESS_CALL E random_data cs (\<lambda>cs.
     CL_OUT_BYTE_ARRAY2 random_data random_len CKR_OK cs (\<lambda>ret (random_data, random_len) cs.
     CL_END_CALL ret random_data cs)))))))"

end
