(* ===== verification/Client_Init.thy ===== *)
theory Client_Init
  imports Client_Calls C_Strings
begin

text \<open>
  Starting and stopping the client module (\<^verbatim>\<open>gck-rpc-module.c\<close>): the argument string that an
  application passes to \<open>C_Initialize\<close>, \<open>C_Initialize\<close> and \<open>C_Finalize\<close>.
\<close>

unbundle bit_operations_syntax

section \<open>Module arguments\<close>

abbreviation (input) BACKSLASH :: char where "BACKSLASH \<equiv> CHR 0x5C"
abbreviation (input) APOSTROPHE :: char where "APOSTROPHE \<equiv> CHR 0x27"
abbreviation (input) QUOTATION :: char where "QUOTATION \<equiv> CHR 0x22"

text \<open>\<open>snprintf (path, sizeof (path), "%s", s)\<close> into an array of \<open>MAXPATHLEN\<close> characters.\<close>

definition copy_path :: "string \<Rightarrow> string" where
  "copy_path s = take (MAXPATHLEN - 1) s"

definition isspace :: "char \<Rightarrow> bool" where
  "isspace c = (c \<in> {CHR '' '', CHR 0x09, CHR 0x0A, CHR 0x0B, CHR 0x0C, CHR 0x0D})"

text \<open>
  \<open>d\<close> is the memory and \<open>arg\<close> the place of the argument in it; the separator after the name is
  overwritten. Without a value, \<open>snprintf\<close> is called with a null pointer for \<open>%s\<close>.
\<close>

definition set_argument :: "string \<Rightarrow> string option \<Rightarrow> Client \<Rightarrow> Client outcome" where
  "set_argument name value C =
     (if name = ''socket'' then
        (case value of None \<Rightarrow> Fault | Some v \<Rightarrow> Ret (C\<lparr>client_socket_path := copy_path v\<rparr>))
      else if name = ''tls_psk_file'' then
        (case value of None \<Rightarrow> Fault | Some v \<Rightarrow> Ret (C\<lparr>tls_psk_key_filename := copy_path v\<rparr>))
      else Ret C)"

definition parse_argument :: "char list \<Rightarrow> nat \<Rightarrow> Client \<Rightarrow> (char list \<times> Client) outcome" where
  "parse_argument d arg C =
     obind (string_at d arg) (\<lambda>s.
     let name = takeWhile (\<lambda>c. c \<notin> {CHR '':'', CHR ''=''}) s in
     if length name = length s then
       obind (set_argument name None C) (\<lambda>C. Ret (d, C))
     else
       obind (set_argument name (Some (drop (Suc (length name)) s)) C) (\<lambda>C.
       Ret (d[arg + length name := NUL], C)))"

lemma parse_argument_length: "parse_argument d arg C = Ret (d', C') \<Longrightarrow> length d' = length d"
  by (auto simp: parse_argument_def obind_eq_Ret Let_def split: if_splits)

text \<open>
  The \<open>for\<close> loop over the string: \<open>src\<close> reads and \<open>at\<close> writes the same memory, and \<open>arg\<close> is where
  the current argument starts. The result is \<open>None\<close> for the jump to \<open>done\<close>.
\<close>

function parse_arguments_loop ::
  "char list \<Rightarrow> char \<Rightarrow> nat \<Rightarrow> nat \<Rightarrow> nat \<Rightarrow> Client \<Rightarrow> ((char list \<times> nat \<times> nat) option \<times> Client) outcome" where
  "parse_arguments_loop d quote src at arg C =
     obind (char_at d src) (\<lambda>c.
     if c = NUL then Ret (Some (d, at, arg), C)
     else if quote = c then parse_arguments_loop d NUL (Suc src) at arg C
     else if quote \<noteq> NUL then
       if c = BACKSLASH then
         obind (put_char d at c) (\<lambda>d1.
         obind (char_at d1 (Suc src)) (\<lambda>c1.
         if c1 = NUL then Ret (None, C)
         else
           obind (if c1 \<noteq> quote then put_char d1 (Suc at) BACKSLASH else Ret d1) (\<lambda>d2.
           let at = (if c1 \<noteq> quote then Suc (Suc at) else Suc at) in
           obind (char_at d2 (Suc src)) (\<lambda>c2.
           obind (put_char d2 at c2) (\<lambda>d3.
           parse_arguments_loop d3 quote (Suc (Suc src)) (Suc at) arg C)))))
       else
         obind (put_char d at c) (\<lambda>d1. parse_arguments_loop d1 quote (Suc src) (Suc at) arg C)
     else if isspace c then
       obind (put_char d at NUL) (\<lambda>d1.
       obind (parse_argument d1 arg C) (\<lambda>(d2, C).
       parse_arguments_loop d2 quote (Suc src) at at C))
     else if c = APOSTROPHE \<or> c = QUOTATION then parse_arguments_loop d c (Suc src) at arg C
     else if c = BACKSLASH then
       obind (put_char d at c) (\<lambda>d1.
       obind (char_at d1 (Suc src)) (\<lambda>c1.
       if c1 = NUL then Ret (None, C)
       else
         obind (put_char d1 (Suc at) c1) (\<lambda>d2.
         parse_arguments_loop d2 quote (Suc (Suc src)) (Suc (Suc at)) arg C)))
     else
       obind (put_char d at c) (\<lambda>d1. parse_arguments_loop d1 quote (Suc src) (Suc at) arg C))"
  by pat_completeness auto
termination
  by (relation "measure (\<lambda>(d, quote, src, at, arg, C). length d - src)")
    (auto dest!: char_at_bound put_char_length parse_argument_length split: if_splits)

declare parse_arguments_loop.simps [simp del]

text \<open>\<open>dup\<close> tells whether \<open>strdup\<close> succeeds.\<close>

definition parse_arguments :: "bool \<Rightarrow> string option \<Rightarrow> Client \<Rightarrow> Client outcome" where
  "parse_arguments dup s C =
     (case s of
        None \<Rightarrow> Ret C
      | Some s \<Rightarrow>
          if \<not> dup then Ret C
          else
            obind (parse_arguments_loop (s @ [NUL]) NUL 0 0 0 C) (\<lambda>(r, C).
            case r of
              None \<Rightarrow> Ret C
            | Some (d, at, arg) \<Rightarrow>
                if at \<noteq> arg then obind (parse_argument d arg C) (\<lambda>(_, C). Ret C) else Ret C))"

section \<open>Initialisation\<close>

text \<open>The function pointers of the structure are looked at for null only.\<close>

record CK_C_INITIALIZE_ARGS =
  CreateMutex :: bool
  DestroyMutex :: bool
  LockMutex :: bool
  UnlockMutex :: bool
  init_flags :: CK_ULONG
  pReserved :: "string option"

abbreviation (input) CKF_OS_LOCKING_OK :: CK_ULONG where
  "CKF_OS_LOCKING_OK \<equiv> 2"

text \<open>What the process gives: \<open>strdup\<close>, \<open>getenv\<close>, \<open>getpid\<close>, and the two results of \<open>rand\<close>.\<close>

record Init_Env =
  ie_strdup :: bool
  ie_getenv :: "string \<Rightarrow> string option"
  ie_pid :: int
  ie_rand_high :: u64
  ie_rand_low :: u64

definition supplied_ok :: "CK_C_INITIALIZE_ARGS \<Rightarrow> bool" where
  "supplied_ok args =
     (\<not> CreateMutex args \<and> \<not> DestroyMutex args \<and> \<not> LockMutex args \<and> \<not> UnlockMutex args \<or>
      CreateMutex args \<and> DestroyMutex args \<and> LockMutex args \<and> UnlockMutex args)"

text \<open>The checks of the arguments; the result is \<open>ret\<close>, and not \<open>CKR_OK\<close> for a jump to \<open>done\<close>.\<close>

definition initialize_args :: "Init_Env \<Rightarrow> CK_C_INITIALIZE_ARGS option \<Rightarrow> Client \<Rightarrow> (CK_RV \<times> Client) outcome" where
  "initialize_args I args C =
     (case args of
        None \<Rightarrow> Ret (CKR_OK, C)
      | Some args \<Rightarrow>
          if \<not> supplied_ok args then Ret (CKR_ARGUMENTS_BAD, C)
          else if init_flags args AND CKF_OS_LOCKING_OK = 0 then Ret (CKR_CANT_LOCK, C)
          else obind (parse_arguments (ie_strdup I) (pReserved args) C) (\<lambda>C. Ret (CKR_OK, C)))"

definition nonempty_env :: "Init_Env \<Rightarrow> string \<Rightarrow> string option" where
  "nonempty_env I name =
     (case ie_getenv I name of None \<Rightarrow> None | Some v \<Rightarrow> if v = [] then None else Some v)"

definition initialize_path :: "Init_Env \<Rightarrow> Client \<Rightarrow> CK_RV \<times> Client" where
  "initialize_path I C =
     (if client_socket_path C = [] then
        (case nonempty_env I ''PKCS11_PROXY_SOCKET'' of
           None \<Rightarrow> (CKR_FUNCTION_NOT_SUPPORTED, C)
         | Some path \<Rightarrow>
             (CKR_OK, C\<lparr>client_socket_path :=
                copy_path (if take 6 path = ''tcp://'' \<or> take 6 path = ''tls://'' then path
                           else path @ ''.pkcs11'')\<rparr>))
      else (CKR_OK, C))"

definition initialize_tls :: "Init_Env \<Rightarrow> Client \<Rightarrow> CK_RV \<times> Client" where
  "initialize_tls I C =
     (if take 6 (client_socket_path C) = ''tls://'' then
        (let C = (if tls_psk_key_filename C = [] then
                    (case nonempty_env I ''PKCS11_PROXY_TLS_PSK_FILE'' of
                       None \<Rightarrow> C
                     | Some path \<Rightarrow> C\<lparr>tls_psk_key_filename := copy_path path\<rparr>)
                  else C) in
         (if tls_psk_key_filename C = [] then CKR_FUNCTION_NOT_SUPPORTED else CKR_OK, C))
      else (CKR_OK, C))"

text \<open>
  \<open>call_lookup\<close>, \<open>call_prepare\<close>, the fields of the request, \<open>call_run\<close>, \<open>call_done\<close>, of whose results
  only the first that is not \<open>CKR_OK\<close> counts; what \<open>call_done\<close> returns is not looked at.
\<close>

definition simple_call ::
  "Client_Env \<Rightarrow> int \<Rightarrow> (GckRpcMessage \<Rightarrow> (bool \<times> GckRpcMessage) outcome) \<Rightarrow> Client \<Rightarrow> (CK_RV \<times> Client) outcome" where
  "simple_call E i wr C =
     obind (call_lookup E C) (\<lambda>(r, C).
     case r of
       Inl e \<Rightarrow> Ret (e, C)
     | Inr cs \<Rightarrow>
         obind (call_prepare E cs i) (\<lambda>(ret, cs).
         obind (if ret = CKR_OK then
                  obind (on_cl_req cs wr) (\<lambda>(ok, cs).
                  if \<not> ok then Ret (CKR_HOST_MEMORY, cs) else call_run E cs)
                else Ret (ret, cs)) (\<lambda>(ret, cs).
         obind (call_done C cs ret) (\<lambda>(_, C). Ret (ret, C)))))"

definition write_handshake :: "GckRpcMessage \<Rightarrow> (bool \<times> GckRpcMessage) outcome" where
  "write_handshake m =
     gck_rpc_message_write_byte_array m (Some GCK_RPC_HANDSHAKE) (of_nat (length GCK_RPC_HANDSHAKE))"

text \<open>The statements at \<open>done\<close>.\<close>

definition initialize_done :: "int \<Rightarrow> CK_RV \<Rightarrow> Client \<Rightarrow> CK_RV \<times> Client" where
  "initialize_done pid ret C =
     (ret,
      if ret = CKR_OK then C\<lparr>pkcs11_initialized := True, pkcs11_initialized_pid := pid\<rparr>
      else if ret \<noteq> CKR_CRYPTOKI_ALREADY_INITIALIZED then
        C\<lparr>pkcs11_initialized := False, pkcs11_initialized_pid := 0, client_socket_path := []\<rparr>
      else C)"

text \<open>\<open>init_mutex\<close> is held for the whole function.\<close>

definition cl_C_Initialize ::
  "Client_Env \<Rightarrow> Init_Env \<Rightarrow> CK_C_INITIALIZE_ARGS option \<Rightarrow> Client \<Rightarrow> (CK_RV \<times> Client) outcome" where
  "cl_C_Initialize E I args C =
     (let finish = (\<lambda>ret C. Ret (initialize_done (ie_pid I) ret C)) in
      obind (initialize_args I args C) (\<lambda>(ret, C).
      if ret \<noteq> CKR_OK then finish ret C
      else if pkcs11_initialized C \<and> ie_pid I = pkcs11_initialized_pid C then
        finish CKR_CRYPTOKI_ALREADY_INITIALIZED C
      else
        (case initialize_path I C of
           (ret, C) \<Rightarrow>
             if ret \<noteq> CKR_OK then finish ret C
             else
               (case initialize_tls I C of
                  (ret, C) \<Rightarrow>
                    if ret \<noteq> CKR_OK then finish ret C
                    else
                      obind (simple_call E GCK_RPC_CALL_C_Initialize write_handshake
                        (C\<lparr>pkcs11_app_id := push_bit 32 (ie_rand_high I) OR ie_rand_low I\<rparr>))
                        (\<lambda>(ret, C). finish ret C)))))"

text \<open>\<open>reserved\<close> tells whether the argument is not null.\<close>

definition cl_C_Finalize :: "Client_Env \<Rightarrow> bool \<Rightarrow> Client \<Rightarrow> (CK_RV \<times> unit \<times> Client) outcome" where
  "cl_C_Finalize E reserved C =
     return_val_if_fail (\<not> reserved) CKR_ARGUMENTS_BAD () C (
     return_val_if_fail (pkcs11_initialized C) CKR_CRYPTOKI_NOT_INITIALIZED () C (
     obind (simple_call E GCK_RPC_CALL_C_Finalize (\<lambda>m. Ret (True, m)) C) (\<lambda>(_, C).
     Ret (CKR_OK, (), C\<lparr>pkcs11_initialized := False, pkcs11_initialized_pid := 0,
                        client_socket_path := []\<rparr>))))"

end
