(* ===== verification/Client_Net.thy ===== *)
theory Client_Net
  imports Client_Init Dispatch_Thread
begin

text \<open>
  Moving bytes between the two programs: the bytes that a list of results of \<open>recv\<close> delivers,
  the lists of results of \<open>send\<close> under which a write succeeds, and what the reads and writes of
  the client and the daemon do with them. A message on the wire is its length in four bytes
  and its bytes.
\<close>

lemma wp_pairE:
  assumes "wp m (\<lambda>(a, b). Q a b)"
  obtains a b where "m = Ret (a, b)" "Q a b"
  using assms by (auto simp: wp_iff)

section \<open>Arriving bytes\<close>

text \<open>The bytes that arrive before an error or the end, however they are cut into pieces.\<close>

fun incoming :: "RecvResult list \<Rightarrow> block" where
  "incoming [] = []"
| "incoming (RecvRetry # ev) = incoming ev"
| "incoming (RecvFailed # ev) = []"
| "incoming (RecvData xs # ev) = (if xs = [] then [] else xs @ incoming ev)"

lemma incoming_push_back [simp]: "incoming (push_back xs ev) = xs @ incoming ev"
  by (simp add: push_back_def)

lemma recv_loop_incoming:
  "n \<le> length (incoming ev) \<Longrightarrow>
   \<exists>ev'. recv_loop False ev n = (True, take n (incoming ev), ev') \<and> incoming ev' = drop n (incoming ev)"
proof (induction "False" ev n rule: recv_loop.induct)
  case (5 xs ev n)
  show ?case
  proof (cases "xs = [] \<or> Suc n \<le> length xs")
    case True
    then show ?thesis using 5(2) by (auto split: if_splits)
  next
    case False
    then have "Suc n - length xs \<le> length (incoming ev)" using 5(2) by (auto split: if_splits)
    with 5(1) False obtain ev' where
      "recv_loop False ev (Suc n - length xs) =
         (True, take (Suc n - length xs) (incoming ev), ev')"
      "incoming ev' = drop (Suc n - length xs) (incoming ev)" by auto
    then show ?thesis using False by auto
  qed
qed auto

text \<open>Without TLS the loop of the client reads as the one of the daemon.\<close>

lemma call_read_loop_recv_loop:
  "call_read_loop False ev n = (ret, closed, xs, ev') \<Longrightarrow>
   recv_loop False ev n = (ret = CKR_OK, xs, ev') \<and> ret \<in> {CKR_OK, CKR_DEVICE_ERROR}"
  by (induction "False" ev n arbitrary: ret closed xs ev' rule: call_read_loop.induct)
    (auto split: if_splits prod.splits)

lemma call_read_loop_incoming:
  assumes "n \<le> length (incoming ev)"
  shows "\<exists>ev'. call_read_loop False ev n = (CKR_OK, False, take n (incoming ev), ev') \<and>
    incoming ev' = drop n (incoming ev)"
  using assms
proof (induction "False" ev n rule: call_read_loop.induct)
  case (5 xs ev n)
  show ?case
  proof (cases "xs = [] \<or> Suc n \<le> length xs")
    case True
    then show ?thesis using 5(2) by (auto split: if_splits)
  next
    case False
    then have "Suc n - length xs \<le> length (incoming ev)" using 5(2) by (auto split: if_splits)
    with 5(1) False obtain ev' where
      "call_read_loop False ev (Suc n - length xs) =
         (CKR_OK, False, take (Suc n - length xs) (incoming ev), ev')"
      "incoming ev' = drop (Suc n - length xs) (incoming ev)" by auto
    then show ?thesis using False by auto
  qed
qed auto

lemma call_read_arrived:
  assumes "old \<noteq> []" "cl_socket cs \<noteq> - 1" "\<not> cl_tls cs" "incoming (input (cl_net cs)) = xs @ ys"
    and "length xs = length old"
  shows "\<exists>ev. call_read cs old = Ret (CKR_OK, xs, cs\<lparr>cl_net := (cl_net cs)\<lparr>input := ev\<rparr>\<rparr>) \<and>
    incoming ev = ys"
  using call_read_loop_incoming [of "length old" "input (cl_net cs)"] assms
  by (auto simp: call_read_def overlay_def)

lemma read_all_arrived:
  assumes "old \<noteq> []" "sock s \<ge> 0" "\<not> use_tls s" "incoming (input net) = xs @ ys" "length xs = length old"
  shows "\<exists>ev. read_all s net old = Ret (True, xs, net\<lparr>input := ev\<rparr>) \<and> incoming ev = ys"
  using recv_loop_incoming [of "length old" "input net"] assms
  by (auto simp: read_all_def overlay_def)

lemma recv_loop_closed: "incoming ev = [] \<Longrightarrow> \<exists>xs ev'. recv_loop False ev (Suc n) = (False, xs, ev')"
  by (induction ev rule: incoming.induct) (auto split: if_splits)

section \<open>Departing bytes\<close>

text \<open>What is left of the results of \<open>send\<close> after \<open>n\<close> bytes went out, or \<open>None\<close> when they cannot.\<close>

fun send_rest :: "SendResult list \<Rightarrow> nat \<Rightarrow> SendResult list option" where
  "send_rest ev 0 = Some ev"
| "send_rest [] (Suc n) = None"
| "send_rest (SendRetry # ev) (Suc n) = send_rest ev (Suc n)"
| "send_rest (SendFailed # ev) (Suc n) = None"
| "send_rest (SendBytes k # ev) (Suc n) = send_rest ev (Suc n - k)"

fun accepts :: "SendResult list \<Rightarrow> nat list \<Rightarrow> bool" where
  "accepts ev [] = True"
| "accepts ev (n # ns) = (case send_rest ev n of None \<Rightarrow> False | Some ev \<Rightarrow> accepts ev ns)"

lemma send_loop_rest:
  "send_rest ev (length xs) = Some ev' \<Longrightarrow> send_loop tls ev xs = Ret (True, xs, ev')"
  by (induction tls ev xs rule: send_loop.induct) auto

lemma call_write_loop_rest:
  "send_rest ev (length xs) = Some ev' \<Longrightarrow> call_write_loop tls ev xs = Ret (CKR_OK, False, xs, ev')"
  by (induction tls ev xs rule: call_write_loop.induct) auto

lemma call_write_accepted:
  assumes "xs \<noteq> []" "cl_socket cs \<noteq> - 1" "accepts (sends (cl_net cs)) (length xs # ns)"
  shows "\<exists>ev. call_write cs xs =
      Ret (CKR_OK, cs\<lparr>cl_net := (cl_net cs)\<lparr>sends := ev, sent := sent (cl_net cs) @ xs\<rparr>\<rparr>) \<and>
    (\<forall>ms. accepts (sends (cl_net cs)) (length xs # ms) \<longrightarrow> accepts ev ms)"
  using assms call_write_loop_rest [of "sends (cl_net cs)" xs]
  by (auto simp: call_write_def Let_def split: option.splits)

lemma write_all_accepted:
  assumes "xs \<noteq> []" "sock s \<ge> 0" "accepts (sends net) (length xs # ns)"
  shows "\<exists>ev. write_all s net xs = Ret (True, net\<lparr>sends := ev, sent := sent net @ xs\<rparr>) \<and>
    (\<forall>ms. accepts (sends net) (length xs # ms) \<longrightarrow> accepts ev ms)"
  using assms send_loop_rest [of "sends net" xs]
  by (auto simp: write_all_def split: option.splits)

text \<open>A write that reports success has sent all of its bytes.\<close>

lemma send_loop_sent: "send_loop tls ev xs = Ret (True, ys, ev') \<Longrightarrow> ys = xs"
  by (induction tls ev xs arbitrary: ys ev' rule: send_loop.induct)
    (auto simp: obind_eq_Ret split: if_splits)

lemma write_all_sent:
  "write_all s net xs = Ret (True, net') \<Longrightarrow>
   \<exists>ev. net' = net\<lparr>sends := ev, sent := sent net @ xs\<rparr>"
  by (auto simp: write_all_def assert_c_def obind_eq_Ret dest!: send_loop_sent split: if_splits)

section \<open>Messages on the wire\<close>

definition frame :: "block \<Rightarrow> block" where
  "frame xs = egg_buffer_encode_uint32 (of_nat (length xs)) @ xs"

lemma ucast_of_nat_u32 [simp]: "ucast (of_nat n :: size_t) = (of_nat n :: u32)"
  by transfer (simp add: take_bit_take_bit)

end
