(* ===== verification/Client_Dialogue.thy ===== *)
theory Client_Dialogue
  imports Client_Net Dispatch_Answers
begin

text \<open>
  One call of the client, from an idle connection to its result: what is sent when the
  arguments are written, and what the client makes of a reply that the daemon can give.
\<close>

section \<open>States of a call\<close>

definition messages_live :: "ClientCall \<Rightarrow> bool" where
  "messages_live cs \<longleftrightarrow>
     (\<forall>m. cl_req cs = Some m \<longrightarrow> live_msg m) \<and> (\<forall>m. cl_resp cs = Some m \<longrightarrow> live_msg m)"

text \<open>The messages of the connection have memory to grow, and so have new ones.\<close>

definition call_roomy :: "Client_Env \<Rightarrow> ClientCall \<Rightarrow> bool" where
  "call_roomy E cs \<longleftrightarrow>
     ample (call_allocator E) \<and> (\<forall>m. cl_req cs = Some m \<longrightarrow> roomy (buffer m)) \<and>
     (\<forall>m. cl_resp cs = Some m \<longrightarrow> roomy (buffer m))"

text \<open>A connection without TLS that is still open.\<close>

definition open_call :: "ClientCall \<Rightarrow> bool" where
  "open_call cs \<longleftrightarrow> cl_socket cs \<noteq> - 1 \<and> \<not> cl_tls cs \<and> messages_live cs"

definition pooled :: "ClientCall \<Rightarrow> bool" where
  "pooled cs \<longleftrightarrow> open_call cs \<and> call_status cs = CALL_READY"

definition request_bytes :: "int \<Rightarrow> block \<Rightarrow> block" where
  "request_bytes i args = encode_header i (call_signature i GCK_RPC_REQUEST) @ args"

definition response_bytes :: "int \<Rightarrow> block \<Rightarrow> block" where
  "response_bytes i xs = encode_header i (call_signature i GCK_RPC_RESPONSE) @ xs"

text \<open>The request holds \<open>xs\<close>, and the fields of \<open>sig\<close> are still to be written.\<close>

definition asking :: "int \<Rightarrow> string \<Rightarrow> block \<Rightarrow> ClientCall \<Rightarrow> bool" where
  "asking i sig xs cs \<longleftrightarrow>
     open_call cs \<and> call_status cs = CALL_PREP \<and>
     (\<exists>q. cl_req cs = Some q \<and> call_id q = i \<and> signature q \<noteq> None \<and> sigverify q = Some sig \<and>
        failures (buffer q) = 0 \<and> contents (buffer q) = request_bytes i xs)"

text \<open>The message \<open>r\<close> holds \<open>xs\<close> at its reading position in the buffer \<open>B\<close>, fields of \<open>sig\<close>.\<close>

definition answering :: "EggBuffer \<Rightarrow> string \<Rightarrow> block \<Rightarrow> GckRpcMessage \<Rightarrow> bool" where
  "answering B sig xs r \<longleftrightarrow>
     buffer r = B \<and> live_msg r \<and> failures (buffer r) = 0 \<and> signature r \<noteq> None \<and> sigverify r = Some sig \<and>
     (\<exists>pre. contents (buffer r) = pre @ xs \<and> unat (parsed r) = length pre)"

lemma messages_live_updates [simp]:
  "messages_live (cs\<lparr>cl_net := net\<rparr>) = messages_live cs"
  "messages_live (cs\<lparr>call_status := st\<rparr>) = messages_live cs"
  "messages_live (cs\<lparr>cl_socket := fd\<rparr>) = messages_live cs"
  by (simp_all add: messages_live_def)

section \<open>Preparing a request\<close>

text \<open>A message that the client allocates: there is one, with room, when memory is available.\<close>

definition new_message :: "Client_Env \<Rightarrow> GckRpcMessage option \<Rightarrow> bool" where
  "new_message E p \<longleftrightarrow>
     (case p of None \<Rightarrow> \<not> ample (call_allocator E)
      | Some m \<Rightarrow> live_msg m \<and> (ample (call_allocator E) \<longrightarrow> roomy (buffer m)))"

lemma new_message:
  assumes "egg_allocator (alloc_run (ce_realloc E))"
  shows "\<exists>p. gck_rpc_message_new (ce_realloc E) (Some (call_allocator E)) = Ret p \<and> new_message E p"
proof -
  have a: "egg_allocator (alloc_run (call_allocator E))" using assms by (simp add: call_allocator_def)
  show ?thesis
  proof (cases "ample (call_allocator E)")
    case True
    show ?thesis by (rule message_new_roomy [OF a True, of "ce_realloc E"]) (auto simp: new_message_def)
  next
    case False
    then show ?thesis
      using wp_message_new [OF a, of "ce_realloc E"] by (auto simp: wp_iff new_message_def split: option.splits)
  qed
qed

lemma wp_call_prepare:
  assumes cs: "pooled cs" and i: "0 < i" "i < GCK_RPC_CALL_MAX"
    and E: "egg_allocator (alloc_run (ce_realloc E))"
    and s: "call_signature i GCK_RPC_REQUEST = Some sig"
  shows "wp (call_prepare E cs i) (\<lambda>(ret, cs').
    cl_net cs' = cl_net cs \<and> (call_roomy E cs \<longrightarrow> call_roomy E cs') \<and>
    (ret = CKR_OK \<and> asking i sig [] cs' \<or> ret = CKR_HOST_MEMORY \<and> pooled cs' \<and> \<not> call_roomy E cs))"
proof -
  have prep: "wp (obind (gck_rpc_message_reset m) (\<lambda>m.
      obind (gck_rpc_message_prep m i GCK_RPC_REQUEST) (\<lambda>(ok, m).
      let cs = cs\<lparr>cl_req := Some m\<rparr> in
      if \<not> ok then Ret (CKR_HOST_MEMORY, cs) else Ret (CKR_OK, cs\<lparr>call_status := CALL_PREP\<rparr>))))
    (\<lambda>(ret, cs'). cl_net cs' = cl_net cs \<and> (call_roomy E cs \<longrightarrow> call_roomy E cs') \<and>
      (ret = CKR_OK \<and> asking i sig [] cs' \<or> ret = CKR_HOST_MEMORY \<and> pooled cs' \<and> \<not> call_roomy E cs))"
    if m: "live_msg m" and rm: "call_roomy E cs \<Longrightarrow> roomy (buffer m)" for m
  proof -
    obtain m1 where m1: "gck_rpc_message_reset m = Ret m1" "live_msg m1"
      using wp_reset_live [OF m] by auto
    have rm1: "call_roomy E cs \<Longrightarrow> roomy (buffer m1)" using rm reset_roomy [OF m m1(1)] by simp
    have wf: "egg_wf (buffer m1)" using m1(2) by (simp add: live_msg_def)
    obtain ok m2 where m2: "gck_rpc_message_prep m1 i GCK_RPC_REQUEST = Ret (ok, m2)"
      "prepared i GCK_RPC_REQUEST m2 \<and> parsed m2 = 0 \<and> allocator (buffer m2) = allocator (buffer m1) \<and>
       (ok \<longleftrightarrow> failures (buffer m2) = 0) \<and>
       (ok \<longrightarrow> contents (buffer m2) = encode_header i (header_signature i GCK_RPC_REQUEST)) \<and>
       (roomy (buffer m1) \<longrightarrow> ok \<and> roomy (buffer m2))"
      by (rule wp_pairE [OF wp_message_prep [OF wf _ i(2), of GCK_RPC_REQUEST]]) (use i(1) in simp, rule that)
    have "live_msg m2" using m2 m1(2) by (simp add: live_msg_def prepared_def)
    then show ?thesis
      using m1 m2 cs i s rm1
      by (auto simp: Let_def pooled_def open_call_def messages_live_def asking_def prepared_def
          header_signature_def request_bytes_def call_roomy_def)
  qed
  show ?thesis
  proof (cases "cl_req cs")
    case None
    then obtain p where p: "gck_rpc_message_new (ce_realloc E) (Some (call_allocator E)) = Ret p"
      "new_message E p"
      using new_message [OF E] by blast
    then show ?thesis
      using prep cs None by (cases p) (auto simp: call_prepare_def pooled_def new_message_def call_roomy_def)
  next
    case (Some m)
    then have "live_msg m" "call_roomy E cs \<Longrightarrow> roomy (buffer m)"
      using cs by (auto simp: pooled_def open_call_def messages_live_def call_roomy_def)
    from prep [OF this] show ?thesis using Some cs by (simp add: call_prepare_def pooled_def)
  qed
qed

section \<open>Writing arguments\<close>

definition writes_arg :: "string \<Rightarrow> block \<Rightarrow> (GckRpcMessage \<Rightarrow> (bool \<times> GckRpcMessage) outcome) \<Rightarrow> bool" where
  "writes_arg part xs wr \<longleftrightarrow>
     (\<forall>m m1. sig_next m part = Some m1 \<longrightarrow> egg_wf (buffer m) \<longrightarrow>
        (\<exists>P. wp (wr m) (field_written m part xs P)))"

lemma writes_arg_field:
  assumes "asking i (part @ sig) xs cs" "writes_arg part ys wr"
  shows "wp (on_cl_req cs wr) (\<lambda>(ok, cs'). cl_net cs' = cl_net cs \<and> open_call cs' \<and>
    call_status cs' = CALL_PREP \<and> (ok \<longrightarrow> asking i sig (xs @ ys) cs') \<and>
    (call_roomy E cs \<longrightarrow> call_roomy E cs' \<and> (length (request_bytes i (xs @ ys)) < 0x7fffffff \<longrightarrow> ok)))"
proof -
  obtain q where q: "cl_req cs = Some q" "call_id q = i" "signature q \<noteq> None"
    "sigverify q = Some (part @ sig)" "failures (buffer q) = 0" "contents (buffer q) = request_bytes i xs"
    "live_msg q" and cs: "open_call cs" "call_status cs = CALL_PREP"
    using assms(1) by (auto simp: asking_def open_call_def messages_live_def)
  let ?m1 = "q\<lparr>sigverify := Some sig\<rparr>"
  have s: "sig_next q part = Some ?m1" using q(3,4) by auto
  then obtain P where "wp (wr q) (field_written q part ys P)"
    using assms(2) q(7) unfolding writes_arg_def live_msg_def by blast
  then obtain ok m where m: "wr q = Ret (ok, m)" "field_written q part ys P (ok, m)"
    by (auto simp: wp_iff)
  then have e: "m = ?m1\<lparr>buffer := buffer m\<rparr>" "egg_out (buffer q) ys ok (buffer m)"
    using s by (auto simp: field_written_def)
  have "call_id m = i \<and> signature m = signature q \<and> sigverify m = Some sig"
    by (subst (1 2 3) e(1)) (simp add: q(2))
  moreover have "live_msg m" "ok \<longrightarrow> contents (buffer m) = contents (buffer q) @ ys \<and> failures (buffer m) = 0"
    using e(2) q(5,7) by (auto simp: egg_out_def live_msg_def)
  moreover have "roomy (buffer q) \<longrightarrow> roomy (buffer m) \<and> (length (request_bytes i (xs @ ys)) < 0x7fffffff \<longrightarrow> ok)"
    using e(2) q(5,6) roomy_out [OF e(2)] by (auto simp: egg_out_def spacious_def request_bytes_def)
  ultimately show ?thesis
    using q cs m(1)
    by (auto simp: on_cl_req_def asking_def open_call_def messages_live_def request_bytes_def call_roomy_def)
qed

section \<open>Receiving a reply\<close>

lemma reserve_any_len:
  "egg_buffer_reserve b n = (ok, b') \<Longrightarrow> egg_buffer_reserve (b\<lparr>len := k\<rparr>) n = (ok, b'\<lparr>len := k\<rparr>)"
  by (auto simp: egg_buffer_reserve_def add_failure_def Let_def split: if_splits option.splits)

lemma reserve_keeps_prefix:
  assumes wf: "egg_wf b" and r: "egg_buffer_reserve b n = (ok, b')"
    and n: "unat n < 2 ^ 63" and k: "k \<le> allocated_len b"
  shows "take (unat k) (cells (buf b')) = take (unat k) (cells (buf b))"
proof -
  have "egg_wf (b\<lparr>len := k\<rparr>)" using wf k by (simp add: egg_wf_def)
  from egg_buffer_reserve_spec [OF this _ reserve_any_len [OF r]] n show ?thesis
    by (simp add: contents_def)
qed

text \<open>
  Bytes are read into the memory of an empty buffer before its length is set. The second
  reservation may need memory again; when there is none, the buffer stays empty.
\<close>

lemma store_received:
  assumes b: "egg_wf b" "len b = 0" "failures b = 0" and n: "unat n < 2 ^ 63"
    and r: "egg_buffer_reserve b n = (True, b1)" and xs: "length xs = unat n"
    and p: "mem_write (buf b1) 0 xs = Ret p" and b2: "b2 = snd (egg_buffer_add_empty (b1\<lparr>buf := p\<rparr>) n)"
  shows "egg_wf b2 \<and> allocator b2 = allocator b \<and>
    (failures b2 = 0 \<and> contents b2 = xs \<or> failures b2 > 0 \<and> contents b2 = []) \<and>
    (roomy b \<and> unat n < 0x7fffffff \<longrightarrow> failures b2 = 0 \<and> roomy b2)"
proof -
  have b1: "egg_wf b1" "allocator b1 = allocator b" "len b1 = 0" "unat n \<le> unat (allocated_len b1)"
    "failures b1 = 0"
    using egg_buffer_reserve_spec [OF b(1) _ r] n b by auto
  then have c: "length (cells (buf b1)) = unat (allocated_len b1)" by (simp add: egg_wf_def)
  have p': "cells p = xs @ drop (unat n) (cells (buf b1))"
    using p xs mem_write_cells [of 0 xs "buf b1"] b1(4) c by (cases "buf b1") (auto split: if_splits)
  let ?b = "b1\<lparr>buf := p\<rparr>"
  have wf: "egg_wf ?b" using b1 mem_write_length [OF p] by (simp add: egg_wf_def)
  obtain ok b3 where b3: "egg_buffer_reserve ?b n = (ok, b3)" by (cases "egg_buffer_reserve ?b n")
  have f: "egg_wf b3" "allocator b3 = allocator b" "len b3 = 0" "contents b3 = []"
    "if ok then unat n \<le> unat (allocated_len b3) \<and> failures b3 = 0 else b3 = add_failure ?b"
    using egg_buffer_reserve_spec [OF wf _ b3] n b1 by (auto simp: contents_def)
  have take: "take (unat n) (cells (buf b3)) = xs" if ok
    using reserve_keeps_prefix [OF wf b3 n, of n] b1(4) p' xs by (simp add: word_le_nat_alt)
  have "ok \<and> roomy b3" if "roomy b" "unat n < 0x7fffffff"
  proof -
    have "allocated_len b \<le> allocated_len b1" using egg_buffer_reserve_grows [OF b(1) _ r] n by simp
    then have rm: "roomy ?b" using that(1) b1(2) by (auto simp: roomy_def)
    then show ?thesis
      using egg_buffer_reserve_roomy [OF wf _ that(2) b3] egg_buffer_reserve_grows [OF wf _ b3] n f(2) b1(2)
      by (auto simp: roomy_def)
  qed
  then show ?thesis
    using b2 b3 f b1(3,5) take
    by (cases ok) (auto simp: egg_buffer_add_empty_def egg_wf_def contents_def word_le_nat_alt roomy_def)
qed

text \<open>What the client makes of a message that the daemon sends.\<close>

lemma parse_empty:
  assumes "egg_wf (buffer m)" "contents (buffer m) = []"
  shows "gck_rpc_message_parse m type =
    Ret (False, m\<lparr>parsed := 0, buffer := add_failure (buffer m)\<rparr>)"
  using assms by (simp add: gck_rpc_message_parse_def get_uint32_eq)

lemma parse_error_message:
  assumes "egg_wf (buffer m)" "contents (buffer m) = error_message e"
  shows "gck_rpc_message_parse m GCK_RPC_RESPONSE =
    Ret (True, m\<lparr>parsed := 4, signature := None, sigverify := None\<rparr>)"
proof -
  have "contents (buffer m) = [] @ egg_buffer_encode_uint32 0 @ encode_uint64 (ucast (ucast e :: u32))"
    using assms(2) by (simp add: error_message_def encode_header_def)
  then have "egg_buffer_get_uint32 (buffer m) 0 = Ret (Some (0 + of_nat 4, 0), buffer m)"
    using uint32_codec.get_enc [OF assms(1), where v = 0 and pre = "[]" and off = 0] by simp
  then show ?thesis by (simp add: gck_rpc_message_parse_def Let_def)
qed

text \<open>
  The reply \<open>rep\<close> was received into \<open>r\<close>; or memory for it was refused late, and \<open>r\<close> is empty.
\<close>

definition arrived :: "block \<Rightarrow> GckRpcMessage \<Rightarrow> bool" where
  "arrived rep r \<longleftrightarrow>
     (\<exists>m ok. call_id m = 0 \<and> signature m = None \<and> live_msg m \<and> failures (buffer m) = 0 \<and>
        contents (buffer m) = rep \<and> gck_rpc_message_parse m GCK_RPC_RESPONSE = Ret (ok, r))"

definition received :: "block \<Rightarrow> GckRpcMessage \<Rightarrow> bool" where
  "received rep r \<longleftrightarrow>
     live_msg r \<and>
     (failures (buffer r) > 0 \<and> contents (buffer r) = [] \<and> call_id r = 0 \<and> signature r = None \<or> arrived rep r)"

lemma received_live: "received rep r \<Longrightarrow> live_msg r"
  by (simp add: received_def)

text \<open>Memory for the whole reply.\<close>

abbreviation (input) holds_reply :: "GckRpcMessage \<Rightarrow> block \<Rightarrow> bool" where
  "holds_reply r rep \<equiv> roomy (buffer r) \<and> length rep < 0x7fffffff"

definition blank :: "GckRpcMessage \<Rightarrow> bool" where
  "blank r \<longleftrightarrow> live_msg r \<and> contents (buffer r) = [] \<and> failures (buffer r) = 0 \<and> call_id r = 0 \<and> signature r = None"

lemma reset_blank:
  assumes "live_msg m"
  shows "\<exists>m'. gck_rpc_message_reset m = Ret m' \<and> blank m' \<and> (roomy (buffer m) \<longrightarrow> roomy (buffer m'))"
  using wp_message_reset [of m] assms reset_roomy [OF assms] by (auto simp: wp_iff blank_def live_msg_def)

lemma wp_receive_response:
  assumes cs: "cl_socket cs \<noteq> - 1" "\<not> cl_tls cs" and r: "blank r" and b4: "length buf4 = 4"
    and inp: "incoming (input (cl_net cs)) = frame rep @ left" and rep: "rep \<noteq> []" "length rep < 2 ^ 32"
  shows "wp (receive_response cs r buf4) (\<lambda>(ret, r', cs').
    \<exists>ev. cs' = cs\<lparr>cl_net := (cl_net cs)\<lparr>input := ev\<rparr>\<rparr> \<and>
      (ret = CKR_HOST_MEMORY \<and> live_msg r' \<and> \<not> holds_reply r rep \<or>
       ret = CKR_OK \<and> incoming ev = left \<and> received rep r' \<and>
         (holds_reply r rep \<longrightarrow> arrived rep r' \<and> roomy (buffer r'))))"
proof -
  let ?n = "of_nat (length rep) :: u32"
  have n: "unat ?n = length rep" "?n \<noteq> 0" using rep by (simp_all add: unat_of_nat unat_eq_0 flip: unat_0_iff)
  obtain ev1 where rd1: "call_read cs buf4 =
      Ret (CKR_OK, egg_buffer_encode_uint32 ?n, cs\<lparr>cl_net := (cl_net cs)\<lparr>input := ev1\<rparr>\<rparr>)"
    "incoming ev1 = rep @ left"
    using call_read_arrived [of buf4 cs "egg_buffer_encode_uint32 ?n" "rep @ left"] b4 cs inp
    by (cases "buf4 = []") (auto simp: frame_def)
  let ?cs1 = "cs\<lparr>cl_net := (cl_net cs)\<lparr>input := ev1\<rparr>\<rparr>"
  have b: "egg_wf (buffer r)" "len (buffer r) = 0" "failures (buffer r) = 0"
    using r length_contents [of "buffer r"] by (auto simp: blank_def live_msg_def unat_eq_0)
  obtain ok b1 where res: "egg_buffer_reserve (buffer r) (ucast ?n) = (ok, b1)"
    by (cases "egg_buffer_reserve (buffer r) (ucast ?n)")
  have b1: "egg_wf b1" "allocator b1 = allocator (buffer r)" "ok \<longrightarrow> length rep \<le> length (cells (buf b1))"
    using egg_buffer_reserve_spec [OF b(1) _ res] n rep(2) by (auto simp: egg_wf_def split: if_splits)
  show ?thesis
  proof (cases ok)
    case False
    then have "\<not> holds_reply r rep" using egg_buffer_reserve_roomy [OF b(1) _ _ res] n rep(2) by auto
    then show ?thesis
      using False rd1 b res b1 r by (auto simp: receive_response_def decode_encode_uint32 live_msg_def blank_def)
  next
    case True
    let ?old = "take (length rep) (cells (buf b1))"
    have old: "mem_read (buf b1) 0 (length rep) = Ret ?old" "length ?old = length rep"
      using b1(3) True by (auto simp: mem_read_cells)
    then obtain ev2 where rd2: "call_read ?cs1 ?old = Ret (CKR_OK, rep, ?cs1\<lparr>cl_net := (cl_net ?cs1)\<lparr>input := ev2\<rparr>\<rparr>)"
      "incoming ev2 = left"
      using call_read_arrived [of ?old ?cs1 rep left] cs rd1(2) rep(1) by force
    obtain p where p: "mem_write (buf b1) 0 rep = Ret p"
      using b1(3) True mem_write_cells [of 0 rep "buf b1"] by auto
    have resT: "egg_buffer_reserve (buffer r) (ucast ?n) = (True, b1)" using res True by simp
    define b2 where "b2 = snd (egg_buffer_add_empty (b1\<lparr>buf := p\<rparr>) (ucast ?n))"
    have b2: "egg_wf b2 \<and> allocator b2 = allocator (buffer r) \<and>
        (failures b2 = 0 \<and> contents b2 = rep \<or> failures b2 > 0 \<and> contents b2 = []) \<and>
        (roomy (buffer r) \<and> length rep < 0x7fffffff \<longrightarrow> failures b2 = 0 \<and> roomy b2)"
      using store_received [OF b _ resT _ p b2_def] n rep(2) by auto
    obtain ok' r' where pa: "gck_rpc_message_parse (r\<lparr>buffer := b2\<rparr>) GCK_RPC_RESPONSE = Ret (ok', r')"
      "egg_in b2 (buffer r')"
      using wp_message_parse [of "r\<lparr>buffer := b2\<rparr>" GCK_RPC_RESPONSE] b2 by (auto simp: wp_iff)
    have live: "live_msg r'" using b2 pa(2) r by (simp add: live_msg_def egg_in_def blank_def)
    have "received rep r' \<and> (holds_reply r rep \<longrightarrow> arrived rep r' \<and> roomy (buffer r'))"
    proof (cases "failures b2 = 0")
      case True
      then have "live_msg (r\<lparr>buffer := b2\<rparr>) \<and> contents b2 = rep" using b2 r by (auto simp: live_msg_def blank_def)
      then have "arrived rep r'"
        unfolding arrived_def using pa(1) r True
        by (intro exI [of _ "r\<lparr>buffer := b2\<rparr>"] exI [of _ ok']) (auto simp: blank_def)
      then show ?thesis using live b2 roomy_in [OF pa(2)] by (simp add: received_def)
    next
      case False
      then have "egg_wf b2" "contents b2 = []" "\<not> holds_reply r rep" using b2 by auto
      then show ?thesis
        using parse_empty [of "r\<lparr>buffer := b2\<rparr>" GCK_RPC_RESPONSE] pa(1) live r
        by (auto simp: received_def blank_def)
    qed
    then show ?thesis
      using rd1 rd2 b res True old p n pa
      by (auto simp: receive_response_def decode_encode_uint32 b2_def [symmetric] Let_def)
  qed
qed

section \<open>The dialogue\<close>

lemma length_encode_header_pos: "encode_header i sig \<noteq> []"
  by (simp add: encode_header_def egg_buffer_encode_uint32_def)

text \<open>When the connection takes the whole request, the reply is read next.\<close>

lemma exchange_sent:
  assumes cs: "cl_socket cs \<noteq> - 1" and q: "egg_wf (buffer q)" "contents (buffer q) = request_bytes i args"
    and out: "accepts (sends (cl_net cs)) [4, length (request_bytes i args)]"
  obtains ev where "exchange cs q r = receive_response
      (cs\<lparr>cl_net := (cl_net cs)\<lparr>sends := ev, sent := sent (cl_net cs) @ frame (request_bytes i args)\<rparr>\<rparr>) r
      (egg_buffer_encode_uint32 (of_nat (length (request_bytes i args))))"
    "\<forall>ns. accepts (sends (cl_net cs)) ([4, length (request_bytes i args)] @ ns) \<longrightarrow> accepts ev ns"
proof -
  let ?xs = "request_bytes i args"
  have len: "len (buffer q) = of_nat (length ?xs)"
    using length_contents [OF q(1)] egg_wf_len_bound [OF q(1)] q(2)
    by (simp add: word_unat_eq_iff unat_of_nat_small)
  let ?b4 = "egg_buffer_encode_uint32 (of_nat (length ?xs))"
  have ne: "?b4 \<noteq> []" "?xs \<noteq> []"
    by (simp_all add: egg_buffer_encode_uint32_def request_bytes_def length_encode_header_pos)
  obtain ev1 where w1: "call_write cs ?b4 =
      Ret (CKR_OK, cs\<lparr>cl_net := (cl_net cs)\<lparr>sends := ev1, sent := sent (cl_net cs) @ ?b4\<rparr>\<rparr>)"
    "accepts ev1 [length ?xs]" "\<And>ns. accepts (sends (cl_net cs)) (4 # ns) \<Longrightarrow> accepts ev1 ns"
    using call_write_accepted [OF ne(1) cs, of "[length ?xs]"] out unfolding length_encode(2) by blast
  let ?cs1 = "cs\<lparr>cl_net := (cl_net cs)\<lparr>sends := ev1, sent := sent (cl_net cs) @ ?b4\<rparr>\<rparr>"
  obtain ev2 where w2: "call_write ?cs1 ?xs =
      Ret (CKR_OK, ?cs1\<lparr>cl_net := (cl_net ?cs1)\<lparr>sends := ev2, sent := sent (cl_net ?cs1) @ ?xs\<rparr>\<rparr>)"
      "\<And>ns. accepts ev1 (length ?xs # ns) \<Longrightarrow> accepts ev2 ns"
    using call_write_accepted [OF ne(2), of ?cs1 "[]"] cs w1(2) by auto
  have rd: "mem_read (buf (buffer q)) 0 (unat (len (buffer q))) = Ret ?xs"
    using mem_read_contents [OF q(1), of 0] q(2) length_contents [OF q(1)] by simp
  show ?thesis
  proof (rule that [of ev2])
    show "exchange cs q r = receive_response
      (cs\<lparr>cl_net := (cl_net cs)\<lparr>sends := ev2, sent := sent (cl_net cs) @ frame ?xs\<rparr>\<rparr>) r ?b4"
      using w1(1) w2(1) rd [unfolded len] by (simp add: exchange_def len Let_def frame_def)
    show "\<forall>ns. accepts (sends (cl_net cs)) ([4, length ?xs] @ ns) \<longrightarrow> accepts ev2 ns"
      using w1(3) w2(2) by fastforce
  qed
qed

text \<open>What the connection takes after the request it still takes when the request was sent.\<close>

definition still_accepts :: "Net \<Rightarrow> block \<Rightarrow> Net \<Rightarrow> bool" where
  "still_accepts net xs net' \<longleftrightarrow>
     (\<forall>ns. accepts (sends net) ([4, length xs] @ ns) \<longrightarrow> accepts (sends net') ns)"

lemma wp_exchange:
  assumes cs: "cl_socket cs \<noteq> - 1" "\<not> cl_tls cs" and q: "egg_wf (buffer q)" "contents (buffer q) = request_bytes i args"
    and r: "blank r" and out: "accepts (sends (cl_net cs)) [4, length (request_bytes i args)]"
    and inp: "incoming (input (cl_net cs)) = frame rep @ left" and rep: "rep \<noteq> []" "length rep < 2 ^ 32"
  shows "wp (exchange cs q r) (\<lambda>(ret, r', cs').
    \<exists>net'. cs' = cs\<lparr>cl_net := net'\<rparr> \<and>
      (ret = CKR_HOST_MEMORY \<and> live_msg r' \<and> \<not> holds_reply r rep \<or>
       ret = CKR_OK \<and> sent net' = sent (cl_net cs) @ frame (request_bytes i args) \<and>
         still_accepts (cl_net cs) (request_bytes i args) net' \<and> incoming (input net') = left \<and> received rep r' \<and>
         (holds_reply r rep \<longrightarrow> arrived rep r' \<and> roomy (buffer r'))))"
proof -
  let ?b4 = "egg_buffer_encode_uint32 (of_nat (length (request_bytes i args)))"
  obtain ev where e: "exchange cs q r = receive_response
      (cs\<lparr>cl_net := (cl_net cs)\<lparr>sends := ev, sent := sent (cl_net cs) @ frame (request_bytes i args)\<rparr>\<rparr>) r ?b4"
    and acc: "\<forall>ns. accepts (sends (cl_net cs)) ([4, length (request_bytes i args)] @ ns) \<longrightarrow> accepts ev ns"
    by (rule exchange_sent [OF cs(1) q out, of r])
  let ?cs2 = "cs\<lparr>cl_net := (cl_net cs)\<lparr>sends := ev, sent := sent (cl_net cs) @ frame (request_bytes i args)\<rparr>\<rparr>"
  have "wp (receive_response ?cs2 r ?b4) (\<lambda>(ret, r', cs').
    \<exists>ev. cs' = ?cs2\<lparr>cl_net := (cl_net ?cs2)\<lparr>input := ev\<rparr>\<rparr> \<and>
      (ret = CKR_HOST_MEMORY \<and> live_msg r' \<and> \<not> holds_reply r rep \<or>
       ret = CKR_OK \<and> incoming ev = left \<and> received rep r' \<and>
         (holds_reply r rep \<longrightarrow> arrived rep r' \<and> roomy (buffer r'))))"
    using wp_receive_response [of ?cs2 r ?b4 rep left] cs r inp rep by simp
  then show ?thesis unfolding e using acc by (fastforce simp: still_accepts_def elim!: wp_mono)
qed

abbreviation (input) call_holds :: "Client_Env \<Rightarrow> ClientCall \<Rightarrow> block \<Rightarrow> bool" where
  "call_holds E cs rep \<equiv> call_roomy E cs \<and> length rep < 0x7fffffff"

lemma wp_call_send_recv:
  assumes E: "egg_allocator (alloc_run (ce_realloc E))" and cs: "asking i [] args cs"
    and out: "accepts (sends (cl_net cs)) [4, length (request_bytes i args)]"
    and inp: "incoming (input (cl_net cs)) = frame rep @ left" and rep: "rep \<noteq> []" "length rep < 2 ^ 32"
  shows "wp (call_send_recv E cs) (\<lambda>(ret, cs').
    open_call cs' \<and> (\<exists>q. cl_req cs' = Some q \<and> call_id q = i) \<and>
    (ret = CKR_HOST_MEMORY \<and> \<not> call_holds E cs rep \<or>
     ret = CKR_OK \<and> sent (cl_net cs') = sent (cl_net cs) @ frame (request_bytes i args) \<and>
       still_accepts (cl_net cs) (request_bytes i args) (cl_net cs') \<and> incoming (input (cl_net cs')) = left \<and>
       (\<exists>r. cl_resp cs' = Some r \<and> received rep r \<and> (call_holds E cs rep \<longrightarrow> arrived rep r \<and> call_roomy E cs'))))"
proof -
  obtain q where q: "cl_req cs = Some q" "call_id q = i" "contents (buffer q) = request_bytes i args" "live_msg q"
    using cs by (auto simp: asking_def open_call_def messages_live_def)
  have st: "call_status cs = CALL_PREP" "cl_socket cs \<noteq> - 1" "\<not> cl_tls cs" "messages_live cs"
    using cs by (auto simp: asking_def open_call_def)
  let ?cs = "cs\<lparr>call_status := CALL_TRANSIT\<rparr>"
  have with_resp: "wp (obind (gck_rpc_message_reset r) (\<lambda>r.
        obind (exchange (?cs\<lparr>cl_req := None, cl_resp := None\<rparr>) q r) (\<lambda>(ret, r, cs).
        assert_c (call_status cs = CALL_TRANSIT)
        (assert_c (cl_resp cs = None) (assert_c (cl_req cs = None)
         (Ret (ret, cs\<lparr>cl_resp := Some r, cl_req := Some q\<rparr>)))))))
    (\<lambda>(ret, cs'). open_call cs' \<and> (\<exists>q. cl_req cs' = Some q \<and> call_id q = i) \<and>
      (ret = CKR_HOST_MEMORY \<and> \<not> call_holds E cs rep \<or>
       ret = CKR_OK \<and> sent (cl_net cs') = sent (cl_net cs) @ frame (request_bytes i args) \<and>
         still_accepts (cl_net cs) (request_bytes i args) (cl_net cs') \<and> incoming (input (cl_net cs')) = left \<and>
         (\<exists>r. cl_resp cs' = Some r \<and> received rep r \<and> (call_holds E cs rep \<longrightarrow> arrived rep r \<and> call_roomy E cs'))))"
    if r: "live_msg r" and rm: "call_roomy E cs \<Longrightarrow> roomy (buffer r)" for r
  proof -
    obtain r1 where r1: "gck_rpc_message_reset r = Ret r1" "blank r1" "call_roomy E cs \<Longrightarrow> roomy (buffer r1)"
      using reset_blank [OF r] rm by blast
    let ?cs1 = "?cs\<lparr>cl_req := None, cl_resp := None\<rparr>"
    have "wp (exchange ?cs1 q r1) (\<lambda>(ret, r', cs').
      \<exists>net'. cs' = ?cs1\<lparr>cl_net := net'\<rparr> \<and>
        (ret = CKR_HOST_MEMORY \<and> live_msg r' \<and> \<not> holds_reply r1 rep \<or>
         ret = CKR_OK \<and> sent net' = sent (cl_net ?cs1) @ frame (request_bytes i args) \<and>
           still_accepts (cl_net ?cs1) (request_bytes i args) net' \<and> incoming (input net') = left \<and> received rep r' \<and>
           (holds_reply r1 rep \<longrightarrow> arrived rep r' \<and> roomy (buffer r'))))"
      by (rule wp_exchange) (use st q r1 out inp rep in \<open>auto simp: live_msg_def\<close>)
    then show ?thesis
      using r1 st q
      by (auto simp: open_call_def messages_live_def call_roomy_def dest: received_live elim!: wp_mono)
  qed
  show ?thesis
  proof (cases "cl_resp cs")
    case None
    obtain p where p: "gck_rpc_message_new (ce_realloc E) (Some (call_allocator E)) = Ret p" "new_message E p"
      using new_message [OF E] by blast
    then show ?thesis
      using with_resp None q st
      by (cases p) (auto simp: call_send_recv_def Let_def open_call_def new_message_def call_roomy_def)
  next
    case (Some r)
    then have "live_msg r" "call_roomy E cs \<Longrightarrow> roomy (buffer r)" using st by (auto simp: messages_live_def call_roomy_def)
    from with_resp [OF this] show ?thesis using Some q st by (simp add: call_send_recv_def Let_def)
  qed
qed

text \<open>
  What the client takes a return value for that the daemon put into an error message, where it
  has 32 bits.
\<close>

definition wire_rv :: "CK_RV \<Rightarrow> CK_RV" where
  "wire_rv ret = (let e = ucast (ucast ret :: u32) in if e = CKR_OK then CKR_DEVICE_ERROR else e)"

lemma read_ulong_short:
  assumes "live_msg r" "signature r = None" "contents (buffer r) = []"
  shows "\<exists>r'. gck_rpc_message_read_ulong r = Ret (None, r') \<and> live_msg r' \<and> (roomy (buffer r) \<longrightarrow> roomy (buffer r'))"
  using assms
  by (simp add: gck_rpc_message_read_ulong_def expect_part_def msg_get_def egg_buffer_get_uint64_def
      get_uint32_eq live_msg_def roomy_def)

lemma received_error:
  assumes "received (error_message e) r"
  shows "call_id r = 0 \<and> (\<exists>v r'. gck_rpc_message_read_ulong r = Ret (v, r') \<and> live_msg r' \<and>
    (roomy (buffer r) \<longrightarrow> roomy (buffer r')) \<and> (v = None \<and> \<not> arrived (error_message e) r \<or> v = Some (ucast (ucast e :: u32))))"
proof -
  let ?e = "ucast (ucast e :: u32) :: CK_ULONG"
  consider (short) "contents (buffer r) = []" "call_id r = 0" "signature r = None" "live_msg r"
      "\<not> arrived (error_message e) r"
    | (full) m ok where "call_id m = 0" "live_msg m" "contents (buffer m) = error_message e"
      "gck_rpc_message_parse m GCK_RPC_RESPONSE = Ret (ok, r)"
    using assms by (cases "arrived (error_message e) r") (auto simp: received_def arrived_def)
  then show ?thesis
  proof cases
    case short
    then show ?thesis using read_ulong_short [of r] by auto
  next
    case full
    then have r: "r = m\<lparr>parsed := 4, signature := None, sigverify := None\<rparr>"
      using parse_error_message [of m e] by (simp add: live_msg_def)
    let ?pre = "egg_buffer_encode_uint32 0"
    have c: "contents (buffer r) = ?pre @ encode_uint64 ?e @ []" and wf: "egg_wf (buffer r)"
      using full r by (simp_all add: error_message_def encode_header_def live_msg_def)
    have s: "sig_next r ''u'' = Some r" and p: "unat (parsed r) = length ?pre"
      using r by (simp_all add: sig_next_def)
    have "gck_rpc_message_read_ulong r =
        Ret (Some ?e, r\<lparr>parsed := parsed r + of_nat (length (encode_uint64 ?e))\<rparr>)"
      by (rule ulong_field.read_enc [OF s wf _ c p]) simp
    then show ?thesis using full r by (simp add: live_msg_def)
  qed
qed

lemma received_results:
  assumes "received (response_bytes i xs) r" "0 < i" "i < GCK_RPC_CALL_MAX"
    and "call_signature i GCK_RPC_RESPONSE = Some sig"
  shows "call_id r = i \<and> answering (buffer r) sig xs r \<or>
    call_id r = 0 \<and> signature r = None \<and> contents (buffer r) = [] \<and> live_msg r \<and>
      \<not> arrived (response_bytes i xs) r"
proof -
  have "answering (buffer r) sig xs r \<and> call_id r = i"
    if m: "live_msg m" "failures (buffer m) = 0" "contents (buffer m) = response_bytes i xs"
      "gck_rpc_message_parse m GCK_RPC_RESPONSE = Ret (ok, r)" for m ok
  proof -
    let ?h = "encode_header i (Some sig)"
    have c: "contents (buffer m) = ?h @ xs" using m(3) assms(4) by (simp add: response_bytes_def)
    have wf: "egg_wf (buffer m)" using m(1) by (simp add: live_msg_def)
    have "length (contents (buffer m)) < 2 ^ 63"
      using length_contents [OF wf] egg_wf_len_bound [OF wf] by simp
    then have "unat (of_nat (length ?h) :: size_t) = length ?h"
      using c by (simp add: unat_of_nat_small)
    then show ?thesis
      using parse_encode_header [OF wf assms(2,3), of GCK_RPC_RESPONSE xs] assms(4) m c
      by (auto simp: answering_def live_msg_def response_bytes_def)
  qed
  then show ?thesis
    using assms(1) by (cases "arrived (response_bytes i xs) r") (auto simp: received_def arrived_def)
qed

text \<open>The connection after a complete exchange: what went out, and what is left to read.\<close>

definition exchanged :: "ClientCall \<Rightarrow> block \<Rightarrow> block \<Rightarrow> ClientCall \<Rightarrow> bool" where
  "exchanged cs xs left cs' \<longleftrightarrow>
     sent (cl_net cs') = sent (cl_net cs) @ frame xs \<and> still_accepts (cl_net cs) xs (cl_net cs') \<and>
     incoming (input (cl_net cs')) = left"

definition parsing :: "ClientCall \<Rightarrow> bool" where
  "parsing cs \<longleftrightarrow> open_call cs \<and> call_status cs = CALL_PARSE"

abbreviation (input) memory_errors :: "CK_RV set" where
  "memory_errors \<equiv> {CKR_HOST_MEMORY, CKR_DEVICE_ERROR}"

lemma wp_call_run:
  assumes E: "egg_allocator (alloc_run (ce_realloc E))" and cs: "asking i [] args cs" and i: "0 < i"
    and out: "accepts (sends (cl_net cs)) [4, length (request_bytes i args)]"
    and inp: "incoming (input (cl_net cs)) = frame rep @ left" and rep: "rep \<noteq> []" "length rep < 2 ^ 32"
    and fin: "\<And>r. received rep r \<Longrightarrow>
      call_id r = 0 \<and> (\<exists>v r'. gck_rpc_message_read_ulong r = Ret (v, r') \<and> live_msg r' \<and>
         (roomy (buffer r) \<longrightarrow> roomy (buffer r')) \<and> (v = None \<and> \<not> arrived rep r \<or> v = Some e \<and> F (if e = CKR_OK then CKR_DEVICE_ERROR else e) r')) \<or>
      call_id r = i \<and> failures (buffer r) = 0 \<and> F CKR_OK r"
  shows "wp (call_run E cs) (\<lambda>(ret, cs'). parsing cs' \<and>
    (ret \<in> memory_errors \<and> \<not> call_holds E cs rep \<or>
     exchanged cs (request_bytes i args) left cs' \<and> (call_holds E cs rep \<longrightarrow> call_roomy E cs') \<and>
       (\<exists>r. cl_resp cs' = Some r \<and> F ret r)))"
proof -
  obtain q where q: "cl_req cs = Some q" "failures (buffer q) = 0" "sigverify q = Some []"
    and st: "call_status cs = CALL_PREP" "cl_socket cs \<noteq> - 1"
    using cs by (auto simp: asking_def open_call_def)
  have q': "\<not> gck_rpc_message_buffer_error q" "gck_rpc_message_is_verified q"
    using q by (simp_all add: gck_rpc_message_buffer_error_def egg_buffer_has_error_def
        gck_rpc_message_is_verified_def)
  obtain ret cs' where sr: "call_send_recv E cs = Ret (ret, cs')"
    and post: "open_call cs' \<and> (\<exists>q. cl_req cs' = Some q \<and> call_id q = i) \<and>
      (ret = CKR_HOST_MEMORY \<and> \<not> call_holds E cs rep \<or>
       ret = CKR_OK \<and> sent (cl_net cs') = sent (cl_net cs) @ frame (request_bytes i args) \<and>
         still_accepts (cl_net cs) (request_bytes i args) (cl_net cs') \<and> incoming (input (cl_net cs')) = left \<and>
         (\<exists>r. cl_resp cs' = Some r \<and> received rep r \<and> (call_holds E cs rep \<longrightarrow> arrived rep r \<and> call_roomy E cs')))"
    by (rule wp_pairE [OF wp_call_send_recv [OF E cs out inp rep]])
  obtain q2 where q2: "cl_req cs' = Some q2" "call_id q2 = i" using post by blast
  have up: "open_call (cs'\<lparr>call_status := CALL_PARSE\<rparr>)"
    using post by (simp add: open_call_def)
  show ?thesis
  proof (cases "ret = CKR_HOST_MEMORY")
    case True
    then have "\<not> call_holds E cs rep" using post by auto
    then show ?thesis using True q(1) st q' sr up by (simp add: call_run_def parsing_def)
  next
    case False
    then obtain r where ok: "ret = CKR_OK" and r: "cl_resp cs' = Some r" "received rep r"
      and arr: "call_holds E cs rep \<longrightarrow> arrived rep r \<and> call_roomy E cs'"
      and ex: "exchanged cs (request_bytes i args) left cs'"
      using post by (auto simp: exchanged_def)
    have up': "open_call (cs'\<lparr>call_status := CALL_PARSE, cl_resp := Some r'\<rparr>)" if "live_msg r'" for r'
      using up that by (simp add: open_call_def messages_live_def)
    from fin [OF r(2)] consider
      (error) v r' where "call_id r = 0" "gck_rpc_message_read_ulong r = Ret (v, r')" "live_msg r'"
        "roomy (buffer r) \<longrightarrow> roomy (buffer r')"
        "v = None \<and> \<not> arrived rep r \<or> v = Some e \<and> F (if e = CKR_OK then CKR_DEVICE_ERROR else e) r'"
      | (results) "call_id r = i" "failures (buffer r) = 0" "F CKR_OK r"
      by metis
    then show ?thesis
    proof cases
      case error
      then show ?thesis
        using q(1) st q' sr ok q2 r(1) ex up' arr
        by (auto simp: call_run_def parsing_def exchanged_def call_roomy_def split: if_splits)
    next
      case results
      then show ?thesis
        using q(1) st q' sr ok q2 r(1) ex up i arr
        by (auto simp: call_run_def parsing_def exchanged_def gck_rpc_message_buffer_error_def
            egg_buffer_has_error_def call_roomy_def)
    qed
  qed
qed

lemma wp_call_run_error:
  assumes "egg_allocator (alloc_run (ce_realloc E))" "asking i [] args cs" "0 < i"
    and "accepts (sends (cl_net cs)) [4, length (request_bytes i args)]"
    and "incoming (input (cl_net cs)) = frame (error_message e) @ left"
  shows "wp (call_run E cs) (\<lambda>(ret, cs'). parsing cs' \<and>
    (ret \<in> memory_errors \<and> \<not> call_roomy E cs \<or>
     exchanged cs (request_bytes i args) left cs' \<and> (call_roomy E cs \<longrightarrow> call_roomy E cs') \<and> ret = wire_rv e))"
proof -
  have len: "error_message e \<noteq> []" "length (error_message e) < 2 ^ 32" "length (error_message e) < 0x7fffffff"
    by (simp_all add: error_message_def encode_header_def egg_buffer_encode_uint32_def encode_uint64_def)
  show ?thesis
    by (rule wp_mono [OF wp_call_run [where F = "\<lambda>ret r. ret = wire_rv e" and e = "ucast (ucast e :: u32)",
            OF assms len(1,2)]])
      (use received_error [of e] len(3) in \<open>auto simp: wire_rv_def Let_def\<close>)
qed

lemma wp_call_run_results:
  assumes "egg_allocator (alloc_run (ce_realloc E))" "asking i [] args cs"
    and i: "0 < i" "i < GCK_RPC_CALL_MAX" and s: "call_signature i GCK_RPC_RESPONSE = Some sig"
    and "accepts (sends (cl_net cs)) [4, length (request_bytes i args)]"
    and "incoming (input (cl_net cs)) = frame (response_bytes i xs) @ left"
      "length (response_bytes i xs) < 2 ^ 32"
  shows "wp (call_run E cs) (\<lambda>(ret, cs'). parsing cs' \<and>
    (ret \<in> memory_errors \<and> \<not> call_holds E cs (response_bytes i xs) \<or>
     exchanged cs (request_bytes i args) left cs' \<and>
       (call_holds E cs (response_bytes i xs) \<longrightarrow> call_roomy E cs') \<and> ret = CKR_OK \<and>
       (\<exists>r. cl_resp cs' = Some r \<and> answering (buffer r) sig xs r)))"
proof -
  have ne: "response_bytes i xs \<noteq> []" by (simp add: response_bytes_def length_encode_header_pos)
  show ?thesis
    by (rule wp_mono [OF wp_call_run [where F = "\<lambda>ret r. ret = CKR_OK \<and> answering (buffer r) sig xs r" and e = 0,
            OF assms(1,2) i(1) assms(6,7) ne assms(8)]])
      (use received_results [OF _ i s, of xs] read_ulong_short in \<open>fastforce simp: answering_def\<close>, auto)
qed

section \<open>An empty reply\<close>

text \<open>A reply that is announced with length zero fails the assertion of \<open>call_read\<close>.\<close>

lemma reserve_zero: "allocated_len b > 0 \<Longrightarrow> egg_buffer_reserve b 0 = (True, b)"
  by (simp add: egg_buffer_reserve_def)

lemma receive_empty:
  assumes "cl_socket cs \<noteq> - 1" "\<not> cl_tls cs" "blank r" "length buf4 = 4" "allocated_len (buffer r) > 0"
    and "incoming (input (cl_net cs)) = frame [] @ left"
  shows "receive_response cs r buf4 = Abort"
proof -
  have "len (buffer r) = 0"
    using assms(3) length_contents [of "buffer r"] by (auto simp: blank_def live_msg_def unat_eq_0)
  moreover obtain ev where "call_read cs buf4 = Ret (CKR_OK, egg_buffer_encode_uint32 0, cs\<lparr>cl_net := (cl_net cs)\<lparr>input := ev\<rparr>\<rparr>)"
    using call_read_arrived [of buf4 cs "egg_buffer_encode_uint32 0" left] assms
    by (cases "buf4 = []") (auto simp: frame_def)
  ultimately show ?thesis
    by (cases "buf (buffer r)")
      (simp_all add: receive_response_def decode_encode_uint32 reserve_zero assms(5) call_read_def Let_def)
qed

lemma call_run_empty:
  assumes cs: "asking i [] args cs" and r: "cl_resp cs = Some r" "allocated_len (buffer r) > 0"
    and out: "accepts (sends (cl_net cs)) [4, length (request_bytes i args)]"
    and inp: "incoming (input (cl_net cs)) = frame [] @ left"
  shows "call_run E cs = Abort"
proof -
  obtain q where q: "cl_req cs = Some q" "live_msg q" "failures (buffer q) = 0" "sigverify q = Some []"
    "contents (buffer q) = request_bytes i args" "cl_socket cs \<noteq> - 1" "\<not> cl_tls cs" "call_status cs = CALL_PREP" "live_msg r"
    using cs r by (auto simp: asking_def open_call_def messages_live_def)
  let ?cs = "cs\<lparr>call_status := CALL_TRANSIT, cl_req := None, cl_resp := None\<rparr>"
  obtain r' where r': "gck_rpc_message_reset r = Ret r'" "blank r'" using reset_blank [OF q(9)] by auto
  obtain ev where "exchange ?cs q r' = receive_response
      (?cs\<lparr>cl_net := (cl_net ?cs)\<lparr>sends := ev, sent := sent (cl_net ?cs) @ frame (request_bytes i args)\<rparr>\<rparr>) r'
      (egg_buffer_encode_uint32 (of_nat (length (request_bytes i args))))"
    using exchange_sent [of ?cs q i args r'] q out by (auto simp: live_msg_def)
  then have "exchange ?cs q r' = Abort"
    using receive_empty [OF _ _ r'(2), of _ _ left] reset_allocated [OF r'(1)] r(2) q inp by simp
  then have "call_send_recv E cs = Abort"
    using q r r'(1) by (simp add: call_send_recv_def Let_def)
  then show ?thesis
    using q by (simp add: call_run_def gck_rpc_message_buffer_error_def egg_buffer_has_error_def
        gck_rpc_message_is_verified_def)
qed

end
