(* ===== verification/Client_Results.thy ===== *)
theory Client_Results
  imports Client_Dialogue
begin

text \<open>
  Reading results on the client: from a reply that holds the encoding of some results, the
  \<open>proto_read_\<close> functions store exactly these results in the caller's memory. The contract of a
  reader is the locale \<open>result_field\<close>.
\<close>

section \<open>Values at the reading position\<close>

lemma answering_live: "answering B sig xs r \<Longrightarrow> live_msg r \<and> buffer r = B"
  by (simp add: answering_def)

lemma expect_answering:
  assumes "answering B (part @ sig) xs r"
  shows "expect_part r part k = k (r\<lparr>sigverify := Some sig\<rparr>)" "answering B sig xs (r\<lparr>sigverify := Some sig\<rparr>)"
  using assms by (auto simp: expect_part_eq answering_def live_msg_def)

lemma answering_advance:
  assumes "answering B sig (ys @ xs) r"
  shows "answering B sig xs (r\<lparr>parsed := parsed r + of_nat (length ys)\<rparr>)"
proof -
  obtain pre where pre: "contents (buffer r) = (pre @ ys) @ xs" "unat (parsed r) = length pre"
    using assms by (auto simp: answering_def)
  have wf: "egg_wf (buffer r)" using assms by (auto simp: answering_def live_msg_def)
  have "length (contents (buffer r)) < 2 ^ 63"
    using length_contents [OF wf] egg_wf_len_bound [OF wf] by simp
  then have "unat (parsed r + of_nat (length ys)) = length (pre @ ys)"
    using pre by (simp add: of_nat_unat_add)
  then show ?thesis using assms pre(1) by (auto simp: answering_def live_msg_def)
qed

context buffer_codec
begin

lemma get_answering:
  assumes "answering B sig (enc v @ xs) r" "valid v"
  shows "\<exists>r'. msg_get get r = Ret (Some (view v), r') \<and> answering B sig xs r'"
proof -
  obtain pre where pre: "contents (buffer r) = pre @ enc v @ xs" "unat (parsed r) = length pre"
    "egg_wf (buffer r)"
    using assms(1) by (auto simp: answering_def live_msg_def)
  show ?thesis
    using msg_get_enc [OF pre(3) assms(2) pre(1,2)] answering_advance [OF assms(1)] by blast
qed

lemma get_or_errorE:
  assumes "answering B sig (enc v @ xs) r" "valid v"
  obtains r' where "\<And>mem k. get_or_error get mem r k = k (view v) r'" "answering B sig xs r'"
  using get_answering [OF assms] by (auto simp: get_or_error_def)

end

context msg_field
begin

lemma read_answering:
  assumes "answering B (part @ sig) (enc v @ xs) r" "valid v"
  shows "\<exists>r'. rd r = Ret (Some (view v), r') \<and> answering B sig xs r'"
proof -
  obtain pre where pre: "contents (buffer r) = pre @ enc v @ xs" "unat (parsed r) = length pre"
    "egg_wf (buffer r)" "sig_next r part = Some (r\<lparr>sigverify := Some sig\<rparr>)"
    using assms(1) by (auto simp: answering_def live_msg_def)
  have "answering B sig (enc v @ xs) (r\<lparr>sigverify := Some sig\<rparr>)"
    using expect_answering(2) [OF assms(1)] .
  from answering_advance [OF this] show ?thesis
    using read_enc [OF pre(4,3) assms(2) pre(1,2)] by auto
qed

end

section \<open>The contract of a result\<close>

text \<open>
  \<open>store mem v\<close> is the return value and the memory after the value \<open>v\<close> was read, for memory that
  \<open>fits\<close> it. The rest of the reply can be read when the return value is \<open>CKR_OK\<close>.
\<close>

locale result_field =
  fixes part :: string
    and rd :: "'o result_reader"
    and enc :: "'v \<Rightarrow> block"
    and fits :: "'o \<Rightarrow> 'v \<Rightarrow> bool"
    and store :: "'o \<Rightarrow> 'v \<Rightarrow> CK_RV \<times> 'o"
  assumes read_result: "answering B (part @ sig) (enc v @ xs) r \<Longrightarrow> fits mem v \<Longrightarrow>
    \<exists>r'. rd mem r = Ret (fst (store mem v), snd (store mem v), r') \<and> live_msg r' \<and> buffer r' = B \<and>
      (fst (store mem v) = CKR_OK \<longrightarrow> answering B sig xs r')"
begin

lemma CL_OUT_result:
  assumes "cl_resp cs = Some r" "answering B (part @ sig) (enc v @ xs) r" "fits mem v"
  shows "\<exists>r'. CL_OUT rd mem CKR_OK cs k = k (fst (store mem v)) (snd (store mem v)) (cs\<lparr>cl_resp := Some r'\<rparr>) \<and>
    live_msg r' \<and> buffer r' = B \<and> (fst (store mem v) = CKR_OK \<longrightarrow> answering B sig xs r')"
  using read_result [OF assms(2,3)] assms(1) by (auto simp: CL_OUT_def)

end

section \<open>Structures and integers\<close>

declare get_fields.simps [simp del]

lemma fields_nil:
  "answering B sig xs m \<Longrightarrow> info = info' \<Longrightarrow>
   \<exists>m'. get_fields [] info m = Ret (CKR_OK, info', m') \<and> answering B sig xs m'"
  by (simp add: get_fields.simps)

lemma fields_cons:
  assumes "\<exists>m1. rd m = Ret (Some v, m1) \<and> answering B sig xs m1"
    and "\<And>m1. answering B sig xs m1 \<Longrightarrow>
      \<exists>m'. get_fields fs (upd v info) m1 = Ret (CKR_OK, info', m') \<and> answering B sig' ys m'"
  shows "\<exists>m'. get_fields (get_field rd upd # fs) info m = Ret (CKR_OK, info', m') \<and> answering B sig' ys m'"
  using assms by (auto simp: get_fields.simps get_field_def)

lemma fields_version:
  "answering B (CHR ''v'' # sig) (encode_version v @ xs) m \<Longrightarrow>
   (\<And>m1. answering B sig xs m1 \<Longrightarrow>
      \<exists>m'. get_fields fs (upd v info) m1 = Ret (CKR_OK, info', m') \<and> answering B sig' ys m') \<Longrightarrow>
   \<exists>m'. get_fields (get_field gck_rpc_message_read_version upd # fs) info m = Ret (CKR_OK, info', m') \<and>
     answering B sig' ys m'"
  using version_field.read_answering [of B sig v xs m] by (intro fields_cons) simp_all

lemma fields_ulong:
  "answering B (CHR ''u'' # sig) (encode_uint64 v @ xs) m \<Longrightarrow>
   (\<And>m1. answering B sig xs m1 \<Longrightarrow>
      \<exists>m'. get_fields fs (upd v info) m1 = Ret (CKR_OK, info', m') \<and> answering B sig' ys m') \<Longrightarrow>
   \<exists>m'. get_fields (get_field gck_rpc_message_read_ulong upd # fs) info m = Ret (CKR_OK, info', m') \<and>
     answering B sig' ys m'"
  using ulong_field.read_answering [of B sig v xs m] by (intro fields_cons) simp_all

lemma fields_string:
  "answering B (CHR ''s'' # sig) (encode_byte_array (Some v) @ xs) m \<Longrightarrow>
   n \<noteq> 0 \<and> n < 0x7fffffff \<and> length v = unat n \<Longrightarrow>
   (\<And>m1. answering B sig xs m1 \<Longrightarrow>
      \<exists>m'. get_fields fs (upd v info) m1 = Ret (CKR_OK, info', m') \<and> answering B sig' ys m') \<Longrightarrow>
   \<exists>m'. get_fields (get_field (\<lambda>m. gck_rpc_message_read_space_string m n) upd # fs) info m =
     Ret (CKR_OK, info', m') \<and> answering B sig' ys m'"
  using msg_field.read_answering [OF space_string_msg_field [of n], of B sig v xs m]
  by (intro fields_cons) simp_all

lemmas fields_rules = fields_version fields_ulong fields_string fields_nil

text \<open>\<open>sized\<close> says that the character arrays of the structure have their declared sizes.\<close>

lemma info_resultI:
  assumes "\<And>B sig xs r v mem. answering B (part @ sig) (enc v @ xs) r \<Longrightarrow> sized v \<Longrightarrow>
    \<exists>r'. rd mem r = Ret (CKR_OK, v, r') \<and> answering B sig xs r'"
  shows "result_field part rd enc (\<lambda>_. sized) (\<lambda>_ v. (CKR_OK, v))"
  using assms by unfold_locales (fastforce dest: answering_live)

interpretation ulong_result: result_field "''u''" read_ulong_result encode_uint64 "\<lambda>_ _. True"
  "\<lambda>_ v. (CKR_OK, v)"
  by (rule info_resultI) (simp add: read_ulong_result_def, elim fields_rules, simp)

interpretation info_result: result_field "''vsusv''" proto_read_info encode_info "\<lambda>_. ck_info_wf"
  "\<lambda>_ v. (CKR_OK, v)"
  by (rule info_resultI)
    (simp add: proto_read_info_def encode_info_def ck_info_wf_def, elim fields_rules, auto intro!: CK_INFO.equality)

interpretation slot_info_result: result_field "''ssuvv''" proto_read_slot_info encode_slot_info
  "\<lambda>_. ck_slot_info_wf" "\<lambda>_ v. (CKR_OK, v)"
  by (rule info_resultI)
    (simp add: proto_read_slot_info_def encode_slot_info_def ck_slot_info_wf_def, elim fields_rules, auto intro!: CK_SLOT_INFO.equality)

interpretation token_info_result: result_field "''ssssuuuuuuuuuuuvvs''" proto_read_token_info encode_token_info
  "\<lambda>_. ck_token_info_wf" "\<lambda>_ v. (CKR_OK, v)"
  by (rule info_resultI)
    (simp add: proto_read_token_info_def encode_token_info_def ck_token_info_wf_def, elim fields_rules, auto intro!: CK_TOKEN_INFO.equality)

interpretation mechanism_info_result: result_field "''uuu''" proto_read_mechanism_info encode_mechanism_info
  "\<lambda>_ _. True" "\<lambda>_ v. (CKR_OK, v)"
  by (rule info_resultI)
    (simp add: proto_read_mechanism_info_def encode_mechanism_info_def, elim fields_rules, auto intro!: CK_MECHANISM_INFO.equality)

interpretation session_info_result: result_field "''uuuu''" proto_read_sesssion_info encode_session_info
  "\<lambda>_ _. True" "\<lambda>_ v. (CKR_OK, v)"
  by (rule info_resultI)
    (simp add: proto_read_sesssion_info_def encode_session_info_def, elim fields_rules, auto intro!: CK_SESSION_INFO.equality)

section \<open>Byte arrays\<close>

text \<open>
  The memory is the caller's array and the room in it. Without data in the reply, or with data
  that does not fit, the caller learns the length that is needed.
\<close>

fun bytes_store :: "block option \<times> CK_ULONG \<Rightarrow> block option \<times> CK_ULONG \<Rightarrow> CK_RV \<times> block option \<times> CK_ULONG" where
  "bytes_store (arr, room) (None, n) = (if arr \<noteq> None then CKR_BUFFER_TOO_SMALL else CKR_OK, arr, n)"
| "bytes_store (None, room) (Some xs, n) = (CKR_OK, None, n)"
| "bytes_store (Some a, room) (Some xs, n) =
     (if room < n then (CKR_BUFFER_TOO_SMALL, Some a, n)
      else (CKR_OK, Some (take (unat n) xs @ drop (unat n) a), n))"

definition bytes_fit :: "block option \<times> CK_ULONG \<Rightarrow> block option \<times> CK_ULONG \<Rightarrow> bool" where
  "bytes_fit mem v \<longleftrightarrow>
     (case fst mem of None \<Rightarrow> True | Some a \<Rightarrow> unat (snd mem) \<le> length a) \<and>
     (case fst v of
        None \<Rightarrow> unat (snd v) < 2 ^ 32
      | Some xs \<Rightarrow> unat (snd v) \<le> length xs \<and> unat (snd v) < 0x7fffffff)"

interpretation bytes_result: result_field "''ay''" cl_proto_read_byte_array
  "\<lambda>(arr, n). encode_byte_array_field arr n" bytes_fit bytes_store
proof
  fix B sig xs r and v mem :: "block option \<times> CK_ULONG"
  assume a: "answering B (''ay'' @ sig) ((case v of (arr, n) \<Rightarrow> encode_byte_array_field arr n) @ xs) r"
    and fit: "bytes_fit mem v"
  obtain d n where v: "v = (d, n)" by (cases v)
  obtain arr room where mem: "mem = (arr, room)" by (cases mem)
  note e = expect_answering [OF a]
  show "\<exists>r'. cl_proto_read_byte_array mem r = Ret (fst (bytes_store mem v), snd (bytes_store mem v), r') \<and>
      live_msg r' \<and> buffer r' = B \<and> (fst (bytes_store mem v) = CKR_OK \<longrightarrow> answering B sig xs r')"
  proof (cases d)
    case None
    have n: "ucast (ucast n :: u32) = n" using fit v None by (simp add: bytes_fit_def ucast_u32)
    have "answering B sig ([0] @ egg_buffer_encode_uint32 (ucast n) @ xs) (r\<lparr>sigverify := Some sig\<rparr>)"
      using e(2) v None by (simp add: encode_byte_array_field_def)
    then obtain r1 where
      r1: "\<And>mem :: block option \<times> CK_ULONG. \<And>k. get_or_error egg_buffer_get_byte mem (r\<lparr>sigverify := Some sig\<rparr>) k = k 0 r1"
        "answering B sig (egg_buffer_encode_uint32 (ucast n) @ xs) r1"
      by (rule byte_codec.get_or_errorE) (rule TrueI, rule that)
    then obtain r2 where r2: "\<And>mem :: block option \<times> CK_ULONG. \<And>k. get_or_error egg_buffer_get_uint32 mem r1 k = k (ucast n) r2"
        "answering B sig xs r2"
      by (elim uint32_codec.get_or_errorE) (rule TrueI, rule that)
    show ?thesis
      using v None mem n r1(1) r2 answering_live [OF r2(2)]
      by (cases arr) (simp_all add: cl_proto_read_byte_array_def e(1))
  next
    case (Some ys)
    let ?y = "take (unat n) ys"
    have len: "length ?y = unat n" "byte_array_valid (Some ?y)" "of_nat (length ?y) = n"
      using fit v Some by (auto simp: bytes_fit_def byte_array_valid_def word_unat_eq_iff unat_of_nat_small)
    have "answering B sig ([1] @ encode_byte_array (Some ?y) @ xs) (r\<lparr>sigverify := Some sig\<rparr>)"
      using e(2) v Some by (simp add: encode_byte_array_field_def)
    then obtain r1 where r1: "\<And>mem :: block option \<times> CK_ULONG. \<And>k. get_or_error egg_buffer_get_byte mem (r\<lparr>sigverify := Some sig\<rparr>) k = k 1 r1"
      "answering B sig (encode_byte_array (Some ?y) @ xs) r1"
      by (rule byte_codec.get_or_errorE) (rule TrueI, rule that)
    obtain r2 where r2: "\<And>mem :: block option \<times> CK_ULONG. \<And>k. get_or_error egg_buffer_get_byte_array mem r1 k = k (Some ?y, n) r2"
      "answering B sig xs r2"
      by (rule byte_array_codec.get_or_errorE [OF r1(2) len(2), unfolded cells_simps len(3)]) (rule that)
    show ?thesis
      using v Some mem r1(1) r2 fit len(1) answering_live [OF r2(2)]
      by (cases arr) (auto simp: cl_proto_read_byte_array_def e(1) bytes_fit_def word_less_nat_alt)
  qed
qed

section \<open>Integer arrays\<close>

fun ulongs_store :: "ulong_array \<times> CK_ULONG \<Rightarrow> ulong_array \<times> CK_ULONG \<Rightarrow> CK_RV \<times> ulong_array \<times> CK_ULONG" where
  "ulongs_store (arr, room) (None, n) = (if arr \<noteq> None then CKR_BUFFER_TOO_SMALL else CKR_OK, arr, n)"
| "ulongs_store (arr, room) (Some vs, n) =
     (if room < n then (CKR_BUFFER_TOO_SMALL, arr, n)
      else (CKR_OK, map_option (\<lambda>a. take (unat n) vs @ drop (unat n) a) arr, n))"

definition ulongs_fit :: "ulong_array \<times> CK_ULONG \<Rightarrow> ulong_array \<times> CK_ULONG \<Rightarrow> bool" where
  "ulongs_fit mem v \<longleftrightarrow>
     (case fst mem of None \<Rightarrow> True | Some a \<Rightarrow> unat (snd mem) \<le> length a) \<and> unat (snd v) < 2 ^ 32 \<and>
     (case fst v of None \<Rightarrow> True | Some vs \<Rightarrow> unat (snd v) \<le> length vs)"

lemma read_ulong_items_answering:
  assumes "answering B sig (concat (map encode_uint64 vs) @ xs) r"
    and "\<And>a. arr = Some a \<Longrightarrow> i + length vs \<le> length a"
  shows "\<exists>r'. read_ulong_items (length vs) i val arr r =
      Ret (map_option (\<lambda>a. take i a @ vs @ drop (i + length vs) a) arr, r') \<and> answering B sig xs r'"
  using assms
proof (induction vs arbitrary: i val arr r)
  case Nil
  then show ?case by (cases arr) auto
next
  case (Cons v vs)
  then obtain r1 where r1: "msg_get egg_buffer_get_uint64 r = Ret (Some v, r1)"
    "answering B sig (concat (map encode_uint64 vs) @ xs) r1"
    using uint64_codec.get_answering [of B sig v "concat (map encode_uint64 vs) @ xs" r] by auto
  have "\<exists>r'. read_ulong_items (length vs) (Suc i) v (map_option (\<lambda>a. a[i := v]) arr) r1 =
      Ret (map_option (\<lambda>a. take (Suc i) a @ vs @ drop (Suc i + length vs) a) (map_option (\<lambda>a. a[i := v]) arr), r') \<and>
      answering B sig xs r'"
    by (rule Cons.IH [OF r1(2)]) (use Cons.prems(2) in auto)
  then show ?case
    using r1(1) Cons.prems(2)
    by (cases arr) (auto simp: take_Suc_conv_app_nth simp flip: append_assoc)
qed

interpretation ulongs_result: result_field "''au''" "cl_proto_read_ulong_array val"
  "\<lambda>(arr, n). encode_ulong_array_field arr n" ulongs_fit ulongs_store
  for val
proof
  fix B sig xs r and v mem :: "ulong_array \<times> CK_ULONG"
  assume a: "answering B (''au'' @ sig) ((case v of (arr, n) \<Rightarrow> encode_ulong_array_field arr n) @ xs) r"
    and fit: "ulongs_fit mem v"
  obtain d n where v: "v = (d, n)" by (cases v)
  obtain arr room where mem: "mem = (arr, room)" by (cases mem)
  let ?flag = "(if d \<noteq> None then 1 else 0) :: byte"
  let ?vs = "case d of None \<Rightarrow> [] | Some vs \<Rightarrow> take (unat n) vs"
  note e = expect_answering [OF a]
  have n: "ucast (ucast n :: u32) = n" "unat (ucast n :: u32) = unat n"
    using fit v by (simp_all add: ulongs_fit_def ucast_u32)
  have "answering B sig ([?flag] @ egg_buffer_encode_uint32 (ucast n) @ concat (map encode_uint64 ?vs) @ xs)
      (r\<lparr>sigverify := Some sig\<rparr>)"
    using e(2) v by (cases d) (simp_all add: encode_ulong_array_field_def)
  then obtain r1 where
    r1: "\<And>mem :: ulong_array \<times> CK_ULONG. \<And>k. get_or_error egg_buffer_get_byte mem (r\<lparr>sigverify := Some sig\<rparr>) k = k ?flag r1"
      "answering B sig (egg_buffer_encode_uint32 (ucast n) @ concat (map encode_uint64 ?vs) @ xs) r1"
    by (rule byte_codec.get_or_errorE) (rule TrueI, rule that)
  obtain r2 where
    r2: "\<And>mem :: ulong_array \<times> CK_ULONG. \<And>k. get_or_error egg_buffer_get_uint32 mem r1 k = k (ucast n) r2"
      "answering B sig (concat (map encode_uint64 ?vs) @ xs) r2"
    by (rule uint32_codec.get_or_errorE [OF r1(2)]) (rule TrueI, rule that)
  show "\<exists>r'. cl_proto_read_ulong_array val mem r = Ret (fst (ulongs_store mem v), snd (ulongs_store mem v), r') \<and>
      live_msg r' \<and> buffer r' = B \<and> (fst (ulongs_store mem v) = CKR_OK \<longrightarrow> answering B sig xs r')"
  proof (cases d)
    case None
    then show ?thesis
      using v mem n r1(1) r2 answering_live [OF r2(2)]
      by (cases arr) (simp_all add: cl_proto_read_ulong_array_def e(1))
  next
    case (Some vs)
    show ?thesis
    proof (cases "room < n")
      case True
      then show ?thesis
        using Some v mem n r1(1) r2 answering_live [OF r2(2)]
        by (simp add: cl_proto_read_ulong_array_def e(1))
    next
      case False
      have len: "length (take (unat n) vs) = unat n" using fit v Some by (simp add: ulongs_fit_def)
      have "\<exists>r'. read_ulong_items (length (take (unat n) vs)) 0 val arr r2 =
          Ret (map_option (\<lambda>a. take 0 a @ take (unat n) vs @ drop (0 + length (take (unat n) vs)) a) arr, r') \<and>
          answering B sig xs r'"
        by (rule read_ulong_items_answering)
          (use r2(2) Some False fit v mem len in \<open>auto simp: ulongs_fit_def word_less_nat_alt\<close>)
      then obtain r3 where r3: "read_ulong_items (unat n) 0 val arr r2 =
          Ret (map_option (\<lambda>a. take (unat n) vs @ drop (unat n) a) arr, r3)" "answering B sig xs r3"
        unfolding len by auto
      then have "\<not> egg_buffer_has_error (buffer r3)" "live_msg r3" "buffer r3 = B"
        by (auto simp: answering_def egg_buffer_has_error_def)
      then show ?thesis
        using False Some v mem n r1(1) r2(1) r3
        by (simp add: cl_proto_read_ulong_array_def e(1))
    qed
  qed
qed

section \<open>Attributes\<close>

text \<open>\<open>a\<close> is the caller's attribute, \<open>b\<close> the one the module has filled in.\<close>

definition attr_store :: "CK_ATTRIBUTE \<Rightarrow> CK_ATTRIBUTE \<Rightarrow> CK_ATTRIBUTE" where
  "attr_store a b =
     (if ulValueLen b = - 1 then a\<lparr>ulValueLen := - 1\<rparr>
      else
        (case pValue a of
           None \<Rightarrow> a\<lparr>ulValueLen := ulValueLen b\<rparr>
         | Some old \<Rightarrow>
             if ulValueLen a < ulValueLen b then a\<lparr>ulValueLen := ulValueLen b\<rparr>
             else
               (case pValue b of
                  None \<Rightarrow> a\<lparr>ulValueLen := 0\<rparr>
                | Some v \<Rightarrow>
                    a\<lparr>pValue := Some (take (unat (ulValueLen b)) v @ drop (unat (ulValueLen b)) old),
                      ulValueLen := ulValueLen b\<rparr>)))"

definition attr_fits :: "CK_ATTRIBUTE \<Rightarrow> CK_ATTRIBUTE \<Rightarrow> bool" where
  "attr_fits a b \<longleftrightarrow>
     attr_type a = attr_type b \<and> unat (attr_type a) < 2 ^ 32 \<and>
     (case pValue a of None \<Rightarrow> True | Some old \<Rightarrow> unat (ulValueLen a) \<le> length old) \<and>
     (ulValueLen b \<noteq> - 1 \<longrightarrow>
        (case pValue b of
           None \<Rightarrow> unat (ulValueLen b) < 2 ^ 32
         | Some v \<Rightarrow> unat (ulValueLen b) \<le> length v \<and> unat (ulValueLen b) < 0x7fffffff))"

lemma read_attribute_answering:
  assumes "answering B sig (encode_attribute b @ xs) r" "attr_fits a b" "i < length as" "as ! i = a"
  shows "\<exists>r' t vy. read_attribute_items (Suc n) i type validity (Some as) r =
      read_attribute_items n (Suc i) t vy (Some (as[i := attr_store a b])) r' \<and> answering B sig xs r'"
proof -
  let ?body = "if ulValueLen b = - 1 then [0]
    else 1 # egg_buffer_encode_uint32 (ucast (ulValueLen b)) @
         encode_byte_array (map_option (take (unat (ulValueLen b))) (pValue b))"
  have ty: "ucast (ucast (attr_type b) :: u32) = attr_type a"
    using assms(2) ucast_u32(2) [of "attr_type b"] by (auto simp: attr_fits_def)
  have "answering B sig (egg_buffer_encode_uint32 (ucast (attr_type b)) @ ?body @ xs) r"
    using assms(1) by (simp add: encode_attribute_def)
  then obtain r1 where r1: "msg_get egg_buffer_get_uint32 r = Ret (Some (ucast (attr_type b)), r1)"
    "answering B sig (?body @ xs) r1"
    using uint32_codec.get_answering by blast
  show ?thesis
  proof (cases "ulValueLen b = - 1")
    case True
    then have "answering B sig ([0] @ xs) r1" using r1(2) by simp
    then obtain r2 where r2: "msg_get egg_buffer_get_byte r1 = Ret (Some 0, r2)" "answering B sig xs r2"
      using byte_codec.get_answering [of B sig 0 xs r1] by auto
    then show ?thesis
      using r1(1) True assms(3,4) ty
      by (auto simp: Let_def store_attribute_def attr_store_def answering_def egg_buffer_has_error_def)
  next
    case False
    let ?n = "ulValueLen b" and ?v = "map_option (take (unat (ulValueLen b))) (pValue b)"
    have n: "ucast (ucast ?n :: u32) = ?n" "byte_array_valid ?v"
      "?v \<noteq> None \<longrightarrow> of_nat (length (cells ?v)) = ?n"
      using assms(2) False
      by (auto simp: attr_fits_def byte_array_valid_def word_unat_eq_iff unat_of_nat_small ucast_u32
          split: option.splits)
    have "answering B sig ([1] @ egg_buffer_encode_uint32 (ucast ?n) @ encode_byte_array ?v @ xs) r1"
      using r1(2) False by simp
    then obtain r2 where r2: "msg_get egg_buffer_get_byte r1 = Ret (Some 1, r2)"
      "answering B sig (egg_buffer_encode_uint32 (ucast ?n) @ encode_byte_array ?v @ xs) r2"
      using byte_codec.get_answering [of B sig 1 _ r1] by blast
    then obtain r3 where r3: "msg_get egg_buffer_get_uint32 r2 = Ret (Some (ucast ?n), r3)"
      "answering B sig (encode_byte_array ?v @ xs) r3"
      using uint32_codec.get_answering by blast
    then obtain r4 where r4: "msg_get egg_buffer_get_byte_array r3 = Ret (Some (?v, of_nat (length (cells ?v))), r4)"
      "answering B sig xs r4"
      using byte_array_codec.get_answering [OF _ n(2)] by blast
    have st: "store_attribute a 1 ?v ?n = Ret (attr_store a b)"
      using assms(2) False
      by (auto simp: store_attribute_def attr_store_def attr_fits_def word_less_nat_alt Let_def split: option.splits)
    have ok: "\<not> egg_buffer_has_error (buffer r4)"
      using r4(2) by (auto simp: answering_def egg_buffer_has_error_def)
    show ?thesis
      using r1(1) r2(1) r3(1) r4 ok n(1,3) assms(3,4) ty st by (auto simp: Let_def)
  qed
qed

lemma read_attribute_items_answering:
  assumes "answering B sig (concat (map encode_attribute bs) @ xs) r"
    and "list_all2 attr_fits (drop i as) bs"
  shows "\<exists>r'. read_attribute_items (length bs) i type validity (Some as) r =
      Ret (Inr (), Some (take i as @ map2 attr_store (drop i as) bs), r') \<and> answering B sig xs r'"
  using assms
proof (induction bs arbitrary: i type validity as r)
  case Nil
  then show ?case by simp
next
  case (Cons b bs)
  then obtain a as' where d: "drop i as = a # as'" "attr_fits a b" "list_all2 attr_fits as' bs"
    by (auto simp: list_all2_Cons2)
  then have i: "i < length as" "as ! i = a" "drop (Suc i) as = as'"
    by (metis drop_eq_Nil linorder_not_less list.distinct(1), metis Cons_nth_drop_Suc drop_eq_Nil
        linorder_not_less list.distinct(1) list.inject, metis drop_Suc list.sel(3) tl_drop)
  have "answering B sig (encode_attribute b @ concat (map encode_attribute bs) @ xs) r" using Cons.prems(1) by simp
  then obtain r1 t vy where r1: "read_attribute_items (Suc (length bs)) i type validity (Some as) r =
      read_attribute_items (length bs) (Suc i) t vy (Some (as[i := attr_store a b])) r1"
    "answering B sig (concat (map encode_attribute bs) @ xs) r1"
    using read_attribute_answering [OF _ d(2) i(1,2)] by blast
  have "drop (Suc i) (as[i := attr_store a b]) = as'" using i by simp
  then show ?case
    using Cons.IH [OF r1(2), of "Suc i" "as[i := attr_store a b]"] r1(1) d i
    by (auto simp: take_Suc_conv_app_nth)
qed

text \<open>The attributes together with the return value that follows them.\<close>

interpretation attributes_result: result_field "''aAu''" "cl_proto_read_attribute_array validity n"
  "\<lambda>(bs, ret). encode_attribute_array_field (Some bs) n @ encode_uint64 ret"
  "\<lambda>mem (bs, ret). unat n = length bs \<and> unat n < 2 ^ 32 \<and>
     (case mem of None \<Rightarrow> False | Some as \<Rightarrow> list_all2 attr_fits as bs)"
  "\<lambda>mem (bs, ret). (ret, map_option (\<lambda>as. map2 attr_store as bs) mem)"
  for validity n
proof
  fix B sig xs r and v :: "CK_ATTRIBUTE list \<times> CK_RV" and mem :: attr_array
  assume a: "answering B (''aAu'' @ sig)
      ((case v of (bs, ret) \<Rightarrow> encode_attribute_array_field (Some bs) n @ encode_uint64 ret) @ xs) r"
    and fit: "case v of (bs, ret) \<Rightarrow> unat n = length bs \<and> unat n < 2 ^ 32 \<and>
      (case mem of None \<Rightarrow> False | Some as \<Rightarrow> list_all2 attr_fits as bs)"
  obtain bs ret where v: "v = (bs, ret)" by (cases v)
  obtain as where as: "mem = Some as" "list_all2 attr_fits as bs" and n: "unat n = length bs" "unat n < 2 ^ 32"
    using fit v by (auto split: option.splits)
  have n': "ucast (ucast n :: u32) = n" "unat (ucast n :: u32) = length bs" using n ucast_u32 [of n] by simp_all
  let ?r = "r\<lparr>sigverify := Some (''u'' @ sig)\<rparr>"
  have e: "expect_part r ''aA'' k = k ?r" for k :: "GckRpcMessage \<Rightarrow> (CK_RV \<times> attr_array \<times> GckRpcMessage) outcome"
    using expect_answering(1) [of B "''aA''" "''u'' @ sig"] a by simp
  have "answering B (''u'' @ sig) (egg_buffer_encode_uint32 (ucast n) @
      concat (map encode_attribute bs) @ encode_uint64 ret @ xs) ?r"
    using expect_answering(2) [of B "''aA''" "''u'' @ sig"] a v n
    by (simp add: encode_attribute_array_field_def)
  then obtain r1 where
    r1: "\<And>mem :: attr_array. \<And>k. get_or_error egg_buffer_get_uint32 mem ?r k = k (ucast n) r1"
      "answering B (''u'' @ sig) (concat (map encode_attribute bs) @ encode_uint64 ret @ xs) r1"
    by (rule uint32_codec.get_or_errorE) (rule TrueI, rule that)
  obtain r2 where r2: "read_attribute_items (length bs) 0 0 validity (Some as) r1 =
      Ret (Inr (), Some (map2 attr_store as bs), r2)" "answering B (''u'' @ sig) (encode_uint64 ret @ xs) r2"
    using read_attribute_items_answering [OF r1(2), of 0 as] as(2) by auto
  then obtain r3 where r3: "gck_rpc_message_read_ulong r2 = Ret (Some ret, r3)" "answering B sig xs r3"
    using ulong_field.read_answering by blast
  have "cl_proto_read_attribute_array validity n mem r = Ret (ret, Some (map2 attr_store as bs), r3)"
    using r1(1) r2 r3(1) n' as(1)
    by (auto simp: cl_proto_read_attribute_array_def e answering_def egg_buffer_has_error_def)
  then show "\<exists>r'. cl_proto_read_attribute_array validity n mem r =
      Ret (fst (case v of (bs, ret) \<Rightarrow> (ret, map_option (\<lambda>as. map2 attr_store as bs) mem)),
           snd (case v of (bs, ret) \<Rightarrow> (ret, map_option (\<lambda>as. map2 attr_store as bs) mem)), r') \<and> live_msg r' \<and> buffer r' = B \<and>
      (fst (case v of (bs, ret) \<Rightarrow> (ret, map_option (\<lambda>as. map2 attr_store as bs) mem)) = CKR_OK \<longrightarrow>
       answering B sig xs r')"
    using v as(1) r3(2) answering_live by auto
qed

end
