(* ===== verification/Client_Remote.thy ===== *)
theory Client_Remote
  imports Client_Results
begin

text \<open>
  Client and daemon together: the daemon's loop answers the frame that the client sends, and
  the client returns to the application what the module has returned to the daemon.
\<close>

section \<open>The daemon answers a frame\<close>

lemma call_reset_keeps: "call_reset s = Ret s' \<Longrightarrow> world s' = world s \<and> sessions s' = sessions s \<and> conn s' = conn s"
  by (auto simp: call_reset_def obind_eq_Ret conn_def)

lemma read_message_arrived:
  assumes s: "fresh c s" and fd: "sock s \<ge> 0" "io s = SocketIo" "\<not> use_tls s"
    and n: "unat n = length (request_bytes i args)" "n < 0x0FFFFFFF"
    and i: "0 < i" "i < GCK_RPC_CALL_MAX" "call_signature i GCK_RPC_REQUEST = Some sig"
    and inp: "incoming (input net) = request_bytes i args @ later"
    and mem: "\<And>q. req s = Ptr q \<Longrightarrow> roomy (buffer q)"
  shows "\<exists>q ev. read_message s net n = Ret (True, s\<lparr>req := Ptr q\<rparr>, net\<lparr>input := ev\<rparr>) \<and> incoming ev = later \<and>
    call_id q = i \<and> pending (s\<lparr>req := Ptr q\<rparr>) sig args \<and> roomy (buffer q)"
proof -
  let ?xs = "request_bytes i args"
  obtain q where q: "req s = Ptr q" "live_msg q" "contents (buffer q) = []" "failures (buffer q) = 0"
    using s by (auto simp: fresh_def idle_def)
  have b: "egg_wf (buffer q)" "len (buffer q) = 0"
    using q length_contents [of "buffer q"] by (auto simp: live_msg_def unat_eq_0)
  obtain okr b1 where res: "egg_buffer_reserve (buffer q) (ucast n) = (okr, b1)"
    by (cases "egg_buffer_reserve (buffer q) (ucast n)")
  have small: "unat n < 0x0FFFFFFF" using n(2) by (simp add: word_less_nat_alt)
  have rm: "roomy (buffer q)" using mem [OF q(1)] .
  have okr: okr by (rule egg_buffer_reserve_roomy [OF b(1) rm _ res]) (use small in simp)
  note res = res [unfolded eqTrueI [OF okr]]
  have room: "unat n \<le> length (cells (buf b1))" "egg_wf b1" and noerr: "\<not> egg_buffer_has_error b1"
    using egg_buffer_reserve_spec [OF b(1) _ res] small q(4) by (auto simp: egg_wf_def egg_buffer_has_error_def)
  let ?old = "take (unat n) (cells (buf b1))"
  have old: "mem_read (buf b1) 0 (unat n) = Ret ?old" "length ?old = length ?xs"
    using room(1) n(1) by (auto simp: mem_read_cells)
  have "?xs \<noteq> []" by (simp add: request_bytes_def length_encode_header_pos)
  then have "?old \<noteq> []" using old(2) by (metis length_0_conv)
  then obtain ev where rd: "read_all s net ?old = Ret (True, ?xs, net\<lparr>input := ev\<rparr>)" "incoming ev = later"
    using read_all_arrived [of ?old s net ?xs later] fd inp old(2) by auto
  obtain p where p: "mem_write (buf b1) 0 ?xs = Ret p"
    using room(1) n(1) mem_write_cells [of 0 ?xs "buf b1"] by auto
  define b2 where "b2 = snd (egg_buffer_add_empty (b1\<lparr>buf := p\<rparr>) (ucast n))"
  have store: "egg_wf b2 \<and> allocator b2 = allocator (buffer q) \<and>
      (failures b2 = 0 \<and> contents b2 = ?xs \<or> failures b2 > 0 \<and> contents b2 = []) \<and>
      (roomy (buffer q) \<and> unat (ucast n :: size_t) < 0x7fffffff \<longrightarrow> failures b2 = 0 \<and> roomy b2)"
    by (rule store_received [OF b q(4) _ res _ p b2_def]) (use small n(1) in auto)
  have b2: "egg_wf b2" "allocator b2 = allocator (buffer q)" "failures b2 = 0" "contents b2 = ?xs" "roomy b2"
    using store small rm by auto
  have eq: "read_message s net n =
      obind (gck_rpc_message_parse (q\<lparr>buffer := b2\<rparr>) GCK_RPC_REQUEST) (\<lambda>(ok, m).
      Ret (ok, s\<lparr>req := Ptr m\<rparr>, net\<lparr>input := ev\<rparr>))"
    using q(1) b(2) res noerr old(1) rd(1) p fd(2)
    by (simp add: read_message_def b2_def [symmetric] cs_read_def Let_def)
  have c2: "failures b2 = 0" "contents b2 = encode_header i (call_signature i GCK_RPC_REQUEST) @ args"
    using b2 by (auto simp: request_bytes_def)
  let ?h = "encode_header i (Some sig)"
  let ?q = "q\<lparr>buffer := b2, parsed := of_nat (length ?h), signature := Some sig, sigverify := Some sig,
    call_id := i, call_type := Some GCK_RPC_REQUEST\<rparr>"
  have "read_message s net n = Ret (True, s\<lparr>req := Ptr ?q\<rparr>, net\<lparr>input := ev\<rparr>)"
    using eq parse_encode_header [of "q\<lparr>buffer := b2\<rparr>" i GCK_RPC_REQUEST args] b2 c2 i by auto
  moreover have "unat (of_nat (length ?h) :: size_t) = length ?h"
    using length_contents [of b2] egg_wf_len_bound [of b2] b2 c2 i(3)
    by (auto simp: request_bytes_def intro!: unat_of_nat_small)
  then have "pending (s\<lparr>req := Ptr ?q\<rparr>) sig args"
    unfolding pending_def using b2 c2 i(3) by (auto simp: request_bytes_def)
  ultimately show ?thesis using rd(2) b2(5) by (intro exI [of _ ?q] exI [of _ ev]) simp
qed

lemma write_response_sent:
  assumes r: "resp s = Ptr r" "egg_wf (buffer r)" "contents (buffer r) \<noteq> []"
    and io: "io s = SocketIo" "sock s \<ge> 0" and out: "accepts (sends net) [4, length (contents (buffer r))]"
  shows "\<exists>b4 ev. write_response s net =
    Ret (True, b4, net\<lparr>sends := ev, sent := sent net @ frame (contents (buffer r))\<rparr>) \<and> length b4 = 4 \<and>
    (\<forall>ns. accepts (sends net) ([4, length (contents (buffer r))] @ ns) \<longrightarrow> accepts ev ns)"
proof -
  let ?xs = "contents (buffer r)"
  let ?b4 = "egg_buffer_encode_uint32 (of_nat (length ?xs))"
  have len: "len (buffer r) = of_nat (length ?xs)"
    using length_contents [OF r(2)] egg_wf_len_bound [OF r(2)]
    by (simp add: word_unat_eq_iff unat_of_nat_small)
  have rd: "mem_read (buf (buffer r)) 0 (unat (len (buffer r))) = Ret ?xs"
    using mem_read_contents [OF r(2), of 0] length_contents [OF r(2)] by simp
  have ne: "?b4 \<noteq> []" by (simp add: egg_buffer_encode_uint32_def)
  obtain ev1 where w1: "write_all s net ?b4 = Ret (True, net\<lparr>sends := ev1, sent := sent net @ ?b4\<rparr>)"
    "\<forall>ns. accepts (sends net) (4 # ns) \<longrightarrow> accepts ev1 ns"
    using write_all_accepted [OF ne io(2), of net "[length ?xs]"] out unfolding length_encode(2) by blast
  moreover from this(2) out have "accepts ev1 [length ?xs]" by blast
  then obtain ev2 where "write_all s (net\<lparr>sends := ev1, sent := sent net @ ?b4\<rparr>) ?xs =
      Ret (True, net\<lparr>sends := ev2, sent := sent net @ ?b4 @ ?xs\<rparr>)" "\<forall>ns. accepts ev1 (length ?xs # ns) \<longrightarrow> accepts ev2 ns"
    using write_all_accepted [OF r(3) io(2), of "net\<lparr>sends := ev1, sent := sent net @ ?b4\<rparr>" "[]"] by auto
  ultimately show ?thesis
    using rd r(1) io(1)
    by (intro exI [of _ ?b4] exI [of _ ev2]) (fastforce simp: write_response_def cs_write_def Let_def len frame_def)
qed

text \<open>Both messages of the dispatcher have memory to grow.\<close>

definition daemon_roomy :: "'w Dispatcher \<Rightarrow> bool" where
  "daemon_roomy s \<longleftrightarrow> response_roomy s \<and> (\<exists>q. req s = Ptr q \<and> roomy (buffer q))"

text \<open>So they are when the thread of the connection starts, when memory is available.\<close>

lemma call_init_roomy:
  assumes "egg_allocator (alloc_run (c_realloc E))" "ample (c_realloc E)"
  shows "\<exists>s'. call_init E s = Ret (True, s') \<and> daemon_roomy s'"
proof -
  obtain m where "gck_rpc_message_new (c_realloc E) (Some (c_realloc E)) = Ret (Some m)" "roomy (buffer m)"
    by (rule message_new_roomy [OF assms])
  then show ?thesis
    by (auto simp: call_init_def Let_def ptr_of_def daemon_roomy_def response_roomy_def)
qed

lemma call_reset_roomy:
  assumes "idle c s" "call_reset s = Ret s'" "daemon_roomy s"
  shows "daemon_roomy s'"
proof -
  obtain q r where s: "req s = Ptr q" "resp s = Ptr r" "live_msg q" "live_msg r"
    using assms(1) by (auto simp: idle_def)
  obtain q' r' where "gck_rpc_message_reset q = Ret q'" "gck_rpc_message_reset r = Ret r'"
    using wp_reset_live [OF s(3)] wp_reset_live [OF s(4)] by auto
  then show ?thesis
    using assms(2,3) s reset_roomy [OF s(3)] reset_roomy [OF s(4)]
    by (auto simp: call_reset_def reset_through_def daemon_roomy_def response_roomy_def)
qed

lemma reply_bytes_nonempty: "reply_bytes i out ret x \<noteq> []"
  by (auto simp: reply_bytes_def error_message_def encode_header_def egg_buffer_encode_uint32_def split: option.splits)

lemma daemon_round:
  assumes E: "env_ok E" and s: "serving c s b4" "io s = SocketIo" "daemon_roomy s"
    and i: "0 < i" "i < GCK_RPC_CALL_MAX" "call_signature i GCK_RPC_REQUEST = Some sig"
    and inp: "incoming (input net) = frame (request_bytes i args) @ later"
    and n: "length (request_bytes i args) < 0x0FFFFFFF"
    and F: "F (world s) = (rv, x, w)"
    and out: "length (reply_bytes i out rv x) < 0x7fffffff"
      "accepts (sends net) ([4, length (reply_bytes i out rv x)] @ ns)"
    and H: "\<And>s1 q. accepted c s1 \<Longrightarrow> req s1 = Ptr q \<Longrightarrow> call_id q = i \<Longrightarrow> pending s1 sig args \<Longrightarrow>
      world s1 = world s \<Longrightarrow> replied s1 i F out (dispatch_call E s1)"
  shows "\<exists>s' net' b4'. dispatch_round E s net b4 = Ret (True, s', net', b4') \<and>
    world s' = w \<and> sessions s' = sessions s \<and> sent net' = sent net @ frame (reply_bytes i out rv x) \<and>
    serving c s' b4' \<and> io s' = SocketIo \<and> daemon_roomy s' \<and> incoming (input net') = later \<and> accepts (sends net') ns"
proof -
  let ?n = "of_nat (length (request_bytes i args)) :: u32"
  have sv: "idle c s" "length b4 = 4" "sock s \<ge> 0" "\<not> use_tls s" using s by (auto simp: serving_def)
  obtain s1 where s1: "call_reset s = Ret s1" "fresh c s1"
    using wp_call_reset [OF sv(1)] by (auto simp: wp_iff)
  have k1: "world s1 = world s" "sessions s1 = sessions s" "conn s1 = conn s" using call_reset_keeps [OF s1(1)] by auto
  then have io1: "sock s1 \<ge> 0" "io s1 = SocketIo" "\<not> use_tls s1" using sv s(2) by (auto simp: conn_def)
  have rm1: "daemon_roomy s1" by (rule call_reset_roomy [OF sv(1) s1(1) s(3)])
  obtain ev where rd: "cs_read s1 net b4 = Ret (True, egg_buffer_encode_uint32 ?n, net\<lparr>input := ev\<rparr>)"
    "incoming ev = request_bytes i args @ later"
    using read_all_arrived [of b4 s1 net "egg_buffer_encode_uint32 ?n"] sv io1 inp
    by (cases "b4 = []") (auto simp: cs_read_def frame_def)
  have un: "unat ?n = length (request_bytes i args)" "?n < 0x0FFFFFFF"
    using n by (simp_all add: unat_of_nat word_less_nat_alt)
  obtain q ev2 where q: "read_message s1 (net\<lparr>input := ev\<rparr>) ?n = Ret (True, s1\<lparr>req := Ptr q\<rparr>, net\<lparr>input := ev2\<rparr>)"
    "incoming ev2 = later" "call_id q = i" "pending (s1\<lparr>req := Ptr q\<rparr>) sig args"
    and rmq: "roomy (buffer q)"
    using read_message_arrived [OF s1(2) io1 un i, of "net\<lparr>input := ev\<rparr>" later] rd(2) rm1
    by (auto simp: daemon_roomy_def)
  let ?s2 = "s1\<lparr>req := Ptr q\<rparr>" and ?net = "net\<lparr>input := ev2\<rparr>"
  have ne: "?n \<noteq> 0" using un(1) by (auto simp: request_bytes_def length_encode_header_pos)
  have acc: "accepted c ?s2"
    using wp_read_message [OF s1(2) io1(1) un(2), of "net\<lparr>input := ev\<rparr>"] ne q(1) by simp
  have "replied ?s2 i F out (dispatch_call E ?s2)" by (rule H [OF acc _ q(3,4)]) (use k1 in auto)
  then obtain s3 r where d: "dispatch_call E ?s2 = Ret (True, s3)"
    and w: "world s3 = w" "sessions s3 = sessions s" "resp s3 = Ptr r" "contents (buffer r) = reply_bytes i out rv x"
      "roomy (buffer r)" "req_buffer s3 = req_buffer ?s2"
    using F k1 rm1 out(1) by (auto simp: replied_def daemon_roomy_def response_roomy_def)
  have "idle c s3" using wp_dispatch_call [OF E acc] d by (auto simp: wp_iff)
  then have wf: "egg_wf (buffer r)" "conn s3 = c" using w(3) by (auto simp: idle_def live_msg_def)
  moreover have "conn s = c" using sv(1) by (simp add: idle_def)
  ultimately have io3: "io s3 = SocketIo" "sock s3 \<ge> 0" using s(2) sv(3) by (auto simp: conn_def)
  have out1: "accepts (sends net) [4, length (reply_bytes i out rv x)]"
    using out(2) by (auto split: option.splits)
  obtain b5 ev3 where wr: "write_response s3 ?net =
      Ret (True, b5, ?net\<lparr>sends := ev3, sent := sent ?net @ frame (contents (buffer r))\<rparr>)"
    "length b5 = 4" "accepts ev3 ns"
    using write_response_sent [OF w(3) wf(1) _ io3, of ?net] out(2) out1 w(4) reply_bytes_nonempty [of i out rv x]
    by auto
  have "daemon_roomy s3"
    using w(3,5,6) rmq \<open>idle c s3\<close> by (auto simp: daemon_roomy_def response_roomy_def idle_def)
  moreover have "serving c s3 b5" using serving_conn [OF s(1) \<open>idle c s3\<close> wr(2)] .
  ultimately show ?thesis
    using s1(1) rd(1) un(2) q(1,2) d w wr io3 by (simp add: dispatch_round_def decode_encode_uint32 Let_def)
qed

section \<open>The frame of a client function\<close>

text \<open>
  What the part of a function between \<open>BEGIN_CALL\<close> and \<open>END_CALL\<close> leaves behind; \<open>P\<close> is about the
  return value, the caller's memory and the connection.
\<close>

definition body_done :: "(CK_RV \<Rightarrow> 'o \<Rightarrow> ClientCall \<Rightarrow> bool) \<Rightarrow> CK_RV \<times> 'o \<times> ClientCall \<Rightarrow> bool" where
  "body_done P x \<longleftrightarrow>
     (case x of (ret, mem, cs) \<Rightarrow>
        open_call cs \<and> call_status cs \<noteq> CALL_INVALID \<and> P ret mem cs \<and>
        (ret = CKR_OK \<longrightarrow> (\<exists>r. cl_resp cs = Some r \<and> answering (buffer r) [] [] r)))"

text \<open>
  The function may give up for want of memory before anything was sent. When \<open>A\<close> holds, memory is
  available, and a request that is shorter than 2 GB is written.
\<close>

definition may_give_up :: "bool \<Rightarrow> (CK_RV \<Rightarrow> 'o \<Rightarrow> ClientCall \<Rightarrow> bool) \<Rightarrow> 'o \<Rightarrow> bool" where
  "may_give_up A P mem \<longleftrightarrow> (\<not> A \<longrightarrow> (\<forall>cs. P CKR_HOST_MEMORY mem cs))"

definition asking_in :: "bool \<Rightarrow> Client_Env \<Rightarrow> int \<Rightarrow> string \<Rightarrow> block \<Rightarrow> ClientCall \<Rightarrow> bool" where
  "asking_in A E i sig xs cs \<longleftrightarrow> asking i sig xs cs \<and> (A \<longrightarrow> call_roomy E cs)"

abbreviation (input) short_request :: "int \<Rightarrow> block \<Rightarrow> bool" where
  "short_request i xs \<equiv> length (request_bytes i xs) < 0x7fffffff"

text \<open>The client after the call: the connection is kept, unless the call reported it as broken.\<close>

definition returned :: "Client \<Rightarrow> ClientCall \<Rightarrow> CK_RV \<Rightarrow> Client" where
  "returned C cs ret =
     (if ret \<in> {CKR_DEVICE_ERROR, CKR_DEVICE_REMOVED}
      then C\<lparr>call_state_pool := tl (call_state_pool C), n_call_state_pool := n_call_state_pool C - 1\<rparr>
      else C\<lparr>call_state_pool := cs\<lparr>call_status := CALL_READY\<rparr> # tl (call_state_pool C)\<rparr>)"

lemma call_destroy_open: "open_call cs \<Longrightarrow> call_destroy cs = Ret ()"
  by (auto simp: call_destroy_def call_disconnect_def open_call_def messages_live_def gck_rpc_message_free_def
      live_msg_def Let_def split: option.splits)

lemma call_done_open:
  assumes "open_call cs" "call_status cs \<noteq> CALL_INVALID" "n_call_state_pool C < 8"
    and "ret = CKR_OK \<longrightarrow> (\<exists>r. cl_resp cs = Some r \<and> answering (buffer r) [] [] r)"
  shows "call_done C cs ret = Ret (ret,
    if ret \<in> {CKR_DEVICE_ERROR, CKR_DEVICE_REMOVED} then C
    else C\<lparr>call_state_pool := cs\<lparr>call_status := CALL_READY\<rparr> # call_state_pool C,
           n_call_state_pool := Suc (n_call_state_pool C)\<rparr>)"
proof -
  have "\<not> gck_rpc_message_buffer_error r \<and> gck_rpc_message_is_verified r" if "answering (buffer r) [] [] r" for r
    using that by (simp add: answering_def gck_rpc_message_buffer_error_def egg_buffer_has_error_def
        gck_rpc_message_is_verified_def)
  then have "(case (call_status cs, cl_req cs, cl_resp cs) of
      (CALL_PARSE, Some _, Some r) \<Rightarrow>
        if ret = CKR_OK then
          if gck_rpc_message_buffer_error r then Ret CKR_GENERAL_ERROR
          else assert_c (gck_rpc_message_is_verified r) (Ret ret)
        else Ret ret
    | _ \<Rightarrow> Ret ret) = Ret ret"
    using assms(4) by (auto split: CallStatus.splits option.splits)
  then show ?thesis
    using assms call_destroy_open [OF assms(1)] by (auto simp: call_done_def open_call_def)
qed

lemma wp_CL_BEGIN_CALL:
  assumes E: "egg_allocator (alloc_run (ce_realloc E))"
    and C: "pkcs11_initialized C" "call_state_pool C = cs # rest" "n_call_state_pool C = Suc (length rest)"
      "length rest < 8" "pooled cs"
    and i: "0 < i" "i < GCK_RPC_CALL_MAX" "call_signature i GCK_RPC_REQUEST = Some sig"
    and A: "A \<longrightarrow> call_roomy E cs"
    and body: "\<And>cs1. asking_in A E i sig [] cs1 \<Longrightarrow> cl_net cs1 = cl_net cs \<Longrightarrow> wp (body cs1) (body_done P)"
    and mem: "may_give_up A P mem"
  shows "wp (CL_BEGIN_CALL E i mem C body) (\<lambda>(ret, mem', C').
    \<exists>cs'. C' = returned C cs' ret \<and> open_call cs' \<and> P ret mem' cs')"
proof -
  let ?C = "C\<lparr>call_state_pool := rest, n_call_state_pool := length rest\<rparr>"
  have look: "call_lookup E C = Ret (Inr cs, ?C)"
    using C by (simp add: call_lookup_def pooled_def open_call_def)
  obtain ret1 cs1 where p: "call_prepare E cs i = Ret (ret1, cs1)"
    and cs1: "cl_net cs1 = cl_net cs \<and> (call_roomy E cs \<longrightarrow> call_roomy E cs1) \<and>
      (ret1 = CKR_OK \<and> asking i sig [] cs1 \<or> ret1 = CKR_HOST_MEMORY \<and> pooled cs1 \<and> \<not> call_roomy E cs)"
    by (rule wp_pairE [OF wp_call_prepare [OF C(5) i(1,2) E i(3)]])
  have "wp (if ret1 \<noteq> CKR_OK then Ret (ret1, mem, cs1) else body cs1) (body_done P)"
  proof (cases "ret1 = CKR_OK")
    case True
    then show ?thesis using cs1 A body [of cs1] by (auto simp: asking_in_def)
  next
    case False
    then show ?thesis using cs1 A mem by (auto simp: body_done_def pooled_def may_give_up_def)
  qed
  then obtain ret2 mem2 cs2 where b: "(if ret1 \<noteq> CKR_OK then Ret (ret1, mem, cs1) else body cs1) = Ret (ret2, mem2, cs2)"
    and d: "open_call cs2" "call_status cs2 \<noteq> CALL_INVALID" "P ret2 mem2 cs2"
      "ret2 = CKR_OK \<longrightarrow> (\<exists>r. cl_resp cs2 = Some r \<and> answering (buffer r) [] [] r)"
    by (auto simp: wp_iff body_done_def)
  have "call_done ?C cs2 ret2 = Ret (ret2, returned C cs2 ret2)"
    using call_done_open [OF d(1,2) _ d(4), of ?C] C by (auto simp: returned_def)
  then show ?thesis
    using C(1) look p b d(1,3) by (auto simp: CL_BEGIN_CALL_def return_val_if_fail_def)
qed

section \<open>The parts of a body\<close>

lemma wp_CL_IN:
  assumes a: "asking_in A E i (part @ sig) xs cs" and w: "writes_arg part ys wr" and m: "may_give_up A P mem"
    and l: "A \<longrightarrow> short_request i (xs @ ys)"
    and k: "\<And>cs1. asking_in A E i sig (xs @ ys) cs1 \<Longrightarrow> cl_net cs1 = cl_net cs \<Longrightarrow> wp (k cs1) (body_done P)"
  shows "wp (CL_IN wr mem cs k) (body_done P)"
proof -
  have "asking i (part @ sig) xs cs" using a by (simp add: asking_in_def)
  then obtain ok cs1 where o: "on_cl_req cs wr = Ret (ok, cs1)"
    "cl_net cs1 = cl_net cs \<and> open_call cs1 \<and> call_status cs1 = CALL_PREP \<and> (ok \<longrightarrow> asking i sig (xs @ ys) cs1) \<and>
      (call_roomy E cs \<longrightarrow> call_roomy E cs1 \<and> (short_request i (xs @ ys) \<longrightarrow> ok))"
    using wp_pairE [OF writes_arg_field [OF _ w]] by metis
  then show ?thesis
    using a m l k [of cs1] by (cases ok) (auto simp: CL_IN_def body_done_def may_give_up_def asking_in_def)
qed

lemma writes_ulong_arg: "writes_arg ''u'' (encode_uint64 v) (\<lambda>m. gck_rpc_message_write_ulong m v)"
  using ulong_field.write_field by (fastforce simp: writes_arg_def)

lemma writes_bytes_arg:
  assumes "\<And>xs. arr = Some xs \<Longrightarrow> unat n \<le> length xs"
  shows "writes_arg ''ay'' (encode_byte_array_field arr n) (\<lambda>m. gck_rpc_message_write_byte_array m arr n)"
  unfolding writes_arg_def using wp_write_byte_array [of _ _ arr n] assms by blast

lemma writes_buffer_arg:
  "writes_arg ''fy'' (encode_byte_buffer_field arr n) (\<lambda>m. gck_rpc_message_write_byte_buffer m arr n)"
  unfolding writes_arg_def using wp_write_byte_buffer by blast

lemma wp_IN_ULONG:
  assumes "asking_in A E i (CHR ''u'' # sig) xs cs" "may_give_up A P mem" "A \<longrightarrow> short_request i (xs @ encode_uint64 v)"
    and "\<And>cs1. asking_in A E i sig (xs @ encode_uint64 v) cs1 \<Longrightarrow> cl_net cs1 = cl_net cs \<Longrightarrow> wp (k cs1) (body_done P)"
  shows "wp (CL_IN_ULONG v mem cs k) (body_done P)"
  unfolding CL_IN_ULONG_def by (rule wp_CL_IN [where part = "''u''"]) (use assms writes_ulong_arg in auto)

lemma wp_IN_BYTE_ARRAY:
  assumes "asking_in A E i (CHR ''a'' # CHR ''y'' # sig) xs cs" "may_give_up A P mem" "A \<longrightarrow> short_request i (xs @ encode_byte_array_arg (arr, n))"
    and "byte_array_arg_valid (arr, n)" "arr = None \<longrightarrow> n = 0"
    and "\<And>cs1. asking_in A E i sig (xs @ encode_byte_array_arg (arr, n)) cs1 \<Longrightarrow> cl_net cs1 = cl_net cs \<Longrightarrow> wp (k cs1) (body_done P)"
  shows "wp (CL_IN_BYTE_ARRAY arr n mem cs k) (body_done P)"
proof -
  have w: "writes_arg ''ay'' (encode_byte_array_arg (arr, n)) (\<lambda>m. gck_rpc_message_write_byte_array m arr n)"
    using assms(4) writes_bytes_arg [of arr n] by (cases arr) (auto simp: encode_byte_array_arg_def byte_array_arg_valid_def)
  have "wp (CL_IN (\<lambda>m. gck_rpc_message_write_byte_array m arr n) mem cs k) (body_done P)"
    by (rule wp_CL_IN [OF _ w assms(2)]) (use assms in auto)
  then show ?thesis using assms(5) by (auto simp: CL_IN_BYTE_ARRAY_def)
qed

lemma wp_IN_BYTE_BUFFER:
  assumes "asking_in A E i (CHR ''f'' # CHR ''y'' # sig) xs cs" "may_give_up A P mem" "A \<longrightarrow> short_request i (xs @ encode_byte_buffer_arg (arr, n))"
    and "\<And>cs1. asking_in A E i sig (xs @ encode_byte_buffer_arg (arr, n)) cs1 \<Longrightarrow> cl_net cs1 = cl_net cs \<Longrightarrow> wp (k cs1) (body_done P)"
  shows "wp (CL_IN_BYTE_BUFFER arr n mem cs k) (body_done P)"
  unfolding CL_IN_BYTE_BUFFER_def
  by (rule wp_CL_IN [OF _ writes_buffer_arg assms(2)]) (use assms in \<open>auto simp: encode_byte_buffer_arg_def\<close>)

text \<open>
  A mechanism that has no parameters goes out without any, whatever the caller has passed.
\<close>

definition sent_mechanism :: "CK_MECHANISM \<Rightarrow> CK_MECHANISM" where
  "sent_mechanism mech =
     (if gck_rpc_mechanism_has_no_parameters (mechanism mech)
      then mech\<lparr>pParameter := None, ulParameterLen := 0\<rparr> else mech)"

lemma wp_write_mechanism:
  assumes s: "sig_next m ''M'' = Some m1" and wf: "egg_wf (buffer m)"
    and v: "mechanism_valid mech" "gck_rpc_mechanism_is_supported (mechanism mech)"
  shows "wp (proto_write_mechanism m mech) (\<lambda>(ret, m').
    field_written m ''M'' (encode_mechanism (sent_mechanism mech)) True (ret = CKR_OK, m') \<and>
    ret \<in> {CKR_OK, CKR_HOST_MEMORY})"
proof -
  have t: "egg_try (buffer m) [] True (buffer m1)" using egg_try_refl [OF wf] sig_next_frame(1) [OF s] by simp
  have fin: "wp (Ret (if egg_buffer_has_error b then CKR_HOST_MEMORY else CKR_OK, m1\<lparr>buffer := b\<rparr>)) (\<lambda>(ret, m').
      field_written m ''M'' ys True (ret = CKR_OK, m') \<and> ret \<in> {CKR_OK, CKR_HOST_MEMORY})"
    if "egg_try (buffer m) ys P b" for ys P b
    using egg_out_try [OF that] s by (auto simp: field_written_def)
  have par: "pParameter mech = Some ys \<Longrightarrow> unat (ulParameterLen mech) \<le> length ys" for ys
    using v(1) by (simp add: mechanism_valid_def)
  show ?thesis
  proof (cases "gck_rpc_mechanism_has_no_parameters (mechanism mech)")
    case True
    show ?thesis
      unfolding proto_write_mechanism_def expect_part_eq s option.case Let_def
      apply (rule try_add_uint32 [OF t])
      apply (simp only: True if_True)
      apply (erule try_add_byte_array)
       apply simp
      apply (drule fin)
      apply (simp add: encode_mechanism_def sent_mechanism_def True)
      done
  next
    case False
    then have sane: "gck_rpc_mechanism_has_sane_parameters (mechanism mech)"
      using v(2) by (simp add: gck_rpc_mechanism_is_supported_def)
    show ?thesis
      unfolding proto_write_mechanism_def expect_part_eq s option.case Let_def
      apply (rule try_add_uint32 [OF t])
      apply (simp only: False sane if_True if_False)
      apply (erule try_add_byte_array)
       apply (rule par, assumption)
      apply (drule fin)
      apply (simp add: encode_mechanism_def sent_mechanism_def False)
      done
  qed
qed

lemma wp_IN_MECHANISM:
  assumes a: "asking_in A E i (CHR ''M'' # sig) xs cs" and m: "may_give_up A P mem"
    and l: "A \<longrightarrow> short_request i (xs @ encode_mechanism (sent_mechanism mech))"
    and v: "mechanism_valid mech" "gck_rpc_mechanism_is_supported (mechanism mech)"
    and k: "\<And>cs1. asking_in A E i sig (xs @ encode_mechanism (sent_mechanism mech)) cs1 \<Longrightarrow> cl_net cs1 = cl_net cs \<Longrightarrow>
      wp (k cs1) (body_done P)"
  shows "wp (CL_IN_MECHANISM (Some mech) mem cs k) (body_done P)"
proof -
  let ?wr = "\<lambda>m. obind (proto_write_mechanism m mech) (\<lambda>(ret, m). Ret (ret = CKR_OK, m))"
  have w: "writes_arg ''M'' (encode_mechanism (sent_mechanism mech)) ?wr"
    unfolding writes_arg_def
  proof (intro allI impI)
    fix m m1 assume "sig_next m ''M'' = Some m1" "egg_wf (buffer m)"
    from wp_write_mechanism [OF this v]
    show "\<exists>P. wp (?wr m) (field_written m ''M'' (encode_mechanism (sent_mechanism mech)) P)"
      by (intro exI [of _ True]) (auto elim!: wp_mono)
  qed
  have "wp (CL_IN ?wr mem cs k) (body_done P)"
    by (rule wp_CL_IN [OF _ w m l]) (use a k in auto)
  moreover have "CL_IN_MECHANISM (Some mech) mem cs k = CL_IN ?wr mem cs k"
  proof -
    obtain q where q: "cl_req cs = Some q" "live_msg q" "sig_next q ''M'' = Some (q\<lparr>sigverify := Some sig\<rparr>)"
      using a by (auto simp: asking_in_def asking_def open_call_def messages_live_def)
    obtain ret m' where r: "proto_write_mechanism q mech = Ret (ret, m')" "ret \<in> {CKR_OK, CKR_HOST_MEMORY}"
      using wp_write_mechanism [OF q(3) _ v] q(2) by (auto simp: wp_iff live_msg_def)
    then show ?thesis
      using q(1) by (auto simp: CL_IN_MECHANISM_def CL_IN_def on_cl_req_def)
  qed
  ultimately show ?thesis by simp
qed

text \<open>
  The result of a call: memory ran out on the client, which it does not when \<open>A\<close> holds, or the
  exchange has ended with \<open>res\<close>.
\<close>

definition exchanged_in :: "bool \<Rightarrow> Client_Env \<Rightarrow> ClientCall \<Rightarrow> block \<Rightarrow> block \<Rightarrow> ClientCall \<Rightarrow> bool" where
  "exchanged_in A E cs xs left cs' \<longleftrightarrow> exchanged cs xs left cs' \<and> (A \<longrightarrow> call_roomy E cs')"

definition call_result ::
  "bool \<Rightarrow> Client_Env \<Rightarrow> ClientCall \<Rightarrow> block \<Rightarrow> block \<Rightarrow> 'o \<Rightarrow> CK_RV \<times> 'o \<Rightarrow> CK_RV \<Rightarrow> 'o \<Rightarrow> ClientCall \<Rightarrow> bool" where
  "call_result A E cs xs left mem res ret mem' cs' \<longleftrightarrow>
     \<not> A \<and> ret \<in> memory_errors \<and> mem' = mem \<or> exchanged_in A E cs xs left cs' \<and> (ret, mem') = res"

lemma call_result_memory: "may_give_up A (call_result A E cs xs left mem res) mem"
  by (simp add: may_give_up_def call_result_def)

lemma wire_rv_error: "wire_rv e \<noteq> CKR_OK"
  by (simp add: wire_rv_def Let_def)

lemma exchanged_net: "cl_net cs1 = cl_net cs \<Longrightarrow> exchanged cs1 xs left cs' = exchanged cs xs left cs'"
  by (simp add: exchanged_def)

lemma wp_CL_PROCESS_error:
  assumes E: "egg_allocator (alloc_run (ce_realloc E))" and a: "asking_in A E i [] args cs1" "0 < i"
    and net: "cl_net cs1 = cl_net cs" "accepts (sends (cl_net cs)) [4, length (request_bytes i args)]"
      "incoming (input (cl_net cs)) = frame (error_message e) @ left"
  shows "wp (CL_PROCESS_CALL E mem cs1 k)
    (body_done (call_result A E cs (request_bytes i args) left mem (wire_rv e, mem)))"
  unfolding CL_PROCESS_CALL_def wp_obind
  using net a(1) by (intro wp_mono [OF wp_call_run_error [OF E _ a(2), of args cs1 e left]])
    (auto simp: body_done_def call_result_def parsing_def wire_rv_error exchanged_net [OF net(1)] asking_in_def exchanged_in_def)

lemma wp_CL_PROCESS_results:
  assumes E: "egg_allocator (alloc_run (ce_realloc E))" and a: "asking_in A E i [] args cs1" "0 < i" "i < GCK_RPC_CALL_MAX"
    and s: "call_signature i GCK_RPC_RESPONSE = Some sig"
    and net: "cl_net cs1 = cl_net cs" "accepts (sends (cl_net cs)) [4, length (request_bytes i args)]"
      "incoming (input (cl_net cs)) = frame (response_bytes i xs) @ left" "length (response_bytes i xs) < 2 ^ 32"
    and l: "A \<longrightarrow> length (response_bytes i xs) < 0x7fffffff"
    and k: "\<And>cs2 r. parsing cs2 \<Longrightarrow> exchanged_in A E cs (request_bytes i args) left cs2 \<Longrightarrow> cl_resp cs2 = Some r \<Longrightarrow>
      answering (buffer r) sig xs r \<Longrightarrow> wp (k cs2) (body_done (call_result A E cs (request_bytes i args) left mem res))"
  shows "wp (CL_PROCESS_CALL E mem cs1 k) (body_done (call_result A E cs (request_bytes i args) left mem res))"
  unfolding CL_PROCESS_CALL_def wp_obind
  using net k l a(1) by (intro wp_mono [OF wp_call_run_results [OF E _ a(2,3) s, of args cs1 xs left]])
    (auto simp: body_done_def call_result_def parsing_def exchanged_net [OF net(1)] asking_in_def exchanged_in_def)

lemma wp_CL_END_CALL:
  assumes "parsing cs2" "exchanged_in A E cs xs left cs2"
    and "ret = CKR_OK \<Longrightarrow> \<exists>r. cl_resp cs2 = Some r \<and> answering (buffer r) [] [] r"
  shows "wp (CL_END_CALL ret mem' cs2) (body_done (call_result A E cs xs left mem (ret, mem')))"
  using assms by (simp add: CL_END_CALL_def body_done_def call_result_def parsing_def)

lemma parsing_resp:
  "parsing cs \<Longrightarrow> live_msg r \<Longrightarrow> parsing (cs\<lparr>cl_resp := Some r\<rparr>)"
  "exchanged_in A E cs0 xs left cs \<Longrightarrow> cl_resp cs = Some r0 \<Longrightarrow> buffer r = buffer r0 \<Longrightarrow>
   exchanged_in A E cs0 xs left (cs\<lparr>cl_resp := Some r\<rparr>)"
  by (simp_all add: parsing_def open_call_def messages_live_def exchanged_def exchanged_in_def call_roomy_def)

context result_field
begin

text \<open>A reply with one result, which is stored in the memory that the function returns.\<close>

lemma wp_OUT_END:
  assumes "parsing cs2" "exchanged_in A E cs xs left cs2" "cl_resp cs2 = Some r" "answering (buffer r) part (enc v) r" "fits m v"
    and "res = (fst (store m v), f (snd (store m v)))"
  shows "wp (CL_OUT rd m CKR_OK cs2 (\<lambda>ret m cs. CL_END_CALL ret (f m) cs))
    (body_done (call_result A E cs xs left mem res))"
proof -
  obtain r' where r': "CL_OUT rd m CKR_OK cs2 (\<lambda>ret m cs. CL_END_CALL ret (f m) cs) =
      CL_END_CALL (fst (store m v)) (f (snd (store m v))) (cs2\<lparr>cl_resp := Some r'\<rparr>)" "live_msg r'"
    "buffer r' = buffer r" "fst (store m v) = CKR_OK \<longrightarrow> answering (buffer r) [] [] r'"
    using CL_OUT_result [of cs2 r "buffer r" "[]" v "[]" m] assms(3,4,5) by auto
  show ?thesis
    unfolding r'(1) assms(6)
    using parsing_resp(1) [of cs2 r'] parsing_resp(2) [OF assms(2,3) r'(3)] assms(1) r'(2,3,4)
    by (intro wp_CL_END_CALL) auto
qed

end

end
