(* ===== verification/Remote_Calls.thy ===== *)
theory Remote_Calls
  imports Client_Remote
begin

text \<open>
  The calls that pass through both programs, on the side of the client: from the reply of the daemon,
  the result the application sees, in terms of what the module has returned.
\<close>

section \<open>A client with an idle connection\<close>

definition client_ready :: "Client \<Rightarrow> ClientCall \<Rightarrow> bool" where
  "client_ready C cs \<longleftrightarrow>
     pkcs11_initialized C \<and> n_call_state_pool C = length (call_state_pool C) \<and> n_call_state_pool C \<le> 8 \<and>
     pooled cs \<and> (\<exists>rest. call_state_pool C = cs # rest)"

text \<open>
  The function returns \<open>res\<close>, after it has sent \<open>xs\<close> and read up to \<open>left\<close>; or memory ran out on the
  client, which does not happen when \<open>A\<close> holds.
\<close>

definition remote_result ::
  "bool \<Rightarrow> Client_Env \<Rightarrow> Client \<Rightarrow> ClientCall \<Rightarrow> block \<Rightarrow> block \<Rightarrow> 'o \<Rightarrow> CK_RV \<times> 'o \<Rightarrow>
   (CK_RV \<times> 'o \<times> Client) outcome \<Rightarrow> bool" where
  "remote_result A E C cs xs left mem res o_res \<longleftrightarrow>
     (\<exists>ret mem' cs'. o_res = Ret (ret, mem', returned C cs' ret) \<and> open_call cs' \<and>
        (\<not> A \<and> ret \<in> memory_errors \<and> mem' = mem \<or> exchanged_in A E cs xs left cs' \<and> (ret, mem') = res))"

text \<open>Memory for both messages of a call.\<close>

abbreviation (input) memory_for :: "Client_Env \<Rightarrow> ClientCall \<Rightarrow> block \<Rightarrow> block \<Rightarrow> bool" where
  "memory_for E cs q rep \<equiv> call_roomy E cs \<and> length q < 0x7fffffff \<and> length rep < 0x7fffffff"

lemma remote_resultI:
  assumes "client_ready C cs" "egg_allocator (alloc_run (ce_realloc E))"
    and "0 < i" "i < GCK_RPC_CALL_MAX" "call_signature i GCK_RPC_REQUEST = Some sig"
    and "A \<longrightarrow> call_roomy E cs"
    and "\<And>cs1. asking_in A E i sig [] cs1 \<Longrightarrow> cl_net cs1 = cl_net cs \<Longrightarrow>
      wp (body cs1) (body_done (call_result A E cs xs left mem res))"
  shows "remote_result A E C cs xs left mem res (CL_BEGIN_CALL E i mem C body)"
proof -
  obtain rest where "pkcs11_initialized C" "call_state_pool C = cs # rest"
    "n_call_state_pool C = Suc (length rest)" "length rest < 8" "pooled cs"
    using assms(1) by (auto simp: client_ready_def)
  then have "wp (CL_BEGIN_CALL E i mem C body) (\<lambda>(ret, mem', C').
      \<exists>cs'. C' = returned C cs' ret \<and> open_call cs' \<and> call_result A E cs xs left mem res ret mem' cs')"
    by (intro wp_CL_BEGIN_CALL [OF assms(2) _ _ _ _ _ assms(3-6)] assms(7) call_result_memory)
  then show ?thesis by (auto simp: wp_iff remote_result_def call_result_def)
qed

section \<open>Writing the arguments\<close>

text \<open>\<open>ins\<close> is a sequence of \<open>IN_\<close> macros that adds the fields \<open>part\<close>, encoded as \<open>ys\<close>.\<close>

definition writes_in ::
  "int \<Rightarrow> string \<Rightarrow> block \<Rightarrow> 'o \<Rightarrow>
   (ClientCall \<Rightarrow> (ClientCall \<Rightarrow> (CK_RV \<times> 'o \<times> ClientCall) outcome) \<Rightarrow> (CK_RV \<times> 'o \<times> ClientCall) outcome) \<Rightarrow> bool" where
  "writes_in i part ys mem ins \<longleftrightarrow>
     (\<forall>A E sig xs cs k P. asking_in A E i (part @ sig) xs cs \<longrightarrow> may_give_up A P mem \<longrightarrow>
        (A \<longrightarrow> short_request i (xs @ ys)) \<longrightarrow>
        (\<forall>cs1. asking_in A E i sig (xs @ ys) cs1 \<longrightarrow> cl_net cs1 = cl_net cs \<longrightarrow> wp (k cs1) (body_done P)) \<longrightarrow>
        wp (ins cs k) (body_done P))"

lemma writes_inD:
  assumes "writes_in i part ys mem ins" "asking_in A E i (part @ sig) xs cs" "may_give_up A P mem"
    and "A \<longrightarrow> short_request i (xs @ ys)"
    and "\<And>cs1. asking_in A E i sig (xs @ ys) cs1 \<Longrightarrow> cl_net cs1 = cl_net cs \<Longrightarrow> wp (k cs1) (body_done P)"
  shows "wp (ins cs k) (body_done P)"
  using assms unfolding writes_in_def by blast

lemma writes_in_then:
  assumes 1: "writes_in i p1 y1 mem in1" and 2: "writes_in i p2 y2 mem in2"
  shows "writes_in i (p1 @ p2) (y1 @ y2) mem (\<lambda>cs k. in1 cs (\<lambda>cs. in2 cs k))"
  unfolding writes_in_def
proof (intro allI impI)
  fix A E sig xs cs k P
  assume a: "asking_in A E i ((p1 @ p2) @ sig) xs cs" and m: "may_give_up A P mem"
    and l: "A \<longrightarrow> short_request i (xs @ y1 @ y2)"
    and k: "\<forall>cs1. asking_in A E i sig (xs @ y1 @ y2) cs1 \<longrightarrow> cl_net cs1 = cl_net cs \<longrightarrow> wp (k cs1) (body_done P)"
  have l1: "A \<longrightarrow> short_request i (xs @ y1)" and l2: "A \<longrightarrow> short_request i ((xs @ y1) @ y2)"
    using l by (auto simp: request_bytes_def)
  show "wp (in1 cs (\<lambda>cs. in2 cs k)) (body_done P)"
    by (rule writes_inD [OF 1 _ m l1, of E "p2 @ sig"], use a in simp, rule writes_inD [OF 2 _ m l2], assumption)
      (use k in simp)
qed

lemma writes_in_ulong: "writes_in i ''u'' (encode_uint64 v) mem (CL_IN_ULONG v mem)"
  unfolding writes_in_def by (intro allI impI, rule wp_IN_ULONG) auto

lemma writes_in_byte_array:
  assumes "byte_array_arg_valid (arr, n)" "arr = None \<longrightarrow> n = 0"
  shows "writes_in i ''ay'' (encode_byte_array_arg (arr, n)) mem (CL_IN_BYTE_ARRAY arr n mem)"
  unfolding writes_in_def using assms by (intro allI impI, intro wp_IN_BYTE_ARRAY) auto

lemma writes_in_byte_buffer: "writes_in i ''fy'' (encode_byte_buffer_arg (arr, n)) mem (CL_IN_BYTE_BUFFER arr n mem)"
  unfolding writes_in_def by (intro allI impI, rule wp_IN_BYTE_BUFFER) auto

lemma writes_in_mechanism:
  assumes "mechanism_valid mech" "gck_rpc_mechanism_is_supported (mechanism mech)"
  shows "writes_in i ''M'' (encode_mechanism (sent_mechanism mech)) mem (CL_IN_MECHANISM (Some mech) mem)"
  unfolding writes_in_def using assms by (intro allI impI, intro wp_IN_MECHANISM) auto

lemmas writes_in_rules = writes_in_then writes_in_ulong writes_in_byte_array writes_in_byte_buffer writes_in_mechanism

section \<open>A whole function\<close>

text \<open>
  The shape of a function: \<open>ins\<close> writes the arguments, \<open>outs\<close> reads the results. The daemon replies
  with the encoding of the results, or with the error of the module.
\<close>

lemma remote_call:
  assumes A_def: "A = memory_for E cs q rep" and C: "client_ready C cs" and E: "egg_allocator (alloc_run (ce_realloc E))"
    and i: "0 < i" "i < GCK_RPC_CALL_MAX" "call_signature i GCK_RPC_REQUEST = Some qsig"
      "call_signature i GCK_RPC_RESPONSE = Some rsig"
    and ins: "writes_in i qsig args mem ins"
    and q: "q = request_bytes i args" "accepts (sends (cl_net cs)) [4, length q]"
    and rep: "rep = reply_bytes i out rv x" and inp: "incoming (input (cl_net cs)) = frame rep @ left"
    and err: "out rv x = None \<Longrightarrow> rv \<noteq> CKR_OK \<Longrightarrow> res = (wire_rv rv, mem)"
    and len: "\<And>xs. out rv x = Some xs \<or> out rv x = None \<and> rv = CKR_OK \<and> xs = [] \<Longrightarrow>
      length (response_bytes i xs) < 2 ^ 32"
    and outs: "\<And>xs cs2 r. out rv x = Some xs \<or> out rv x = None \<and> rv = CKR_OK \<and> xs = [] \<Longrightarrow>
      parsing cs2 \<Longrightarrow> exchanged_in A E cs q left cs2 \<Longrightarrow> cl_resp cs2 = Some r \<Longrightarrow> answering (buffer r) rsig xs r \<Longrightarrow>
      wp (outs cs2) (body_done (call_result A E cs q left mem res))"
  shows "remote_result A E C cs q left mem res
    (CL_BEGIN_CALL E i mem C (\<lambda>cs. ins cs (\<lambda>cs. CL_PROCESS_CALL E mem cs outs)))"
proof (rule remote_resultI [OF C E i(1-3)])
  show "A \<longrightarrow> call_roomy E cs" by (simp add: A_def)
  fix cs1 assume a: "asking_in A E i qsig [] cs1" "cl_net cs1 = cl_net cs"
  show "wp (ins cs1 (\<lambda>cs. CL_PROCESS_CALL E mem cs outs)) (body_done (call_result A E cs q left mem res))"
  proof (rule writes_inD [OF ins _ call_result_memory])
    show "asking_in A E i (qsig @ []) [] cs1" using a(1) by simp
    show "A \<longrightarrow> short_request i ([] @ args)" using q(1) by (simp add: A_def)
    fix cs2 assume cs2': "asking_in A E i [] ([] @ args) cs2" "cl_net cs2 = cl_net cs1"
    then have cs2: "asking_in A E i [] args cs2" "cl_net cs2 = cl_net cs" using a(2) by simp_all
    show "wp (CL_PROCESS_CALL E mem cs2 outs) (body_done (call_result A E cs q left mem res))"
    proof (cases "out rv x = None \<and> rv \<noteq> CKR_OK")
      case True
      then have r: "rep = error_message rv" "res = (wire_rv rv, mem)" using err rep by (auto simp: reply_bytes_def)
      show ?thesis
        unfolding q(1) r(2)
        by (rule wp_CL_PROCESS_error [OF E cs2(1) i(1)]) (use q inp r(1) cs2(2) in simp_all)
    next
      case False
      then obtain xs where xs: "out rv x = Some xs \<or> out rv x = None \<and> rv = CKR_OK \<and> xs = []"
        and r: "rep = response_bytes i xs"
        using rep by (cases "out rv x") (auto simp: reply_bytes_def response_bytes_def)
      have short: "A \<longrightarrow> length (response_bytes i xs) < 0x7fffffff" unfolding A_def r by blast
      show ?thesis
        unfolding q(1)
        by (rule wp_CL_PROCESS_results [OF E cs2(1) i(1,2,4)])
          (use q inp r len [OF xs] outs [OF xs] cs2(2) short in simp_all)
    qed
  qed
qed

lemma length_reply:
  assumes "call_signature i GCK_RPC_RESPONSE = Some sig" "length sig + length xs < 0xfffffff0"
  shows "length (response_bytes i xs) < 2 ^ 32"
  using assms by (simp add: response_bytes_def encode_header_def encode_byte_array_def)

text \<open>Functions without results.\<close>

definition seen_rv :: "CK_RV \<Rightarrow> CK_RV" where
  "seen_rv rv = (if rv = CKR_OK then CKR_OK else wire_rv rv)"

lemma plain_reply:
  assumes C: "client_ready C cs" and E: "egg_allocator (alloc_run (ce_realloc E))"
    and i: "0 < i" "i < GCK_RPC_CALL_MAX" "call_signature i GCK_RPC_REQUEST = Some qsig"
      "call_signature i GCK_RPC_RESPONSE = Some []"
    and ins: "writes_in i qsig args () ins"
    and q: "q = request_bytes i args" "accepts (sends (cl_net cs)) [4, length q]"
    and rep: "rep = reply_bytes i no_results rv x" and inp: "incoming (input (cl_net cs)) = frame rep @ left"
  shows "remote_result (memory_for E cs q rep) E C cs q left () (seen_rv rv, ())
    (CL_BEGIN_CALL E i () C (\<lambda>cs. ins cs (\<lambda>cs. CL_PROCESS_CALL E () cs (CL_END_CALL CKR_OK ()))))"
proof (rule remote_call [OF refl C E i ins q rep inp])
  show "(seen_rv rv, ()) = (wire_rv rv, ())" if "rv \<noteq> CKR_OK" using that by (simp add: seen_rv_def)
  fix xs assume "no_results rv x = Some xs \<or> no_results rv x = None \<and> rv = CKR_OK \<and> xs = []"
  then have xs: "rv = CKR_OK" "xs = []" by (auto simp: no_results_def)
  show "length (response_bytes i xs) < 2 ^ 32" using length_reply [OF i(4), of "[]"] xs by simp
  show "wp (CL_END_CALL CKR_OK () cs2) (body_done (call_result (memory_for E cs q rep) E cs q left () (seen_rv rv, ())))"
    if "parsing cs2" "exchanged_in (memory_for E cs q rep) E cs q left cs2" "cl_resp cs2 = Some r"
      "answering (buffer r) [] xs r" for cs2 r
    using wp_CL_END_CALL [OF that(1,2), of CKR_OK] that xs by (auto simp: seen_rv_def)
qed

text \<open>
  Functions with a byte array as result.
  What the application sees of the return value \<open>rv\<close> and the results \<open>x\<close> of the module, when it has
  passed the array \<open>arr\<close> with the given room.
\<close>

definition seen_bytes ::
  "block option \<Rightarrow> CK_ULONG \<Rightarrow> CK_RV \<Rightarrow> block option \<times> CK_ULONG option \<Rightarrow> CK_RV \<times> block option \<times> CK_ULONG option" where
  "seen_bytes arr room rv x =
     (let n = (case snd x of None \<Rightarrow> 0 | Some k \<Rightarrow> k) in
      if rv = CKR_OK then
        (CKR_OK,
         (case (arr, fst x) of
            (Some a, Some d) \<Rightarrow> Some (take (unat n) d @ drop (unat n) a)
          | _ \<Rightarrow> arr),
         Some n)
      else if rv = CKR_BUFFER_TOO_SMALL then
        (if arr = None then CKR_OK else CKR_BUFFER_TOO_SMALL, arr, Some n)
      else (wire_rv rv, arr, Some room))"

definition room_ok :: "block option \<Rightarrow> CK_ULONG \<Rightarrow> bool" where
  "room_ok arr room \<longleftrightarrow>
     (case arr of None \<Rightarrow> unat room < 2 ^ 32 | Some a \<Rightarrow> unat room \<le> length a \<and> unat room < 0x7fffffff)"

text \<open>The results that PKCS#11 allows the module for a caller with this room; lengths have 32 bits.\<close>

definition bytes_returned :: "block option \<Rightarrow> CK_ULONG \<Rightarrow> CK_RV \<Rightarrow> block option \<times> CK_ULONG option \<Rightarrow> bool" where
  "bytes_returned arr room rv x \<longleftrightarrow>
     (case x of
        (d, Some n) \<Rightarrow>
          unat n < 2 ^ 32 \<and> (d = None \<longleftrightarrow> arr = None) \<and>
          (case d of None \<Rightarrow> True | Some ds \<Rightarrow> length ds = unat room \<and> (rv = CKR_OK \<longrightarrow> n \<le> room))
      | _ \<Rightarrow> False)"

lemma seen_bytes_results:
  assumes x: "bytes_returned arr room rv x" and r: "room_ok arr room" and b: "bytes_result rv x = Some xs"
  obtains d n where "xs = encode_byte_array_field d n" "bytes_fit (arr, room) (d, n)"
    "seen_bytes arr room rv x = (case bytes_store (arr, room) (d, n) of (ret, a, k) \<Rightarrow> (ret, a, Some k))"
proof -
  obtain d n where xd: "x = (d, Some n)" "unat n < 2 ^ 32"
    using x by (auto simp: bytes_returned_def split: prod.splits option.splits)
  show ?thesis
  proof (cases "rv = CKR_OK")
    case True
    then show ?thesis
      using that [of d n] x r xd b
      by (cases arr; cases d) (auto simp: bytes_returned_def room_ok_def bytes_fit_def bytes_result_def
          seen_bytes_def word_le_nat_alt word_less_nat_alt)
  next
    case False
    then show ?thesis
      using that [of None n] x r xd b
      by (cases arr) (auto simp: bytes_returned_def room_ok_def bytes_fit_def bytes_result_def
          seen_bytes_def split: if_splits)
  qed
qed

lemma bytes_result_ok: "bytes_result CKR_OK x \<noteq> None"
  by (simp add: bytes_result_def Let_def)

lemma bytes_fit_length: "bytes_fit mem (d, n) \<Longrightarrow> length (encode_byte_array_field d n) < 0x80000010"
  by (auto simp: bytes_fit_def encode_byte_array_field_def encode_byte_array_def split: option.splits)

lemma bytes_reply:
  assumes C: "client_ready C cs" and E: "egg_allocator (alloc_run (ce_realloc E))"
    and i: "0 < i" "i < GCK_RPC_CALL_MAX" "call_signature i GCK_RPC_REQUEST = Some qsig"
      "call_signature i GCK_RPC_RESPONSE = Some ''ay''"
    and ins: "writes_in i qsig args (arr, Some room) ins" and room: "room_ok arr room"
    and q: "q = request_bytes i args" "accepts (sends (cl_net cs)) [4, length q]"
    and x: "bytes_returned arr room rv x"
    and rep: "rep = reply_bytes i bytes_result rv x" and inp: "incoming (input (cl_net cs)) = frame rep @ left"
  shows "remote_result (memory_for E cs q rep) E C cs q left (arr, Some room) (seen_bytes arr room rv x)
    (CL_BEGIN_CALL E i (arr, Some room) C (\<lambda>cs. ins cs (\<lambda>cs. CL_PROCESS_CALL E (arr, Some room) cs (\<lambda>cs.
      CL_OUT_BYTE_ARRAY (arr, Some room) CKR_OK cs (\<lambda>ret mem cs. CL_END_CALL ret mem cs)))))"
proof -
  let ?mem = "(arr, Some room)" and ?A = "memory_for E cs q rep"
  have out: "CL_OUT_BYTE_ARRAY ?mem CKR_OK cs (\<lambda>ret mem cs. CL_END_CALL ret mem cs) =
      CL_OUT cl_proto_read_byte_array (arr, room) CKR_OK cs (\<lambda>ret m cs.
      CL_END_CALL ret (case m of (a, k) \<Rightarrow> (a, Some k)) cs)" for cs
    by (simp add: CL_OUT_BYTE_ARRAY_def CL_OUT_BYTE_ARRAY2_def split_def)
  show ?thesis
    unfolding out
  proof (rule remote_call [OF refl C E i ins q rep inp])
    show "seen_bytes arr room rv x = (wire_rv rv, ?mem)" if "bytes_result rv x = None" "rv \<noteq> CKR_OK"
      using that by (auto simp: bytes_result_def seen_bytes_def Let_def split: if_splits)
  next
    fix xs assume "bytes_result rv x = Some xs \<or> bytes_result rv x = None \<and> rv = CKR_OK \<and> xs = []"
    then obtain d n where d: "xs = encode_byte_array_field d n" "bytes_fit (arr, room) (d, n)"
      "seen_bytes arr room rv x = (case bytes_store (arr, room) (d, n) of (ret, a, k) \<Rightarrow> (ret, a, Some k))"
      using seen_bytes_results [OF x room] by (metis bytes_result_ok option.distinct(1))
    show "length (response_bytes i xs) < 2 ^ 32"
      using length_reply [OF i(4)] bytes_fit_length [OF d(2)] d(1) by simp
    show "wp (CL_OUT cl_proto_read_byte_array (arr, room) CKR_OK cs2 (\<lambda>ret m cs.
          CL_END_CALL ret (case m of (a, k) \<Rightarrow> (a, Some k)) cs))
          (body_done (call_result ?A E cs q left ?mem (seen_bytes arr room rv x)))"
      if "parsing cs2" "exchanged_in ?A E cs q left cs2" "cl_resp cs2 = Some r" "answering (buffer r) ''ay'' xs r" for cs2 r
      using that d by (auto intro!: bytes_result.wp_OUT_END [where v = "(d, n)"] split: prod.splits)
  qed
qed

section \<open>The groups of functions\<close>

text \<open>
  The same groups as in the daemon. A group has one shape; the functions differ in their number only,
  but for \<open>C_SignUpdate\<close>, which refuses an empty part by itself.
\<close>

definition client_session_calls where
  "client_session_calls =
     [(GCK_RPC_CALL_C_GetFunctionStatus, cl_C_GetFunctionStatus),
      (GCK_RPC_CALL_C_CancelFunction, cl_C_CancelFunction),
      (GCK_RPC_CALL_C_Logout, cl_C_Logout),
      (GCK_RPC_CALL_C_FindObjectsFinal, cl_C_FindObjectsFinal)]"

definition client_pair_calls where
  "client_pair_calls =
     [(GCK_RPC_CALL_C_DestroyObject, cl_C_DestroyObject),
      (GCK_RPC_CALL_C_DigestKey, cl_C_DigestKey)]"

definition client_update_calls where
  "client_update_calls =
     [(GCK_RPC_CALL_C_InitPIN, cl_C_InitPIN),
      (GCK_RPC_CALL_C_DigestUpdate, cl_C_DigestUpdate),
      (GCK_RPC_CALL_C_SignUpdate, cl_C_SignUpdate),
      (GCK_RPC_CALL_C_VerifyUpdate, cl_C_VerifyUpdate),
      (GCK_RPC_CALL_C_VerifyFinal, cl_C_VerifyFinal),
      (GCK_RPC_CALL_C_SeedRandom, cl_C_SeedRandom)]"

definition client_two_array_calls where
  "client_two_array_calls =
     [(GCK_RPC_CALL_C_SetPIN, cl_C_SetPIN),
      (GCK_RPC_CALL_C_Verify, cl_C_Verify)]"

definition client_final_calls where
  "client_final_calls =
     [(GCK_RPC_CALL_C_GetOperationState, cl_C_GetOperationState),
      (GCK_RPC_CALL_C_EncryptFinal, cl_C_EncryptFinal),
      (GCK_RPC_CALL_C_DecryptFinal, cl_C_DecryptFinal),
      (GCK_RPC_CALL_C_DigestFinal, cl_C_DigestFinal),
      (GCK_RPC_CALL_C_SignFinal, cl_C_SignFinal)]"

definition client_data_calls where
  "client_data_calls =
     [(GCK_RPC_CALL_C_Encrypt, cl_C_Encrypt),
      (GCK_RPC_CALL_C_EncryptUpdate, cl_C_EncryptUpdate),
      (GCK_RPC_CALL_C_Decrypt, cl_C_Decrypt),
      (GCK_RPC_CALL_C_DecryptUpdate, cl_C_DecryptUpdate),
      (GCK_RPC_CALL_C_Digest, cl_C_Digest),
      (GCK_RPC_CALL_C_Sign, cl_C_Sign),
      (GCK_RPC_CALL_C_SignRecover, cl_C_SignRecover),
      (GCK_RPC_CALL_C_VerifyRecover, cl_C_VerifyRecover),
      (GCK_RPC_CALL_C_DigestEncryptUpdate, cl_C_DigestEncryptUpdate),
      (GCK_RPC_CALL_C_DecryptDigestUpdate, cl_C_DecryptDigestUpdate),
      (GCK_RPC_CALL_C_SignEncryptUpdate, cl_C_SignEncryptUpdate),
      (GCK_RPC_CALL_C_DecryptVerifyUpdate, cl_C_DecryptVerifyUpdate)]"

definition client_init_calls where
  "client_init_calls =
     [(GCK_RPC_CALL_C_EncryptInit, cl_C_EncryptInit),
      (GCK_RPC_CALL_C_DecryptInit, cl_C_DecryptInit),
      (GCK_RPC_CALL_C_SignInit, cl_C_SignInit),
      (GCK_RPC_CALL_C_SignRecoverInit, cl_C_SignRecoverInit),
      (GCK_RPC_CALL_C_VerifyInit, cl_C_VerifyInit),
      (GCK_RPC_CALL_C_VerifyRecoverInit, cl_C_VerifyRecoverInit)]"

text \<open>A group has one signature for its requests and one for its responses.\<close>

definition has_signatures :: "string \<Rightarrow> string \<Rightarrow> (int \<times> 'f) list \<Rightarrow> bool" where
  "has_signatures qs rs calls \<longleftrightarrow>
     list_all (\<lambda>(i, _). 0 < i \<and> i < GCK_RPC_CALL_MAX \<and>
       call_signature i GCK_RPC_REQUEST = Some qs \<and> call_signature i GCK_RPC_RESPONSE = Some rs) calls"

lemma has_signaturesD:
  assumes "has_signatures qs rs calls" "(i, f) \<in> set calls"
  shows "0 < i" "i < GCK_RPC_CALL_MAX" "call_signature i GCK_RPC_REQUEST = Some qs"
    "call_signature i GCK_RPC_RESPONSE = Some rs"
  using assms by (auto simp: has_signatures_def list_all_iff)

lemma client_signatures:
  "has_signatures ''u'' [] client_session_calls" "has_signatures ''uu'' [] client_pair_calls"
  "has_signatures ''uay'' [] client_update_calls" "has_signatures ''uayay'' [] client_two_array_calls"
  "has_signatures ''uMu'' [] client_init_calls" "has_signatures ''ufy'' ''ay'' client_final_calls"
  "has_signatures ''uayfy'' ''ay'' client_data_calls"
  by (simp_all add: has_signatures_def client_session_calls_def client_pair_calls_def client_update_calls_def
      client_two_array_calls_def client_init_calls_def client_final_calls_def client_data_calls_def switch_simps)

lemma client_session_call:
  assumes "(i, cl) \<in> set client_session_calls" "pkcs11_initialized C"
  shows "cl E session C = CL_BEGIN_CALL E i () C (\<lambda>cs. CL_IN_ULONG session () cs (\<lambda>cs.
    CL_PROCESS_CALL E () cs (CL_END_CALL CKR_OK ())))"
  using assms unfolding client_session_calls_def
  by (auto simp: return_val_if_fail_def cl_C_GetFunctionStatus_def cl_C_CancelFunction_def cl_C_Logout_def
      cl_C_FindObjectsFinal_def)

lemma client_pair_call:
  assumes "(i, cl) \<in> set client_pair_calls" "pkcs11_initialized C"
  shows "cl E session object C = CL_BEGIN_CALL E i () C (\<lambda>cs. CL_IN_ULONG session () cs (\<lambda>cs.
    CL_IN_ULONG object () cs (\<lambda>cs. CL_PROCESS_CALL E () cs (CL_END_CALL CKR_OK ()))))"
  using assms unfolding client_pair_calls_def
  by (auto simp: return_val_if_fail_def cl_C_DestroyObject_def cl_C_DigestKey_def)

lemma client_update_call:
  assumes "(i, cl) \<in> set client_update_calls" "pkcs11_initialized C" "i = GCK_RPC_CALL_C_SignUpdate \<longrightarrow> n \<noteq> 0"
  shows "cl E session dat n C = CL_BEGIN_CALL E i () C (\<lambda>cs. CL_IN_ULONG session () cs (\<lambda>cs.
    CL_IN_BYTE_ARRAY dat n () cs (\<lambda>cs. CL_PROCESS_CALL E () cs (CL_END_CALL CKR_OK ()))))"
  using assms unfolding client_update_calls_def
  by (auto simp: return_val_if_fail_def cl_C_InitPIN_def cl_C_DigestUpdate_def cl_C_SignUpdate_def cl_C_VerifyUpdate_def
      cl_C_VerifyFinal_def cl_C_SeedRandom_def)

lemma client_two_array_call:
  assumes "(i, cl) \<in> set client_two_array_calls" "pkcs11_initialized C"
  shows "cl E session dat n dat' n' C = CL_BEGIN_CALL E i () C (\<lambda>cs. CL_IN_ULONG session () cs (\<lambda>cs.
    CL_IN_BYTE_ARRAY dat n () cs (\<lambda>cs. CL_IN_BYTE_ARRAY dat' n' () cs (\<lambda>cs.
    CL_PROCESS_CALL E () cs (CL_END_CALL CKR_OK ())))))"
  using assms unfolding client_two_array_calls_def
  by (auto simp: return_val_if_fail_def cl_C_SetPIN_def cl_C_Verify_def)

lemma client_init_call:
  assumes "(i, cl) \<in> set client_init_calls" "pkcs11_initialized C"
  shows "cl E session mech key C = CL_BEGIN_CALL E i () C (\<lambda>cs. CL_IN_ULONG session () cs (\<lambda>cs.
    CL_IN_MECHANISM mech () cs (\<lambda>cs. CL_IN_ULONG key () cs (\<lambda>cs.
    CL_PROCESS_CALL E () cs (CL_END_CALL CKR_OK ())))))"
  using assms unfolding client_init_calls_def
  by (auto simp: return_val_if_fail_def cl_C_EncryptInit_def cl_C_DecryptInit_def cl_C_SignInit_def
      cl_C_SignRecoverInit_def cl_C_VerifyInit_def cl_C_VerifyRecoverInit_def)

lemma client_final_call:
  assumes "(i, cl) \<in> set client_final_calls" "pkcs11_initialized C"
  shows "cl E session arr n C = CL_BEGIN_CALL E i (arr, n) C (\<lambda>cs. CL_IN_ULONG session (arr, n) cs (\<lambda>cs.
    CL_IN_BYTE_BUFFER arr n (arr, n) cs (\<lambda>cs. CL_PROCESS_CALL E (arr, n) cs (\<lambda>cs.
    CL_OUT_BYTE_ARRAY (arr, n) CKR_OK cs (\<lambda>ret mem cs. CL_END_CALL ret mem cs)))))"
  using assms unfolding client_final_calls_def
  by (auto simp: return_val_if_fail_def cl_C_GetOperationState_def cl_C_EncryptFinal_def cl_C_DecryptFinal_def
      cl_C_DigestFinal_def cl_C_SignFinal_def)

lemma client_data_call:
  assumes "(i, cl) \<in> set client_data_calls" "pkcs11_initialized C"
  shows "cl E session dat dat_len arr n C = CL_BEGIN_CALL E i (arr, n) C (\<lambda>cs.
    CL_IN_ULONG session (arr, n) cs (\<lambda>cs. CL_IN_BYTE_ARRAY dat dat_len (arr, n) cs (\<lambda>cs.
    CL_IN_BYTE_BUFFER arr n (arr, n) cs (\<lambda>cs. CL_PROCESS_CALL E (arr, n) cs (\<lambda>cs.
    CL_OUT_BYTE_ARRAY (arr, n) CKR_OK cs (\<lambda>ret mem cs. CL_END_CALL ret mem cs))))))"
  using assms unfolding client_data_calls_def
  by (auto simp: return_val_if_fail_def cl_C_Encrypt_def cl_C_EncryptUpdate_def cl_C_Decrypt_def cl_C_DecryptUpdate_def
      cl_C_Digest_def cl_C_Sign_def cl_C_SignRecover_def cl_C_VerifyRecover_def cl_C_DigestEncryptUpdate_def
      cl_C_DecryptDigestUpdate_def cl_C_SignEncryptUpdate_def cl_C_DecryptVerifyUpdate_def)

text \<open>The functions whose arguments have a shape of their own.\<close>

lemma client_single_signatures:
  "call_signature GCK_RPC_CALL_C_Login GCK_RPC_REQUEST = Some ''uuay''"
  "call_signature GCK_RPC_CALL_C_Login GCK_RPC_RESPONSE = Some []"
  "call_signature GCK_RPC_CALL_C_DigestInit GCK_RPC_REQUEST = Some ''uM''"
  "call_signature GCK_RPC_CALL_C_DigestInit GCK_RPC_RESPONSE = Some []"
  "call_signature GCK_RPC_CALL_C_SetOperationState GCK_RPC_REQUEST = Some ''uayuu''"
  "call_signature GCK_RPC_CALL_C_SetOperationState GCK_RPC_RESPONSE = Some []"
  by (simp_all add: switch_simps)

lemma client_single_calls:
  assumes "pkcs11_initialized C"
  shows "cl_C_Login E session user_type pin n C = CL_BEGIN_CALL E GCK_RPC_CALL_C_Login () C (\<lambda>cs.
      CL_IN_ULONG session () cs (\<lambda>cs. CL_IN_ULONG user_type () cs (\<lambda>cs. CL_IN_BYTE_ARRAY pin n () cs (\<lambda>cs.
      CL_PROCESS_CALL E () cs (CL_END_CALL CKR_OK ())))))"
    "cl_C_DigestInit E session mech C = CL_BEGIN_CALL E GCK_RPC_CALL_C_DigestInit () C (\<lambda>cs.
      CL_IN_ULONG session () cs (\<lambda>cs. CL_IN_MECHANISM mech () cs (\<lambda>cs.
      CL_PROCESS_CALL E () cs (CL_END_CALL CKR_OK ()))))"
    "cl_C_SetOperationState E session dat n ekey akey C = CL_BEGIN_CALL E GCK_RPC_CALL_C_SetOperationState () C (\<lambda>cs.
      CL_IN_ULONG session () cs (\<lambda>cs. CL_IN_BYTE_ARRAY dat n () cs (\<lambda>cs. CL_IN_ULONG ekey () cs (\<lambda>cs.
      CL_IN_ULONG akey () cs (\<lambda>cs. CL_PROCESS_CALL E () cs (CL_END_CALL CKR_OK ()))))))"
  using assms by (simp_all add: return_val_if_fail_def cl_C_Login_def cl_C_DigestInit_def cl_C_SetOperationState_def)

end
