(* ===== verification/Remote_Session.thy ===== *)
theory Remote_Session
  imports Remote_Calls Session_Table
begin

text \<open>
  An application that makes any sequence of calls through both programs, against the module that the
  daemon has loaded: the application sees, call by call, what the module returns.
\<close>

section \<open>Calls of an application\<close>

text \<open>
  A call is the number of its function with the arguments; the constructors are the groups of
  functions, and the last three \<open>C_Login\<close>, \<open>C_DigestInit\<close> and \<open>C_SetOperationState\<close>. The last two arguments of \<open>FinalCall\<close> and \<open>DataCall\<close> are the array for the result, if
  any, and the room in it.
\<close>

datatype AppCall =
    SessionCall int CK_ULONG
  | PairCall int CK_ULONG CK_ULONG
  | UpdateCall int CK_ULONG "block option" CK_ULONG
  | TwoArrayCall int CK_ULONG "block option" CK_ULONG "block option" CK_ULONG
  | InitCall int CK_ULONG CK_MECHANISM CK_ULONG
  | FinalCall int CK_ULONG "block option" CK_ULONG
  | DataCall int CK_ULONG "block option" CK_ULONG "block option" CK_ULONG
  | LoginCall CK_ULONG CK_ULONG "block option" CK_ULONG
  | DigestInitCall CK_ULONG CK_MECHANISM
  | SetStateCall CK_ULONG "block option" CK_ULONG CK_ULONG CK_ULONG

text \<open>A return value, with array and length where the function has them.\<close>

type_synonym app_result = "CK_RV \<times> block option \<times> CK_ULONG option"

definition no_memory :: "(CK_RV \<times> 'o \<times> Client) outcome \<Rightarrow> (app_result \<times> Client) outcome" where
  "no_memory r = obind r (\<lambda>(ret, _, C). Ret ((ret, None, None), C))"

definition with_memory ::
  "(CK_RV \<times> (block option \<times> CK_ULONG option) \<times> Client) outcome \<Rightarrow> (app_result \<times> Client) outcome" where
  "with_memory r = obind r (\<lambda>(ret, mem, C). Ret ((ret, mem), C))"

text \<open>The call as the client module makes it.\<close>

definition called :: "(int \<times> 'f) list \<Rightarrow> int \<Rightarrow> ('f \<Rightarrow> 'r outcome) \<Rightarrow> 'r outcome" where
  "called calls i k = (case map_of calls i of None \<Rightarrow> Abort | Some cl \<Rightarrow> k cl)"

lemma called_cong:
  "(\<And>cl. map_of calls i = Some cl \<Longrightarrow> k cl = k' cl) \<Longrightarrow> called calls i k = called calls i k'"
  by (simp add: called_def split: option.split)

fun app_run :: "Client_Env \<Rightarrow> AppCall \<Rightarrow> Client \<Rightarrow> (app_result \<times> Client) outcome" where
  "app_run E (SessionCall i session) C = called client_session_calls i (\<lambda>cl. no_memory (cl E session C))"
| "app_run E (PairCall i session object) C = called client_pair_calls i (\<lambda>cl. no_memory (cl E session object C))"
| "app_run E (UpdateCall i session dat n) C = called client_update_calls i (\<lambda>cl. no_memory (cl E session dat n C))"
| "app_run E (TwoArrayCall i session dat n dat' n') C =
     called client_two_array_calls i (\<lambda>cl. no_memory (cl E session dat n dat' n' C))"
| "app_run E (InitCall i session mech key) C =
     called client_init_calls i (\<lambda>cl. no_memory (cl E session (Some mech) key C))"
| "app_run E (FinalCall i session arr room) C =
     called client_final_calls i (\<lambda>cl. with_memory (cl E session arr (Some room) C))"
| "app_run E (DataCall i session dat n arr room) C =
     called client_data_calls i (\<lambda>cl. with_memory (cl E session dat n arr (Some room) C))"
| "app_run E (LoginCall session user_type pin n) C = no_memory (cl_C_Login E session user_type pin n C)"
| "app_run E (DigestInitCall session mech) C = no_memory (cl_C_DigestInit E session (Some mech) C)"
| "app_run E (SetStateCall session dat n ekey akey) C = no_memory (cl_C_SetOperationState E session dat n ekey akey C)"

text \<open>
  The call as the module sees it; \<open>None\<close> when the module does not have the function. The daemon
  passes an array of its own, filled with \<^verbatim>\<open>0xff\<close>, and a mechanism without the parameter it should
  not have.
\<close>

definition provided ::
  "(int \<times> ('w CK_FUNCTION_LIST \<Rightarrow> 'f option) \<times> 'w handler) list \<Rightarrow> int \<Rightarrow> 'w CK_FUNCTION_LIST \<Rightarrow> 'f option" where
  "provided calls i M = (case map_of calls i of None \<Rightarrow> None | Some (sel, h) \<Rightarrow> sel M)"

definition plain_result :: "CK_RV \<times> unit \<times> 'w \<Rightarrow> app_result \<times> 'w" where
  "plain_result r = (case r of (rv, _, w) \<Rightarrow> ((rv, None, None), w))"

definition bytes_given :: "CK_RV \<times> (block option \<times> CK_ULONG option) \<times> 'w \<Rightarrow> app_result \<times> 'w" where
  "bytes_given r = (case r of (rv, x, w) \<Rightarrow> ((rv, x), w))"

abbreviation (input) daemon_array :: "block option \<Rightarrow> CK_ULONG \<Rightarrow> block option" where
  "daemon_array arr room \<equiv> map_option (\<lambda>_. replicate (unat room) 0xff) arr"

fun module_run :: "'w CK_FUNCTION_LIST \<Rightarrow> AppCall \<Rightarrow> 'w \<Rightarrow> (app_result \<times> 'w) option" where
  "module_run M (SessionCall i session) w =
     map_option (\<lambda>f. plain_result (f session w)) (provided session_calls i M)"
| "module_run M (PairCall i session object) w =
     map_option (\<lambda>f. plain_result (f session object w)) (provided pair_calls i M)"
| "module_run M (UpdateCall i session dat n) w =
     map_option (\<lambda>f. plain_result (f session dat n w)) (provided update_calls i M)"
| "module_run M (TwoArrayCall i session dat n dat' n') w =
     map_option (\<lambda>f. plain_result (f session dat n dat' n' w)) (provided two_array_calls i M)"
| "module_run M (InitCall i session mech key) w =
     map_option (\<lambda>f. plain_result (f session (sent_mechanism mech) key w)) (provided init_calls i M)"
| "module_run M (FinalCall i session arr room) w =
     map_option (\<lambda>f. bytes_given (f session (daemon_array arr room) (Some room) w)) (provided final_calls i M)"
| "module_run M (DataCall i session dat n arr room) w =
     map_option (\<lambda>f. bytes_given (f session dat n (daemon_array arr room) (Some room) w)) (provided data_calls i M)"
| "module_run M (LoginCall session user_type pin n) w =
     map_option (\<lambda>f. plain_result (f session user_type pin n w)) (C_Login M)"
| "module_run M (DigestInitCall session mech) w =
     map_option (\<lambda>f. plain_result (f session (sent_mechanism mech) w)) (C_DigestInit M)"
| "module_run M (SetStateCall session dat n ekey akey) w =
     map_option (\<lambda>f. plain_result (f session dat n ekey akey w)) (C_SetOperationState M)"

text \<open>What is sent in both directions, and what the application sees of a result of the module.\<close>

fun app_number :: "AppCall \<Rightarrow> int" where
  "app_number (SessionCall i _) = i"
| "app_number (PairCall i _ _) = i"
| "app_number (UpdateCall i _ _ _) = i"
| "app_number (TwoArrayCall i _ _ _ _ _) = i"
| "app_number (InitCall i _ _ _) = i"
| "app_number (FinalCall i _ _ _) = i"
| "app_number (DataCall i _ _ _ _ _) = i"
| "app_number (LoginCall _ _ _ _) = GCK_RPC_CALL_C_Login"
| "app_number (DigestInitCall _ _) = GCK_RPC_CALL_C_DigestInit"
| "app_number (SetStateCall _ _ _ _ _) = GCK_RPC_CALL_C_SetOperationState"

fun app_arguments :: "AppCall \<Rightarrow> block" where
  "app_arguments (SessionCall _ session) = encode_uint64 session"
| "app_arguments (PairCall _ session object) = encode_uint64 session @ encode_uint64 object"
| "app_arguments (UpdateCall _ session dat n) = encode_uint64 session @ encode_byte_array_arg (dat, n)"
| "app_arguments (TwoArrayCall _ session dat n dat' n') =
     encode_uint64 session @ encode_byte_array_arg (dat, n) @ encode_byte_array_arg (dat', n')"
| "app_arguments (InitCall _ session mech key) =
     encode_uint64 session @ encode_mechanism (sent_mechanism mech) @ encode_uint64 key"
| "app_arguments (FinalCall _ session arr room) = encode_uint64 session @ encode_byte_buffer_arg (arr, Some room)"
| "app_arguments (DataCall _ session dat n arr room) =
     encode_uint64 session @ encode_byte_array_arg (dat, n) @ encode_byte_buffer_arg (arr, Some room)"
| "app_arguments (LoginCall session user_type pin n) =
     encode_uint64 session @ encode_uint64 user_type @ encode_byte_array_arg (pin, n)"
| "app_arguments (DigestInitCall session mech) = encode_uint64 session @ encode_mechanism (sent_mechanism mech)"
| "app_arguments (SetStateCall session dat n ekey akey) =
     encode_uint64 session @ encode_byte_array_arg (dat, n) @ encode_uint64 ekey @ encode_uint64 akey"

definition app_request :: "AppCall \<Rightarrow> block" where
  "app_request c = request_bytes (app_number c) (app_arguments c)"

fun app_array :: "AppCall \<Rightarrow> (block option \<times> CK_ULONG) option" where
  "app_array (FinalCall _ _ arr room) = Some (arr, room)"
| "app_array (DataCall _ _ _ _ arr room) = Some (arr, room)"
| "app_array _ = None"

definition app_reply :: "AppCall \<Rightarrow> app_result \<Rightarrow> block" where
  "app_reply c r =
     reply_bytes (app_number c) (if app_array c = None then no_results else bytes_result) (fst r) (snd r)"

definition app_seen :: "AppCall \<Rightarrow> app_result \<Rightarrow> app_result" where
  "app_seen c r =
     (case app_array c of
        None \<Rightarrow> (seen_rv (fst r), None, None)
      | Some (arr, room) \<Rightarrow> seen_bytes arr room (fst r) (snd r))"

text \<open>Arguments that the protocol can carry.\<close>

abbreviation (input) array_ok :: "block option \<Rightarrow> CK_ULONG \<Rightarrow> bool" where
  "array_ok dat n \<equiv> byte_array_arg_valid (dat, n) \<and> (dat = None \<longrightarrow> n = 0)"

fun app_valid :: "AppCall \<Rightarrow> bool" where
  "app_valid (SessionCall i _) = (map_of client_session_calls i \<noteq> None)"
| "app_valid (PairCall i _ _) = (map_of client_pair_calls i \<noteq> None)"
| "app_valid (UpdateCall i _ dat n) =
     (map_of client_update_calls i \<noteq> None \<and> array_ok dat n \<and> (i = GCK_RPC_CALL_C_SignUpdate \<longrightarrow> n \<noteq> 0))"
| "app_valid (TwoArrayCall i _ dat n dat' n') =
     (map_of client_two_array_calls i \<noteq> None \<and> array_ok dat n \<and> array_ok dat' n')"
| "app_valid (InitCall i _ mech _) =
     (map_of client_init_calls i \<noteq> None \<and> mechanism_valid mech \<and> gck_rpc_mechanism_is_supported (mechanism mech))"
| "app_valid (FinalCall i _ arr room) = (map_of client_final_calls i \<noteq> None \<and> room_ok arr room)"
| "app_valid (DataCall i _ dat n arr room) =
     (map_of client_data_calls i \<noteq> None \<and> array_ok dat n \<and> room_ok arr room)"
| "app_valid (LoginCall _ _ pin n) = array_ok pin n"
| "app_valid (DigestInitCall _ mech) = (mechanism_valid mech \<and> gck_rpc_mechanism_is_supported (mechanism mech))"
| "app_valid (SetStateCall _ dat n _ _) = array_ok dat n"

section \<open>One call\<close>

lemma provided_some:
  assumes "provided calls i M = Some f"
  obtains sel h where "(i, sel, h) \<in> set calls" "sel M = Some f"
  using assms by (auto simp: provided_def split: option.splits dest!: map_of_SomeD)

lemma plain_resultD: "plain_result t = (r, w) \<Longrightarrow> t = (fst r, (), w) \<and> snd r = (None, None)"
  by (cases t) (auto simp: plain_result_def)

lemma bytes_givenD: "bytes_given t = (r, w) \<Longrightarrow> t = (fst r, snd r, w)"
  by (cases t) (auto simp: bytes_given_def)

lemma reply_plain: "reply_bytes i no_results rv x = reply_bytes i no_results rv y"
  by (simp add: reply_bytes_def no_results_def)

lemma daemon_array_view: "byte_buffer_arg_view (arr, Some room) = (daemon_array arr room, Some room)"
  by (cases arr) (simp_all add: byte_buffer_arg_view_def)

lemma room_valid: "room_ok arr room \<Longrightarrow> byte_buffer_arg_valid (arr, Some room)"
  by (cases arr) (auto simp: room_ok_def byte_buffer_arg_valid_def)

text \<open>
  A dispatcher that waits for a request, has memory, and its connection has \<open>q\<close> to be read next and takes the
  reply \<open>rep\<close>, and after it messages of the lengths \<open>ns\<close>.
\<close>

definition daemon_ready :: "u64 \<times> int \<times> IoFunctions \<times> bool \<Rightarrow> 'w Dispatcher \<Rightarrow> block \<Rightarrow> bool" where
  "daemon_ready c s b4 \<longleftrightarrow> serving c s b4 \<and> io s = SocketIo \<and> daemon_roomy s"

definition carries :: "Net \<Rightarrow> block \<Rightarrow> block \<Rightarrow> block \<Rightarrow> nat list \<Rightarrow> bool" where
  "carries net q later rep ns \<longleftrightarrow>
     length q < 0x0FFFFFFF \<and> length rep < 0x7fffffff \<and> incoming (input net) = frame q @ later \<and>
     accepts (sends net) ([4, length rep] @ ns)"

text \<open>A round of the daemon's loop answers \<open>rep\<close>; then the dispatcher is ready for what comes \<open>later\<close>.\<close>

definition served ::
  "'w Env \<Rightarrow> u64 \<times> int \<times> IoFunctions \<times> bool \<Rightarrow> 'w Dispatcher \<Rightarrow> Net \<Rightarrow> block \<Rightarrow> 'w \<Rightarrow> block \<Rightarrow> block \<Rightarrow> nat list \<Rightarrow> bool" where
  "served D c s net b4 w rep later ns \<longleftrightarrow>
     (\<exists>s' net' b4'. dispatch_round D s net b4 = Ret (True, s', net', b4') \<and> world s' = w \<and>
        sessions s' = sessions s \<and> sent net' = sent net @ frame rep \<and> daemon_ready c s' b4' \<and>
        incoming (input net') = later \<and> accepts (sends net') ns)"

lemma servedI:
  assumes D: "env_ok D" "daemon_ready c s b4"
    and i: "0 < i" "i < GCK_RPC_CALL_MAX" "call_signature i GCK_RPC_REQUEST = Some sig"
    and net: "carries net (request_bytes i args) later rep ns"
    and F: "F (world s) = (rv, x, w)" "rep = reply_bytes i out rv x"
    and H: "\<And>s1 q. accepted c s1 \<Longrightarrow> req s1 = Ptr q \<Longrightarrow> call_id q = i \<Longrightarrow> pending s1 sig args \<Longrightarrow>
      replied s1 (call_id q) F out (dispatch_call D s1)"
  shows "served D c s net b4 w rep later ns"
proof -
  have d: "serving c s b4" "io s = SocketIo" "daemon_roomy s" using D(2) by (auto simp: daemon_ready_def)
  have n: "length (request_bytes i args) < 0x0FFFFFFF" "length rep < 0x7fffffff"
    "incoming (input net) = frame (request_bytes i args) @ later" "accepts (sends net) ([4, length rep] @ ns)"
    using net by (auto simp: carries_def)
  have H': "replied s1 i F out (dispatch_call D s1)"
    if "accepted c s1" "req s1 = Ptr q" "call_id q = i" "pending s1 sig args" for s1 q
    using H [OF that] that(3) by simp
  have "\<exists>s' net' b4'. dispatch_round D s net b4 = Ret (True, s', net', b4') \<and> world s' = w \<and>
      sessions s' = sessions s \<and> sent net' = sent net @ frame (reply_bytes i out rv x) \<and>
      serving c s' b4' \<and> io s' = SocketIo \<and> daemon_roomy s' \<and> incoming (input net') = later \<and> accepts (sends net') ns"
    by (rule daemon_round [where F = F and i = i and out = out and rv = rv and x = x, OF D(1) d i n(3,1) F(1) n(2) [unfolded F(2)] n(4) [unfolded F(2)]]) (rule H')
  then show ?thesis unfolding served_def daemon_ready_def F(2) conj_assoc .
qed

lemma client_number:
  assumes "map_of calls i \<noteq> None" "has_signatures qs rs calls"
  shows "0 < i" "i < GCK_RPC_CALL_MAX" "call_signature i GCK_RPC_REQUEST = Some qs"
    "call_signature i GCK_RPC_RESPONSE = Some rs"
  using assms has_signaturesD [OF assms(2)] by (auto dest!: map_of_SomeD)

lemma mechanism_valid_sent: "mechanism_valid mech \<Longrightarrow> mechanism_valid (sent_mechanism mech)"
  by (auto simp: sent_mechanism_def mechanism_valid_def)

text \<open>A dispatcher that is ready serves the call \<open>c\<close>; one lemma for each shape of its arguments.\<close>

definition serves :: "'w Env \<Rightarrow> 'w CK_FUNCTION_LIST \<Rightarrow> u64 \<times> int \<times> IoFunctions \<times> bool \<Rightarrow> 'w Dispatcher \<Rightarrow> block \<Rightarrow> AppCall \<Rightarrow> bool" where
  "serves D M cn s b4 c \<longleftrightarrow>
     (\<forall>r w net later ns. module_run M c (world s) = Some (r, w) \<longrightarrow>
        carries net (request_bytes (app_number c) (app_arguments c)) later (app_reply c r) ns \<longrightarrow>
        served D cn s net b4 w (app_reply c r) later ns)"

lemma serves_session:
  fixes s :: "'w Dispatcher"
  assumes D: "env_ok D" "memory_ok D" "pkcs11_module D = Some M" "daemon_ready cn s b4"
    and v: "app_valid c" and SessionCall: "c = SessionCall i session"
  shows "serves D M cn s b4 c"
  unfolding serves_def
proof (intro allI impI)
  fix r w net later ns
  assume m: "module_run M c (world s) = Some (r, w)"
    and net: "carries net (request_bytes (app_number c) (app_arguments c)) later (app_reply c r) ns"
  from SessionCall obtain f where f: "provided session_calls i M = Some f" "f session (world s) = (fst r, (), w)"
    "app_reply c r = reply_bytes i no_results (fst r) ()"
    using m reply_plain by (fastforce simp: app_reply_def dest!: plain_resultD)
  from f(1) obtain sel and h :: "'w handler" where sel: "(i, sel, h) \<in> set session_calls" "sel M = Some f" by (rule provided_some)
  have "app_number c = i" "0 < i" "i < GCK_RPC_CALL_MAX" "call_signature i GCK_RPC_REQUEST = Some ''u''"
    using client_number [OF _ client_signatures(1), of i] v SessionCall by auto
  note n = this(2-4) and net = net [unfolded this(1)]
  show "served D cn s net b4 w (app_reply c r) later ns"
    by (rule servedI [where F = "f session", OF D(1,4) n net f(2,3)])
      (use v SessionCall dispatch_session [where sel = sel and h = h and f = f and c = cn, OF D(1,3) _ _ _ sel(2)] sel(1) in auto)
qed

lemma serves_pair:
  fixes s :: "'w Dispatcher"
  assumes D: "env_ok D" "memory_ok D" "pkcs11_module D = Some M" "daemon_ready cn s b4"
    and v: "app_valid c" and PairCall: "c = PairCall i session object"
  shows "serves D M cn s b4 c"
  unfolding serves_def
proof (intro allI impI)
  fix r w net later ns
  assume m: "module_run M c (world s) = Some (r, w)"
    and net: "carries net (request_bytes (app_number c) (app_arguments c)) later (app_reply c r) ns"
  from PairCall obtain f where f: "provided pair_calls i M = Some f" "f session object (world s) = (fst r, (), w)"
    "app_reply c r = reply_bytes i no_results (fst r) ()"
    using m reply_plain by (fastforce simp: app_reply_def dest!: plain_resultD)
  from f(1) obtain sel and h :: "'w handler" where sel: "(i, sel, h) \<in> set pair_calls" "sel M = Some f" by (rule provided_some)
  have "app_number c = i" "0 < i" "i < GCK_RPC_CALL_MAX" "call_signature i GCK_RPC_REQUEST = Some ''uu''"
    using client_number [OF _ client_signatures(2), of i] v PairCall by auto
  note n = this(2-4) and net = net [unfolded this(1)]
  show "served D cn s net b4 w (app_reply c r) later ns"
    by (rule servedI [where F = "f session object", OF D(1,4) n net f(2,3)])
      (use v PairCall dispatch_pair [where sel = sel and h = h and f = f and c = cn, OF D(1,3) _ _ _ sel(2)] sel(1) in auto)
qed

lemma serves_update:
  fixes s :: "'w Dispatcher"
  assumes D: "env_ok D" "memory_ok D" "pkcs11_module D = Some M" "daemon_ready cn s b4"
    and v: "app_valid c" and UpdateCall: "c = UpdateCall i session dat n"
  shows "serves D M cn s b4 c"
  unfolding serves_def
proof (intro allI impI)
  fix r w net later ns
  assume m: "module_run M c (world s) = Some (r, w)"
    and net: "carries net (request_bytes (app_number c) (app_arguments c)) later (app_reply c r) ns"
  from UpdateCall obtain f where f: "provided update_calls i M = Some f" "f session dat n (world s) = (fst r, (), w)"
    "app_reply c r = reply_bytes i no_results (fst r) ()"
    using m reply_plain by (fastforce simp: app_reply_def dest!: plain_resultD)
  from f(1) obtain sel and h :: "'w handler" where sel: "(i, sel, h) \<in> set update_calls" "sel M = Some f" by (rule provided_some)
  have "app_number c = i" "0 < i" "i < GCK_RPC_CALL_MAX" "call_signature i GCK_RPC_REQUEST = Some ''uay''"
    using client_number [OF _ client_signatures(3), of i] v UpdateCall by auto
  note n = this(2-4) and net = net [unfolded this(1)]
  show "served D cn s net b4 w (app_reply c r) later ns"
    by (rule servedI [where F = "f session dat n", OF D(1,4) n net f(2,3)])
      (use v UpdateCall dispatch_update [where sel = sel and h = h and f = f and c = cn, OF D(1,3) _ _ _ sel(2), where dat = "(dat, n)"] sel(1) in auto)
qed

lemma serves_two_array:
  fixes s :: "'w Dispatcher"
  assumes D: "env_ok D" "memory_ok D" "pkcs11_module D = Some M" "daemon_ready cn s b4"
    and v: "app_valid c" and TwoArrayCall: "c = TwoArrayCall i session dat n dat' n'"
  shows "serves D M cn s b4 c"
  unfolding serves_def
proof (intro allI impI)
  fix r w net later ns
  assume m: "module_run M c (world s) = Some (r, w)"
    and net: "carries net (request_bytes (app_number c) (app_arguments c)) later (app_reply c r) ns"
  from TwoArrayCall obtain f where f: "provided two_array_calls i M = Some f" "f session dat n dat' n' (world s) = (fst r, (), w)"
    "app_reply c r = reply_bytes i no_results (fst r) ()"
    using m reply_plain by (fastforce simp: app_reply_def dest!: plain_resultD)
  from f(1) obtain sel and h :: "'w handler" where sel: "(i, sel, h) \<in> set two_array_calls" "sel M = Some f" by (rule provided_some)
  have "app_number c = i" "0 < i" "i < GCK_RPC_CALL_MAX" "call_signature i GCK_RPC_REQUEST = Some ''uayay''"
    using client_number [OF _ client_signatures(4), of i] v TwoArrayCall by auto
  note n = this(2-4) and net = net [unfolded this(1)]
  show "served D cn s net b4 w (app_reply c r) later ns"
    by (rule servedI [where F = "f session dat n dat' n'", OF D(1,4) n net f(2,3)])
      (use v TwoArrayCall dispatch_two_array [where sel = sel and h = h and f = f and c = cn, OF D(1,3) _ _ _ sel(2), where dat = "(dat, n)" and dat' = "(dat', n')"] sel(1) in auto)
qed

lemma serves_init:
  fixes s :: "'w Dispatcher"
  assumes D: "env_ok D" "memory_ok D" "pkcs11_module D = Some M" "daemon_ready cn s b4"
    and v: "app_valid c" and InitCall: "c = InitCall i session mech key"
  shows "serves D M cn s b4 c"
  unfolding serves_def
proof (intro allI impI)
  fix r w net later ns
  assume m: "module_run M c (world s) = Some (r, w)"
    and net: "carries net (request_bytes (app_number c) (app_arguments c)) later (app_reply c r) ns"
  from InitCall obtain f where f: "provided init_calls i M = Some f" "f session (sent_mechanism mech) key (world s) = (fst r, (), w)"
    "app_reply c r = reply_bytes i no_results (fst r) ()"
    using m reply_plain by (fastforce simp: app_reply_def dest!: plain_resultD)
  from f(1) obtain sel and h :: "'w handler" where sel: "(i, sel, h) \<in> set init_calls" "sel M = Some f" by (rule provided_some)
  have "app_number c = i" "0 < i" "i < GCK_RPC_CALL_MAX" "call_signature i GCK_RPC_REQUEST = Some ''uMu''"
    using client_number [OF _ client_signatures(5), of i] v InitCall by auto
  note n = this(2-4) and net = net [unfolded this(1)]
  show "served D cn s net b4 w (app_reply c r) later ns"
    by (rule servedI [where F = "f session (sent_mechanism mech) key", OF D(1,4) n net f(2,3)])
      (use v InitCall dispatch_init [where sel = sel and h = h and f = f and c = cn, OF D(1,3) _ _ _ sel(2)] mechanism_valid_sent sel(1) in auto)
qed

lemma serves_final:
  fixes s :: "'w Dispatcher"
  assumes D: "env_ok D" "memory_ok D" "pkcs11_module D = Some M" "daemon_ready cn s b4"
    and v: "app_valid c" and FinalCall: "c = FinalCall i session arr room"
  shows "serves D M cn s b4 c"
  unfolding serves_def
proof (intro allI impI)
  fix r w net later ns
  assume m: "module_run M c (world s) = Some (r, w)"
    and net: "carries net (request_bytes (app_number c) (app_arguments c)) later (app_reply c r) ns"
  from FinalCall obtain f where f: "provided final_calls i M = Some f"
    "f session (fst (byte_buffer_arg_view (arr, Some room))) (snd (byte_buffer_arg_view (arr, Some room))) (world s) = (fst r, snd r, w)"
    "app_reply c r = reply_bytes i bytes_result (fst r) (snd r)"
    using m by (fastforce simp: app_reply_def daemon_array_view dest!: bytes_givenD)
  from f(1) obtain sel and h :: "'w handler" where sel: "(i, sel, h) \<in> set final_calls" "sel M = Some f" by (rule provided_some)
  have "app_number c = i" "0 < i" "i < GCK_RPC_CALL_MAX" "call_signature i GCK_RPC_REQUEST = Some ''ufy''"
    using client_number [OF _ client_signatures(6), of i] v FinalCall by auto
  note n = this(2-4) and net = net [unfolded this(1)]
  show "served D cn s net b4 w (app_reply c r) later ns"
    by (rule servedI [
        where F = "f session (fst (byte_buffer_arg_view (arr, Some room))) (snd (byte_buffer_arg_view (arr, Some room)))", 
        OF D(1,4) n net f(2,3)])
      (use v FinalCall dispatch_final [where sel = sel and h = h and f = f and c = cn, OF D(1-3) _ _ _ sel(2), where out = "(arr, Some room)"] sel(1) room_valid in auto)
qed

lemma serves_data:
  fixes s :: "'w Dispatcher"
  assumes D: "env_ok D" "memory_ok D" "pkcs11_module D = Some M" "daemon_ready cn s b4"
    and v: "app_valid c" and DataCall: "c = DataCall i session dat n arr room"
  shows "serves D M cn s b4 c"
  unfolding serves_def
proof (intro allI impI)
  fix r w net later ns
  assume m: "module_run M c (world s) = Some (r, w)"
    and net: "carries net (request_bytes (app_number c) (app_arguments c)) later (app_reply c r) ns"
  from DataCall obtain f where f: "provided data_calls i M = Some f"
    "f session dat n (fst (byte_buffer_arg_view (arr, Some room))) (snd (byte_buffer_arg_view (arr, Some room))) (world s) = (fst r, snd r, w)"
    "app_reply c r = reply_bytes i bytes_result (fst r) (snd r)"
    using m by (fastforce simp: app_reply_def daemon_array_view dest!: bytes_givenD)
  from f(1) obtain sel and h :: "'w handler" where sel: "(i, sel, h) \<in> set data_calls" "sel M = Some f" by (rule provided_some)
  have "app_number c = i" "0 < i" "i < GCK_RPC_CALL_MAX" "call_signature i GCK_RPC_REQUEST = Some ''uayfy''"
    using client_number [OF _ client_signatures(7), of i] v DataCall by auto
  note n = this(2-4) and net = net [unfolded this(1)]
  show "served D cn s net b4 w (app_reply c r) later ns"
    by (rule servedI [
        where F = "f session dat n (fst (byte_buffer_arg_view (arr, Some room))) (snd (byte_buffer_arg_view (arr, Some room)))", 
        OF D(1,4) n net f(2,3)])
      (use v DataCall dispatch_data [where sel = sel and h = h and f = f and c = cn, OF D(1-3) _ _ _ sel(2), where dat = "(dat, n)" and out = "(arr, Some room)"] sel(1) room_valid in auto)
qed

lemma serves_login:
  fixes s :: "'w Dispatcher"
  assumes D: "env_ok D" "memory_ok D" "pkcs11_module D = Some M" "daemon_ready cn s b4"
    and v: "app_valid c" and LoginCall: "c = LoginCall session user_type pin n"
  shows "serves D M cn s b4 c"
  unfolding serves_def
proof (intro allI impI)
  fix r w net later ns
  assume m: "module_run M c (world s) = Some (r, w)"
    and net: "carries net (request_bytes (app_number c) (app_arguments c)) later (app_reply c r) ns"
  from LoginCall obtain f where f: "C_Login M = Some f" "f session user_type pin n (world s) = (fst r, (), w)"
    "app_reply c r = reply_bytes GCK_RPC_CALL_C_Login no_results (fst r) ()"
    using m reply_plain by (fastforce simp: app_reply_def dest!: plain_resultD)
  have "app_number c = GCK_RPC_CALL_C_Login" using LoginCall by simp
  note net = net [unfolded this]
  show "served D cn s net b4 w (app_reply c r) later ns"
    by (rule servedI [where F = "f session user_type pin n", OF D(1,4) _ _ client_single_signatures(1) net f(2,3)])
      (use v LoginCall dispatch_login [OF D(1,3) _ _ _ f(1), where pin = "(pin, n)"] mechanism_valid_sent in auto)
qed

lemma serves_digest_init:
  fixes s :: "'w Dispatcher"
  assumes D: "env_ok D" "memory_ok D" "pkcs11_module D = Some M" "daemon_ready cn s b4"
    and v: "app_valid c" and DigestInitCall: "c = DigestInitCall session mech"
  shows "serves D M cn s b4 c"
  unfolding serves_def
proof (intro allI impI)
  fix r w net later ns
  assume m: "module_run M c (world s) = Some (r, w)"
    and net: "carries net (request_bytes (app_number c) (app_arguments c)) later (app_reply c r) ns"
  from DigestInitCall obtain f where f: "C_DigestInit M = Some f" "f session (sent_mechanism mech) (world s) = (fst r, (), w)"
    "app_reply c r = reply_bytes GCK_RPC_CALL_C_DigestInit no_results (fst r) ()"
    using m reply_plain by (fastforce simp: app_reply_def dest!: plain_resultD)
  have "app_number c = GCK_RPC_CALL_C_DigestInit" using DigestInitCall by simp
  note net = net [unfolded this]
  show "served D cn s net b4 w (app_reply c r) later ns"
    by (rule servedI [where F = "f session (sent_mechanism mech)", OF D(1,4) _ _ client_single_signatures(3) net f(2,3)])
      (use v DigestInitCall dispatch_digest_init [OF D(1,3) _ _ _ f(1)] mechanism_valid_sent in auto)
qed

lemma serves_set_state:
  fixes s :: "'w Dispatcher"
  assumes D: "env_ok D" "memory_ok D" "pkcs11_module D = Some M" "daemon_ready cn s b4"
    and v: "app_valid c" and SetStateCall: "c = SetStateCall session dat n ekey akey"
  shows "serves D M cn s b4 c"
  unfolding serves_def
proof (intro allI impI)
  fix r w net later ns
  assume m: "module_run M c (world s) = Some (r, w)"
    and net: "carries net (request_bytes (app_number c) (app_arguments c)) later (app_reply c r) ns"
  from SetStateCall obtain f where f: "C_SetOperationState M = Some f" "f session dat n ekey akey (world s) = (fst r, (), w)"
    "app_reply c r = reply_bytes GCK_RPC_CALL_C_SetOperationState no_results (fst r) ()"
    using m reply_plain by (fastforce simp: app_reply_def dest!: plain_resultD)
  have "app_number c = GCK_RPC_CALL_C_SetOperationState" using SetStateCall by simp
  note net = net [unfolded this]
  show "served D cn s net b4 w (app_reply c r) later ns"
    by (rule servedI [where F = "f session dat n ekey akey", OF D(1,4) _ _ client_single_signatures(5) net f(2,3)])
      (use v SetStateCall dispatch_set_state [OF D(1,3) _ _ _ f(1), where dat = "(dat, n)"] mechanism_valid_sent in auto)
qed

lemma served_call:
  fixes s :: "'w Dispatcher"
  assumes D: "env_ok D" "memory_ok D" "pkcs11_module D = Some M" "daemon_ready cn s b4"
    and v: "app_valid c" and m: "module_run M c (world s) = Some (r, w)"
    and net: "carries net (app_request c) later (app_reply c r) ns"
  shows "served D cn s net b4 w (app_reply c r) later ns"
proof -
  have "serves D M cn s b4 c"
    by (cases c) (erule serves_session [OF D v] serves_pair [OF D v] serves_update [OF D v] serves_two_array [OF D v] serves_init [OF D v] serves_final [OF D v] serves_data [OF D v] serves_login [OF D v] serves_digest_init [OF D v] serves_set_state [OF D v])+
  then show ?thesis using m net by (simp add: serves_def app_request_def)
qed

text \<open>The lengths that the module returns have 32 bits, as the protocol has it.\<close>

definition short_result :: "app_result \<Rightarrow> bool" where
  "short_result r \<longleftrightarrow> (case snd (snd r) of None \<Rightarrow> True | Some n \<Rightarrow> unat n < 2 ^ 32)"

definition array_returned :: "AppCall \<Rightarrow> app_result \<Rightarrow> bool" where
  "array_returned c r \<longleftrightarrow>
     (case app_array c of None \<Rightarrow> True | Some (arr, room) \<Rightarrow> bytes_returned arr room (fst r) (snd r))"

lemma contract_returned:
  assumes "bytes_contract g" "g (daemon_array arr room) (Some room) w0 = (fst r, snd r, w)" "short_result r"
  shows "bytes_returned arr room (fst r) (snd r)"
  using assms(1) [unfolded bytes_contract_def, THEN spec, THEN spec, THEN spec,
      of "daemon_array arr room" "Some room" w0, unfolded assms(2)] assms(3)
  unfolding bytes_returned_def short_result_def by (cases arr; cases "snd r") (auto split: option.splits)

lemma module_run_returned:
  fixes M :: "'w CK_FUNCTION_LIST"
  assumes M: "module_ok M" and m: "module_run M c w0 = Some (r, w)" and r: "short_result r"
  shows "array_returned c r"
proof (cases c)
  case (FinalCall i session arr room)
  then obtain f where f: "provided final_calls i M = Some f"
    "f session (daemon_array arr room) (Some room) w0 = (fst r, snd r, w)"
    using m by (fastforce dest!: bytes_givenD)
  from f(1) obtain sel and h :: "'w handler" where "(i, sel, h) \<in> set final_calls" "sel M = Some f" by (rule provided_some)
  then have "bytes_contract (f session)" by (rule final_calls_contract [OF M])
  from contract_returned [OF this f(2) r] show ?thesis using FinalCall by (simp add: array_returned_def)
next
  case (DataCall i session dat n arr room)
  then obtain f where f: "provided data_calls i M = Some f"
    "f session dat n (daemon_array arr room) (Some room) w0 = (fst r, snd r, w)"
    using m by (fastforce dest!: bytes_givenD)
  from f(1) obtain sel and h :: "'w handler" where "(i, sel, h) \<in> set data_calls" "sel M = Some f" by (rule provided_some)
  then have "bytes_contract (f session dat n)" by (rule data_calls_contract [OF M])
  from contract_returned [OF this f(2) r] show ?thesis using DataCall by (simp add: array_returned_def)
qed (simp_all add: array_returned_def)

text \<open>The client returns what the application should see, and its connection is ready for the next call.\<close>

definition call_returns ::
  "Client_Env \<Rightarrow> Client \<Rightarrow> ClientCall \<Rightarrow> block \<Rightarrow> block \<Rightarrow> CK_RV \<times> 'o \<Rightarrow> (CK_RV \<times> 'o \<times> Client) outcome \<Rightarrow> bool" where
  "call_returns E C cs q left res o_res \<longleftrightarrow>
     (\<exists>cs'. o_res = Ret (fst res, snd res, returned C cs' (fst res)) \<and> open_call cs' \<and> call_roomy E cs' \<and>
        exchanged cs q left cs')"

lemma remote_result_call_returns:
  "remote_result (memory_for E cs q rep) E C cs q left mem res o_res \<Longrightarrow> memory_for E cs q rep \<Longrightarrow>
   call_returns E C cs q left res o_res"
  by (auto simp: remote_result_def call_returns_def exchanged_in_def)

lemma no_memory_returns:
  "call_returns E C cs q left (ret, ()) o_res \<Longrightarrow>
   \<exists>cs'. no_memory o_res = Ret ((ret, None, None), returned C cs' ret) \<and> open_call cs' \<and> call_roomy E cs' \<and>
     exchanged cs q left cs'"
  by (auto simp: call_returns_def no_memory_def)

lemma with_memory_returns:
  "call_returns E C cs q left r o_res \<Longrightarrow>
   \<exists>cs'. with_memory o_res = Ret (r, returned C cs' (fst r)) \<and> open_call cs' \<and> call_roomy E cs' \<and>
     exchanged cs q left cs'"
  by (auto simp: call_returns_def with_memory_def)

definition returns_to :: "Client_Env \<Rightarrow> Client \<Rightarrow> ClientCall \<Rightarrow> AppCall \<Rightarrow> bool" where
  "returns_to E C cs c \<longleftrightarrow>
     (\<forall>r left. array_returned c r \<longrightarrow> memory_for E cs (app_request c) (app_reply c r) \<longrightarrow>
        accepts (sends (cl_net cs)) [4, length (app_request c)] \<longrightarrow>
        incoming (input (cl_net cs)) = frame (app_reply c r) @ left \<longrightarrow>
        (\<exists>cs'. app_run E c C = Ret (app_seen c r, returned C cs' (fst (app_seen c r))) \<and> open_call cs' \<and>
           call_roomy E cs' \<and> exchanged cs (app_request c) left cs'))"

lemma plain_returns:
  assumes C: "client_ready C cs" and E: "egg_allocator (alloc_run (ce_realloc E))"
    and i: "0 < i" "i < GCK_RPC_CALL_MAX" "call_signature i GCK_RPC_REQUEST = Some qsig"
      "call_signature i GCK_RPC_RESPONSE = Some []"
    and c: "app_number c = i" "app_array c = None"
    and ins: "writes_in i qsig (app_arguments c) () ins"
    and run: "app_run E c C = no_memory (CL_BEGIN_CALL E i () C (\<lambda>cs. ins cs (\<lambda>cs.
      CL_PROCESS_CALL E () cs (CL_END_CALL CKR_OK ()))))"
  shows "returns_to E C cs c"
  unfolding returns_to_def
proof (intro allI impI)
  fix r left
  assume mem: "memory_for E cs (app_request c) (app_reply c r)"
    and out: "accepts (sends (cl_net cs)) [4, length (app_request c)]"
    and inp: "incoming (input (cl_net cs)) = frame (app_reply c r) @ left"
  have q: "app_request c = request_bytes i (app_arguments c)" and rep: "app_reply c r = reply_bytes i no_results (fst r) (snd r)"
    using c by (simp_all add: app_request_def app_reply_def)
  show "\<exists>cs'. app_run E c C = Ret (app_seen c r, returned C cs' (fst (app_seen c r))) \<and> open_call cs' \<and>
      call_roomy E cs' \<and> exchanged cs (app_request c) left cs'"
    using no_memory_returns [OF remote_result_call_returns [OF plain_reply [OF C E i ins q out rep inp] mem]] run c(2)
    by (simp add: app_seen_def)
qed

lemma bytes_returns:
  assumes C: "client_ready C cs" and E: "egg_allocator (alloc_run (ce_realloc E))"
    and i: "0 < i" "i < GCK_RPC_CALL_MAX" "call_signature i GCK_RPC_REQUEST = Some qsig"
      "call_signature i GCK_RPC_RESPONSE = Some ''ay''"
    and c: "app_number c = i" "app_array c = Some (arr, room)" and room: "room_ok arr room"
    and ins: "writes_in i qsig (app_arguments c) (arr, Some room) ins"
    and run: "app_run E c C = with_memory (CL_BEGIN_CALL E i (arr, Some room) C (\<lambda>cs. ins cs (\<lambda>cs.
      CL_PROCESS_CALL E (arr, Some room) cs (\<lambda>cs.
      CL_OUT_BYTE_ARRAY (arr, Some room) CKR_OK cs (\<lambda>ret mem cs. CL_END_CALL ret mem cs)))))"
  shows "returns_to E C cs c"
  unfolding returns_to_def
proof (intro allI impI)
  fix r left
  assume r: "array_returned c r" and mem: "memory_for E cs (app_request c) (app_reply c r)"
    and out: "accepts (sends (cl_net cs)) [4, length (app_request c)]"
    and inp: "incoming (input (cl_net cs)) = frame (app_reply c r) @ left"
  have q: "app_request c = request_bytes i (app_arguments c)" and rep: "app_reply c r = reply_bytes i bytes_result (fst r) (snd r)"
    and x: "bytes_returned arr room (fst r) (snd r)"
    using c r by (simp_all add: app_request_def app_reply_def array_returned_def)
  show "\<exists>cs'. app_run E c C = Ret (app_seen c r, returned C cs' (fst (app_seen c r))) \<and> open_call cs' \<and>
      call_roomy E cs' \<and> exchanged cs (app_request c) left cs'"
    using with_memory_returns [OF remote_result_call_returns [OF bytes_reply [OF C E i ins room q out x rep inp] mem]] run c(2)
    by (simp add: app_seen_def)
qed

lemma returns_session:
  assumes C: "client_ready C cs" and E: "egg_allocator (alloc_run (ce_realloc E))" and init: "pkcs11_initialized C"
    and v: "app_valid c" and SessionCall: "c = SessionCall i session"
  shows "returns_to E C cs c"
proof -
  from SessionCall obtain cl where tbl: "map_of client_session_calls i = Some cl" using v by auto
  note cl = map_of_SomeD [OF tbl]
  have "writes_in i ''u'' (app_arguments c) () (CL_IN_ULONG session ())"
    using writes_in_ulong [of i session "()"] v SessionCall by simp
  then show ?thesis
    by (rule plain_returns [OF C E has_signaturesD [OF client_signatures(1) cl], rotated -2])
      (use v in \<open>simp_all add: SessionCall called_def tbl client_session_call [OF cl init]\<close>)
qed

lemma returns_pair:
  assumes C: "client_ready C cs" and E: "egg_allocator (alloc_run (ce_realloc E))" and init: "pkcs11_initialized C"
    and v: "app_valid c" and PairCall: "c = PairCall i session object"
  shows "returns_to E C cs c"
proof -
  from PairCall obtain cl where tbl: "map_of client_pair_calls i = Some cl" using v by auto
  note cl = map_of_SomeD [OF tbl]
  have "writes_in i ''uu'' (app_arguments c) () (\<lambda>cs k. CL_IN_ULONG session () cs (\<lambda>cs. CL_IN_ULONG object () cs k))"
    using writes_in_then [OF writes_in_ulong [of i session "()"] writes_in_ulong [of i object "()"]] v PairCall by simp
  then show ?thesis
    by (rule plain_returns [OF C E has_signaturesD [OF client_signatures(2) cl], rotated -2])
      (use v in \<open>simp_all add: PairCall called_def tbl client_pair_call [OF cl init]\<close>)
qed

lemma returns_update:
  assumes C: "client_ready C cs" and E: "egg_allocator (alloc_run (ce_realloc E))" and init: "pkcs11_initialized C"
    and v: "app_valid c" and UpdateCall: "c = UpdateCall i session dat n"
  shows "returns_to E C cs c"
proof -
  from UpdateCall obtain cl where tbl: "map_of client_update_calls i = Some cl" using v by auto
  note cl = map_of_SomeD [OF tbl]
  have "writes_in i ''uay'' (app_arguments c) () (\<lambda>cs k. CL_IN_ULONG session () cs (\<lambda>cs. CL_IN_BYTE_ARRAY dat n () cs k))"
    using writes_in_then [OF writes_in_ulong [of i session "()"] writes_in_byte_array [of dat n i "()"]] v UpdateCall by simp
  then show ?thesis
    by (rule plain_returns [OF C E has_signaturesD [OF client_signatures(3) cl], rotated -2])
      (use v in \<open>simp_all add: UpdateCall called_def tbl client_update_call [OF cl init]\<close>)
qed

lemma returns_two_array:
  assumes C: "client_ready C cs" and E: "egg_allocator (alloc_run (ce_realloc E))" and init: "pkcs11_initialized C"
    and v: "app_valid c" and TwoArrayCall: "c = TwoArrayCall i session dat n dat' n'"
  shows "returns_to E C cs c"
proof -
  from TwoArrayCall obtain cl where tbl: "map_of client_two_array_calls i = Some cl" using v by auto
  note cl = map_of_SomeD [OF tbl]
  have "writes_in i ''uayay'' (app_arguments c) () (\<lambda>cs k. CL_IN_ULONG session () cs (\<lambda>cs.
      CL_IN_BYTE_ARRAY dat n () cs (\<lambda>cs. CL_IN_BYTE_ARRAY dat' n' () cs k)))"
    using writes_in_then [OF writes_in_ulong [of i session "()"] writes_in_then [OF writes_in_byte_array [of dat n i "()"] writes_in_byte_array [of dat' n' i "()"]]] v TwoArrayCall by simp
  then show ?thesis
    by (rule plain_returns [OF C E has_signaturesD [OF client_signatures(4) cl], rotated -2])
      (use v in \<open>simp_all add: TwoArrayCall called_def tbl client_two_array_call [OF cl init]\<close>)
qed

lemma returns_init:
  assumes C: "client_ready C cs" and E: "egg_allocator (alloc_run (ce_realloc E))" and init: "pkcs11_initialized C"
    and v: "app_valid c" and InitCall: "c = InitCall i session mech key"
  shows "returns_to E C cs c"
proof -
  from InitCall obtain cl where tbl: "map_of client_init_calls i = Some cl" using v by auto
  note cl = map_of_SomeD [OF tbl]
  have "writes_in i ''uMu'' (app_arguments c) () (\<lambda>cs k. CL_IN_ULONG session () cs (\<lambda>cs.
      CL_IN_MECHANISM (Some mech) () cs (\<lambda>cs. CL_IN_ULONG key () cs k)))"
    using writes_in_then [OF writes_in_ulong [of i session "()"] writes_in_then [OF writes_in_mechanism [of mech i "()"] writes_in_ulong [of i key "()"]]] v InitCall by simp
  then show ?thesis
    by (rule plain_returns [OF C E has_signaturesD [OF client_signatures(5) cl], rotated -2])
      (use v in \<open>simp_all add: InitCall called_def tbl client_init_call [OF cl init]\<close>)
qed

lemma returns_final:
  assumes C: "client_ready C cs" and E: "egg_allocator (alloc_run (ce_realloc E))" and init: "pkcs11_initialized C"
    and v: "app_valid c" and FinalCall: "c = FinalCall i session arr room"
  shows "returns_to E C cs c"
proof -
  from FinalCall obtain cl where tbl: "map_of client_final_calls i = Some cl" using v by auto
  note cl = map_of_SomeD [OF tbl]
  have "writes_in i ''ufy'' (app_arguments c) (arr, Some room) (\<lambda>cs k. CL_IN_ULONG session (arr, Some room) cs (\<lambda>cs.
      CL_IN_BYTE_BUFFER arr (Some room) (arr, Some room) cs k))"
    using writes_in_then [OF writes_in_ulong [of i session "(arr, Some room)"] writes_in_byte_buffer [of i arr "Some room" "(arr, Some room)"]] v FinalCall by simp
  then show ?thesis
    by (rule bytes_returns [OF C E has_signaturesD [OF client_signatures(6) cl], rotated -2])
      (use v in \<open>simp_all add: FinalCall called_def tbl client_final_call [OF cl init]\<close>)
qed

lemma returns_data:
  assumes C: "client_ready C cs" and E: "egg_allocator (alloc_run (ce_realloc E))" and init: "pkcs11_initialized C"
    and v: "app_valid c" and DataCall: "c = DataCall i session dat n arr room"
  shows "returns_to E C cs c"
proof -
  from DataCall obtain cl where tbl: "map_of client_data_calls i = Some cl" using v by auto
  note cl = map_of_SomeD [OF tbl]
  have "writes_in i ''uayfy'' (app_arguments c) (arr, Some room) (\<lambda>cs k. CL_IN_ULONG session (arr, Some room) cs (\<lambda>cs.
      CL_IN_BYTE_ARRAY dat n (arr, Some room) cs (\<lambda>cs. CL_IN_BYTE_BUFFER arr (Some room) (arr, Some room) cs k)))"
    using writes_in_then [OF writes_in_ulong [of i session "(arr, Some room)"] writes_in_then [OF writes_in_byte_array [of dat n i "(arr, Some room)"] writes_in_byte_buffer [of i arr "Some room" "(arr, Some room)"]]] v DataCall by simp
  then show ?thesis
    by (rule bytes_returns [OF C E has_signaturesD [OF client_signatures(7) cl], rotated -2])
      (use v in \<open>simp_all add: DataCall called_def tbl client_data_call [OF cl init]\<close>)
qed

lemma returns_login:
  assumes C: "client_ready C cs" and E: "egg_allocator (alloc_run (ce_realloc E))" and init: "pkcs11_initialized C"
    and v: "app_valid c" and LoginCall: "c = LoginCall session user_type pin n"
  shows "returns_to E C cs c"
proof -
  have "writes_in (app_number c) ''uuay'' (app_arguments c) () (\<lambda>cs k. CL_IN_ULONG session () cs (\<lambda>cs. CL_IN_ULONG user_type () cs (\<lambda>cs. CL_IN_BYTE_ARRAY pin n () cs k)))"
    using writes_in_then [OF writes_in_ulong [of "app_number c" session "()"] writes_in_then [OF writes_in_ulong [of "app_number c" user_type "()"] writes_in_byte_array [of pin n "app_number c" "()"]]] v LoginCall by simp
  then show ?thesis
    by (rule plain_returns [OF C E _ _ _ _ refl, rotated -2])
      (use v in \<open>simp_all add: LoginCall client_single_signatures client_single_calls(1) [OF init]\<close>)
qed

lemma returns_digest_init:
  assumes C: "client_ready C cs" and E: "egg_allocator (alloc_run (ce_realloc E))" and init: "pkcs11_initialized C"
    and v: "app_valid c" and DigestInitCall: "c = DigestInitCall session mech"
  shows "returns_to E C cs c"
proof -
  have "writes_in (app_number c) ''uM'' (app_arguments c) () (\<lambda>cs k. CL_IN_ULONG session () cs (\<lambda>cs. CL_IN_MECHANISM (Some mech) () cs k))"
    using writes_in_then [OF writes_in_ulong [of "app_number c" session "()"] writes_in_mechanism [of mech "app_number c" "()"]] v DigestInitCall by simp
  then show ?thesis
    by (rule plain_returns [OF C E _ _ _ _ refl, rotated -2])
      (use v in \<open>simp_all add: DigestInitCall client_single_signatures client_single_calls(2) [OF init]\<close>)
qed

lemma returns_set_state:
  assumes C: "client_ready C cs" and E: "egg_allocator (alloc_run (ce_realloc E))" and init: "pkcs11_initialized C"
    and v: "app_valid c" and SetStateCall: "c = SetStateCall session dat n ekey akey"
  shows "returns_to E C cs c"
proof -
  have "writes_in (app_number c) ''uayuu'' (app_arguments c) () (\<lambda>cs k. CL_IN_ULONG session () cs (\<lambda>cs. CL_IN_BYTE_ARRAY dat n () cs (\<lambda>cs. CL_IN_ULONG ekey () cs (\<lambda>cs. CL_IN_ULONG akey () cs k))))"
    using writes_in_then [OF writes_in_ulong [of "app_number c" session "()"] writes_in_then [OF writes_in_byte_array [of dat n "app_number c" "()"] writes_in_then [OF writes_in_ulong [of "app_number c" ekey "()"] writes_in_ulong [of "app_number c" akey "()"]]]] v SetStateCall by simp
  then show ?thesis
    by (rule plain_returns [OF C E _ _ _ _ refl, rotated -2])
      (use v in \<open>simp_all add: SetStateCall client_single_signatures client_single_calls(3) [OF init]\<close>)
qed

lemma client_call:
  assumes C: "client_ready C cs" and E: "egg_allocator (alloc_run (ce_realloc E))"
    and v: "app_valid c" and r: "array_returned c r"
    and mem: "memory_for E cs (app_request c) (app_reply c r)"
    and out: "accepts (sends (cl_net cs)) [4, length (app_request c)]"
    and inp: "incoming (input (cl_net cs)) = frame (app_reply c r) @ left"
  shows "\<exists>cs'. app_run E c C = Ret (app_seen c r, returned C cs' (fst (app_seen c r))) \<and> open_call cs' \<and>
    call_roomy E cs' \<and> exchanged cs (app_request c) left cs'"
proof -
  have init: "pkcs11_initialized C" using C by (simp add: client_ready_def)
  have "returns_to E C cs c"
    by (cases c) (erule returns_session [OF C E init v] returns_pair [OF C E init v] returns_update [OF C E init v] returns_two_array [OF C E init v] returns_init [OF C E init v] returns_final [OF C E init v] returns_data [OF C E init v] returns_login [OF C E init v] returns_digest_init [OF C E init v] returns_set_state [OF C E init v])+
  then show ?thesis using r mem out inp unfolding returns_to_def by blast
qed

section \<open>A sequence of calls\<close>

fun app_runs :: "Client_Env \<Rightarrow> AppCall list \<Rightarrow> Client \<Rightarrow> (app_result list \<times> Client) outcome" where
  "app_runs E [] C = Ret ([], C)"
| "app_runs E (c # calls) C =
     obind (app_run E c C) (\<lambda>(r, C). obind (app_runs E calls C) (\<lambda>(rs, C). Ret (r # rs, C)))"

fun module_runs :: "'w CK_FUNCTION_LIST \<Rightarrow> AppCall list \<Rightarrow> 'w \<Rightarrow> (app_result list \<times> 'w) option" where
  "module_runs M [] w = Some ([], w)"
| "module_runs M (c # calls) w =
     (case module_run M c w of
        None \<Rightarrow> None
      | Some (r, w) \<Rightarrow> map_option (\<lambda>(rs, w). (r # rs, w)) (module_runs M calls w))"

text \<open>
  Calls and results that keep the limits of the protocol. A result that the client takes for a broken
  connection makes it open a new one for the next call, which a daemon answers with another thread and
  another table of sessions; it is excluded here.
\<close>

definition call_carried :: "AppCall \<Rightarrow> app_result \<Rightarrow> bool" where
  "call_carried c r \<longleftrightarrow>
     app_valid c \<and> short_result r \<and> length (app_request c) < 0x0FFFFFFF \<and> length (app_reply c r) < 0x7fffffff \<and>
     fst (app_seen c r) \<notin> {CKR_DEVICE_ERROR, CKR_DEVICE_REMOVED}"

text \<open>A connection on which the frames of \<open>ins\<close> arrive, and that takes the frames of \<open>outs\<close>.\<close>

definition wired :: "Net \<Rightarrow> block list \<Rightarrow> block list \<Rightarrow> block \<Rightarrow> bool" where
  "wired net ins outs later \<longleftrightarrow>
     incoming (input net) = concat (map frame ins) @ later \<and>
     accepts (sends net) (concat (map (\<lambda>xs. [4, length xs]) outs))"

lemma wired_Cons:
  "wired net (q # ins) (rep # outs) later \<longleftrightarrow>
     incoming (input net) = frame q @ concat (map frame ins) @ later \<and>
     accepts (sends net) ([4, length rep] @ concat (map (\<lambda>xs. [4, length xs]) outs))"
  by (simp add: wired_def)

lemma returned_ready:
  assumes "client_ready C cs" "open_call cs'" "ret \<notin> {CKR_DEVICE_ERROR, CKR_DEVICE_REMOVED}"
  shows "client_ready (returned C cs' ret) (cs'\<lparr>call_status := CALL_READY\<rparr>)"
  using assms by (auto simp: client_ready_def returned_def pooled_def open_call_def)

lemma accepts_first: "accepts ev (ms @ ns) \<Longrightarrow> accepts ev ms"
  by (induction ev ms rule: accepts.induct) (auto split: option.splits)

text \<open>The rounds of the daemon's loop.\<close>

lemma daemon_runs:
  fixes s :: "'w Dispatcher"
  assumes D: "env_ok D" "memory_ok D" "pkcs11_module D = Some M"
  shows "daemon_ready cn s b4 \<Longrightarrow> module_runs M calls (world s) = Some (rs, w) \<Longrightarrow>
    list_all2 call_carried calls rs \<Longrightarrow>
    wired net (map app_request calls) (map2 app_reply calls rs) later \<Longrightarrow>
    \<exists>s' net' b4'. dispatch_loop D s net b4 = dispatch_loop D s' net' b4' \<and> daemon_ready cn s' b4' \<and>
      world s' = w \<and> sessions s' = sessions s \<and>
      sent net' = sent net @ concat (map frame (map2 app_reply calls rs)) \<and> incoming (input net') = later"
proof (induction calls arbitrary: s net b4 rs)
  case Nil
  then show ?case by (auto simp: wired_def)
next
  case (Cons c calls)
  obtain r rs' w1 where m: "module_run M c (world s) = Some (r, w1)" "module_runs M calls w1 = Some (rs', w)" "rs = r # rs'"
    using Cons.prems(2) by (auto split: option.splits)
  have ok: "call_carried c r" "list_all2 call_carried calls rs'" using Cons.prems(3) m(3) by auto
  note n = Cons.prems(4) [unfolded m(3) list.map zip_Cons_Cons prod.case wired_Cons]
  have "served D cn s net b4 w1 (app_reply c r) (concat (map frame (map app_request calls)) @ later)
      (concat (map (\<lambda>xs. [4, length xs]) (map2 app_reply calls rs')))"
    by (rule served_call [OF D Cons.prems(1) _ m(1)]) (use ok(1) n in \<open>simp_all add: carries_def call_carried_def\<close>)
  then obtain s1 net1 b1 where d: "dispatch_round D s net b4 = Ret (True, s1, net1, b1)" "world s1 = w1"
    "sessions s1 = sessions s" "sent net1 = sent net @ frame (app_reply c r)" "daemon_ready cn s1 b1"
    "wired net1 (map app_request calls) (map2 app_reply calls rs') later"
    by (auto simp: served_def wired_def)
  have "dispatch_loop D s net b4 = dispatch_loop D s1 net1 b1"
    by (subst dispatch_loop.simps) (simp add: d(1))
  moreover have "module_runs M calls (world s1) = Some (rs', w)" using d(2) m(2) by simp
  ultimately show ?case using Cons.IH [OF d(5) _ ok(2) d(6)] d(3,4) m(3) by auto
qed

text \<open>The calls of the application.\<close>

lemma client_runs:
  assumes E: "egg_allocator (alloc_run (ce_realloc E))"
  shows "client_ready C cs \<Longrightarrow> call_roomy E cs \<Longrightarrow> list_all2 call_carried calls rs \<Longrightarrow>
    list_all2 array_returned calls rs \<Longrightarrow>
    wired (cl_net cs) (map2 app_reply calls rs) (map app_request calls) left \<Longrightarrow>
    \<exists>C' cs'. app_runs E calls C = Ret (map2 app_seen calls rs, C') \<and> client_ready C' cs' \<and> call_roomy E cs' \<and>
      sent (cl_net cs') = sent (cl_net cs) @ concat (map frame (map app_request calls)) \<and>
      incoming (input (cl_net cs')) = left"
proof (induction calls arbitrary: C cs rs)
  case Nil
  then show ?case by (auto simp: wired_def)
next
  case (Cons c calls)
  obtain r rs' where rs: "rs = r # rs'" using Cons.prems(3) by (auto simp: list_all2_Cons1)
  have ok: "call_carried c r" "list_all2 call_carried calls rs'" "array_returned c r" "list_all2 array_returned calls rs'"
    using Cons.prems(3,4) rs by auto
  note n = Cons.prems(5) [unfolded rs list.map zip_Cons_Cons prod.case wired_Cons]
  have out: "accepts (sends (cl_net cs)) [4, length (app_request c)]" by (rule accepts_first [OF conjunct2 [OF n]])
  have "\<exists>cs1. app_run E c C = Ret (app_seen c r, returned C cs1 (fst (app_seen c r))) \<and> open_call cs1 \<and>
      call_roomy E cs1 \<and> exchanged cs (app_request c) (concat (map frame (map2 app_reply calls rs')) @ left) cs1"
    by (rule client_call [OF Cons.prems(1) E _ ok(3) _ out])
      (use Cons.prems(2) ok(1) n in \<open>auto simp: call_carried_def\<close>)
  then obtain cs1 where c: "app_run E c C = Ret (app_seen c r, returned C cs1 (fst (app_seen c r)))" "open_call cs1"
    "call_roomy E cs1" "exchanged cs (app_request c) (concat (map frame (map2 app_reply calls rs')) @ left) cs1"
    by blast
  let ?cs = "cs1\<lparr>call_status := CALL_READY\<rparr>" and ?C = "returned C cs1 (fst (app_seen c r))"
  have "wired (cl_net ?cs) (map2 app_reply calls rs') (map app_request calls) left"
    "sent (cl_net ?cs) = sent (cl_net cs) @ frame (app_request c)"
    using c(4) n by (auto simp: exchanged_def still_accepts_def wired_def)
  moreover have "client_ready ?C ?cs"
    using returned_ready [OF Cons.prems(1) c(2)] ok(1) by (simp add: call_carried_def)
  moreover have "call_roomy E ?cs" using c(3) by (simp add: call_roomy_def)
  ultimately show ?case using Cons.IH [of ?C ?cs rs'] ok(2,4) c(1) rs by auto
qed

lemma module_runs_returned:
  "module_ok M \<Longrightarrow> module_runs M calls w0 = Some (rs, w) \<Longrightarrow> list_all2 call_carried calls rs \<Longrightarrow>
   list_all2 array_returned calls rs"
  by (induction calls arbitrary: w0 rs)
    (auto simp: call_carried_def list_all2_Cons1 module_run_returned split: option.splits)

section \<open>A connection from its start to its end\<close>

text \<open>When nothing comes any more, the loop ends.\<close>

lemma dispatch_loop_end:
  assumes D: "env_ok D" and s: "daemon_ready cn s b4" and inp: "incoming (input net) = []"
  shows "\<exists>s1 s' net'. dispatch_loop D s net b4 = Ret (s', net') \<and> call_uninit D s1 = Ret s' \<and>
    idle cn s1 \<and> world s1 = world s \<and> sessions s1 = sessions s \<and> conn s' = cn \<and> req s' = Freed \<and> resp s' = Freed \<and>
    sent net' = sent net"
proof -
  have sv: "idle cn s" "length b4 = 4" "sock s \<ge> 0" "\<not> use_tls s" "io s = SocketIo"
    using s by (auto simp: daemon_ready_def serving_def)
  obtain s1 where s1: "call_reset s = Ret s1" "fresh cn s1" using wp_call_reset [OF sv(1)] by (auto simp: wp_iff)
  note k = call_reset_keeps [OF s1(1)]
  have io1: "sock s1 \<ge> 0" "io s1 = SocketIo" "\<not> use_tls s1" using k sv by (auto simp: conn_def)
  have "b4 \<noteq> []" using sv(2) by auto
  then obtain xs net1 where "cs_read s1 net b4 = Ret (False, xs, net1)" "sent net1 = sent net"
    using recv_loop_closed [OF inp, of 3] io1 sv(2)
    by (cases "recv_loop False (input net) 4") (auto simp: cs_read_def read_all_def)
  then have "dispatch_loop D s net b4 = obind (call_uninit D s1) (\<lambda>s. Ret (s, net1))"
    by (subst dispatch_loop.simps) (simp add: dispatch_round_def s1(1))
  moreover obtain s' where "call_uninit D s1 = Ret s'" "conn s' = cn" "req s' = Freed" "resp s' = Freed"
    using wp_call_uninit [OF D, of cn s1] s1(2) by (auto simp: wp_iff fresh_def)
  ultimately show ?thesis using k s1(2) \<open>sent net1 = sent net\<close> by (auto simp: fresh_def)
qed

text \<open>
  A new connection, on which the client sends the eight bytes of its identifier first: the loop is
  reached with that identifier.
\<close>

lemma run_dispatch_loop_begin:
  assumes D: "egg_allocator (alloc_run (c_realloc D))" "ample (c_realloc D)"
    and s: "connected s" "io s = SocketIo" "length b4 = 4"
    and inp: "incoming (input net) = ident @ later" "length ident = 8"
  shows "\<exists>s1 ev. run_dispatch_loop D s net b4 = dispatch_loop D s1 (net\<lparr>input := ev\<rparr>) b4 \<and> incoming ev = later \<and>
    daemon_ready (bytes_appid ident, sock s, SocketIo, False) s1 b4 \<and> world s1 = world s \<and> sessions s1 = sessions s"
proof -
  have fd: "sock s \<ge> 0" "\<not> use_tls s" "length (sessions s) = 256" "peers_ok s"
    using s(1) by (auto simp: connected_def)
  obtain ev where rd: "read_all s net (appid_bytes (appid s)) = Ret (True, ident, net\<lparr>input := ev\<rparr>)" "incoming ev = later"
    using read_all_arrived [OF appid_bytes_nonempty fd(1,2) inp(1), of "appid s"] inp(2) by (auto simp: appid_bytes_def)
  let ?s = "s\<lparr>appid := bytes_appid ident\<rparr>"
  obtain s1 where i: "call_init D ?s = Ret (True, s1)" "daemon_roomy s1" using call_init_roomy [OF D] by blast
  have k: "conn s1 = conn ?s" "idle (conn ?s) s1"
    using wp_call_init [OF D(1) refl, of ?s] i(1) fd by (auto simp: peers_ok_def)
  have "world s1 = world s" "sessions s1 = sessions s"
    using i(1) by (auto simp: call_init_def obind_eq_Ret Let_def split: option.splits if_splits)
  moreover have "daemon_ready (bytes_appid ident, sock s, SocketIo, False) s1 b4"
    using k i(2) fd s by (auto simp: daemon_ready_def serving_def conn_def)
  moreover have "run_dispatch_loop D s net b4 = dispatch_loop D s1 (net\<lparr>input := ev\<rparr>) b4"
    using rd(1) i(1) fd s(2) by (simp add: run_dispatch_loop_def cs_read_def Let_def)
  ultimately show ?thesis using rd(2) by blast
qed

lemma thread_runs:
  fixes s :: "'w Dispatcher"
  assumes D: "env_ok D" "memory_ok D" "pkcs11_module D = Some M"
    and al: "egg_allocator (alloc_run (c_realloc D))" "ample (c_realloc D)"
    and s: "connected s" "io s = SocketIo" "length b4 = 4" "install_filter False = 0"
    and m: "module_runs M calls (world s) = Some (rs, w)" "list_all2 call_carried calls rs"
    and net: "incoming (input net) = ident @ concat (map frame (map app_request calls))" "length ident = 8"
      "accepts (sends net) (concat (map (\<lambda>xs. [4, length xs]) (map2 app_reply calls rs)))"
  shows "\<exists>s1 s' net'. run_dispatch_thread D install_filter s net b4 = Ret (s'\<lparr>sock := - 1\<rparr>, net') \<and>
    call_uninit D s1 = Ret s' \<and> world s1 = w \<and> sessions s1 = sessions s \<and>
    appid s' = bytes_appid ident \<and> req s' = Freed \<and> resp s' = Freed \<and>
    sent net' = sent net @ concat (map frame (map2 app_reply calls rs))"
proof -
  obtain s1 ev where b: "run_dispatch_loop D s net b4 = dispatch_loop D s1 (net\<lparr>input := ev\<rparr>) b4"
    "incoming ev = concat (map frame (map app_request calls))" and
    s1: "daemon_ready (bytes_appid ident, sock s, SocketIo, False) s1 b4" "world s1 = world s" "sessions s1 = sessions s"
    using run_dispatch_loop_begin [OF al s(1-3) net(1,2)] by blast
  have "wired (net\<lparr>input := ev\<rparr>) (map app_request calls) (map2 app_reply calls rs) []"
    using b(2) net(3) by (simp add: wired_def)
  from daemon_runs [OF D s1(1) _ m(2) this] m(1) s1(2)
  obtain s2 net2 b2 where l: "dispatch_loop D s1 (net\<lparr>input := ev\<rparr>) b4 = dispatch_loop D s2 net2 b2"
    "daemon_ready (bytes_appid ident, sock s, SocketIo, False) s2 b2" "world s2 = w" "sessions s2 = sessions s1"
    "sent net2 = sent net @ concat (map frame (map2 app_reply calls rs))" "incoming (input net2) = []"
    by auto
  from dispatch_loop_end [OF D(1) l(2,6)]
  obtain s3 s' net' where e: "dispatch_loop D s2 net2 b2 = Ret (s', net')" "call_uninit D s3 = Ret s'"
    "world s3 = w" "sessions s3 = sessions s" "conn s' = (bytes_appid ident, sock s, SocketIo, False)"
    "req s' = Freed" "resp s' = Freed" "sent net' = sent net @ concat (map frame (map2 app_reply calls rs))"
    using l(3-5) s1(3) by auto
  have "sock s \<ge> 0" "\<not> use_tls s" using s(1) by (auto simp: connected_def)
  then have "run_dispatch_thread D install_filter s net b4 = Ret (s'\<lparr>sock := - 1\<rparr>, net')"
    using b(1) l(1) e(1,5) s(4) by (auto simp: run_dispatch_thread_def conn_def)
  then show ?thesis using e by (auto simp: conn_def)
qed

section \<open>A connection from the client's side\<close>

lemma appid_step:
  "(ucast (ucast (drop_bit k v :: u64) :: 8 word) :: u64) + push_bit 8 (drop_bit (k + 8) v) = drop_bit k v"
proof -
  have "(ucast (ucast (drop_bit k v) :: 8 word) :: u64) = take_bit 8 (drop_bit k v)"
    by (rule bit_word_eqI) (auto simp: bit_simps)
  then show ?thesis using bits_ident [of 8 "drop_bit k v"] by (simp add: ac_simps)
qed

lemma bytes_appid_bytes: "bytes_appid (appid_bytes v) = v"
proof -
  have "drop_bit 64 v = 0" by (simp add: bit_eq_iff bit_drop_bit_eq bit_imp_le_length)
  then have "(ucast (ucast (drop_bit 56 v) :: 8 word) :: u64) = drop_bit 56 v" using appid_step [of 56 v] by simp
  moreover have "[0..<8] = [0, 1, 2, 3, 4, 5, 6, 7 :: nat]" by (simp add: upt_rec)
  ultimately show ?thesis
    using appid_step [of 48 v] appid_step [of 40 v] appid_step [of 32 v] appid_step [of 24 v] appid_step [of 16 v]
      appid_step [of 8 v] appid_step [of 0 v]
    by (simp add: bytes_appid_def appid_bytes_def)
qed

text \<open>
  An initialised client without an idle connection: the next call opens one, without TLS, with the attempt
  \<open>a\<close>.
\<close>

definition client_unconnected :: "Client_Env \<Rightarrow> Connect \<Rightarrow> Client \<Rightarrow> bool" where
  "client_unconnected E a C \<longleftrightarrow>
     pkcs11_initialized C \<and> call_state_pool C = [] \<and> n_call_state_pool C = 0 \<and> client_socket_path C \<noteq> [] \<and>
     a = ce_attempts E (n_attempts C) \<and> co_calloc a \<and> (\<exists>fd. open_socket a C = Ret (Inr (fd, False)))"

lemma open_socket_valid: "open_socket a C = Ret (Inr (fd, tls)) \<Longrightarrow> fd \<noteq> - 1"
  by (auto simp: open_socket_def Let_def obind_eq_Ret split: if_splits option.splits)

lemma open_socket_attempts: "open_socket a (C\<lparr>n_attempts := n\<rparr>) = open_socket a C"
  by (simp add: open_socket_def Let_def cong: if_cong option.case_cong)

text \<open>It goes on like a client that had the new connection in its pool.\<close>

lemma call_lookup_connects:
  assumes C: "client_unconnected E a C" and out: "accepts (sends (co_net a)) (8 # ns)"
    and mem: "ample (call_allocator E)"
  shows "\<exists>C' cs. call_lookup E C = call_lookup E C' \<and> client_ready C' cs \<and> call_roomy E cs \<and>
    input (cl_net cs) = input (co_net a) \<and> accepts (sends (cl_net cs)) ns \<and>
    sent (cl_net cs) = sent (co_net a) @ appid_bytes (pkcs11_app_id C)"
proof -
  have c: "pkcs11_initialized C" "call_state_pool C = []" "n_call_state_pool C = 0" "client_socket_path C \<noteq> []"
    "a = ce_attempts E (n_attempts C)" "co_calloc a"
    using C by (auto simp: client_unconnected_def)
  obtain fd where fd: "open_socket a C = Ret (Inr (fd, False))" "fd \<noteq> - 1"
    using C open_socket_valid by (auto simp: client_unconnected_def)
  let ?C = "C\<lparr>n_attempts := Suc (n_attempts C)\<rparr>" and ?ident = "appid_bytes (pkcs11_app_id C)"
  let ?cs = "(new_call a)\<lparr>cl_socket := fd, call_status := CALL_READY, cl_tls := False, cl_net := co_net a\<rparr>"
  have "length ?ident = 8" by (simp add: appid_bytes_def)
  then obtain ev where w: "call_write ?cs ?ident =
      Ret (CKR_OK, ?cs\<lparr>cl_net := (co_net a)\<lparr>sends := ev, sent := sent (co_net a) @ ?ident\<rparr>\<rparr>)" "accepts ev ns"
    using call_write_accepted [OF appid_bytes_nonempty, of ?cs "pkcs11_app_id C" ns] fd(2) out by auto
  let ?cs1 = "?cs\<lparr>cl_net := (co_net a)\<lparr>sends := ev, sent := sent (co_net a) @ ?ident\<rparr>\<rparr>"
  let ?C1 = "?C\<lparr>call_state_pool := [?cs1], n_call_state_pool := 1\<rparr>"
  have "call_connect a ?C (new_call a) = Ret (CKR_OK, ?cs1)"
    using fd(1) w(1) c(4) by (simp add: call_connect_def new_call_def open_socket_attempts)
  then have "call_lookup E C = Ret (Inr ?cs1, ?C)" using c(2,5,6) fd(2) by (simp add: call_lookup_def Let_def)
  also have "\<dots> = call_lookup E ?C1" using c(2,3) fd(2) by (simp add: call_lookup_def)
  finally have "call_lookup E C = call_lookup E ?C1" .
  moreover have "client_ready ?C1 ?cs1"
    using c(1) fd(2) by (simp add: client_ready_def pooled_def open_call_def messages_live_def new_call_def)
  moreover have "call_roomy E ?cs1" using mem by (simp add: call_roomy_def new_call_def)
  ultimately show ?thesis using w(2) by (intro exI [of _ ?C1] exI [of _ ?cs1]) simp
qed

lemma app_run_lookup:
  assumes "call_lookup E C = call_lookup E C'" "pkcs11_initialized C" "pkcs11_initialized C'" "app_valid c"
  shows "app_run E c C = app_run E c C'"
proof -
  have b: "CL_BEGIN_CALL E i mem C body = CL_BEGIN_CALL E i mem C' body" for i body and mem :: 'o
    using assms(1-3) by (simp add: CL_BEGIN_CALL_def return_val_if_fail_def)
  note same =
    trans [OF client_session_call [OF _ assms(2)] trans [OF b client_session_call [OF _ assms(3), symmetric]]]
    trans [OF client_pair_call [OF _ assms(2)] trans [OF b client_pair_call [OF _ assms(3), symmetric]]]
    trans [OF client_update_call [OF _ assms(2)] trans [OF b client_update_call [OF _ assms(3), symmetric]]]
    trans [OF client_two_array_call [OF _ assms(2)] trans [OF b client_two_array_call [OF _ assms(3), symmetric]]]
    trans [OF client_init_call [OF _ assms(2)] trans [OF b client_init_call [OF _ assms(3), symmetric]]]
    trans [OF client_final_call [OF _ assms(2)] trans [OF b client_final_call [OF _ assms(3), symmetric]]]
    trans [OF client_data_call [OF _ assms(2)] trans [OF b client_data_call [OF _ assms(3), symmetric]]]
  show ?thesis
  proof (cases c)
    case SessionCall
    show ?thesis
      unfolding SessionCall app_run.simps
      by (intro called_cong arg_cong [of _ _ no_memory] same(1)) (use assms(4) SessionCall in \<open>auto dest: map_of_SomeD\<close>)
  next
    case PairCall
    show ?thesis
      unfolding PairCall app_run.simps
      by (intro called_cong arg_cong [of _ _ no_memory] same(2)) (use assms(4) PairCall in \<open>auto dest: map_of_SomeD\<close>)
  next
    case UpdateCall
    show ?thesis
      unfolding UpdateCall app_run.simps
      by (intro called_cong arg_cong [of _ _ no_memory] same(3)) (use assms(4) UpdateCall in \<open>auto dest: map_of_SomeD\<close>)
  next
    case TwoArrayCall
    show ?thesis
      unfolding TwoArrayCall app_run.simps
      by (intro called_cong arg_cong [of _ _ no_memory] same(4)) (use assms(4) TwoArrayCall in \<open>auto dest: map_of_SomeD\<close>)
  next
    case InitCall
    show ?thesis
      unfolding InitCall app_run.simps
      by (intro called_cong arg_cong [of _ _ no_memory] same(5)) (use assms(4) InitCall in \<open>auto dest: map_of_SomeD\<close>)
  next
    case FinalCall
    show ?thesis
      unfolding FinalCall app_run.simps
      by (intro called_cong arg_cong [of _ _ with_memory] same(6)) (use assms(4) FinalCall in \<open>auto dest: map_of_SomeD\<close>)
  next
    case DataCall
    show ?thesis
      unfolding DataCall app_run.simps
      by (intro called_cong arg_cong [of _ _ with_memory] same(7)) (use assms(4) DataCall in \<open>auto dest: map_of_SomeD\<close>)
  qed (simp_all add: client_single_calls [OF assms(2)] client_single_calls [OF assms(3)] b)
qed

lemma client_connects_runs:
  assumes E: "egg_allocator (alloc_run (ce_realloc E))" "ample (call_allocator E)"
    and C: "client_unconnected E a C" and calls: "calls \<noteq> []" "list_all2 call_carried calls rs" "list_all2 array_returned calls rs"
    and net: "incoming (input (co_net a)) = concat (map frame (map2 app_reply calls rs)) @ left"
      "accepts (sends (co_net a)) (8 # concat (map (\<lambda>xs. [4, length xs]) (map app_request calls)))"
  shows "\<exists>C' cs'. app_runs E calls C = Ret (map2 app_seen calls rs, C') \<and> client_ready C' cs' \<and>
    sent (cl_net cs') =
      sent (co_net a) @ appid_bytes (pkcs11_app_id C) @ concat (map frame (map app_request calls)) \<and>
    incoming (input (cl_net cs')) = left"
proof -
  obtain C1 cs where c: "call_lookup E C = call_lookup E C1" "client_ready C1 cs" "call_roomy E cs"
    "input (cl_net cs) = input (co_net a)" "accepts (sends (cl_net cs)) (concat (map (\<lambda>xs. [4, length xs]) (map app_request calls)))"
    "sent (cl_net cs) = sent (co_net a) @ appid_bytes (pkcs11_app_id C)"
    using call_lookup_connects [OF C net(2) E(2)] by blast
  have "wired (cl_net cs) (map2 app_reply calls rs) (map app_request calls) left"
    using net(1) c(4,5) by (simp add: wired_def)
  from client_runs [OF E(1) c(2,3) calls(2,3) this]
  obtain C' cs' where r: "app_runs E calls C1 = Ret (map2 app_seen calls rs, C')" "client_ready C' cs'"
    "sent (cl_net cs') = sent (cl_net cs) @ concat (map frame (map app_request calls))"
    "incoming (input (cl_net cs')) = left"
    by blast
  have "app_runs E calls C = app_runs E calls C1"
  proof (cases calls)
    case (Cons c cl)
    then have "app_valid c" using calls(2) by (auto simp: call_carried_def list_all2_Cons1)
    moreover have "pkcs11_initialized C" "pkcs11_initialized C1"
      using C c(2) by (auto simp: client_unconnected_def client_ready_def)
    ultimately have "app_run E c C = app_run E c C1" by (intro app_run_lookup [OF c(1)])
    then show ?thesis using Cons by simp
  qed (use calls(1) in simp)
  then show ?thesis using r c(6) by auto
qed

section \<open>Both sides\<close>

text \<open>
  The two ends of a new connection: the bytes that one program sends arrive at the other, and both
  connections take the messages that are written. The client opens it with the attempt \<open>a\<close>.
\<close>

definition joined :: "Client \<Rightarrow> Connect \<Rightarrow> Net \<Rightarrow> AppCall list \<Rightarrow> app_result list \<Rightarrow> bool" where
  "joined C a net calls rs \<longleftrightarrow>
     incoming (input net) = appid_bytes (pkcs11_app_id C) @ concat (map frame (map app_request calls)) \<and>
     accepts (sends net) (concat (map (\<lambda>xs. [4, length xs]) (map2 app_reply calls rs))) \<and>
     incoming (input (co_net a)) = concat (map frame (map2 app_reply calls rs)) \<and>
     accepts (sends (co_net a)) (8 # concat (map (\<lambda>xs. [4, length xs]) (map app_request calls)))"

lemma session_runs:
  fixes s :: "'w Dispatcher"
  assumes D: "env_ok D" "memory_ok D" "pkcs11_module D = Some M"
      "egg_allocator (alloc_run (c_realloc D))" "ample (c_realloc D)"
    and E: "egg_allocator (alloc_run (ce_realloc E))" "ample (call_allocator E)"
    and s: "connected s" "io s = SocketIo" "length b4 = 4" "install_filter False = 0"
    and C: "client_unconnected E a C" "calls \<noteq> []"
    and m: "module_runs M calls (world s) = Some (rs, w)" "list_all2 call_carried calls rs"
    and net: "joined C a net calls rs"
  shows "(\<exists>C' cs'. app_runs E calls C = Ret (map2 app_seen calls rs, C') \<and> client_ready C' cs' \<and>
      sent (cl_net cs') = sent (co_net a) @ incoming (input net)) \<and>
    (\<exists>s1 s' net'. run_dispatch_thread D install_filter s net b4 = Ret (s'\<lparr>sock := - 1\<rparr>, net') \<and>
      call_uninit D s1 = Ret s' \<and> world s1 = w \<and> sessions s1 = sessions s \<and>
      appid s' = pkcs11_app_id C \<and> req s' = Freed \<and> resp s' = Freed \<and>
      sent net' = sent net @ incoming (input (co_net a)))"
proof -
  have n: "incoming (input net) = appid_bytes (pkcs11_app_id C) @ concat (map frame (map app_request calls))"
    "accepts (sends net) (concat (map (\<lambda>xs. [4, length xs]) (map2 app_reply calls rs)))"
    "incoming (input (co_net a)) = concat (map frame (map2 app_reply calls rs)) @ []"
    "accepts (sends (co_net a)) (8 # concat (map (\<lambda>xs. [4, length xs]) (map app_request calls)))"
    using net by (simp_all add: joined_def)
  have "module_ok M" using D(1,3) by (simp add: env_ok_def)
  from module_runs_returned [OF this m]
  have "\<exists>C' cs'. app_runs E calls C = Ret (map2 app_seen calls rs, C') \<and> client_ready C' cs' \<and>
      sent (cl_net cs') =
        sent (co_net a) @ appid_bytes (pkcs11_app_id C) @ concat (map frame (map app_request calls)) \<and>
      incoming (input (cl_net cs')) = []"
    by (rule client_connects_runs [OF E C m(2) _ n(3,4)])
  moreover have "length (appid_bytes (pkcs11_app_id C)) = 8" by (simp add: appid_bytes_def)
  from thread_runs [where install_filter = install_filter, OF D s m n(1) this n(2)]
  have "\<exists>s1 s' net'. run_dispatch_thread D install_filter s net b4 = Ret (s'\<lparr>sock := - 1\<rparr>, net') \<and>
      call_uninit D s1 = Ret s' \<and> world s1 = w \<and> sessions s1 = sessions s \<and>
      appid s' = pkcs11_app_id C \<and> req s' = Freed \<and> resp s' = Freed \<and>
      sent net' = sent net @ incoming (input (co_net a))"
    using n(3) by (simp add: bytes_appid_bytes)
  ultimately show ?thesis using n(1) by auto
qed

text \<open>A single call on a connection that is open already, whatever the module returns.\<close>

lemma app_call:
  fixes s :: "'w Dispatcher"
  assumes D: "env_ok D" "memory_ok D" "pkcs11_module D = Some M" and E: "egg_allocator (alloc_run (ce_realloc E))"
    and s: "daemon_ready cn s b4" and C: "client_ready C cs" "call_roomy E cs"
    and c: "app_valid c" "module_run M c (world s) = Some (r, w)" "short_result r"
    and net: "carries net (app_request c) later (app_reply c r) ns"
      "incoming (input (cl_net cs)) = frame (app_reply c r) @ left"
      "accepts (sends (cl_net cs)) [4, length (app_request c)]"
  shows "served D cn s net b4 w (app_reply c r) later ns \<and>
    (\<exists>cs'. app_run E c C = Ret (app_seen c r, returned C cs' (fst (app_seen c r))) \<and> open_call cs' \<and>
       call_roomy E cs' \<and> exchanged cs (app_request c) left cs')"
proof
  show "served D cn s net b4 w (app_reply c r) later ns" by (rule served_call [OF D s c(1,2) net(1)])
  have "module_ok M" using D(1,3) by (simp add: env_ok_def)
  from module_run_returned [OF this c(2,3)]
  show "\<exists>cs'. app_run E c C = Ret (app_seen c r, returned C cs' (fst (app_seen c r))) \<and> open_call cs' \<and>
      call_roomy E cs' \<and> exchanged cs (app_request c) left cs'"
    by (rule client_call [OF C(1) E c(1) _ _ net(3,2)]) (use C(2) net(1) in \<open>simp add: carries_def\<close>)
qed

section \<open>A device error\<close>

text \<open>
  The client takes two results of the module for a broken connection. It closes the connection, and
  the daemon closes the sessions that were opened on it.
\<close>

lemma seen_device_error:
  "fst r \<in> {CKR_DEVICE_ERROR, CKR_DEVICE_REMOVED} \<Longrightarrow> fst (app_seen c r) = fst r"
  by (auto simp: app_seen_def seen_rv_def seen_bytes_def wire_rv_def split: option.splits)

lemma uninit_closes:
  assumes "pkcs11_module D = Some M" "C_CloseSession M = Some f" "peers_ok s" "req s \<noteq> Null" "call_uninit D s = Ret s'"
    and "close_in_turn f (handles (sessions s)) (world s) = (CKR_OK, closed, w)"
  shows "opened (sessions s') = {#}"
proof -
  obtain s1 where s1: "rpc_C_Finalize D s = Ret (CKR_OK, s1)" "opened (sessions s1) = {#}"
    using Finalize_closes [OF assms(1-3,6)] by blast
  then obtain s2 where "call_reset s1 = Ret s2" "sessions s' = sessions s2"
    using assms(4,5) by (auto simp: call_uninit_def obind_eq_Ret)
  then show ?thesis using s1(2) call_reset_keeps by fastforce
qed

lemma device_error_call:
  fixes s :: "'w Dispatcher"
  assumes D: "env_ok D" "memory_ok D" "pkcs11_module D = Some M" and E: "egg_allocator (alloc_run (ce_realloc E))"
    and s: "daemon_ready cn s b4" and C: "client_ready C cs" "call_roomy E cs"
    and c: "app_valid c" "module_run M c (world s) = Some (r, w)" "short_result r"
      "fst r \<in> {CKR_DEVICE_ERROR, CKR_DEVICE_REMOVED}"
    and net: "carries net (app_request c) [] (app_reply c r) []"
      "incoming (input (cl_net cs)) = frame (app_reply c r) @ left"
      "accepts (sends (cl_net cs)) [4, length (app_request c)]"
    and close: "C_CloseSession M = Some f" "close_in_turn f (handles (sessions s)) w = (CKR_OK, closed, w')"
  shows "(\<exists>res C'. app_run E c C = Ret (res, C') \<and> fst res = fst r \<and> call_state_pool C' = tl (call_state_pool C)) \<and>
    (\<exists>s' net'. dispatch_loop D s net b4 = Ret (s', net') \<and> opened (sessions s') = {#})"
proof -
  note a = app_call [OF D E s C c(1-3) net]
  then obtain cs' where "app_run E c C = Ret (app_seen c r, returned C cs' (fst (app_seen c r)))" by blast
  then have cl: "\<exists>res C'. app_run E c C = Ret (res, C') \<and> fst res = fst r \<and> call_state_pool C' = tl (call_state_pool C)"
    using c(4) seen_device_error [OF c(4), of c] by (auto simp: returned_def)
  from a obtain s1 net1 b1 where d: "dispatch_round D s net b4 = Ret (True, s1, net1, b1)" "world s1 = w"
    "sessions s1 = sessions s" "daemon_ready cn s1 b1" "incoming (input net1) = []"
    by (auto simp: served_def)
  obtain s2 s' net' where e: "dispatch_loop D s1 net1 b1 = Ret (s', net')" "call_uninit D s2 = Ret s'" "world s2 = w"
    "sessions s2 = sessions s" "idle cn s2"
    using dispatch_loop_end [OF D(1) d(4,5)] d(2,3) by auto
  have "opened (sessions s') = {#}"
    by (rule uninit_closes [OF D(3) close(1) _ _ e(2)]) (use e(3-5) close(2) in \<open>auto simp: idle_def\<close>)
  moreover have "dispatch_loop D s net b4 = dispatch_loop D s1 net1 b1"
    by (subst dispatch_loop.simps) (simp add: d(1))
  ultimately show ?thesis using cl e(1) by auto
qed

end
