(* ===== verification/Client_Safety.thy ===== *)
theory Client_Safety
  imports Client_Dialogue
begin

text \<open>
  The client against an arbitrary peer. Whatever arrives on the connections, and whenever they
  break, the client stays inside its memory, comes to an end of every call, and the connections
  that it keeps in its pool are ready for the next call. A failed assertion is let pass here:
  some malformed replies do stop the client.
\<close>

lemma wp_abort_assert_c [simp]: "wp_abort (assert_c p k) Q \<longleftrightarrow> (p \<longrightarrow> wp_abort k Q)"
  by (simp add: assert_c_def)

section \<open>Transport\<close>

text \<open>The parts of a call that reading and writing leave alone.\<close>

definition same_call :: "ClientCall \<Rightarrow> ClientCall \<Rightarrow> bool" where
  "same_call cs cs' \<longleftrightarrow>
     cl_tls cs' = cl_tls cs \<and> cl_req cs' = cl_req cs \<and> cl_resp cs' = cl_resp cs \<and>
     call_status cs' = call_status cs"

lemma same_call_trans: "same_call cs cs1 \<Longrightarrow> same_call cs1 cs2 \<Longrightarrow> same_call cs cs2"
  by (simp add: same_call_def)

lemma call_write_loop_returns: "\<exists>x. call_write_loop False ev xs = Ret x"
proof (induction False ev xs rule: call_write_loop.induct)
  case (5 n ev x xs)
  then show ?case by (auto split: prod.splits)
qed auto

lemma call_write_any:
  assumes "\<not> cl_tls cs"
  shows "wp_abort (call_write cs xs) (\<lambda>(ret, cs'). same_call cs cs')"
  using assms call_write_loop_returns [of "sends (cl_net cs)" xs]
  by (auto simp: call_write_def call_disconnect_def same_call_def Let_def)

lemma call_read_loop_length:
  "call_read_loop tls ev n = (ret, closed, xs, ev') \<Longrightarrow> length xs \<le> n"
proof (induction tls ev n arbitrary: ret closed xs ev' rule: call_read_loop.induct)
  case (5 tls ys ev n)
  then show ?case by (fastforce split: if_splits prod.splits)
qed (auto split: if_splits)

lemma call_read_any:
  assumes "\<not> cl_tls cs"
  shows "wp_abort (call_read cs old) (\<lambda>(ret, xs, cs'). length xs = length old \<and> same_call cs cs')"
  by (auto simp: call_read_def call_disconnect_def same_call_def overlay_def Let_def
      dest!: call_read_loop_length split: prod.splits)

section \<open>The dialogue\<close>

lemma u32_small: "unat (n :: u32) < 2 ^ 32"
  using unsigned_less [of n] by (rule less_le_trans) simp

lemma store_response_any:
  assumes b: "egg_wf b" "allocator b \<noteq> None" "len b = 0" "unat (n :: u32) \<le> length (cells (buf b))"
    and xs: "length xs = unat n" and cs: "same_call cs0 cs"
  shows "wp_abort (obind (mem_write (buf b) 0 xs) (\<lambda>p.
      let b = b\<lparr>buf := p\<rparr> in
      if ret \<noteq> CKR_OK then Ret (ret, r\<lparr>buffer := b\<rparr>, cs)
      else
        (let b = snd (egg_buffer_add_empty b (ucast n)) in
         obind (gck_rpc_message_parse (r\<lparr>buffer := b\<rparr>) GCK_RPC_RESPONSE) (\<lambda>(_, r).
         Ret (CKR_OK, r, cs))))) (\<lambda>(ret, r', cs'). live_msg r' \<and> same_call cs0 cs')"
proof -
  obtain p where p: "mem_write (buf b) 0 xs = Ret p"
    using b(4) xs mem_write_cells [of 0 xs "buf b"] by auto
  let ?b = "b\<lparr>buf := p\<rparr>"
  have wb: "egg_wf ?b" "allocator ?b \<noteq> None" "len ?b = 0"
    using b mem_write_length [OF p] by (auto simp: egg_wf_def)
  define b2 where "b2 = snd (egg_buffer_add_empty ?b (ucast n))"
  have b2: "egg_wf b2" "allocator b2 \<noteq> None"
    using add_empty_snd [OF wb(1,3), of "ucast n"] wb(2) u32_small [of n] by (auto simp: b2_def)
  then have "wp_abort (gck_rpc_message_parse (r\<lparr>buffer := b2\<rparr>) GCK_RPC_RESPONSE) (\<lambda>(_, r'). live_msg r')"
    by (intro wp_imp_abort [OF wp_message_parse]) (auto simp: live_msg_def egg_in_def)
  then show ?thesis
    using p wb cs by (auto simp: Let_def b2_def [symmetric] live_msg_def elim!: wp_abort_mono)
qed

lemma receive_response_any:
  assumes cs: "\<not> cl_tls cs" and r: "blank r"
  shows "wp_abort (receive_response cs r buf4) (\<lambda>(ret, r', cs'). live_msg r' \<and> same_call cs cs')"
proof -
  have b: "egg_wf (buffer r)" "len (buffer r) = 0" "allocator (buffer r) \<noteq> None"
    using r length_contents [of "buffer r"] by (auto simp: blank_def live_msg_def unat_eq_0)
  have rest: "wp_abort (case egg_buffer_reserve (buffer r) (ucast (n :: u32) + len (buffer r)) of
          (False, b) \<Rightarrow> Ret (CKR_HOST_MEMORY, r\<lparr>buffer := b\<rparr>, cs1)
        | (True, b) \<Rightarrow>
            obind (mem_read (buf b) 0 (unat n)) (\<lambda>old.
            obind (call_read cs1 old) (\<lambda>(ret, xs, cs).
            obind (mem_write (buf b) 0 xs) (\<lambda>p.
            let b = b\<lparr>buf := p\<rparr> in
            if ret \<noteq> CKR_OK then Ret (ret, r\<lparr>buffer := b\<rparr>, cs)
            else
              (let b = snd (egg_buffer_add_empty b (ucast n)) in
               obind (gck_rpc_message_parse (r\<lparr>buffer := b\<rparr>) GCK_RPC_RESPONSE) (\<lambda>(_, r).
               Ret (CKR_OK, r, cs))))))) (\<lambda>(ret, r', cs'). live_msg r' \<and> same_call cs cs')"
    if cs1: "same_call cs cs1" for n cs1
  proof -
    obtain ok b1 where res: "egg_buffer_reserve (buffer r) (ucast n) = (ok, b1)"
      by (cases "egg_buffer_reserve (buffer r) (ucast n)")
    have b1: "egg_wf b1" "allocator b1 \<noteq> None" "len b1 = 0" "ok \<longrightarrow> unat n \<le> length (cells (buf b1))"
      using egg_buffer_reserve_spec [OF b(1) _ res] u32_small [of n] b(2,3) by (auto simp: egg_wf_def split: if_splits)
    show ?thesis
    proof (cases ok)
      case False
      then show ?thesis using res b b1 cs1 by (simp add: live_msg_def)
    next
      case True
      let ?old = "take (unat n) (cells (buf b1))"
      have old: "mem_read (buf b1) 0 (unat n) = Ret ?old" "length ?old = unat n"
        using b1(4) True by (simp_all add: mem_read_cells)
      have "\<not> cl_tls cs1" using cs cs1 by (simp add: same_call_def)
      from call_read_any [OF this, of ?old] show ?thesis
        using res b(2) True old same_call_trans [OF cs1] store_response_any [OF b1(1-3)] b1(4)
        by (auto elim!: wp_abort_mono)
    qed
  qed
  show ?thesis
    unfolding receive_response_def wp_abort_obind
    using rest b r
    by (intro wp_abort_mono [OF call_read_any [OF cs]]) (auto simp: Let_def blank_def)
qed

lemma exchange_any:
  assumes "\<not> cl_tls cs" "live_msg q" "blank r"
  shows "wp_abort (exchange cs q r) (\<lambda>(ret, r', cs'). live_msg r' \<and> same_call cs cs')"
proof -
  have rest: "wp_abort (obind (mem_read (buf (buffer q)) 0 (unat (len (buffer q)))) (\<lambda>xs.
      obind (call_write cs1 xs) (\<lambda>(ret, cs).
      if ret \<noteq> CKR_OK then Ret (ret, r, cs) else receive_response cs r buf4)))
      (\<lambda>(ret, r', cs'). live_msg r' \<and> same_call cs cs')" if "same_call cs cs1" for cs1 buf4
  proof -
    have "mem_read (buf (buffer q)) 0 (unat (len (buffer q))) = Ret (contents (buffer q))"
      using assms(2) mem_read_contents [of "buffer q" 0] length_contents [of "buffer q"]
      by (simp add: live_msg_def)
    moreover have "wp_abort (call_write cs1 xs) (\<lambda>(ret, cs'). same_call cs cs')" for xs
      using that assms(1) by (intro wp_abort_mono [OF call_write_any])
        (auto simp: same_call_def)
    moreover have "wp_abort (receive_response cs2 r buf4) (\<lambda>(ret, r', cs'). live_msg r' \<and> same_call cs cs')"
      if "same_call cs cs2" for cs2
      using that assms by (intro wp_abort_mono [OF receive_response_any]) (auto simp: same_call_def)
    ultimately show ?thesis using assms(3) by (fastforce simp: blank_def elim!: wp_abort_mono)
  qed
  show ?thesis
    unfolding exchange_def Let_def wp_abort_obind
    using rest assms(3) by (intro wp_abort_mono [OF call_write_any [OF assms(1)]]) (auto simp: blank_def)
qed

section \<open>States of a call\<close>

definition call_safe :: "ClientCall \<Rightarrow> bool" where
  "call_safe cs \<longleftrightarrow> \<not> cl_tls cs \<and> messages_live cs \<and> call_status cs \<noteq> CALL_INVALID"

definition req_safe :: "ClientCall \<Rightarrow> bool" where
  "req_safe cs \<longleftrightarrow> call_safe cs \<and> cl_req cs \<noteq> None"

definition resp_safe :: "ClientCall \<Rightarrow> bool" where
  "resp_safe cs \<longleftrightarrow> call_safe cs \<and> cl_resp cs \<noteq> None"

lemma call_safe_messages:
  "call_safe cs \<Longrightarrow> live_msg m \<Longrightarrow> call_safe (cs\<lparr>cl_req := Some m\<rparr>)"
  "call_safe cs \<Longrightarrow> live_msg m \<Longrightarrow> call_safe (cs\<lparr>cl_resp := Some m\<rparr>)"
  by (simp_all add: call_safe_def messages_live_def)

lemma wp_new_or_kept:
  assumes "egg_allocator (alloc_run (ce_realloc E))" "\<And>m. p = Some m \<Longrightarrow> live_msg m"
  shows "wp (case p of Some m \<Rightarrow> Ret (Some m) | None \<Rightarrow> gck_rpc_message_new (ce_realloc E) (Some (call_allocator E)))
    (\<lambda>p. \<forall>m. p = Some m \<longrightarrow> live_msg m)"
  using assms wp_message_new [of "call_allocator E" "ce_realloc E"]
  by (auto simp: call_allocator_def elim!: wp_mono split: option.splits)

lemma call_send_recv_any:
  assumes E: "egg_allocator (alloc_run (ce_realloc E))" and cs: "call_safe cs"
  shows "wp_abort (call_send_recv E cs) (\<lambda>(ret, cs'). call_safe cs' \<and> (ret = CKR_OK \<longrightarrow> cl_req cs' \<noteq> None \<and> cl_resp cs' \<noteq> None))"
proof (cases "cl_req cs")
  case None
  then show ?thesis by (simp add: call_send_recv_def)
next
  case (Some q)
  let ?cs = "cs\<lparr>call_status := CALL_TRANSIT, cl_req := None, cl_resp := None\<rparr>"
  have live: "live_msg q" "\<And>m. cl_resp cs = Some m \<Longrightarrow> live_msg m"
    using cs Some by (auto simp: call_safe_def messages_live_def)
  have ex: "wp_abort (obind (gck_rpc_message_reset r) (\<lambda>r.
      obind (exchange ?cs q r) (\<lambda>(ret, r, cs).
      assert_c (call_status cs = CALL_TRANSIT)
      (assert_c (cl_resp cs = None) (assert_c (cl_req cs = None)
       (Ret (ret, cs\<lparr>cl_resp := Some r, cl_req := Some q\<rparr>)))))))
      (\<lambda>(ret, cs'). call_safe cs' \<and> (ret = CKR_OK \<longrightarrow> cl_req cs' \<noteq> None \<and> cl_resp cs' \<noteq> None))" if r: "live_msg r" for r
  proof -
    obtain r' where "gck_rpc_message_reset r = Ret r'" "blank r'"
      using reset_blank [OF r] by auto
    then show ?thesis
      using exchange_any [of ?cs q r'] live(1) cs
      by (auto simp: call_safe_def messages_live_def same_call_def elim!: wp_abort_mono)
  qed
  show ?thesis
    using Some ex cs live wp_new_or_kept [OF E, of "cl_resp cs"]
    by (cases "cl_resp cs") (auto simp: call_send_recv_def Let_def call_safe_def messages_live_def
        elim!: wp_imp_abort split: option.split)
qed

lemma read_ulong_any:
  "live_msg m \<Longrightarrow> wp_abort (gck_rpc_message_read_ulong m) (\<lambda>(v, m'). live_msg m')"
  by (cases "sig_next m ''u''")
    (auto simp: live_msg_def gck_rpc_message_read_ulong_def expect_part_eq got_def egg_in_def
      dest!: sig_next_frame(1) intro!: wp_imp_abort [OF uint64_codec.wp_msg_get])

lemma call_run_any:
  assumes E: "egg_allocator (alloc_run (ce_realloc E))" and cs: "call_safe cs"
  shows "wp_abort (call_run E cs) (\<lambda>(ret, cs'). call_safe cs' \<and> (ret = CKR_OK \<longrightarrow> cl_resp cs' \<noteq> None))"
proof -
  have fin: "wp_abort (case (cl_req cs1, cl_resp cs1) of
      (Some q, Some r) \<Rightarrow>
        if call_id r = GCK_RPC_CALL_ERROR then
          obind (gck_rpc_message_read_ulong r) (\<lambda>(v, r).
          let cs = cs1\<lparr>cl_resp := Some r\<rparr> in
          case v of
            None \<Rightarrow> Ret (CKR_DEVICE_ERROR, cs)
          | Some ckerr \<Rightarrow>
              if ckerr \<le> CKR_OK then Ret (CKR_DEVICE_ERROR, cs) else Ret (ckerr, cs))
        else if call_id q \<noteq> call_id r then Ret (CKR_DEVICE_ERROR, cs1)
        else assert_c (\<not> gck_rpc_message_buffer_error r) (Ret (CKR_OK, cs1))
    | _ \<Rightarrow> Fault) (\<lambda>(ret, cs'). call_safe cs' \<and> (ret = CKR_OK \<longrightarrow> cl_resp cs' \<noteq> None))"
    if s1: "call_safe cs1" "cl_req cs1 \<noteq> None" "cl_resp cs1 \<noteq> None" for cs1
  proof -
    obtain q r where qr: "cl_req cs1 = Some q" "cl_resp cs1 = Some r" "live_msg r"
      using s1 by (auto simp: call_safe_def messages_live_def)
    have "wp_abort (gck_rpc_message_read_ulong r) (\<lambda>(v, r'). call_safe (cs1\<lparr>cl_resp := Some r'\<rparr>))"
      using call_safe_messages(2) [OF s1(1)] by (intro wp_abort_mono [OF read_ulong_any [OF qr(3)]]) auto
    then show ?thesis
      using qr s1(1) by (auto simp: Let_def elim!: wp_abort_mono split: option.split)
  qed
  have safe: "call_safe (cs1\<lparr>call_status := CALL_PARSE\<rparr>)" if "call_safe cs1" for cs1
    using that by (simp add: call_safe_def messages_live_def)
  show ?thesis
    using cs safe fin [of "_\<lparr>call_status := CALL_PARSE\<rparr>"] call_send_recv_any [OF E cs]
    by (fastforce simp: call_run_def Let_def elim!: wp_abort_mono split: option.split_asm option.split)
qed

section \<open>The pool\<close>

text \<open>
  The connections in the pool are open, ready for a call and no more than the pool has room for.
  The environment gives connections without TLS, and names for the addresses that it finds.
\<close>

definition client_ok :: "Client \<Rightarrow> bool" where
  "client_ok C \<longleftrightarrow>
     n_call_state_pool C = length (call_state_pool C) \<and> length (call_state_pool C) \<le> MAX_CALL_STATE_POOL \<and>
     list_all pooled (call_state_pool C) \<and> take 6 (client_socket_path C) \<noteq> ''tls://''"

definition connects_ok :: "Client_Env \<Rightarrow> bool" where
  "connects_ok E \<longleftrightarrow>
     egg_allocator (alloc_run (ce_realloc E)) \<and>
     (\<forall>n host port as. co_addrs (ce_attempts E n) host port = Some as \<longrightarrow> list_all ca_name as)"

lemma connect_to_returns: "list_all ca_name as \<Longrightarrow> \<exists>fd. connect_to as = Ret fd"
  by (induction as) auto

lemma open_socket_any:
  assumes "connects_ok E" "client_ok C"
  shows "wp (open_socket (ce_attempts E n) C) (\<lambda>r. \<forall>fd tls. r = Inr (fd, tls) \<longrightarrow> \<not> tls)"
proof -
  have "\<exists>fd. connect_to_host_port (co_addrs (ce_attempts E n) host port) = Ret fd" for host port
    using assms(1) connect_to_returns by (auto simp: connects_ok_def connect_to_host_port_def split: option.split)
  then have "wp (connect_to_host_port (co_addrs (ce_attempts E n) host port)) (\<lambda>_. True)" for host port
    by (simp add: wp_iff)
  then show ?thesis
    using assms(2) by (auto simp: open_socket_def client_ok_def Let_def elim!: wp_mono split: option.split)
qed

lemma call_connect_any:
  assumes "connects_ok E" "client_ok C"
  shows "wp_abort (call_connect (ce_attempts E n) C (new_call a)) (\<lambda>(ret, cs). call_status cs = CALL_READY \<longrightarrow> call_safe cs)"
proof -
  have "wp_abort (call_write ((new_call a)\<lparr>cl_socket := fd, call_status := CALL_READY, cl_tls := False, cl_net := net\<rparr>) xs)
      (\<lambda>(ret, cs). call_status cs = CALL_READY \<longrightarrow> call_safe cs)" for fd net xs
    by (intro wp_abort_mono [OF call_write_any]) (auto simp: new_call_def same_call_def call_safe_def messages_live_def)
  then show ?thesis
    unfolding call_connect_def wp_abort_assert_c wp_abort_obind
    by (intro impI wp_imp_abort [OF open_socket_any [OF assms]])
      (auto simp: new_call_def split: sum.split)
qed

lemma call_lookup_any:
  assumes "connects_ok E" "client_ok C"
  shows "wp_abort (call_lookup E C) (\<lambda>(r, C'). client_ok C' \<and> (\<forall>cs. r = Inr cs \<longrightarrow> call_safe cs \<and> call_status cs = CALL_READY))"
proof (cases "call_state_pool C")
  case Nil
  let ?C = "C\<lparr>n_attempts := Suc (n_attempts C)\<rparr>" and ?a = "ce_attempts E (n_attempts C)"
  have C: "client_ok ?C" using assms(2) by (simp add: client_ok_def)
  from call_connect_any [OF assms(1) C, of "n_attempts C" ?a] show ?thesis
    using Nil C by (auto simp: call_lookup_def Let_def elim!: wp_abort_mono)
next
  case (Cons cs rest)
  then show ?thesis
    using assms(2) by (auto simp: call_lookup_def client_ok_def pooled_def open_call_def call_safe_def Let_def)
qed

lemma call_prepare_any:
  assumes E: "egg_allocator (alloc_run (ce_realloc E))" and cs: "call_safe cs" and i: "0 < i" "i < GCK_RPC_CALL_MAX"
  shows "wp_abort (call_prepare E cs i) (\<lambda>(ret, cs'). call_safe cs' \<and> (ret = CKR_OK \<longrightarrow> cl_req cs' \<noteq> None))"
proof -
  have prep: "wp_abort (obind (gck_rpc_message_reset m) (\<lambda>m.
      obind (gck_rpc_message_prep m i GCK_RPC_REQUEST) (\<lambda>(ok, m).
      let cs = cs\<lparr>cl_req := Some m\<rparr> in
      if \<not> ok then Ret (CKR_HOST_MEMORY, cs) else Ret (CKR_OK, cs\<lparr>call_status := CALL_PREP\<rparr>))))
      (\<lambda>(ret, cs'). call_safe cs' \<and> (ret = CKR_OK \<longrightarrow> cl_req cs' \<noteq> None))" if m: "live_msg m" for m
  proof -
    obtain m' where r: "gck_rpc_message_reset m = Ret m'" "live_msg m'"
      using reset_blank [OF m] by (auto simp: blank_def)
    then have "wp_abort (gck_rpc_message_prep m' i GCK_RPC_REQUEST) (\<lambda>(ok, m'). live_msg m')"
      using i by (intro wp_imp_abort [OF wp_message_prep]) (auto simp: live_msg_def prepared_def)
    then show ?thesis
      using r cs by (auto simp: Let_def call_safe_def messages_live_def elim!: wp_abort_mono)
  qed
  have "wp (case cl_req cs of Some m \<Rightarrow> Ret (Some m)
      | None \<Rightarrow> gck_rpc_message_new (ce_realloc E) (Some (call_allocator E))) (\<lambda>p. \<forall>m. p = Some m \<longrightarrow> live_msg m)"
    using cs by (intro wp_new_or_kept [OF E]) (auto simp: call_safe_def messages_live_def)
  then show ?thesis
    using prep cs unfolding call_prepare_def wp_abort_assert_c wp_abort_obind
    by (auto elim!: wp_imp_abort split: option.split)
qed

lemma call_done_any:
  assumes C: "client_ok C" and cs: "call_safe cs"
  shows "wp_abort (call_done C cs ret) (\<lambda>(ret', C'). client_ok C')"
proof -
  have "call_destroy cs = Ret ()"
    using cs by (auto simp: call_destroy_def call_disconnect_def call_safe_def messages_live_def gck_rpc_message_free_def
        live_msg_def Let_def split: option.splits)
  moreover have "client_ok (C\<lparr>call_state_pool := cs\<lparr>call_status := CALL_READY\<rparr> # call_state_pool C,
      n_call_state_pool := Suc (n_call_state_pool C)\<rparr>)"
    if "cl_socket cs \<noteq> - 1" "n_call_state_pool C < MAX_CALL_STATE_POOL"
    using that C cs by (simp add: client_ok_def pooled_def open_call_def call_safe_def)
  ultimately show ?thesis
    using C by (auto simp: call_done_def split: CallStatus.split option.split)
qed

end
