(* ===== verification/Client_Readers.thy ===== *)
theory Client_Readers
  imports Client_Safety
begin

text \<open>
  The parts of the client's functions against an arbitrary peer: every writer of arguments and
  every reader of results stays inside the caller's memory, however the message goes on. The
  contracts are the locales \<open>safe_writer\<close> and \<open>safe_reader\<close>.
\<close>

section \<open>What the caller has to provide\<close>

text \<open>An array of the caller is at least as long as the caller says.\<close>

definition has_room :: "'a list option \<Rightarrow> CK_ULONG \<Rightarrow> bool" where
  "has_room arr n \<longleftrightarrow> (case arr of None \<Rightarrow> True | Some xs \<Rightarrow> unat n \<le> length xs)"

definition has_room_ptr :: "'a list option \<Rightarrow> CK_ULONG option \<Rightarrow> bool" where
  "has_room_ptr arr n \<longleftrightarrow> (case n of None \<Rightarrow> True | Some k \<Rightarrow> has_room arr k)"

definition values_ok :: "attr_array \<Rightarrow> CK_ULONG \<Rightarrow> bool" where
  "values_ok arr n \<longleftrightarrow>
     has_room arr n \<and>
     (case arr of None \<Rightarrow> True | Some as \<Rightarrow> list_all (\<lambda>a. has_room (pValue a) (ulValueLen a)) (take (unat n) as))"

definition parameter_ok :: "CK_MECHANISM option \<Rightarrow> bool" where
  "parameter_ok mech \<longleftrightarrow> (case mech of None \<Rightarrow> True | Some m \<Rightarrow> has_room (pParameter m) (ulParameterLen m))"

lemma has_room_Some [simp]: "has_room (Some xs) n \<longleftrightarrow> unat n \<le> length xs"
  by (simp add: has_room_def)

lemma has_room_ptr_Some [simp]: "has_room_ptr arr (Some n) \<longleftrightarrow> has_room arr n"
  by (simp add: has_room_ptr_def)

section \<open>Writers\<close>

abbreviation (input) body_safe :: "CK_RV \<times> 'o \<times> ClientCall \<Rightarrow> bool" where
  "body_safe \<equiv> (\<lambda>(ret, mem, cs). call_safe cs)"

lemma on_cl_req_any:
  assumes "req_safe cs" "\<And>m. live_msg m \<Longrightarrow> wp_abort (f m) (\<lambda>(r, m'). live_msg m')"
  shows "wp_abort (on_cl_req cs f) (\<lambda>(r, cs'). req_safe cs')"
proof -
  obtain m where m: "cl_req cs = Some m" "live_msg m" "call_safe cs"
    using assms(1) by (auto simp: req_safe_def call_safe_def messages_live_def)
  then show ?thesis
    using assms(2) [OF m(2)] call_safe_messages(1) [OF m(3)]
    by (auto simp: on_cl_req_def req_safe_def elim!: wp_abort_mono)
qed

locale safe_writer =
  fixes wr :: "GckRpcMessage \<Rightarrow> (bool \<times> GckRpcMessage) outcome"
  assumes write_any: "live_msg m \<Longrightarrow> wp_abort (wr m) (\<lambda>(ok, m'). live_msg m')"
begin

lemma CL_IN_any:
  assumes "req_safe cs" "\<And>cs. req_safe cs \<Longrightarrow> wp_abort (k cs) body_safe"
  shows "wp_abort (CL_IN wr mem cs k) body_safe"
  using assms(2) by (auto simp: CL_IN_def req_safe_def
      intro!: wp_abort_mono [OF on_cl_req_any [OF assms(1) write_any]])

end

text \<open>A writer that fails its assertion on a message of another signature.\<close>

lemma safe_writerI:
  assumes "\<And>m m1. sig_next m part = Some m1 \<Longrightarrow> egg_wf (buffer m) \<Longrightarrow> wp (wr m) (field_written m part xs P)"
    and "\<And>m. sig_next m part = None \<Longrightarrow> wr m = Abort"
  shows "safe_writer wr"
proof
  fix m assume m: "live_msg m"
  show "wp_abort (wr m) (\<lambda>(ok, m'). live_msg m')"
  proof (cases "sig_next m part")
    case None
    then show ?thesis using assms(2) by simp
  next
    case (Some m1)
    then show ?thesis
      using assms(1) [OF Some] m by (auto simp: live_msg_def field_written_def egg_out_def intro: wp_imp_abort)
  qed
qed

interpretation byte_in: safe_writer "\<lambda>m. gck_rpc_message_write_byte m v"
  by (rule safe_writerI [OF byte_field.write_field]) (auto simp: gck_rpc_message_write_byte_def expect_part_eq)

interpretation ulong_in: safe_writer "\<lambda>m. gck_rpc_message_write_ulong m v"
  by (rule safe_writerI [OF ulong_field.write_field]) (auto simp: gck_rpc_message_write_ulong_def expect_part_eq)

interpretation byte_buffer_in: safe_writer "\<lambda>m. gck_rpc_message_write_byte_buffer m arr n"
  by (rule safe_writerI [OF wp_write_byte_buffer]) (auto simp: gck_rpc_message_write_byte_buffer_def expect_part_eq)

interpretation ulong_buffer_in: safe_writer "\<lambda>m. gck_rpc_message_write_ulong_buffer m n"
  by (rule safe_writerI [OF wp_write_ulong_buffer]) (auto simp: gck_rpc_message_write_ulong_buffer_def expect_part_eq)

lemma byte_array_in: "has_room arr n \<Longrightarrow> safe_writer (\<lambda>m. gck_rpc_message_write_byte_array m arr n)"
  by (rule safe_writerI [OF wp_write_byte_array])
    (auto simp: gck_rpc_message_write_byte_array_def expect_part_eq has_room_def)

lemma attribute_array_in:
  assumes "values_ok arr n" "arr = None \<longrightarrow> n = 0"
  shows "safe_writer (\<lambda>m. gck_rpc_message_write_attribute_array m arr n)"
proof (rule safe_writerI [OF wp_write_attribute_array])
  show "attrs_in_bounds arr n"
    using assms by (auto simp: attrs_in_bounds_def values_ok_def has_room_def attr_in_bounds_def list_all_iff
        split: option.splits)
qed (auto simp: gck_rpc_message_write_attribute_array_def assert_c_def expect_part_eq)

lemma attribute_buffer_in:
  assumes "has_room arr n" "arr = None \<longrightarrow> n = 0"
  shows "safe_writer (\<lambda>m. gck_rpc_message_write_attribute_buffer m arr n)"
  using assms by (intro safe_writerI [OF wp_write_attribute_buffer])
    (auto simp: gck_rpc_message_write_attribute_buffer_def assert_c_def expect_part_eq has_room_def split: option.splits)

lemma space_string_in:
  assumes "has_room p n"
  shows "safe_writer (\<lambda>m. gck_rpc_message_write_space_string m p n)"
proof
  fix m assume m: "live_msg m"
  have "wp_abort (msg_add (\<lambda>b. egg_buffer_add_byte_array b p n) m1) (\<lambda>(ok, m'). live_msg m')"
    if "buffer m1 = buffer m" for m1
  proof -
    have "wp (egg_buffer_add_byte_array (buffer m) p n) (\<lambda>(ok, b'). egg_wf b' \<and> allocator b' \<noteq> None)"
      using m assms by (intro wp_mono [OF wp_add_byte_array]) (auto simp: live_msg_def has_room_def egg_app_def)
    then show ?thesis using that by (auto simp: msg_add_def live_msg_def elim!: wp_imp_abort)
  qed
  then show "wp_abort (gck_rpc_message_write_space_string m p n) (\<lambda>(ok, m'). live_msg m')"
    by (auto simp: gck_rpc_message_write_space_string_def expect_part_eq dest!: sig_next_frame(1) split: option.split)
qed

lemma write_mechanism_any:
  assumes "live_msg m" "has_room (pParameter mech) (ulParameterLen mech)"
  shows "wp_abort (proto_write_mechanism m mech) (\<lambda>(ret, m'). live_msg m')"
proof (cases "sig_next m ''M''")
  case None
  then show ?thesis by (simp add: proto_write_mechanism_def expect_part_eq)
next
  case (Some m1)
  have t: "egg_try (buffer m) [] True (buffer m1)"
    using egg_try_refl assms(1) sig_next_frame(1) [OF Some] by (simp add: live_msg_def)
  have par: "pParameter mech = Some ys \<Longrightarrow> unat (ulParameterLen mech) \<le> length ys" for ys
    using assms(2) by (simp add: has_room_def)
  have fin: "live_msg (m1\<lparr>buffer := b\<rparr>)" if "egg_try (buffer m) ys P b" for ys P b
    using that assms(1) by (auto simp: live_msg_def egg_try_def egg_app_def)
  have add: "wp (obind (egg_buffer_add_byte_array b p n) (\<lambda>(_, b). Ret (g b, m1\<lparr>buffer := b\<rparr>))) (\<lambda>(ret, m'). live_msg m')"
    if "egg_try (buffer m) ys P b" "\<And>ys. p = Some ys \<Longrightarrow> unat n \<le> length ys" for b p n g ys P
    by (rule try_add_byte_array [OF that]) (auto intro: fin)
  have "wp (proto_write_mechanism m mech) (\<lambda>(ret, m'). live_msg m')"
    unfolding proto_write_mechanism_def expect_part_eq Some option.case Let_def
    by (rule try_add_uint32 [OF t]) (auto simp del: wp_obind intro: fin add par)
  then show ?thesis by (rule wp_imp_abort)
qed

section \<open>Readers\<close>

lemma got_live: "got m m' \<Longrightarrow> live_msg m \<Longrightarrow> live_msg m'"
  by (simp add: got_def live_msg_def egg_in_def)

lemma sig_next_live: "sig_next m part = Some m1 \<Longrightarrow> live_msg m \<Longrightarrow> live_msg m1"
  using sig_next_frame(1) [of m part m1] by (simp add: live_msg_def)

lemma expect_any:
  assumes "live_msg m" "\<And>m1. live_msg m1 \<Longrightarrow> wp_abort (k m1) Q"
  shows "wp_abort (expect_part m part k) Q"
  using assms sig_next_live by (auto simp: expect_part_eq split: option.split)

context buffer_codec
begin

lemma get_any:
  assumes "live_msg m" "\<And>r m1. live_msg m1 \<Longrightarrow> msg_get get m = Ret (r, m1) \<Longrightarrow> wp_abort (k r m1) Q"
  shows "wp_abort (obind (msg_get get m) (\<lambda>(r, m). k r m)) Q"
proof -
  obtain r m1 where "msg_get get m = Ret (r, m1)" "got m m1"
    using wp_msg_get [of m] assms(1) by (auto simp: live_msg_def wp_iff)
  then show ?thesis using assms got_live by auto
qed

lemma get_or_error_any:
  assumes "live_msg m" "\<And>m1. live_msg m1 \<Longrightarrow> Q (PARSE_ERROR, mem, m1)"
    and "\<And>v m1. live_msg m1 \<Longrightarrow> msg_get get m = Ret (Some v, m1) \<Longrightarrow> wp_abort (k v m1) Q"
  shows "wp_abort (get_or_error get mem m k) Q"
  unfolding get_or_error_def using assms by (intro get_any) (auto split: option.split)

end

lemmas get_any_rules = byte_codec.get_any uint32_codec.get_any uint64_codec.get_any byte_array_codec.get_any

lemma byte_array_got:
  assumes "live_msg m" "msg_get egg_buffer_get_byte_array m = Ret (Some (d, k), m1)"
  shows "mem_read d 0 (unat k) = Ret (cells d)" "length (cells d) = unat k"
  using byte_array_get_length [OF _ assms(2)] assms(1) mem_read_cells [of 0 "unat k" d]
  by (auto simp: live_msg_def)

lemma byte_array_got_u32:
  "live_msg m \<Longrightarrow> msg_get egg_buffer_get_byte_array m = Ret (Some (Some y, ucast (x :: u32)), m1) \<Longrightarrow> length y = unat x"
  using byte_array_got(2) [of m "Some y" "ucast x" m1] by simp

locale safe_reader =
  fixes rd :: "'o result_reader"
    and fits :: "'o \<Rightarrow> bool"
  assumes read_any: "live_msg m \<Longrightarrow> fits mem \<Longrightarrow> wp_abort (rd mem m) (\<lambda>(ret, mem', m'). live_msg m')"
begin

lemma CL_OUT_any:
  assumes cs: "resp_safe cs" and f: "fits mem"
    and k: "\<And>ret mem cs. resp_safe cs \<Longrightarrow> wp_abort (k ret mem cs) body_safe"
  shows "wp_abort (CL_OUT rd mem ret cs k) body_safe"
proof -
  obtain m where m: "cl_resp cs = Some m" "live_msg m" "call_safe cs"
    using cs by (auto simp: resp_safe_def call_safe_def messages_live_def)
  have "wp_abort (k ret mem (cs\<lparr>cl_resp := Some m'\<rparr>)) body_safe" if "live_msg m'" for ret mem m'
    using call_safe_messages(2) [OF m(3) that] k by (simp add: resp_safe_def)
  then show ?thesis
    using m k cs read_any [OF m(2) f] by (auto simp: CL_OUT_def elim!: wp_abort_mono)
qed

lemma CL_OUT_PTR_any:
  assumes "resp_safe cs" "\<And>v. p = Some v \<Longrightarrow> fits v"
    and "\<And>ret mem cs. resp_safe cs \<Longrightarrow> wp_abort (k ret mem cs) body_safe"
  shows "wp_abort (CL_OUT_PTR rd p ret cs k) body_safe"
  using assms by (auto simp: CL_OUT_PTR_def intro: CL_OUT_any split: option.split)

end

subsection \<open>Structures\<close>

definition safe_field :: "('i \<Rightarrow> GckRpcMessage \<Rightarrow> (bool \<times> 'i \<times> GckRpcMessage) outcome) \<Rightarrow> bool" where
  "safe_field f \<longleftrightarrow> (\<forall>info m. live_msg m \<longrightarrow> wp_abort (f info m) (\<lambda>(ok, info', m'). live_msg m'))"

lemma get_fields_any:
  assumes "list_all safe_field fs" "live_msg m"
  shows "wp_abort (get_fields fs info m) (\<lambda>(ret, info', m'). live_msg m')"
  using assms
proof (induction fs arbitrary: info m)
  case (Cons f fs)
  then have "wp_abort (f info m) (\<lambda>(ok, info', m'). live_msg m')" by (simp add: safe_field_def)
  then show ?case using Cons by (auto elim!: wp_abort_mono)
qed simp

lemma get_field_any:
  assumes "\<And>m. live_msg m \<Longrightarrow> wp_abort (rd m) (\<lambda>(r, m'). live_msg m')"
  shows "safe_field (get_field rd upd)"
  unfolding safe_field_def get_field_def wp_abort_obind
  by (auto intro!: wp_abort_mono [OF assms] split: option.split)

lemma safe_structI:
  assumes "list_all safe_field fs" "rd = get_fields fs"
  shows "safe_reader rd (\<lambda>_. True)"
  unfolding assms(2) using get_fields_any [OF assms(1)] by unfold_locales auto

lemma read_version_any:
  "live_msg m \<Longrightarrow> wp_abort (gck_rpc_message_read_version m) (\<lambda>(r, m'). live_msg m')"
  unfolding gck_rpc_message_read_version_def
  by (intro expect_any byte_codec.get_any) (auto simp del: wp_abort_obind split: option.split intro!: byte_codec.get_any)

lemma read_string_any:
  "live_msg m \<Longrightarrow> wp_abort (gck_rpc_message_read_space_string m n) (\<lambda>(r, m'). live_msg m')"
  unfolding gck_rpc_message_read_space_string_def wp_abort_assert_c
  by (intro impI expect_any byte_array_codec.get_any)
    (auto simp: byte_array_got split: option.split)

lemmas safe_fields = get_field_any [OF read_version_any] get_field_any [OF read_string_any] get_field_any [OF read_ulong_any]

interpretation ulong_out: safe_reader read_ulong_result "\<lambda>_. True"
  by (rule safe_structI [OF _ read_ulong_result_def]) (simp add: safe_fields)

interpretation info_out: safe_reader proto_read_info "\<lambda>_. True"
  by (rule safe_structI [OF _ proto_read_info_def]) (simp add: safe_fields)

interpretation slot_info_out: safe_reader proto_read_slot_info "\<lambda>_. True"
  by (rule safe_structI [OF _ proto_read_slot_info_def]) (simp add: safe_fields)

interpretation token_info_out: safe_reader proto_read_token_info "\<lambda>_. True"
  by (rule safe_structI [OF _ proto_read_token_info_def]) (simp add: safe_fields)

interpretation mechanism_info_out: safe_reader proto_read_mechanism_info "\<lambda>_. True"
  by (rule safe_structI [OF _ proto_read_mechanism_info_def]) (simp add: safe_fields)

interpretation session_info_out: safe_reader proto_read_sesssion_info "\<lambda>_. True"
  by (rule safe_structI [OF _ proto_read_sesssion_info_def]) (simp add: safe_fields)

subsection \<open>Arrays\<close>

interpretation byte_array_out: safe_reader cl_proto_read_byte_array "\<lambda>(arr, room). has_room arr room"
proof
  fix m and mem :: "block option \<times> CK_ULONG"
  assume m: "live_msg m" and f: "case mem of (arr, room) \<Rightarrow> has_room arr room"
  obtain arr room where mem: "mem = (arr, room)" by (cases mem)
  have copy: "wp_abort (obind (mem_read val 0 (unat vlen)) (\<lambda>xs. obind (mem_write arr 0 xs) (\<lambda>arr. Ret (CKR_OK, (arr, vlen), m2))))
      (\<lambda>(ret, mem', m'). live_msg m')"
    if "live_msg m1" "msg_get egg_buffer_get_byte_array m1 = Ret (Some (val, vlen), m2)" "live_msg m2"
      "arr \<noteq> None" "\<not> room < vlen" for m1 m2 val vlen
    using byte_array_got [OF that(1,2)] that(3-5) f mem mem_write_cells [of 0 "cells val" arr]
    by (auto simp: word_less_nat_alt)
  show "wp_abort (cl_proto_read_byte_array mem m) (\<lambda>(ret, mem', m'). live_msg m')"
    unfolding cl_proto_read_byte_array_def mem prod.case
    using m copy
    by (auto simp del: wp_abort_obind intro!: expect_any byte_codec.get_or_error_any uint32_codec.get_or_error_any
        byte_array_codec.get_or_error_any)
qed

lemma read_ulong_items_any:
  "live_msg m \<Longrightarrow> (\<forall>xs. arr = Some xs \<longrightarrow> i + n \<le> length xs) \<Longrightarrow>
   wp_abort (read_ulong_items n i val arr m) (\<lambda>(arr', m'). live_msg m' \<and>
     map_option length arr' = map_option length arr)"
proof (induction n arbitrary: i val arr m)
  case (Suc n)
  have step: "wp_abort (read_ulong_items n (Suc i) v arr' m1) (\<lambda>(arr'', m'). live_msg m' \<and>
      map_option length arr'' = map_option length arr)"
    if "live_msg m1" "map_option length arr' = map_option length arr" for v arr' m1
    using Suc.IH [OF that(1), of arr' "Suc i" v] Suc.prems(2) that(2) by (cases arr'; cases arr) auto
  show ?case
    using Suc.prems step by (auto simp: Let_def simp del: wp_abort_obind intro!: uint64_codec.get_any split: option.split)
qed simp

text \<open>An array that is announced as complete has at most as many elements as the caller has room for.\<close>

lemma read_ulong_array_any:
  assumes m: "live_msg m" and f: "has_room arr room"
  shows "wp_abort (cl_proto_read_ulong_array val (arr, room) m) (\<lambda>(ret, (arr', n), m'). live_msg m' \<and>
    (ret = CKR_OK \<and> arr' \<noteq> None \<longrightarrow> map_option length arr' = map_option length arr \<and> unat n \<le> unat room))"
proof -
  have items: "wp_abort (obind (read_ulong_items (unat num) 0 val arr m1) (\<lambda>(arr, msg).
      Ret (if egg_buffer_has_error (buffer msg) then PARSE_ERROR else CKR_OK, (arr, ucast num), msg)))
      (\<lambda>(ret, (arr', n :: CK_ULONG), m'). live_msg m' \<and>
        (ret = CKR_OK \<and> arr' \<noteq> None \<longrightarrow> map_option length arr' = map_option length arr \<and> unat n \<le> unat room))"
    if "live_msg m1" "\<not> room < ucast (num :: u32)" for m1 num
  proof -
    have le: "unat (ucast num :: CK_ULONG) \<le> unat room" using that(2) by (simp only: word_less_nat_alt not_less)
    then have "\<forall>xs. arr = Some xs \<longrightarrow> 0 + unat num \<le> length xs" using f by auto
    from read_ulong_items_any [OF that(1) this, where val = val] le show ?thesis by (auto elim!: wp_abort_mono)
  qed
  show ?thesis
    unfolding cl_proto_read_ulong_array_def prod.case Let_def
    using m items
    by (auto simp del: wp_abort_obind intro!: expect_any byte_codec.get_or_error_any uint32_codec.get_or_error_any)
qed

text \<open>The elements of the template that are still to be filled.\<close>

lemma store_attribute_any:
  assumes "has_room (pValue a) (ulValueLen a)" "v \<noteq> None \<Longrightarrow> length (cells v) = unat k"
  shows "wp_abort (store_attribute a validity v k) (\<lambda>_. True)"
proof -
  have "wp_abort (obind (mem_read v 0 (unat k)) (\<lambda>xs. obind (mem_write (pValue a) 0 xs) (\<lambda>p. Ret (a\<lparr>pValue := p, ulValueLen := k\<rparr>)))) (\<lambda>_. True)"
    if "v \<noteq> None" "pValue a \<noteq> None" "\<not> ulValueLen a < k"
  proof -
    have "mem_read v 0 (unat k) = Ret (cells v)" using assms(2) [OF that(1)] mem_read_cells [of 0 "unat k" v] by simp
    then show ?thesis
      using that assms mem_write_cells [of 0 "cells v" "pValue a"] by (auto simp: word_less_nat_alt)
  qed
  then show ?thesis by (auto simp: store_attribute_def Let_def simp del: wp_abort_obind)
qed

lemma attribute_value_any:
  assumes "live_msg m1"
  shows "wp_abort (if validity \<noteq> (0 :: byte) then
              obind (msg_get egg_buffer_get_uint32 m1) (\<lambda>(r, msg).
              case r of
                None \<Rightarrow> Ret (Inl PARSE_ERROR, msg)
              | Some value \<Rightarrow>
                  obind (msg_get egg_buffer_get_byte_array msg) (\<lambda>(r, msg).
                  case r of
                    None \<Rightarrow> Ret (Inl PARSE_ERROR, msg)
                  | Some (attrval, attrlen) \<Rightarrow>
                      if attrval \<noteq> None \<and> ucast value \<noteq> attrlen then Ret (Inl PARSE_ERROR, msg)
                      else Ret (Inr (attrval, ucast value), msg)))
            else Ret (Inr (None, 0), m1)) (\<lambda>(d :: CK_RV + block option \<times> size_t, m2). live_msg m2 \<and>
              (\<forall>x k. d = Inr (x, k) \<longrightarrow> x \<noteq> None \<longrightarrow> length (cells x) = unat k))"
  using assms
  by (cases "validity = 0")
    (auto simp del: wp_abort_obind intro!: uint32_codec.get_any byte_array_codec.get_any
      split: option.split, rule byte_array_got_u32)

lemma read_attribute_items_any:
  "live_msg m \<Longrightarrow> (\<forall>as. arr = Some as \<longrightarrow> i + n \<le> length as \<and> (\<forall>j. i \<le> j \<longrightarrow> j < i + n \<longrightarrow> has_room (pValue (as ! j)) (ulValueLen (as ! j)))) \<Longrightarrow>
   wp_abort (read_attribute_items n i type validity arr m) (\<lambda>(r, arr', m'). live_msg m')"
proof (induction n arbitrary: i type validity arr m)
  case (Suc n)
  let ?Q = "\<lambda>(r :: CK_RV + unit, arr' :: attr_array, m'). live_msg m'"
  have keep: "wp_abort (read_attribute_items n (Suc i) t v None m1) ?Q" if "live_msg m1" for t v m1
    using Suc.IH [OF that, of None] by simp
  have store: "wp_abort (obind (store_attribute (as ! i) v d k) (\<lambda>attr.
      read_attribute_items n (Suc i) t v (Some (as[i := attr])) m1)) ?Q"
    if "live_msg m1" "arr = Some as" "d \<noteq> None \<Longrightarrow> length (cells d) = unat k" for t v m1 d k as
  proof -
    have "wp_abort (read_attribute_items n (Suc i) t v (Some (as[i := a])) m1) ?Q" for a
      using Suc.prems(2) that(2) by (intro Suc.IH [OF that(1)]) auto
    moreover have "has_room (pValue (as ! i)) (ulValueLen (as ! i))" using Suc.prems(2) that(2) by auto
    ultimately show ?thesis
      using store_attribute_any [of "as ! i" d k v] that(3) by (auto elim!: wp_abort_mono)
  qed
  have item: "wp_abort (case d of
       Inl e \<Rightarrow> Ret (Inl e, arr, m1)
     | Inr (attrval, attrlen) \<Rightarrow>
         if egg_buffer_has_error (buffer m1) then Ret (Inr (), arr, m1)
         else
           (case arr of
              None \<Rightarrow> read_attribute_items n (Suc i) t v None m1
            | Some as \<Rightarrow>
                if i \<ge> length as then Fault
                else if attr_type (as ! i) \<noteq> ucast t then Ret (Inl PARSE_ERROR, arr, m1)
                else
                  obind (store_attribute (as ! i) v attrval attrlen) (\<lambda>attr.
                  read_attribute_items n (Suc i) t v (Some (as[i := attr])) m1))) ?Q"
    if "live_msg m1" "\<And>x k. d = Inr (x, k) \<Longrightarrow> x \<noteq> None \<Longrightarrow> length (cells x) = unat k" for d m1 v t
    using that keep store Suc.prems(2)
    by (auto simp del: wp_abort_obind split: sum.split option.split)
  show ?case
    unfolding read_attribute_items.simps Let_def
    using Suc.prems(1)
    by (intro uint32_codec.get_any byte_codec.get_any wp_abort_obind [THEN iffD2] wp_abort_mono [OF attribute_value_any])
      (auto intro!: item)
qed simp

lemma attribute_array_out:
  assumes "values_ok arr n"
  shows "safe_reader (cl_proto_read_attribute_array validity n) (\<lambda>mem. mem = arr)"
proof
  fix m mem assume m: "live_msg m" "mem = arr"
  have items: "wp_abort (read_attribute_items (unat num) 0 t validity arr m1) (\<lambda>(r, arr', m'). live_msg m')"
    if "live_msg m1" "n = ucast (num :: u32)" for m1 num t
  proof (rule read_attribute_items_any [OF that(1)])
    have "unat n = unat num" unfolding that(2) by simp
    then show "\<forall>as. arr = Some as \<longrightarrow> 0 + unat num \<le> length as \<and>
        (\<forall>j. 0 \<le> j \<longrightarrow> j < 0 + unat num \<longrightarrow> has_room (pValue (as ! j)) (ulValueLen (as ! j)))"
      using assms by (auto simp: values_ok_def list_all_length)
  qed
  show "wp_abort (cl_proto_read_attribute_array validity n mem m) (\<lambda>(ret, mem', m'). live_msg m')"
    unfolding cl_proto_read_attribute_array_def m(2)
    using m(1) items read_ulong_any
    by (fastforce intro!: expect_any uint32_codec.get_or_error_any elim!: wp_abort_mono split: sum.split)
qed

end
