(* ===== verification/Client_Pool.thy ===== *)
theory Client_Pool
  imports Client_Readers Client_Init
begin

text \<open>
  The functions of the client module against an arbitrary peer, and the application as a state
  machine: every function that an application can call keeps the pool of connections in order.
\<close>

section \<open>The macros\<close>

named_theorems client_rules

lemma return_val_any [client_rules]:
  assumes "Q (ret, mem, C)" "p \<Longrightarrow> wp_abort k Q"
  shows "wp_abort (return_val_if_fail p ret mem C k) Q"
  using assms by (simp add: return_val_if_fail_def)

text \<open>What a function leaves behind.\<close>

abbreviation (input) pool_kept :: "CK_RV \<times> 'o \<times> Client \<Rightarrow> bool" where
  "pool_kept \<equiv> (\<lambda>(ret, mem, C). client_ok C)"

lemma BEGIN_any [client_rules]:
  assumes E: "connects_ok E" and C: "client_ok C" and i: "0 < i" "i < GCK_RPC_CALL_MAX"
    and body: "\<And>cs. req_safe cs \<Longrightarrow> wp_abort (body cs) body_safe"
  shows "wp_abort (CL_BEGIN_CALL E i mem C body) pool_kept"
proof -
  have alloc: "egg_allocator (alloc_run (ce_realloc E))" using E by (simp add: connects_ok_def)
  have fin: "wp_abort (obind (if ret \<noteq> CKR_OK then Ret (ret, mem, cs) else body cs) (\<lambda>(ret, mem, cs).
      obind (call_done C' cs ret) (\<lambda>(ret, C). Ret (ret, mem, C)))) pool_kept"
    if "client_ok C'" "call_safe cs" "ret = CKR_OK \<longrightarrow> cl_req cs \<noteq> None" for C' cs ret
  proof -
    have "wp_abort (if ret \<noteq> CKR_OK then Ret (ret, mem, cs) else body cs) body_safe"
      using that body [of cs] by (auto simp: req_safe_def)
    then show ?thesis
      using call_done_any [OF that(1)] by (fastforce elim!: wp_abort_mono)
  qed
  have "wp_abort (obind (call_prepare E cs i) (\<lambda>(ret, cs).
      obind (if ret \<noteq> CKR_OK then Ret (ret, mem, cs) else body cs) (\<lambda>(ret, mem, cs).
      obind (call_done C' cs ret) (\<lambda>(ret, C). Ret (ret, mem, C))))) pool_kept"
    if "client_ok C'" "call_safe cs" for C' cs
    unfolding wp_abort_obind [of "call_prepare E cs i"]
  proof (rule wp_abort_mono [OF call_prepare_any [OF alloc that(2) i]], clarify)
    fix ret cs1 assume "call_safe cs1" "ret = CKR_OK \<longrightarrow> cl_req cs1 \<noteq> None"
    then show "wp_abort (obind (if ret \<noteq> CKR_OK then Ret (ret, mem, cs1) else body cs1) (\<lambda>(ret, mem, cs).
        obind (call_done C' cs ret) (\<lambda>(ret, C). Ret (ret, mem, C)))) pool_kept"
      by (rule fin [OF that(1)])
  qed
  then show ?thesis
    using call_lookup_any [OF E C] C unfolding CL_BEGIN_CALL_def
    by (intro return_val_any) (auto elim!: wp_abort_mono split: sum.split)
qed

lemma PROCESS_any:
  assumes "connects_ok E" "req_safe cs" "\<And>cs. resp_safe cs \<Longrightarrow> wp_abort (k cs) body_safe"
  shows "wp_abort (CL_PROCESS_CALL E mem cs k) body_safe"
  using assms call_run_any [of E cs]
  by (auto simp: CL_PROCESS_CALL_def connects_ok_def req_safe_def resp_safe_def elim!: wp_abort_mono)

lemma END_any: "resp_safe cs \<Longrightarrow> wp_abort (CL_END_CALL ret mem cs) body_safe"
  by (simp add: CL_END_CALL_def resp_safe_def)

lemma END_fst_any [client_rules]:
  "resp_safe cs \<Longrightarrow> wp_abort ((case mem of (a, b) \<Rightarrow> CL_END_CALL ret a) cs) body_safe"
  by (simp add: END_any split: prod.split)

lemmas [client_rules] = PROCESS_any END_any byte_in.CL_IN_any [folded CL_IN_BYTE_def]
  ulong_in.CL_IN_any [folded CL_IN_ULONG_def] byte_buffer_in.CL_IN_any [folded CL_IN_BYTE_BUFFER_def]

lemma req_call_safe: "req_safe cs \<Longrightarrow> call_safe cs"
  by (simp add: req_safe_def)

lemma IN_guarded:
  assumes "\<not> bad \<Longrightarrow> safe_writer wr" "req_safe cs" "\<And>cs. req_safe cs \<Longrightarrow> wp_abort (k cs) body_safe"
  shows "wp_abort (if bad then Ret (e, mem, cs) else CL_IN wr mem cs k) body_safe"
  using safe_writer.CL_IN_any [OF assms(1) assms(2), of k mem] assms(2,3) by (cases bad) (simp_all add: req_call_safe)

lemma IN_SPACE_STRING_any [client_rules]:
  assumes "has_room p n" "req_safe cs" "\<And>cs. req_safe cs \<Longrightarrow> wp_abort (k cs) body_safe"
  shows "wp_abort (CL_IN_SPACE_STRING p n mem cs k) body_safe"
  unfolding CL_IN_SPACE_STRING_def
  by (rule safe_writer.CL_IN_any [OF space_string_in [OF assms(1)] assms(2)]) (rule assms(3))

lemma IN_BYTE_ARRAY_any [client_rules]:
  assumes "has_room arr n" "req_safe cs" "\<And>cs. req_safe cs \<Longrightarrow> wp_abort (k cs) body_safe"
  shows "wp_abort (CL_IN_BYTE_ARRAY arr n mem cs k) body_safe"
  unfolding CL_IN_BYTE_ARRAY_def by (rule IN_guarded [OF byte_array_in assms(2,3)]) (rule assms(1))

lemma IN_ULONG_BUFFER2_any [client_rules]:
  assumes "req_safe cs" "\<And>cs. req_safe cs \<Longrightarrow> wp_abort (k cs) body_safe"
  shows "wp_abort (CL_IN_ULONG_BUFFER2 arr n mem cs k) body_safe"
  unfolding CL_IN_ULONG_BUFFER2_def by (rule ulong_buffer_in.CL_IN_any) (use assms in auto)

lemma IN_ULONG_BUFFER_any [client_rules]:
  assumes "req_safe cs" "\<And>cs. req_safe cs \<Longrightarrow> wp_abort (k cs) body_safe"
  shows "wp_abort (CL_IN_ULONG_BUFFER arr n mem cs k) body_safe"
  using IN_ULONG_BUFFER2_any [OF assms] assms by (auto simp: CL_IN_ULONG_BUFFER_def req_call_safe split: option.split)

lemma IN_ATTRIBUTE_BUFFER_any [client_rules]:
  assumes "values_ok arr n" "req_safe cs" "\<And>cs. req_safe cs \<Longrightarrow> wp_abort (k cs) body_safe"
  shows "wp_abort (CL_IN_ATTRIBUTE_BUFFER arr n mem cs k) body_safe"
  unfolding CL_IN_ATTRIBUTE_BUFFER_def
  by (rule IN_guarded [OF attribute_buffer_in assms(2,3)]) (use assms(1) in \<open>auto simp: values_ok_def\<close>)

lemma IN_ATTRIBUTE_ARRAY_any [client_rules]:
  assumes "values_ok arr n" "req_safe cs" "\<And>cs. req_safe cs \<Longrightarrow> wp_abort (k cs) body_safe"
  shows "wp_abort (CL_IN_ATTRIBUTE_ARRAY arr n mem cs k) body_safe"
  unfolding CL_IN_ATTRIBUTE_ARRAY_def by (rule IN_guarded [OF attribute_array_in assms(2,3)]) (use assms(1) in auto)

lemma IN_MECHANISM_TYPE_any [client_rules]:
  assumes "req_safe cs" "\<And>cs. req_safe cs \<Longrightarrow> wp_abort (k cs) body_safe"
  shows "wp_abort (CL_IN_MECHANISM_TYPE v mem cs k) body_safe"
  unfolding CL_IN_MECHANISM_TYPE_def by (rule IN_guarded [OF ulong_in.safe_writer_axioms assms])

lemma IN_MECHANISM_any [client_rules]:
  assumes "parameter_ok mech" "req_safe cs" "\<And>cs. req_safe cs \<Longrightarrow> wp_abort (k cs) body_safe"
  shows "wp_abort (CL_IN_MECHANISM mech mem cs k) body_safe"
proof (cases mech)
  case None
  then show ?thesis using assms by (simp add: CL_IN_MECHANISM_def req_call_safe)
next
  case (Some m)
  then have "wp_abort (on_cl_req cs (\<lambda>q. proto_write_mechanism q m)) (\<lambda>(r, cs'). req_safe cs')"
    using assms(1) by (intro on_cl_req_any [OF assms(2)] write_mechanism_any) (auto simp: parameter_ok_def)
  then show ?thesis
    using Some assms(3) by (auto simp: CL_IN_MECHANISM_def req_call_safe elim!: wp_abort_mono)
qed

lemma OUT_ULONG_any [client_rules]:
  assumes "resp_safe cs" "\<And>ret mem cs. resp_safe cs \<Longrightarrow> wp_abort (k ret mem cs) body_safe"
  shows "wp_abort (CL_OUT_ULONG p ret cs k) body_safe"
  unfolding CL_OUT_ULONG_def by (rule ulong_out.CL_OUT_PTR_any) (use assms in auto)

lemma OUT_INFO_any [client_rules]:
  assumes "resp_safe cs" "\<And>ret mem cs. resp_safe cs \<Longrightarrow> wp_abort (k ret mem cs) body_safe"
  shows "wp_abort (CL_OUT_INFO p ret cs k) body_safe"
  unfolding CL_OUT_INFO_def by (rule info_out.CL_OUT_PTR_any) (use assms in auto)

lemma OUT_SLOT_INFO_any [client_rules]:
  assumes "resp_safe cs" "\<And>ret mem cs. resp_safe cs \<Longrightarrow> wp_abort (k ret mem cs) body_safe"
  shows "wp_abort (CL_OUT_SLOT_INFO p ret cs k) body_safe"
  unfolding CL_OUT_SLOT_INFO_def by (rule slot_info_out.CL_OUT_PTR_any) (use assms in auto)

lemma OUT_TOKEN_INFO_any [client_rules]:
  assumes "resp_safe cs" "\<And>ret mem cs. resp_safe cs \<Longrightarrow> wp_abort (k ret mem cs) body_safe"
  shows "wp_abort (CL_OUT_TOKEN_INFO p ret cs k) body_safe"
  unfolding CL_OUT_TOKEN_INFO_def by (rule token_info_out.CL_OUT_PTR_any) (use assms in auto)

lemma OUT_MECHANISM_INFO_any [client_rules]:
  assumes "resp_safe cs" "\<And>ret mem cs. resp_safe cs \<Longrightarrow> wp_abort (k ret mem cs) body_safe"
  shows "wp_abort (CL_OUT_MECHANISM_INFO p ret cs k) body_safe"
  unfolding CL_OUT_MECHANISM_INFO_def by (rule mechanism_info_out.CL_OUT_PTR_any) (use assms in auto)

lemma OUT_SESSION_INFO_any [client_rules]:
  assumes "resp_safe cs" "\<And>ret mem cs. resp_safe cs \<Longrightarrow> wp_abort (k ret mem cs) body_safe"
  shows "wp_abort (CL_OUT_SESSION_INFO p ret cs k) body_safe"
  unfolding CL_OUT_SESSION_INFO_def by (rule session_info_out.CL_OUT_PTR_any) (use assms in auto)

lemma OUT_BYTE_ARRAY2_any [client_rules]:
  assumes "has_room arr n" "resp_safe cs" "\<And>ret mem cs. resp_safe cs \<Longrightarrow> wp_abort (k ret mem cs) body_safe"
  shows "wp_abort (CL_OUT_BYTE_ARRAY2 arr n ret cs k) body_safe"
  unfolding CL_OUT_BYTE_ARRAY2_def by (rule byte_array_out.CL_OUT_any) (use assms in auto)

lemma OUT_BYTE_ARRAY_any [client_rules]:
  assumes "has_room_ptr arr n" "resp_safe cs" "\<And>ret mem cs. resp_safe cs \<Longrightarrow> wp_abort (k ret mem cs) body_safe"
  shows "wp_abort (CL_OUT_BYTE_ARRAY (arr, n) ret cs k) body_safe"
  using assms by (auto simp: CL_OUT_BYTE_ARRAY_def has_room_ptr_def intro!: OUT_BYTE_ARRAY2_any split: option.splits)

lemma OUT_ATTRIBUTE_ARRAY_any [client_rules]:
  assumes "values_ok arr n" "resp_safe cs" "\<And>ret mem cs. resp_safe cs \<Longrightarrow> wp_abort (k ret mem cs) body_safe"
  shows "wp_abort (CL_OUT_ATTRIBUTE_ARRAY E n arr ret cs k) body_safe"
  unfolding CL_OUT_ATTRIBUTE_ARRAY_def
  by (rule safe_reader.CL_OUT_any [OF attribute_array_out [OF assms(1)] assms(2) refl]) (rule assms(3))

text \<open>
  The rest of a function after an array of integers may rely on the array being as long as before,
  and on its new length, when the code is \<open>CKR_OK\<close>.
\<close>

definition array_kept :: "ulong_array \<Rightarrow> CK_ULONG option \<Rightarrow> CK_RV \<Rightarrow> ulong_array \<Rightarrow> CK_ULONG option \<Rightarrow> bool" where
  "array_kept arr n ret arr' n' \<longleftrightarrow>
     (ret = CKR_OK \<and> arr' \<noteq> None \<longrightarrow> map_option length arr' = map_option length arr \<and>
        (\<exists>room m. n = Some room \<and> n' = Some m \<and> unat m \<le> unat room))"

lemma OUT_ULONG_ARRAY_then:
  assumes r: "has_room_ptr arr n" and cs: "resp_safe cs"
    and k: "\<And>ret arr' n' cs. resp_safe cs \<Longrightarrow> array_kept arr n ret arr' n' \<Longrightarrow>
      wp_abort (k ret (arr', n') cs) body_safe"
  shows "wp_abort (CL_OUT_ULONG_ARRAY E (arr, n) CKR_OK cs k) body_safe"
proof (cases n)
  case None
  then show ?thesis using k [OF cs, of CKR_ARGUMENTS_BAD arr n] by (simp add: CL_OUT_ULONG_ARRAY_def array_kept_def)
next
  case (Some room)
  obtain m where m: "cl_resp cs = Some m" "live_msg m" "call_safe cs"
    using cs by (auto simp: resp_safe_def call_safe_def messages_live_def)
  have "resp_safe (cs\<lparr>cl_resp := Some m'\<rparr>)" if "live_msg m'" for m'
    using call_safe_messages(2) [OF m(3) that] by (simp add: resp_safe_def)
  moreover have "wp_abort (cl_proto_read_ulong_array (ce_val E) (arr, room) m)
      (\<lambda>(ret, (arr', n'), m'). live_msg m' \<and> array_kept arr n ret arr' (Some n'))"
    using r Some by (intro wp_abort_mono [OF read_ulong_array_any [OF m(2)]]) (auto simp: array_kept_def)
  ultimately show ?thesis
    using Some m(1) k by (auto simp: CL_OUT_ULONG_ARRAY_def CL_OUT_def elim!: wp_abort_mono)
qed

lemma OUT_ULONG_ARRAY_any [client_rules]:
  assumes "has_room_ptr arr n" "resp_safe cs" "\<And>ret mem cs. resp_safe cs \<Longrightarrow> wp_abort (k ret mem cs) body_safe"
  shows "wp_abort (CL_OUT_ULONG_ARRAY E (arr, n) CKR_OK cs k) body_safe"
  using assms by (intro OUT_ULONG_ARRAY_then) auto

text \<open>The list of mechanisms needs an element more than it announces, and 31 bits for the length.\<close>

definition purge_room :: "ulong_array \<Rightarrow> CK_ULONG option \<Rightarrow> bool" where
  "purge_room arr n \<longleftrightarrow>
     (case (arr, n) of (Some xs, Some k) \<Rightarrow> unat k < length xs \<and> unat k < 2 ^ 31 | _ \<Rightarrow> True)"

lemma OUT_MECHANISM_TYPE_ARRAY_any [client_rules]:
  assumes r: "purge_room arr n" and cs: "resp_safe cs"
    and k: "\<And>ret mem cs. resp_safe cs \<Longrightarrow> wp_abort (k ret mem cs) body_safe"
  shows "wp_abort (CL_OUT_MECHANISM_TYPE_ARRAY E (arr, n) CKR_OK cs k) body_safe"
  unfolding CL_OUT_MECHANISM_TYPE_ARRAY_def
proof (rule OUT_ULONG_ARRAY_then [OF _ cs])
  show "has_room_ptr arr n"
    using r by (auto simp: purge_room_def has_room_ptr_def has_room_def split: option.splits)
  fix ret arr' n' cs assume cs: "resp_safe cs" and post: "array_kept arr n ret arr' n'"
  have "\<exists>mechs p. gck_rpc_mechanism_list_purge arr' n' = Ret (mechs, p)" if ok: "ret = CKR_OK" "arr' \<noteq> None"
  proof -
    obtain xs ys room m where e: "arr' = Some xs" "arr = Some ys" "length xs = length ys" "n = Some room"
      "n' = Some m" "unat m \<le> unat room"
      using post ok by (cases arr) (auto simp: array_kept_def)
    then have "unat m < length xs" "unat m < 2 ^ 31" using r by (auto simp: purge_room_def)
    then show ?thesis
      using purge_loop_spec [of m xs 0] e by (auto simp: gck_rpc_mechanism_list_purge_def)
  qed
  then show "wp_abort ((\<lambda>ret (arr, n) cs.
      if ret = CKR_OK \<and> arr \<noteq> None then
        obind (gck_rpc_mechanism_list_purge arr n) (\<lambda>(mechs, n). k ret (Some mechs, Some n) cs)
      else k ret (arr, n) cs) ret (arr', n') cs) body_safe"
    using k [OF cs] by auto
qed

section \<open>Starting and stopping\<close>

lemma simple_call_any:
  assumes E: "connects_ok E" and C: "client_ok C" and i: "0 < i" "i < GCK_RPC_CALL_MAX" and wr: "safe_writer wr"
  shows "wp_abort (simple_call E i wr C) (\<lambda>(ret, C'). client_ok C')"
proof -
  have alloc: "egg_allocator (alloc_run (ce_realloc E))" using E by (simp add: connects_ok_def)
  have run: "wp_abort (if ret = CKR_OK then
      obind (on_cl_req cs wr) (\<lambda>(ok, cs). if \<not> ok then Ret (CKR_HOST_MEMORY, cs) else call_run E cs)
      else Ret (ret, cs)) (\<lambda>(ret, cs'). call_safe cs')"
    if "call_safe cs" "ret = CKR_OK \<longrightarrow> cl_req cs \<noteq> None" for cs ret
  proof (cases "ret = CKR_OK")
    case True
    then have "req_safe cs" using that by (simp add: req_safe_def)
    then have "wp_abort (on_cl_req cs wr) (\<lambda>(r, cs'). req_safe cs')"
      by (rule on_cl_req_any) (rule safe_writer.write_any [OF wr])
    moreover have "wp_abort (call_run E cs) (\<lambda>(ret, cs'). call_safe cs')" if "req_safe cs" for cs
      using that by (intro wp_abort_mono [OF call_run_any [OF alloc]]) (auto simp: req_safe_def)
    ultimately show ?thesis
      using True by (auto simp: req_call_safe elim!: wp_abort_mono)
  qed (use that in simp)
  have "wp_abort (obind (call_prepare E cs i) (\<lambda>(ret, cs).
      obind (if ret = CKR_OK then
          obind (on_cl_req cs wr) (\<lambda>(ok, cs). if \<not> ok then Ret (CKR_HOST_MEMORY, cs) else call_run E cs)
        else Ret (ret, cs)) (\<lambda>(ret, cs).
      obind (call_done C' cs ret) (\<lambda>(_, C). Ret (ret, C))))) (\<lambda>(ret, C'). client_ok C')"
    if "client_ok C'" "call_safe cs" for C' cs
    unfolding wp_abort_obind [of "call_prepare E cs i"]
  proof (rule wp_abort_mono [OF call_prepare_any [OF alloc that(2) i]], clarify)
    fix ret cs1 assume "call_safe cs1" "ret = CKR_OK \<longrightarrow> cl_req cs1 \<noteq> None"
    from wp_abort_mono [OF run [OF this]]
    show "wp_abort (obind (if ret = CKR_OK then
          obind (on_cl_req cs1 wr) (\<lambda>(ok, cs). if \<not> ok then Ret (CKR_HOST_MEMORY, cs) else call_run E cs)
        else Ret (ret, cs1)) (\<lambda>(ret, cs).
      obind (call_done C' cs ret) (\<lambda>(_, C). Ret (ret, C)))) (\<lambda>(ret, C'). client_ok C')"
      unfolding wp_abort_obind [of "if _ then _ else _"]
      by this (auto intro!: wp_abort_mono [OF call_done_any [OF that(1)]])
  qed
  then show ?thesis
    using call_lookup_any [OF E C] unfolding simple_call_def
    by (auto elim!: wp_abort_mono split: sum.split)
qed

text \<open>No argument string, and no \<open>tls://\<close> in the environment.\<close>

definition quiet_start :: "Init_Env \<Rightarrow> CK_C_INITIALIZE_ARGS option \<Rightarrow> bool" where
  "quiet_start I args \<longleftrightarrow>
     (case args of None \<Rightarrow> True | Some a \<Rightarrow> pReserved a = None) \<and>
     (case nonempty_env I ''PKCS11_PROXY_SOCKET'' of None \<Rightarrow> True | Some p \<Rightarrow> take 6 p \<noteq> ''tls://'')"

lemma unix_path_no_tls:
  assumes "take 6 p \<noteq> ''tls://''"
  shows "take 6 (p @ ''.pkcs11'') \<noteq> ''tls://''"
proof (cases "length p < 6")
  case True
  then have "CHR ''.'' \<in> set (take 6 (p @ ''.pkcs11''))"
    by (cases "6 - length p") auto
  moreover have "CHR ''.'' \<notin> set ''tls://''" by simp
  ultimately show ?thesis by metis
qed (use assms in simp)

lemma client_ok_path: "client_ok C \<Longrightarrow> take 6 p \<noteq> ''tls://'' \<Longrightarrow> client_ok (C\<lparr>client_socket_path := copy_path p\<rparr>)"
  by (simp add: client_ok_def copy_path_def min_def)

lemma initialize_path_keeps:
  assumes "quiet_start I args" "client_ok C"
  shows "client_ok (snd (initialize_path I C))"
proof (cases "nonempty_env I ''PKCS11_PROXY_SOCKET''")
  case None
  then show ?thesis using assms(2) by (simp add: initialize_path_def)
next
  case (Some p)
  then have "take 6 p \<noteq> ''tls://''" using assms(1) by (simp add: quiet_start_def)
  then show ?thesis
    using Some assms(2) client_ok_path [OF assms(2)] unix_path_no_tls [of p]
    by (simp add: initialize_path_def del: take_append)
qed

lemma initialize_tls_keeps: "client_ok C \<Longrightarrow> initialize_tls I C = (CKR_OK, C)"
  by (simp add: initialize_tls_def client_ok_def)

lemma client_ok_update [simp]:
  "client_ok (C\<lparr>pkcs11_app_id := i\<rparr>) = client_ok C"
  "client_ok (C\<lparr>pkcs11_initialized := b\<rparr>) = client_ok C"
  "client_ok (C\<lparr>pkcs11_initialized_pid := p\<rparr>) = client_ok C"
  by (simp_all add: client_ok_def)

lemma client_ok_no_path: "client_ok C \<Longrightarrow> client_ok (C\<lparr>client_socket_path := []\<rparr>)"
  by (simp add: client_ok_def)

lemma initialize_done_keeps: "client_ok C \<Longrightarrow> client_ok (snd (initialize_done pid ret C))"
  by (simp add: initialize_done_def client_ok_no_path)

lemma C_Initialize_any:
  assumes E: "connects_ok E" and C: "client_ok C" and q: "quiet_start I args"
  shows "wp_abort (cl_C_Initialize E I args C) (\<lambda>(ret, C'). client_ok C')"
proof -
  have hs: "safe_writer write_handshake"
    unfolding write_handshake_def [abs_def] by (rule byte_array_in) (simp add: GCK_RPC_HANDSHAKE_def c_bytes_def)
  have fin: "client_ok C' \<Longrightarrow> case initialize_done pid ret C' of (ret, C') \<Rightarrow> client_ok C'" for pid ret C'
    using initialize_done_keeps [of C' pid ret] by (simp add: split_def)
  have "\<exists>ret. initialize_args I args C = Ret (ret, C)"
    using q by (cases args) (auto simp: initialize_args_def quiet_start_def parse_arguments_def)
  then obtain ret where args: "initialize_args I args C = Ret (ret, C)" by auto
  obtain r1 C1 where p: "initialize_path I C = (r1, C1)" by (cases "initialize_path I C")
  have C1: "client_ok C1" using initialize_path_keeps [OF q C] p by simp
  have call: "wp_abort (simple_call E GCK_RPC_CALL_C_Initialize write_handshake (C1\<lparr>pkcs11_app_id := a\<rparr>))
      (\<lambda>(ret, C'). client_ok C')" for a
    by (rule simple_call_any [OF E _ _ _ hs]) (simp_all add: C1)
  have "wp_abort (obind (simple_call E GCK_RPC_CALL_C_Initialize write_handshake (C1\<lparr>pkcs11_app_id := a\<rparr>))
      (\<lambda>(ret, C). Ret (initialize_done (ie_pid I) ret C))) (\<lambda>(ret, C'). client_ok C')" for a
    unfolding wp_abort_obind by (rule wp_abort_mono [OF call]) (simp add: split_def initialize_done_keeps)
  then show ?thesis
    using args p fin [OF C] fin [OF C1] initialize_tls_keeps [OF C1] by (simp add: cl_C_Initialize_def Let_def)
qed

lemma C_Finalize_any [client_rules]:
  assumes "connects_ok E" "client_ok C"
  shows "wp_abort (cl_C_Finalize E reserved C) pool_kept"
proof -
  have "safe_writer (\<lambda>m. Ret (True, m))" by unfold_locales simp
  from simple_call_any [OF assms _ _ this, of GCK_RPC_CALL_C_Finalize] show ?thesis
    unfolding cl_C_Finalize_def
    by (intro return_val_any) (auto simp: client_ok_no_path assms elim!: wp_abort_mono)
qed

section \<open>The functions\<close>

definition run_call :: "(Client \<Rightarrow> (CK_RV \<times> 'o \<times> Client) outcome) \<Rightarrow> Client \<Rightarrow> Client outcome" where
  "run_call f C = obind (f C) (\<lambda>(ret, mem, C). Ret C)"

text \<open>
  The calls that an application may make: any function with any arguments whose arrays are as
  long as the application says.
\<close>

inductive client_call :: "Client_Env \<Rightarrow> (Client \<Rightarrow> Client outcome) \<Rightarrow> bool" where
  client_C_Initialize: "quiet_start I args \<Longrightarrow>
    client_call E (\<lambda>C. obind (cl_C_Initialize E I args C) (\<lambda>(ret, C). Ret C))"
| client_C_Finalize: "client_call E (run_call (cl_C_Finalize E reserved))"
| client_C_GetInfo: "client_call E (run_call (cl_C_GetInfo E info))"
| client_C_GetSlotList: "has_room_ptr slot_list n \<Longrightarrow>
    client_call E (run_call (cl_C_GetSlotList E token_present slot_list n))"
| client_C_GetSlotInfo: "client_call E (run_call (cl_C_GetSlotInfo E slot_id info))"
| client_C_GetTokenInfo: "client_call E (run_call (cl_C_GetTokenInfo E slot_id info))"
| client_C_GetMechanismList: "purge_room mechanism_list n \<Longrightarrow>
    client_call E (run_call (cl_C_GetMechanismList E slot_id mechanism_list n))"
| client_C_GetMechanismInfo: "client_call E (run_call (cl_C_GetMechanismInfo E slot_id typ info))"
| client_C_InitToken: "has_room pin pin_len \<Longrightarrow> has_room lbl 32 \<Longrightarrow>
    client_call E (run_call (cl_C_InitToken E slot_id pin pin_len lbl))"
| client_C_WaitForSlotEvent: "client_call E (run_call (cl_C_WaitForSlotEvent E flags slot))"
| client_C_OpenSession: "client_call E (run_call (cl_C_OpenSession E slot_id flags session))"
| client_C_CloseSession: "client_call E (run_call (cl_C_CloseSession E session))"
| client_C_CloseAllSessions: "client_call E (run_call (cl_C_CloseAllSessions E slot_id))"
| client_C_GetFunctionStatus: "client_call E (run_call (cl_C_GetFunctionStatus E session))"
| client_C_CancelFunction: "client_call E (run_call (cl_C_CancelFunction E session))"
| client_C_GetSessionInfo: "client_call E (run_call (cl_C_GetSessionInfo E session info))"
| client_C_InitPIN: "has_room pin pin_len \<Longrightarrow>
    client_call E (run_call (cl_C_InitPIN E session pin pin_len))"
| client_C_SetPIN: "has_room old_pin old_pin_len \<Longrightarrow> has_room new_pin new_pin_len \<Longrightarrow>
    client_call E (run_call (cl_C_SetPIN E session old_pin old_pin_len new_pin new_pin_len))"
| client_C_GetOperationState: "has_room_ptr operation_state operation_state_len \<Longrightarrow>
    client_call E (run_call (cl_C_GetOperationState E session operation_state operation_state_len))"
| client_C_SetOperationState: "has_room operation_state operation_state_len \<Longrightarrow>
    client_call E (run_call (cl_C_SetOperationState E session operation_state operation_state_len encryption_key authentication_key))"
| client_C_Login: "has_room pin pin_len \<Longrightarrow>
    client_call E (run_call (cl_C_Login E session user_type pin pin_len))"
| client_C_Logout: "client_call E (run_call (cl_C_Logout E session))"
| client_C_CreateObject: "values_ok tmpl n \<Longrightarrow>
    client_call E (run_call (cl_C_CreateObject E session tmpl n new_object))"
| client_C_CopyObject: "values_ok tmpl n \<Longrightarrow>
    client_call E (run_call (cl_C_CopyObject E session object tmpl n new_object))"
| client_C_DestroyObject: "client_call E (run_call (cl_C_DestroyObject E session object))"
| client_C_GetObjectSize: "client_call E (run_call (cl_C_GetObjectSize E session object sz))"
| client_C_GetAttributeValue: "values_ok tmpl n \<Longrightarrow>
    client_call E (run_call (cl_C_GetAttributeValue E session object tmpl n))"
| client_C_SetAttributeValue: "values_ok tmpl n \<Longrightarrow>
    client_call E (run_call (cl_C_SetAttributeValue E session object tmpl n))"
| client_C_FindObjectsInit: "values_ok tmpl n \<Longrightarrow>
    client_call E (run_call (cl_C_FindObjectsInit E session tmpl n))"
| client_C_FindObjects: "has_room objects max_count \<Longrightarrow>
    client_call E (run_call (cl_C_FindObjects E session objects max_count n))"
| client_C_FindObjectsFinal: "client_call E (run_call (cl_C_FindObjectsFinal E session))"
| client_C_EncryptInit: "parameter_ok mech \<Longrightarrow>
    client_call E (run_call (cl_C_EncryptInit E session mech key))"
| client_C_Encrypt: "has_room dat dat_len \<Longrightarrow> has_room_ptr encrypted_data encrypted_data_len \<Longrightarrow>
    client_call E (run_call (cl_C_Encrypt E session dat dat_len encrypted_data encrypted_data_len))"
| client_C_EncryptUpdate: "has_room prt prt_len \<Longrightarrow> has_room_ptr encrypted_part encrypted_part_len \<Longrightarrow>
    client_call E (run_call (cl_C_EncryptUpdate E session prt prt_len encrypted_part encrypted_part_len))"
| client_C_EncryptFinal: "has_room_ptr last_part last_part_len \<Longrightarrow>
    client_call E (run_call (cl_C_EncryptFinal E session last_part last_part_len))"
| client_C_DecryptInit: "parameter_ok mech \<Longrightarrow>
    client_call E (run_call (cl_C_DecryptInit E session mech key))"
| client_C_Decrypt: "has_room enc_data enc_data_len \<Longrightarrow> has_room_ptr dat dat_len \<Longrightarrow>
    client_call E (run_call (cl_C_Decrypt E session enc_data enc_data_len dat dat_len))"
| client_C_DecryptUpdate: "has_room enc_part enc_part_len \<Longrightarrow> has_room_ptr prt prt_len \<Longrightarrow>
    client_call E (run_call (cl_C_DecryptUpdate E session enc_part enc_part_len prt prt_len))"
| client_C_DecryptFinal: "has_room_ptr last_part last_part_len \<Longrightarrow>
    client_call E (run_call (cl_C_DecryptFinal E session last_part last_part_len))"
| client_C_DigestInit: "parameter_ok mech \<Longrightarrow>
    client_call E (run_call (cl_C_DigestInit E session mech))"
| client_C_Digest: "has_room dat dat_len \<Longrightarrow> has_room_ptr digest digest_len \<Longrightarrow>
    client_call E (run_call (cl_C_Digest E session dat dat_len digest digest_len))"
| client_C_DigestUpdate: "has_room prt prt_len \<Longrightarrow>
    client_call E (run_call (cl_C_DigestUpdate E session prt prt_len))"
| client_C_DigestKey: "client_call E (run_call (cl_C_DigestKey E session key))"
| client_C_DigestFinal: "has_room_ptr digest digest_len \<Longrightarrow>
    client_call E (run_call (cl_C_DigestFinal E session digest digest_len))"
| client_C_SignInit: "parameter_ok mech \<Longrightarrow>
    client_call E (run_call (cl_C_SignInit E session mech key))"
| client_C_Sign: "has_room dat dat_len \<Longrightarrow> has_room_ptr sig sig_len \<Longrightarrow>
    client_call E (run_call (cl_C_Sign E session dat dat_len sig sig_len))"
| client_C_SignUpdate: "has_room prt prt_len \<Longrightarrow>
    client_call E (run_call (cl_C_SignUpdate E session prt prt_len))"
| client_C_SignFinal: "has_room_ptr sig sig_len \<Longrightarrow>
    client_call E (run_call (cl_C_SignFinal E session sig sig_len))"
| client_C_SignRecoverInit: "parameter_ok mech \<Longrightarrow>
    client_call E (run_call (cl_C_SignRecoverInit E session mech key))"
| client_C_SignRecover: "has_room dat dat_len \<Longrightarrow> has_room_ptr sig sig_len \<Longrightarrow>
    client_call E (run_call (cl_C_SignRecover E session dat dat_len sig sig_len))"
| client_C_VerifyInit: "parameter_ok mech \<Longrightarrow>
    client_call E (run_call (cl_C_VerifyInit E session mech key))"
| client_C_Verify: "has_room dat dat_len \<Longrightarrow> has_room sig sig_len \<Longrightarrow>
    client_call E (run_call (cl_C_Verify E session dat dat_len sig sig_len))"
| client_C_VerifyUpdate: "has_room prt prt_len \<Longrightarrow>
    client_call E (run_call (cl_C_VerifyUpdate E session prt prt_len))"
| client_C_VerifyFinal: "has_room sig sig_len \<Longrightarrow>
    client_call E (run_call (cl_C_VerifyFinal E session sig sig_len))"
| client_C_VerifyRecoverInit: "parameter_ok mech \<Longrightarrow>
    client_call E (run_call (cl_C_VerifyRecoverInit E session mech key))"
| client_C_VerifyRecover: "has_room sig sig_len \<Longrightarrow> has_room_ptr dat dat_len \<Longrightarrow>
    client_call E (run_call (cl_C_VerifyRecover E session sig sig_len dat dat_len))"
| client_C_DigestEncryptUpdate: "has_room prt prt_len \<Longrightarrow> has_room_ptr enc_part enc_part_len \<Longrightarrow>
    client_call E (run_call (cl_C_DigestEncryptUpdate E session prt prt_len enc_part enc_part_len))"
| client_C_DecryptDigestUpdate: "has_room enc_part enc_part_len \<Longrightarrow> has_room_ptr prt prt_len \<Longrightarrow>
    client_call E (run_call (cl_C_DecryptDigestUpdate E session enc_part enc_part_len prt prt_len))"
| client_C_SignEncryptUpdate: "has_room prt prt_len \<Longrightarrow> has_room_ptr enc_part enc_part_len \<Longrightarrow>
    client_call E (run_call (cl_C_SignEncryptUpdate E session prt prt_len enc_part enc_part_len))"
| client_C_DecryptVerifyUpdate: "has_room enc_part enc_part_len \<Longrightarrow> has_room_ptr prt prt_len \<Longrightarrow>
    client_call E (run_call (cl_C_DecryptVerifyUpdate E session enc_part enc_part_len prt prt_len))"
| client_C_GenerateKey: "parameter_ok mech \<Longrightarrow> values_ok tmpl n \<Longrightarrow>
    client_call E (run_call (cl_C_GenerateKey E session mech tmpl n key))"
| client_C_GenerateKeyPair: "parameter_ok mech \<Longrightarrow> values_ok pub_tmpl pub_count \<Longrightarrow> values_ok priv_tmpl priv_count \<Longrightarrow>
    client_call E (run_call (cl_C_GenerateKeyPair E session mech pub_tmpl pub_count priv_tmpl priv_count pub_key priv_key))"
| client_C_WrapKey: "parameter_ok mech \<Longrightarrow> has_room_ptr wrapped_key wrapped_key_len \<Longrightarrow>
    client_call E (run_call (cl_C_WrapKey E session mech wrapping_key key wrapped_key wrapped_key_len))"
| client_C_UnwrapKey: "parameter_ok mech \<Longrightarrow> has_room wrapped_key wrapped_key_len \<Longrightarrow> values_ok tmpl n \<Longrightarrow>
    client_call E (run_call (cl_C_UnwrapKey E session mech unwrapping_key wrapped_key wrapped_key_len tmpl n key))"
| client_C_DeriveKey: "parameter_ok mech \<Longrightarrow> values_ok tmpl n \<Longrightarrow>
    client_call E (run_call (cl_C_DeriveKey E session mech base_key tmpl n key))"
| client_C_SeedRandom: "has_room seed seed_len \<Longrightarrow>
    client_call E (run_call (cl_C_SeedRandom E session seed seed_len))"
| client_C_GenerateRandom: "has_room random_data random_len \<Longrightarrow>
    client_call E (run_call (cl_C_GenerateRandom E session random_data random_len))"

lemmas client_defs = cl_C_GetInfo_def cl_C_GetSlotList_def cl_C_GetSlotInfo_def
  cl_C_GetTokenInfo_def cl_C_GetMechanismList_def cl_C_GetMechanismInfo_def
  cl_C_InitToken_def cl_C_WaitForSlotEvent_def cl_C_OpenSession_def
  cl_C_CloseSession_def cl_C_CloseAllSessions_def cl_C_GetFunctionStatus_def
  cl_C_CancelFunction_def cl_C_GetSessionInfo_def cl_C_InitPIN_def
  cl_C_SetPIN_def cl_C_GetOperationState_def cl_C_SetOperationState_def
  cl_C_Login_def cl_C_Logout_def cl_C_CreateObject_def
  cl_C_CopyObject_def cl_C_DestroyObject_def cl_C_GetObjectSize_def
  cl_C_GetAttributeValue_def cl_C_SetAttributeValue_def cl_C_FindObjectsInit_def
  cl_C_FindObjects_def cl_C_FindObjectsFinal_def cl_C_EncryptInit_def
  cl_C_Encrypt_def cl_C_EncryptUpdate_def cl_C_EncryptFinal_def
  cl_C_DecryptInit_def cl_C_Decrypt_def cl_C_DecryptUpdate_def
  cl_C_DecryptFinal_def cl_C_DigestInit_def cl_C_Digest_def
  cl_C_DigestUpdate_def cl_C_DigestKey_def cl_C_DigestFinal_def
  cl_C_SignInit_def cl_C_Sign_def cl_C_SignUpdate_def
  cl_C_SignFinal_def cl_C_SignRecoverInit_def cl_C_SignRecover_def
  cl_C_VerifyInit_def cl_C_Verify_def cl_C_VerifyUpdate_def
  cl_C_VerifyFinal_def cl_C_VerifyRecoverInit_def cl_C_VerifyRecover_def
  cl_C_DigestEncryptUpdate_def cl_C_DecryptDigestUpdate_def cl_C_SignEncryptUpdate_def
  cl_C_DecryptVerifyUpdate_def cl_C_GenerateKey_def cl_C_GenerateKeyPair_def
  cl_C_WrapKey_def cl_C_UnwrapKey_def cl_C_DeriveKey_def
  cl_C_SeedRandom_def cl_C_GenerateRandom_def

lemma run_call_keeps: "wp_abort (f C) pool_kept \<Longrightarrow> wp_abort (run_call f C) client_ok"
  by (auto simp: run_call_def elim!: wp_abort_mono)

lemma client_call_keeps:
  assumes "client_call E f" "connects_ok E" "client_ok C"
  shows "wp_abort (f C) client_ok"
  using assms
proof (induction rule: client_call.induct)
  case (client_C_Initialize I args E)
  then show ?case by (auto intro!: wp_abort_mono [OF C_Initialize_any])
qed (intro run_call_keeps; (unfold client_defs)?; intro client_rules; simp)+

text \<open>The application as a state machine: it starts with nothing and makes calls that return.\<close>

definition client_start :: Client where
  "client_start =
     \<lparr>pkcs11_initialized = False, pkcs11_initialized_pid = 0, pkcs11_app_id = 0, client_socket_path = [],
      tls_psk_key_filename = [], call_state_pool = [], n_call_state_pool = 0, n_attempts = 0\<rparr>"

inductive client_reaches :: "Client_Env \<Rightarrow> Client \<Rightarrow> bool" for E where
  client_starts: "client_reaches E client_start"
| client_steps: "client_reaches E C \<Longrightarrow> client_call E f \<Longrightarrow> f C = Ret C' \<Longrightarrow> client_reaches E C'"

lemma client_reaches_ok: "client_reaches E C \<Longrightarrow> connects_ok E \<Longrightarrow> client_ok C"
proof (induction rule: client_reaches.induct)
  case client_starts
  show ?case by (simp add: client_ok_def client_start_def)
next
  case (client_steps C f C')
  then show ?case using client_call_keeps [of E f C] by simp
qed

end
