(* ===== verification/Client_Arguments.thy ===== *)
theory Client_Arguments
  imports Client_Init
begin

text \<open>
  The argument string of \<open>C_Initialize\<close>: what \<open>parse_arguments\<close> does with words that are separated
  by single spaces and contain no quotes. Reading and writing share one copy of the string, and
  the last argument is not terminated, so that it is followed by what is left of the string.
\<close>

section \<open>One argument\<close>

definition argument_set :: "string \<Rightarrow> Client \<Rightarrow> Client outcome" where
  "argument_set arg C =
     (let name = takeWhile (\<lambda>c. c \<notin> {CHR '':'', CHR ''=''}) arg in
      set_argument name (if length name = length arg then None else Some (drop (Suc (length name)) arg)) C)"

fun set_arguments :: "string list \<Rightarrow> Client \<Rightarrow> Client outcome" where
  "set_arguments [] C = Ret C"
| "set_arguments (a # as) C = obind (argument_set a C) (set_arguments as)"

lemma set_arguments_append: "set_arguments (as @ bs) C = obind (set_arguments as C) (set_arguments bs)"
proof (induction as arbitrary: C)
  case (Cons a as)
  have "set_arguments (as @ bs) = (\<lambda>C. obind (set_arguments as C) (set_arguments bs))"
    using Cons by (simp add: fun_eq_iff)
  then show ?case by (simp add: obind_assoc)
qed simp

lemma string_at_append:
  assumes "NUL \<notin> set s"
  shows "string_at (pre @ s @ NUL # rest) (length pre) = Ret s"
proof -
  have "takeWhile (\<lambda>c. c \<noteq> NUL) (s @ NUL # rest) = s"
    using assms by (induction s) auto
  then show ?thesis by (simp add: string_at_def)
qed

text \<open>The argument in memory may be shortened, but keeps its place.\<close>

lemma parse_argument_eq:
  assumes "NUL \<notin> set s"
  shows "\<exists>s'. length s' = length s \<and>
    parse_argument (pre @ s @ NUL # rest) (length pre) C =
      obind (argument_set s C) (\<lambda>C. Ret (pre @ s' @ NUL # rest, C))"
proof -
  let ?name = "takeWhile (\<lambda>c. c \<notin> {CHR '':'', CHR ''=''}) s"
  have "length ?name \<le> length s" by (rule length_takeWhile_le)
  then show ?thesis
    using string_at_append [OF assms, of pre rest]
    by (auto simp: parse_argument_def argument_set_def Let_def list_update_append
        intro: exI [of _ s] exI [of _ "s[length ?name := NUL]"])
qed

section \<open>The loop\<close>

definition plain :: "char \<Rightarrow> bool" where
  "plain c \<longleftrightarrow> c \<notin> {NUL, BACKSLASH, APOSTROPHE, QUOTATION} \<and> \<not> isspace c"

text \<open>What follows the loop.\<close>

definition last_argument :: "(char list \<times> nat \<times> nat) option \<times> Client \<Rightarrow> Client outcome" where
  "last_argument = (\<lambda>(r, C).
     case r of
       None \<Rightarrow> Ret C
     | Some (d, at, arg) \<Rightarrow>
         if at \<noteq> arg then obind (parse_argument d arg C) (\<lambda>(_, C). Ret C) else Ret C)"

text \<open>
  The state of the loop: earlier arguments, the current one, the memory between \<open>at\<close> and \<open>src\<close>, and
  what is still to be read.
\<close>

definition arguments_at :: "string \<Rightarrow> string \<Rightarrow> string \<Rightarrow> string \<Rightarrow> Client \<Rightarrow> Client outcome" where
  "arguments_at pre cur gap rest C =
     obind (parse_arguments_loop (pre @ cur @ gap @ rest @ [NUL]) NUL
       (length pre + length cur + length gap) (length pre + length cur) (length pre) C) last_argument"

lemma parse_arguments_at: "parse_arguments True (Some s) C = arguments_at [] [] [] s C"
  by (simp add: parse_arguments_def arguments_at_def last_argument_def)

lemma memory_shift:
  "(pre @ cur @ gap @ c # rest)[length pre + length cur := v] =
   pre @ cur @ (v # tl (gap @ [c])) @ rest"
  by (cases gap) (simp_all add: list_update_append)

lemma put_char_shift:
  "put_char (pre @ cur @ gap @ c # rest) (length pre + length cur) v =
   Ret (pre @ cur @ (v # tl (gap @ [c])) @ rest)"
  using memory_shift [of pre cur gap c rest v] by (simp add: put_char_def)

lemma char_at_gap: "char_at (pre @ cur @ gap @ c # rest) (length pre + length cur + length gap) = Ret c"
  by (simp add: char_at_def nth_append)

lemma arguments_at_char:
  assumes "plain c"
  shows "arguments_at pre cur gap (c # rest) C = arguments_at pre (cur @ [c]) (tl (gap @ [c])) rest C"
proof -
  have "arguments_at pre cur gap (c # rest) C =
      obind (parse_arguments_loop (pre @ cur @ (c # tl (gap @ [c])) @ rest @ [NUL]) NUL
        (Suc (length pre + length cur + length gap)) (Suc (length pre + length cur)) (length pre) C)
        last_argument"
    using assms char_at_gap [of pre cur gap c "rest @ [NUL]"] put_char_shift [of pre cur gap c "rest @ [NUL]" c]
    by (subst arguments_at_def, subst parse_arguments_loop.simps) (auto simp: plain_def)
  then show ?thesis by (simp add: arguments_at_def)
qed

lemma arguments_at_word:
  "list_all plain w \<Longrightarrow>
   arguments_at pre cur gap (w @ rest) C = arguments_at pre (cur @ w) (drop (length w) (gap @ w)) rest C"
proof (induction w arbitrary: cur gap)
  case (Cons c w)
  have "drop (length w) (tl (gap @ [c]) @ w) = drop (Suc (length w)) (gap @ c # w)"
    by (cases gap) simp_all
  then show ?case using Cons arguments_at_char [of c pre cur gap "w @ rest" C] by simp
qed simp

lemma arguments_at_space:
  assumes "NUL \<notin> set cur"
  shows "\<exists>pre'. length pre' = length pre + length cur \<and>
    arguments_at pre cur gap (CHR '' '' # rest) C =
      obind (argument_set cur C) (arguments_at pre' [] (NUL # tl (gap @ '' '')) rest)"
proof -
  let ?m = "tl (gap @ '' '') @ rest @ [NUL]"
  obtain s' where s': "length s' = length cur"
    "parse_argument (pre @ cur @ NUL # ?m) (length pre) C =
      obind (argument_set cur C) (\<lambda>C. Ret (pre @ s' @ NUL # ?m, C))"
    using parse_argument_eq [OF assms, of pre ?m C] by auto
  have "arguments_at pre cur gap (CHR '' '' # rest) C =
      obind (parse_argument (pre @ cur @ NUL # ?m) (length pre) C) (\<lambda>(d2, C).
      obind (parse_arguments_loop d2 NUL (Suc (length pre + length cur + length gap)) (length pre + length cur)
        (length pre + length cur) C) last_argument)"
    using char_at_gap [of pre cur gap "CHR '' ''" "rest @ [NUL]"]
      put_char_shift [of pre cur gap "CHR '' ''" "rest @ [NUL]" NUL]
    by (subst arguments_at_def, subst parse_arguments_loop.simps) (simp add: isspace_def obind_assoc split_def)
  then show ?thesis
    using s' by (intro exI [of _ "pre @ s'"]) (simp add: arguments_at_def [abs_def] obind_assoc)
qed

lemma arguments_at_end:
  assumes "NUL \<notin> set (cur @ gap)" "cur \<noteq> []"
  shows "arguments_at pre cur gap [] C = argument_set (cur @ gap) C"
proof -
  have "arguments_at pre cur gap [] C =
      obind (parse_argument (pre @ (cur @ gap) @ [NUL]) (length pre) C) (\<lambda>(_, C). Ret C)"
    using assms(2) char_at_gap [of pre cur gap NUL "[]"]
    by (subst arguments_at_def, subst parse_arguments_loop.simps) (simp add: last_argument_def)
  with parse_argument_eq [OF assms(1), of pre "[]" C] show ?thesis
    by (cases "argument_set (cur @ gap) C") (auto simp: obind_assoc)
qed

section \<open>Words\<close>

text \<open>
  After \<open>k\<close> separators \<open>at\<close> is \<open>k\<close> characters behind \<open>src\<close>; the first of the characters between them
  is the terminator of the argument before.
\<close>

definition ended :: "string \<Rightarrow> string" where
  "ended xs = (case xs of [] \<Rightarrow> [] | _ # ys \<Rightarrow> NUL # ys)"

lemma drop_ended: "v \<noteq> [] \<Longrightarrow> drop (length v) (ended xs @ v) = drop (length v) (xs @ v)"
  by (cases v) (simp_all add: ended_def split: list.split)

lemma ended_snoc: "ended (xs @ [c]) = NUL # tl (xs @ [c])"
  by (cases xs) (simp_all add: ended_def)

lemma gap_after_word:
  assumes "v \<noteq> []" "k \<le> length T"
  shows "drop (length v) (ended (drop (length T - k) T) @ v) = drop (length T + length v - k) (T @ v)"
proof -
  have "length v + (length T - k) = length T + length v - k" using assms(2) by simp
  then show ?thesis using assms by (subst drop_ended) simp_all
qed

abbreviation word_ok :: "string \<Rightarrow> bool" where
  "word_ok v \<equiv> v \<noteq> [] \<and> list_all plain v"

lemma plain_not_NUL: "list_all plain v \<Longrightarrow> NUL \<notin> set v"
  by (auto simp: list_all_iff plain_def)

lemma arguments_at_words:
  assumes "list_all word_ok ws" "word_ok w" "NUL \<notin> set T" "k \<le> length T"
  shows "arguments_at pre [] (ended (drop (length T - k) T)) (concat (map (\<lambda>v. v @ '' '') ws) @ w) C =
    set_arguments (ws @ [w @ (let S = T @ concat (map (\<lambda>v. v @ '' '') ws) @ w
      in drop (length S - (k + length ws)) S)]) C"
  using assms
proof (induction ws arbitrary: pre T k C)
  case Nil
  then have "arguments_at pre [] (ended (drop (length T - k) T)) w C =
      arguments_at pre w (drop (length T + length w - k) (T @ w)) [] C"
    using arguments_at_word [of w pre "[]" _ "[]" C] gap_after_word [of w k T] by simp
  also have "\<dots> = argument_set (w @ drop (length T + length w - k) (T @ w)) C"
    using Nil plain_not_NUL [of w] by (intro arguments_at_end) (auto dest: in_set_dropD)
  finally show ?case by (cases "argument_set (w @ drop (length T + length w - k) (T @ w)) C") simp_all
next
  case (Cons v ws)
  let ?rest = "concat (map (\<lambda>v. v @ '' '') ws) @ w" and ?T = "T @ v @ '' ''"
  let ?gap = "drop (length T + length v - k) (T @ v)"
  have gap: "drop (length v) (ended (drop (length T - k) T) @ v) = ?gap"
    using Cons.prems by (intro gap_after_word) auto
  have "drop (length ?T - Suc k) ?T = ?gap @ '' ''" using Cons.prems(4) by simp
  then have "NUL # tl (?gap @ '' '') = ended (drop (length ?T - Suc k) ?T)"
    by (simp only: ended_snoc)
  moreover obtain pre' where "arguments_at pre v ?gap (CHR '' '' # ?rest) C =
      obind (argument_set v C) (arguments_at pre' [] (NUL # tl (?gap @ '' '')) ?rest)"
    using arguments_at_space [of v pre ?gap ?rest C] plain_not_NUL [of v] Cons.prems(1) by auto
  moreover have "arguments_at pre' [] (ended (drop (length ?T - Suc k) ?T)) ?rest =
      set_arguments (ws @ [w @ (let S = ?T @ ?rest in drop (length S - (Suc k + length ws)) S)])"
    using Cons.prems plain_not_NUL [of v] by (intro ext Cons.IH) auto
  ultimately show ?case
    using Cons.prems gap arguments_at_word [of v pre "[]" _ "CHR '' '' # ?rest" C]
    by (simp add: Let_def)
qed

text \<open>The arguments of a string of words.\<close>

lemma parse_arguments_words:
  assumes "list_all word_ok ws" "word_ok w" "S = concat (map (\<lambda>v. v @ '' '') ws) @ w"
  shows "parse_arguments True (Some S) C = set_arguments (ws @ [w @ drop (length S - length ws) S]) C"
  using arguments_at_words [OF assms(1,2), of "[]" 0 "[]" C] assms(3)
  by (simp add: parse_arguments_at ended_def Let_def)

text \<open>
  A backslash inside quotes is doubled in place. Two of them let the writing overtake the
  reading, and the loop leaves the memory of the string.
\<close>

lemma parse_arguments_overflow:
  "parse_arguments True (Some [QUOTATION, BACKSLASH, CHR ''a'', BACKSLASH, CHR ''b'', QUOTATION]) C = Fault"
proof -
  note step = parse_arguments_loop.simps [of _ _ _ _ _ C]
  show ?thesis
    unfolding parse_arguments_def
    by simp (subst step, simp add: char_at_def isspace_def,
        (subst step, simp add: char_at_def put_char_def Let_def)+)
qed

end
