(* ===== verification/Tls_Psk.thy ===== *)
theory Tls_Psk
  imports C_Strings
begin

text \<open>
  The pre-shared keys of \<^verbatim>\<open>gck-rpc-tls-psk.c\<close>: the hexadecimal decoder, the line reader, the two
  callbacks that OpenSSL invokes to find a key in the key file, and the OpenSSL state of a
  connection.
\<close>

unbundle bit_operations_syntax

section \<open>Decoding a key\<close>

definition tls_psk_to_hex :: "char \<Rightarrow> int" where
  "tls_psk_to_hex val =
     (let v = int (of_char val) in
      if 48 \<le> v \<and> v \<le> 57 then v - 48
      else if 97 \<le> v \<and> v \<le> 102 then v - 97 + 10
      else if 65 \<le> v \<and> v \<le> 70 then v - 65 + 10
      else - 1)"

text \<open>
  The loop. The key is the string before its terminator, \<open>psk\<close> the memory at the pointer the
  function is given. The terminator in the place of a second digit is not a digit. The result
  is the value that is returned, with the memory.
\<close>

fun decode_key_loop :: "string \<Rightarrow> nat \<Rightarrow> nat \<Rightarrow> block \<Rightarrow> (nat \<times> block) outcome" where
  "decode_key_loop [] psk_len max_psk_len psk = Ret (psk_len, psk)"
| "decode_key_loop (c # hexkey) psk_len max_psk_len psk =
     (if psk_len < max_psk_len then
        let i = tls_psk_to_hex c in
        if i < 0 then Ret (0, psk)
        else
          obind (mem_write (Some psk) psk_len [word_of_int (push_bit 4 i)]) (\<lambda>p.
          case hexkey of
            [] \<Rightarrow> Ret (0, cells p)
          | c # hexkey \<Rightarrow>
              (let i = tls_psk_to_hex c in
               if i < 0 then Ret (0, cells p)
               else
                 obind (mem_read p psk_len 1) (\<lambda>b.
                 obind (mem_write p psk_len [hd b OR word_of_int i]) (\<lambda>p.
                 decode_key_loop hexkey (Suc psk_len) max_psk_len (cells p)))))
      else Ret (0, psk))"

definition tls_psk_decode_key :: "string \<Rightarrow> block \<Rightarrow> nat \<Rightarrow> (nat \<times> block) outcome" where
  "tls_psk_decode_key hexkey psk max_psk_len =
     (if length hexkey mod 2 \<noteq> 0 then Ret (0, psk)
      else
        obind (mem_write (Some psk) 0 (replicate max_psk_len 0)) (\<lambda>p.
        decode_key_loop hexkey 0 max_psk_len (cells p)))"

section \<open>Reading a line\<close>

text \<open>
  A file descriptor is the list of what its \<open>read\<close> calls for one character give, \<open>None\<close> for a
  call that fails; at the end of the list they give nothing any more.
\<close>

type_synonym reads = "char option list"

abbreviation (input) NEWLINE :: char where "NEWLINE \<equiv> CHR 0x0A"
abbreviation (input) RETURN :: char where "RETURN \<equiv> CHR 0x0D"

text \<open>The result: the pointer, the room that is left, the number of characters, the array, the file.\<close>

fun fgets_loop ::
  "char list \<Rightarrow> nat \<Rightarrow> nat \<Rightarrow> nat \<Rightarrow> reads \<Rightarrow> (nat \<times> nat \<times> nat \<times> char list \<times> reads) outcome" where
  "fgets_loop line buf 0 bytes fd = Ret (buf, 0, bytes, line, fd)"
| "fgets_loop line buf (Suc len) bytes [] = Ret (buf, Suc len, bytes, line, [])"
| "fgets_loop line buf (Suc len) bytes (None # fd) = Ret (buf, Suc len, bytes, line, fd)"
| "fgets_loop line buf (Suc len) bytes (Some c # fd) =
     obind (put_char line buf c) (\<lambda>line.
     if c = NEWLINE then Ret (Suc buf, len, Suc bytes, line, fd)
     else fgets_loop line (Suc buf) len (Suc bytes) fd)"

definition fgets :: "char list \<Rightarrow> nat \<Rightarrow> reads \<Rightarrow> (int \<times> char list \<times> reads) outcome" where
  "fgets line len fd =
     obind (fgets_loop line 0 len 0 fd) (\<lambda>(buf, len, bytes, line, fd).
     if len = 0 then Ret (- 1, line, fd)
     else obind (put_char line buf NUL) (\<lambda>line. Ret (int bytes, line, fd)))"

lemma fgets_loop_bytes:
  "fgets_loop line buf len n fd = Ret (buf', len', n', line', fd') \<Longrightarrow>
    n' + length fd' \<le> n + length fd"
  by (induction line buf len n fd rule: fgets_loop.induct) (fastforce simp: obind_eq_Ret split: if_splits)+

lemma fgets_shorter: "fgets line len fd = Ret (n, line', fd') \<Longrightarrow> n > 0 \<Longrightarrow> length fd' < length fd"
  by (auto simp: fgets_def obind_eq_Ret split: if_splits prod.splits dest!: fgets_loop_bytes)

section \<open>The callbacks\<close>

text \<open>The \<open>for\<close> loop that removes the line ends; \<open>i\<close> starts at \<open>- 1\<close> for an empty key.\<close>

function strip_newlines :: "char list \<Rightarrow> nat \<Rightarrow> int \<Rightarrow> char list outcome" where
  "strip_newlines line hexkey i =
     (if i = 0 then Ret line
      else if int hexkey + i < 0 then Fault
      else
        obind (char_at line (nat (int hexkey + i))) (\<lambda>c.
        if c = NEWLINE \<or> c = RETURN then
          obind (put_char line (nat (int hexkey + i)) NUL) (\<lambda>line. strip_newlines line hexkey (i - 1))
        else Ret line))"
  by pat_completeness auto
termination
  by (relation "measure (\<lambda>(line, hexkey, i). nat (int hexkey + i + 1))") auto

declare strip_newlines.simps [simp del]

text \<open>
  The loop over the lines of the file. \<open>line\<close> is the array, which keeps its old contents from
  one line to the next. A null \<open>identity\<close> is \<open>None\<close>.
\<close>

function key_file_loop ::
  "char list \<Rightarrow> reads \<Rightarrow> string option \<Rightarrow> block \<Rightarrow> nat \<Rightarrow> (nat \<times> block) outcome" where
  "key_file_loop line fd identity psk max_psk_len =
     obind (fgets line (1024 - 1) fd) (\<lambda>(n, line, fd').
     if n \<le> 0 then Ret (0, psk)
     else
       obind (string_at line 0) (\<lambda>s.
       let colon = length (takeWhile (\<lambda>c. c \<noteq> CHR '':'') s) in
       if colon = length s then key_file_loop line fd' identity psk max_psk_len
       else
         obind (put_char line colon NUL) (\<lambda>line.
         let hexkey = Suc colon in
         obind (string_at line hexkey) (\<lambda>key.
         obind (strip_newlines line hexkey (int (length key) - 1)) (\<lambda>line.
         obind (string_at line 0) (\<lambda>name.
         if identity = None \<or> identity = Some [] \<or> identity = Some name then
           obind (string_at line hexkey) (\<lambda>key. tls_psk_decode_key key psk max_psk_len)
         else key_file_loop line fd' identity psk max_psk_len))))))"
  by pat_completeness auto
termination
  by (relation "measure (\<lambda>(line, fd, identity, psk, max). length fd)") (auto dest: fgets_shorter)

declare key_file_loop.simps [simp del]

text \<open>The static variables, and the files that \<open>open\<close> finds.\<close>

record Tls_Globals =
  psk_identity :: string
  psk_key_filename :: string

definition tls_psk_server_cb ::
  "(string \<Rightarrow> reads option) \<Rightarrow> Tls_Globals \<Rightarrow> char list \<Rightarrow> string option \<Rightarrow> block \<Rightarrow> nat \<Rightarrow>
    (nat \<times> block) outcome" where
  "tls_psk_server_cb files G line identity psk max_psk_len =
     (case files (psk_key_filename G) of
        None \<Rightarrow> Ret (0, psk)
      | Some fd \<Rightarrow> key_file_loop line fd identity psk max_psk_len)"

text \<open>The identity is written to an array of \<open>max_identity_len\<close> characters.\<close>

definition tls_psk_client_cb ::
  "(string \<Rightarrow> reads option) \<Rightarrow> Tls_Globals \<Rightarrow> char list \<Rightarrow> nat \<Rightarrow> block \<Rightarrow> nat \<Rightarrow>
    (string \<times> nat \<times> block) outcome" where
  "tls_psk_client_cb files G line max_identity_len psk max_psk_len =
     (let identity = snprintf max_identity_len (psk_identity G) in
      obind (tls_psk_server_cb files G line (Some identity) psk max_psk_len) (\<lambda>(n, psk).
      Ret (identity, n, psk)))"

section \<open>The state of a connection\<close>

datatype gck_rpc_tls_psk_caller = GCK_RPC_TLS_PSK_CLIENT | GCK_RPC_TLS_PSK_SERVER

text \<open>
  Of OpenSSL's objects: the callback, the compression flag and the ciphers of a context, and the
  context a connection was made from with the socket that its \<open>BIO\<close> is for.
\<close>

record SSL_CTX =
  ctx_callback :: "gck_rpc_tls_psk_caller option"
  ctx_no_compression :: bool
  ctx_ciphers :: "string option"

record SSL =
  ssl_from :: SSL_CTX
  ssl_socket :: "int option"

record GckRpcTlsPskState =
  initialized :: int
  ssl_ctx :: "SSL_CTX option"
  bio :: "int option"
  ssl :: "SSL option"
  tls_type :: gck_rpc_tls_psk_caller

text \<open>
  What the calls of OpenSSL give: whether \<open>SSL_CTX_new\<close> and the two settings of the protocol
  version succeed (OpenSSL 1.1.0 and later), whether \<open>SSL_new\<close> and \<open>BIO_new_socket\<close> do, the
  result of \<open>SSL_connect\<close> or \<open>SSL_accept\<close>, and those of \<open>SSL_write\<close> and \<open>SSL_read\<close>.
\<close>

record OpenSSL =
  os_ctx_new :: bool
  os_min_version :: bool
  os_max_version :: bool
  os_ssl_new :: bool
  os_bio_new :: bool
  os_connect :: "SSL \<Rightarrow> int"
  os_accept :: "SSL \<Rightarrow> int"
  os_write :: "SSL \<Rightarrow> block \<Rightarrow> int"
  os_read :: "SSL \<Rightarrow> nat \<Rightarrow> int \<times> block"

definition PKCS11PROXY_TLS_PSK_CIPHERS :: string where
  "PKCS11PROXY_TLS_PSK_CIPHERS = ''PSK-AES128-CBC-SHA:PSK-AES256-CBC-SHA''"

definition new_ctx :: SSL_CTX where
  "new_ctx = \<lparr>ctx_callback = None, ctx_no_compression = False, ctx_ciphers = None\<rparr>"

definition gck_rpc_init_tls_psk ::
  "OpenSSL \<Rightarrow> string \<Rightarrow> string option \<Rightarrow> gck_rpc_tls_psk_caller \<Rightarrow>
    GckRpcTlsPskState \<Rightarrow> Tls_Globals \<Rightarrow> int \<times> GckRpcTlsPskState \<times> Tls_Globals" where
  "gck_rpc_init_tls_psk OS key_filename identity caller state G =
     (if initialized state = 1 then (0, state, G)
      else
        (let ctx = (if os_ctx_new OS then Some new_ctx else None);
             state = state\<lparr>ssl_ctx := ctx\<rparr> in
         if ctx = None \<or> \<not> os_min_version OS \<or> \<not> os_max_version OS then (0, state, G)
         else
           (1, state\<lparr>ssl_ctx := Some \<lparr>ctx_callback = Some caller, ctx_no_compression = True,
                       ctx_ciphers = Some PKCS11PROXY_TLS_PSK_CIPHERS\<rparr>,
                     tls_type := caller, initialized := 1\<rparr>,
            G\<lparr>psk_key_filename := snprintf MAXPATHLEN key_filename,
              psk_identity := snprintf 128 (case identity of None \<Rightarrow> [] | Some s \<Rightarrow> s)\<rparr>)))"

text \<open>\<open>SSL_new\<close> gives nothing for a null context.\<close>

definition gck_rpc_start_tls :: "OpenSSL \<Rightarrow> GckRpcTlsPskState \<Rightarrow> int \<Rightarrow> int \<times> GckRpcTlsPskState" where
  "gck_rpc_start_tls OS state sock =
     (case ssl_ctx state of
        None \<Rightarrow> (0, state\<lparr>ssl := None\<rparr>)
      | Some ctx \<Rightarrow>
          if \<not> os_ssl_new OS then (0, state\<lparr>ssl := None\<rparr>)
          else
            (let state = state\<lparr>ssl := Some \<lparr>ssl_from = ctx, ssl_socket = None\<rparr>\<rparr> in
             if \<not> os_bio_new OS then (0, state\<lparr>bio := None\<rparr>)
             else
               (let s = \<lparr>ssl_from = ctx, ssl_socket = Some sock\<rparr>;
                    state = state\<lparr>bio := Some sock, ssl := Some s\<rparr>;
                    res = (if tls_type state = GCK_RPC_TLS_PSK_CLIENT then os_connect OS s else os_accept OS s) in
                if res \<noteq> 1 then (0, state) else (1, state))))"

definition gck_rpc_close_tls :: "GckRpcTlsPskState \<Rightarrow> GckRpcTlsPskState" where
  "gck_rpc_close_tls state =
     (let state = (if ssl_ctx state \<noteq> None then state\<lparr>ssl_ctx := None\<rparr> else state) in
      if ssl state \<noteq> None then state\<lparr>ssl := None\<rparr> else state)"

text \<open>The length is that of the data, which is not null. A null \<open>SSL\<close> is dereferenced by OpenSSL.\<close>

definition gck_rpc_tls_write_all :: "OpenSSL \<Rightarrow> GckRpcTlsPskState \<Rightarrow> block \<Rightarrow> int outcome" where
  "gck_rpc_tls_write_all OS state data =
     assert_c (length data > 0)
      (case ssl state of
         None \<Rightarrow> Fault
       | Some s \<Rightarrow> (let bytes = os_write OS s data in Ret (if bytes \<le> 0 then 0 else bytes)))"

definition gck_rpc_tls_read_all ::
  "OpenSSL \<Rightarrow> GckRpcTlsPskState \<Rightarrow> nat \<Rightarrow> (int \<times> block) outcome" where
  "gck_rpc_tls_read_all OS state len =
     assert_c (len > 0)
      (case ssl state of
         None \<Rightarrow> Fault
       | Some s \<Rightarrow>
           (let (bytes, data) = os_read OS s len in Ret (if bytes \<le> 0 then (0, []) else (bytes, data))))"

section \<open>Connections with one state\<close>

lemma start_tls_socket:
  "gck_rpc_start_tls OS state fd = (1, state') \<Longrightarrow>
   \<exists>s. ssl state' = Some s \<and> ssl_socket s = Some fd \<and> ssl_ctx state = Some (ssl_from s)"
  by (auto simp: gck_rpc_start_tls_def Let_def split: option.splits if_splits)

lemma start_tls_keeps: "ssl_ctx (snd (gck_rpc_start_tls OS state fd)) = ssl_ctx state"
  by (simp add: gck_rpc_start_tls_def Let_def split: option.splits)

lemma close_tls: "ssl_ctx (gck_rpc_close_tls state) = None" "ssl (gck_rpc_close_tls state) = None"
  by (auto simp: gck_rpc_close_tls_def Let_def)

text \<open>
  The daemon gives the same state to all of its connections. After a second handshake, what the
  first connection writes goes to the socket of the second.
\<close>

lemma shared_state_write:
  assumes "gck_rpc_start_tls OS state fd1 = (1, state1)" "gck_rpc_start_tls OS' state1 fd2 = (1, state2)"
    and "data \<noteq> []"
  shows "\<exists>s. ssl_socket s = Some fd2 \<and> gck_rpc_tls_write_all OS state2 data = Ret (max 0 (os_write OS s data))"
  using start_tls_socket [OF assms(2)] assms(3) by (auto simp: gck_rpc_tls_write_all_def Let_def max_def)

end
