(* ===== verification/Key_File.thy ===== *)
theory Key_File
  imports Tls_Psk
begin

text \<open>
  What the functions of \<^verbatim>\<open>gck-rpc-tls-psk.c\<close> compute: the decoder accepts exactly the keys that
  are the hexadecimal digits of some bytes, and the callback looks an identity up in the list
  of entries of the key file.
\<close>

unbundle bit_operations_syntax

section \<open>Hexadecimal keys\<close>

text \<open>The digits of a list of bytes, and the letters of a key in lower case.\<close>

definition hex_digits :: string where
  "hex_digits = ''0123456789abcdef''"

definition hex_of :: "byte list \<Rightarrow> string" where
  "hex_of bs = concat (map (\<lambda>b. [hex_digits ! (unat b div 16), hex_digits ! (unat b mod 16)]) bs)"

definition lower :: "char \<Rightarrow> char" where
  "lower c = (let v = of_char c :: nat in if 65 \<le> v \<and> v \<le> 70 then char_of (v + 32) else c)"

lemma less_16: "(n::nat) < 16 \<longleftrightarrow> n \<in> {0,1,2,3,4,5,6,7,8,9,10,11,12,13,14,15}"
  by (simp add: numeral_eq_Suc less_Suc_eq)

lemma hex_digits_nth: "n < 16 \<Longrightarrow> hex_digits ! n = char_of (if n < 10 then 48 + n else 87 + n)"
  unfolding less_16 by (auto simp: hex_digits_def char_of_def bit_numeral_rec bit_Suc_0_iff)

lemma to_hex_digit: "n < 16 \<Longrightarrow> tls_psk_to_hex (hex_digits ! n) = int n"
  by (auto simp: tls_psk_to_hex_def hex_digits_nth)

lemma to_hex_lower: "tls_psk_to_hex (lower c) = tls_psk_to_hex c"
  by (auto simp: tls_psk_to_hex_def lower_def Let_def)

lemma to_hex_value:
  assumes "tls_psk_to_hex c \<ge> 0"
  shows "nat (tls_psk_to_hex c) < 16 \<and> lower c = hex_digits ! nat (tls_psk_to_hex c)"
proof -
  define v :: nat where "v = of_char c"
  have c: "c = char_of v" "v < 256" by (simp_all add: v_def)
  consider "48 \<le> v" "v \<le> 57" | "97 \<le> v" "v \<le> 102" | "65 \<le> v" "v \<le> 70"
    using assms by (auto simp: tls_psk_to_hex_def Let_def v_def split: if_splits)
  then show ?thesis
    by cases (auto simp: c tls_psk_to_hex_def lower_def hex_digits_nth nat_diff_distrib nat_add_distrib)
qed

lemma hex_byte:
  assumes "m < 16"
  shows "(word_of_int (push_bit 4 (int n)) :: byte) OR word_of_int (int m) = word_of_nat (16 * n + m)"
proof -
  have m: "take_bit 4 m = m" using assms by (simp add: take_bit_nat_eq_self)
  have "\<not> (bit m k \<and> 4 \<le> k)" for k by (metis m bit_take_bit_iff not_less)
  then have "(push_bit 4 (word_of_nat n) :: byte) + word_of_nat m = push_bit 4 (word_of_nat n) OR word_of_nat m"
    by (intro disjunctive_add) (auto simp: bit_simps)
  moreover have "(push_bit 4 (word_of_nat n) :: byte) = word_of_nat (16 * n)"
    by (simp add: push_bit_eq_mult)
  moreover have "(word_of_int (push_bit 4 (int n)) :: byte) = word_of_nat (16 * n)"
    by (simp add: push_bit_eq_mult)
  ultimately show ?thesis by simp
qed

lemma hex_of_simps [simp]:
  "hex_of [] = []"
  "hex_of (b # bs) = hex_digits ! (unat b div 16) # hex_digits ! (unat b mod 16) # hex_of bs"
  by (simp_all add: hex_of_def)

lemma length_hex_of: "length (hex_of bs) = 2 * length bs"
  by (induction bs) auto

text \<open>Two characters that are the digits of a byte.\<close>

lemma hex_pair:
  "lower c = hex_digits ! (unat (b::byte) div 16) \<and> lower d = hex_digits ! (unat b mod 16) \<longleftrightarrow>
   tls_psk_to_hex c = int (unat b div 16) \<and> tls_psk_to_hex d = int (unat b mod 16)"
proof -
  have "unat b < 256" using unsigned_less [of b, where ?'a=nat] by simp
  then have "unat b div 16 < 16" "unat b mod 16 < 16" by auto
  then show ?thesis
    using to_hex_digit to_hex_lower to_hex_value by (metis nat_int of_nat_0_le_iff)
qed

lemma hex_of_Nil: "map lower s = hex_of [] \<longleftrightarrow> s = []"
  by simp

lemma hex_of_single: "map lower [c] \<noteq> hex_of bs"
  by (cases bs) auto

lemma mem_write_one: "n < length psk \<Longrightarrow> mem_write (Some psk) n [b] = Ret (Some (psk[n := b]))"
  by (simp add: upd_conv_take_nth_drop)

text \<open>The byte of two digits.\<close>

definition pair_byte :: "char \<Rightarrow> char \<Rightarrow> byte" where
  "pair_byte c d = word_of_int (16 * tls_psk_to_hex c + tls_psk_to_hex d)"

lemma pair_byte:
  assumes "tls_psk_to_hex c \<ge> 0" "tls_psk_to_hex d \<ge> 0"
  shows "word_of_int (push_bit 4 (tls_psk_to_hex c)) OR word_of_int (tls_psk_to_hex d) = pair_byte c d"
    and "map lower (c # d # s) = hex_of (b # bs) \<longleftrightarrow> b = pair_byte c d \<and> map lower s = hex_of bs"
proof -
  obtain n m where nm: "tls_psk_to_hex c = int n" "tls_psk_to_hex d = int m" "n < 16" "m < 16"
    using assms to_hex_value by (metis int_nat_eq)
  then show "word_of_int (push_bit 4 (tls_psk_to_hex c)) OR word_of_int (tls_psk_to_hex d) = pair_byte c d"
    using hex_byte [of m n] by (simp add: pair_byte_def)
  have "pair_byte c d = word_of_nat (16 * n + m)" by (simp add: pair_byte_def nm)
  moreover have "unat (word_of_nat (16 * n + m) :: byte) = 16 * n + m"
    unfolding unat_of_nat using nm(3,4) by simp
  ultimately have "b = pair_byte c d \<longleftrightarrow> unat b = 16 * n + m" by (simp add: word_unat_eq_iff)
  also have "\<dots> \<longleftrightarrow> unat b div 16 = n \<and> unat b mod 16 = m" using nm(3,4) by auto
  finally show "map lower (c # d # s) = hex_of (b # bs) \<longleftrightarrow> b = pair_byte c d \<and> map lower s = hex_of bs"
    using hex_pair [of c b d] nm by auto
qed

text \<open>
  The loop, from a place \<open>k\<close> of the memory on: it writes the bytes of the key, if the key is the
  digits of at most \<open>maxlen - k\<close> bytes, and returns 0 otherwise. It stays within \<open>maxlen\<close> bytes.
\<close>

definition key_bytes :: "string \<Rightarrow> nat \<Rightarrow> byte list \<Rightarrow> bool" where
  "key_bytes s n bs \<longleftrightarrow> map lower s = hex_of bs \<and> length bs \<le> n"

definition within :: "nat \<Rightarrow> block \<Rightarrow> block \<Rightarrow> bool" where
  "within n psk psk' \<longleftrightarrow> length psk' = length psk \<and> drop n psk' = drop n psk"

lemma within_refl [simp]: "within n psk psk"
  by (simp add: within_def)

lemma within_update [simp]: "k < n \<Longrightarrow> within n (psk[k := b]) psk' \<longleftrightarrow> within n psk psk'"
  by (simp add: within_def)

lemma within_update2 [simp]: "k < n \<Longrightarrow> within n psk (psk'[k := b]) \<longleftrightarrow> within n psk psk'"
  by (simp add: within_def)

lemma decode_key_loop_bytes:
  "key_bytes s (maxlen - k) bs \<Longrightarrow> k \<le> maxlen \<Longrightarrow> maxlen \<le> length psk \<Longrightarrow>
   decode_key_loop s k maxlen psk = Ret (k + length bs, take k psk @ bs @ drop (k + length bs) psk)"
proof (induction s arbitrary: k bs psk rule: induct_list012)
  case 1
  then show ?case by (cases bs) (simp_all add: key_bytes_def)
next
  case (2 c)
  then show ?case using hex_of_single by (auto simp: key_bytes_def)
next
  case (3 c d s)
  then obtain b bs' where bs: "bs = b # bs'" by (cases bs) (auto simp: key_bytes_def)
  have cd: "tls_psk_to_hex c \<ge> 0" "tls_psk_to_hex d \<ge> 0"
    using 3(3) hex_pair [of c b d] by (auto simp: key_bytes_def bs)
  have b: "b = pair_byte c d" "key_bytes s (maxlen - Suc k) bs'"
    using 3(3) pair_byte(2) [OF cd, of s b bs'] by (auto simp: key_bytes_def bs)
  have k: "k < maxlen" using 3(3) by (auto simp: key_bytes_def bs)
  have "decode_key_loop s (Suc k) maxlen (psk[k := b]) =
      Ret (Suc k + length bs', take (Suc k) (psk[k := b]) @ bs' @ drop (Suc k + length bs') (psk[k := b]))"
    by (rule 3(1) [OF b(2)]) (use 3(5) k in auto)
  then show ?case
    using k 3(5) pair_byte(1) [OF cd] cd
    by (simp add: mem_write_one bs b(1) not_less [symmetric] take_Suc_conv_app_nth del: mem_write.simps)
qed

lemma decode_key_loop_none:
  "\<nexists>bs. key_bytes s (maxlen - k) bs \<Longrightarrow> k \<le> maxlen \<Longrightarrow> maxlen \<le> length psk \<Longrightarrow>
   \<exists>psk'. decode_key_loop s k maxlen psk = Ret (0, psk') \<and> within maxlen psk psk'"
proof (induction s arbitrary: k psk rule: induct_list012)
  case 1
  then show ?case by (auto simp: key_bytes_def dest: spec [of _ "[]"])
next
  case (2 c)
  then show ?case by (auto simp: mem_write_one Let_def simp del: mem_write.simps)
next
  case (3 c d s)
  show ?case
  proof (cases "k < maxlen \<and> tls_psk_to_hex c \<ge> 0 \<and> tls_psk_to_hex d \<ge> 0")
    case True
    then have cd: "tls_psk_to_hex c \<ge> 0" "tls_psk_to_hex d \<ge> 0" by simp_all
    let ?psk = "psk[k := pair_byte c d]"
    have "\<not> key_bytes s (maxlen - Suc k) bs" for bs
      using 3(3) True pair_byte(2) [OF cd, of s "pair_byte c d" bs]
      by (auto simp: key_bytes_def dest!: spec [of _ "pair_byte c d # bs"])
    then have "\<exists>psk'. decode_key_loop s (Suc k) maxlen ?psk = Ret (0, psk') \<and> within maxlen ?psk psk'"
      using 3(5) True by (intro 3(1)) auto
    then show ?thesis
      using True 3(5) pair_byte(1) [OF cd]
      by (auto simp: mem_write_one not_less hd_drop_conv_nth simp del: mem_write.simps)
  next
    case False
    then show ?thesis using 3(5) by (auto simp: mem_write_one not_less Let_def simp del: mem_write.simps)
  qed
qed

lemma tls_psk_decode_key_bytes:
  assumes "key_bytes s maxlen bs" "maxlen \<le> length psk"
  shows "tls_psk_decode_key s psk maxlen =
    Ret (length bs, bs @ replicate (maxlen - length bs) 0 @ drop maxlen psk)"
proof -
  have "length s = 2 * length bs"
    using assms(1) by (metis key_bytes_def length_hex_of length_map)
  then show ?thesis
    using assms decode_key_loop_bytes [of s maxlen 0 bs "replicate maxlen 0 @ drop maxlen psk"]
    by (simp add: tls_psk_decode_key_def key_bytes_def)
qed

lemma tls_psk_decode_key_none:
  assumes "\<nexists>bs. key_bytes s maxlen bs" "maxlen \<le> length psk"
  shows "\<exists>psk'. tls_psk_decode_key s psk maxlen = Ret (0, psk') \<and> within maxlen psk psk'"
  using decode_key_loop_none [of s maxlen 0 "replicate maxlen 0 @ drop maxlen psk"] assms
  by (auto simp: tls_psk_decode_key_def within_def)

section \<open>Entries of the key file\<close>

text \<open>The lines of a file, each with its end, and the entry of a line.\<close>

fun file_lines :: "string \<Rightarrow> string list" where
  "file_lines [] = []"
| "file_lines (c # s) =
     (if c = NEWLINE then [c] # file_lines s
      else case file_lines s of [] \<Rightarrow> [[c]] | l # ls \<Rightarrow> (c # l) # ls)"

definition chomp :: "string \<Rightarrow> string" where
  "chomp s = (case s of [] \<Rightarrow> [] | c # s \<Rightarrow> c # rev (dropWhile (\<lambda>c. c = NEWLINE \<or> c = RETURN) (rev s)))"

definition key_entry :: "string \<Rightarrow> (string \<times> string) option" where
  "key_entry l =
     (let s = takeWhile (\<lambda>c. c \<noteq> NUL) l; name = takeWhile (\<lambda>c. c \<noteq> CHR '':'') s in
      if name = s then None else Some (name, chomp (drop (Suc (length name)) s)))"

text \<open>A line of 1023 characters or more ends the list.\<close>

definition key_entries :: "string \<Rightarrow> (string \<times> string) list" where
  "key_entries s = List.map_filter key_entry (takeWhile (\<lambda>l. length l < 1023) (file_lines s))"

definition key_lookup :: "string option \<Rightarrow> string \<Rightarrow> string option" where
  "key_lookup identity s =
     map_option snd (find (\<lambda>(name, key). identity \<in> {None, Some [], Some name}) (key_entries s))"

lemma fgets_loop_line:
  assumes "buf + len \<le> length line"
  shows "fgets_loop line buf len n (map Some s) =
    (let l = (case file_lines s of [] \<Rightarrow> [] | l # _ \<Rightarrow> l); k = min len (length l) in
     Ret (buf + k, len - k, n + k, take buf line @ take k l @ drop (buf + k) line, map Some (drop k s)))"
  using assms
proof (induction s arbitrary: line buf len n)
  case Nil
  then show ?case by (cases len) auto
next
  case (Cons c s)
  show ?case
  proof (cases len)
    case 0
    then show ?thesis by simp
  next
    case (Suc len')
    let ?l = "case file_lines s of [] \<Rightarrow> [] | l # _ \<Rightarrow> l"
    have w: "put_char line buf c = Ret (line[buf := c])" using Cons(2) by (simp add: put_char_def Suc)
    have "take (Suc buf) (line[buf := c]) = take buf line @ [c]"
        "line[buf := c] = take buf line @ c # drop (Suc buf) line"
      using Cons(2) by (simp_all add: take_Suc_conv_app_nth upd_conv_take_nth_drop Suc)
    then show ?thesis
      using Cons(1) [of "Suc buf" len' "line[buf := c]" "Suc n"] Cons(2)
      by (cases "file_lines s") (auto simp: Suc w Let_def add.commute)
  qed
qed

lemma file_lines_Cons: "file_lines s = l # ls \<Longrightarrow> l \<noteq> [] \<and> take (length l) s = l \<and> file_lines (drop (length l) s) = ls"
  by (induction s arbitrary: l ls) (auto split: if_splits list.splits)

lemma file_lines_Nil: "file_lines s = [] \<longleftrightarrow> s = []"
  by (cases s) (auto split: list.splits)

lemma fgets_line:
  assumes "length line = 1024" "file_lines s = l # ls"
  shows "fgets line 1023 (map Some s) =
    (if length l < 1023
     then Ret (int (length l), l @ NUL # drop (Suc (length l)) line, map Some (drop (length l) s))
     else Ret (- 1, take 1023 l @ drop 1023 line, map Some (drop 1023 s)))"
proof -
  have "length l < 1023 \<Longrightarrow> (drop (length l) line)[0 := NUL] = NUL # drop (Suc (length l)) line"
    using assms(1) by (simp flip: Cons_nth_drop_Suc)
  then show ?thesis
    using assms by (auto simp: fgets_def fgets_loop_line put_char_def Let_def min_def list_update_append
      split: nat.splits)
qed

lemma chomp_snoc:
  "k \<noteq> [] \<Longrightarrow> chomp (k @ [c]) = (if c = NEWLINE \<or> c = RETURN then chomp k else k @ [c])"
  by (cases k) (auto simp: chomp_def)

lemma strip_newlines_chomp:
  assumes "p \<noteq> []" "last p = NUL"
  shows "strip_newlines (p @ key @ zs) (length p) (int (length key) - 1) =
    Ret (p @ chomp key @ replicate (length key - length (chomp key)) NUL @ zs)"
proof (induction key arbitrary: zs rule: rev_induct)
  case Nil
  have "(p @ zs) ! (length p - Suc 0) = NUL" using assms by (simp add: nth_append last_conv_nth)
  moreover have "nat (int (length p) - 1) = length p - 1" by simp
  ultimately show ?case
    using assms by (subst strip_newlines.simps) (auto simp: char_at_def chomp_def Suc_le_eq trans_less_add1)
next
  case (snoc c k)
  show ?case
  proof (cases "k = []")
    case True
    then show ?thesis by (subst strip_newlines.simps) (simp add: chomp_def)
  next
    case False
    have n: "nat (int (length p) + int (length k)) = length p + length k" by simp
    have "length (chomp k) \<le> length k"
      by (cases k) (auto simp: chomp_def length_dropWhile_le [THEN order_trans])
    then show ?thesis
      using False snoc [of "NUL # zs"]
      by (subst strip_newlines.simps)
        (auto simp: char_at_def put_char_def chomp_snoc n nth_append list_update_append
          replicate_app_Cons_same Suc_diff_le)
  qed
qed

section \<open>Looking a key up\<close>

text \<open>What the loop does with the rest of the file after one line.\<close>

definition line_key :: "string option \<Rightarrow> string \<Rightarrow> string option" where
  "line_key identity l =
     (case key_entry l of
        Some (name, key) \<Rightarrow> if identity \<in> {None, Some [], Some name} then Some key else None
      | None \<Rightarrow> None)"

lemma key_lookup_rec:
  "key_lookup identity s =
     (case file_lines s of
        [] \<Rightarrow> None
      | l # ls \<Rightarrow>
          if length l < 1023
          then (case line_key identity l of
                  Some key \<Rightarrow> Some key
                | None \<Rightarrow> key_lookup identity (drop (length l) s))
          else None)"
proof (cases "file_lines s")
  case (Cons l ls)
  then have "file_lines (drop (length l) s) = ls" using file_lines_Cons by blast
  then show ?thesis
    using Cons
    by (cases "key_entry l") (auto simp: key_lookup_def key_entries_def line_key_def List.map_filter_simps)
qed (simp add: key_lookup_def key_entries_def List.map_filter_simps)

lemma set_chomp: "set (chomp s) \<subseteq> set s"
  by (auto simp: chomp_def dest: set_dropWhileD split: list.splits)

text \<open>The array after a line with an entry, and what the loop gets out of it.\<close>

lemma key_file_entry:
  assumes line: "line = name @ CHR '':'' # key @ NUL # zs"
    and n: "NUL \<notin> set name" "CHR '':'' \<notin> set name" and k: "NUL \<notin> set key"
  shows "obind (string_at line 0) (\<lambda>s.
       let colon = length (takeWhile (\<lambda>c. c \<noteq> CHR '':'') s) in
       if colon = length s then A
       else
         obind (put_char line colon NUL) (\<lambda>line.
         let hexkey = Suc colon in
         obind (string_at line hexkey) (\<lambda>key.
         obind (strip_newlines line hexkey (int (length key) - 1)) (\<lambda>line.
         obind (string_at line 0) (\<lambda>name.
         if identity = None \<or> identity = Some [] \<or> identity = Some name then
           obind (string_at line hexkey) B
         else C line))))) =
     (if identity \<in> {None, Some [], Some name} then B (chomp key)
      else C (name @ NUL # chomp key @ replicate (length key - length (chomp key)) NUL @ NUL # zs))"
proof -
  let ?p = "name @ [NUL]"
  let ?r = "replicate (length key - length (chomp key)) NUL"
  have 1: "string_at line 0 = Ret (name @ CHR '':'' # key)"
    using string_at_first [of "name @ CHR '':'' # key" zs] n k by (simp add: line)
  have 2: "takeWhile (\<lambda>c. c \<noteq> CHR '':'') (name @ CHR '':'' # key) = name"
    using n(2) by (auto simp: takeWhile_append)
  have 3: "put_char line (length name) NUL = Ret (?p @ key @ NUL # zs)"
    by (simp add: put_char_def line)
  have 4: "string_at (?p @ key @ NUL # zs) (Suc (length name)) = Ret key"
    using string_at_skip [of key ?p zs] k by simp
  have 5: "strip_newlines (?p @ key @ NUL # zs) (Suc (length name)) (int (length key) - 1) =
      Ret (?p @ chomp key @ ?r @ NUL # zs)"
    using strip_newlines_chomp [of ?p key "NUL # zs"] by simp
  have 6: "string_at (?p @ chomp key @ ?r @ NUL # zs) 0 = Ret name"
    using string_at_first [of name "chomp key @ ?r @ NUL # zs"] n by simp
  have 7: "string_at (?p @ chomp key @ ?r @ NUL # zs) (Suc (length name)) = Ret (chomp key)"
  proof -
    have "NUL \<notin> set (chomp key)" using set_chomp k by blast
    then have "string_at (?p @ chomp key @ NUL # zs') (length ?p) = Ret (chomp key)" for zs'
      by (rule string_at_skip)
    then show ?thesis
      by (cases "length key - length (chomp key)") simp_all
  qed
  show ?thesis by (simp add: 1 2 3 [simplified] 4 [simplified] 5 [simplified] 6 [simplified] 7 [simplified] Let_def)
qed

lemma takeWhile_split_at: "takeWhile (\<lambda>c. c \<noteq> x) s \<noteq> s \<Longrightarrow> \<exists>t. s = takeWhile (\<lambda>c. c \<noteq> x) s @ x # t"
  by (induction s) auto

lemma key_entry_None:
  assumes "key_entry l = None"
  shows "takeWhile (\<lambda>c. c \<noteq> CHR '':'') (takeWhile (\<lambda>c. c \<noteq> NUL) l) = takeWhile (\<lambda>c. c \<noteq> NUL) l"
proof (rule ccontr)
  assume "\<not> ?thesis"
  then show False using assms by (simp only: key_entry_def Let_def if_False option.distinct simp_thms)
qed

lemma key_entry_Some:
  assumes "key_entry l = Some (name, key)"
  obtains key0 zs where "l @ NUL # rest = name @ CHR '':'' # key0 @ NUL # zs" "key = chomp key0"
    "NUL \<notin> set name" "CHR '':'' \<notin> set name" "NUL \<notin> set key0"
proof -
  define s where "s = takeWhile (\<lambda>c. c \<noteq> NUL) l"
  define nm where "nm = takeWhile (\<lambda>c. c \<noteq> CHR '':'') s"
  have e: "nm \<noteq> s" "name = nm" "key = chomp (drop (Suc (length nm)) s)"
    using assms unfolding key_entry_def Let_def s_def [symmetric] nm_def [symmetric]
    by (auto split: if_splits)
  obtain key0 where s: "s = nm @ CHR '':'' # key0"
    using takeWhile_split_at [of "CHR '':''" s] e(1) unfolding nm_def by blast
  obtain zs where l: "l @ NUL # rest = s @ NUL # zs"
    using takeWhile_split_at [of NUL l] unfolding s_def by (metis append.assoc append_Cons)
  have "NUL \<notin> set s" unfolding s_def by (auto dest: set_takeWhileD)
  moreover have "CHR '':'' \<notin> set nm" unfolding nm_def by (auto dest: set_takeWhileD)
  ultimately show ?thesis using e l s by (intro that [of key0 zs]) auto
qed

lemma key_file_loop_lookup:
  "length line = 1024 \<Longrightarrow>
   key_file_loop line (map Some s) identity psk maxlen =
     (case key_lookup identity s of
        None \<Rightarrow> Ret (0, psk)
      | Some key \<Rightarrow> tls_psk_decode_key key psk maxlen)"
proof (induction "length s" arbitrary: s line rule: less_induct)
  case less
  show ?case
  proof (cases "file_lines s")
    case Nil
    then have "s = []" by (simp add: file_lines_Nil)
    moreover have "fgets line 1023 [] = Ret (0, line[0 := NUL], [])"
      using less(2) fgets_loop_line [of 0 1023 line 0 "[]"] by (cases line) (simp_all add: fgets_def put_char_def)
    ultimately show ?thesis by (subst key_file_loop.simps) (simp add: key_lookup_rec)
  next
    case (Cons l ls)
    let ?line = "l @ NUL # drop (Suc (length l)) line"
    show ?thesis
    proof (cases "length l < 1023")
      case False
      then show ?thesis
        by (subst key_file_loop.simps, subst key_lookup_rec) (simp add: fgets_line [OF less(2) Cons] Cons)
    next
      case True
      have l: "l \<noteq> []" "length l \<le> length s"
        using file_lines_Cons [OF Cons] by (simp, metis length_take min.cobounded1)
      have ih: "key_file_loop line' (map Some (drop (length l) s)) identity psk maxlen =
          (case key_lookup identity (drop (length l) s) of
             None \<Rightarrow> Ret (0, psk) | Some key \<Rightarrow> tls_psk_decode_key key psk maxlen)"
        if "length line' = 1024" for line'
        using l that by (intro less(1)) (auto simp flip: length_greater_0_conv)
      show ?thesis
      proof (cases "key_entry l")
        case None
        have "string_at ?line 0 = Ret (takeWhile (\<lambda>c. c \<noteq> NUL) l)"
          by (auto simp: string_at_def takeWhile_append takeWhile_eq_all_conv [THEN iffD2])
        then show ?thesis
          using True l ih [of ?line] less(2) key_entry_None [OF None, THEN arg_cong, of length]
          by (subst key_file_loop.simps, subst key_lookup_rec)
            (simp add: fgets_line [OF less(2) Cons] Cons line_key_def None)
      next
        case (Some e)
        obtain name key where e: "e = (name, key)" by force
        obtain key0 zs where k: "?line = name @ CHR '':'' # key0 @ NUL # zs" "key = chomp key0"
          and p: "NUL \<notin> set name" "CHR '':'' \<notin> set name" "NUL \<notin> set key0"
          using key_entry_Some Some e by metis
        note entry = key_file_entry [OF k(1) p]
        have "length ?line = 1024" using True less(2) by simp
        then have "length (name @ CHR '':'' # key0 @ NUL # zs) = 1024" by (simp only: k)
        moreover have "length (chomp key0) \<le> length key0"
          by (cases key0) (auto simp: chomp_def length_dropWhile_le [THEN order_trans])
        ultimately show ?thesis
          using True l
          by (subst key_file_loop.simps, subst key_lookup_rec)
            (simp add: fgets_line [OF less(2) Cons] Cons line_key_def Some e k(2) entry ih)
      qed
    qed
  qed
qed

text \<open>The callback of the daemon, on a file that can be read.\<close>

lemma tls_psk_server_cb_lookup:
  assumes "files (psk_key_filename G) = Some (map Some s)" "length line = 1024"
  shows "tls_psk_server_cb files G line identity psk maxlen =
    (case key_lookup identity s of
       None \<Rightarrow> Ret (0, psk)
     | Some key \<Rightarrow> tls_psk_decode_key key psk maxlen)"
  using assms by (simp add: tls_psk_server_cb_def key_file_loop_lookup)

text \<open>A written key file reads back: the line of each identity holds the digits of its key.\<close>

definition key_line :: "string \<times> byte list \<Rightarrow> string" where
  "key_line e = fst e @ CHR '':'' # hex_of (snd e) @ [NEWLINE]"

definition key_file :: "(string \<times> byte list) list \<Rightarrow> string" where
  "key_file es = concat (map key_line es)"

definition entry_ok :: "string \<times> byte list \<Rightarrow> bool" where
  "entry_ok e \<longleftrightarrow> set (fst e) \<inter> {NUL, NEWLINE, CHR '':''} = {} \<and> snd e \<noteq> [] \<and>
     length (key_line e) < 1023"

lemma hex_digit_set:
  assumes "c \<in> set (hex_of bs)"
  shows "tls_psk_to_hex c \<ge> 0 \<and> lower c = c"
proof -
  have "unat (b::byte) div 16 < 16" for b
    using unsigned_less [of b, where ?'a=nat] by (simp add: less_mult_imp_div_less)
  moreover have "unat (b::byte) mod 16 < 16" for b by simp
  ultimately have "\<exists>n<16. c = hex_digits ! n"
    using assms by (induction bs) (simp, metis hex_of_simps(2) set_ConsD)
  then obtain n where "n < 16" "c = hex_digits ! n" by blast
  then show ?thesis
    by (auto simp: to_hex_digit) (auto simp: lower_def Let_def hex_digits_nth)
qed

lemma lower_hex_of [simp]: "map lower (hex_of bs) = hex_of bs"
  using hex_digit_set by (simp add: map_idI)

lemma file_lines_line:
  assumes "NEWLINE \<notin> set l"
  shows "file_lines (l @ NEWLINE # s) = (l @ [NEWLINE]) # file_lines s"
  using assms by (induction l) auto

lemma hex_of_plain: "NUL \<notin> set (hex_of bs)" "NEWLINE \<notin> set (hex_of bs)" "RETURN \<notin> set (hex_of bs)"
  by (auto dest!: hex_digit_set simp: tls_psk_to_hex_def)

lemma chomp_plain:
  assumes "s \<noteq> []" "last s \<notin> {NEWLINE, RETURN}"
  shows "chomp (s @ [NEWLINE]) = s"
proof -
  obtain t c where "s = t @ [c]" using assms(1) rev_exhaust by blast
  then show ?thesis using assms chomp_snoc [of s NEWLINE] chomp_snoc [of t c] by (cases t) (auto simp: chomp_def)
qed

lemma key_entry_line:
  assumes "entry_ok e"
  shows "key_entry (key_line e) = Some (fst e, hex_of (snd e))"
proof -
  have n: "set (fst e) \<inter> {NUL, NEWLINE, CHR '':''} = {}" "snd e \<noteq> []" using assms by (auto simp: entry_ok_def)
  have "takeWhile (\<lambda>c. c \<noteq> NUL) (key_line e) = key_line e"
    using n hex_of_plain by (auto simp: key_line_def takeWhile_eq_all_conv)
  moreover have "takeWhile (\<lambda>c. c \<noteq> CHR '':'') (key_line e) = fst e"
    using n by (auto simp: key_line_def takeWhile_append takeWhile_eq_all_conv)
  moreover have "chomp (hex_of (snd e) @ [NEWLINE]) = hex_of (snd e)"
  proof -
    have "hex_of (snd e) \<noteq> []" using n(2) by (cases "snd e") auto
    then show ?thesis
      using hex_of_plain [of "snd e"] by (intro chomp_plain) (metis last_in_set insertE singletonD)+
  qed
  ultimately show ?thesis by (simp add: key_entry_def Let_def) (simp add: key_line_def)
qed

lemma key_entries_file:
  assumes "list_all entry_ok es"
  shows "key_entries (key_file es) = map (\<lambda>e. (fst e, hex_of (snd e))) es"
  using assms
proof (induction es)
  case (Cons e es)
  have "NEWLINE \<notin> set (fst e @ CHR '':'' # hex_of (snd e))"
    using Cons hex_of_plain by (auto simp: entry_ok_def)
  from file_lines_line [OF this] have "file_lines (key_file (e # es)) = key_line e # file_lines (key_file es)"
    by (simp add: key_file_def key_line_def)
  then show ?case
    using Cons key_entry_line [of e] by (auto simp: key_entries_def List.map_filter_simps entry_ok_def)
qed (simp add: key_entries_def key_file_def List.map_filter_simps)

lemma find_entry:
  "identity \<noteq> [] \<Longrightarrow>
   map_option snd (find (\<lambda>(name, key). Some identity \<in> {None, Some [], Some name})
     (map (\<lambda>e. (fst e, hex_of (snd e))) es)) = map_option hex_of (map_of es identity)"
  by (induction es) auto

lemma key_lookup_file:
  assumes "list_all entry_ok es" "identity \<noteq> []"
  shows "key_lookup (Some identity) (key_file es) = map_option hex_of (map_of es identity)"
  using find_entry [OF assms(2)] by (simp only: key_lookup_def key_entries_file [OF assms(1)])

lemma key_bytes_hex_of: "key_bytes (hex_of bs) n bs \<longleftrightarrow> length bs \<le> n"
  by (simp add: key_bytes_def)

text \<open>A line that is too long hides all that come after it.\<close>

lemma key_entries_long:
  assumes "list_all entry_ok es" "NEWLINE \<notin> set l" "length l \<ge> 1022"
  shows "key_entries (key_file es @ l @ NEWLINE # s) = map (\<lambda>e. (fst e, hex_of (snd e))) es"
  using assms(1)
proof (induction es)
  case Nil
  then show ?case
    using assms(2,3) by (simp add: key_file_def key_entries_def file_lines_line List.map_filter_simps)
next
  case (Cons e es)
  have "NEWLINE \<notin> set (fst e @ CHR '':'' # hex_of (snd e))"
    using Cons hex_of_plain by (auto simp: entry_ok_def)
  from file_lines_line [OF this]
  have "file_lines (key_file (e # es) @ l @ NEWLINE # s) = key_line e # file_lines (key_file es @ l @ NEWLINE # s)"
    by (simp add: key_file_def key_line_def)
  then show ?case
    using Cons key_entry_line [of e] by (auto simp: key_entries_def List.map_filter_simps entry_ok_def)
qed

end
