(* ===== verification/Syscall_Filter.thy ===== *)
theory Syscall_Filter
  imports C_Strings
begin

text \<open>
  The filters on system calls: the one the daemon installs before it serves
  (\<^verbatim>\<open>gck-rpc-daemon-standalone.c\<close>), the one a dispatcher thread adds for itself
  (\<^verbatim>\<open>gck-rpc-dispatch.c\<close>), and the report of a call that was stopped (\<^verbatim>\<open>syscall-reporter.c\<close>).
\<close>

section \<open>Rules\<close>

text \<open>The calls that the filters name; the others have their number.\<close>

datatype Syscall =
  Sys_write | Sys_rt_sigreturn | Sys_exit | Sys_exit_group | Sys_read | Sys_select | Sys_accept
| Sys_sendto | Sys_recvfrom | Sys_mmap | Sys_munmap | Sys_mprotect | Sys_clone | Sys_set_robust_list
| Sys_madvise | Sys_munlock | Sys_open | Sys_close | Sys_unlink | Sys_prctl | Sys_getcwd | Sys_stat
| Sys_fcntl | Sys_fstat | Sys_lseek | Sys_access | Sys_fsync | Sys_ftruncate | Sys_futex | Sys_other nat

text \<open>A rule allows a call, if the arguments at the given places have the given values.\<close>

type_synonym Rule = "Syscall \<times> (nat \<times> int) list"

definition matches :: "Syscall \<Rightarrow> (nat \<Rightarrow> int) \<Rightarrow> Rule \<Rightarrow> bool" where
  "matches call args r \<longleftrightarrow> fst r = call \<and> list_all (\<lambda>(i, v). args i = v) (snd r)"

definition allows :: "Rule list \<Rightarrow> Syscall \<Rightarrow> (nat \<Rightarrow> int) \<Rightarrow> bool" where
  "allows rs call args \<longleftrightarrow> list_ex (matches call args) rs"

text \<open>Every filter of a thread is asked; a call that one of them does not allow kills the process.\<close>

definition permitted :: "Rule list list \<Rightarrow> Syscall \<Rightarrow> (nat \<Rightarrow> int) \<Rightarrow> bool" where
  "permitted fs call args \<longleftrightarrow> list_all (\<lambda>rs. allows rs call args) fs"

text \<open>
  What the build and libseccomp give: whether the program is built with \<open>SECCOMP\<close> and
  \<open>DEBUG_SECCOMP\<close>, whether \<open>seccomp_init\<close> succeeds, which rules \<open>seccomp_rule_add\<close> adds (its
  result is not looked at), the results of \<open>install_syscall_reporter\<close> and \<open>seccomp_load\<close>.
\<close>

record Seccomp =
  sc_built :: bool
  sc_debug :: bool
  sc_init :: bool
  sc_add :: "Rule \<Rightarrow> bool"
  sc_reporter :: int
  sc_load :: int

text \<open>Values on Linux for x86-64, which has no call \<open>sigreturn\<close>.\<close>

definition O_RDONLY_CLOEXEC :: int where
  "O_RDONLY_CLOEXEC = 0x80000"

definition PROT_READ_WRITE :: int where
  "PROT_READ_WRITE = 3"

definition softhsm_rules :: "Rule list" where
  "softhsm_rules =
     [(Sys_getcwd, []), (Sys_stat, []), (Sys_open, []), (Sys_fcntl, []), (Sys_fstat, []), (Sys_lseek, []),
      (Sys_access, []), (Sys_fsync, []), (Sys_unlink, []), (Sys_ftruncate, []), (Sys_select, []),
      (Sys_futex, [])]"

definition daemon_rules :: "bool \<Rightarrow> int \<Rightarrow> string \<Rightarrow> Rule list" where
  "daemon_rules debug sock path =
     [(Sys_write, [])] @
     (if debug then [(Sys_rt_sigreturn, [])] else []) @
     [(Sys_exit, []), (Sys_exit_group, []), (Sys_read, []), (Sys_select, [])] @
     (if sock \<noteq> 0 then [(Sys_accept, [(0, sock)])] else []) @
     [(Sys_sendto, [])] @
     (if path \<noteq> [] \<and> take 6 path = ''tcp://'' then [(Sys_recvfrom, [])] else []) @
     [(Sys_mmap, []), (Sys_munmap, []), (Sys_mprotect, []), (Sys_clone, []), (Sys_set_robust_list, []),
      (Sys_madvise, []), (Sys_munlock, []), (Sys_open, [(1, O_RDONLY_CLOEXEC)]), (Sys_close, [])] @
     (if path \<noteq> [] \<and> take 6 path \<noteq> ''tcp://'' \<and> take 6 path \<noteq> ''tls://'' then [(Sys_unlink, [])] else []) @
     [(Sys_prctl, [])] @ softhsm_rules"

text \<open>
  The result and the filters of the process afterwards. On failure the result is \<open>errno\<close>.
\<close>

definition install_syscall_filter ::
  "Seccomp \<Rightarrow> int \<Rightarrow> string \<Rightarrow> Rule list list \<Rightarrow> int \<times> Rule list list" where
  "install_syscall_filter sc sock path fs =
     (if \<not> sc_built sc then (0, fs)
      else if \<not> sc_init sc then (1, fs)
      else if sc_debug sc \<and> sc_reporter sc \<noteq> 0 then (1, fs)
      else if sc_load sc < 0 then (- sc_load sc, fs)
      else (0, filter (sc_add sc) (daemon_rules (sc_debug sc) sock path) # fs))"

definition dispatch_rules :: "bool \<Rightarrow> bool \<Rightarrow> Rule list" where
  "dispatch_rules debug use_tls =
     [(Sys_write, [])] @
     (if debug then [(Sys_rt_sigreturn, [])] else []) @
     [(Sys_exit, []), (Sys_exit_group, []), (Sys_read, []), (Sys_sendto, []), (Sys_recvfrom, [])] @
     (if use_tls then [(Sys_open, [(1, O_RDONLY_CLOEXEC)])] else []) @
     [(Sys_close, []), (Sys_madvise, []), (Sys_mprotect, [(2, PROT_READ_WRITE)])] @ softhsm_rules"

definition install_dispatch_syscall_filter ::
  "Seccomp \<Rightarrow> bool \<Rightarrow> Rule list list \<Rightarrow> int \<times> Rule list list" where
  "install_dispatch_syscall_filter sc use_tls fs =
     (if \<not> sc_built sc then (0, fs)
      else if \<not> sc_init sc then (1, fs)
      else if sc_load sc < 0 then (- sc_load sc, fs)
      else (0, filter (sc_add sc) (dispatch_rules (sc_debug sc) use_tls) # fs))"

section \<open>What the filters allow\<close>

lemma allows_simps [simp]:
  "\<not> allows [] call args"
  "allows (r # rs) call args \<longleftrightarrow> matches call args r \<or> allows rs call args"
  "allows (rs @ rs') call args \<longleftrightarrow> allows rs call args \<or> allows rs' call args"
  by (simp_all add: allows_def)

lemma matches_simps [simp]:
  "matches call args (c, []) \<longleftrightarrow> call = c"
  "matches call args (c, (i, v) # cs) \<longleftrightarrow> args i = v \<and> matches call args (c, cs)"
  by (auto simp: matches_def)

lemma daemon_accept: "allows (daemon_rules debug sock path) Sys_accept args \<longleftrightarrow> sock \<noteq> 0 \<and> args 0 = sock"
  by (auto simp: daemon_rules_def softhsm_rules_def)

lemma daemon_recvfrom: "allows (daemon_rules debug sock path) Sys_recvfrom args \<longleftrightarrow> take 6 path = ''tcp://''"
  by (auto simp: daemon_rules_def softhsm_rules_def)

lemma daemon_other: "\<not> allows (daemon_rules debug sock path) (Sys_other n) args"
  by (simp add: daemon_rules_def softhsm_rules_def)

text \<open>The filter of a thread takes calls away only, but for \<open>recvfrom\<close>.\<close>

lemma dispatch_subset:
  assumes "allows (dispatch_rules debug use_tls) call args" "call \<noteq> Sys_recvfrom"
  shows "allows (daemon_rules debug sock path) call args"
proof -
  have "allows softhsm_rules call args \<Longrightarrow> allows (daemon_rules debug sock path) call args"
    by (simp add: daemon_rules_def)
  moreover have "call \<in> {Sys_write, Sys_exit, Sys_exit_group, Sys_read, Sys_sendto, Sys_close, Sys_madvise,
        Sys_mprotect} \<or> debug \<and> call = Sys_rt_sigreturn \<Longrightarrow> allows (daemon_rules debug sock path) call args"
    by (auto simp: daemon_rules_def)
  moreover have "allows (daemon_rules debug sock path) Sys_open args"
    by (simp add: daemon_rules_def softhsm_rules_def)
  ultimately show ?thesis using assms by (auto simp: dispatch_rules_def split: if_splits)
qed

end
