(* ===== verification/Daemon_Main.thy ===== *)
theory Daemon_Main
  imports Dispatch_Layer Tls_Psk Syscall_Filter
begin

text \<open>
  The program \<^verbatim>\<open>pkcs11-daemon\<close> (\<^verbatim>\<open>gck-rpc-daemon-standalone.c\<close>): loading the PKCS#11 module, the
  choice of the socket, TLS, the system call filter, the loop that waits for connections, and
  the orderly end on \<open>SIGTERM\<close>.
\<close>

section \<open>Surroundings\<close>

text \<open>
  A shared library is what \<open>dlsym\<close> gives for \<open>C_GetFunctionList\<close>: the function, which changes the
  state of the module and returns a code and the function list, or a null pointer.
\<close>

type_synonym 'w Library = "('w \<Rightarrow> CK_RV \<times> 'w CK_FUNCTION_LIST option \<times> 'w) option"

text \<open>
  One turn of the loop: what the dispatcher threads do to the layer and the module until \<open>select\<close>
  returns, whether \<open>SIGTERM\<close> arrives in the turn, and the result of \<open>select\<close>. For a descriptor
  that is ready, the results of \<open>accept\<close>, \<open>calloc\<close> and \<open>pthread_create\<close> come with it.
\<close>

datatype SelectResult = Interrupted | SelectFailed | NotReady | Ready int bool bool

record 'w Turn =
  turn_threads :: "'w Layer \<times> 'w \<Rightarrow> 'w Layer \<times> 'w"
  turn_term :: bool
  turn_select :: SelectResult

record 'w Daemon_Env =
  de_library :: "string \<Rightarrow> 'w Library option"
  de_getenv :: "string \<Rightarrow> string option"
  de_calloc :: bool
  de_openssl :: OpenSSL
  de_listen :: Listen_Env
  de_term_ignored :: bool
  de_seccomp :: Seccomp
  de_turns :: "'w Turn list"
  de_starting :: "CallState \<Rightarrow> CallState outcome"
  de_shutdown :: "int \<Rightarrow> bool"
  de_dispatch :: "'w Env"
  de_stdin :: Net
  de_buf4 :: block

text \<open>The state of the program; \<open>daemon_unlinked\<close> is the socket file that has been removed.\<close>

record 'w Daemon =
  daemon_layer :: "'w Layer"
  module_state :: 'w
  daemon_tls :: "GckRpcTlsPskState option"
  tls_globals :: Tls_Globals
  daemon_filters :: "Rule list list"
  daemon_unlinked :: "string option"

section \<open>Starting\<close>

definition SOCKET_PATH :: string where
  "SOCKET_PATH = ''tcp://127.0.0.1''"

text \<open>\<open>Inl\<close> is the code of \<open>exit\<close>.\<close>

type_synonym ('w, 'a) started = "(int \<times> 'w Daemon + 'a \<times> 'w Daemon) outcome"

fun sbind :: "('w, 'a) started \<Rightarrow> ('a \<Rightarrow> 'w Daemon \<Rightarrow> (int \<times> 'w Daemon) outcome) \<Rightarrow> (int \<times> 'w Daemon) outcome" where
  "sbind m f = obind m (\<lambda>r. case r of Inl e \<Rightarrow> Ret e | Inr (x, D) \<Rightarrow> f x D)"

definition load_module :: "'w Daemon_Env \<Rightarrow> string \<Rightarrow> 'w Daemon \<Rightarrow> ('w, 'w CK_FUNCTION_LIST) started" where
  "load_module DE name D =
     (case de_library DE name of
        None \<Rightarrow> Ret (Inl (1, D))
      | Some symbol \<Rightarrow>
          (case symbol of
             None \<Rightarrow> Ret (Inl (1, D))
           | Some func_get_list \<Rightarrow>
               (case func_get_list (module_state D) of
                  (rv, funcs, w) \<Rightarrow>
                    (let D = D\<lparr>module_state := w\<rparr> in
                     if rv \<noteq> CKR_OK then Ret (Inl (1, D))
                     else case funcs of
                       None \<Rightarrow> Ret (Inl (1, D))
                     | Some M \<Rightarrow>
                         (case C_Initialize M of
                            None \<Rightarrow> Fault
                          | Some f \<Rightarrow>
                              (case f w of
                                 (rv, _, w) \<Rightarrow>
                                   (let D = D\<lparr>module_state := w\<rparr> in
                                    if rv \<noteq> CKR_OK then Ret (Inl (1, D)) else Ret (Inr (M, D)))))))))"

definition daemon_path :: "'w Daemon_Env \<Rightarrow> string list \<Rightarrow> string" where
  "daemon_path DE argv =
     (case de_getenv DE ''PKCS11_DAEMON_SOCKET'' of
        Some path \<Rightarrow> path
      | None \<Rightarrow> if length argv = 3 then argv ! 2 else SOCKET_PATH)"

text \<open>The memory that \<open>calloc\<close> gives for the state.\<close>

definition new_tls_state :: GckRpcTlsPskState where
  "new_tls_state =
     \<lparr>initialized = 0, ssl_ctx = None, bio = None, ssl = None, tls_type = GCK_RPC_TLS_PSK_CLIENT\<rparr>"

definition start_tls_psk :: "'w Daemon_Env \<Rightarrow> string \<Rightarrow> 'w Daemon \<Rightarrow> ('w, unit) started" where
  "start_tls_psk DE path D =
     (if take 6 path = ''tls://'' then
        (case de_getenv DE ''PKCS11_PROXY_TLS_PSK_FILE'' of
           None \<Rightarrow> Ret (Inl (1, D))
         | Some keyfile \<Rightarrow>
             if keyfile = [] then Ret (Inl (1, D))
             else if \<not> de_calloc DE then Ret (Inl (1, D))
             else
               (case gck_rpc_init_tls_psk (de_openssl DE) keyfile None GCK_RPC_TLS_PSK_SERVER new_tls_state
                       (tls_globals D) of
                  (ok, state, G) \<Rightarrow>
                    (let D = D\<lparr>daemon_tls := Some state, tls_globals := G\<rparr> in
                     if ok = 0 then Ret (Inl (1, D)) else Ret (Inr ((), D)))))
      else Ret (Inr ((), D\<lparr>daemon_tls := None\<rparr>)))"

text \<open>The socket; the inetd mode is for the path \<open>"-"\<close> and has descriptor 0.\<close>

datatype Mode = MODE_INETD | MODE_SOCKET

definition start_socket ::
  "'w Daemon_Env \<Rightarrow> string \<Rightarrow> 'w CK_FUNCTION_LIST \<Rightarrow> 'w Daemon \<Rightarrow> ('w, int \<times> Mode) started" where
  "start_socket DE path M D =
     (if path = ''-'' then Ret (Inr ((0, MODE_INETD), D))
      else
        obind (gck_rpc_layer_initialize (de_listen DE) path M (daemon_layer D)) (\<lambda>(fd, L).
        let D = D\<lparr>daemon_layer := L\<rparr> in
        if fd = - 1 then Ret (Inl (1, D)) else Ret (Inr ((fd, MODE_SOCKET), D))))"

definition start_filter :: "'w Daemon_Env \<Rightarrow> int \<Rightarrow> string \<Rightarrow> 'w Daemon \<Rightarrow> ('w, unit) started" where
  "start_filter DE fd path D =
     (case install_syscall_filter (de_seccomp DE) fd path (daemon_filters D) of
        (rc, fs) \<Rightarrow>
          if rc \<noteq> 0 then Ret (Inl (1, D)) else Ret (Inr ((), D\<lparr>daemon_filters := fs\<rparr>)))"

section \<open>Serving\<close>

text \<open>
  The \<open>while\<close> loop. Without another turn \<open>select\<close> waits forever. The result tells whether the
  program exits because \<open>select\<close> failed.
\<close>

fun daemon_loop ::
  "'w Daemon_Env \<Rightarrow> bool \<Rightarrow> 'w Turn list \<Rightarrow> bool \<Rightarrow> 'w Layer \<times> 'w \<Rightarrow> (bool \<times> 'w Layer \<times> 'w) outcome" where
  "daemon_loop DE with_tls ts False s = Ret (True, s)"
| "daemon_loop DE with_tls [] True s = Hang"
| "daemon_loop DE with_tls (t # ts) True s =
     (let s = turn_threads t s;
          is_running = (\<not> turn_term t \<or> de_term_ignored DE) in
      case turn_select t of
        Interrupted \<Rightarrow> daemon_loop DE with_tls ts is_running s
      | SelectFailed \<Rightarrow> Ret (False, s)
      | NotReady \<Rightarrow> daemon_loop DE with_tls ts is_running s
      | Ready fd calloc_ok create_ok \<Rightarrow>
          obind (gck_rpc_layer_accept (de_starting DE) fd calloc_ok create_ok with_tls (fst s)) (\<lambda>L.
          daemon_loop DE with_tls ts is_running (L, snd s)))"

definition serve_sockets :: "'w Daemon_Env \<Rightarrow> 'w Daemon \<Rightarrow> ('w, unit) started" where
  "serve_sockets DE D =
     obind (daemon_loop DE (daemon_tls D \<noteq> None) (de_turns DE) True (daemon_layer D, module_state D)) (\<lambda>(ok, L, w).
     let D = D\<lparr>daemon_layer := L, module_state := w\<rparr> in
     if \<not> ok then Ret (Inl (1, D))
     else
       obind (gck_rpc_layer_uninitialize (de_starting DE) (de_shutdown DE) L) (\<lambda>(L, gone).
       Ret (Inr ((), D\<lparr>daemon_layer := L, daemon_unlinked := gone\<rparr>))))"

definition serve_inetd :: "'w Daemon_Env \<Rightarrow> 'w CK_FUNCTION_LIST \<Rightarrow> 'w Daemon \<Rightarrow> ('w, unit) started" where
  "serve_inetd DE M D =
     obind (gck_rpc_layer_inetd (de_dispatch DE)
       (\<lambda>with_tls. fst (install_dispatch_syscall_filter (de_seccomp DE) with_tls (daemon_filters D)))
       M (module_state D) (de_stdin DE) (de_buf4 DE)) (\<lambda>(s, net).
     Ret (Inr ((), D\<lparr>module_state := world s\<rparr>)))"

section \<open>Ending\<close>

text \<open>
  The result of \<open>C_Finalize\<close> is only printed. The TLS state is closed and its memory freed.
\<close>

definition daemon_end :: "'w CK_FUNCTION_LIST \<Rightarrow> 'w Daemon \<Rightarrow> (int \<times> 'w Daemon) outcome" where
  "daemon_end M D =
     (case C_Finalize M of
        None \<Rightarrow> Fault
      | Some f \<Rightarrow>
          (case f (module_state D) of
             (rv, _, w) \<Rightarrow> Ret (0, D\<lparr>module_state := w, daemon_tls := None\<rparr>)))"

text \<open>\<open>argv\<close> starts with the name of the program.\<close>

definition daemon_main :: "'w Daemon_Env \<Rightarrow> string list \<Rightarrow> 'w Daemon \<Rightarrow> (int \<times> 'w Daemon) outcome" where
  "daemon_main DE argv D =
     (if length argv \<noteq> 2 \<and> length argv \<noteq> 3 then Ret (2, D)
      else
        sbind (load_module DE (argv ! 1) D) (\<lambda>M D.
        let path = daemon_path DE argv in
        sbind (start_tls_psk DE path D) (\<lambda>_ D.
        sbind (start_socket DE path M D) (\<lambda>(fd, mode) D.
        sbind (start_filter DE fd path D) (\<lambda>_ D.
        sbind (if mode = MODE_INETD then serve_inetd DE M D else serve_sockets DE D) (\<lambda>_ D.
        daemon_end M D))))))"

section \<open>The loop\<close>

text \<open>A thread whose socket is gone has ended, so that reaping it does not block.\<close>

definition reapable :: "'w Layer \<Rightarrow> bool" where
  "reapable L \<longleftrightarrow> list_all (\<lambda>d. sock (ds_cs d) = - 1 \<longrightarrow> ds_thread d = Ended) (dispatchers L)"

text \<open>The fields of the layer that only the main thread sets.\<close>

definition main_fields :: "'w Layer \<Rightarrow> 'w CK_FUNCTION_LIST option \<times> int \<times> string \<times> bool" where
  "main_fields L = (layer_module L, pkcs11_socket L, pkcs11_socket_path L, dispatchers_mutex L)"

text \<open>A turn in which the threads keep this up and an accepted connection gets its thread.\<close>

definition turn_ok :: "'w Turn \<Rightarrow> bool" where
  "turn_ok t \<longleftrightarrow>
     (\<forall>L w. reapable L \<longrightarrow> reapable (fst (turn_threads t (L, w))) \<and>
        main_fields (fst (turn_threads t (L, w))) = main_fields L) \<and>
     (case turn_select t of
        SelectFailed \<Rightarrow> False
      | Ready fd calloc_ok create_ok \<Rightarrow> fd \<ge> 0 \<and> calloc_ok \<and> create_ok
      | _ \<Rightarrow> True)"

text \<open>What the layer is after some turns.\<close>

definition with_connection :: "bool \<Rightarrow> int \<Rightarrow> 'w Layer \<Rightarrow> 'w Layer" where
  "with_connection with_tls fd L =
     L\<lparr>dispatchers := \<lparr>ds_thread = Starting, ds_cs = new_call_state fd SocketIo with_tls\<rparr> #
         filter (\<lambda>d. sock (ds_cs d) \<noteq> - 1) (dispatchers L)\<rparr>"

definition after_turn :: "bool \<Rightarrow> 'w Turn \<Rightarrow> 'w Layer \<times> 'w \<Rightarrow> 'w Layer \<times> 'w" where
  "after_turn with_tls t s =
     (let s = turn_threads t s in
      case turn_select t of
        Ready fd calloc_ok create_ok \<Rightarrow> (with_connection with_tls fd (fst s), snd s)
      | _ \<Rightarrow> s)"

definition after_turns :: "bool \<Rightarrow> 'w Turn list \<Rightarrow> 'w Layer \<times> 'w \<Rightarrow> 'w Layer \<times> 'w" where
  "after_turns with_tls ts s = fold (after_turn with_tls) ts s"

text \<open>The loop can go on: it neither blocks nor fails.\<close>

definition can_serve :: "'w Layer \<Rightarrow> bool" where
  "can_serve L \<longleftrightarrow> reapable L \<and> pkcs11_socket L \<noteq> - 1 \<and> \<not> dispatchers_mutex L"

lemma layer_accept_reapable:
  assumes "can_serve L" "fd \<ge> 0"
  shows "gck_rpc_layer_accept starting fd True True with_tls L = Ret (with_connection with_tls fd L)"
    and "reapable (with_connection with_tls fd L)" and "main_fields (with_connection with_tls fd L) = main_fields L"
  using assms
  by (auto simp: can_serve_def gck_rpc_layer_accept_def reapable_def reap_dispatchers_filter Let_def
      main_fields_def new_call_state_def list_all_iff with_connection_def)

lemma can_serve_fields: "reapable L' \<Longrightarrow> main_fields L' = main_fields L \<Longrightarrow> can_serve L \<Longrightarrow> can_serve L'"
  by (simp add: can_serve_def main_fields_def)

lemma turn_threads_ok:
  "turn_ok t \<Longrightarrow> can_serve (fst s) \<Longrightarrow>
   can_serve (fst (turn_threads t s)) \<and> main_fields (fst (turn_threads t s)) = main_fields (fst s)"
  by (cases s) (auto simp: turn_ok_def can_serve_def main_fields_def)

lemma after_turn_ok:
  assumes "turn_ok t" "can_serve (fst s)"
  shows "can_serve (fst (after_turn with_tls t s)) \<and>
    main_fields (fst (after_turn with_tls t s)) = main_fields (fst s)"
proof (cases "turn_select t")
  case (Ready fd c p)
  then have "fd \<ge> 0" using assms(1) by (simp add: turn_ok_def)
  then show ?thesis
    using turn_threads_ok [OF assms] layer_accept_reapable(2,3) [of "fst (turn_threads t s)" fd with_tls]
      can_serve_fields [of "with_connection with_tls fd (fst (turn_threads t s))" "fst s"] Ready assms(2)
    by (auto simp: after_turn_def Let_def)
qed (use turn_threads_ok [OF assms] in \<open>simp_all add: after_turn_def Let_def\<close>)

lemma daemon_loop_turn:
  assumes "turn_ok t" "\<not> turn_term t \<or> de_term_ignored DE" "can_serve (fst s)"
  shows "daemon_loop DE with_tls (t # ts) True s = daemon_loop DE with_tls ts True (after_turn with_tls t s)"
proof (cases "turn_select t")
  case (Ready fd c p)
  then have "fd \<ge> 0" "c" "p" using assms(1) by (simp_all add: turn_ok_def)
  then show ?thesis
    using turn_threads_ok [OF assms(1,3)] layer_accept_reapable(1) [of "fst (turn_threads t s)" fd] Ready assms(2)
    by (auto simp: after_turn_def Let_def)
qed (use assms in \<open>auto simp: after_turn_def Let_def turn_ok_def\<close>)

lemma daemon_loop_turns:
  assumes "list_all (\<lambda>t. turn_ok t \<and> \<not> turn_term t) ts" "can_serve (fst s)"
  shows "daemon_loop DE with_tls (ts @ us) True s = daemon_loop DE with_tls us True (after_turns with_tls ts s) \<and>
    can_serve (fst (after_turns with_tls ts s)) \<and>
    main_fields (fst (after_turns with_tls ts s)) = main_fields (fst s)"
  using assms
proof (induction ts arbitrary: s)
  case (Cons t ts)
  then show ?case
    using daemon_loop_turn [of t DE s with_tls] after_turn_ok [of t s with_tls]
    by (simp add: after_turns_def)
qed (simp add: after_turns_def)

section \<open>The end\<close>

lemma stop_dispatchers_over: "list_all thread_over ds \<Longrightarrow> stop_dispatchers starting shut ds = Ret ()"
  by (induction ds) (auto simp: thread_over_def join_locked_def Let_def)

lemma stop_dispatchers_serving:
  "list_all (\<lambda>d. thread_over d \<or> ds_thread d = Serving) ds \<Longrightarrow> list_ex (\<lambda>d. ds_thread d = Serving) ds \<Longrightarrow>
   stop_dispatchers starting shut ds = Hang"
  by (induction ds) (auto simp: thread_over_def join_locked_def Let_def)

text \<open>The turn in which \<open>SIGTERM\<close> interrupts \<open>select\<close>.\<close>

definition term_turn :: "'w Turn \<Rightarrow> bool" where
  "term_turn t \<longleftrightarrow> turn_ok t \<and> turn_term t \<and> turn_select t = Interrupted"

lemma daemon_loop_term:
  assumes "list_all (\<lambda>t. turn_ok t \<and> \<not> turn_term t) ts" "can_serve (fst s)" "term_turn t" "\<not> de_term_ignored DE"
  shows "daemon_loop DE with_tls (ts @ t # us) True s = Ret (True, turn_threads t (after_turns with_tls ts s))"
  using daemon_loop_turns [OF assms(1,2), of DE with_tls "t # us"] assms(3,4)
  by (simp add: term_turn_def Let_def)

definition socket_file :: "string \<Rightarrow> string option" where
  "socket_file path =
     (if path \<noteq> [] \<and> take 6 path \<noteq> ''tcp://'' \<and> take 6 path \<noteq> ''tls://'' then Some path else None)"

lemma serve_sockets_term:
  assumes calm: "list_all (\<lambda>t. turn_ok t \<and> \<not> turn_term t) ts" and D: "can_serve (daemon_layer D)" "layer_module (daemon_layer D) \<noteq> None"
    and t: "term_turn t" "\<not> de_term_ignored DE" and turns: "de_turns DE = ts @ t # us"
    and s: "turn_threads t (after_turns (daemon_tls D \<noteq> None) ts (daemon_layer D, module_state D)) = (L, w)"
  shows "serve_sockets DE D =
    obind (stop_dispatchers (de_starting DE) (de_shutdown DE) (dispatchers L)) (\<lambda>_.
    Ret (Inr ((), D\<lparr>module_state := w,
      daemon_layer := L\<lparr>pkcs11_socket := - 1, pkcs11_socket_path := [], layer_module := None\<rparr>, daemon_unlinked := socket_file (pkcs11_socket_path (daemon_layer D))\<rparr>)))"
proof -
  let ?s = "after_turns (daemon_tls D \<noteq> None) ts (daemon_layer D, module_state D)"
  have 1: "can_serve (fst ?s)" "main_fields (fst ?s) = main_fields (daemon_layer D)"
    using daemon_loop_turns [of ts "(daemon_layer D, module_state D)"] calm D(1) by auto
  then have "main_fields L = main_fields (daemon_layer D)" "can_serve L"
    using turn_threads_ok [of t ?s] t(1) s by (auto simp: term_turn_def)
  then have L: "layer_module L = layer_module (daemon_layer D)" "pkcs11_socket_path L = pkcs11_socket_path (daemon_layer D)"
      "\<not> dispatchers_mutex L"
    by (auto simp: main_fields_def can_serve_def)
  have "daemon_loop DE (daemon_tls D \<noteq> None) (de_turns DE) True (daemon_layer D, module_state D) = Ret (True, L, w)"
    using daemon_loop_term [OF calm _ t, of "(daemon_layer D, module_state D)"] D(1) turns s by simp
  then show ?thesis
    using D(2) L by (auto simp: serve_sockets_def gck_rpc_layer_uninitialize_def socket_file_def Let_def obind_assoc)
qed

section \<open>The whole program\<close>

text \<open>The start has succeeded, with a socket to listen on.\<close>

definition daemon_started ::
  "'w Daemon_Env \<Rightarrow> string list \<Rightarrow> 'w Daemon \<Rightarrow> 'w CK_FUNCTION_LIST \<Rightarrow> 'w Daemon \<Rightarrow> bool" where
  "daemon_started DE argv D M D' \<longleftrightarrow>
     (length argv = 2 \<or> length argv = 3) \<and>
     (\<exists>D1 D2 D3 fd.
        load_module DE (argv ! 1) D = Ret (Inr (M, D1)) \<and>
        start_tls_psk DE (daemon_path DE argv) D1 = Ret (Inr ((), D2)) \<and>
        start_socket DE (daemon_path DE argv) M D2 = Ret (Inr ((fd, MODE_SOCKET), D3)) \<and>
        start_filter DE fd (daemon_path DE argv) D3 = Ret (Inr ((), D')))"

lemma load_module_layer: "load_module DE name D = Ret (Inr (M, D')) \<Longrightarrow> daemon_layer D' = daemon_layer D"
  by (auto simp: load_module_def Let_def split: option.splits prod.splits if_splits)

lemma start_tls_psk_layer: "start_tls_psk DE path D = Ret (Inr ((), D')) \<Longrightarrow> daemon_layer D' = daemon_layer D"
  by (auto simp: start_tls_psk_def Let_def split: option.splits prod.splits if_splits)

lemma start_filter_layer: "start_filter DE fd path D = Ret (Inr ((), D')) \<Longrightarrow> daemon_layer D' = daemon_layer D"
  by (auto simp: start_filter_def split: prod.splits if_splits)

lemma start_socket_serves:
  assumes "start_socket DE path M D = Ret (Inr ((fd, MODE_SOCKET), D'))" "\<not> dispatchers_mutex (daemon_layer D)"
  shows "can_serve (daemon_layer D') \<and> layer_module (daemon_layer D') = Some M"
  using assms
  by (auto simp: start_socket_def gck_rpc_layer_initialize_def obind_eq_Ret assert_c_def Let_def
      can_serve_def reapable_def split: if_splits prod.splits)

lemma daemon_started_serves:
  assumes "daemon_started DE argv D M D'" "\<not> dispatchers_mutex (daemon_layer D)"
  shows "can_serve (daemon_layer D')" "layer_module (daemon_layer D') = Some M"
  using assms start_socket_serves load_module_layer start_tls_psk_layer start_filter_layer
  unfolding daemon_started_def by metis+

lemma daemon_main_started:
  "daemon_started DE argv D M D' \<Longrightarrow> daemon_main DE argv D = sbind (serve_sockets DE D') (\<lambda>_ D. daemon_end M D)"
  by (auto simp: daemon_started_def daemon_main_def)

lemma daemon_main_term:
  assumes start: "daemon_started DE argv D M D'" "\<not> dispatchers_mutex (daemon_layer D)"
    and turns: "de_turns DE = ts @ t # us" "list_all (\<lambda>t. turn_ok t \<and> \<not> turn_term t) ts"
    and t: "term_turn t" "\<not> de_term_ignored DE"
    and s: "turn_threads t (after_turns (daemon_tls D' \<noteq> None) ts (daemon_layer D', module_state D')) = (L, w)"
  shows "daemon_main DE argv D =
    obind (stop_dispatchers (de_starting DE) (de_shutdown DE) (dispatchers L)) (\<lambda>_.
    daemon_end M (D'\<lparr>module_state := w,
      daemon_layer := L\<lparr>pkcs11_socket := - 1, pkcs11_socket_path := [], layer_module := None\<rparr>,
      daemon_unlinked := socket_file (pkcs11_socket_path (daemon_layer D'))\<rparr>))"
  using serve_sockets_term [OF turns(2) daemon_started_serves(1) [OF start] _ t turns(1) s]
    daemon_started_serves(2) [OF start]
  by (simp add: daemon_main_started [OF start(1)] obind_assoc)

text \<open>Failures while the program starts.\<close>

lemma daemon_main_usage: "length argv \<noteq> 2 \<Longrightarrow> length argv \<noteq> 3 \<Longrightarrow> daemon_main DE argv D = Ret (2, D)"
  by (simp add: daemon_main_def)

end
