(* ===== verification/Program_Samples.thy ===== *)
theory Program_Samples
  imports Samples Remote_Session Client_Pool Client_Arguments Key_File Daemon_Main
begin

text \<open>
  Concrete instances for the client module and the program of the daemon: a client with an idle
  connection, an operating system for it, a key file, and a daemon that is told to end.
\<close>

section \<open>The client\<close>

definition sample_connect :: Connect where
  "sample_connect =
     \<lparr>co_calloc = True, co_strdup = True, co_addrs = (\<lambda>host port. None), co_socket = 7, co_cloexec = True,
      co_connect = True, co_tls_calloc = True, co_tls_init = (\<lambda>_. True), co_net = sample_net []\<rparr>"

definition sample_client_env :: Client_Env where
  "sample_client_env =
     \<lparr>ce_realloc = sample_heap, ce_attempts = (\<lambda>_. sample_connect), ce_val = 0, ce_validity = 0\<rparr>"

definition sample_empty_message :: GckRpcMessage where
  "sample_empty_message =
     \<lparr>call_id = 0, call_type = None, signature = None, buffer = empty_buffer 64, parsed = 0, sigverify = None\<rparr>"

definition sample_idle_call :: "RecvResult list \<Rightarrow> ClientCall" where
  "sample_idle_call ev =
     \<lparr>cl_socket = 7, cl_req = Some sample_empty_message, cl_resp = Some sample_empty_message,
      call_status = CALL_READY, cl_tls = False, cl_net = sample_net ev\<rparr>"

definition sample_client :: "RecvResult list \<Rightarrow> Client" where
  "sample_client ev =
     client_start\<lparr>pkcs11_initialized := True, client_socket_path := ''tcp://127.0.0.1:2345'',
       call_state_pool := [sample_idle_call ev], n_call_state_pool := 1\<rparr>"

lemma sample_empty_message_live: "live_msg sample_empty_message"
  using empty_buffer_facts(1) [of 64]
  by (simp add: live_msg_def sample_empty_message_def empty_buffer_def)

lemma sample_idle_pooled: "pooled (sample_idle_call ev)"
  by (simp add: pooled_def open_call_def messages_live_def sample_idle_call_def sample_empty_message_live)

lemma sample_client_ready: "client_ready (sample_client ev) (sample_idle_call ev)"
  by (simp add: client_ready_def sample_client_def sample_idle_pooled)

lemma sample_connects: "connects_ok sample_client_env" "egg_allocator (alloc_run (ce_realloc sample_client_env))"
  by (simp_all add: connects_ok_def sample_client_env_def sample_connect_def c_heap.egg_allocator_axioms)

text \<open>Memory is available to the client and to the daemon.\<close>

lemma sample_call_roomy: "call_roomy sample_client_env (sample_idle_call ev)"
  using sample_heap_ample
  by (simp add: call_roomy_def sample_idle_call_def sample_empty_message_def roomy_def empty_buffer_def
      sample_client_env_def call_allocator_def ample_def)

lemma sample_daemon_roomy:
  assumes "0 < i" "i < GCK_RPC_CALL_MAX"
  shows "daemon_roomy (sample_dispatcher i [])"
proof -
  have "0 < (of_nat (length (encode_header i (call_signature i t))) :: size_t)" for t
  proof -
    have "encode_header i (call_signature i t) \<noteq> []" by (rule length_encode_header_pos)
    then show ?thesis
      using header_length [OF assms, of t] by (simp add: word_less_nat_alt unat_of_nat_small)
  qed
  then show ?thesis
    using sample_heap_ample
    by (simp add: daemon_roomy_def response_roomy_def roomy_def sample_request_def sample_response_def Let_def)
qed

text \<open>A request of \<open>C_GetSlotList\<close>'s kind without arguments, ready to be sent.\<close>

definition sample_asking :: "RecvResult list \<Rightarrow> ClientCall" where
  "sample_asking ev =
     (sample_idle_call ev)\<lparr>call_status := CALL_PREP,
       cl_req := Some ((sample_request GCK_RPC_CALL_C_Finalize [])\<lparr>sigverify := Some []\<rparr>)\<rparr>"

section \<open>The program of the daemon\<close>

definition sample_turn :: "bool \<Rightarrow> SelectResult \<Rightarrow> CK_ULONG Turn" where
  "sample_turn stop r = \<lparr>turn_threads = (\<lambda>s. s), turn_term = stop, turn_select = r\<rparr>"

definition sample_seccomp :: Seccomp where
  "sample_seccomp =
     \<lparr>sc_built = True, sc_debug = False, sc_init = True, sc_add = (\<lambda>_. True), sc_reporter = 0, sc_load = 0\<rparr>"

definition sample_openssl :: OpenSSL where
  "sample_openssl =
     \<lparr>os_ctx_new = True, os_min_version = True, os_max_version = True, os_ssl_new = True, os_bio_new = True,
      os_connect = (\<lambda>_. 1), os_accept = (\<lambda>_. 1), os_write = (\<lambda>s xs. int (length xs)), os_read = (\<lambda>s n. (0, []))\<rparr>"

definition sample_daemon_env :: "CK_ULONG Turn list \<Rightarrow> CK_ULONG Daemon_Env" where
  "sample_daemon_env ts =
     \<lparr>de_library = (\<lambda>_. Some (Some (\<lambda>w. (CKR_OK, Some sample_module, w)))), de_getenv = (\<lambda>_. None), de_calloc = True,
      de_openssl = sample_openssl, de_listen = sample_system, de_term_ignored = False, de_seccomp = sample_seccomp,
      de_turns = ts, de_starting = Ret, de_shutdown = (\<lambda>_. True), de_dispatch = sample_env,
      de_stdin = sample_net [], de_buf4 = [0, 0, 0, 0]\<rparr>"

definition sample_start :: "CK_ULONG Daemon" where
  "sample_start =
     \<lparr>daemon_layer = \<lparr>layer_module = None, pkcs11_socket = - 1, pkcs11_socket_path = [], dispatchers = [],
        dispatchers_mutex = False\<rparr>,
      module_state = 40, daemon_tls = None, tls_globals = \<lparr>psk_identity = [], psk_key_filename = []\<rparr>, daemon_filters = [],
      daemon_unlinked = None\<rparr>"

definition sample_argv :: "string list" where
  "sample_argv = [''pkcs11-daemon'', ''libsofthsm.so'', ''/run/p11'']"

definition sample_running :: "CK_ULONG Daemon" where
  "sample_running =
     sample_start\<lparr>daemon_layer := \<lparr>layer_module = Some sample_module, pkcs11_socket = 6,
         pkcs11_socket_path = ''/run/p11/socket.pkcs11'', dispatchers = [], dispatchers_mutex = False\<rparr>,
       module_state := 42, daemon_filters := [daemon_rules False 6 ''/run/p11'']\<rparr>"

lemma sample_daemon_started:
  "daemon_started (sample_daemon_env ts) sample_argv sample_start sample_module sample_running"
  unfolding daemon_started_def
  by (simp add: sample_argv_def load_module_def sample_daemon_env_def sample_start_def daemon_path_def start_tls_psk_def
      start_socket_def gck_rpc_layer_initialize_def sample_system_def snprintf_def start_filter_def
      install_syscall_filter_def sample_seccomp_def sample_running_def Let_def)

lemma sample_turn_ok: "turn_ok (sample_turn stop Interrupted)" "turn_ok (sample_turn stop NotReady)"
  "fd \<ge> 0 \<Longrightarrow> turn_ok (sample_turn stop (Ready fd True True))"
  by (simp_all add: turn_ok_def sample_turn_def)

text \<open>A turn in which \<open>SIGTERM\<close> arrives after all threads have ended.\<close>

definition sample_last_turn :: "CK_ULONG Turn" where
  "sample_last_turn =
     \<lparr>turn_threads = (\<lambda>(L, w).
        (L\<lparr>dispatchers := map (\<lambda>d. \<lparr>ds_thread = Ended, ds_cs = (ds_cs d)\<lparr>sock := - 1\<rparr>\<rparr>) (dispatchers L)\<rparr>, w + 1)),
      turn_term = True, turn_select = Interrupted\<rparr>"

lemma sample_last_turn: "term_turn sample_last_turn"
  by (simp add: term_turn_def turn_ok_def sample_last_turn_def reapable_def main_fields_def list_all_iff)

section \<open>Sending\<close>

lemma accepts_replicate:
  "length ns \<le> k \<Longrightarrow> list_all (\<lambda>n. n \<le> m) ns \<Longrightarrow> accepts (replicate k (SendBytes m)) ns"
proof (induction ns arbitrary: k)
  case (Cons n ns)
  then obtain l where k: "k = Suc l" by (cases k) auto
  show ?case
  proof (cases n)
    case 0
    have "length ns \<le> k" using Cons.prems(1) by simp
    then show ?thesis using Cons.IH [of k] Cons.prems(2) 0 by simp
  next
    case (Suc i)
    then show ?thesis using Cons.IH [of l] Cons.prems k by simp
  qed
qed simp

lemma sample_accepts: "length ns \<le> 8 \<Longrightarrow> list_all (\<lambda>n. n \<le> 65536) ns \<Longrightarrow> accepts (sends (sample_net ev)) ns"
  by (simp add: sample_net_def accepts_replicate)

lemma sample_asking: "asking GCK_RPC_CALL_C_Finalize [] [] (sample_asking ev)"
proof -
  have "length (encode_header GCK_RPC_CALL_C_Finalize (call_signature GCK_RPC_CALL_C_Finalize GCK_RPC_REQUEST)) < 2 ^ 63"
    using header_length [of GCK_RPC_CALL_C_Finalize GCK_RPC_REQUEST] by simp
  note b = sample_buffer_facts [OF this]
  obtain sig where "call_signature GCK_RPC_CALL_C_Finalize GCK_RPC_REQUEST = Some sig"
    using call_signature_some [of GCK_RPC_CALL_C_Finalize GCK_RPC_REQUEST] by auto
  then show ?thesis
    using b
    by (simp add: asking_def sample_asking_def sample_idle_call_def sample_request_def open_call_def messages_live_def
        live_msg_def sample_empty_message_live [unfolded live_msg_def] request_bytes_def Let_def)
qed

section \<open>A dialogue\<close>

text \<open>The application logs in, starts a signature, and signs two bytes.\<close>

definition sample_sign :: AppCall where
  "sample_sign = DataCall GCK_RPC_CALL_C_Sign 9 (Some [1, 2]) 2 (Some [0, 0, 0, 0]) 4"

definition sample_calls :: "AppCall list" where
  "sample_calls =
     [LoginCall 9 0 (Some [49, 50, 51, 52]) 4, InitCall GCK_RPC_CALL_C_SignInit 9 sample_mechanism 77, sample_sign]"

definition sample_signature :: app_result where
  "sample_signature = (CKR_OK, Some [0xff, 0xff, 0xff, 0xff], Some 4)"

definition sample_results :: "app_result list" where
  "sample_results = [(CKR_OK, None, None), (CKR_OK, None, None), sample_signature]"

lemma sample_mechanism_sent:
  "sent_mechanism sample_mechanism = sample_mechanism" "mechanism_valid sample_mechanism"
  "gck_rpc_mechanism_is_supported (mechanism sample_mechanism)"
  by (simp_all add: sent_mechanism_def sample_mechanism_def gck_rpc_mechanism_is_supported_def mechanism_valid_def
      gck_rpc_mechanism_has_no_parameters_def gck_rpc_mechanism_has_sane_parameters_def)

lemma sample_sign_valid: "app_valid sample_sign"
  by (simp add: sample_sign_def client_data_calls_def byte_array_arg_valid_def room_ok_def)

lemma sample_sign_run: "module_run sample_module sample_sign w = Some (sample_signature, w + 1)"
  by (simp add: sample_sign_def sample_signature_def provided_def data_calls_def bytes_given_def)
    (simp add: numeral_eq_Suc)

lemma sample_module_runs: "module_runs sample_module sample_calls 40 = Some (sample_results, 42)"
  by (simp add: sample_calls_def sample_results_def sample_sign_run provided_def init_calls_def plain_result_def)

lemma sample_seen:
  "app_seen sample_sign sample_signature = sample_signature"
  "map2 app_seen sample_calls sample_results = sample_results"
  by (simp_all add: sample_calls_def sample_results_def sample_sign_def sample_signature_def app_seen_def seen_rv_def
      seen_bytes_def)

lemma sample_arguments_short:
  "length (app_arguments sample_sign) < 256"
  "length (app_arguments (InitCall GCK_RPC_CALL_C_SignInit 9 sample_mechanism 77)) < 256"
  "length (app_arguments (SessionCall GCK_RPC_CALL_C_Logout 9)) < 256"
  "length (app_arguments (LoginCall 9 0 (Some [49, 50, 51, 52]) 4)) < 256"
  by (simp_all add: sample_sign_def sample_mechanism_sent)
    (simp_all add: encode_uint64_def encode_byte_array_arg_def encode_byte_array_field_def encode_byte_array_def
      encode_byte_buffer_arg_def encode_byte_buffer_field_def encode_mechanism_def sample_mechanism_def)

lemma sample_requests_short:
  "length (app_request sample_sign) < 1024"
  "length (app_request (InitCall GCK_RPC_CALL_C_SignInit 9 sample_mechanism 77)) < 1024"
  "length (app_request (SessionCall GCK_RPC_CALL_C_Logout 9)) < 1024"
  "length (app_request (LoginCall 9 0 (Some [49, 50, 51, 52]) 4)) < 1024"
  using sample_arguments_short header_length [of 46 GCK_RPC_REQUEST] header_length [of 45 GCK_RPC_REQUEST]
    header_length [of 22 GCK_RPC_REQUEST] header_length [of 21 GCK_RPC_REQUEST]
  by (simp_all add: app_request_def request_bytes_def del: app_arguments.simps) (simp add: sample_sign_def)

lemma sample_replies_short:
  "length (app_reply sample_sign sample_signature) < 1024"
  "length (app_reply (InitCall GCK_RPC_CALL_C_SignInit 9 sample_mechanism 77) (CKR_OK, None, None)) < 1024"
  "length (app_reply (SessionCall GCK_RPC_CALL_C_Logout 9) (CKR_DEVICE_REMOVED, None, None)) < 1024"
  "length (app_reply (LoginCall 9 0 (Some [49, 50, 51, 52]) 4) (CKR_OK, None, None)) < 1024"
  using header_length [of 46 GCK_RPC_RESPONSE] header_length [of 45 GCK_RPC_RESPONSE]
    header_length [of 21 GCK_RPC_RESPONSE]
  by (simp_all add: app_reply_def reply_bytes_def bytes_result_def no_results_def sample_sign_def sample_signature_def
      error_message_def)
    (simp_all add: encode_byte_array_def encode_byte_array_field_def encode_uint64_def encode_header_def)

lemmas sample_lengths = sample_requests_short sample_replies_short

lemma sample_carried: "list_all2 call_carried sample_calls sample_results"
  using sample_lengths sample_seen(1) sample_sign_valid sample_mechanism_sent
  by (simp add: sample_calls_def sample_results_def call_carried_def short_result_def sample_signature_def
      app_seen_def seen_rv_def client_init_calls_def byte_array_arg_valid_def)

text \<open>A client that has to connect first, and both ends of the connection.\<close>

definition sample_network :: "RecvResult list \<Rightarrow> Client_Env" where
  "sample_network ev = sample_client_env\<lparr>ce_attempts := \<lambda>_. sample_connect\<lparr>co_net := sample_net ev\<rparr>\<rparr>"

definition sample_unconnected :: Client where
  "sample_unconnected = client_start\<lparr>pkcs11_initialized := True, client_socket_path := ''/run/p11''\<rparr>"

lemma sample_client_unconnected:
  "client_unconnected (sample_network ev) (sample_connect\<lparr>co_net := sample_net ev\<rparr>) sample_unconnected"
  by (simp add: client_unconnected_def sample_network_def sample_unconnected_def client_start_def sample_connect_def
      open_socket_def)

lemma sample_network_memory:
  "egg_allocator (alloc_run (ce_realloc (sample_network ev)))" "ample (call_allocator (sample_network ev))"
  using sample_connects(2) sample_call_roomy [of "[]"]
  by (simp_all add: sample_network_def call_roomy_def call_allocator_def)

definition sample_requests :: block where
  "sample_requests = appid_bytes (pkcs11_app_id sample_unconnected) @ concat (map frame (map app_request sample_calls))"

definition sample_replies :: block where
  "sample_replies = concat (map frame (map2 app_reply sample_calls sample_results))"

lemma sample_joined:
  "joined sample_unconnected (sample_connect\<lparr>co_net := sample_net [RecvData sample_replies]\<rparr>)
     (sample_net [RecvData sample_requests]) sample_calls sample_results"
proof -
  have "sample_requests \<noteq> []" "sample_replies \<noteq> []"
    by (simp_all add: sample_requests_def sample_replies_def appid_bytes_nonempty sample_calls_def sample_results_def
        frame_def egg_buffer_encode_uint32_def)
  then have "incoming (input (sample_net [RecvData sample_requests])) = sample_requests"
    "incoming (input (sample_net [RecvData sample_replies])) = sample_replies"
    by (simp_all add: sample_net_def)
  then show ?thesis
    unfolding joined_def
    using sample_lengths
    by (simp add: sample_requests_def sample_replies_def del: accepts.simps)
      (simp add: sample_calls_def sample_results_def sample_accepts del: accepts.simps)
qed

lemma sample_ready: "0 < i \<Longrightarrow> i < GCK_RPC_CALL_MAX \<Longrightarrow> daemon_ready sample_conn (sample_dispatcher i []) [0, 0, 0, 0]"
  using sample_serving [of "[0, 0, 0, 0]" i] sample_daemon_roomy [of i] by (simp add: daemon_ready_def)

lemma sample_carries:
  "length q < 1024 \<Longrightarrow> length rep < 1024 \<Longrightarrow> carries (sample_net [RecvData (frame q)]) q [] rep []"
  by (simp add: carries_def sample_accepts del: accepts.simps) (simp add: sample_net_def frame_def egg_buffer_encode_uint32_def)

lemma sample_answered:
  "incoming (input (cl_net (sample_idle_call [RecvData (frame rep)]))) = frame rep @ []"
  "length q < 1024 \<Longrightarrow> accepts (sends (cl_net (sample_idle_call ev))) [4, length q]"
  by (simp_all add: sample_idle_call_def sample_accepts del: accepts.simps)
    (simp add: sample_net_def frame_def egg_buffer_encode_uint32_def)

end
