(* ===== verification/Syscall_Reporter.thy ===== *)
theory Syscall_Reporter
  imports C_Strings
begin

text \<open>
  \<^verbatim>\<open>syscall-reporter.c\<close>: the handler that prints the name of a system call which a filter has
  stopped. The table of names comes from a header that the build generates, so it is a parameter.
\<close>

section \<open>Numbers\<close>

fun uint_width :: "nat \<Rightarrow> nat" where
  "uint_width tens = (if tens = 0 then 0 else Suc (uint_width (tens div 10)))"

declare uint_width.simps [simp del]

text \<open>\<open>buf\<close> is the place of the array \<open>d\<close> that the pointer is at; the character is \<open>'0' + tens % 10\<close>.\<close>

fun write_digits :: "char list \<Rightarrow> nat \<Rightarrow> nat \<Rightarrow> nat \<Rightarrow> char list outcome" where
  "write_digits d buf width tens =
     (if tens = 0 then Ret d
      else
        obind (put_char d (buf + width - 1) (char_of (48 + tens mod 10))) (\<lambda>d.
        write_digits d buf (width - 1) (tens div 10)))"

declare write_digits.simps [simp del]

definition write_uint :: "char list \<Rightarrow> nat \<Rightarrow> u32 \<Rightarrow> char list outcome" where
  "write_uint d buf val =
     (if val = 0 then put_string d buf ''0''
      else
        (let width = uint_width (unat val) in
         obind (put_char d (buf + width) NUL) (\<lambda>d.
         write_digits d buf width (unat val))))"

section \<open>The handler\<close>

definition msg_needed :: string where
  "msg_needed = ''Looks like you also need syscall: ''"

text \<open>
  \<open>names\<close> is the table, with \<open>None\<close> for a null pointer; \<open>sizeof\<close> of it is in bytes. The array
  \<open>buf\<close> has 128 characters. The result is what is printed before the process exits, or \<open>None\<close>
  when the handler returns.
\<close>

definition syscall_name :: "string option list \<Rightarrow> nat \<Rightarrow> string outcome" where
  "syscall_name names nr =
     (if nr < length names then (case names ! nr of None \<Rightarrow> Fault | Some s \<Rightarrow> Ret s) else Fault)"

definition reporter ::
  "string option list \<Rightarrow> bool \<Rightarrow> u32 option \<Rightarrow> char list \<Rightarrow> string option outcome" where
  "reporter names si_seccomp ctx buf =
     (if \<not> si_seccomp then Ret None
      else case ctx of
        None \<Rightarrow> Ret None
      | Some syscall \<Rightarrow>
          (let known = (unat syscall < 8 * length names) in
           obind (put_string buf 0 msg_needed) (\<lambda>buf.
           obind (if known then
                    obind (syscall_name names (unat syscall)) (\<lambda>s.
                    obind (strcat buf s) (\<lambda>buf. strcat buf ''(''))
                  else Ret buf) (\<lambda>buf.
           obind (string_at buf 0) (\<lambda>s.
           obind (write_uint buf (length s) syscall) (\<lambda>buf.
           obind (if known then strcat buf '')'' else Ret buf) (\<lambda>buf.
           obind (strcat buf [CHR 0x0A]) (\<lambda>buf.
           obind (string_at buf 0) (\<lambda>s. Ret (Some s))))))))))"

definition install_syscall_reporter :: "bool \<Rightarrow> int \<Rightarrow> int \<Rightarrow> int" where
  "install_syscall_reporter built sigaction_result sigprocmask_result =
     (if built then
        (if sigaction_result < 0 then - 1
         else if sigprocmask_result \<noteq> 0 then - 1
         else 0)
      else 0)"

section \<open>Decimal numbers\<close>

fun decimal :: "nat \<Rightarrow> string" where
  "decimal n = (if n < 10 then [char_of (48 + n)] else decimal (n div 10) @ [char_of (48 + n mod 10)])"

declare decimal.simps [simp del]

lemma uint_width_decimal: "n > 0 \<Longrightarrow> uint_width n = length (decimal n)"
proof (induction n rule: decimal.induct)
  case (1 n)
  then show ?case
    by (subst decimal.simps, subst uint_width.simps) (auto simp: uint_width.simps [of 0] div_greater_zero_iff)
qed

lemma write_digits_decimal:
  assumes "length ys = length (decimal n)" "n > 0"
  shows "write_digits (p @ ys @ zs) (length p) (length ys) n = Ret (p @ decimal n @ zs)"
  using assms
proof (induction n arbitrary: ys zs rule: decimal.induct)
  case (1 n)
  obtain xs x where r: "ys = xs @ [x]"
    using 1(2) by (cases ys rule: rev_cases) (auto simp: decimal.simps [of n] split: if_splits)
  show ?case
  proof (cases "n < 10")
    case True
    then have "xs = []" using 1(2) by (simp add: r decimal.simps [of n])
    then show ?thesis
      using True 1(3)
      by (subst write_digits.simps) (simp add: r put_char_def write_digits.simps [of _ _ _ 0] decimal.simps [of n])
  next
    case False
    then have "length xs = length (decimal (n div 10))" using 1(2) by (simp add: r decimal.simps [of n])
    then show ?thesis
      using False 1(1) [OF False, of xs] 1(3)
      by (subst write_digits.simps) (auto simp: r put_char_def decimal.simps [of n] list_update_append div_greater_zero_iff)
  qed
qed

lemma write_uint_decimal:
  assumes "length xs = length (decimal (unat val))"
  shows "write_uint (p @ xs @ z # zs) (length p) val = Ret (p @ decimal (unat val) @ NUL # zs)"
proof (cases "val = 0")
  case True
  then obtain x where "xs = [x]" using assms by (auto simp: decimal.simps [of 0] length_Suc_conv)
  then show ?thesis using True by (simp add: write_uint_def put_string_def decimal.simps [of 0] char_of_def bit_Suc_0_iff)
next
  case False
  then have n: "unat val > 0" by (simp add: unat_gt_0)
  then have "uint_width (unat val) = length xs" using assms uint_width_decimal by simp
  then show ?thesis
    using False write_digits_decimal [OF assms n, of p "NUL # zs"]
    by (simp add: write_uint_def Let_def put_char_def list_update_append)
qed

lemma write_uint_at:
  assumes "length (decimal (unat val)) \<le> length zs"
  shows "write_uint (p @ NUL # zs) (length p) val =
    Ret (p @ decimal (unat val) @ NUL # drop (length (decimal (unat val))) zs)"
proof -
  let ?n = "length (decimal (unat val))" and ?zs = "NUL # zs"
  have "?zs = take ?n ?zs @ ?zs ! ?n # drop (Suc ?n) ?zs"
    using assms by (intro id_take_nth_drop) simp
  then show ?thesis
    using write_uint_decimal [of "take ?n ?zs" val p "?zs ! ?n" "drop ?n zs"] assms by simp
qed

lemma length_decimal: "n < 10 ^ Suc k \<Longrightarrow> length (decimal n) \<le> Suc k"
proof (induction k arbitrary: n)
  case (Suc k)
  have "n div 10 < 10 ^ Suc k" using Suc(2) by (simp add: less_mult_imp_div_less)
  from Suc(1) [OF this] show ?case by (subst decimal.simps) auto
qed (simp add: decimal.simps)

lemma length_decimal_u32: "length (decimal (unat (val::u32))) \<le> 10"
proof -
  have "unat val < 10 ^ Suc 9" using unsigned_less [of val, where ?'a=nat] by simp
  from length_decimal [OF this] show ?thesis by simp
qed

lemma NUL_decimal: "NUL \<notin> set (decimal n)"
proof (induction n rule: decimal.induct)
  case (1 n)
  have d: "NUL \<noteq> char_of (48 + m)" if "m < 10" for m :: nat
  proof
    assume "NUL = char_of (48 + m)"
    from arg_cong [OF this, of "of_char :: char \<Rightarrow> nat"] show False using that by simp
  qed
  show ?case using 1 d [of n] d [of "n mod 10"] by (subst decimal.simps) simp
qed

lemma length_msg_needed: "length msg_needed = 34"
  by (simp add: msg_needed_def)

lemma reporter_known:
  assumes "unat nr < length names" "names ! unat nr = Some name" "NUL \<notin> set name"
    and "length name \<le> 80" "length buf = 128"
  shows "reporter names True (Some nr) buf =
    Ret (Some (msg_needed @ name @ ''('' @ decimal (unat nr) @ '')'' @ [CHR 0x0A]))"
proof -
  let ?d = "decimal (unat nr)"
  define zs where "zs = drop 35 buf"
  have b: "put_string buf 0 msg_needed = Ret (msg_needed @ NUL # zs)" "length zs = 93"
    using assms(5) put_string_first [of msg_needed buf] by (simp_all add: zs_def length_msg_needed)
  have m: "NUL \<notin> set msg_needed" by (simp add: msg_needed_def)
  have n: "length ?d \<le> 10" "NUL \<notin> set ?d" by (rule length_decimal_u32 NUL_decimal)+
  have 1: "strcat (msg_needed @ NUL # zs) name = Ret (msg_needed @ name @ NUL # drop (length name) zs)"
    using m b(2) assms(4) by (simp add: strcat_first)
  have 2: "strcat (msg_needed @ name @ NUL # drop (length name) zs) ''('' =
      Ret ((msg_needed @ name @ ''('') @ NUL # drop (Suc (length name)) zs)"
    using strcat_first [of "msg_needed @ name" "''(''" "drop (length name) zs"] m assms(3,4) b(2) by simp
  let ?s = "msg_needed @ name @ ''(''" and ?z = "drop (Suc (length name)) zs"
  have s: "NUL \<notin> set ?s" using m assms(3) by simp
  have 3: "write_uint (?s @ NUL # ?z) (length ?s) nr = Ret (?s @ ?d @ NUL # drop (length ?d) ?z)"
    using n assms(4) b(2) by (intro write_uint_at) simp
  have 4: "strcat ((?s @ ?d) @ NUL # drop (length ?d) ?z) '')'' =
      Ret ((?s @ ?d) @ '')'' @ NUL # drop 1 (drop (length ?d) ?z))"
    using strcat_first [of "?s @ ?d" "'')''" "drop (length ?d) ?z"] s n assms(4) b(2) by simp
  have 5: "strcat ((?s @ ?d @ '')'') @ NUL # drop 1 (drop (length ?d) ?z)) [CHR 0x0A] =
      Ret ((?s @ ?d @ '')'' @ [CHR 0x0A]) @ NUL # drop 1 (drop 1 (drop (length ?d) ?z)))"
    using strcat_first [of "?s @ ?d @ '')''" "[CHR 0x0A]" "drop 1 (drop (length ?d) ?z)"] s n assms(4) b(2) by simp
  have 6: "string_at ((?s @ ?d @ '')'' @ [CHR 0x0A]) @ NUL # drop 1 (drop 1 (drop (length ?d) ?z))) 0 =
      Ret (?s @ ?d @ '')'' @ [CHR 0x0A])"
    using s n by (intro string_at_first) simp
  have 7: "string_at (?s @ NUL # ?z) 0 = Ret ?s" using s by (rule string_at_first)
  show ?thesis
    using assms(1,2) b(1) 1 2 3 4 5 6 7 by (simp add: reporter_def syscall_name_def)
qed

text \<open>The bound of the table is compared with its size in bytes.\<close>

lemma reporter_overrun:
  assumes "length names \<le> unat nr" "unat nr < 8 * length names" "length buf = 128"
  shows "reporter names True (Some nr) buf = Fault"
  using assms put_string_first [of msg_needed buf]
  by (simp add: reporter_def syscall_name_def length_msg_needed)

end
