(* ===== verification/Client_Functions.thy ===== *)
theory Client_Functions
  imports Client_Init
begin

text \<open>
  The entry point of the client module: \<open>C_GetFunctionList\<close> hands out the table \<open>functionList\<close>, through
  which an application calls the functions of \<^verbatim>\<open>Client_Calls\<close> and \<^verbatim>\<open>Client_Init\<close>.
\<close>

abbreviation (input) CRYPTOKI_VERSION_MAJOR :: byte where "CRYPTOKI_VERSION_MAJOR \<equiv> 2"
abbreviation (input) CRYPTOKI_VERSION_MINOR :: byte where "CRYPTOKI_VERSION_MINOR \<equiv> 20"

text \<open>
  The fields are in the order of \<open>struct ck_function_list\<close>, with the types that the functions have in
  this model. The field \<open>C_GetFunctionList\<close>, which would hold the function that returns the table
  itself, is left out.
\<close>

datatype (plugins only:) (dead 'c) Client_Function_List =
  Client_Function_List
   (fl_version: CK_VERSION)
   (fl_C_Initialize: "(Client_Env \<Rightarrow> Init_Env \<Rightarrow> CK_C_INITIALIZE_ARGS option \<Rightarrow> 'c \<Rightarrow> (CK_RV \<times> 'c) outcome) option")
   (fl_C_Finalize: "(Client_Env \<Rightarrow> bool \<Rightarrow> 'c \<Rightarrow> (CK_RV \<times> unit \<times> 'c) outcome) option")
   (fl_C_GetInfo: "(Client_Env \<Rightarrow> CK_INFO option \<Rightarrow> 'c \<Rightarrow> (CK_RV \<times> (CK_INFO option) \<times> 'c) outcome) option")
   (fl_C_GetSlotList: "(Client_Env \<Rightarrow> byte \<Rightarrow> ulong_array \<Rightarrow> CK_ULONG option \<Rightarrow> 'c \<Rightarrow> (CK_RV \<times> (ulong_array \<times> CK_ULONG option) \<times> 'c) outcome) option")
   (fl_C_GetSlotInfo: "(Client_Env \<Rightarrow> CK_ULONG \<Rightarrow> CK_SLOT_INFO option \<Rightarrow> 'c \<Rightarrow> (CK_RV \<times> (CK_SLOT_INFO option) \<times> 'c) outcome) option")
   (fl_C_GetTokenInfo: "(Client_Env \<Rightarrow> CK_ULONG \<Rightarrow> CK_TOKEN_INFO option \<Rightarrow> 'c \<Rightarrow> (CK_RV \<times> (CK_TOKEN_INFO option) \<times> 'c) outcome) option")
   (fl_C_GetMechanismList: "(Client_Env \<Rightarrow> CK_ULONG \<Rightarrow> ulong_array \<Rightarrow> CK_ULONG option \<Rightarrow> 'c \<Rightarrow> (CK_RV \<times> (ulong_array \<times> CK_ULONG option) \<times> 'c) outcome) option")
   (fl_C_GetMechanismInfo: "(Client_Env \<Rightarrow> CK_ULONG \<Rightarrow> CK_ULONG \<Rightarrow> CK_MECHANISM_INFO option \<Rightarrow> 'c \<Rightarrow> (CK_RV \<times> (CK_MECHANISM_INFO option) \<times> 'c) outcome) option")
   (fl_C_InitToken: "(Client_Env \<Rightarrow> CK_ULONG \<Rightarrow> block option \<Rightarrow> CK_ULONG \<Rightarrow> block option \<Rightarrow> 'c \<Rightarrow> (CK_RV \<times> unit \<times> 'c) outcome) option")
   (fl_C_InitPIN: "(Client_Env \<Rightarrow> CK_ULONG \<Rightarrow> block option \<Rightarrow> CK_ULONG \<Rightarrow> 'c \<Rightarrow> (CK_RV \<times> unit \<times> 'c) outcome) option")
   (fl_C_SetPIN: "(Client_Env \<Rightarrow> CK_ULONG \<Rightarrow> block option \<Rightarrow> CK_ULONG \<Rightarrow> block option \<Rightarrow> CK_ULONG \<Rightarrow> 'c \<Rightarrow> (CK_RV \<times> unit \<times> 'c) outcome) option")
   (fl_C_OpenSession: "(Client_Env \<Rightarrow> CK_ULONG \<Rightarrow> CK_ULONG \<Rightarrow> CK_ULONG option \<Rightarrow> 'c \<Rightarrow> (CK_RV \<times> CK_ULONG option \<times> 'c) outcome) option")
   (fl_C_CloseSession: "(Client_Env \<Rightarrow> CK_ULONG \<Rightarrow> 'c \<Rightarrow> (CK_RV \<times> unit \<times> 'c) outcome) option")
   (fl_C_CloseAllSessions: "(Client_Env \<Rightarrow> CK_ULONG \<Rightarrow> 'c \<Rightarrow> (CK_RV \<times> unit \<times> 'c) outcome) option")
   (fl_C_GetSessionInfo: "(Client_Env \<Rightarrow> CK_ULONG \<Rightarrow> CK_SESSION_INFO option \<Rightarrow> 'c \<Rightarrow> (CK_RV \<times> (CK_SESSION_INFO option) \<times> 'c) outcome) option")
   (fl_C_GetOperationState: "(Client_Env \<Rightarrow> CK_ULONG \<Rightarrow> block option \<Rightarrow> CK_ULONG option \<Rightarrow> 'c \<Rightarrow> (CK_RV \<times> (block option \<times> CK_ULONG option) \<times> 'c) outcome) option")
   (fl_C_SetOperationState: "(Client_Env \<Rightarrow> CK_ULONG \<Rightarrow> block option \<Rightarrow> CK_ULONG \<Rightarrow> CK_ULONG \<Rightarrow> CK_ULONG \<Rightarrow> 'c \<Rightarrow> (CK_RV \<times> unit \<times> 'c) outcome) option")
   (fl_C_Login: "(Client_Env \<Rightarrow> CK_ULONG \<Rightarrow> CK_ULONG \<Rightarrow> block option \<Rightarrow> CK_ULONG \<Rightarrow> 'c \<Rightarrow> (CK_RV \<times> unit \<times> 'c) outcome) option")
   (fl_C_Logout: "(Client_Env \<Rightarrow> CK_ULONG \<Rightarrow> 'c \<Rightarrow> (CK_RV \<times> unit \<times> 'c) outcome) option")
   (fl_C_CreateObject: "(Client_Env \<Rightarrow> CK_ULONG \<Rightarrow> attr_array \<Rightarrow> CK_ULONG \<Rightarrow> CK_ULONG option \<Rightarrow> 'c \<Rightarrow> (CK_RV \<times> CK_ULONG option \<times> 'c) outcome) option")
   (fl_C_CopyObject: "(Client_Env \<Rightarrow> CK_ULONG \<Rightarrow> CK_ULONG \<Rightarrow> attr_array \<Rightarrow> CK_ULONG \<Rightarrow> CK_ULONG option \<Rightarrow> 'c \<Rightarrow> (CK_RV \<times> CK_ULONG option \<times> 'c) outcome) option")
   (fl_C_DestroyObject: "(Client_Env \<Rightarrow> CK_ULONG \<Rightarrow> CK_ULONG \<Rightarrow> 'c \<Rightarrow> (CK_RV \<times> unit \<times> 'c) outcome) option")
   (fl_C_GetObjectSize: "(Client_Env \<Rightarrow> CK_ULONG \<Rightarrow> CK_ULONG \<Rightarrow> CK_ULONG option \<Rightarrow> 'c \<Rightarrow> (CK_RV \<times> CK_ULONG option \<times> 'c) outcome) option")
   (fl_C_GetAttributeValue: "(Client_Env \<Rightarrow> CK_ULONG \<Rightarrow> CK_ULONG \<Rightarrow> attr_array \<Rightarrow> CK_ULONG \<Rightarrow> 'c \<Rightarrow> (CK_RV \<times> (attr_array) \<times> 'c) outcome) option")
   (fl_C_SetAttributeValue: "(Client_Env \<Rightarrow> CK_ULONG \<Rightarrow> CK_ULONG \<Rightarrow> attr_array \<Rightarrow> CK_ULONG \<Rightarrow> 'c \<Rightarrow> (CK_RV \<times> unit \<times> 'c) outcome) option")
   (fl_C_FindObjectsInit: "(Client_Env \<Rightarrow> CK_ULONG \<Rightarrow> attr_array \<Rightarrow> CK_ULONG \<Rightarrow> 'c \<Rightarrow> (CK_RV \<times> unit \<times> 'c) outcome) option")
   (fl_C_FindObjects: "(Client_Env \<Rightarrow> CK_ULONG \<Rightarrow> ulong_array \<Rightarrow> CK_ULONG \<Rightarrow> CK_ULONG option \<Rightarrow> 'c \<Rightarrow> (CK_RV \<times> (ulong_array \<times> CK_ULONG option) \<times> 'c) outcome) option")
   (fl_C_FindObjectsFinal: "(Client_Env \<Rightarrow> CK_ULONG \<Rightarrow> 'c \<Rightarrow> (CK_RV \<times> unit \<times> 'c) outcome) option")
   (fl_C_EncryptInit: "(Client_Env \<Rightarrow> CK_ULONG \<Rightarrow> CK_MECHANISM option \<Rightarrow> CK_ULONG \<Rightarrow> 'c \<Rightarrow> (CK_RV \<times> unit \<times> 'c) outcome) option")
   (fl_C_Encrypt: "(Client_Env \<Rightarrow> CK_ULONG \<Rightarrow> block option \<Rightarrow> CK_ULONG \<Rightarrow> block option \<Rightarrow> CK_ULONG option \<Rightarrow> 'c \<Rightarrow> (CK_RV \<times> (block option \<times> CK_ULONG option) \<times> 'c) outcome) option")
   (fl_C_EncryptUpdate: "(Client_Env \<Rightarrow> CK_ULONG \<Rightarrow> block option \<Rightarrow> CK_ULONG \<Rightarrow> block option \<Rightarrow> CK_ULONG option \<Rightarrow> 'c \<Rightarrow> (CK_RV \<times> (block option \<times> CK_ULONG option) \<times> 'c) outcome) option")
   (fl_C_EncryptFinal: "(Client_Env \<Rightarrow> CK_ULONG \<Rightarrow> block option \<Rightarrow> CK_ULONG option \<Rightarrow> 'c \<Rightarrow> (CK_RV \<times> (block option \<times> CK_ULONG option) \<times> 'c) outcome) option")
   (fl_C_DecryptInit: "(Client_Env \<Rightarrow> CK_ULONG \<Rightarrow> CK_MECHANISM option \<Rightarrow> CK_ULONG \<Rightarrow> 'c \<Rightarrow> (CK_RV \<times> unit \<times> 'c) outcome) option")
   (fl_C_Decrypt: "(Client_Env \<Rightarrow> CK_ULONG \<Rightarrow> block option \<Rightarrow> CK_ULONG \<Rightarrow> block option \<Rightarrow> CK_ULONG option \<Rightarrow> 'c \<Rightarrow> (CK_RV \<times> (block option \<times> CK_ULONG option) \<times> 'c) outcome) option")
   (fl_C_DecryptUpdate: "(Client_Env \<Rightarrow> CK_ULONG \<Rightarrow> block option \<Rightarrow> CK_ULONG \<Rightarrow> block option \<Rightarrow> CK_ULONG option \<Rightarrow> 'c \<Rightarrow> (CK_RV \<times> (block option \<times> CK_ULONG option) \<times> 'c) outcome) option")
   (fl_C_DecryptFinal: "(Client_Env \<Rightarrow> CK_ULONG \<Rightarrow> block option \<Rightarrow> CK_ULONG option \<Rightarrow> 'c \<Rightarrow> (CK_RV \<times> (block option \<times> CK_ULONG option) \<times> 'c) outcome) option")
   (fl_C_DigestInit: "(Client_Env \<Rightarrow> CK_ULONG \<Rightarrow> CK_MECHANISM option \<Rightarrow> 'c \<Rightarrow> (CK_RV \<times> unit \<times> 'c) outcome) option")
   (fl_C_Digest: "(Client_Env \<Rightarrow> CK_ULONG \<Rightarrow> block option \<Rightarrow> CK_ULONG \<Rightarrow> block option \<Rightarrow> CK_ULONG option \<Rightarrow> 'c \<Rightarrow> (CK_RV \<times> (block option \<times> CK_ULONG option) \<times> 'c) outcome) option")
   (fl_C_DigestUpdate: "(Client_Env \<Rightarrow> CK_ULONG \<Rightarrow> block option \<Rightarrow> CK_ULONG \<Rightarrow> 'c \<Rightarrow> (CK_RV \<times> unit \<times> 'c) outcome) option")
   (fl_C_DigestKey: "(Client_Env \<Rightarrow> CK_ULONG \<Rightarrow> CK_ULONG \<Rightarrow> 'c \<Rightarrow> (CK_RV \<times> unit \<times> 'c) outcome) option")
   (fl_C_DigestFinal: "(Client_Env \<Rightarrow> CK_ULONG \<Rightarrow> block option \<Rightarrow> CK_ULONG option \<Rightarrow> 'c \<Rightarrow> (CK_RV \<times> (block option \<times> CK_ULONG option) \<times> 'c) outcome) option")
   (fl_C_SignInit: "(Client_Env \<Rightarrow> CK_ULONG \<Rightarrow> CK_MECHANISM option \<Rightarrow> CK_ULONG \<Rightarrow> 'c \<Rightarrow> (CK_RV \<times> unit \<times> 'c) outcome) option")
   (fl_C_Sign: "(Client_Env \<Rightarrow> CK_ULONG \<Rightarrow> block option \<Rightarrow> CK_ULONG \<Rightarrow> block option \<Rightarrow> CK_ULONG option \<Rightarrow> 'c \<Rightarrow> (CK_RV \<times> (block option \<times> CK_ULONG option) \<times> 'c) outcome) option")
   (fl_C_SignUpdate: "(Client_Env \<Rightarrow> CK_ULONG \<Rightarrow> block option \<Rightarrow> CK_ULONG \<Rightarrow> 'c \<Rightarrow> (CK_RV \<times> unit \<times> 'c) outcome) option")
   (fl_C_SignFinal: "(Client_Env \<Rightarrow> CK_ULONG \<Rightarrow> block option \<Rightarrow> CK_ULONG option \<Rightarrow> 'c \<Rightarrow> (CK_RV \<times> (block option \<times> CK_ULONG option) \<times> 'c) outcome) option")
   (fl_C_SignRecoverInit: "(Client_Env \<Rightarrow> CK_ULONG \<Rightarrow> CK_MECHANISM option \<Rightarrow> CK_ULONG \<Rightarrow> 'c \<Rightarrow> (CK_RV \<times> unit \<times> 'c) outcome) option")
   (fl_C_SignRecover: "(Client_Env \<Rightarrow> CK_ULONG \<Rightarrow> block option \<Rightarrow> CK_ULONG \<Rightarrow> block option \<Rightarrow> CK_ULONG option \<Rightarrow> 'c \<Rightarrow> (CK_RV \<times> (block option \<times> CK_ULONG option) \<times> 'c) outcome) option")
   (fl_C_VerifyInit: "(Client_Env \<Rightarrow> CK_ULONG \<Rightarrow> CK_MECHANISM option \<Rightarrow> CK_ULONG \<Rightarrow> 'c \<Rightarrow> (CK_RV \<times> unit \<times> 'c) outcome) option")
   (fl_C_Verify: "(Client_Env \<Rightarrow> CK_ULONG \<Rightarrow> block option \<Rightarrow> CK_ULONG \<Rightarrow> block option \<Rightarrow> CK_ULONG \<Rightarrow> 'c \<Rightarrow> (CK_RV \<times> unit \<times> 'c) outcome) option")
   (fl_C_VerifyUpdate: "(Client_Env \<Rightarrow> CK_ULONG \<Rightarrow> block option \<Rightarrow> CK_ULONG \<Rightarrow> 'c \<Rightarrow> (CK_RV \<times> unit \<times> 'c) outcome) option")
   (fl_C_VerifyFinal: "(Client_Env \<Rightarrow> CK_ULONG \<Rightarrow> block option \<Rightarrow> CK_ULONG \<Rightarrow> 'c \<Rightarrow> (CK_RV \<times> unit \<times> 'c) outcome) option")
   (fl_C_VerifyRecoverInit: "(Client_Env \<Rightarrow> CK_ULONG \<Rightarrow> CK_MECHANISM option \<Rightarrow> CK_ULONG \<Rightarrow> 'c \<Rightarrow> (CK_RV \<times> unit \<times> 'c) outcome) option")
   (fl_C_VerifyRecover: "(Client_Env \<Rightarrow> CK_ULONG \<Rightarrow> block option \<Rightarrow> CK_ULONG \<Rightarrow> block option \<Rightarrow> CK_ULONG option \<Rightarrow> 'c \<Rightarrow> (CK_RV \<times> (block option \<times> CK_ULONG option) \<times> 'c) outcome) option")
   (fl_C_DigestEncryptUpdate: "(Client_Env \<Rightarrow> CK_ULONG \<Rightarrow> block option \<Rightarrow> CK_ULONG \<Rightarrow> block option \<Rightarrow> CK_ULONG option \<Rightarrow> 'c \<Rightarrow> (CK_RV \<times> (block option \<times> CK_ULONG option) \<times> 'c) outcome) option")
   (fl_C_DecryptDigestUpdate: "(Client_Env \<Rightarrow> CK_ULONG \<Rightarrow> block option \<Rightarrow> CK_ULONG \<Rightarrow> block option \<Rightarrow> CK_ULONG option \<Rightarrow> 'c \<Rightarrow> (CK_RV \<times> (block option \<times> CK_ULONG option) \<times> 'c) outcome) option")
   (fl_C_SignEncryptUpdate: "(Client_Env \<Rightarrow> CK_ULONG \<Rightarrow> block option \<Rightarrow> CK_ULONG \<Rightarrow> block option \<Rightarrow> CK_ULONG option \<Rightarrow> 'c \<Rightarrow> (CK_RV \<times> (block option \<times> CK_ULONG option) \<times> 'c) outcome) option")
   (fl_C_DecryptVerifyUpdate: "(Client_Env \<Rightarrow> CK_ULONG \<Rightarrow> block option \<Rightarrow> CK_ULONG \<Rightarrow> block option \<Rightarrow> CK_ULONG option \<Rightarrow> 'c \<Rightarrow> (CK_RV \<times> (block option \<times> CK_ULONG option) \<times> 'c) outcome) option")
   (fl_C_GenerateKey: "(Client_Env \<Rightarrow> CK_ULONG \<Rightarrow> CK_MECHANISM option \<Rightarrow> attr_array \<Rightarrow> CK_ULONG \<Rightarrow> CK_ULONG option \<Rightarrow> 'c \<Rightarrow> (CK_RV \<times> CK_ULONG option \<times> 'c) outcome) option")
   (fl_C_GenerateKeyPair: "(Client_Env \<Rightarrow> CK_ULONG \<Rightarrow> CK_MECHANISM option \<Rightarrow> attr_array \<Rightarrow> CK_ULONG \<Rightarrow> attr_array \<Rightarrow> CK_ULONG \<Rightarrow> CK_ULONG option \<Rightarrow> CK_ULONG option \<Rightarrow> 'c \<Rightarrow> (CK_RV \<times> (CK_ULONG option \<times> CK_ULONG option) \<times> 'c) outcome) option")
   (fl_C_WrapKey: "(Client_Env \<Rightarrow> CK_ULONG \<Rightarrow> CK_MECHANISM option \<Rightarrow> CK_ULONG \<Rightarrow> CK_ULONG \<Rightarrow> block option \<Rightarrow> CK_ULONG option \<Rightarrow> 'c \<Rightarrow> (CK_RV \<times> (block option \<times> CK_ULONG option) \<times> 'c) outcome) option")
   (fl_C_UnwrapKey: "(Client_Env \<Rightarrow> CK_ULONG \<Rightarrow> CK_MECHANISM option \<Rightarrow> CK_ULONG \<Rightarrow> block option \<Rightarrow> CK_ULONG \<Rightarrow> attr_array \<Rightarrow> CK_ULONG \<Rightarrow> CK_ULONG option \<Rightarrow> 'c \<Rightarrow> (CK_RV \<times> CK_ULONG option \<times> 'c) outcome) option")
   (fl_C_DeriveKey: "(Client_Env \<Rightarrow> CK_ULONG \<Rightarrow> CK_MECHANISM option \<Rightarrow> CK_ULONG \<Rightarrow> attr_array \<Rightarrow> CK_ULONG \<Rightarrow> CK_ULONG option \<Rightarrow> 'c \<Rightarrow> (CK_RV \<times> CK_ULONG option \<times> 'c) outcome) option")
   (fl_C_SeedRandom: "(Client_Env \<Rightarrow> CK_ULONG \<Rightarrow> block option \<Rightarrow> CK_ULONG \<Rightarrow> 'c \<Rightarrow> (CK_RV \<times> unit \<times> 'c) outcome) option")
   (fl_C_GenerateRandom: "(Client_Env \<Rightarrow> CK_ULONG \<Rightarrow> block option \<Rightarrow> CK_ULONG \<Rightarrow> 'c \<Rightarrow> (CK_RV \<times> (block option) \<times> 'c) outcome) option")
   (fl_C_GetFunctionStatus: "(Client_Env \<Rightarrow> CK_ULONG \<Rightarrow> 'c \<Rightarrow> (CK_RV \<times> unit \<times> 'c) outcome) option")
   (fl_C_CancelFunction: "(Client_Env \<Rightarrow> CK_ULONG \<Rightarrow> 'c \<Rightarrow> (CK_RV \<times> unit \<times> 'c) outcome) option")
   (fl_C_WaitForSlotEvent: "(Client_Env \<Rightarrow> CK_ULONG \<Rightarrow> CK_ULONG option \<Rightarrow> 'c \<Rightarrow> (CK_RV \<times> CK_ULONG option \<times> 'c) outcome) option")

text \<open>The initialiser is positional, in the order in which the code lists the functions.\<close>

definition functionList :: "Client Client_Function_List" where
  "functionList =
     Client_Function_List \<lparr>major = CRYPTOKI_VERSION_MAJOR, minor = CRYPTOKI_VERSION_MINOR\<rparr>
       (Some cl_C_Initialize) (Some cl_C_Finalize) (Some cl_C_GetInfo) (Some cl_C_GetSlotList)
       (Some cl_C_GetSlotInfo) (Some cl_C_GetTokenInfo) (Some cl_C_GetMechanismList)
       (Some cl_C_GetMechanismInfo) (Some cl_C_InitToken) (Some cl_C_InitPIN) (Some cl_C_SetPIN)
       (Some cl_C_OpenSession) (Some cl_C_CloseSession) (Some cl_C_CloseAllSessions)
       (Some cl_C_GetSessionInfo) (Some cl_C_GetOperationState) (Some cl_C_SetOperationState)
       (Some cl_C_Login) (Some cl_C_Logout) (Some cl_C_CreateObject) (Some cl_C_CopyObject)
       (Some cl_C_DestroyObject) (Some cl_C_GetObjectSize) (Some cl_C_GetAttributeValue)
       (Some cl_C_SetAttributeValue) (Some cl_C_FindObjectsInit) (Some cl_C_FindObjects)
       (Some cl_C_FindObjectsFinal) (Some cl_C_EncryptInit) (Some cl_C_Encrypt) (Some cl_C_EncryptUpdate)
       (Some cl_C_EncryptFinal) (Some cl_C_DecryptInit) (Some cl_C_Decrypt) (Some cl_C_DecryptUpdate)
       (Some cl_C_DecryptFinal) (Some cl_C_DigestInit) (Some cl_C_Digest) (Some cl_C_DigestUpdate)
       (Some cl_C_DigestKey) (Some cl_C_DigestFinal) (Some cl_C_SignInit) (Some cl_C_Sign)
       (Some cl_C_SignUpdate) (Some cl_C_SignFinal) (Some cl_C_SignRecoverInit) (Some cl_C_SignRecover)
       (Some cl_C_VerifyInit) (Some cl_C_Verify) (Some cl_C_VerifyUpdate) (Some cl_C_VerifyFinal)
       (Some cl_C_VerifyRecoverInit) (Some cl_C_VerifyRecover) (Some cl_C_DigestEncryptUpdate)
       (Some cl_C_DecryptDigestUpdate) (Some cl_C_SignEncryptUpdate) (Some cl_C_DecryptVerifyUpdate)
       (Some cl_C_GenerateKey) (Some cl_C_GenerateKeyPair) (Some cl_C_WrapKey) (Some cl_C_UnwrapKey)
       (Some cl_C_DeriveKey) (Some cl_C_SeedRandom) (Some cl_C_GenerateRandom) (Some cl_C_GetFunctionStatus)
       (Some cl_C_CancelFunction) (Some cl_C_WaitForSlotEvent)"

text \<open>\<open>list\<close> says whether the caller passes a place for the pointer.\<close>

definition cl_C_GetFunctionList :: "bool \<Rightarrow> CK_RV \<times> Client Client_Function_List option" where
  "cl_C_GetFunctionList list = (if \<not> list then (CKR_ARGUMENTS_BAD, None) else (CKR_OK, Some functionList))"

text \<open>Every field of the table holds the function of its name.\<close>

lemma functionList_fields:
  "fl_C_Initialize functionList = Some cl_C_Initialize"
  "fl_C_Finalize functionList = Some cl_C_Finalize"
  "fl_C_GetInfo functionList = Some cl_C_GetInfo"
  "fl_C_GetSlotList functionList = Some cl_C_GetSlotList"
  "fl_C_GetSlotInfo functionList = Some cl_C_GetSlotInfo"
  "fl_C_GetTokenInfo functionList = Some cl_C_GetTokenInfo"
  "fl_C_GetMechanismList functionList = Some cl_C_GetMechanismList"
  "fl_C_GetMechanismInfo functionList = Some cl_C_GetMechanismInfo"
  "fl_C_InitToken functionList = Some cl_C_InitToken"
  "fl_C_InitPIN functionList = Some cl_C_InitPIN"
  "fl_C_SetPIN functionList = Some cl_C_SetPIN"
  "fl_C_OpenSession functionList = Some cl_C_OpenSession"
  "fl_C_CloseSession functionList = Some cl_C_CloseSession"
  "fl_C_CloseAllSessions functionList = Some cl_C_CloseAllSessions"
  "fl_C_GetSessionInfo functionList = Some cl_C_GetSessionInfo"
  "fl_C_GetOperationState functionList = Some cl_C_GetOperationState"
  "fl_C_SetOperationState functionList = Some cl_C_SetOperationState"
  "fl_C_Login functionList = Some cl_C_Login"
  "fl_C_Logout functionList = Some cl_C_Logout"
  "fl_C_CreateObject functionList = Some cl_C_CreateObject"
  "fl_C_CopyObject functionList = Some cl_C_CopyObject"
  "fl_C_DestroyObject functionList = Some cl_C_DestroyObject"
  "fl_C_GetObjectSize functionList = Some cl_C_GetObjectSize"
  "fl_C_GetAttributeValue functionList = Some cl_C_GetAttributeValue"
  "fl_C_SetAttributeValue functionList = Some cl_C_SetAttributeValue"
  "fl_C_FindObjectsInit functionList = Some cl_C_FindObjectsInit"
  "fl_C_FindObjects functionList = Some cl_C_FindObjects"
  "fl_C_FindObjectsFinal functionList = Some cl_C_FindObjectsFinal"
  "fl_C_EncryptInit functionList = Some cl_C_EncryptInit"
  "fl_C_Encrypt functionList = Some cl_C_Encrypt"
  "fl_C_EncryptUpdate functionList = Some cl_C_EncryptUpdate"
  "fl_C_EncryptFinal functionList = Some cl_C_EncryptFinal"
  "fl_C_DecryptInit functionList = Some cl_C_DecryptInit"
  "fl_C_Decrypt functionList = Some cl_C_Decrypt"
  "fl_C_DecryptUpdate functionList = Some cl_C_DecryptUpdate"
  "fl_C_DecryptFinal functionList = Some cl_C_DecryptFinal"
  "fl_C_DigestInit functionList = Some cl_C_DigestInit"
  "fl_C_Digest functionList = Some cl_C_Digest"
  "fl_C_DigestUpdate functionList = Some cl_C_DigestUpdate"
  "fl_C_DigestKey functionList = Some cl_C_DigestKey"
  "fl_C_DigestFinal functionList = Some cl_C_DigestFinal"
  "fl_C_SignInit functionList = Some cl_C_SignInit"
  "fl_C_Sign functionList = Some cl_C_Sign"
  "fl_C_SignUpdate functionList = Some cl_C_SignUpdate"
  "fl_C_SignFinal functionList = Some cl_C_SignFinal"
  "fl_C_SignRecoverInit functionList = Some cl_C_SignRecoverInit"
  "fl_C_SignRecover functionList = Some cl_C_SignRecover"
  "fl_C_VerifyInit functionList = Some cl_C_VerifyInit"
  "fl_C_Verify functionList = Some cl_C_Verify"
  "fl_C_VerifyUpdate functionList = Some cl_C_VerifyUpdate"
  "fl_C_VerifyFinal functionList = Some cl_C_VerifyFinal"
  "fl_C_VerifyRecoverInit functionList = Some cl_C_VerifyRecoverInit"
  "fl_C_VerifyRecover functionList = Some cl_C_VerifyRecover"
  "fl_C_DigestEncryptUpdate functionList = Some cl_C_DigestEncryptUpdate"
  "fl_C_DecryptDigestUpdate functionList = Some cl_C_DecryptDigestUpdate"
  "fl_C_SignEncryptUpdate functionList = Some cl_C_SignEncryptUpdate"
  "fl_C_DecryptVerifyUpdate functionList = Some cl_C_DecryptVerifyUpdate"
  "fl_C_GenerateKey functionList = Some cl_C_GenerateKey"
  "fl_C_GenerateKeyPair functionList = Some cl_C_GenerateKeyPair"
  "fl_C_WrapKey functionList = Some cl_C_WrapKey"
  "fl_C_UnwrapKey functionList = Some cl_C_UnwrapKey"
  "fl_C_DeriveKey functionList = Some cl_C_DeriveKey"
  "fl_C_SeedRandom functionList = Some cl_C_SeedRandom"
  "fl_C_GenerateRandom functionList = Some cl_C_GenerateRandom"
  "fl_C_GetFunctionStatus functionList = Some cl_C_GetFunctionStatus"
  "fl_C_CancelFunction functionList = Some cl_C_CancelFunction"
  "fl_C_WaitForSlotEvent functionList = Some cl_C_WaitForSlotEvent"
  by (simp_all add: functionList_def)

end
