(* ===== verification/Spec2Isabelle.thy ===== *)
theory Spec2Isabelle
  imports Program_Samples Session_Table Syscall_Reporter Client_Functions
begin

text \<open>
  \<^bold>\<open>pkcs11-proxy\<close> lets an application use a PKCS#11 module that is loaded in another process, on
  the same or on another machine. The application loads the client module
  (\<^verbatim>\<open>src/gck-rpc-module.c\<close>), which turns every PKCS#11 call into a message; the daemon
  (\<^verbatim>\<open>src/gck-rpc-dispatch.c\<close>, started by \<^verbatim>\<open>src/gck-rpc-daemon-standalone.c\<close>) reads the messages of a
  connection, calls the real module and sends the results back. Both sides share the message
  layer (\<^verbatim>\<open>src/gck-rpc-message.c\<close>, \<^verbatim>\<open>src/gck-rpc-private.h\<close>), a growable byte buffer
  (\<^verbatim>\<open>src/egg-buffer.c\<close>) and some helpers (\<^verbatim>\<open>src/gck-rpc-util.c\<close>).

  \<^bold>\<open>How the code is modelled.\<close> A C function is a HOL function of the same name. Memory blocks are
  lists of bytes, a pointer is an \<open>option\<close>, and every access states its bounds. The result type
  \<open>outcome\<close> of \<^verbatim>\<open>Prelude\<close> tells a normal return (\<open>Ret\<close>) from a failed \<^verbatim>\<open>assert\<close> (\<open>Abort\<close>), an access
  out of bounds or through a freed pointer (\<open>Fault\<close>), and a computation that never ends (\<open>Hang\<close>).
  Integers are words of the width the code has on an LP64 platform. State is passed explicitly
  in records with the fields of the C structures. \<open>wp m Q\<close> says that \<open>m\<close> returns and its result
  satisfies \<open>Q\<close>; \<open>wp_abort\<close> also lets a failed assertion pass.

  \<^bold>\<open>Theories.\<close>
  \<^item> \<^verbatim>\<open>Prelude\<close>: machine types, outcomes, raw memory, word lemmas. \<^verbatim>\<open>C_Strings\<close>: arrays of
    characters and the strings in them.
  \<^item> \<^verbatim>\<open>Egg_Buffer\<close>, \<^verbatim>\<open>Egg_Codec\<close>: \<^verbatim>\<open>egg-buffer.c\<close>. The invariant \<open>egg_wf\<close> ties the length, the
    allocated length and the block together; every writer appends exactly the encoding of its
    argument or counts a failure; every reader stays inside the buffer. The contract between a
    writer and its reader is the locale \<open>buffer_codec\<close>, interpreted on bytes, 16-, 32- and 64-bit
    integers and byte arrays. The allocator is a parameter with the locale \<open>egg_allocator\<close> as its
    contract, interpreted on a model of the C library's \<^verbatim>\<open>realloc\<close>.
  \<^item> \<^verbatim>\<open>Pkcs11_Types\<close>, \<^verbatim>\<open>Rpc_Calls\<close>, \<^verbatim>\<open>Rpc_Util\<close>: the PKCS#11 structures and constants, the table of
    calls with their signatures, the helpers.
  \<^item> \<^verbatim>\<open>Rpc_Message\<close>, \<^verbatim>\<open>Rpc_Fields\<close>, \<^verbatim>\<open>Rpc_Arrays\<close>: \<^verbatim>\<open>gck-rpc-message.c\<close>. The locale \<open>msg_field\<close> is the
    contract of a field: what is written under a part of the signature is read back under it.
  \<^item> \<^verbatim>\<open>Pkcs11_Module\<close>: the module the daemon forwards to, a parameter. \<open>module_ok\<close> is what PKCS#11
    demands of it: buffers keep their size, a returned count fits the room that was given, the
    character arrays of the structures have their declared length.
  \<^item> \<^verbatim>\<open>Dispatch_State\<close>, \<^verbatim>\<open>Dispatch_Calls\<close>, \<^verbatim>\<open>Dispatch_Call\<close>: \<open>CallState\<close>, the \<open>proto_\<close> functions, the
    call macros, the 67 handlers \<open>rpc_C_...\<close> and \<open>dispatch_call\<close>.
  \<^item> \<^verbatim>\<open>Dispatch_Rules\<close>, \<^verbatim>\<open>Dispatch_Safety\<close>, \<^verbatim>\<open>Dispatch_Total\<close>: no request can make a handler fail an
    assertion or leave its buffers; \<open>dispatch_call\<close> gives a complete response or an error message.
  \<^item> \<^verbatim>\<open>Dispatch_Arguments\<close>, \<^verbatim>\<open>Dispatch_Transparency\<close>, \<^verbatim>\<open>Dispatch_Forward\<close>, \<^verbatim>\<open>Dispatch_Answers\<close>: the
    handlers are transparent: the module is called with the arguments the request encodes, and
    the reply encodes its results.
  \<^item> \<^verbatim>\<open>Session_Table\<close>: the table of open sessions against its abstraction, a multiset (locale
    \<open>session_store\<close>).
  \<^item> \<^verbatim>\<open>Dispatch_Loop\<close>, \<^verbatim>\<open>Dispatch_Thread\<close>: the thread of a connection. What \<^verbatim>\<open>recv\<close> and \<^verbatim>\<open>send\<close> return is
    a list of results, so the loop terminates by the size of the remaining input and needs no
    fuel. Rounds of the loop are the step relation \<open>round_step\<close>.
  \<^item> \<^verbatim>\<open>Dispatch_Layer\<close>: the list of dispatcher threads, its mutex, listening, accepting and shutting
    down; \<open>layer_step\<close> interleaves the main thread with the progress of the connections.
  \<^item> \<^verbatim>\<open>Client_State\<close>, \<^verbatim>\<open>Client_Proto\<close>, \<^verbatim>\<open>Client_Calls\<close>, \<^verbatim>\<open>Client_Init\<close>: \<^verbatim>\<open>gck-rpc-module.c\<close>. The state of
    a call with its connection, the pool of idle connections, the functions that send a request
    and receive the reply, the readers and the call macros, the 65 functions that forward a call
    (\<open>cl_C_...\<close>), the argument string, \<open>C_Initialize\<close> and \<open>C_Finalize\<close>.
  \<^item> \<^verbatim>\<open>Client_Functions\<close>: \<open>C_GetFunctionList\<close> and the table it hands out; every field, in the order of
    \<^verbatim>\<open>src/pkcs11/pkcs11.h\<close>, holds the function of its name.
  \<^item> \<^verbatim>\<open>Client_Arguments\<close>: what the parser of the argument string does with words and spaces.
  \<^item> \<^verbatim>\<open>Client_Net\<close>, \<^verbatim>\<open>Client_Dialogue\<close>, \<^verbatim>\<open>Client_Results\<close>: bytes and frames between the two programs,
    one request with its reply, and the contract of a result, the locale \<open>result_field\<close>: what the
    daemon writes for a result the client stores in the memory of the application.
  \<^item> \<^verbatim>\<open>Client_Remote\<close>, \<^verbatim>\<open>Remote_Calls\<close>: one call through client and daemon. A round of the daemon's loop
    answers the frame of the client, and the function of the client returns what the module has
    returned; 40 functions, most of them in groups by the shape of their arguments and results.
  \<^item> \<^verbatim>\<open>Remote_Session\<close>: an application that makes a sequence of such calls (\<open>AppCall\<close>). \<open>app_runs\<close> makes
    them through the client, \<open>module_runs\<close> directly on the module, and the first returns what the
    second returns, from the connection of the client to the end of the daemon's thread.
    These are theorems of total correctness: \<open>ample\<close> and \<open>roomy\<close> (\<^verbatim>\<open>Egg_Buffer\<close>) say that \<^verbatim>\<open>realloc\<close>
    grants requests below 8 GB, which is enough for the doubling of a buffer up to the 2 GB a
    message may have, and every call leaves both programs with room for the next one.
  \<^item> \<^verbatim>\<open>Client_Safety\<close>, \<^verbatim>\<open>Client_Readers\<close>, \<^verbatim>\<open>Client_Pool\<close>: the client against any daemon, also one that
    answers with arbitrary bytes. The locales \<open>safe_writer\<close> and \<open>safe_reader\<close> are the contracts of
    the argument writers and result readers; \<open>client_call\<close> has a rule for each of the 67 functions,
    and \<open>client_reaches\<close> are the states an application can bring the module into.
  \<^item> \<^verbatim>\<open>Tls_Psk\<close>, \<^verbatim>\<open>Key_File\<close>: \<^verbatim>\<open>gck-rpc-tls-psk.c\<close>. Decoder, line reader and callbacks on arrays, and
    against them the map from identities to keys that a key file stands for. OpenSSL's results
    are parameters.
  \<^item> \<^verbatim>\<open>Syscall_Filter\<close>, \<^verbatim>\<open>Syscall_Reporter\<close>: the rules of the two system call filters and the reporter.
  \<^item> \<^verbatim>\<open>Daemon_Main\<close>: the \<^verbatim>\<open>main\<close> of the daemon. A turn of its loop is given by what the threads do
    meanwhile, whether \<^verbatim>\<open>SIGTERM\<close> comes, and the result of \<^verbatim>\<open>select\<close>; when the turns are used up
    \<^verbatim>\<open>select\<close> waits forever, so no fuel is needed.
  \<^item> \<^verbatim>\<open>Samples\<close>, \<^verbatim>\<open>Program_Samples\<close>: a concrete module, heap, messages, client and daemon, to which the
    properties are applied.

  \<^bold>\<open>Not modelled.\<close> OpenSSL, libseccomp, the operating system and the PKCS#11 module are parameters.
  On a TLS connection the bytes of the stream are the results of \<^verbatim>\<open>recv\<close> and \<^verbatim>\<open>send\<close>; that the
  daemon's connections share one TLS state is modelled in \<^verbatim>\<open>Tls_Psk\<close> only. Logging is left
  out, and of the headers what no modelled code uses.
  The client's functions are run one after the other: each holds its own connection, and the
  mutex of the pool is only held inside \<open>call_lookup\<close> and \<open>call_done\<close>. The interleaving of two
  handlers inside the module is the module's affair, and the state \<open>'w\<close> of everything outside is
  passed through the calls in their order.
\<close>

unbundle bit_operations_syntax



text \<open>
  C2: An application, the client module and the daemon together, over a new connection: any
  sequence of calls (login, sessions, objects, mechanisms, data in and out; 40 functions) gives
  the application, call by call, what the module returns when it is called directly with the
  same arguments, and the module is called in that order and only so. The client opens the
  connection and sends its identifier; each program sends exactly the bytes that the other one
  reads, so that every function returns; when the client is done the thread of the daemon
  releases its messages and ends. Memory is available, the connections take what is sent, the
  messages keep the limits of the format, and no result is one that the client takes for a
  broken connection.
\<close>

theorem remote_session:
  fixes s :: "'w Dispatcher"
  assumes "env_ok D" "memory_ok D" "pkcs11_module D = Some M"
      "egg_allocator (alloc_run (c_realloc D))" "ample (c_realloc D)"
    and "egg_allocator (alloc_run (ce_realloc E))" "ample (call_allocator E)"
    and "connected s" "io s = SocketIo" "length b4 = 4" "install_filter False = 0"
    and "client_unconnected E a C" "calls \<noteq> []"
    and "module_runs M calls (world s) = Some (rs, w)" "list_all2 call_carried calls rs"
    and "joined C a net calls rs"
  shows "(\<exists>C' cs'. app_runs E calls C = Ret (map2 app_seen calls rs, C') \<and> client_ready C' cs' \<and>
      sent (cl_net cs') = sent (co_net a) @ incoming (input net)) \<and>
    (\<exists>s1 s' net'. run_dispatch_thread D install_filter s net b4 = Ret (s'\<lparr>sock := - 1\<rparr>, net') \<and>
      call_uninit D s1 = Ret s' \<and> world s1 = w \<and> sessions s1 = sessions s \<and>
      appid s' = pkcs11_app_id C \<and> req s' = Freed \<and> resp s' = Freed \<and>
      sent net' = sent net @ incoming (input (co_net a)))"
  using assms by (rule session_runs)

theorem remote_session_witness:
  "\<exists>C' s' net'. app_runs (sample_network [RecvData sample_replies]) sample_calls sample_unconnected =
      Ret ([(CKR_OK, None, None), (CKR_OK, None, None), (CKR_OK, Some [0xff, 0xff, 0xff, 0xff], Some 4)], C') \<and>
    run_dispatch_thread sample_env (\<lambda>_. 0) (dispatcher_of (new_call_state 7 SocketIo False) [] 40)
      (sample_net [RecvData sample_requests]) [0, 0, 0, 0] = Ret (s', net') \<and> sock s' = - 1 \<and> req s' = Freed"
proof -
  let ?s = "dispatcher_of (new_call_state 7 SocketIo False) [] 40 :: CK_ULONG Dispatcher"
  have s: "connected ?s" "io ?s = SocketIo" "world ?s = 40"
    by (simp add: connected_new) (simp_all add: dispatcher_of_def new_call_state_def)
  have b: "length [0, 0, 0, 0 :: 8 word] = 4" by simp
  have "ample (c_realloc sample_env)" "sample_calls \<noteq> []" by (simp_all add: sample_heap_ample sample_calls_def)
  from remote_session [where install_filter = "\<lambda>_. 0", OF sample_env_ok(1,2) sample_env_simps(1)
      sample_env_ok(3) this(1) sample_network_memory s(1,2) b _ sample_client_unconnected this(2)
      _ sample_carried sample_joined, unfolded s(3) sample_seen(2)]
  show ?thesis by (auto simp: sample_module_runs sample_results_def sample_signature_def)
qed

text \<open>
  C3: One call on an open connection, through both programs, for every result of the module: the
  daemon calls the module once with the arguments of the application (a mechanism without the
  parameter it should not have, an array of its own of the same size) and sends the reply; the
  application gets the return value, cut to the 32 bits of an error message when it is not
  CKR_OK, and for an array the bytes and the length that the module has returned,
  CKR_BUFFER_TOO_SMALL with the length the module asks for, or CKR_OK and that length when it
  has passed no array. Both programs are then ready for the next call.
\<close>

theorem remote_call_transparent:
  fixes s :: "'w Dispatcher"
  assumes "env_ok D" "memory_ok D" "pkcs11_module D = Some M" "egg_allocator (alloc_run (ce_realloc E))"
    and "daemon_ready cn s b4" "client_ready C cs" "call_roomy E cs"
    and "app_valid c" "module_run M c (world s) = Some (r, w)" "short_result r"
    and "carries net (app_request c) later (app_reply c r) ns"
      "incoming (input (cl_net cs)) = frame (app_reply c r) @ left"
      "accepts (sends (cl_net cs)) [4, length (app_request c)]"
  shows "served D cn s net b4 w (app_reply c r) later ns \<and>
    (\<exists>cs'. app_run E c C = Ret (app_seen c r, returned C cs' (fst (app_seen c r))) \<and> open_call cs' \<and>
       call_roomy E cs' \<and> exchanged cs (app_request c) left cs')"
  using assms by (rule app_call)

theorem remote_call_transparent_witness:
  "\<exists>ev C'. cl_C_Sign sample_client_env 9 (Some [1, 2]) 2 (Some [0, 0, 0, 0]) (Some 4) (sample_client ev) =
     Ret (CKR_OK, (Some [255, 255, 255, 255], Some 4), C')"
proof -
  let ?ev = "[RecvData (frame (app_reply sample_sign sample_signature))]"
  have i: "0 < GCK_RPC_CALL_C_Sign" "GCK_RPC_CALL_C_Sign < GCK_RPC_CALL_MAX" by simp_all
  have r: "short_result sample_signature" by (simp add: short_result_def sample_signature_def)
  from remote_call_transparent [OF sample_env_ok(1,2) sample_env_simps(1) sample_connects(2) sample_ready [OF i]
      sample_client_ready sample_call_roomy sample_sign_valid sample_sign_run r
      sample_carries [OF sample_lengths(1,5)] sample_answered(1) sample_answered(2) [OF sample_lengths(1)]]
  obtain C' where "app_run sample_client_env sample_sign (sample_client ?ev) = Ret (sample_signature, C')"
    by (auto simp: sample_seen(1))
  then show ?thesis
    by (auto simp: sample_sign_def sample_signature_def called_def client_data_calls_def with_memory_def obind_eq_Ret)
qed

text \<open>
  C4: C_Encrypt, C_Decrypt, C_Digest, C_Sign and the other calls that turn a byte array into a
  byte buffer: from a request that encodes the arguments, dispatch_call calls the function of
  the module exactly once with exactly these arguments, and the reply is the header of the call
  with the encoded result, the error message with the return value of the module, or
  CKR_DEVICE_MEMORY when the response cannot grow. When memory for the response is available and
  the reply is shorter than 2 GB, dispatch_call succeeds with exactly the former.
\<close>

theorem dispatch_data_transparent:
  fixes s :: "'w Dispatcher" and h :: "'w handler"
  assumes "env_ok E" "memory_ok E" "pkcs11_module E = Some M" "accepted c s" "req s = Ptr q"
    and "(call_id q, sel, h) \<in> set data_calls" "sel M = Some f"
    and "byte_array_arg_valid dat" "byte_buffer_arg_valid out"
    and "pending s ''uayfy'' (encode_uint64 session @ encode_byte_array_arg dat @ encode_byte_buffer_arg out)"
  shows "replied s (call_id q)
    (f session (fst dat) (snd dat) (fst (byte_buffer_arg_view out)) (snd (byte_buffer_arg_view out)))
    bytes_result (dispatch_call E s)"
  using assms by (rule dispatch_data)

theorem dispatch_data_transparent_witness:
  "replied (sample_dispatcher 46 (encode_uint64 9 @ encode_byte_array_arg (Some [1, 2], 2) @
       encode_byte_buffer_arg (Some [0, 0, 0, 0], Some 4))) 46
     (the (C_Sign sample_module) 9 (Some [1, 2]) 2 (Some (replicate 4 0xff)) (Some 4))
     bytes_result
     (dispatch_call sample_env (sample_dispatcher 46 (encode_uint64 9 @
        encode_byte_array_arg (Some [1, 2], 2) @ encode_byte_buffer_arg (Some [0, 0, 0, 0], Some 4))))"
proof -
  let ?args = "encode_uint64 9 @ encode_byte_array_arg (Some [1, 2], 2) @
    encode_byte_buffer_arg (Some [0, 0, 0, 0], Some 4)"
  have len: "length ?args < 2 ^ 62"
    by (simp add: encode_uint64_def encode_byte_array_arg_def encode_byte_array_field_def
        encode_byte_array_def encode_byte_buffer_arg_def encode_byte_buffer_field_def)
  have sig: "call_signature 46 GCK_RPC_REQUEST = Some ''uayfy''" by (simp add: switch_simps)
  have "replied (sample_dispatcher 46 ?args) (call_id (sample_request 46 ?args))
      (the (C_Sign sample_module) 9 (fst (Some [1, 2], 2)) (snd (Some [1, 2], 2))
        (fst (byte_buffer_arg_view (Some [0, 0, 0, 0], Some 4)))
        (snd (byte_buffer_arg_view (Some [0, 0, 0, 0], Some 4))))
      bytes_result (dispatch_call sample_env (sample_dispatcher 46 ?args))"
    by (rule dispatch_data_transparent [where sel = C_Sign and h = rpc_C_Sign and M = sample_module
          and dat = "(Some [1, 2], 2)" and out = "(Some [0, 0, 0, 0], Some 4)" and session = 9,
          OF sample_env_ok(1,2) _ sample_accepted [OF _ _ len]])
      (simp_all add: data_calls_def sample_request_def Let_def byte_array_arg_valid_def
        byte_buffer_arg_valid_def sample_pending [OF _ _ len sig] del: append_assoc)
  then show ?thesis
    by (simp add: byte_buffer_arg_view_def sample_request_def Let_def del: sample_module_sel)
qed

text \<open>
  C5: rpc_C_OpenSession against the abstract table (the multiset of open sessions with their
  slots): when the module opens a session the table gains exactly the pair (session, slot) and
  the response the handle; when the table of 256 entries is full the client gets
  CKR_SESSION_COUNT and nothing is recorded, although the module has the session open; an error
  of the module is passed on.
\<close>

theorem session_opened:
  assumes "pkcs11_module E = Some M" "C_OpenSession M = Some f"
    and "pending s ''uu'' (encode_uint64 slot @ encode_uint64 flags)" "replying s ''u''"
    and "f slot flags (world s) = (ret, session, w)"
  shows "\<exists>ret' s'. rpc_C_OpenSession E s = Ret (ret', s') \<and> world s' = w \<and>
    (if ret \<noteq> CKR_OK then ret' = ret \<and> sessions s' = sessions s
     else if table_full (sessions s) then ret' = CKR_SESSION_COUNT \<and> sessions s' = sessions s
     else (session \<noteq> 0 \<longrightarrow> opened (sessions s') = add_mset (session, slot) (opened (sessions s))) \<and>
       (ret' = CKR_OK \<and> response_gained s (encode_uint64 session) s' \<or>
        ret' = PREP_ERROR \<and> response_failed s' \<and> \<not> response_room s 8))"
  using assms by (rule OpenSession_records)

theorem session_opened_witness:
  "\<exists>ret s'. rpc_C_OpenSession sample_env (sample_dispatcher 11 (encode_uint64 3 @ encode_uint64 4)) =
     Ret (ret, s') \<and> world s' = 41 \<and> opened (sessions s') = {#(41, 3)#}"
proof -
  let ?args = "encode_uint64 3 @ encode_uint64 4"
  have len: "length ?args < 2 ^ 62" by (simp add: encode_uint64_def)
  have full: "\<not> table_full (replicate 256 no_session)" "opened (replicate 256 no_session) = {#}"
    by (simp_all add: table_full_def no_session_def opened_def list_all_iff)
  have p: "pending (sample_dispatcher 11 ?args) ''uu'' ?args" "replying (sample_dispatcher 11 ?args) ''u''"
    using sample_pending [OF _ _ len, of 11] sample_replying [of 11] by (simp_all add: switch_simps)
  have "\<exists>ret s'. rpc_C_OpenSession sample_env (sample_dispatcher 11 ?args) = Ret (ret, s') \<and> world s' = 41 \<and>
      ((41 :: CK_ULONG) \<noteq> 0 \<longrightarrow> opened (sessions s') = add_mset (41, 3) {#})"
    using session_opened [where E = sample_env and M = sample_module and ret = 0 and session = 41 and w = 41, OF _ _ p] full
    by auto
  then show ?thesis by auto
qed

text \<open>
  C6: rpc_C_CloseSession: when the module has closed a session that the table knows, exactly one
  entry with that handle leaves the table and the entries of all other handles stay; an error of
  the module changes nothing.
\<close>

theorem session_removed:
  assumes "pkcs11_module E = Some M" "C_CloseSession M = Some f"
    and "pending s ''u'' (encode_uint64 session)"
    and "f session (world s) = (ret, u, w)" "(session, slot) \<in># opened (sessions s)"
  shows "\<exists>s'. rpc_C_CloseSession E s = Ret (ret, s') \<and> world s' = w \<and>
    (if ret = CKR_OK
     then \<exists>sl. (session, sl) \<in># opened (sessions s) \<and> opened (sessions s') = opened (sessions s) - {#(session, sl)#}
     else opened (sessions s') = opened (sessions s))"
  using CloseSession_removes [OF assms(1-4)] session_table.remove_known [OF assms(5)]
  by (cases "ret = CKR_OK") auto

theorem session_removed_witness:
  "\<exists>s'. rpc_C_CloseSession sample_env
      ((sample_dispatcher 12 (encode_uint64 41))\<lparr>sessions := [no_session, \<lparr>sess_id = 41, sess_slot = 3\<rparr>]\<rparr>) =
     Ret (CKR_OK, s') \<and> opened (sessions s') = {#}"
proof -
  let ?s = "(sample_dispatcher 12 (encode_uint64 41))\<lparr>sessions := [no_session, \<lparr>sess_id = 41, sess_slot = 3\<rparr>]\<rparr>"
  have "pending (sample_dispatcher 12 (encode_uint64 41)) ''u'' (encode_uint64 41)"
    by (rule sample_pending) (simp_all add: switch_simps encode_uint64_def)
  then have p: "pending ?s ''u'' (encode_uint64 41)" by (simp add: pending_def)
  show ?thesis
    using session_removed [where E = sample_env and M = sample_module and slot = 3, OF _ _ p]
    by (fastforce simp: no_session_def)
qed

text \<open>
  C7: rpc_C_CloseAllSessions does not call C_CloseAllSessions of the module: it closes the
  sessions this connection has on the slot one after the other with C_CloseSession, stops at the
  first error, and never touches the entries of other slots; on CKR_OK the table holds exactly
  the entries of the other slots.
\<close>

theorem sessions_of_slot_closed:
  assumes "pkcs11_module E = Some M" "C_CloseAllSessions M = Some a" "C_GetSlotInfo M = Some g"
      "C_CloseSession M = Some f"
    and "pending s ''u'' (encode_uint64 slot)" "g slot (world s) = (ret, info, w)"
  shows "\<exists>ret' s'. rpc_C_CloseAllSessions E s = Ret (ret', s') \<and> resp s' = resp s \<and>
    (if ret \<noteq> CKR_OK then ret' = ret \<and> sessions s' = sessions s \<and> world s' = w
     else (ret', world s') = (case close_in_turn f (slot_handles slot (sessions s)) w of (r, _, w') \<Rightarrow> (r, w')) \<and>
       filter_mset (\<lambda>(h, sl). sl \<noteq> slot) (opened (sessions s')) =
         filter_mset (\<lambda>(h, sl). sl \<noteq> slot) (opened (sessions s)) \<and>
       (ret' = CKR_OK \<longrightarrow>
          opened (sessions s') = filter_mset (\<lambda>(h, sl). sl \<noteq> slot) (opened (sessions s))))"
  using assms by (rule CloseAllSessions_closes)

theorem sessions_of_slot_closed_witness:
  "\<exists>s'. rpc_C_CloseAllSessions sample_env
      ((sample_dispatcher 13 (encode_uint64 3))
        \<lparr>sessions := [\<lparr>sess_id = 41, sess_slot = 3\<rparr>, \<lparr>sess_id = 42, sess_slot = 5\<rparr>]\<rparr>) =
     Ret (CKR_OK, s') \<and> opened (sessions s') = {#(42, 5)#}"
proof -
  let ?s = "(sample_dispatcher 13 (encode_uint64 3))
    \<lparr>sessions := [\<lparr>sess_id = 41, sess_slot = 3\<rparr>, \<lparr>sess_id = 42, sess_slot = 5\<rparr>]\<rparr>"
  have "pending (sample_dispatcher 13 (encode_uint64 3)) ''u'' (encode_uint64 3)"
    by (rule sample_pending) (simp_all add: switch_simps encode_uint64_def)
  then have p: "pending ?s ''u'' (encode_uint64 3)" by (simp add: pending_def)
  show ?thesis
    using sessions_of_slot_closed [where E = sample_env and M = sample_module, OF _ _ _ _ p]
    by (fastforce simp: )
qed

text \<open>
  C8: rpc_C_Finalize closes the sessions of the connection in the order of the table until one
  fails; what was closed is gone from the table, the rest is still in it, and on CKR_OK no
  session is left open.
\<close>

theorem finalize_closes_sessions:
  assumes "pkcs11_module E = Some M" "C_CloseSession M = Some f" "peers_ok s"
    and "close_in_turn f (handles (sessions s)) (world s) = (ret, closed, w)"
  shows "\<exists>s'. rpc_C_Finalize E s = Ret (ret, s') \<and> resp s' = resp s \<and>
    handles (sessions s) = closed @ handles (sessions s') \<and>
    (ret = CKR_OK \<longrightarrow> opened (sessions s') = {#})"
  using assms by (rule Finalize_closes)

theorem finalize_closes_sessions_witness:
  "\<exists>s'. rpc_C_Finalize sample_env
      ((sample_dispatcher 2 [])\<lparr>sessions := [\<lparr>sess_id = 41, sess_slot = 3\<rparr>, \<lparr>sess_id = 42, sess_slot = 5\<rparr>]\<rparr>) =
     Ret (CKR_OK, s') \<and> opened (sessions s') = {#}"
  using finalize_closes_sessions [where E = sample_env and M = sample_module and
      s = "(sample_dispatcher 2 [])\<lparr>sessions := [\<lparr>sess_id = 41, sess_slot = 3\<rparr>, \<lparr>sess_id = 42, sess_slot = 5\<rparr>]\<rparr>"]
  by (fastforce simp: peers_ok_def)





text \<open>
  C11: A client that announces a message of length zero stops the whole daemon: the round ends
  in the failed assertion len > 0 of read_all.
\<close>

theorem empty_message_aborts:
  assumes s: "serving c s buf4" and e: "empty_frame s net buf4"
    and q: "req s = Ptr q" "allocated_len (buffer q) > 0"
  shows "dispatch_round E s net buf4 = Abort"
proof -
  obtain r where r: "resp s = Ptr r" "live_msg q" "live_msg r" "io s = SocketIo"
    using s e q by (auto simp: serving_def idle_def empty_frame_def)
  obtain q' r' where m: "gck_rpc_message_reset q = Ret q'" "gck_rpc_message_reset r = Ret r'"
    using wp_reset_live r by blast
  then have b: "len (buffer q') = 0" "allocated_len (buffer q') = allocated_len (buffer q)"
      "failures (buffer q') = 0"
    by (auto simp: gck_rpc_message_reset_def egg_buffer_reset_def obind_eq_Ret)
  let ?s = "s\<lparr>allocated := [], req := Ptr q', resp := Ptr r'\<rparr>"
  have reset: "call_reset s = Ret ?s" using q r m by (simp add: call_reset_def reset_through_def)
  obtain xs net1 where rd: "cs_read s net buf4 = Ret (True, xs, net1)" "egg_buffer_decode_uint32 xs = 0"
    using e by (auto simp: empty_frame_def split: outcome.splits)
  have "cs_read ?s = cs_read s" by (rule cs_read_conn) (simp add: conn_def)
  moreover have "mem_read (buf (buffer q')) 0 0 = Ret []" by (cases "buf (buffer q')") auto
  moreover have "cs_read ?s net1 [] = Abort" using r by (simp add: cs_read_def read_all_def assert_c_def)
  ultimately show ?thesis
    using reset rd b q by (simp add: dispatch_round_def read_message_def egg_buffer_reserve_def
        egg_buffer_has_error_def Let_def)
qed

theorem empty_message_aborts_witness:
  "dispatch_round sample_env (sample_dispatcher 12 []) (sample_net [RecvData [0, 0, 0, 0]]) [9, 9, 9, 9] = Abort"
proof (rule empty_message_aborts)
  show "serving sample_conn (sample_dispatcher 12 []) [9, 9, 9, 9]" by (rule sample_serving) simp_all
  show "empty_frame (sample_dispatcher 12 []) (sample_net [RecvData [0, 0, 0, 0]]) [9, 9, 9, 9]"
    by (simp add: empty_frame_def cs_read_def read_all_def sample_net_def overlay_def
        egg_buffer_decode_uint32_def)
  show "req (sample_dispatcher 12 []) = Ptr (sample_request 12 [])" by simp
  show "allocated_len (buffer (sample_request 12 [])) > 0"
    by (simp add: sample_request_def Let_def encode_header_def encode_byte_array_def switch_simps)
qed



text \<open>
  C13: gck_rpc_layer_inetd, which serves one client on standard input, returns for every input:
  no assertion fails, no memory error, no endless loop.
\<close>

theorem inetd_returns:
  assumes "module_ok M" "egg_allocator (alloc_run (c_realloc E))" "length buf4 = 4"
  shows "wp (gck_rpc_layer_inetd E install_filter M w net buf4)
    (\<lambda>(s', net'). sock s' = (if install_filter False = 0 then - 1 else STDIN_FILENO))"
  using assms by (rule wp_gck_rpc_layer_inetd)

theorem inetd_returns_witness:
  "wp (gck_rpc_layer_inetd sample_env (\<lambda>_. 0) sample_module 40 (sample_net [RecvData [1, 2, 3]]) [0, 0, 0, 0])
     (\<lambda>(s', net'). sock s' = - 1)"
  using inetd_returns [OF sample_module_ok sample_env_ok(3), where install_filter = "\<lambda>_. 0"] by simp

text \<open>
  C14: rpc_C_Initialize returns CKR_OK exactly when the client sends the 41 bytes of the
  handshake of this protocol version, and CKR_GENERAL_ERROR otherwise; the module is not called.
\<close>

theorem initialize_checks_handshake:
  assumes "pkcs11_module E = Some M" "byte_array_arg_valid hs"
    and "pending s ''ay'' (encode_byte_array_arg hs)"
  shows "\<exists>s'. rpc_C_Initialize E s =
      Ret (if hs = (Some GCK_RPC_HANDSHAKE, GCK_RPC_HANDSHAKE_LEN) then CKR_OK else CKR_GENERAL_ERROR, s') \<and>
    world s' = world s \<and> sessions s' = sessions s \<and> resp s' = resp s"
  using assms by (rule Initialize_handshake)

theorem initialize_checks_handshake_witness:
  "\<exists>s'. rpc_C_Initialize sample_env (sample_dispatcher 1 (encode_byte_array_arg (Some GCK_RPC_HANDSHAKE, 41))) =
     Ret (CKR_OK, s')"
proof -
  let ?hs = "(Some GCK_RPC_HANDSHAKE, 41)"
  have "pending (sample_dispatcher 1 (encode_byte_array_arg ?hs)) ''ay'' (encode_byte_array_arg ?hs)"
    by (rule sample_pending) (simp_all add: switch_simps encode_byte_array_arg_def encode_byte_array_field_def
        encode_byte_array_def GCK_RPC_HANDSHAKE_def)
  then show ?thesis
    using initialize_checks_handshake [where E = sample_env and hs = ?hs]
    by (fastforce simp: byte_array_arg_valid_def GCK_RPC_HANDSHAKE_def)
qed

text \<open>
  C15: A message whose buffer starts with the header of a call (its number and the signature of
  the direction) is accepted by gck_rpc_message_parse of the peer, which then stands at the
  first field with the right signature to check.
\<close>

theorem parse_accepts_prepared:
  assumes w: "gck_rpc_message_prep m i type = Ret (True, m1)" "egg_wf (buffer m)" "0 < i" "i < GCK_RPC_CALL_MAX"
    and r: "egg_wf (buffer r)" "contents (buffer r) = contents (buffer m1) @ rest"
  shows "\<exists>r'. gck_rpc_message_parse r type = Ret (True, r') \<and> prepared i type r' \<and>
    unat (parsed r') = length (contents (buffer m1)) \<and> buffer r' = buffer r"
proof -
  have c: "contents (buffer m1) = encode_header i (call_signature i type)"
    using wp_message_prep [of m i type] w by (simp add: header_signature_def)
  have "length (contents (buffer m1)) < 2 ^ 64"
    using length_contents [OF r(1)] egg_wf_len_bound [OF r(1)] r(2) by simp
  then show ?thesis
    using parse_encode_header [OF r(1) w(3,4), of type rest] r w(3) c
    by (simp add: prepared_def header_signature_def unat_of_nat_small)
qed

theorem parse_accepts_prepared_witness:
  "\<exists>m1 r'. gck_rpc_message_prep (sample_message (replicate 64 0)) 21 GCK_RPC_REQUEST = Ret (True, m1) \<and>
     gck_rpc_message_parse (sample_message (contents (buffer m1) @ [7, 7])) GCK_RPC_REQUEST = Ret (True, r') \<and>
     prepared 21 GCK_RPC_REQUEST r'"
proof -
  have wf: "egg_wf (buffer (sample_message (replicate 64 0)))"
    by (simp add: sample_message_def sample_buffer_facts)
  have "\<exists>m1. gck_rpc_message_prep (sample_message (replicate 64 0)) 21 GCK_RPC_REQUEST = Ret (True, m1)"
    by (simp add: gck_rpc_message_prep_def gck_rpc_message_reset_def egg_buffer_reset_def eval_buffer switch_simps)
  then obtain m1 where p: "gck_rpc_message_prep (sample_message (replicate 64 0)) 21 GCK_RPC_REQUEST = Ret (True, m1)"
    by blast
  then have "contents (buffer m1) = encode_header 21 (call_signature 21 GCK_RPC_REQUEST)"
    using wp_message_prep [OF wf, of 21 GCK_RPC_REQUEST] by (simp add: header_signature_def)
  then have b: "length (contents (buffer m1) @ [7, 7]) < 2 ^ 63"
    using header_length [of 21 GCK_RPC_REQUEST] by simp
  show ?thesis
    using parse_accepts_prepared [OF p wf, of "sample_message (contents (buffer m1) @ [7, 7])" "[7, 7]"] p
      sample_buffer_facts [OF b] by (auto simp: sample_message_def)
qed



text \<open>
  C17: egg_buffer_reserve for a size below 2^63 (or up to twice the memory) keeps the invariant
  and the contents, and afterwards the memory has the size asked for, or the failure is counted
  and nothing else changed. The 64-bit sums and products of the code do not wrap under this
  bound.
\<close>

theorem reserve_keeps_contents:
  assumes "egg_wf b" "unat n < 2 ^ 63 \<or> unat n \<le> unat (allocated_len b) * 2"
    and "egg_buffer_reserve b n = (ok, b')"
  shows "egg_wf b' \<and> allocator b' = allocator b \<and> len b' = len b \<and> contents b' = contents b \<and>
    (if ok then unat n \<le> unat (allocated_len b') \<and> failures b' = failures b
     else b' = add_failure b)"
  using assms by (rule egg_buffer_reserve_spec)

theorem reserve_keeps_contents_witness:
  "\<exists>b'. egg_buffer_reserve (sample_buffer [1, 2, 3]) 5 = (True, b') \<and> contents b' = [1, 2, 3] \<and>
     5 \<le> unat (allocated_len b')"
proof -
  have "\<exists>b'. egg_buffer_reserve (sample_buffer [1, 2, 3]) 5 = (True, b')"
    by (simp add: eval_buffer c_library_realloc_def DEFAULT_ALLOCATOR_def)
  then obtain b' where r: "egg_buffer_reserve (sample_buffer [1, 2, 3]) 5 = (True, b')" by blast
  show ?thesis
    using reserve_keeps_contents [OF _ _ r] r by (simp add: sample_buffer_facts)
qed


text \<open>
  C19: What egg_buffer_add_uint64 appends (two big-endian halves) egg_buffer_get_uint64 reads
  back at the old end of the buffer, for every value and every well-formed buffer.
\<close>

theorem uint64_roundtrip:
  assumes "egg_wf b" "egg_buffer_add_uint64 b v = Ret (True, b')"
  shows "egg_buffer_get_uint64 b' (len b) = Ret (Some (len b', v), b')"
  using uint64_codec.add_then_get [OF assms(1) TrueI assms(2)] .

theorem uint64_roundtrip_witness:
  "\<exists>b'. egg_buffer_add_uint64 (empty_buffer 16) 0x123456789 = Ret (True, b') \<and>
     egg_buffer_get_uint64 b' 0 = Ret (Some (len b', 0x123456789), b')"
proof -
  have "\<exists>b'. egg_buffer_add_uint64 (empty_buffer 16) 0x123456789 = Ret (True, b')"
    by (simp add: eval_buffer)
  then obtain b' where a: "egg_buffer_add_uint64 (empty_buffer 16) 0x123456789 = Ret (True, b')" by blast
  show ?thesis
    using uint64_roundtrip [OF empty_buffer_facts(1) a] a by (simp add: empty_buffer_def)
qed

text \<open>
  C20: What egg_buffer_add_byte_array appends (length prefix and bytes, or the marker of a null
  array) egg_buffer_get_byte_array reads back: the same bytes, the same length, null for null.
\<close>

theorem byte_array_roundtrip:
  assumes "egg_wf b" "length (cells v) < 2 ^ 64"
    and "egg_buffer_add_byte_array b v (of_nat (length (cells v))) = Ret (True, b')"
  shows "egg_buffer_get_byte_array b' (len b) = Ret (Some (len b', v, of_nat (length (cells v))), b')"
  using byte_array_codec.add_then_get [OF assms] .

theorem byte_array_roundtrip_witness:
  "\<exists>b'. egg_buffer_add_byte_array (empty_buffer 16) (Some [5, 6, 7]) 3 = Ret (True, b') \<and>
     egg_buffer_get_byte_array b' 0 = Ret (Some (len b', Some [5, 6, 7], 3), b')"
proof -
  have "\<exists>b'. egg_buffer_add_byte_array (empty_buffer 16) (Some [5, 6, 7]) 3 = Ret (True, b')"
    by (simp add: eval_buffer)
  then obtain b' where a: "egg_buffer_add_byte_array (empty_buffer 16) (Some [5, 6, 7]) 3 = Ret (True, b')" by blast
  show ?thesis
    using byte_array_roundtrip [OF empty_buffer_facts(1), of 16 "Some [5, 6, 7]" b'] a
    by (simp add: empty_buffer_def)
qed

text \<open>
  C21: egg_buffer_equal decides equality of the contents of two well-formed buffers and never
  reads outside of them.
\<close>

theorem buffer_equal_is_equality:
  assumes "egg_wf b1" "egg_wf b2"
  shows "egg_buffer_equal b1 b2 = Ret (contents b1 = contents b2)"
  using assms by (rule egg_buffer_equal_contents)

theorem buffer_equal_is_equality_witness:
  "egg_buffer_equal (sample_buffer [1, 2]) (sample_buffer [1, 3]) = Ret False"
  using buffer_equal_is_equality [of "sample_buffer [1, 2]" "sample_buffer [1, 3]"]
  by (simp add: sample_buffer_facts)

text \<open>
  C22: A CK_ULONG written into one message is read back unchanged by the peer from a message
  that holds the same bytes, both sides moving past the u of the signature.
\<close>

theorem ulong_field_roundtrip:
  assumes "sig_next m ''u'' = Some m1" "egg_wf (buffer m)" "gck_rpc_message_write_ulong m v = Ret (True, m')"
    and "sig_next r ''u'' = Some r1" "egg_wf (buffer r)"
    and "prefix (contents (buffer m')) (contents (buffer r))" "parsed r = len (buffer m)"
  shows "gck_rpc_message_read_ulong r = Ret (Some v, r1\<lparr>parsed := len (buffer m')\<rparr>)"
  using ulong_field.write_then_read [OF assms(1,2) TrueI assms(3-7)] .

theorem ulong_field_roundtrip_witness:
  "gck_rpc_message_read_ulong (sample_message [0, 0, 0, 1, 0, 0, 0, 2]) =
     Ret (Some 0x100000002, (sample_message [0, 0, 0, 1, 0, 0, 0, 2])\<lparr>parsed := 8\<rparr>)"
proof -
  let ?m = "(sample_message [])\<lparr>buffer := empty_buffer 16\<rparr>"
  let ?r = "sample_message [0, 0, 0, 1, 0, 0, 0, 2]"
  have "\<exists>m'. gck_rpc_message_write_ulong ?m 0x100000002 = Ret (True, m') \<and> len (buffer m') = 8 \<and>
      contents (buffer m') = [0, 0, 0, 1, 0, 0, 0, 2]"
    by (simp add: gck_rpc_message_write_ulong_def expect_part_def msg_add_def eval_buffer contents_def)
  then obtain m' where w: "gck_rpc_message_write_ulong ?m 0x100000002 = Ret (True, m')" "len (buffer m') = 8"
      "contents (buffer m') = [0, 0, 0, 1, 0, 0, 0, 2]" by blast
  show ?thesis
    using ulong_field_roundtrip [of ?m ?m, OF _ _ w(1), of ?r ?r] w
    by (simp add: sig_next_def empty_buffer_facts sample_message_def sample_buffer_facts)
      (simp add: empty_buffer_def)
qed

text \<open>
  C23: gck_rpc_message_write_attribute_array appends the count and, for each attribute, type,
  validity, length and value, reads no byte outside of the values, and reports success only when
  every value fits the length field of the protocol.
\<close>

theorem attribute_array_written:
  assumes "sig_next m ''aA'' = Some m1" "egg_wf (buffer m)" "attrs_in_bounds arr n"
  shows "wp (gck_rpc_message_write_attribute_array m arr n)
    (field_written m ''aA'' (encode_attribute_array_field arr n)
      (list_all attr_sendable (take (unat n) (case arr of None \<Rightarrow> [] | Some as \<Rightarrow> as))))"
  using assms by (rule wp_write_attribute_array)

theorem attribute_array_written_witness:
  "wp (gck_rpc_message_write_attribute_array ((sample_message [])\<lparr>buffer := empty_buffer 64\<rparr>)
       (Some [\<lparr>attr_type = 0, pValue = Some [1, 2], ulValueLen = 2\<rparr>]) 1)
     (field_written ((sample_message [])\<lparr>buffer := empty_buffer 64\<rparr>) ''aA''
       (encode_attribute_array_field (Some [\<lparr>attr_type = 0, pValue = Some [1, 2], ulValueLen = 2\<rparr>]) 1) True)"
  using attribute_array_written [of "(sample_message [])\<lparr>buffer := empty_buffer 64\<rparr>"
      "(sample_message [])\<lparr>buffer := empty_buffer 64\<rparr>"
      "Some [\<lparr>attr_type = 0, pValue = Some [1, 2], ulValueLen = 2\<rparr>]" 1]
  by (simp add: sig_next_def sample_message_def empty_buffer_facts attrs_in_bounds_def attr_in_bounds_def
      attr_sendable_def)





text \<open>
  C26: gck_rpc_layer_accept on a consistent list drops the entries of the threads that have
  ended, keeps all others in order, and puts the new connection in front with an empty session
  table of 256 entries; when accept, calloc or pthread_create fails it returns with the mutex
  still locked.
\<close>

theorem accept_registers:
  assumes "layer_ok L" "pkcs11_socket L \<noteq> - 1" "\<not> dispatchers_mutex L"
  shows "gck_rpc_layer_accept starting fd calloc_ok create_ok tls L =
    (let ds = filter (\<lambda>d. sock (ds_cs d) \<noteq> - 1) (dispatchers L) in
     Ret (if fd \<ge> 0 \<and> calloc_ok \<and> create_ok then
            L\<lparr>dispatchers :=
                \<lparr>ds_thread = Starting, ds_cs = new_call_state fd SocketIo tls\<rparr> # ds,
              dispatchers_mutex := False\<rparr>
          else L\<lparr>dispatchers := ds, dispatchers_mutex := True\<rparr>))"
  using assms by (rule gck_rpc_layer_accept_spec)

theorem accept_registers_witness:
  "gck_rpc_layer_accept (\<lambda>c. Ret c) 9 True True False sample_layer =
     Ret (sample_layer\<lparr>dispatchers := [\<lparr>ds_thread = Starting, ds_cs = new_call_state 9 SocketIo False\<rparr>],
       dispatchers_mutex := False\<rparr>)"
  using accept_registers [OF sample_layer_ok, where fd = 9 and calloc_ok = True and create_ok = True]
  by (simp add: sample_layer_def Let_def)

text \<open>
  C27: After one failed accept (for instance a client that resets its connection early) the
  mutex stays locked, and the next call of gck_rpc_layer_accept never returns.
\<close>

theorem failed_accept_blocks_daemon:
  assumes "layer_ok L" "pkcs11_socket L \<noteq> - 1" "\<not> dispatchers_mutex L" "fd < 0"
  shows "\<exists>L'. gck_rpc_layer_accept starting fd calloc_ok create_ok tls L = Ret L' \<and>
    (\<forall>starting fd calloc_ok create_ok tls.
       gck_rpc_layer_accept starting fd calloc_ok create_ok tls L' = Hang)"
  using assms gck_rpc_layer_accept_spec [OF assms(1-3)]
  by (simp add: Let_def) (simp add: gck_rpc_layer_accept_def)

theorem failed_accept_blocks_daemon_witness:
  "\<exists>L'. gck_rpc_layer_accept (\<lambda>c. Ret c) (- 1) True True False sample_layer = Ret L' \<and>
     gck_rpc_layer_accept (\<lambda>c. Ret c) 8 True True False L' = Hang"
  using failed_accept_blocks_daemon [OF sample_layer_ok, of "- 1"] by (fastforce simp: sample_layer_def)



text \<open>
  C29: When another connection of the same application has ended but is still in the list of
  dispatchers, its messages are freed, and rpc_C_Finalize follows the dangling pointer.
\<close>

theorem finalize_use_after_free:
  assumes "pkcs11_module E = Some M" "C_CloseSession M = Some f"
    and "pkcs11_dispatchers s = d # ds" "req d = Freed" "appid d = appid s" "sock d \<noteq> sock s"
  shows "rpc_C_Finalize E s = Fault"
proof -
  obtain ret closed w where t: "close_in_turn f (handles (sessions s)) (world s) = (ret, closed, w)"
    by (metis prod.exhaust)
  obtain ss where "close_sessions (Some f) (sessions s) (world s) =
      (case close_in_turn f (handles (sessions s)) (world s) of (ret, closed, w') \<Rightarrow> Ret (ret, ss, w'))"
    using close_sessions_spec [of f "sessions s" "world s"] by metis
  then have "close_sessions (Some f) (sessions s) (world s) = Ret (ret, ss, w)" by (simp add: t)
  then show ?thesis using assms by (simp add: rpc_C_Finalize_def)
qed

theorem finalize_use_after_free_witness:
  "rpc_C_Finalize sample_env ((sample_dispatcher 2 [])
     \<lparr>pkcs11_dispatchers := [(new_call_state (- 1) SocketIo False)\<lparr>req := Freed, resp := Freed\<rparr>]\<rparr>) = Fault"
  by (rule finalize_use_after_free [where M = sample_module and ds = "[]" and
        d = "(new_call_state (- 1) SocketIo False)\<lparr>req := Freed, resp := Freed\<rparr>"])
    (simp_all add: new_call_state_def)

text \<open>
  C30: gck_rpc_mechanism_list_purge on a list with room for one more element behind it keeps
  exactly the mechanisms that can be forwarded (those without a parameter and those whose
  parameter is plain bytes), in their order, and returns their number.
\<close>

theorem purge_keeps_supported:
  assumes "unat n < length mechs" "unat n < 2 ^ 31"
  shows "\<exists>mechs' n'. gck_rpc_mechanism_list_purge (Some mechs) (Some n) = Ret (mechs', n') \<and>
    length mechs' = length mechs \<and> take (unat n') mechs' = filter gck_rpc_mechanism_is_supported (take (unat n) mechs)"
  using purge_loop_spec [OF assms, of 0] by (auto simp: gck_rpc_mechanism_list_purge_def)

theorem purge_keeps_supported_witness:
  "\<exists>mechs' n'. gck_rpc_mechanism_list_purge (Some [1, 0x1082, 3, 0]) (Some 3) = Ret (mechs', n') \<and>
     take (unat n') mechs' = [1, 3]"
  using purge_keeps_supported [of 3 "[1, 0x1082, 3, 0]"]
  by (auto simp: gck_rpc_mechanism_is_supported_def gck_rpc_mechanism_has_no_parameters_def
      gck_rpc_mechanism_has_sane_parameters_def)

text \<open>
  C31: On a list that fills its array, the first mechanism that cannot be forwarded makes the
  memmove of gck_rpc_mechanism_list_purge read one element behind the array.
\<close>

theorem purge_reads_past_end:
  assumes "unat n = length mechs" "unat n < 2 ^ 31" "j < unat n" "\<not> gck_rpc_mechanism_is_supported (mechs ! j)"
  shows "gck_rpc_mechanism_list_purge (Some mechs) (Some n) = Fault"
  using purge_loop_overrun [OF assms(1,2) le0 assms(3,4)] by (simp add: gck_rpc_mechanism_list_purge_def)

theorem purge_reads_past_end_witness: "gck_rpc_mechanism_list_purge (Some [1, 0x1082]) (Some 2) = Fault"
  by (rule purge_reads_past_end [where j = 1])
    (simp_all add: gck_rpc_mechanism_is_supported_def gck_rpc_mechanism_has_no_parameters_def
      gck_rpc_mechanism_has_sane_parameters_def)

text \<open>
  C32: gck_rpc_parse_host_port splits host:port at the first colon, and [address]:port at the
  closing bracket, so that an IPv6 address keeps its colons; a string without separator is a
  host without port.
\<close>

theorem host_port_parsed:
  assumes "CHR '':'' \<notin> set host" "take 1 host \<noteq> ''[''" "CHR '']'' \<notin> set addr"
  shows "gck_rpc_parse_host_port True (host @ '':'' @ port) = Some (host, Some port) \<and>
    gck_rpc_parse_host_port True (''['' @ addr @ '']:'' @ port) = Some (addr, Some port) \<and>
    gck_rpc_parse_host_port True host = Some (host, None)"
proof (intro conjI)
  have t: "takeWhile (\<lambda>x. x \<noteq> c) (xs @ c # ys) = xs" "dropWhile (\<lambda>x. x \<noteq> c) (xs @ c # ys) = c # ys"
    if "c \<notin> set xs" for c :: char and xs ys
    using that by (induction xs) auto
  have h: "take 1 (host @ '':'' @ port) \<noteq> ''[''" using assms(2) by (cases host) auto
  show "gck_rpc_parse_host_port True (host @ '':'' @ port) = Some (host, Some port)"
    using h t [OF assms(1)] by (simp add: gck_rpc_parse_host_port_def strchr_def Let_def)
  show "gck_rpc_parse_host_port True (''['' @ addr @ '']:'' @ port) = Some (addr, Some port)"
    using t [OF assms(3)] by (simp add: gck_rpc_parse_host_port_def strchr_def Let_def)
  show "gck_rpc_parse_host_port True host = Some (host, None)"
    using assms by (simp add: gck_rpc_parse_host_port_def strchr_def Let_def)
qed

theorem host_port_parsed_witness:
  "gck_rpc_parse_host_port True ''localhost:2345'' = Some (''localhost'', Some ''2345'') \<and>
   gck_rpc_parse_host_port True ''[::1]:2345'' = Some (''::1'', Some ''2345'')"
  using host_port_parsed [of "''localhost''" "''::1''" "''2345''"] by simp



text \<open>
  C34: A daemon that answers a request with a message of length zero stops the application:
  call_run of the client module ends in the failed assertion len > 0 of call_read.
\<close>

theorem empty_reply_aborts:
  assumes "asking i [] args cs" "cl_resp cs = Some r" "allocated_len (buffer r) > 0"
    and "accepts (sends (cl_net cs)) [4, length (request_bytes i args)]"
    and "incoming (input (cl_net cs)) = frame [] @ left"
  shows "call_run E cs = Abort"
  using assms by (rule call_run_empty)

theorem empty_reply_aborts_witness: "call_run sample_client_env (sample_asking [RecvData [0, 0, 0, 0]]) = Abort"
proof (rule empty_reply_aborts [OF sample_asking, where left = "[]" and r = sample_empty_message])
  have "length (request_bytes GCK_RPC_CALL_C_Finalize []) < 128"
    using header_length [of GCK_RPC_CALL_C_Finalize GCK_RPC_REQUEST] by (simp add: request_bytes_def)
  then show "accepts (sends (cl_net (sample_asking [RecvData [0, 0, 0, 0]]))) [4, length (request_bytes GCK_RPC_CALL_C_Finalize [])]"
    using sample_accepts [of "[4, length (request_bytes GCK_RPC_CALL_C_Finalize [])]"]
    by (simp add: sample_asking_def sample_idle_call_def del: accepts.simps)
qed (simp_all add: sample_asking_def sample_idle_call_def sample_empty_message_def sample_net_def frame_def
    empty_buffer_def egg_buffer_encode_uint32_def)

text \<open>
  C35: parse_arguments on words separated by single spaces sets the variables word by word, name
  from value at the first colon or equals sign. The last word is not terminated, so that as many
  characters of the end of the string as there are separators are appended to it.
\<close>

theorem arguments_split:
  assumes "list_all word_ok ws" "word_ok w" "S = concat (map (\<lambda>v. v @ '' '') ws) @ w"
  shows "parse_arguments True (Some S) C = set_arguments (ws @ [w @ drop (length S - length ws) S]) C"
  using assms by (rule parse_arguments_words)

theorem arguments_split_witness:
  "\<exists>C. parse_arguments True (Some ''socket=/run/p11 tls_psk_file=/etc/psk'') client_start = Ret C \<and>
     client_socket_path C = ''/run/p11'' \<and> tls_psk_key_filename C = ''/etc/pskk''"
proof -
  have ok: "list_all word_ok [''socket=/run/p11'']" "word_ok ''tls_psk_file=/etc/psk''"
    by (simp_all add: plain_def isspace_def)
  show ?thesis
    by (simp add: arguments_split [OF ok refl, simplified] argument_set_def set_argument_def copy_path_def)
qed

text \<open>
  C36: tls_psk_decode_key accepts exactly the keys that are the hexadecimal digits (of either
  case) of at most max_psk_len bytes: for such a key it stores the bytes, fills the rest with
  zeros and returns their number, for any other it returns 0. It always returns and never writes
  behind the max_psk_len bytes.
\<close>

theorem psk_key_decoded:
  assumes "max_psk_len \<le> length psk"
  shows "\<exists>n psk'. tls_psk_decode_key key psk max_psk_len = Ret (n, psk') \<and>
    length psk' = length psk \<and> drop max_psk_len psk' = drop max_psk_len psk \<and>
    (\<forall>bs. map lower key = hex_of bs \<and> length bs \<le> max_psk_len \<longrightarrow>
       n = length bs \<and> psk' = bs @ replicate (max_psk_len - length bs) 0 @ drop max_psk_len psk) \<and>
    ((\<nexists>bs. map lower key = hex_of bs \<and> length bs \<le> max_psk_len) \<longrightarrow> n = 0)"
proof (cases "\<exists>bs. key_bytes key max_psk_len bs")
  case True
  then obtain bs where bs: "key_bytes key max_psk_len bs" by blast
  have "key_bytes key max_psk_len bs' \<Longrightarrow> bs' = bs" for bs'
    using tls_psk_decode_key_bytes [OF bs assms] tls_psk_decode_key_bytes [OF _ assms, of key bs']
    by simp (metis append_eq_append_conv)
  then show ?thesis
    using tls_psk_decode_key_bytes [OF bs assms] bs assms by (fastforce simp: key_bytes_def)
next
  case False
  then show ?thesis
    using tls_psk_decode_key_none [OF False assms] by (fastforce simp: key_bytes_def within_def)
qed

theorem psk_key_decoded_witness: "tls_psk_decode_key ''0aFf'' [7, 7, 7, 7] 3 = Ret (2, [10, 255, 0, 7])"
proof -
  have "map lower ''0aFf'' = hex_of [10, 255]"
    by (simp add: lower_def hex_of_def hex_digits_def char_of_def bit_numeral_rec bit_Suc_0_iff)
  moreover obtain n psk where "tls_psk_decode_key ''0aFf'' [7, 7, 7, 7] 3 = Ret (n, psk)"
      "\<forall>bs. map lower ''0aFf'' = hex_of bs \<and> length bs \<le> 3 \<longrightarrow>
         n = length bs \<and> psk = bs @ replicate (3 - length bs) 0 @ drop 3 [7, 7, 7, 7]"
    using psk_key_decoded [of 3 "[7, 7, 7, 7]" "''0aFf''"] by auto
  ultimately show ?thesis by (auto dest!: spec [of _ "[10, 255]"])
qed

text \<open>
  C37: The callback of the daemon reads the key file as a finite map: on a file written from a
  list of identities and keys it finds, for every identity, the key of its first entry, and
  nothing for an identity that is not in the list. A key that does not fit is refused.
\<close>

theorem psk_found:
  assumes "list_all entry_ok es" "files (psk_key_filename G) = Some (map Some (key_file es))"
    and "length line = 1024" "identity \<noteq> []" "max_psk_len \<le> length psk"
  shows "case map_of es identity of
      None \<Rightarrow> tls_psk_server_cb files G line (Some identity) psk max_psk_len = Ret (0, psk)
    | Some key \<Rightarrow>
        if length key \<le> max_psk_len
        then tls_psk_server_cb files G line (Some identity) psk max_psk_len =
          Ret (length key, key @ replicate (max_psk_len - length key) 0 @ drop max_psk_len psk)
        else \<exists>psk'. tls_psk_server_cb files G line (Some identity) psk max_psk_len = Ret (0, psk')"
proof -
  note cb = tls_psk_server_cb_lookup [of files G, OF assms(2,3), of "Some identity" psk max_psk_len,
      unfolded key_lookup_file [OF assms(1,4)]]
  show ?thesis
  proof (cases "map_of es identity")
    case (Some key)
    show ?thesis
    proof (cases "length key \<le> max_psk_len")
      case True
      then show ?thesis
        using tls_psk_decode_key_bytes [OF _ assms(5), of "hex_of key" key] by (simp add: cb Some key_bytes_hex_of)
    next
      case False
      have "\<not> key_bytes (hex_of key) max_psk_len bs" for bs
      proof
        assume "key_bytes (hex_of key) max_psk_len bs"
        then have "length (hex_of key) = length (hex_of bs)" "length bs \<le> max_psk_len" by (simp_all add: key_bytes_def)
        then show False using False by (simp add: length_hex_of)
      qed
      then show ?thesis
        using tls_psk_decode_key_none [OF _ assms(5), of "hex_of key"] False by (auto simp: cb Some)
    qed
  qed (simp add: cb)
qed

theorem psk_found_witness:
  "tls_psk_server_cb (\<lambda>_. Some (map Some (key_file [(''alice'', [1, 2]), (''bob'', [171])])))
     \<lparr>psk_identity = [], psk_key_filename = ''/etc/psk''\<rparr> (replicate 1024 NUL) (Some ''bob'') [0, 0, 9] 2 =
   Ret (1, [171, 0, 9])"
proof -
  have "list_all entry_ok [(''alice'', [1, 2]), (''bob'', [171])]"
    by (simp add: entry_ok_def key_line_def)
  from psk_found [OF this, where files = "\<lambda>_. Some (map Some (key_file [(''alice'', [1, 2]), (''bob'', [171])]))"
      and G = "\<lparr>psk_identity = [], psk_key_filename = ''/etc/psk''\<rparr>" and line = "replicate 1024 NUL"
      and identity = "''bob''" and psk = "[0, 0, 9]" and max_psk_len = 2]
  show ?thesis by (simp add: numeral_eq_Suc)
qed



text \<open>
  C39: The two system call filters together: the main thread may accept on the listening socket
  only; a dispatcher thread may not accept at all nor create threads, and is left with exactly
  the calls of its own list, except that recvfrom is taken away by the first filter unless the
  socket path starts with tcp://, although the thread reads with recv also on a Unix socket.
\<close>

theorem thread_filter:
  assumes "sc_built sc" "\<And>r. sc_add sc r"
    and "install_syscall_filter sc fd path [] = (0, fs1)" "install_dispatch_syscall_filter sc with_tls fs1 = (0, fs2)"
  shows "(permitted fs1 Sys_accept args \<longleftrightarrow> fd \<noteq> 0 \<and> args 0 = fd) \<and>
    \<not> permitted fs2 Sys_accept args \<and> \<not> permitted fs2 Sys_clone args \<and>
    (permitted fs2 Sys_recvfrom args \<longleftrightarrow> take 6 path = ''tcp://'') \<and>
    (call \<noteq> Sys_recvfrom \<longrightarrow> permitted fs2 call args = allows (dispatch_rules (sc_debug sc) with_tls) call args)"
proof -
  have f: "fs1 = [daemon_rules (sc_debug sc) fd path]" "fs2 = dispatch_rules (sc_debug sc) with_tls # fs1"
    using assms by (auto simp: install_syscall_filter_def install_dispatch_syscall_filter_def filter_True split: if_splits)
  have "\<not> allows (dispatch_rules (sc_debug sc) with_tls) Sys_accept args"
    "\<not> allows (dispatch_rules (sc_debug sc) with_tls) Sys_clone args"
    "allows (dispatch_rules (sc_debug sc) with_tls) Sys_recvfrom args"
    by (simp_all add: dispatch_rules_def softhsm_rules_def)
  then show ?thesis
    using dispatch_subset [of "sc_debug sc" with_tls call args fd path]
    by (auto simp: f permitted_def daemon_accept daemon_recvfrom)
qed

theorem thread_filter_witness:
  "\<not> permitted (snd (install_dispatch_syscall_filter sample_seccomp False
      (snd (install_syscall_filter sample_seccomp 6 ''/run/p11'' [])))) Sys_recvfrom (\<lambda>_. 0)"
  using thread_filter [of sample_seccomp 6 "''/run/p11''"
      "snd (install_syscall_filter sample_seccomp 6 ''/run/p11'' [])" False
      "snd (install_dispatch_syscall_filter sample_seccomp False
         (snd (install_syscall_filter sample_seccomp 6 ''/run/p11'' [])))" "\<lambda>_. 0" Sys_read]
  by (simp add: sample_seccomp_def install_syscall_filter_def install_dispatch_syscall_filter_def)



end
